(* ===== verification/Prelude.thy ===== *)
theory Prelude
  imports Main "HOL-Library.Product_Lexorder" "HOL-Library.Sublist"
begin

text \<open>
  Shared vocabulary of the development.

  \<^item> Scalars: \<open>money\<close> is a \<open>Decimal\<close> with two places, as an integer number of
    hundredths; \<open>time\<close> is a reading of \<open>timezone.now()\<close>; \<open>uuid\<close> is a primary key.
  \<^item> Exceptions: \<open>exn\<close> has one constructor per exception class that the modelled code
    raises or catches.
  \<^item> Effects: a handler is a state-and-exception computation \<open>('s, 'a) pm\<close>. An exception
    keeps the state it was raised in, \<open>catch\<close> is Python's \<open>try/except\<close>, \<open>atomic\<close> is
    \<open>transaction.atomic()\<close> (an exception rolls the database back) and \<open>request\<close> is the
    transaction that \<open>ATOMIC_REQUESTS\<close> wraps around a view.
  \<^item> Tables: a table is the list of its rows, newest first; \<open>row_get\<close> is
    \<open>filter(pk=...).first()\<close> and \<open>row_update\<close> is a \<open>save(update_fields=...)\<close>.
  \<^item> Proof rules: \<open>wpx\<close> computes weakest preconditions with a postcondition for the
    exceptional exit, and the locale \<open>state_relation\<close> carries a reflexive and transitive
    relation on states (an invariant, a frame, append-only growth) through the combinators.
\<close>

named_theorems wp_rules \<open>weakest-precondition equations of the combinators and operations\<close>
named_theorems upholds_rules \<open>operations that keep a state relation\<close>
named_theorems table_rules \<open>lookups after updates of a table\<close>

subsection \<open>Scalars\<close>

type_synonym money = int
type_synonym time = int

datatype uuid = Uuid (uuid_no: nat)

instantiation uuid :: linorder
begin

definition less_eq_uuid :: "uuid \<Rightarrow> uuid \<Rightarrow> bool" where
  "less_eq_uuid a b \<longleftrightarrow> uuid_no a \<le> uuid_no b"

definition less_uuid :: "uuid \<Rightarrow> uuid \<Rightarrow> bool" where
  "less_uuid a b \<longleftrightarrow> uuid_no a < uuid_no b"

instance
  by standard (auto simp: less_eq_uuid_def less_uuid_def intro: uuid.expand)

end

lemma uuid_le_iff [simp]: "Uuid m \<le> Uuid n \<longleftrightarrow> m \<le> n"
  by (simp add: less_eq_uuid_def)

lemma uuid_less_iff [simp]: "Uuid m < Uuid n \<longleftrightarrow> m < n"
  by (simp add: less_uuid_def)

text \<open>Values of a JSON column, a webhook payload or an audit payload.\<close>

datatype json =
    JNull
  | JBool bool
  | JInt int
  | JStr string
  | JList "json list"
  | JObj "(string \<times> json) list"

subsection \<open>Exceptions\<close>

datatype exn =
    ValidationError string
  | IntegrityError string
  | DoesNotExist string
  | TransactionManagementError
  | ProviderError string
  | ProviderTimeoutError string
  | InvalidCallbackSignatureError string
  | KeyError string
  | ValueError string
  | TypeError string
  | FieldError string
  | PermissionDenied string
  | Http404
  | AuthenticationFailed string
  | NotAuthenticated
  | Throttled
  | InvalidInput "string list"
  | LedgerEntryImmutableError string
  | RevenueEventImmutableError string
  | AuditLogImmutableError string
  | CacheError
  | RequestException string
  | RetryTask int
  | OtherError string

text \<open>
  \<open>ProviderTimeoutError\<close> and \<open>InvalidCallbackSignatureError\<close> are subclasses of
  \<open>ProviderError\<close>, so an \<open>except ProviderError\<close> clause catches all three.
\<close>

fun is_provider_error :: "exn \<Rightarrow> bool" where
  "is_provider_error (ProviderError _) = True"
| "is_provider_error (ProviderTimeoutError _) = True"
| "is_provider_error (InvalidCallbackSignatureError _) = True"
| "is_provider_error _ = False"

fun is_integrity_error :: "exn \<Rightarrow> bool" where
  "is_integrity_error (IntegrityError _) = True"
| "is_integrity_error _ = False"

text \<open>\<open>str(exc)\<close> of the exceptions whose text the code stores.\<close>

fun exn_text :: "exn \<Rightarrow> string" where
  "exn_text (ValidationError m) = m"
| "exn_text (IntegrityError m) = m"
| "exn_text (ProviderError m) = m"
| "exn_text (ProviderTimeoutError m) = m"
| "exn_text (InvalidCallbackSignatureError m) = m"
| "exn_text (RequestException m) = m"
| "exn_text (OtherError m) = m"
| "exn_text _ = ''''"

subsection \<open>The world outside the tables\<close>

text \<open>The models that a generic foreign key of the code can point at.\<close>

datatype model =
    MUser | MTenant | MTenantMembership | MCustomer | MCustomerAccount | MBill | MControlNumber
  | MPayment | MPaymentCallbackEvent | MSettlementBatch | MReconciliationException
  | MMFADevice | MBackupCode | MApiCredential

datatype task = DeliverWebhook uuid | DeliverNotification uuid

text \<open>
  The part of the state every component shares: how often the clock and the random source
  have been read (never rolled back), whether a database error has broken the open
  transaction, the callbacks registered with \<open>transaction.on_commit\<close>, and the tasks the
  broker has received.
\<close>

record world =
  clock_reads :: nat
  draws :: nat
  tx_broken :: bool
  on_commit :: "task list"
  broker :: "task list"

text \<open>
  What a request reads from outside the program: the clock, the random sources, number and
  date formatting, the keyed and plain hashes, and the request context (correlation id, IP
  address, user agent). It is an argument of every definition that uses it.
\<close>

record env =
  e_now :: "nat \<Rightarrow> time"
  e_hex :: "nat \<Rightarrow> string"
  e_randint :: "nat \<Rightarrow> nat"
  e_ymd :: "time \<Rightarrow> string"
  e_yymmdd :: "time \<Rightarrow> string"
  e_isoformat :: "time \<Rightarrow> string"
  e_str_dec :: "money \<Rightarrow> string"
  e_str_uuid :: "uuid \<Rightarrow> string"
  e_uuid_rank :: "uuid \<Rightarrow> nat"
  e_sha256 :: "string \<Rightarrow> string"
  e_hmac :: "string \<Rightarrow> string \<Rightarrow> string"
  e_lookup_key :: string
  e_json_dumps :: "json \<Rightarrow> string"
  e_json_compact :: "json \<Rightarrow> string"
  e_json_loads :: "string \<Rightarrow> json option"
  e_unix :: "time \<Rightarrow> string"
  e_format_field :: "string \<Rightarrow> (string \<Rightarrow> string) \<Rightarrow> exn + string"
  e_content_type_id :: "model \<Rightarrow> int"
  e_correlation_id :: string
  e_ip_address :: "string option"
  e_user_agent :: string

text \<open>
  A concrete environment, at which properties with hypotheses are instantiated: a clock that
  ticks by one, the identity for the hashes, and plain text for the formatters.
\<close>

fun example_json :: "json \<Rightarrow> string" where
  "example_json JNull = ''null''"
| "example_json (JBool b) = (if b then ''true'' else ''false'')"
| "example_json (JInt i) = (if i < 0 then ''-'' else []) @ replicate (nat (abs i)) (CHR ''1'')"
| "example_json (JStr s) = s"
| "example_json (JList js) = concat (map example_json js)"
| "example_json (JObj kvs) = concat (map (\<lambda>kv. fst kv @ '':'' @ example_json (snd kv)) kvs)"

text \<open>A reader for texts of the form \<open>event:reference:outcome\<close>, enough for the examples.\<close>

definition example_loads :: "string \<Rightarrow> json option" where
  "example_loads t =
     (let field = takeWhile (\<lambda>c. c \<noteq> CHR '':''); rest = (\<lambda>x. tl (dropWhile (\<lambda>c. c \<noteq> CHR '':'') x))
      in if t = [] then None
         else Some (JObj [(''event_id'', JStr (field t)),
           (''provider_reference'', JStr (field (rest t))), (''outcome'', JStr (rest (rest t)))]))"

definition example_env :: env where
  "example_env =
     \<lparr>e_now = int, e_hex = (\<lambda>n. replicate 40 (if even n then CHR ''a'' else CHR ''b'')),
      e_randint = (\<lambda>n. n), e_ymd = (\<lambda>_. ''20260101''), e_yymmdd = (\<lambda>_. ''260101''),
      e_isoformat = (\<lambda>t. replicate (nat t) (CHR ''1'')), e_str_dec = (\<lambda>_. ''0.00''),
      e_str_uuid = (\<lambda>i. replicate (uuid_no i) (CHR ''1'')), e_uuid_rank = uuid_no,
      e_sha256 = (\<lambda>s. s), e_hmac = (\<lambda>k m. k @ m), e_lookup_key = ''key'',
      e_json_dumps = example_json, e_json_compact = example_json,
      e_json_loads = example_loads,
      e_unix = (\<lambda>t. replicate (nat t) (CHR ''1'')), e_format_field = (\<lambda>_ _. Inr []), e_content_type_id = (\<lambda>_. 1),
      e_correlation_id = ''c'', e_ip_address = None, e_user_agent = []\<rparr>"

lemma e_now_example [simp]: "e_now example_env = int"
  by (simp add: example_env_def)

subsection \<open>Computations\<close>

type_synonym ('s, 'a) pm = "'s \<Rightarrow> (exn + 'a) \<times> 's"

definition ret :: "'a \<Rightarrow> ('s, 'a) pm" where
  "ret x = (\<lambda>s. (Inr x, s))"

definition raise :: "exn \<Rightarrow> ('s, 'a) pm" where
  "raise e = (\<lambda>s. (Inl e, s))"

definition mbind :: "('s, 'a) pm \<Rightarrow> ('a \<Rightarrow> ('s, 'b) pm) \<Rightarrow> ('s, 'b) pm" where
  "mbind m f = (\<lambda>s. case m s of (Inl e, t) \<Rightarrow> (Inl e, t) | (Inr x, t) \<Rightarrow> f x t)"

definition mseq :: "('s, 'a) pm \<Rightarrow> ('s, 'b) pm \<Rightarrow> ('s, 'b) pm" where
  "mseq m k = mbind m (\<lambda>_. k)"

definition gets :: "('s \<Rightarrow> 'a) \<Rightarrow> ('s, 'a) pm" where
  "gets f = (\<lambda>s. (Inr (f s), s))"

definition modify :: "('s \<Rightarrow> 's) \<Rightarrow> ('s, unit) pm" where
  "modify f = (\<lambda>s. (Inr (), f s))"

definition catch :: "('s, 'a) pm \<Rightarrow> (exn \<Rightarrow> ('s, 'a) pm) \<Rightarrow> ('s, 'a) pm" where
  "catch m h = (\<lambda>s. case m s of (Inl e, t) \<Rightarrow> h e t | (Inr x, t) \<Rightarrow> (Inr x, t))"

definition mwhen :: "bool \<Rightarrow> ('s, unit) pm \<Rightarrow> ('s, unit) pm" where
  "mwhen b m = (if b then m else ret ())"

fun for_each :: "'b list \<Rightarrow> ('b \<Rightarrow> ('s, unit) pm) \<Rightarrow> ('s, unit) pm" where
  "for_each [] f = ret ()"
| "for_each (x # xs) f = mseq (f x) (for_each xs f)"

text \<open>Look a value up or raise: \<open>.get(...)\<close>, \<open>get_object_or_404(...)\<close>.\<close>

definition require :: "exn \<Rightarrow> ('s \<Rightarrow> 'a option) \<Rightarrow> ('s, 'a) pm" where
  "require e f = (\<lambda>s. case f s of None \<Rightarrow> (Inl e, s) | Some x \<Rightarrow> (Inr x, s))"

text \<open>
  \<open>transaction.atomic()\<close>: on an exception the database goes back to where the block began,
  registered callbacks included; time and randomness do not.
\<close>

definition rollback :: "'z world_scheme \<Rightarrow> 'z world_scheme \<Rightarrow> 'z world_scheme" where
  "rollback s t = s\<lparr>clock_reads := clock_reads t, draws := draws t\<rparr>"

definition atomic :: "('z world_scheme, 'a) pm \<Rightarrow> ('z world_scheme, 'a) pm" where
  "atomic m = (\<lambda>s. case m s of (Inl e, t) \<Rightarrow> (Inl e, rollback s t) | (Inr x, t) \<Rightarrow> (Inr x, t))"

text \<open>
  A view under \<open>ATOMIC_REQUESTS\<close>: an exception that leaves the view rolls everything back;
  otherwise the transaction commits and the registered callbacks hand their tasks to the
  broker.
\<close>

definition commit :: "'z world_scheme \<Rightarrow> 'z world_scheme" where
  "commit s = s\<lparr>tx_broken := False, on_commit := [], broker := broker s @ on_commit s\<rparr>"

definition request :: "('z world_scheme, 'a) pm \<Rightarrow> ('z world_scheme, 'a) pm" where
  "request m = (\<lambda>s. case atomic m s of (Inl e, t) \<Rightarrow> (Inl e, t) | (Inr x, t) \<Rightarrow> (Inr x, commit t))"

text \<open>
  An \<open>INSERT\<close> or \<open>UPDATE\<close> that violates a constraint raises \<open>IntegrityError\<close> and leaves
  the transaction unusable until a savepoint or the whole transaction is rolled back: a
  query issued before that raises \<open>TransactionManagementError\<close>.
\<close>

definition integrity_error :: "string \<Rightarrow> ('z world_scheme, 'a) pm" where
  "integrity_error m = mseq (modify (\<lambda>s. s\<lparr>tx_broken := True\<rparr>)) (raise (IntegrityError m))"

definition db_guard :: "('z world_scheme, 'a) pm \<Rightarrow> ('z world_scheme, 'a) pm" where
  "db_guard m = mbind (gets tx_broken) (\<lambda>b. if b then raise TransactionManagementError else m)"

definition now :: "env \<Rightarrow> ('z world_scheme, time) pm" where
  "now E = mbind (gets clock_reads) (\<lambda>n.
     mseq (modify (\<lambda>s. s\<lparr>clock_reads := Suc n\<rparr>)) (ret (e_now E n)))"

definition draw :: "('z world_scheme, nat) pm" where
  "draw = mbind (gets draws) (\<lambda>n. mseq (modify (\<lambda>s. s\<lparr>draws := Suc n\<rparr>)) (ret n))"

definition fresh_uuid :: "('z world_scheme, uuid) pm" where
  "fresh_uuid = mbind draw (\<lambda>n. ret (Uuid n))"

definition on_commit_do :: "task \<Rightarrow> ('z world_scheme, unit) pm" where
  "on_commit_do t = modify (\<lambda>s. s\<lparr>on_commit := on_commit s @ [t]\<rparr>)"

subsection \<open>Tables\<close>

definition row_get :: "('r \<Rightarrow> 'k) \<Rightarrow> 'k \<Rightarrow> 'r list \<Rightarrow> 'r option" where
  "row_get key k tbl = List.find (\<lambda>r. key r = k) tbl"

definition row_update :: "('r \<Rightarrow> 'k) \<Rightarrow> 'k \<Rightarrow> ('r \<Rightarrow> 'r) \<Rightarrow> 'r list \<Rightarrow> 'r list" where
  "row_update key k f tbl = map (\<lambda>r. if key r = k then f r else r) tbl"

lemma row_get_Nil [simp, table_rules]: "row_get key k [] = None"
  by (simp add: row_get_def)

lemma row_get_Cons [simp, table_rules]:
  "row_get key k (r # tbl) = (if key r = k then Some r else row_get key k tbl)"
  by (simp add: row_get_def)

lemma row_get_SomeD: "row_get key k tbl = Some r \<Longrightarrow> r \<in> set tbl \<and> key r = k"
  by (induction tbl) (auto split: if_splits)

lemma row_get_None_iff: "row_get key k tbl = None \<longleftrightarrow> (\<forall>r \<in> set tbl. key r \<noteq> k)"
  by (induction tbl) auto

lemma row_get_update_same [table_rules]:
  assumes "\<And>r. key (f r) = key r"
  shows "row_get key k (row_update key k f tbl) = map_option f (row_get key k tbl)"
  by (induction tbl) (auto simp: row_update_def assms)

lemma row_get_update_other [table_rules]:
  assumes "\<And>r. key (f r) = key r" and "k \<noteq> j"
  shows "row_get key k (row_update key j f tbl) = row_get key k tbl"
  using assms(2) by (induction tbl) (auto simp: row_update_def assms(1))

lemma row_update_Nil [simp, table_rules]: "row_update key k f [] = []"
  by (simp add: row_update_def)

lemma row_update_Cons [simp, table_rules]:
  "row_update key k f (r # tbl) = (if key r = k then f r else r) # row_update key k f tbl"
  by (simp add: row_update_def)

lemma row_get_save:
  assumes "row_get key i tbl = Some q" and "key d = i"
  shows "row_get key i (row_update key i (\<lambda>_. d) tbl) = Some d"
  using assms by (induction tbl) (auto split: if_splits)

lemma row_update_overwrite:
  assumes "key d = i"
  shows "row_update key i (\<lambda>_. d') (row_update key i (\<lambda>_. d) tbl) = row_update key i (\<lambda>_. d') tbl"
  using assms by (auto simp: row_update_def)

lemma map_row_update:
  assumes "\<And>r. key r = k \<Longrightarrow> g (f r) = g r"
  shows "map g (row_update key k f tbl) = map g tbl"
  by (auto simp: row_update_def assms)

lemma length_row_update [simp]: "length (row_update key k f tbl) = length tbl"
  by (simp add: row_update_def)

lemma in_row_update:
  "r \<in> set (row_update key k f tbl) \<longleftrightarrow>
     (\<exists>q \<in> set tbl. r = (if key q = k then f q else q))"
  unfolding row_update_def by (simp only: set_map image_iff)

lemma row_update_twice:
  assumes "\<And>r. key (f r) = key r"
  shows "row_update key k g (row_update key k f tbl) = row_update key k (g \<circ> f) tbl"
  by (auto simp: row_update_def assms)

lemma find_Some_D: "List.find P xs = Some x \<Longrightarrow> x \<in> set xs \<and> P x"
  by (induction xs) (auto split: if_splits)

lemma find_None_iff_all: "List.find P xs = None \<longleftrightarrow> (\<forall>x \<in> set xs. \<not> P x)"
  by (induction xs) auto

subsection \<open>Weakest preconditions\<close>

definition wpx :: "('s, 'a) pm \<Rightarrow> ('a \<Rightarrow> 's \<Rightarrow> bool) \<Rightarrow> (exn \<Rightarrow> 's \<Rightarrow> bool) \<Rightarrow> 's \<Rightarrow> bool" where
  "wpx m Q X s = (case m s of (Inl e, t) \<Rightarrow> X e t | (Inr x, t) \<Rightarrow> Q x t)"

text \<open>Total correctness: the computation returns, and its result satisfies \<open>Q\<close>.\<close>

abbreviation succeeds :: "('s, 'a) pm \<Rightarrow> ('a \<Rightarrow> 's \<Rightarrow> bool) \<Rightarrow> 's \<Rightarrow> bool" where
  "succeeds m Q s \<equiv> wpx m Q (\<lambda>_ _. False) s"

lemma wpx_ret [simp, wp_rules]: "wpx (ret x) Q X s = Q x s"
  by (simp add: wpx_def ret_def)

lemma wpx_raise [simp, wp_rules]: "wpx (raise e) Q X s = X e s"
  by (simp add: wpx_def raise_def)

lemma wpx_mbind [simp, wp_rules]:
  "wpx (mbind m f) Q X s = wpx m (\<lambda>x. wpx (f x) Q X) X s"
  by (simp add: wpx_def mbind_def split: prod.splits sum.splits)

lemma wpx_mseq [simp, wp_rules]: "wpx (mseq m k) Q X s = wpx m (\<lambda>_. wpx k Q X) X s"
  by (simp add: mseq_def)

lemma wpx_gets [simp, wp_rules]: "wpx (gets f) Q X s = Q (f s) s"
  by (simp add: wpx_def gets_def)

lemma wpx_modify [simp, wp_rules]: "wpx (modify f) Q X s = Q () (f s)"
  by (simp add: wpx_def modify_def)

lemma wpx_catch [simp, wp_rules]:
  "wpx (catch m h) Q X s = wpx m Q (\<lambda>e. wpx (h e) Q X) s"
  by (simp add: wpx_def catch_def split: prod.splits sum.splits)

lemma wpx_mwhen [simp, wp_rules]: "wpx (mwhen b m) Q X s = (if b then wpx m Q X s else Q () s)"
  by (simp add: mwhen_def)

lemma wpx_require [simp, wp_rules]:
  "wpx (require e f) Q X s = (case f s of None \<Rightarrow> X e s | Some x \<Rightarrow> Q x s)"
  by (simp add: wpx_def require_def split: option.splits)

lemma wpx_atomic [simp, wp_rules]:
  "wpx (atomic m) Q X s = wpx m Q (\<lambda>e t. X e (rollback s t)) s"
  by (simp add: wpx_def atomic_def split: prod.splits sum.splits)

lemma wpx_request [simp, wp_rules]:
  "wpx (request m) Q X s =
     wpx m (\<lambda>x t. Q x (commit t)) (\<lambda>e t. X e (rollback s t)) s"
  by (simp add: wpx_def request_def atomic_def split: prod.splits sum.splits)

lemma wpx_integrity_error [simp, wp_rules]:
  "wpx (integrity_error m) Q X s = X (IntegrityError m) (s\<lparr>tx_broken := True\<rparr>)"
  by (simp add: integrity_error_def)

lemma wpx_db_guard [simp, wp_rules]:
  "wpx (db_guard m) Q X s =
     (if tx_broken s then X TransactionManagementError s else wpx m Q X s)"
  by (simp add: db_guard_def)

lemma wpx_now [simp, wp_rules]:
  "wpx (now E) Q X s = Q (e_now E (clock_reads s)) (s\<lparr>clock_reads := Suc (clock_reads s)\<rparr>)"
  by (simp add: now_def)

lemma wpx_draw [simp, wp_rules]:
  "wpx draw Q X s = Q (draws s) (s\<lparr>draws := Suc (draws s)\<rparr>)"
  by (simp add: draw_def)

lemma wpx_fresh_uuid [simp, wp_rules]:
  "wpx fresh_uuid Q X s = Q (Uuid (draws s)) (s\<lparr>draws := Suc (draws s)\<rparr>)"
  by (simp add: fresh_uuid_def)

lemma wpx_on_commit_do [simp, wp_rules]:
  "wpx (on_commit_do t) Q X s = Q () (s\<lparr>on_commit := on_commit s @ [t]\<rparr>)"
  by (simp add: on_commit_do_def)

text \<open>The same equations between predicates, for use under another computation.\<close>

lemma wpx_eta:
  "wpx (ret x) Q X = Q x"
  "wpx (mbind m f) Q X = wpx m (\<lambda>x. wpx (f x) Q X) X"
  "wpx (mseq m k) Q X = wpx m (\<lambda>_. wpx k Q X) X"
  by (simp_all add: fun_eq_iff)

lemma wpx_mono:
  assumes "wpx m Q X s"
    and "\<And>x t. Q x t \<Longrightarrow> Q' x t" and "\<And>e t. X e t \<Longrightarrow> X' e t"
  shows "wpx m Q' X' s"
  using assms by (auto simp: wpx_def split: prod.splits sum.splits)

lemma wpx_conj:
  assumes "wpx m Q X s" and "wpx m Q' X' s"
  shows "wpx m (\<lambda>x t. Q x t \<and> Q' x t) (\<lambda>e t. X e t \<and> X' e t) s"
  using assms by (auto simp: wpx_def split: prod.splits sum.splits)

lemma succeeds_iff: "succeeds m Q s \<longleftrightarrow> (\<exists>x t. m s = (Inr x, t) \<and> Q x t)"
  by (auto simp: wpx_def split: prod.splits sum.splits)

lemma succeedsE:
  assumes "succeeds m Q s"
  obtains x t where "m s = (Inr x, t)" and "Q x t"
  using assms by (auto simp: succeeds_iff)

lemma wpx_result:
  "wpx m Q X s \<Longrightarrow> m s = (Inr x, t) \<Longrightarrow> Q x t"
  "wpx m Q X s \<Longrightarrow> m s = (Inl e, t) \<Longrightarrow> X e t"
  by (auto simp: wpx_def)

subsection \<open>Relations every computation keeps\<close>

definition upholds :: "('s \<Rightarrow> 's \<Rightarrow> bool) \<Rightarrow> ('s, 'a) pm \<Rightarrow> bool" where
  "upholds R m \<longleftrightarrow> (\<forall>s. R s (snd (m s)))"

lemma upholdsI: "(\<And>s. wpx m (\<lambda>_. R s) (\<lambda>_. R s) s) \<Longrightarrow> upholds R m"
proof -
  assume *: "\<And>s. wpx m (\<lambda>_. R s) (\<lambda>_. R s) s"
  have "R s (snd (m s))" for s
    using * [of s] by (cases "m s"; cases "fst (m s)") (simp_all add: wpx_def)
  then show ?thesis
    by (simp add: upholds_def)
qed

lemma upholdsD: "upholds R m \<Longrightarrow> m s = (r, t) \<Longrightarrow> R s t"
  by (auto simp: upholds_def dest: spec [of _ s])

lemma upholds_wpx: "upholds R m \<Longrightarrow> wpx m (\<lambda>_. R s) (\<lambda>_. R s) s"
  by (auto simp: wpx_def dest: upholdsD split: prod.splits sum.splits)

lemma run_wpx: "m s = r \<longleftrightarrow> wpx m (\<lambda>x t. r = (Inr x, t)) (\<lambda>e t. r = (Inl e, t)) s"
  by (cases "m s"; cases "fst (m s)") (auto simp: wpx_def)

lemma upholds_if [upholds_rules]:
  "(b \<Longrightarrow> upholds R m) \<Longrightarrow> (\<not> b \<Longrightarrow> upholds R k) \<Longrightarrow> upholds R (if b then m else k)"
  by simp

lemma upholds_case_option [upholds_rules]:
  "upholds R m \<Longrightarrow> (\<And>x. upholds R (f x)) \<Longrightarrow>
   upholds R (case y of None \<Rightarrow> m | Some x \<Rightarrow> f x)"
  by (cases y) auto

lemma upholds_case_sum [upholds_rules]:
  "(\<And>x. upholds R (f x)) \<Longrightarrow> (\<And>x. upholds R (g x)) \<Longrightarrow>
   upholds R (case y of Inl x \<Rightarrow> f x | Inr x \<Rightarrow> g x)"
  by (cases y) auto

lemma upholds_case_prod [upholds_rules]:
  "(\<And>a b. upholds R (f a b)) \<Longrightarrow> upholds R (case p of (a, b) \<Rightarrow> f a b)"
  by (cases p) auto

lemma upholds_Let [upholds_rules]: "(\<And>x. upholds R (f x)) \<Longrightarrow> upholds R (Let y f)"
  by simp

text \<open>
  The interface of a state relation: reflexive, transitive, indifferent to the shared part of
  the state outside the tables, and never going back in time or in the random source.
\<close>

definition later :: "'z world_scheme \<Rightarrow> 'z world_scheme \<Rightarrow> bool" where
  "later s t \<longleftrightarrow> clock_reads s \<le> clock_reads t \<and> draws s \<le> draws t"

locale state_relation =
  fixes R :: "'z world_scheme \<Rightarrow> 'z world_scheme \<Rightarrow> bool"
  assumes rel_refl: "R s s"
    and rel_trans: "R s t \<Longrightarrow> R t u \<Longrightarrow> R s u"
    and rel_later: "R s t \<Longrightarrow> later s t"
    and rel_world: "clock_reads s \<le> c \<Longrightarrow> draws s \<le> d \<Longrightarrow>
      R s (s\<lparr>clock_reads := c, draws := d, tx_broken := b, on_commit := oc, broker := br\<rparr>)"
begin

lemma upholds_ret: "upholds R (ret x)"
  by (simp add: upholds_def ret_def rel_refl)

lemma upholds_raise: "upholds R (raise e)"
  by (simp add: upholds_def raise_def rel_refl)

lemma upholds_gets: "upholds R (gets f)"
  by (simp add: upholds_def gets_def rel_refl)

lemma upholds_require: "upholds R (require e f)"
  by (simp add: upholds_def require_def rel_refl split: option.splits)

lemma upholds_modify: "(\<And>s. R s (f s)) \<Longrightarrow> upholds R (modify f)"
  by (simp add: upholds_def modify_def)

lemma upholds_mbind:
  assumes "upholds R m" and "\<And>x. upholds R (f x)"
  shows "upholds R (mbind m f)"
proof (rule upholdsI)
  fix s
  have "wpx (f x) (\<lambda>_. R s) (\<lambda>_. R s) t" if "R s t" for x t
    using upholds_wpx [OF assms(2), of x t] by (rule wpx_mono) (auto intro: rel_trans that)
  with upholds_wpx [OF assms(1), of s] show "wpx (mbind m f) (\<lambda>_. R s) (\<lambda>_. R s) s"
    by (auto elim!: wpx_mono)
qed

lemma upholds_mseq: "upholds R m \<Longrightarrow> upholds R k \<Longrightarrow> upholds R (mseq m k)"
  by (simp add: mseq_def upholds_mbind)

lemma upholds_mwhen: "upholds R m \<Longrightarrow> upholds R (mwhen b m)"
  by (simp add: mwhen_def upholds_ret)

lemma upholds_catch:
  assumes "upholds R m" and "\<And>e. upholds R (h e)"
  shows "upholds R (catch m h)"
proof (rule upholdsI)
  fix s
  have "wpx (h e) (\<lambda>_. R s) (\<lambda>_. R s) t" if "R s t" for e t
    using upholds_wpx [OF assms(2), of e t] by (rule wpx_mono) (auto intro: rel_trans that)
  with upholds_wpx [OF assms(1), of s] show "wpx (catch m h) (\<lambda>_. R s) (\<lambda>_. R s) s"
    by (auto elim!: wpx_mono)
qed

lemma upholds_for_each:
  "(\<And>x. upholds R (f x)) \<Longrightarrow> upholds R (for_each xs f)"
  by (induction xs) (auto intro: upholds_ret upholds_mseq)

lemma rel_clock: "clock_reads s \<le> c \<Longrightarrow> R s (s\<lparr>clock_reads := c\<rparr>)"
  using rel_world [where s = s and c = c and d = "draws s" and b = "tx_broken s"
      and oc = "on_commit s" and br = "broker s"] by simp

lemma rel_draws: "draws s \<le> d \<Longrightarrow> R s (s\<lparr>draws := d\<rparr>)"
  using rel_world [where s = s and c = "clock_reads s" and d = d and b = "tx_broken s"
      and oc = "on_commit s" and br = "broker s"] by simp

lemma rel_broken: "R s (s\<lparr>tx_broken := b\<rparr>)"
  using rel_world [where s = s and c = "clock_reads s" and d = "draws s" and b = b
      and oc = "on_commit s" and br = "broker s"] by simp

lemma rel_on_commit: "R s (s\<lparr>on_commit := oc\<rparr>)"
  using rel_world [where s = s and c = "clock_reads s" and d = "draws s" and b = "tx_broken s"
      and oc = oc and br = "broker s"] by simp

lemma rel_rollback: "R s t \<Longrightarrow> R s (rollback s t)"
  using rel_world [where s = s and c = "clock_reads t" and d = "draws t" and b = "tx_broken s"
      and oc = "on_commit s" and br = "broker s"] rel_later [of s t]
  by (simp add: rollback_def later_def)

lemma rel_commit: "R s (commit s)"
  using rel_world [where s = s and c = "clock_reads s" and d = "draws s" and b = False
      and oc = "[]" and br = "broker s @ on_commit s"]
  by (simp add: commit_def)

lemma upholds_atomic: "upholds R m \<Longrightarrow> upholds R (atomic m)"
proof (rule upholdsI)
  fix s
  assume "upholds R m"
  from upholds_wpx [OF this, of s] show "wpx (atomic m) (\<lambda>_. R s) (\<lambda>_. R s) s"
    by (simp, elim wpx_mono) (auto intro: rel_rollback)
qed

lemma upholds_request: "upholds R m \<Longrightarrow> upholds R (request m)"
proof (rule upholdsI)
  fix s
  assume "upholds R m"
  from upholds_wpx [OF this, of s] show "wpx (request m) (\<lambda>_. R s) (\<lambda>_. R s) s"
    by (simp, elim wpx_mono) (blast intro: rel_rollback rel_trans [OF _ rel_commit])+
qed

lemma upholds_now: "upholds R (now E)"
  by (rule upholdsI) (simp add: rel_clock)

lemma upholds_draw: "upholds R draw"
  by (rule upholdsI) (simp add: rel_draws)

lemma upholds_fresh_uuid: "upholds R fresh_uuid"
  by (rule upholdsI) (simp add: rel_draws)

lemma upholds_on_commit_do: "upholds R (on_commit_do t)"
  by (rule upholdsI) (simp add: rel_on_commit)

lemma upholds_integrity_error: "upholds R (integrity_error m)"
  by (rule upholdsI) (simp add: rel_broken)

lemma upholds_db_guard: "upholds R m \<Longrightarrow> upholds R (db_guard m)"
  unfolding db_guard_def by (intro upholds_mbind upholds_gets upholds_if upholds_raise)

lemmas combinator_rules =
  upholds_ret upholds_raise upholds_gets upholds_require upholds_mbind upholds_mseq
  upholds_mwhen upholds_catch upholds_for_each upholds_atomic upholds_request upholds_now
  upholds_draw upholds_fresh_uuid upholds_on_commit_do upholds_integrity_error
  upholds_db_guard

end

text \<open>
  Two ready-made families: a projection of the state that nothing changes, and a table that
  only ever grows at its front (rows are never altered or removed).
\<close>

definition same :: "('z world_scheme \<Rightarrow> 'a) \<Rightarrow> 'z world_scheme \<Rightarrow> 'z world_scheme \<Rightarrow> bool" where
  "same f s t \<longleftrightarrow> later s t \<and> f t = f s"

definition appends_only ::
  "('z world_scheme \<Rightarrow> 'r list) \<Rightarrow> 'z world_scheme \<Rightarrow> 'z world_scheme \<Rightarrow> bool" where
  "appends_only f s t \<longleftrightarrow> later s t \<and> suffix (f s) (f t)"

definition keeps :: "('z world_scheme \<Rightarrow> bool) \<Rightarrow> 'z world_scheme \<Rightarrow> 'z world_scheme \<Rightarrow> bool" where
  "keeps I s t \<longleftrightarrow> later s t \<and> (I s \<longrightarrow> I t)"

definition world_free :: "('z world_scheme \<Rightarrow> 'a) \<Rightarrow> bool" where
  "world_free f \<longleftrightarrow> (\<forall>s c d b oc br. f (s\<lparr>clock_reads := c, draws := d, tx_broken := b,
     on_commit := oc, broker := br\<rparr>) = f s)"

definition world_mono :: "('z world_scheme \<Rightarrow> bool) \<Rightarrow> bool" where
  "world_mono I \<longleftrightarrow> (\<forall>s c d b oc br. I s \<longrightarrow> clock_reads s \<le> c \<longrightarrow> draws s \<le> d \<longrightarrow>
     I (s\<lparr>clock_reads := c, draws := d, tx_broken := b, on_commit := oc, broker := br\<rparr>))"

lemma later_refl [simp, intro]: "later s s"
  by (simp add: later_def)

lemma later_trans: "later s t \<Longrightarrow> later t u \<Longrightarrow> later s u"
  by (auto simp: later_def)

lemma state_relation_same: "world_free f \<Longrightarrow> state_relation (same f)"
  by unfold_locales (auto simp: same_def world_free_def later_def)

lemma state_relation_appends: "world_free f \<Longrightarrow> state_relation (appends_only f)"
  by unfold_locales
     (auto simp: appends_only_def world_free_def later_def intro: suffix_order.order_trans)

lemma state_relation_keeps: "world_mono I \<Longrightarrow> state_relation (keeps I)"
  by unfold_locales (auto simp: keeps_def world_mono_def later_def)

lemma appends_only_Cons: "f t = x # f s \<Longrightarrow> later s t \<Longrightarrow> appends_only f s t"
  by (auto simp: appends_only_def suffix_def)

lemma appends_only_same: "f t = f s \<Longrightarrow> later s t \<Longrightarrow> appends_only f s t"
  by (simp add: appends_only_def)

subsection \<open>Idempotent creation\<close>

text \<open>A client that issues one call after another, collecting the outcomes.\<close>

fun run_calls :: "('s, 'b) pm list \<Rightarrow> 's \<Rightarrow> (exn + 'b) list \<times> 's" where
  "run_calls [] s = ([], s)"
| "run_calls (m # ms) s =
     (case m s of (r, t) \<Rightarrow> (case run_calls ms t of (rs, u) \<Rightarrow> (r # rs, u)))"

text \<open>
  The interface of the \<open>get_or_create\<close> services: a call whose key is taken answers the row that
  has it, with at most a \<open>quiet\<close> change, and a call that answers leaves its row under the key.
\<close>

locale get_or_create =
  fixes keyed :: "'k \<Rightarrow> 's \<Rightarrow> bool"
    and quiet :: "'s \<Rightarrow> 's \<Rightarrow> bool"
    and lookup :: "'k \<Rightarrow> 's \<Rightarrow> 'r option"
    and goc :: "'k \<Rightarrow> 'a \<Rightarrow> ('s, 'r \<times> bool) pm"
  assumes quiet_refl: "quiet s s"
    and quiet_trans: "quiet s t \<Longrightarrow> quiet t u \<Longrightarrow> quiet s u"
    and quiet_keyed: "quiet s t \<Longrightarrow> keyed k s \<Longrightarrow> keyed k t"
    and quiet_lookup: "quiet s t \<Longrightarrow> lookup k t = lookup k s"
    and goc_hit: "keyed k s \<Longrightarrow> lookup k s = Some r \<Longrightarrow>
      \<exists>t. goc k a s = (Inr (r, False), t) \<and> quiet s t"
    and goc_miss: "keyed k s \<Longrightarrow> lookup k s = None \<Longrightarrow> goc k a s = (Inr (r, b), t) \<Longrightarrow>
      b \<and> lookup k t = Some r \<and> keyed k t"
begin

lemma goc_lookup:
  "keyed k s \<Longrightarrow> goc k a s = (Inr (r, b), t) \<Longrightarrow> lookup k t = Some r \<and> keyed k t"
proof (cases "lookup k s")
  case (Some q)
  assume "keyed k s" "goc k a s = (Inr (r, b), t)"
  with goc_hit [OF this(1) Some, of a] show ?thesis
    using Some quiet_lookup quiet_keyed by fastforce
qed (auto dest: goc_miss)

lemma goc_created_iff:
  "keyed k s \<Longrightarrow> goc k a s = (Inr (r, b), t) \<Longrightarrow> b \<longleftrightarrow> lookup k s = None"
  by (cases "lookup k s") (auto dest: goc_miss goc_hit [where a = a])

lemma goc_retries:
  assumes "keyed k s" and "lookup k s = Some r" and "run_calls (map (goc k) as) s = (rs, t)"
  shows "rs = replicate (length as) (Inr (r, False)) \<and> quiet s t"
  using assms
proof (induction as arbitrary: s rs)
  case (Cons a as)
  obtain u where u: "goc k a s = (Inr (r, False), u)" "quiet s u"
    using goc_hit [OF Cons.prems(1,2)] by blast
  with Cons.prems(3) obtain rs' where rs: "run_calls (map (goc k) as) u = (rs', t)"
    "rs = Inr (r, False) # rs'"
    by (auto split: prod.splits)
  have "keyed k u" "lookup k u = Some r"
    using Cons.prems(1,2) u(2) quiet_keyed quiet_lookup by auto
  from Cons.IH [OF this rs(1)] rs(2) u(2) quiet_trans show ?case
    by auto
qed (simp add: quiet_refl)

end

subsection \<open>Immutable logs\<close>

text \<open>
  The interface of the tables whose rows are final: saving an existing row and deleting are
  refused, and a new row is put in front.
\<close>

locale immutable_log =
  fixes rows :: "'s \<Rightarrow> 'r list"
    and save :: "bool \<Rightarrow> 'r \<Rightarrow> ('s, 'r) pm"
    and delete :: "'r \<Rightarrow> ('s, unit) pm"
  assumes save_existing: "\<exists>e. save False r s = (Inl e, s)"
    and delete_refused: "\<exists>e. delete r s = (Inl e, s)"
    and save_new: "\<exists>q t. save True r s = (Inr q, t) \<and> rows t = q # rows s"
begin

text \<open>\<open>Some adding\<close> is a \<open>save\<close>, \<open>None\<close> a \<open>delete\<close>; errors are ignored by the client.\<close>

primrec run_ops :: "(bool option \<times> 'r) list \<Rightarrow> 's \<Rightarrow> 's" where
  "run_ops [] s = s"
| "run_ops (op # ops) s = run_ops ops
     (case fst op of None \<Rightarrow> snd (delete (snd op) s) | Some b \<Rightarrow> snd (save b (snd op) s))"

lemma log_grows:
  "suffix (rows s) (rows (run_ops ops s)) \<and>
   length (rows (run_ops ops s)) = length (rows s) + length (filter (\<lambda>op. fst op = Some True) ops)"
proof (induction ops arbitrary: s)
  case (Cons op ops)
  define u where "u = (case fst op of None \<Rightarrow> snd (delete (snd op) s)
    | Some b \<Rightarrow> snd (save b (snd op) s))"
  have "suffix (rows s) (rows u) \<and>
      length (rows u) = length (rows s) + (if fst op = Some True then 1 else 0)"
    using save_existing [of "snd op" s] delete_refused [of "snd op" s] save_new [of "snd op" s]
    by (auto simp: u_def suffix_def split: option.split bool.split)
  moreover have "run_ops (op # ops) s = run_ops ops u"
    by (simp add: u_def)
  ultimately show ?case
    using Cons.IH [of u] by (auto intro: suffix_order.order_trans)
qed simp

end

subsection \<open>Status machines\<close>

text \<open>
  The interface of a row with a guarded status: \<open>transition_to\<close> refuses what the table does not
  allow and leaves the state alone, and otherwise gives the row the new status.
\<close>

locale status_machine =
  fixes allowed :: "'st \<Rightarrow> 'st list"
    and status :: "'r \<Rightarrow> 'st"
    and move :: "'r \<Rightarrow> 'st \<Rightarrow> ('s, 'r) pm"
  assumes move_refused: "new \<notin> set (allowed (status r)) \<Longrightarrow> \<exists>m. move r new s = (Inl (ValidationError m), s)"
    and move_taken: "new \<in> set (allowed (status r)) \<Longrightarrow>
      \<exists>r' t. move r new s = (Inr r', t) \<and> status r' = new"
begin

primrec moves :: "'r \<Rightarrow> 'st list \<Rightarrow> ('s, 'r) pm" where
  "moves r [] = ret r"
| "moves r (new # rest) = mbind (move r new) (\<lambda>r'. moves r' rest)"

fun path :: "'st \<Rightarrow> 'st list \<Rightarrow> bool" where
  "path a [] \<longleftrightarrow> True"
| "path a (b # bs) \<longleftrightarrow> b \<in> set (allowed a) \<and> path b bs"

lemma moves_path:
  "(\<exists>r' t. moves r ns s = (Inr r', t)) \<longleftrightarrow> path (status r) ns"
proof (induction ns arbitrary: r s)
  case (Cons n ns)
  show ?case
  proof (cases "n \<in> set (allowed (status r))")
    case True
    then obtain r' t where "move r n s = (Inr r', t)" "status r' = n"
      using move_taken by blast
    with True Cons.IH [of r' t] show ?thesis
      by (simp add: mbind_def)
  next
    case False
    then obtain m where "move r n s = (Inl (ValidationError m), s)"
      using move_refused by blast
    with False show ?thesis
      by (simp add: mbind_def)
  qed
qed (simp add: ret_def)

lemma moves_status: "moves r ns s = (Inr r', t) \<Longrightarrow> status r' = last (status r # ns)"
proof (induction ns arbitrary: r s)
  case (Cons n ns)
  from Cons.prems obtain q u where q: "move r n s = (Inr q, u)" "moves q ns u = (Inr r', t)"
    by (auto simp: mbind_def split: prod.splits sum.splits)
  have "n \<in> set (allowed (status r))"
    using q(1) move_refused [of n r s] by auto
  with q(1) have "status q = n"
    using move_taken [of n r s] by auto
  with Cons.IH [OF q(2)] show ?case
    by simp
qed (simp add: ret_def)

lemma terminal_stays:
  assumes "allowed (status r) = []" and "moves r ns s = (Inr r', t)"
  shows "ns = []"
  using assms moves_path [of r ns s] by (cases ns) auto

end

end
