(* ===== verification/CoreSupport.thy ===== *)
theory CoreSupport
  imports Prelude
begin

text \<open>
  The sector-neutral helpers of \<open>apps/core\<close>: text functions of the standard library as the
  code uses them, rounding of money (\<open>money.py\<close>), HMAC signatures (\<open>signing.py\<close>), the
  encrypted columns with their lookup hashes (\<open>encrypted_fields.py\<close>), the error envelope
  (\<open>exceptions.py\<close>) and the badge colours of the templates (\<open>templatetags/kusanya_ui.py\<close>).
  Strings are sequences of UTF-8 bytes; the ASCII fragment of the string methods is modelled.
\<close>

subsection \<open>String methods\<close>

definition is_space :: "char \<Rightarrow> bool" where
  "is_space c \<longleftrightarrow> (let n = (of_char c :: nat) in (9 \<le> n \<and> n \<le> 13) \<or> (28 \<le> n \<and> n \<le> 32))"

definition py_strip :: "string \<Rightarrow> string" where
  "py_strip s = rev (dropWhile is_space (rev (dropWhile is_space s)))"

definition lower_char :: "char \<Rightarrow> char" where
  "lower_char c = (let n = (of_char c :: nat) in if 65 \<le> n \<and> n \<le> 90 then char_of (n + 32) else c)"

definition upper_char :: "char \<Rightarrow> char" where
  "upper_char c = (let n = (of_char c :: nat) in if 97 \<le> n \<and> n \<le> 122 then char_of (n - 32) else c)"

definition py_lower :: "string \<Rightarrow> string" where
  "py_lower s = map lower_char s"

definition py_upper :: "string \<Rightarrow> string" where
  "py_upper s = map upper_char s"

definition is_ascii :: "string \<Rightarrow> bool" where
  "is_ascii s \<longleftrightarrow> list_all (\<lambda>c. (of_char c :: nat) < 128) s"

definition is_digit_char :: "char \<Rightarrow> bool" where
  "is_digit_char c \<longleftrightarrow> (let n = (of_char c :: nat) in 48 \<le> n \<and> n \<le> 57)"

definition py_isdigit :: "string \<Rightarrow> bool" where
  "py_isdigit s \<longleftrightarrow> s \<noteq> [] \<and> list_all is_digit_char s"

lemma length_py_upper [simp]: "length (py_upper s) = length s"
  by (simp add: py_upper_def)

lemma length_py_lower [simp]: "length (py_lower s) = length s"
  by (simp add: py_lower_def)

lemma dropWhile_idem: "dropWhile P (dropWhile P xs) = dropWhile P xs"
  by (induction xs) auto

lemma hd_dropWhile_not: "dropWhile P xs \<noteq> [] \<Longrightarrow> \<not> P (hd (dropWhile P xs))"
  by (simp add: hd_dropWhile)

lemma dropWhile_id: "xs = [] \<or> \<not> P (hd xs) \<Longrightarrow> dropWhile P xs = xs"
  by (cases xs) auto

lemma py_strip_idem [simp]: "py_strip (py_strip s) = py_strip s"
proof -
  define t where "t = dropWhile is_space s"
  define u where "u = rev (dropWhile is_space (rev t))"
  have "suffix (dropWhile is_space (rev t)) (rev t)"
    by (rule suffix_dropWhile)
  then have pre: "prefix u t"
    unfolding u_def by (simp add: suffix_to_prefix)
  have "dropWhile is_space u = u"
  proof (rule dropWhile_id, rule disjCI)
    assume "\<not> \<not> is_space (hd u)"
    moreover have "hd u = hd t" if "u \<noteq> []"
      using pre that by (auto simp: prefix_def)
    moreover have "\<not> is_space (hd t)" if "t \<noteq> []"
      using that unfolding t_def by (rule hd_dropWhile_not)
    ultimately show "u = []"
      using pre by (cases u; cases t) auto
  qed
  then have "py_strip u = rev (dropWhile is_space (rev u))"
    by (simp add: py_strip_def)
  also have "\<dots> = u"
    by (simp add: u_def dropWhile_idem)
  finally show ?thesis
    by (simp add: py_strip_def u_def t_def)
qed

subsection \<open>Rounding of money\<close>

text \<open>
  A \<open>Decimal\<close> is a coefficient and an exponent. The context's precision is 28 digits, as the
  module leaves it: a \<open>quantize\<close> whose result needs more raises \<open>InvalidOperation\<close>.
\<close>

datatype decimal = Dec (coeff: int) (expo: int)

definition CURRENCY_EXPONENTS :: "(string \<times> nat) list" where
  "CURRENCY_EXPONENTS = [(''TZS'', 2), (''KES'', 2), (''UGX'', 0), (''USD'', 2)]"

definition currency_exponent :: "string \<Rightarrow> nat" where
  "currency_exponent currency =
     (case map_of CURRENCY_EXPONENTS currency of None \<Rightarrow> 2 | Some e \<Rightarrow> e)"

definition div_half_up :: "int \<Rightarrow> int \<Rightarrow> int" where
  "div_half_up c d = sgn c * ((2 * \<bar>c\<bar> + d) div (2 * d))"

definition quantize :: "decimal \<Rightarrow> string \<Rightarrow> decimal option" where
  "quantize amount currency =
     (let e = - int (currency_exponent currency);
          c = (if e \<le> expo amount then coeff amount * 10 ^ nat (expo amount - e)
               else div_half_up (coeff amount) (10 ^ nat (e - expo amount)))
      in if \<bar>c\<bar> < 10 ^ 28 then Some (Dec c e) else None)"

text \<open>The standard field options of a money column.\<close>

record decimal_field =
  max_digits :: nat
  decimal_places :: nat
  field_default :: "int option"

definition money_field_kwargs :: "decimal_field" where
  "money_field_kwargs = \<lparr>max_digits = 18, decimal_places = 2, field_default = None\<rparr>"

lemma div_half_up_bound:
  assumes "0 < d"
  shows "2 * \<bar>div_half_up c d * d - c\<bar> \<le> d"
proof -
  define a where "a = \<bar>c\<bar>"
  define q where "q = (2 * a + d) div (2 * d)"
  have "2 * d * q \<le> 2 * a + d" and "2 * a + d < 2 * d * q + 2 * d"
    using assms mult_div_mod_eq [of "2 * d" "2 * a + d"]
      pos_mod_sign [of "2 * d" "2 * a + d"] pos_mod_bound [of "2 * d" "2 * a + d"]
    unfolding q_def by linarith+
  then have b: "2 * \<bar>q * d - a\<bar> \<le> d"
    by (auto simp: abs_if algebra_simps)
  have "div_half_up c d * d - c = sgn c * (q * d - a)"
    by (auto simp: div_half_up_def q_def a_def sgn_if algebra_simps)
  moreover have "\<bar>sgn c * (q * d - a)\<bar> \<le> \<bar>q * d - a\<bar>"
    by (auto simp: sgn_if)
  ultimately have "2 * \<bar>div_half_up c d * d - c\<bar> \<le> 2 * \<bar>q * d - a\<bar>"
    by simp
  then show ?thesis
    using b by (rule order_trans)
qed

lemma div_half_up_tie:
  assumes "0 < d"
  shows "0 \<le> k \<Longrightarrow> div_half_up (2 * k * d + d) (2 * d) = k + 1"
    and "0 \<le> k \<Longrightarrow> div_half_up (- (2 * k * d + d)) (2 * d) = - (k + 1)"
proof -
  assume k: "0 \<le> k"
  then have pos: "0 < 2 * k * d + d"
    using assms by (simp add: add_nonneg_pos)
  have "2 * (2 * k * d + d) + 2 * d = (k + 1) * (2 * (2 * d))"
    by (simp add: algebra_simps)
  then have "(2 * (2 * k * d + d) + 2 * d) div (2 * (2 * d)) = k + 1"
    using assms by (simp only: nonzero_mult_div_cancel_right)
  with pos show "div_half_up (2 * k * d + d) (2 * d) = k + 1"
    and "div_half_up (- (2 * k * d + d)) (2 * d) = - (k + 1)"
    by (simp_all only: div_half_up_def abs_of_pos sgn_pos sgn_minus abs_minus_cancel) simp_all
qed

subsection \<open>Signatures\<close>

text \<open>
  \<open>hmac.compare_digest\<close> on two \<open>str\<close> arguments raises \<open>TypeError\<close> when either holds a
  non-ASCII character.
\<close>

definition compare_digest :: "string \<Rightarrow> string \<Rightarrow> exn + bool" where
  "compare_digest a b =
     (if is_ascii a \<and> is_ascii b then Inr (a = b)
      else Inl (TypeError ''comparing strings with non-ASCII characters is not supported''))"

definition sign :: "env \<Rightarrow> string \<Rightarrow> string \<Rightarrow> string" where
  "sign E secret message = e_hmac E secret message"

definition verify :: "env \<Rightarrow> string \<Rightarrow> string \<Rightarrow> string \<Rightarrow> exn + bool" where
  "verify E secret message signature =
     (if signature = [] then Inr False
      else compare_digest (sign E secret message) signature)"

definition lift_sum :: "exn + 'a \<Rightarrow> ('s, 'a) pm" where
  "lift_sum r = (case r of Inl e \<Rightarrow> raise e | Inr x \<Rightarrow> ret x)"

lemma wpx_lift_sum [simp, wp_rules]:
  "wpx (lift_sum r) Q X s = (case r of Inl e \<Rightarrow> X e s | Inr x \<Rightarrow> Q x s)"
  by (simp add: lift_sum_def split: sum.splits)

lemma compare_digest_refl: "is_ascii a \<Longrightarrow> compare_digest a a = Inr True"
  by (simp add: compare_digest_def)

lemma verify_iff:
  assumes "is_ascii (sign E secret message)" and "is_ascii signature"
  shows "verify E secret message signature =
     Inr (signature \<noteq> [] \<and> signature = sign E secret message)"
  using assms by (auto simp: verify_def compare_digest_def)

subsection \<open>Encrypted columns\<close>

definition compute_lookup_hash :: "env \<Rightarrow> string \<Rightarrow> string" where
  "compute_lookup_hash E value = e_hmac E (e_lookup_key E) (py_strip value)"

lemma compute_lookup_hash_strip: "compute_lookup_hash E (py_strip v) = compute_lookup_hash E v"
  by (simp add: compute_lookup_hash_def)

text \<open>
  Fernet is the \<open>cryptography\<close> package's authenticated encryption: \<open>encrypt\<close> takes a fresh
  nonce, \<open>decrypt\<close> answers \<open>None\<close> for \<open>InvalidToken\<close>. Both are parameters.
\<close>

record fernet =
  encrypt :: "nat \<Rightarrow> string \<Rightarrow> string"
  decrypt :: "string \<Rightarrow> string option"

record encrypted_field =
  ef_name :: string
  ef_max_length :: "nat option"

definition UNREADABLE :: string where
  "UNREADABLE = ''[unreadable: decryption failed]''"

definition text_get_prep_value :: "fernet \<Rightarrow> nat \<Rightarrow> string option \<Rightarrow> string option" where
  "text_get_prep_value F nonce value =
     (case value of None \<Rightarrow> None
      | Some v \<Rightarrow> if v = [] then Some v else Some (encrypt F nonce v))"

definition from_db_value :: "fernet \<Rightarrow> string option \<Rightarrow> string option" where
  "from_db_value F value =
     (case value of None \<Rightarrow> None
      | Some v \<Rightarrow> if v = [] then Some v
                  else (case decrypt F v of Some p \<Rightarrow> Some p | None \<Rightarrow> Some UNREADABLE))"

definition char_get_prep_value ::
  "fernet \<Rightarrow> encrypted_field \<Rightarrow> nat \<Rightarrow> string option \<Rightarrow> exn + string option" where
  "char_get_prep_value F fld nonce value =
     (case (ef_max_length fld, value) of
        (Some m, Some v) \<Rightarrow>
          if m \<noteq> 0 \<and> v \<noteq> [] \<and> m < length v
          then Inl (ValueError (''Value for '' @ ef_name fld @ '' exceeds max_length''))
          else Inr (text_get_prep_value F nonce value)
      | _ \<Rightarrow> Inr (text_get_prep_value F nonce value))"

definition get_lookup :: "encrypted_field \<Rightarrow> string \<Rightarrow> exn + string" where
  "get_lookup fld lookup_name =
     (if lookup_name = ''isnull'' then Inr lookup_name
      else Inl (FieldError (ef_name fld @ '' does not support querying by value directly'')))"

subsection \<open>Lists and pages\<close>

text \<open>\<open>__icontains\<close> and \<open>Paginator(...).get_page\<close>: \<open>None\<close> is a page that is no integer.\<close>

definition icontains :: "string \<Rightarrow> string \<Rightarrow> bool" where
  "icontains hay needle \<longleftrightarrow> sublist (py_lower needle) (py_lower hay)"

definition num_pages :: "nat \<Rightarrow> 'a list \<Rightarrow> nat" where
  "num_pages per_page xs = max 1 ((length xs + per_page - 1) div per_page)"

definition page_number :: "nat \<Rightarrow> 'a list \<Rightarrow> int option \<Rightarrow> nat" where
  "page_number per_page xs number =
     (case number of None \<Rightarrow> 1
      | Some n \<Rightarrow> if 1 \<le> n \<and> n \<le> int (num_pages per_page xs) then nat n
                 else num_pages per_page xs)"

definition get_page :: "nat \<Rightarrow> 'a list \<Rightarrow> int option \<Rightarrow> 'a list" where
  "get_page per_page xs number =
     take per_page (drop ((page_number per_page xs number - 1) * per_page) xs)"

lemma set_get_page: "set (get_page k xs n) \<subseteq> set xs"
  unfolding get_page_def by (meson set_drop_subset set_take_subset subset_trans)

lemma length_get_page: "length (get_page k xs n) \<le> k"
  by (simp add: get_page_def)

subsection \<open>Status badges\<close>

definition STATUS_COLOR :: "(string \<times> string list) list" where
  "STATUS_COLOR =
     [(''success'', [''active'', ''completed'', ''sent'', ''successful'', ''paid'', ''confirmed'',
                     ''resolved'', ''delivered'']),
      (''warning'', [''pending'', ''open'', ''partial'', ''initiated'', ''processing'', ''unknown'']),
      (''danger'', [''failed'', ''rejected'', ''suspended'', ''reversed'', ''cancelled'',
                    ''dead_letter'', ''expired'']),
      (''info'', [''refunded'', ''settled''])]"

definition status_badge_class :: "string \<Rightarrow> string" where
  "status_badge_class value =
     (let key = py_lower (py_strip value)
      in case List.find (\<lambda>(color, vals). key \<in> set vals) STATUS_COLOR of
           Some (color, _) \<Rightarrow> ''text-bg-'' @ color
         | None \<Rightarrow> ''text-bg-secondary'')"

subsection \<open>Properties\<close>

lemma div_half_up_tie_away:
  assumes "0 < d" and "2 * \<bar>div_half_up c d * d - c\<bar> = d"
  shows "\<bar>c\<bar> < \<bar>div_half_up c d * d\<bar>"
proof -
  define a where "a = \<bar>c\<bar>"
  define q where "q = (2 * a + d) div (2 * d)"
  have up: "2 * a + d < 2 * d * q + 2 * d" and q0: "0 \<le> q"
    using assms(1) mult_div_mod_eq [of "2 * d" "2 * a + d"] pos_mod_bound [of "2 * d" "2 * a + d"]
    unfolding q_def a_def by (linarith, simp add: pos_imp_zdiv_nonneg_iff)
  have eq: "div_half_up c d * d - c = sgn c * (q * d - a)" "div_half_up c d * d = sgn c * (q * d)"
    by (auto simp: div_half_up_def q_def a_def sgn_if algebra_simps)
  have "c \<noteq> 0"
    using assms by (auto simp: div_half_up_def)
  then have "\<bar>div_half_up c d * d - c\<bar> = \<bar>q * d - a\<bar>" "\<bar>div_half_up c d * d\<bar> = q * d"
    using q0 assms(1) unfolding eq by (auto simp: a_def sgn_if abs_mult abs_minus_commute add.commute)
  then have "2 * \<bar>q * d - a\<bar> = d" and abs_eq: "\<bar>div_half_up c d * d\<bar> = q * d"
    using assms(2) by simp_all
  then have "a < q * d"
    using up assms(1) by (auto simp: abs_if algebra_simps split: if_splits)
  then show ?thesis
    by (simp add: abs_eq a_def)
qed

text \<open>
  C20 (\<open>money.quantize\<close>): rounding to a currency's minor unit never moves an amount by more than
  half a unit, moves an exact half away from zero, leaves an amount with no smaller digits as it
  is, and rounding again changes nothing.
\<close>

theorem quantize_nearest:
  assumes "quantize amount currency = Some q"
  shows "expo q = - int (currency_exponent currency) \<and>
    quantize q currency = Some q \<and>
    (expo q \<le> expo amount \<longrightarrow> coeff q = coeff amount * 10 ^ nat (expo amount - expo q)) \<and>
    (expo amount < expo q \<longrightarrow>
       2 * \<bar>coeff q * 10 ^ nat (expo q - expo amount) - coeff amount\<bar>
         \<le> 10 ^ nat (expo q - expo amount) \<and>
       (2 * \<bar>coeff q * 10 ^ nat (expo q - expo amount) - coeff amount\<bar>
          = 10 ^ nat (expo q - expo amount) \<longrightarrow>
        \<bar>coeff amount\<bar> < \<bar>coeff q * 10 ^ nat (expo q - expo amount)\<bar>))"
  using assms div_half_up_bound div_half_up_tie_away
  by (auto simp: quantize_def Let_def split: if_splits)

theorem quantize_nearest_witness:
  "quantize (Dec 1005 (- 1)) ''UGX'' = Some (Dec 101 0) \<and>
   \<bar>1005 :: int\<bar> < \<bar>101 * 10\<bar>"
proof -
  have q: "quantize (Dec 1005 (- 1)) ''UGX'' = Some (Dec 101 0)"
    by code_simp
  from quantize_nearest [OF q] show ?thesis
    using q by simp
qed

text \<open>
  Also (\<open>EncryptedCharField\<close>): a value that the column accepts is within the length limit and is
  read back as it was written, whatever nonce the encryption drew; reading a value that does not
  decrypt answers a visible marker instead of an error; and every lookup but \<open>isnull\<close> is
  refused.
\<close>

theorem encrypted_field_roundtrip:
  assumes "\<And>n p. decrypt F (encrypt F n p) = Some p" and "\<And>n p. encrypt F n p \<noteq> []"
    and "char_get_prep_value F fld nonce (Some v) = Inr stored"
  shows "from_db_value F stored = Some v \<and>
    (\<forall>m. ef_max_length fld = Some m \<and> m \<noteq> 0 \<longrightarrow> length v \<le> m) \<and>
    (c \<noteq> [] \<and> decrypt F c = None \<longrightarrow> from_db_value F (Some c) = Some UNREADABLE) \<and>
    (lookup \<noteq> ''isnull'' \<longrightarrow> (\<exists>msg. get_lookup fld lookup = Inl (FieldError msg)))"
  using assms
  by (auto simp: char_get_prep_value_def text_get_prep_value_def from_db_value_def get_lookup_def
      split: option.splits if_splits)

definition example_fernet :: fernet where
  "example_fernet = \<lparr>encrypt = (\<lambda>n p. CHR ''x'' # p),
     decrypt = (\<lambda>c. if c \<noteq> [] \<and> hd c = CHR ''x'' then Some (tl c) else None)\<rparr>"

theorem encrypted_field_roundtrip_witness:
  "from_db_value example_fernet (Some ''xAsha'') = Some ''Asha''"
proof -
  have "char_get_prep_value example_fernet \<lparr>ef_name = ''full_name'', ef_max_length = Some 255\<rparr> 0
      (Some ''Asha'') = Inr (Some ''xAsha'')"
    by (simp add: char_get_prep_value_def text_get_prep_value_def example_fernet_def)
  from encrypted_field_roundtrip [OF _ _ this] show ?thesis
    by (simp add: example_fernet_def)
qed

end
