(* ===== verification/Identity.thy ===== *)
theory Identity
  imports CoreSupport "HOL-Library.Char_ord" "HOL-Library.List_Lexorder"
begin

text \<open>
  Users, tenants and memberships (\<open>apps/users/models.py\<close>, \<open>apps/tenants/models.py\<close>), the
  role checks (\<open>apps/tenants/permissions.py\<close>) and the resolution of \<open>request.tenant\<close>
  (\<open>apps/tenants/middleware.py\<close>). \<open>AnonymousUser\<close> is \<open>None\<close> of type \<open>user option\<close>.
\<close>

subsection \<open>Rows\<close>

record user =
  u_id :: uuid
  u_email :: string
  u_password :: string
  u_first_name :: string
  u_first_name_lookup_hash :: string
  u_last_name :: string
  u_last_name_lookup_hash :: string
  u_phone_number :: string
  u_is_active :: bool
  u_is_staff :: bool
  u_is_superuser :: bool

datatype platform_role =
  SUPER_ADMIN | FINANCE_ADMIN | OPERATIONS_ADMIN | COMPLIANCE_ADMIN | SUPPORT_ADMIN | AUDITOR

record platform_membership =
  pm_id :: uuid
  pm_user :: uuid
  pm_role :: platform_role
  pm_is_active :: bool

datatype sector =
  EDUCATION | HEALTHCARE | RETAIL | HOSPITALITY | PROPERTY | PROFESSIONAL_SERVICES | NGO
| RELIGIOUS | TRAINING | MEMBERSHIP | UTILITIES | ASSOCIATION | GOVERNMENT_ADJACENT | OTHER_SECTOR

fun sector_value :: "sector \<Rightarrow> string" where
  "sector_value EDUCATION = ''education''"
| "sector_value HEALTHCARE = ''healthcare''"
| "sector_value RETAIL = ''retail''"
| "sector_value HOSPITALITY = ''hospitality''"
| "sector_value PROPERTY = ''property''"
| "sector_value PROFESSIONAL_SERVICES = ''professional_services''"
| "sector_value NGO = ''ngo''"
| "sector_value RELIGIOUS = ''religious''"
| "sector_value TRAINING = ''training''"
| "sector_value MEMBERSHIP = ''membership''"
| "sector_value UTILITIES = ''utilities''"
| "sector_value ASSOCIATION = ''association''"
| "sector_value GOVERNMENT_ADJACENT = ''government_adjacent''"
| "sector_value OTHER_SECTOR = ''other''"

datatype tenant_status = TenantPending | TenantActive | TenantSuspended | TenantRejected

fun tenant_status_value :: "tenant_status \<Rightarrow> string" where
  "tenant_status_value TenantPending = ''pending''"
| "tenant_status_value TenantActive = ''active''"
| "tenant_status_value TenantSuspended = ''suspended''"
| "tenant_status_value TenantRejected = ''rejected''"

datatype fee_refund_policy = CLAWBACK | RETAIN

fun fee_refund_policy_value :: "fee_refund_policy \<Rightarrow> string" where
  "fee_refund_policy_value CLAWBACK = ''clawback''"
| "fee_refund_policy_value RETAIN = ''retain''"

record tenant =
  t_id :: uuid
  t_name :: string
  t_slug :: string
  t_sector :: sector
  t_status :: tenant_status
  t_contact_email :: string
  t_contact_email_lookup_hash :: string
  t_contact_phone :: string
  t_default_currency :: string
  t_fee_refund_policy :: fee_refund_policy
  t_metadata :: json
  t_approved_at :: "time option"
  t_approved_by :: "uuid option"

datatype tenant_role =
  TENANT_ADMIN | FINANCE_MANAGER | ACCOUNTANT | BILLING_OFFICER | RECONCILIATION_OFFICER
| VIEWER | API_CLIENT

record tenant_membership =
  tm_id :: uuid
  tm_tenant :: uuid
  tm_user :: uuid
  tm_role :: tenant_role
  tm_is_active :: bool
  tm_invited_by :: "uuid option"

record identity_st = world +
  users :: "user list"
  platform_memberships :: "platform_membership list"
  tenants :: "tenant list"
  tenant_memberships :: "tenant_membership list"

text \<open>The keys of \<open>request.session\<close> that the code reads or writes.\<close>

record session =
  ses_user :: "uuid option"
  ses_active_tenant_id :: "uuid option"
  ses_mfa_pending_user_id :: "uuid option"
  ses_mfa_pending_backend :: "string option"

subsection \<open>\<open>User.save\<close> and \<open>Tenant.save\<close>\<close>

definition user_before_save :: "env \<Rightarrow> user \<Rightarrow> user" where
  "user_before_save E u = u
     \<lparr>u_first_name_lookup_hash :=
        (if u_first_name u = [] then [] else compute_lookup_hash E (u_first_name u)),
      u_last_name_lookup_hash :=
        (if u_last_name u = [] then [] else compute_lookup_hash E (u_last_name u))\<rparr>"

text \<open>\<open>slugify\<close> is Django's; it is an argument.\<close>

definition tenant_before_save :: "env \<Rightarrow> (string \<Rightarrow> string) \<Rightarrow> tenant \<Rightarrow> tenant" where
  "tenant_before_save E slugify t = t
     \<lparr>t_slug := (if t_slug t = [] then take 220 (slugify (t_name t)) else t_slug t),
      t_contact_email_lookup_hash := compute_lookup_hash E (py_lower (t_contact_email t))\<rparr>"

subsection \<open>Role checks\<close>

definition user_platform_roles :: "'z identity_st_scheme \<Rightarrow> user option \<Rightarrow> platform_role set" where
  "user_platform_roles s user =
     (case user of None \<Rightarrow> {}
      | Some u \<Rightarrow> set (map pm_role
          (filter (\<lambda>m. pm_user m = u_id u \<and> pm_is_active m) (platform_memberships s))))"

definition has_platform_role ::
  "'z identity_st_scheme \<Rightarrow> user option \<Rightarrow> platform_role list \<Rightarrow> bool" where
  "has_platform_role s user roles =
     (case user of None \<Rightarrow> False
      | Some u \<Rightarrow> if u_is_superuser u then True
                  else list_ex (\<lambda>r. r \<in> user_platform_roles s user) roles)"

definition find_membership ::
  "'z identity_st_scheme \<Rightarrow> uuid \<Rightarrow> uuid \<Rightarrow> tenant_membership option" where
  "find_membership s uid tid =
     List.find (\<lambda>m. tm_user m = uid \<and> tm_tenant m = tid \<and> tm_is_active m) (tenant_memberships s)"

definition get_tenant_role ::
  "'z identity_st_scheme \<Rightarrow> user option \<Rightarrow> uuid option \<Rightarrow> tenant_role option" where
  "get_tenant_role s user tenant =
     (case (user, tenant) of
        (Some u, Some tid) \<Rightarrow> map_option tm_role (find_membership s (u_id u) tid)
      | _ \<Rightarrow> None)"

definition has_tenant_role ::
  "'z identity_st_scheme \<Rightarrow> user option \<Rightarrow> uuid option \<Rightarrow> tenant_role list \<Rightarrow> bool" where
  "has_tenant_role s user tenant roles =
     (case get_tenant_role s user tenant of None \<Rightarrow> False | Some r \<Rightarrow> r \<in> set roles)"

text \<open>The two view decorators: the wrapped view runs only for a user who holds a role.\<close>

definition require_platform_role ::
  "platform_role list \<Rightarrow> user option \<Rightarrow> ('z identity_st_scheme, 'a) pm \<Rightarrow> ('z identity_st_scheme, 'a) pm" where
  "require_platform_role roles user view =
     mbind (gets (\<lambda>s. has_platform_role s user roles)) (\<lambda>ok.
       if \<not> ok then raise (PermissionDenied ''This action requires a platform role you do not hold.'')
       else view)"

definition require_tenant_role ::
  "tenant_role list \<Rightarrow> user option \<Rightarrow> uuid option \<Rightarrow>
   ('z identity_st_scheme, 'a) pm \<Rightarrow> ('z identity_st_scheme, 'a) pm" where
  "require_tenant_role roles user tenant view =
     mbind (gets (\<lambda>s. tenant \<noteq> None \<and> has_tenant_role s user tenant roles)) (\<lambda>ok.
       if \<not> ok then raise (PermissionDenied ''This action requires a tenant role you do not hold.'')
       else view)"

subsection \<open>Tenant resolution\<close>

text \<open>
  \<open>TenantResolutionMiddleware.__call__\<close> up to the call of the next handler: the tenant and
  the membership of the request, and the session after it.
\<close>

definition resolve_tenant ::
  "'z identity_st_scheme \<Rightarrow> user option \<Rightarrow> session \<Rightarrow>
   tenant option \<times> tenant_membership option \<times> session" where
  "resolve_tenant s user ses =
     (case user of
        None \<Rightarrow> (None, None, ses)
      | Some u \<Rightarrow>
          (case ses_active_tenant_id ses of
             None \<Rightarrow> (None, None, ses)
           | Some tid \<Rightarrow>
               (case find_membership s (u_id u) tid of
                  Some m \<Rightarrow> (row_get t_id (tm_tenant m) (tenants s), Some m, ses)
                | None \<Rightarrow> (None, None, ses\<lparr>ses_active_tenant_id := None\<rparr>))))"

text \<open>
  \<open>core.views.dashboard_router\<close>: where a signed-in user is sent. The tenant branch writes
  the session key that \<open>resolve_tenant\<close> reads on the next request.
\<close>

definition tenant_name :: "'z identity_st_scheme \<Rightarrow> uuid \<Rightarrow> string" where
  "tenant_name s tid = (case row_get t_id tid (tenants s) of None \<Rightarrow> [] | Some t \<Rightarrow> t_name t)"

definition active_memberships :: "'z identity_st_scheme \<Rightarrow> uuid \<Rightarrow> tenant_membership list" where
  "active_memberships s uid = sort_key (\<lambda>m. tenant_name s (tm_tenant m))
     (filter (\<lambda>m. tm_user m = uid \<and> tm_is_active m) (tenant_memberships s))"

datatype dashboard = LoginPage | PlatformDashboard | NoAccess | TenantDashboard

definition dashboard_router ::
  "'z identity_st_scheme \<Rightarrow> user option \<Rightarrow> session \<Rightarrow> dashboard \<times> session" where
  "dashboard_router s user ses =
     (case user of
        None \<Rightarrow> (LoginPage, ses)
      | Some u \<Rightarrow>
          if u_is_staff u then (PlatformDashboard, ses)
          else (case active_memberships s (u_id u) of
                  [] \<Rightarrow> (NoAccess, ses)
                | m # _ \<Rightarrow> (TenantDashboard, ses\<lparr>ses_active_tenant_id := Some (tm_tenant m)\<rparr>)))"

subsection \<open>What the checks decide\<close>

lemma find_membership_SomeD:
  "find_membership s uid tid = Some m \<Longrightarrow>
   m \<in> set (tenant_memberships s) \<and> tm_user m = uid \<and> tm_tenant m = tid \<and> tm_is_active m"
  by (auto simp: find_membership_def dest: find_Some_D)

lemma find_membership_None_iff:
  "find_membership s uid tid = None \<longleftrightarrow>
   (\<forall>m \<in> set (tenant_memberships s). \<not> (tm_user m = uid \<and> tm_tenant m = tid \<and> tm_is_active m))"
  by (simp add: find_membership_def find_None_iff_all)

lemma wpx_require_tenant_role [simp, wp_rules]:
  "wpx (require_tenant_role roles user tenant view) Q X s =
     (if tenant \<noteq> None \<and> has_tenant_role s user tenant roles then wpx view Q X s
      else X (PermissionDenied ''This action requires a tenant role you do not hold.'') s)"
  by (simp add: require_tenant_role_def)

lemma wpx_require_platform_role [simp, wp_rules]:
  "wpx (require_platform_role roles user view) Q X s =
     (if has_platform_role s user roles then wpx view Q X s
      else X (PermissionDenied ''This action requires a platform role you do not hold.'') s)"
  by (simp add: require_platform_role_def)

lemma has_tenant_role_iff:
  "has_tenant_role s user tenant roles \<longleftrightarrow>
   (\<exists>u tid m. user = Some u \<and> tenant = Some tid \<and> find_membership s (u_id u) tid = Some m \<and>
      tm_role m \<in> set roles)"
  by (auto simp: has_tenant_role_def get_tenant_role_def split: option.splits prod.splits)

lemma has_platform_role_iff:
  "has_platform_role s user roles \<longleftrightarrow>
   (\<exists>u. user = Some u \<and> (u_is_superuser u \<or>
      (\<exists>m \<in> set (platform_memberships s). pm_user m = u_id u \<and> pm_is_active m \<and> pm_role m \<in> set roles)))"
  by (auto simp: has_platform_role_def user_platform_roles_def list_ex_iff split: option.splits)

lemma resolve_tenant_membership:
  assumes "resolve_tenant s user ses = (Some t, mem, ses')"
  obtains u m where "user = Some u" and "mem = Some m" and "find_membership s (u_id u) (t_id t) = Some m"
    and "ses_active_tenant_id ses = Some (t_id t)" and "t \<in> set (tenants s)"
  using assms
  by (auto simp: resolve_tenant_def split: option.splits dest!: row_get_SomeD)
     (metis find_membership_SomeD)

subsection \<open>Properties\<close>

text \<open>
  C19 (\<open>TenantResolutionMiddleware\<close>): the tenant of a request is always one that the signed-in
  user has an active membership of, whatever the session holds; a session key that points at any
  other tenant is dropped and the request has no tenant.
\<close>

theorem tenant_resolution_isolated:
  "(case resolve_tenant s user ses of
      (Some t, mem, ses') \<Rightarrow>
        (\<exists>u m. user = Some u \<and> mem = Some m \<and> m \<in> set (tenant_memberships s) \<and>
           tm_user m = u_id u \<and> tm_tenant m = t_id t \<and> tm_is_active m \<and> ses' = ses)
    | (None, None, ses') \<Rightarrow>
        ses' = ses \<or> (\<exists>u tid. user = Some u \<and> ses_active_tenant_id ses = Some tid \<and>
           find_membership s (u_id u) tid = None \<and> ses_active_tenant_id ses' = None)
    | (None, Some m, ses') \<Rightarrow> row_get t_id (tm_tenant m) (tenants s) = None)"
  by (auto simp: resolve_tenant_def split: option.splits dest!: row_get_SomeD find_membership_SomeD)

text \<open>
  Also (\<open>require_tenant_role\<close>, \<open>require_platform_role\<close>): a guarded view runs exactly when the user
  holds one of the roles, by an active membership row of the request's tenant, and by an active
  platform membership or as superuser; otherwise it answers 403 and nothing has changed.
\<close>

theorem role_guards_decide:
  "require_tenant_role roles user tenant view s =
     (if \<exists>u tid m. user = Some u \<and> tenant = Some tid \<and> find_membership s (u_id u) tid = Some m \<and>
           tm_role m \<in> set roles
      then view s
      else (Inl (PermissionDenied ''This action requires a tenant role you do not hold.''), s)) \<and>
   require_platform_role proles user view s =
     (if \<exists>u. user = Some u \<and> (u_is_superuser u \<or>
           (\<exists>m. m \<in> set (platform_memberships s) \<and> pm_user m = u_id u \<and> pm_is_active m \<and>
              pm_role m \<in> set proles))
      then view s
      else (Inl (PermissionDenied ''This action requires a platform role you do not hold.''), s))"
proof -
  have a: "(\<exists>u. user = Some u \<and> (u_is_superuser u \<or>
           (\<exists>m. m \<in> set (platform_memberships s) \<and> pm_user m = u_id u \<and> pm_is_active m \<and>
              pm_role m \<in> set proles))) = has_platform_role s user proles"
    by (auto simp: has_platform_role_iff)
  have b: "(tenant \<noteq> None \<and> has_tenant_role s user tenant roles) =
      (\<exists>u tid m. user = Some u \<and> tenant = Some tid \<and> find_membership s (u_id u) tid = Some m \<and>
           tm_role m \<in> set roles)"
    by (auto simp: has_tenant_role_iff)
  show ?thesis
    unfolding a b [symmetric]
    by (auto simp: require_tenant_role_def require_platform_role_def mbind_def gets_def raise_def)
qed

end
