(* ===== verification/AuditTrail.thy ===== *)
theory AuditTrail
  imports Identity "HOL-Library.List_Lexorder" "HOL-Library.Char_ord"
begin

text \<open>
  The hash-chained audit log: \<open>apps/audit/models.py\<close> (rows, \<open>save\<close>, \<open>delete\<close>,
  \<open>verify_chain\<close>), \<open>apps/audit/services.py\<close> (\<open>record_audit_event\<close>, \<open>get_activity_for\<close>),
  \<open>apps/audit/context.py\<close> and \<open>apps/audit/signals.py\<close>. SHA-256 and \<open>json.dumps\<close> are the
  parameters \<open>e_sha256\<close> and \<open>e_json_dumps\<close> of the environment. The uniqueness of
  \<open>record_hash\<close> is not modelled: it can only fail on a collision of SHA-256.
\<close>

record audit_record =
  al_id :: uuid
  al_created_at :: time
  al_actor :: "uuid option"
  al_actor_label :: string
  al_tenant :: "uuid option"
  al_action :: string
  al_content_type :: "model option"
  al_object_id :: string
  al_before :: "json option"
  al_after :: "json option"
  al_metadata :: json
  al_ip_address :: "string option"
  al_user_agent :: string
  al_correlation_id :: string
  al_previous_hash :: string
  al_record_hash :: string

record audit_st = identity_st +
  audit_logs :: "audit_record list"

definition GENESIS_HASH :: string where
  "GENESIS_HASH = replicate 64 (CHR ''0'')"

subsection \<open>The hash of a record\<close>

definition opt_json :: "json option \<Rightarrow> json" where
  "opt_json v = (case v of None \<Rightarrow> JNull | Some j \<Rightarrow> j)"

definition canonical_payload :: "env \<Rightarrow> audit_record \<Rightarrow> string" where
  "canonical_payload E r = e_json_dumps E (JObj
     [(''action'', JStr (al_action r)),
      (''actor_label'', if al_actor_label r = [] then JNull else JStr (al_actor_label r)),
      (''tenant_id'', case al_tenant r of None \<Rightarrow> JNull | Some t \<Rightarrow> JStr (e_str_uuid E t)),
      (''content_type_id'',
         case al_content_type r of None \<Rightarrow> JNull | Some m \<Rightarrow> JInt (e_content_type_id E m)),
      (''object_id'', JStr (al_object_id r)),
      (''before'', opt_json (al_before r)),
      (''after'', opt_json (al_after r)),
      (''metadata'', al_metadata r),
      (''correlation_id'', JStr (al_correlation_id r)),
      (''created_at'', JStr (e_isoformat E (al_created_at r)))])"

definition audit_hash :: "env \<Rightarrow> string \<Rightarrow> audit_record \<Rightarrow> string" where
  "audit_hash E prev r = e_sha256 E (prev @ '':'' @ canonical_payload E r)"

definition audit_key :: "env \<Rightarrow> audit_record \<Rightarrow> time \<times> nat" where
  "audit_key E r = (al_created_at r, e_uuid_rank E (al_id r))"

definition chain_order :: "env \<Rightarrow> audit_record list \<Rightarrow> audit_record list" where
  "chain_order E rows = sort_key (audit_key E) rows"

text \<open>\<open>AuditLog.objects.order_by("-created_at", "-id").first()\<close>\<close>

definition latest_record :: "env \<Rightarrow> audit_record list \<Rightarrow> audit_record option" where
  "latest_record E rows =
     (case chain_order E rows of [] \<Rightarrow> None | rs \<Rightarrow> Some (last rs))"

definition link_record :: "env \<Rightarrow> audit_record list \<Rightarrow> user option \<Rightarrow> audit_record \<Rightarrow> audit_record" where
  "link_record E rows actor r =
     (let label = (case actor of
                     Some u \<Rightarrow> if al_actor r \<noteq> None \<and> al_actor_label r = [] then u_email u
                              else al_actor_label r
                   | None \<Rightarrow> al_actor_label r);
          r1 = r\<lparr>al_actor_label := label\<rparr>;
          prev = (case latest_record E rows of Some l \<Rightarrow> al_record_hash l | None \<Rightarrow> GENESIS_HASH)
      in r1\<lparr>al_previous_hash := prev, al_record_hash := audit_hash E prev r1\<rparr>)"

text \<open>\<open>AuditLog.save\<close> and \<open>AuditLog.delete\<close>; \<open>adding\<close> is \<open>self._state.adding\<close>.\<close>

definition audit_save ::
  "env \<Rightarrow> bool \<Rightarrow> user option \<Rightarrow> audit_record \<Rightarrow> ('z audit_st_scheme, audit_record) pm" where
  "audit_save E adding actor r =
     (if \<not> adding
      then raise (AuditLogImmutableError ''Audit log records cannot be modified after creation.'')
      else mbind (gets audit_logs) (\<lambda>rows.
             let r2 = link_record E rows actor r
             in mseq (modify (\<lambda>s. s\<lparr>audit_logs := r2 # audit_logs s\<rparr>)) (ret r2)))"

definition audit_delete :: "audit_record \<Rightarrow> ('z audit_st_scheme, unit) pm" where
  "audit_delete r = raise (AuditLogImmutableError ''Audit log records cannot be deleted.'')"

definition record_audit_event ::
  "env \<Rightarrow> string \<Rightarrow> user option \<Rightarrow> uuid option \<Rightarrow> (model \<times> uuid) option \<Rightarrow>
   json option \<Rightarrow> json option \<Rightarrow> json \<Rightarrow> ('z audit_st_scheme, audit_record) pm" where
  "record_audit_event E action actor tenant target before after metadata =
     mbind fresh_uuid (\<lambda>i. mbind (now E) (\<lambda>t.
       audit_save E True actor
         \<lparr>al_id = i, al_created_at = t, al_actor = map_option u_id actor, al_actor_label = [],
          al_tenant = tenant, al_action = action, al_content_type = map_option fst target,
          al_object_id = (case target of None \<Rightarrow> [] | Some (_, k) \<Rightarrow> e_str_uuid E k),
          al_before = before, al_after = after, al_metadata = metadata,
          al_ip_address = e_ip_address E, al_user_agent = e_user_agent E,
          al_correlation_id = e_correlation_id E, al_previous_hash = [], al_record_hash = []\<rparr>))"

text \<open>The common call, with neither \<open>before\<close> nor \<open>after\<close> nor metadata.\<close>

definition audit_event ::
  "env \<Rightarrow> string \<Rightarrow> user option \<Rightarrow> uuid option \<Rightarrow> (model \<times> uuid) option \<Rightarrow>
   ('z audit_st_scheme, audit_record) pm" where
  "audit_event E action actor tenant target =
     record_audit_event E action actor tenant target None None (JObj [])"

subsection \<open>Verification of the chain\<close>

fun verify_from :: "env \<Rightarrow> string \<Rightarrow> audit_record list \<Rightarrow> bool \<times> audit_record option" where
  "verify_from E expected [] = (True, None)"
| "verify_from E expected (r # rs) =
     (if al_previous_hash r \<noteq> expected then (False, Some r)
      else if audit_hash E (al_previous_hash r) r \<noteq> al_record_hash r then (False, Some r)
      else verify_from E (al_record_hash r) rs)"

definition verify_chain :: "env \<Rightarrow> audit_record list \<Rightarrow> bool \<times> audit_record option" where
  "verify_chain E rows = verify_from E GENESIS_HASH (chain_order E rows)"

text \<open>\<open>get_activity_for\<close>: the newest events recorded against one object.\<close>

definition get_activity_for :: "env \<Rightarrow> audit_record list \<Rightarrow> model \<Rightarrow> uuid \<Rightarrow> nat \<Rightarrow> audit_record list" where
  "get_activity_for E rows m k limit =
     take limit (rev (sort_key al_created_at
       (filter (\<lambda>r. al_content_type r = Some m \<and> al_object_id r = e_str_uuid E k) rows)))"

subsection \<open>Request context and authentication signals\<close>

text \<open>\<open>client_ip_from_request\<close> on the two headers it reads.\<close>

definition client_ip_from_request :: "string option \<Rightarrow> string option \<Rightarrow> string option" where
  "client_ip_from_request forwarded_for remote_addr =
     (case forwarded_for of
        Some f \<Rightarrow> if f \<noteq> [] then Some (py_strip (takeWhile (\<lambda>c. c \<noteq> CHR '','') f)) else remote_addr
      | None \<Rightarrow> remote_addr)"

definition on_login :: "env \<Rightarrow> user \<Rightarrow> ('z audit_st_scheme, audit_record) pm" where
  "on_login E u = audit_event E ''auth.login'' (Some u) None None"

definition on_logout :: "env \<Rightarrow> user option \<Rightarrow> ('z audit_st_scheme, audit_record) pm" where
  "on_logout E u = audit_event E ''auth.logout'' u None None"

definition on_login_failed :: "env \<Rightarrow> string \<Rightarrow> ('z audit_st_scheme, audit_record) pm" where
  "on_login_failed E attempted =
     record_audit_event E ''auth.login_failed'' None None None None None
       (JObj [(''attempted_email'', JStr attempted)])"

subsection \<open>One event adds one record\<close>

definition new_audit ::
  "env \<Rightarrow> string \<Rightarrow> user option \<Rightarrow> uuid option \<Rightarrow> (model \<times> uuid) option \<Rightarrow>
   json option \<Rightarrow> json option \<Rightarrow> json \<Rightarrow> 'z audit_st_scheme \<Rightarrow> audit_record" where
  "new_audit E action actor tenant target before after metadata s =
     link_record E (audit_logs s) actor
         \<lparr>al_id = Uuid (draws s), al_created_at = e_now E (clock_reads s),
          al_actor = map_option u_id actor, al_actor_label = [],
          al_tenant = tenant, al_action = action, al_content_type = map_option fst target,
          al_object_id = (case target of None \<Rightarrow> [] | Some (_, k) \<Rightarrow> e_str_uuid E k),
          al_before = before, al_after = after, al_metadata = metadata,
          al_ip_address = e_ip_address E, al_user_agent = e_user_agent E,
          al_correlation_id = e_correlation_id E, al_previous_hash = [], al_record_hash = []\<rparr>"

definition audited :: "audit_record \<Rightarrow> 'z audit_st_scheme \<Rightarrow> 'z audit_st_scheme" where
  "audited r s = s\<lparr>draws := Suc (draws s), clock_reads := Suc (clock_reads s),
     audit_logs := r # audit_logs s\<rparr>"

lemma wpx_record_audit_event [simp, wp_rules]:
  "wpx (record_audit_event E action actor tenant target before after metadata) Q X s =
     (let r = new_audit E action actor tenant target before after metadata s
      in Q r (audited r s))"
  by (simp add: record_audit_event_def audit_save_def new_audit_def audited_def Let_def)

lemma wpx_audit_event [simp, wp_rules]:
  "wpx (audit_event E action actor tenant target) Q X s =
     (let r = new_audit E action actor tenant target None None (JObj []) s in Q r (audited r s))"
  by (simp add: audit_event_def)

lemma new_audit_fields [simp]:
  "al_action (new_audit E action actor tenant target before after metadata s) = action"
  "al_tenant (new_audit E action actor tenant target before after metadata s) = tenant"
  "al_created_at (new_audit E action actor tenant target before after metadata s) =
     e_now E (clock_reads s)"
  "al_id (new_audit E action actor tenant target before after metadata s) = Uuid (draws s)"
  by (simp_all add: new_audit_def link_record_def Let_def)

lemma upholds_record_audit_event:
  assumes "\<And>s r. R s (audited r s)"
  shows "upholds R (record_audit_event E action actor tenant target before after metadata)"
  by (rule upholdsI) (simp add: assms Let_def)

lemma upholds_audit_event:
  assumes "\<And>s r. R s (audited r s)"
  shows "upholds R (audit_event E action actor tenant target)"
  unfolding audit_event_def by (rule upholds_record_audit_event) (rule assms)

lemma later_audited [simp, intro]: "later s (audited r s)"
  by (simp add: later_def audited_def)

lemma audited_simps [simp]:
  "clock_reads (audited r s) = Suc (clock_reads s)"
  "draws (audited r s) = Suc (draws s)"
  "tx_broken (audited r s) = tx_broken s"
  "on_commit (audited r s) = on_commit s"
  "broker (audited r s) = broker s"
  "users (audited r s) = users s"
  "tenants (audited r s) = tenants s"
  "tenant_memberships (audited r s) = tenant_memberships s"
  "platform_memberships (audited r s) = platform_memberships s"
  "audit_logs (audited r s) = r # audit_logs s"
  "audit_st.more (audited r s) = audit_st.more s"
  by (simp_all add: audited_def)

subsection \<open>Appending keeps the chain intact\<close>

lemma insort_key_last:
  assumes "\<forall>y \<in> set ys. f y < f x"
  shows "insort_key f x ys = ys @ [x]"
  using assms by (induction ys) (auto simp: not_le)

lemma chain_order_append:
  assumes "\<forall>q \<in> set rows. audit_key E q < audit_key E r"
  shows "chain_order E (r # rows) = chain_order E rows @ [r]"
  using assms by (simp add: chain_order_def insort_key_last)

definition chain_end :: "string \<Rightarrow> audit_record list \<Rightarrow> string" where
  "chain_end expected rs = (if rs = [] then expected else al_record_hash (last rs))"

lemma verify_from_append:
  "fst (verify_from E expected (rs @ qs)) \<longleftrightarrow>
     fst (verify_from E expected rs) \<and> fst (verify_from E (chain_end expected rs) qs)"
  by (induction rs arbitrary: expected) (auto simp: chain_end_def)

lemma link_record_simps:
  "al_previous_hash (link_record E rows actor r) = chain_end GENESIS_HASH (chain_order E rows)"
  "al_record_hash (link_record E rows actor r) =
     audit_hash E (al_previous_hash (link_record E rows actor r)) (link_record E rows actor r)"
  "audit_key E (link_record E rows actor r) = audit_key E r"
  by (auto simp: link_record_def latest_record_def chain_end_def Let_def audit_hash_def
      audit_key_def canonical_payload_def split: list.splits)

lemma verify_chain_link:
  assumes "fst (verify_chain E rows)"
    and "\<forall>q \<in> set rows. audit_key E q < audit_key E r"
  shows "fst (verify_chain E (link_record E rows actor r # rows))"
proof -
  have "\<forall>q \<in> set rows. audit_key E q < audit_key E (link_record E rows actor r)"
    using assms(2) by (simp add: link_record_simps)
  then have "chain_order E (link_record E rows actor r # rows) =
      chain_order E rows @ [link_record E rows actor r]"
    by (rule chain_order_append)
  moreover have "fst (verify_from E (chain_end GENESIS_HASH (chain_order E rows))
      [link_record E rows actor r])"
    using link_record_simps(2) [of E rows actor r] by (simp add: link_record_simps(1))
  ultimately show ?thesis
    using assms(1) by (simp add: verify_chain_def verify_from_append)
qed

text \<open>
  The invariant of the log under a clock that always moves forward: every record was stamped
  at an earlier reading, and the chain verifies.
\<close>

definition audit_ok :: "env \<Rightarrow> 'z audit_st_scheme \<Rightarrow> bool" where
  "audit_ok E s \<longleftrightarrow>
     (\<forall>r \<in> set (audit_logs s). \<exists>n < clock_reads s. al_created_at r = e_now E n) \<and>
     fst (verify_chain E (audit_logs s))"

lemma audit_ok_init: "audit_logs s = [] \<Longrightarrow> audit_ok E s"
  by (simp add: audit_ok_def verify_chain_def chain_order_def)

lemma audit_ok_world_mono: "world_mono (audit_ok E)"
  unfolding world_mono_def audit_ok_def by simp (meson less_le_trans)

lemma audit_ok_step:
  assumes mono: "strict_mono (e_now E)" and ok: "audit_ok E s"
  shows "audit_ok E (audited (new_audit E a u t k b f m s) s)"
proof -
  let ?r = "new_audit E a u t k b f m s"
  have "al_created_at q < e_now E (clock_reads s)" if "q \<in> set (audit_logs s)" for q
    using ok that mono by (auto simp: audit_ok_def strict_mono_def)
  then have key: "\<forall>q \<in> set (audit_logs s). audit_key E q < audit_key E ?r"
    by (auto simp: audit_key_def less_prod_def)
  then have "fst (verify_chain E (?r # audit_logs s))"
    using ok unfolding new_audit_def link_record_simps audit_ok_def
    by (auto intro!: verify_chain_link)
  moreover have "\<exists>n < Suc (clock_reads s). al_created_at q = e_now E n"
    if "q \<in> set (audit_logs s)" for q
    using ok that by (auto simp: audit_ok_def intro: less_SucI)
  ultimately show ?thesis
    by (auto simp: audit_ok_def)
qed

interpretation audit_chain: state_relation "keeps (audit_ok E)" for E
  by (rule state_relation_keeps [OF audit_ok_world_mono])

interpretation audit_growth: state_relation "appends_only audit_logs"
  by (rule state_relation_appends) (simp add: world_free_def)

lemma audit_growth_event [intro]: "appends_only audit_logs s (audited r s)"
  by (rule appends_only_Cons) auto

interpretation audit_immutable: immutable_log audit_logs "\<lambda>b. audit_save E b actor" audit_delete
  for E actor
  by unfold_locales
     (auto simp: audit_save_def audit_delete_def raise_def mbind_def mseq_def gets_def modify_def
       ret_def Let_def)

subsection \<open>What the hash of a record covers\<close>

text \<open>
  \<open>json.dumps(payload, sort_keys=True)\<close> writes the keys of every object in order, so it tells
  two values apart exactly if they differ in more than the order of their keys. \<open>texts_apart\<close>
  says so of \<open>e_json_dumps\<close>, and that different keys and times have different texts.
\<close>

fun key_sorted :: "json \<Rightarrow> json" where
  "key_sorted (JList js) = JList (map key_sorted js)"
| "key_sorted (JObj kvs) = JObj (sort_key fst (map (\<lambda>kv. (fst kv, key_sorted (snd kv))) kvs))"
| "key_sorted j = j"

definition texts_apart :: "env \<Rightarrow> bool" where
  "texts_apart E \<longleftrightarrow> (\<forall>a b. e_json_dumps E a = e_json_dumps E b \<longleftrightarrow> key_sorted a = key_sorted b) \<and>
     inj (e_str_uuid E) \<and> inj (e_isoformat E) \<and> inj (e_content_type_id E)"

text \<open>What is hashed for a stored record, and the columns it covers.\<close>

definition hash_text :: "env \<Rightarrow> audit_record \<Rightarrow> string" where
  "hash_text E r = al_previous_hash r @ '':'' @ canonical_payload E r"

definition hashed_fields ::
  "audit_record \<Rightarrow> (string \<times> string \<times> uuid option \<times> model option \<times> string) \<times>
     (json \<times> json \<times> json) \<times> string \<times> time" where
  "hashed_fields r = ((al_action r, al_actor_label r, al_tenant r, al_content_type r, al_object_id r),
     (key_sorted (opt_json (al_before r)), key_sorted (opt_json (al_after r)), key_sorted (al_metadata r)),
     al_correlation_id r, al_created_at r)"

lemma distinct_keys_set_eq:
  assumes "map fst xs = map fst ys" and "distinct (map fst xs)" and "set xs = set ys"
  shows "xs = ys"
proof (rule nth_equalityI)
  show len: "length xs = length ys"
    using assms(1) by (rule map_eq_imp_length_eq)
  fix i assume i: "i < length xs"
  then obtain j where j: "j < length ys" "xs ! i = ys ! j"
    using assms(3) by (metis in_set_conv_nth)
  have "map fst xs ! i = map fst xs ! j"
    using i j len assms(1) by (metis nth_map)
  then have "i = j"
    using nth_eq_iff_index_eq [OF assms(2), of i j] i j(1) len by simp
  with j(2) show "xs ! i = ys ! i" by simp
qed

lemma key_sorted_object:
  assumes "map fst xs = map fst ys" and "distinct (map fst xs)"
  shows "key_sorted (JObj xs) = key_sorted (JObj ys) \<longleftrightarrow>
    map (\<lambda>kv. key_sorted (snd kv)) xs = map (\<lambda>kv. key_sorted (snd kv)) ys" (is "?l \<longleftrightarrow> ?r")
proof -
  let ?f = "\<lambda>kv. (fst kv, key_sorted (snd kv))"
  have keys: "map fst (map ?f xs) = map fst (map ?f ys)" "distinct (map fst (map ?f xs))"
    using assms by (simp_all add: comp_def)
  have "?l \<longleftrightarrow> sort_key fst (map ?f xs) = sort_key fst (map ?f ys)"
    by (simp only: key_sorted.simps json.inject)
  also have "\<dots> \<longleftrightarrow> map ?f xs = map ?f ys"
  proof
    assume "sort_key fst (map ?f xs) = sort_key fst (map ?f ys)"
    from arg_cong [OF this, of set] have "set (map ?f xs) = set (map ?f ys)"
      by (simp only: set_sort)
    then show "map ?f xs = map ?f ys"
      by (rule distinct_keys_set_eq [OF keys])
  qed (rule arg_cong)
  also have "\<dots> \<longleftrightarrow> ?r"
  proof
    assume "map ?f xs = map ?f ys"
    then have "map snd (map ?f xs) = map snd (map ?f ys)" by simp
    then show ?r by (simp add: comp_def)
  next
    assume r: ?r
    have "map ?f zs = zip (map fst zs) (map (\<lambda>kv. key_sorted (snd kv)) zs)" for zs :: "(string \<times> json) list"
      by (induction zs) auto
    then show "map ?f xs = map ?f ys"
      using r assms(1) by simp
  qed
  finally show ?thesis .
qed

lemma canonical_payload_eq_iff:
  assumes "texts_apart E"
  shows "canonical_payload E r = canonical_payload E q \<longleftrightarrow> hashed_fields r = hashed_fields q"
proof -
  have texts: "e_json_dumps E a = e_json_dumps E b \<longleftrightarrow> key_sorted a = key_sorted b" for a b
    using assms by (simp add: texts_apart_def)
  have inj: "e_str_uuid E i = e_str_uuid E j \<longleftrightarrow> i = j" "e_isoformat E t = e_isoformat E u \<longleftrightarrow> t = u"
      "e_content_type_id E m = e_content_type_id E n \<longleftrightarrow> m = n" for i j t u m n
    using assms by (simp_all add: texts_apart_def inj_eq)
  show ?thesis
    unfolding canonical_payload_def texts
    by (subst key_sorted_object)
       (auto simp: hashed_fields_def inj split: option.splits if_splits)
qed

lemma hash_text_eq_iff:
  assumes "texts_apart E" and "al_previous_hash r = al_previous_hash q"
  shows "hash_text E r = hash_text E q \<longleftrightarrow> hashed_fields r = hashed_fields q"
  using canonical_payload_eq_iff [OF assms(1)] assms(2) by (simp add: hash_text_def)

lemma audit_hash_text: "audit_hash E (al_previous_hash r) r = e_sha256 E (hash_text E r)"
  by (simp add: audit_hash_def hash_text_def)

text \<open>A writer with this property: every text says where it ends.\<close>

fun tally :: "nat \<Rightarrow> string" where
  "tally 0 = ''.''"
| "tally (Suc n) = CHR ''1'' # tally n"

fun written :: "json \<Rightarrow> string" where
  "written JNull = ''n''"
| "written (JBool b) = (if b then ''t'' else ''f'')"
| "written (JInt i) = (if i < 0 then ''-'' else ''+'') @ tally (nat \<bar>i\<bar>)"
| "written (JStr s) = ''s'' @ tally (length s) @ s"
| "written (JList js) = ''l'' @ tally (length js) @ concat (map written js)"
| "written (JObj kvs) = ''o'' @ tally (length kvs) @
     concat (map (\<lambda>kv. tally (length (fst kv)) @ fst kv @ written (snd kv)) kvs)"

lemma tally_prefix_free: "tally m @ x = tally n @ y \<longleftrightarrow> m = n \<and> x = y"
proof (induction m arbitrary: n)
  case 0 then show ?case by (cases n) auto
next
  case (Suc m) then show ?case by (cases n) auto
qed

lemma concat_prefix_free:
  assumes "\<And>a b x y. a \<in> set as \<Longrightarrow> f a @ x = f b @ y \<Longrightarrow> a = b \<and> x = y"
    and "length as = length bs" and "concat (map f as) @ x = concat (map f bs) @ y"
  shows "as = bs \<and> x = y"
  using assms
proof (induction as arbitrary: bs)
  case (Cons a as)
  then obtain b bs' where bs: "bs = b # bs'" "length as = length bs'" by (cases bs) auto
  with Cons.prems(3) have "f a @ (concat (map f as) @ x) = f b @ (concat (map f bs') @ y)" by simp
  from Cons.prems(1) [OF _ this] have "a = b" "concat (map f as) @ x = concat (map f bs') @ y" by auto
  with Cons.IH [of bs'] Cons.prems(1) bs show ?case by auto
qed simp

lemma written_prefix_free: "written a @ x = written b @ y \<Longrightarrow> a = b \<and> x = y"
proof (induction a arbitrary: b x y)
  case (JStr s)
  then show ?case by (cases b) (auto simp: tally_prefix_free split: if_splits)
next
  case (JInt i)
  then show ?case by (cases b) (auto simp: tally_prefix_free split: if_splits)
next
  case (JList js)
  then obtain ks where b: "b = JList ks" "length js = length ks"
      "concat (map written js) @ x = concat (map written ks) @ y"
    by (cases b) (auto simp: tally_prefix_free split: if_splits)
  from concat_prefix_free [OF JList.IH b(2,3)] show ?case using b(1) by auto
next
  case (JObj kvs)
  let ?w = "\<lambda>kv. tally (length (fst kv)) @ fst kv @ written (snd kv)"
  from JObj.prems obtain ks where b: "b = JObj ks" "length kvs = length ks"
      "concat (map ?w kvs) @ x = concat (map ?w ks) @ y"
    by (cases b) (auto simp: tally_prefix_free split: if_splits)
  have "kv = lw \<and> x = y" if "kv \<in> set kvs" "?w kv @ x = ?w lw @ y" for kv lw x y
  proof -
    from that(2) have "length (fst kv) = length (fst lw)"
        "fst kv @ (written (snd kv) @ x) = fst lw @ (written (snd lw) @ y)"
      by (simp_all add: tally_prefix_free)
    then have key: "fst kv = fst lw" and rest: "written (snd kv) @ x = written (snd lw) @ y"
      by simp_all
    have "snd kv \<in> Basic_BNFs.snds kv"
      by (cases kv) simp
    from JObj.IH [OF that(1) this rest] key show ?thesis
      by (simp add: prod_eq_iff)
  qed
  from concat_prefix_free [OF this b(2,3)] show ?case using b(1) by auto
next
  case JNull
  then show ?case by (cases b) (auto split: if_splits)
next
  case (JBool c)
  then show ?case by (cases b) (auto split: if_splits)
qed

lemma texts_apart_written:
  assumes "inj (e_str_uuid E)" and "inj (e_isoformat E)" and "inj (e_content_type_id E)"
  shows "texts_apart (E\<lparr>e_json_dumps := \<lambda>j. written (key_sorted j)\<rparr>)"
  using assms written_prefix_free [of _ "[]" _ "[]"] by (auto simp: texts_apart_def)

subsection \<open>What tampering does to an intact chain\<close>

lemma verify_from_link:
  assumes "fst (verify_from E expected (rs @ r # qs))"
  shows "al_previous_hash r = chain_end expected rs"
    and "al_record_hash r = audit_hash E (al_previous_hash r) r"
    and "fst (verify_from E (al_record_hash r) qs)"
  using assms by (auto simp: verify_from_append split: if_splits)

lemma tampered_payload_detected:
  assumes "fst (verify_from E g (rs @ r # qs))"
    and "al_previous_hash r' = al_previous_hash r" and "al_record_hash r' = al_record_hash r"
    and "audit_hash E (al_previous_hash r) r' \<noteq> audit_hash E (al_previous_hash r) r"
  shows "\<not> fst (verify_from E g (rs @ r' # qs))"
  using assms verify_from_link(2) [OF assms(1)] by (auto simp: verify_from_append)

lemma tampered_hash_detected:
  assumes "fst (verify_from E g (rs @ r # q # qs))" and "al_record_hash r' \<noteq> al_record_hash r"
  shows "\<not> fst (verify_from E g (rs @ r' # q # qs))"
  using assms by (auto simp: verify_from_append split: if_splits)

lemma deleted_record_detected:
  assumes "fst (verify_from E g (rs @ r # q # qs))" and "al_record_hash r \<noteq> chain_end g rs"
  shows "\<not> fst (verify_from E g (rs @ q # qs))"
  using assms by (auto simp: verify_from_append split: if_splits)

lemma truncated_chain_intact:
  "fst (verify_from E g (rs @ qs)) \<Longrightarrow> fst (verify_from E g rs)"
  by (simp add: verify_from_append)

subsection \<open>Properties\<close>

text \<open>The arguments of one audit event.\<close>

record audit_call =
  ac_action :: string
  ac_actor :: "user option"
  ac_tenant :: "uuid option"
  ac_target :: "(model \<times> uuid) option"
  ac_before :: "json option"
  ac_after :: "json option"
  ac_metadata :: json

definition record_call :: "env \<Rightarrow> audit_call \<Rightarrow> ('z audit_st_scheme, unit) pm" where
  "record_call E c = mseq (record_audit_event E (ac_action c) (ac_actor c) (ac_tenant c)
     (ac_target c) (ac_before c) (ac_after c) (ac_metadata c)) (ret ())"

lemma audit_chain_events:
  assumes "strict_mono (e_now E)"
  shows "upholds (keeps (audit_ok E)) (for_each calls (record_call E))"
proof -
  have "upholds (keeps (audit_ok E)) (record_call E c)" for c
    unfolding record_call_def
    by (intro audit_chain.combinator_rules upholdsI)
       (auto simp: keeps_def Let_def intro: audit_ok_step [OF assms])
  then show ?thesis
    by (rule audit_chain.upholds_for_each)
qed

lemma verify_from_result: "fst (verify_from E g rs) \<Longrightarrow> verify_from E g rs = (True, None)"
  by (induction rs arbitrary: g) (auto split: if_splits)

text \<open>
  C17 (\<open>AuditLog.save\<close>, \<open>verify_chain\<close>): under a clock that always moves forward, whatever
  sequence of audit events is recorded into an empty log, in one request or many, the chain
  verifies; and the records are only ever added.
\<close>

theorem audit_chain_intact:
  assumes "strict_mono (e_now E)" and "audit_logs s = []"
    and "for_each calls (record_call E) s = (r, t)"
  shows "verify_chain E (audit_logs t) = (True, None)"
proof -
  from upholdsD [OF audit_chain_events [OF assms(1)] assms(3)] have "audit_ok E t"
    using audit_ok_init [OF assms(2)] by (simp add: keeps_def)
  then show ?thesis
    by (simp add: audit_ok_def verify_chain_def verify_from_result)
qed

definition example_audit_st :: audit_st where
  "example_audit_st = \<lparr>clock_reads = 0, draws = 0, tx_broken = False, on_commit = [], broker = [],
     users = [], platform_memberships = [], tenants = [], tenant_memberships = [], audit_logs = []\<rparr>"

definition example_call :: audit_call where
  "example_call = \<lparr>ac_action = ''tenant.approved'', ac_actor = None, ac_tenant = Some (Uuid 7),
     ac_target = None, ac_before = None, ac_after = None, ac_metadata = JObj []\<rparr>"

theorem audit_chain_intact_witness:
  "verify_chain example_env (audit_logs (snd
     (for_each [example_call, example_call] (record_call example_env) example_audit_st))) =
   (True, None)"
  by (rule audit_chain_intact [OF _ _ prod.collapse [symmetric]])
     (simp_all add: strict_mono_def example_audit_st_def)

text \<open>
  C18 (\<open>_canonical_payload\<close>, \<open>verify_chain\<close>): tampering is detected. If, in an intact log, the record \<open>r\<close>
  is replaced by \<open>r'\<close> at its place, the log still verifies exactly if \<open>r'\<close> keeps the link to its
  predecessor, carries the hash of its own contents, and has the same action, actor label, institution,
  object, before, after, metadata, correlation id and time as \<open>r\<close>; only the last record can have others.
  So a hash recomputed for the altered record does not hide the change, and a change of the columns
  outside the hash (actor key, address, user agent) is not detected. Deleting any record but the last
  breaks verification too; dropping records from the end does not. Assumed are that \<open>json.dumps\<close>
  and the texts of keys and times tell values apart, and that the two hashed texts do not collide.
\<close>

theorem audit_tampering_detected:
  assumes "texts_apart E" and "inj_on (e_sha256 E) {hash_text E r, hash_text E r'}"
    and "fst (verify_chain E rows)" and "chain_order E rows = rs @ r # qs"
    and "chain_order E forged = rs @ r' # qs" and "chain_order E pruned = rs @ qs"
    and "chain_order E kept = rs"
  shows "(fst (verify_chain E forged) \<longleftrightarrow>
      al_previous_hash r' = al_previous_hash r \<and>
      al_record_hash r' = audit_hash E (al_previous_hash r') r' \<and>
      (hashed_fields r' = hashed_fields r \<or> qs = [])) \<and>
    (qs \<noteq> [] \<and> al_record_hash r \<noteq> al_previous_hash r \<longrightarrow> \<not> fst (verify_chain E pruned)) \<and>
    fst (verify_chain E kept)"
  unfolding verify_chain_def assms(4-7)
proof (intro conjI)
  have ok: "fst (verify_from E GENESIS_HASH (rs @ r # qs))"
    using assms(3,4) by (simp add: verify_chain_def)
  note link = verify_from_link [OF ok]
  have follows: "al_previous_hash (hd qs) = al_record_hash r" if "qs \<noteq> []"
    using that link(3) by (cases qs) (auto split: if_splits)
  have rest: "fst (verify_from E h qs) \<longleftrightarrow> qs = [] \<or> h = al_record_hash r" for h
    using link(3) by (cases qs) (auto split: if_splits)
  have same: "audit_hash E (al_previous_hash r') r' = al_record_hash r \<longleftrightarrow> hashed_fields r' = hashed_fields r"
    if "al_previous_hash r' = al_previous_hash r"
    using hash_text_eq_iff [OF assms(1) that] assms(2) link(2)
    by (simp add: audit_hash_text inj_on_def) metis
  show "fst (verify_from E GENESIS_HASH (rs @ r' # qs)) \<longleftrightarrow>
      al_previous_hash r' = al_previous_hash r \<and>
      al_record_hash r' = audit_hash E (al_previous_hash r') r' \<and>
      (hashed_fields r' = hashed_fields r \<or> qs = [])"
    using same ok link(1) by (auto simp: verify_from_append rest)
  show "qs \<noteq> [] \<and> al_record_hash r \<noteq> al_previous_hash r \<longrightarrow> \<not> fst (verify_from E GENESIS_HASH (rs @ qs))"
    using link(1) by (auto simp: verify_from_append rest)
  show "fst (verify_from E GENESIS_HASH rs)"
    using ok by (simp add: verify_from_append)
qed

fun model_no :: "model \<Rightarrow> int" where
  "model_no MUser = 1" | "model_no MTenant = 2" | "model_no MTenantMembership = 3"
| "model_no MCustomer = 4" | "model_no MCustomerAccount = 5" | "model_no MBill = 6"
| "model_no MControlNumber = 7" | "model_no MPayment = 8" | "model_no MPaymentCallbackEvent = 9"
| "model_no MSettlementBatch = 10" | "model_no MReconciliationException = 11"
| "model_no MMFADevice = 12" | "model_no MBackupCode = 13" | "model_no MApiCredential = 14"

definition chain_env :: env where
  "chain_env = (example_env\<lparr>e_isoformat := \<lambda>t. written (JInt t), e_content_type_id := model_no\<rparr>)
     \<lparr>e_json_dumps := \<lambda>j. written (key_sorted j)\<rparr>"

lemma texts_apart_chain_env: "texts_apart chain_env"
  unfolding chain_env_def
proof (rule texts_apart_written)
  let ?E = "example_env\<lparr>e_isoformat := \<lambda>t. written (JInt t), e_content_type_id := model_no\<rparr>"
  have "i = j" if "replicate (uuid_no i) (CHR ''1'') = replicate (uuid_no j) (CHR ''1'')" for i j
    using that by (metis length_replicate uuid.expand)
  then show "inj (e_str_uuid ?E)"
    by (auto simp: inj_def example_env_def)
  show "inj (e_isoformat ?E)"
    using written_prefix_free [of "JInt _" "[]" "JInt _" "[]"] by (auto simp: inj_def)
  have "m = n" if "model_no m = model_no n" for m n
    using that by (cases m; cases n) simp_all
  then show "inj (e_content_type_id ?E)"
    by (auto simp: inj_def)
qed

lemma chain_env_simps [simp]: "e_now chain_env = int" "e_sha256 chain_env = (\<lambda>t. t)"
  by (simp_all add: chain_env_def example_env_def)

text \<open>Two events in a row, and an attacker who rewrites the first and computes its hash again.\<close>

definition first_entry :: audit_record where
  "first_entry = new_audit chain_env ''tenant.approved'' None (Some (Uuid 7)) None None None (JObj [])
     example_audit_st"

definition second_entry :: audit_record where
  "second_entry = new_audit chain_env ''tenant.approved'' None (Some (Uuid 7)) None None None (JObj [])
     (audited first_entry example_audit_st)"

definition forge :: "env \<Rightarrow> audit_record \<Rightarrow> audit_record" where
  "forge E r = (let f = r\<lparr>al_action := ''forged''\<rparr>
     in f\<lparr>al_record_hash := audit_hash E (al_previous_hash f) f\<rparr>)"

lemma two_entries:
  "fst (verify_chain chain_env [second_entry, first_entry])"
  "al_created_at r = al_created_at first_entry \<Longrightarrow> chain_order chain_env [second_entry, r] = [r, second_entry]"
proof -
  have mono: "strict_mono (e_now chain_env)"
    by (simp add: strict_mono_def)
  have "audit_ok chain_env example_audit_st"
    by (rule audit_ok_init) (simp add: example_audit_st_def)
  from audit_ok_step [OF mono audit_ok_step [OF mono this]]
  show "fst (verify_chain chain_env [second_entry, first_entry])"
    unfolding audit_ok_def first_entry_def second_entry_def by (simp add: example_audit_st_def)
  assume "al_created_at r = al_created_at first_entry"
  then have "audit_key chain_env r < audit_key chain_env second_entry"
    by (simp add: audit_key_def less_prod_def first_entry_def second_entry_def example_audit_st_def)
  then show "chain_order chain_env [second_entry, r] = [r, second_entry]"
    using chain_order_append [of "[r]" chain_env second_entry] by (simp add: chain_order_def)
qed

theorem audit_tampering_detected_witness:
  "\<not> fst (verify_chain chain_env [second_entry, forge chain_env first_entry]) \<and>
   fst (verify_chain chain_env [second_entry, first_entry\<lparr>al_user_agent := ''curl''\<rparr>])"
proof -
  have tampered: "fst (verify_chain chain_env [second_entry, r]) \<longleftrightarrow>
      al_previous_hash r = al_previous_hash first_entry \<and>
      al_record_hash r = audit_hash chain_env (al_previous_hash r) r \<and>
      hashed_fields r = hashed_fields first_entry"
    if "al_created_at r = al_created_at first_entry" for r
    using audit_tampering_detected [OF texts_apart_chain_env _ two_entries(1),
        of first_entry r "[]" "[second_entry]" "[second_entry, r]" "[second_entry]" "[]"] two_entries(2) that
    by (simp add: chain_order_def)
  have "hashed_fields (forge chain_env first_entry) \<noteq> hashed_fields first_entry"
    by (simp add: hashed_fields_def forge_def first_entry_def Let_def)
  moreover have "al_record_hash first_entry = audit_hash chain_env (al_previous_hash first_entry) first_entry"
    by (simp add: first_entry_def new_audit_def link_record_simps(2) [symmetric])
  ultimately show ?thesis
    by (simp add: tampered forge_def Let_def hashed_fields_def audit_hash_def canonical_payload_def)
qed

text \<open>
  Also (\<open>AuditLog.save\<close>, \<open>verify_chain\<close>): the link is made to the row with the latest
  \<open>created_at\<close>, and verification walks the rows in the order of \<open>created_at\<close>. When the clock
  steps back between two events, an untampered log is reported as broken.
\<close>

theorem audit_clock_step_back:
  "\<not> fst (verify_chain (example_env\<lparr>e_now := \<lambda>n. if n = 0 then 5 else 3\<rparr>)
     (audit_logs (snd (for_each [example_call, example_call]
        (record_call (example_env\<lparr>e_now := \<lambda>n. if n = 0 then 5 else 3\<rparr>)) example_audit_st))))"
  by code_simp

text \<open>
  Also (\<open>AuditLog.save\<close>, \<open>AuditLog.delete\<close>): an existing record can be neither saved again nor
  deleted; both raise and change nothing, and a new one is put in front of the unchanged rest.
\<close>

theorem audit_records_immutable:
  "audit_save E False actor r s =
     (Inl (AuditLogImmutableError ''Audit log records cannot be modified after creation.''), s) \<and>
   audit_delete r s = (Inl (AuditLogImmutableError ''Audit log records cannot be deleted.''), s) \<and>
   succeeds (audit_save E True actor r) (\<lambda>q t. audit_logs t = q # audit_logs s \<and>
     al_previous_hash q = (case latest_record E (audit_logs s) of
        Some l \<Rightarrow> al_record_hash l | None \<Rightarrow> GENESIS_HASH)) s"
  by (simp add: audit_save_def audit_delete_def raise_def Let_def link_record_def)

end
