(* ===== verification/Totp.thy ===== *)
theory Totp
  imports CoreSupport "HOL-Library.Word"
begin

unbundle bit_operations_syntax

text \<open>
  Time-based one-time passwords (\<open>apps/accounts/totp.py\<close>): base 32, HOTP and the verification
  window. HMAC-SHA1 is the parameter \<open>hm\<close>, from key and message to the digest, whose length of 20
  bytes is the only thing used of it. Times are in whole seconds; codes are ASCII text.
\<close>

type_synonym byte = "8 word"

type_synonym hmac_sha1 = "byte list \<Rightarrow> byte list \<Rightarrow> byte list"

subsection \<open>Numerals in a base\<close>

text \<open>The \<open>k\<close> lowest digits of \<open>n\<close>, most significant first, and back.\<close>

fun to_base :: "nat \<Rightarrow> nat \<Rightarrow> nat \<Rightarrow> nat list" where
  "to_base b 0 n = []"
| "to_base b (Suc k) n = to_base b k (n div b) @ [n mod b]"

definition from_base :: "nat \<Rightarrow> nat list \<Rightarrow> nat" where
  "from_base b ds = foldl (\<lambda>a d. a * b + d) 0 ds"

lemma from_base_simps [simp]:
  "from_base b [] = 0" "from_base b (ds @ [d]) = from_base b ds * b + d"
  by (simp_all add: from_base_def)

lemma length_to_base [simp]: "length (to_base b k n) = k"
  by (induction k arbitrary: n) simp_all

lemma to_base_less: "d \<in> set (to_base b k n) \<Longrightarrow> 0 < b \<Longrightarrow> d < b"
  by (induction k arbitrary: n) auto

lemma from_to_base: "0 < b \<Longrightarrow> from_base b (to_base b k n) = n mod b ^ k"
  by (induction k arbitrary: n) (simp_all add: mod_mult2_eq mult.commute)

lemma to_from_base:
  "\<forall>d \<in> set ds. d < b \<Longrightarrow> to_base b (length ds) (from_base b ds) = ds"
  by (induction ds rule: rev_induct) simp_all

lemma from_base_less: "\<forall>d \<in> set ds. d < b \<Longrightarrow> from_base b ds < b ^ length ds"
proof (induction ds rule: rev_induct)
  case (snoc d ds)
  then have "Suc (from_base b ds) \<le> b ^ length ds" "d < b"
    by auto
  then have "(from_base b ds + 1) * b \<le> b ^ length ds * b"
    by (intro mult_right_mono) simp_all
  with \<open>d < b\<close> show ?case
    by (simp add: algebra_simps)
qed simp

text \<open>\<open>int.to_bytes\<close> and \<open>int.from_bytes\<close>, big-endian.\<close>

definition to_bytes :: "nat \<Rightarrow> nat \<Rightarrow> byte list" where
  "to_bytes k n = map of_nat (to_base 256 k n)"

definition from_bytes :: "byte list \<Rightarrow> nat" where
  "from_bytes bs = from_base 256 (map unat bs)"

lemma unat_byte_less: "unat (b :: byte) < 256"
proof -
  have "unat b < 2 ^ LENGTH(8)"
    by (rule unsigned_less)
  then show ?thesis
    by simp
qed

lemma to_from_bytes: "to_bytes (length bs) (from_bytes bs) = bs"
proof -
  have "\<forall>d \<in> set (map unat bs). d < 256"
    using unat_byte_less by auto
  from to_from_base [OF this] show ?thesis
    by (simp add: to_bytes_def from_bytes_def comp_def)
qed

subsection \<open>Base 32\<close>

definition b32alphabet :: string where
  "b32alphabet = ''ABCDEFGHIJKLMNOPQRSTUVWXYZ234567''"

definition b32rev :: "char \<Rightarrow> nat option" where
  "b32rev c = (let n = (of_char c :: nat) in
     if 65 \<le> n \<and> n \<le> 90 then Some (n - 65)
     else if 50 \<le> n \<and> n \<le> 55 then Some (n - 24) else None)"

text \<open>\<open>base64.b32encode\<close>, for input in whole groups of five bytes, as \<open>generate_secret\<close> gives it.\<close>

fun b32encode :: "byte list \<Rightarrow> string" where
  "b32encode (a # b # c # d # e # bs) =
     map (\<lambda>i. b32alphabet ! i) (to_base 32 8 (from_bytes [a, b, c, d, e])) @ b32encode bs"
| "b32encode bs = []"

text \<open>
  \<open>base64.b32decode\<close>: whole groups of eight characters; padding may replace 1, 3, 4 or 6 of the
  last group, whose bytes are cut accordingly.
\<close>

fun b32groups :: "nat list \<Rightarrow> byte list" where
  "b32groups (a # b # c # d # e # f # g # h # ds) =
     to_bytes 5 (from_base 32 [a, b, c, d, e, f, g, h]) @ b32groups ds"
| "b32groups [] = []"
| "b32groups ds =
     (let pad = 8 - length ds
      in take ((43 - 5 * pad) div 8) (to_bytes 5 (from_base 32 ds * 2 ^ (5 * pad))))"

definition b32decode :: "string \<Rightarrow> exn + byte list" where
  "b32decode s =
     (let body = rev (dropWhile (\<lambda>c. c = CHR ''='') (rev s)); pad = length s - length body in
      if length s mod 8 \<noteq> 0 then Inl (ValueError ''Incorrect padding'')
      else (case those (map b32rev body) of
          None \<Rightarrow> Inl (ValueError ''Non-base32 digit found'')
        | Some ds \<Rightarrow> if pad \<notin> {0, 1, 3, 4, 6} then Inl (ValueError ''Incorrect padding'')
                     else Inr (b32groups ds)))"

text \<open>\<open>generate_secret\<close> on the bytes the operating system gives.\<close>

definition generate_secret :: "byte list \<Rightarrow> string" where
  "generate_secret random = b32encode random"

lemma b32_alphabet:
  "length b32alphabet = 32" "map b32rev b32alphabet = map Some [0..<32]"
  "map upper_char b32alphabet = b32alphabet" "CHR ''='' \<notin> set b32alphabet"
  by (simp_all add: b32alphabet_def b32rev_def upper_char_def upt_rec Let_def)

lemma b32_digits:
  assumes "n < 32"
  shows "b32rev (b32alphabet ! n) = Some n \<and> upper_char (b32alphabet ! n) = b32alphabet ! n \<and>
     b32alphabet ! n \<noteq> CHR ''=''"
proof (intro conjI)
  show "b32alphabet ! n \<noteq> CHR ''=''"
    using assms b32_alphabet(1,4) nth_mem [of n b32alphabet] by metis
qed (use assms b32_alphabet(1-3) nth_map [of n b32alphabet b32rev] nth_map [of n b32alphabet upper_char]
    in simp_all)

lemma b32_group: "from_bytes [a, b, c, d, e] < 32 ^ 8"
proof -
  have "from_base 256 (map unat [a, b, c, d, e]) < 256 ^ 5"
    using from_base_less [of "map unat [a, b, c, d, e]" 256] unat_byte_less by simp
  then show ?thesis
    by (simp add: from_bytes_def)
qed

lemma b32groups_append:
  "length ds = 8 \<Longrightarrow> b32groups (ds @ es) = to_bytes 5 (from_base 32 ds) @ b32groups es"
  by (auto simp: length_Suc_conv numeral_eq_Suc)

text \<open>What \<open>b32encode\<close> writes is read back, in either case and with the padding it needs.\<close>

lemma b32_digits_of:
  assumes "length bs mod 5 = 0"
  obtains ds where "b32encode bs = map (\<lambda>i. b32alphabet ! i) ds" and "\<forall>d \<in> set ds. d < 32"
    and "length ds mod 8 = 0" and "b32groups ds = bs"
  using assms
proof (induction bs arbitrary: thesis rule: b32encode.induct)
  case (1 a b c d e bs)
  let ?g = "to_base 32 8 (from_bytes [a, b, c, d, e])"
  obtain ds where ds: "b32encode bs = map (\<lambda>i. b32alphabet ! i) ds" "\<forall>d \<in> set ds. d < 32"
      "length ds mod 8 = 0" "b32groups ds = bs"
    using 1 by auto
  have "b32groups (?g @ ds) = to_bytes 5 (from_base 32 ?g) @ bs"
    by (simp add: b32groups_append ds(4))
  also have "from_base 32 ?g = from_bytes [a, b, c, d, e]"
    using b32_group by (simp add: from_to_base)
  also have "to_bytes 5 (from_bytes [a, b, c, d, e]) = [a, b, c, d, e]"
    using to_from_bytes [of "[a, b, c, d, e]"] by (simp add: eval_nat_numeral)
  finally have "b32groups (?g @ ds) = a # b # c # d # e # bs"
    by simp
  moreover have "\<forall>d \<in> set (?g @ ds). d < 32"
    using ds(2) to_base_less by fastforce
  moreover have "length (?g @ ds) mod 8 = 0"
    using ds(3) by simp
  ultimately show ?case
    using ds(1) by (intro 1(2) [of "?g @ ds"]) (simp_all only: b32encode.simps map_append)
qed auto

lemma those_map_Some: "(\<And>x. x \<in> set xs \<Longrightarrow> f x = Some (g x)) \<Longrightarrow> those (map f xs) = Some (map g xs)"
  by (induction xs) auto

lemma b32decode_encode:
  assumes "length bs mod 5 = 0"
  shows "b32decode (py_upper (b32encode bs)) = Inr bs" and "length (b32encode bs) mod 8 = 0"
    and "py_upper (b32encode bs) = b32encode bs"
proof -
  obtain ds where ds: "b32encode bs = map (\<lambda>i. b32alphabet ! i) ds" "\<forall>d \<in> set ds. d < 32"
      "length ds mod 8 = 0" "b32groups ds = bs"
    using b32_digits_of [OF assms] .
  have upper: "py_upper (b32encode bs) = b32encode bs"
    unfolding py_upper_def ds(1) map_map using ds(2) b32_digits by auto
  have body: "dropWhile (\<lambda>c. c = CHR ''='') (rev (b32encode bs)) = rev (b32encode bs)"
  proof (rule dropWhile_id)
    have "CHR ''='' \<notin> set (b32encode bs)"
      unfolding ds(1) using ds(2) b32_digits by (metis (no_types, lifting) imageE list.set_map)
    then show "rev (b32encode bs) = [] \<or> \<not> hd (rev (b32encode bs)) = CHR ''=''"
      by (metis list.set_sel(1) set_rev)
  qed
  have "those (map b32rev (b32encode bs)) = Some (map id ds)"
    unfolding ds(1) map_map by (rule those_map_Some) (use ds(2) b32_digits in auto)
  moreover show "length (b32encode bs) mod 8 = 0"
    using ds(1,3) by simp
  ultimately show "b32decode (py_upper (b32encode bs)) = Inr bs"
    by (simp add: b32decode_def Let_def upper body ds(4))
  show "py_upper (b32encode bs) = b32encode bs"
    by (rule upper)
qed


subsection \<open>HOTP\<close>

text \<open>\<open>str\<close> of a number and \<open>zfill\<close>.\<close>

fun nat_str :: "nat \<Rightarrow> string" where
  "nat_str n = (if n < 10 then [char_of (48 + n)] else nat_str (n div 10) @ [char_of (48 + n mod 10)])"

declare nat_str.simps [simp del]

definition zfill :: "nat \<Rightarrow> string \<Rightarrow> string" where
  "zfill w s = replicate (w - length s) (CHR ''0'') @ s"

definition DIGITS :: nat where
  "DIGITS = 6"

definition PERIOD_SECONDS :: int where
  "PERIOD_SECONDS = 30"

definition VALID_WINDOW :: int where
  "VALID_WINDOW = 1"

text \<open>\<open>struct.pack(">Q", counter)\<close> and \<open>struct.unpack(">I", \<dots>)\<close>; both raise \<open>struct.error\<close>.\<close>

definition pack_Q :: "int \<Rightarrow> exn + byte list" where
  "pack_Q n = (if 0 \<le> n \<and> n < 2 ^ 64 then Inr (to_bytes 8 (nat n))
               else Inl (OtherError ''struct.error: int too large to convert''))"

definition unpack_I :: "byte list \<Rightarrow> exn + 32 word" where
  "unpack_I bs = (if length bs = 4 then Inr (of_nat (from_bytes bs))
                  else Inl (OtherError ''struct.error: unpack requires a buffer of 4 bytes''))"

definition and_then :: "exn + 'a \<Rightarrow> ('a \<Rightarrow> exn + 'b) \<Rightarrow> exn + 'b" where
  "and_then r f = (case r of Inl e \<Rightarrow> Inl e | Inr x \<Rightarrow> f x)"

lemma and_then_simps [simp]: "and_then (Inl e) f = Inl e" "and_then (Inr x) f = f x"
  by (simp_all add: and_then_def)

definition hotp :: "hmac_sha1 \<Rightarrow> string \<Rightarrow> int \<Rightarrow> exn + string" where
  "hotp hm secret_b32 counter =
     (let padding = replicate ((8 - length secret_b32 mod 8) mod 8) (CHR ''='') in
      and_then (b32decode (py_upper secret_b32 @ padding)) (\<lambda>key.
      and_then (pack_Q counter) (\<lambda>message.
      let digest = hm key message;
          offset = unat (last digest AND 0x0F) in
      and_then (unpack_I (take 4 (drop offset digest))) (\<lambda>word.
      let truncated = word AND 0x7FFFFFFF in
      Inr (zfill DIGITS (nat_str (unat truncated mod 10 ^ DIGITS)))))))"

definition generate_totp :: "hmac_sha1 \<Rightarrow> string \<Rightarrow> int \<Rightarrow> exn + string" where
  "generate_totp hm secret_b32 for_time = hotp hm secret_b32 (for_time div PERIOD_SECONDS)"

text \<open>The loop over the window, the earlier period first.\<close>

fun any_match :: "hmac_sha1 \<Rightarrow> string \<Rightarrow> string \<Rightarrow> int \<Rightarrow> int list \<Rightarrow> exn + bool" where
  "any_match hm secret code t [] = Inr False"
| "any_match hm secret code t (offset # offsets) =
     and_then (generate_totp hm secret (t + offset * PERIOD_SECONDS)) (\<lambda>candidate.
     and_then (compare_digest candidate code) (\<lambda>same.
       if same then Inr True else any_match hm secret code t offsets))"

definition verify_totp :: "hmac_sha1 \<Rightarrow> string \<Rightarrow> string \<Rightarrow> int \<Rightarrow> int \<Rightarrow> exn + bool" where
  "verify_totp hm secret code valid_window t =
     (if code = [] \<or> \<not> py_isdigit (py_strip code) then Inr False
      else any_match hm secret (py_strip code) t [- valid_window..valid_window])"

subsection \<open>The algorithm of RFC 4226\<close>

text \<open>Dynamic truncation as the standard writes it, on the bytes of the digest.\<close>

definition rfc4226 :: "hmac_sha1 \<Rightarrow> byte list \<Rightarrow> nat \<Rightarrow> nat" where
  "rfc4226 hm key counter =
     (let hs = hm key (to_bytes 8 counter); o1 = unat (hs ! 19) mod 16 in
      ((unat (hs ! o1) mod 128) * 2 ^ 24 + unat (hs ! (o1 + 1)) * 2 ^ 16 +
       unat (hs ! (o1 + 2)) * 2 ^ 8 + unat (hs ! (o1 + 3))) mod 10 ^ 6)"

lemma truncation_arith:
  fixes a b c d :: nat
  assumes "b < 256" "c < 256" "d < 256"
  shows "(a * 2 ^ 24 + b * 2 ^ 16 + c * 2 ^ 8 + d) mod 2 ^ 31 = (a mod 128) * 2 ^ 24 + b * 2 ^ 16 + c * 2 ^ 8 + d"
proof -
  obtain q r where a: "a = 128 * q + r" "r < 128"
    using mult_div_mod_eq [of 128 a] mod_less_divisor [of 128 a] by (metis zero_less_numeral)
  have "a * 2 ^ 24 + b * 2 ^ 16 + c * 2 ^ 8 + d = (r * 2 ^ 24 + b * 2 ^ 16 + c * 2 ^ 8 + d) + 2 ^ 31 * q"
    by (simp add: a algebra_simps)
  moreover have "r * 2 ^ 24 + b * 2 ^ 16 + c * 2 ^ 8 + d < 2 ^ 31"
    using assms a(2) by simp
  ultimately have "(a * 2 ^ 24 + b * 2 ^ 16 + c * 2 ^ 8 + d) mod 2 ^ 31 = r * 2 ^ 24 + b * 2 ^ 16 + c * 2 ^ 8 + d"
    by (simp only: mod_mult_self2 mod_less)
  with a show ?thesis
    by simp
qed

lemma mask_31: "unat ((of_nat n :: 32 word) AND 0x7FFFFFFF) = n mod 2 ^ 31"
proof -
  have "(0x7FFFFFFF :: 32 word) = mask 31"
    by (simp add: mask_eq_exp_minus_1)
  then have "unat ((of_nat n :: 32 word) AND 0x7FFFFFFF) = unat (take_bit 31 (of_nat n :: 32 word))"
    by (simp only: take_bit_eq_mask)
  also have "\<dots> = take_bit 31 (take_bit 32 n)"
    by (simp only: unsigned_take_bit_eq unsigned_of_nat) simp
  also have "\<dots> = n mod 2 ^ 31"
    by (simp only: take_bit_take_bit) (simp add: take_bit_eq_mod)
  finally show ?thesis .
qed

lemma low_nibble: "unat ((b :: byte) AND 0x0F) = unat b mod 16"
proof -
  have "(0x0F :: byte) = mask 4"
    by (simp add: mask_eq_exp_minus_1)
  then have "unat (b AND 0x0F) = unat (take_bit 4 b)"
    by (simp only: take_bit_eq_mask)
  also have "\<dots> = take_bit 4 (unat b)"
    by (rule unsigned_take_bit_eq)
  also have "\<dots> = unat b mod 16"
    by (simp add: take_bit_eq_mod)
  finally show ?thesis .
qed

subsection \<open>Codes as text\<close>

definition code_text :: "nat \<Rightarrow> string" where
  "code_text n = map (\<lambda>d. char_of (48 + d)) (to_base 10 6 n)"

lemma to_base_zero: "to_base b k 0 = replicate k 0"
  by (induction k) (simp_all add: replicate_append_same [symmetric])

lemma char_zero: "CHR ''0'' = char_of (48 :: nat)"
  by code_simp

lemma zfill_nat_str:
  "n < 10 ^ k \<Longrightarrow> 0 < k \<Longrightarrow> zfill k (nat_str n) = map (\<lambda>d. char_of (48 + d)) (to_base 10 k n)"
proof (induction k arbitrary: n)
  case (Suc k)
  show ?case
  proof (cases "n < 10")
    case True
    then show ?thesis
      using char_zero by (simp add: nat_str.simps zfill_def to_base_zero)
  next
    case False
    then have "0 < k" "n div 10 < 10 ^ k"
      using Suc.prems by (auto intro: gr0I)
    from Suc.IH [OF this(2,1)] False show ?thesis
      by (simp add: nat_str.simps [of n] zfill_def)
  qed
qed simp

lemma code_text_digits: "length (code_text n) = 6 \<and> list_all is_digit_char (code_text n) \<and> is_ascii (code_text n)"
proof -
  have "d < 10" if "d \<in> set (to_base 10 6 n)" for d
    using to_base_less [OF that] by simp
  then show ?thesis
    by (fastforce simp: code_text_def list_all_iff is_digit_char_def is_ascii_def Let_def)
qed

lemma code_text_hotp: "zfill DIGITS (nat_str (n mod 10 ^ DIGITS)) = code_text (n mod 10 ^ 6)"
  unfolding DIGITS_def code_text_def by (rule zfill_nat_str) simp_all

text \<open>
  C30 (\<open>_hotp\<close>): whatever the secret and the counter, a code that is computed has exactly six
  decimal digits, leading zeros included.
\<close>

theorem hotp_code_shape:
  "case hotp hm secret counter of
     Inr code \<Rightarrow> length code = 6 \<and> list_all is_digit_char code
   | Inl e \<Rightarrow> (\<exists>m. e = ValueError m) \<or> (\<exists>m. e = OtherError m)"
proof -
  have "\<exists>m. e = ValueError m" if "b32decode s = Inl e" for s e
    using that by (auto simp: b32decode_def Let_def split: if_splits option.splits)
  then show ?thesis
    using code_text_digits
    by (auto simp: hotp_def Let_def and_then_def pack_Q_def unpack_I_def code_text_hotp split: sum.splits)
qed

text \<open>A code, computed from a generated secret, is the number of the standard.\<close>

lemma hotp_rfc4226:
  assumes "length key mod 5 = 0" and "\<And>k m. length (hm k m) = 20" and "0 \<le> counter" "counter < 2 ^ 64"
  shows "hotp hm (generate_secret key) counter = Inr (code_text (rfc4226 hm key (nat counter)))"
proof -
  define hs where "hs = hm key (to_bytes 8 (nat counter))"
  define o1 where "o1 = unat (hs ! 19) mod 16"
  have len: "length hs = 20" and o1: "o1 < 16"
    by (simp_all add: hs_def o1_def assms(2))
  have tail: "drop i hs = hs ! i # drop (Suc i) hs" if "i < 20" for i
    using that len by (simp add: Cons_nth_drop_Suc)
  have cut: "take 4 (drop o1 hs) = [hs ! o1, hs ! (o1 + 1), hs ! (o1 + 2), hs ! (o1 + 3)]"
    using o1 by (simp add: tail [of o1] tail [of "Suc o1"] tail [of "Suc (Suc o1)"]
        tail [of "Suc (Suc (Suc o1))"] numeral_eq_Suc)
  have "last hs = hs ! 19"
    using len by (subst last_conv_nth) auto
  then have offset: "unat (last hs AND 0x0F) = o1"
    by (simp only: low_nibble o1_def)
  have bytes: "from_bytes [a, b, c, d] = unat a * 2 ^ 24 + unat b * 2 ^ 16 + unat c * 2 ^ 8 + unat d" for a b c d
    by (simp add: from_bytes_def from_base_def algebra_simps)
  have number: "unat ((of_nat (from_bytes [a, b, c, d]) :: 32 word) AND 0x7FFFFFFF) =
      (unat a mod 128) * 2 ^ 24 + unat b * 2 ^ 16 + unat c * 2 ^ 8 + unat d" for a b c d
    by (simp only: mask_31 bytes truncation_arith [OF unat_byte_less unat_byte_less unat_byte_less])
  have unpacked: "unpack_I [a, b, c, d] = Inr (of_nat (from_bytes [a, b, c, d]))" for a b c d
    by (simp add: unpack_I_def)
  have key: "b32decode (py_upper (generate_secret key) @ replicate ((8 - length (generate_secret key) mod 8) mod 8) (CHR ''='')) =
      Inr key"
    using b32decode_encode [OF assms(1)] by (simp add: generate_secret_def)
  have packed: "pack_Q counter = Inr (to_bytes 8 (nat counter))"
    using assms(3,4) by (simp add: pack_Q_def)
  show ?thesis
    by (simp only: hotp_def Let_def key packed and_then_simps hs_def [symmetric] offset cut unpacked number
        code_text_hotp rfc4226_def o1_def [symmetric])
qed

text \<open>
  C27 (\<open>verify_totp\<close>): for a secret that \<open>generate_secret\<close> made, a code is accepted exactly when,
  stripped, it is the RFC 4226 code of the current period of 30 seconds, the one before or the one
  after; verification never raises. The 32-bit arithmetic of the code and the formula of the
  standard agree, and the secret survives its base 32 form.
\<close>

theorem totp_accepts_window:
  assumes "length key mod 5 = 0" and "\<And>k m. length (hm k m) = 20" and "30 \<le> t" and "t < 2 ^ 64"
    and "is_ascii code"
  shows "verify_totp hm (generate_secret key) code VALID_WINDOW t =
    Inr (\<exists>i \<in> {- 1, 0, 1}. py_strip code = code_text (rfc4226 hm key (nat (t div 30 + i))))"
proof -
  let ?c = "\<lambda>i. code_text (rfc4226 hm key (nat (t div 30 + i)))"
  have totp: "generate_totp hm (generate_secret key) (t + i * PERIOD_SECONDS) = Inr (?c i)"
    if "i \<in> {- 1, 0, 1}" for i
  proof -
    have "(t + i * PERIOD_SECONDS) div PERIOD_SECONDS = t div 30 + i"
      by (simp add: PERIOD_SECONDS_def)
    moreover have "0 \<le> t div 30 + i" "t div 30 + i < 2 ^ 64"
      using assms(3,4) that by auto
    ultimately show ?thesis
      using hotp_rfc4226 [where hm = hm, OF assms(1,2)] by (simp add: generate_totp_def)
  qed
  have ascii: "is_ascii (py_strip code)"
    using assms(5) by (auto simp: is_ascii_def list_all_iff py_strip_def dest!: set_dropWhileD)
  have same: "compare_digest (?c i) (py_strip code) = Inr (?c i = py_strip code)" for i
    using ascii code_text_digits by (simp add: compare_digest_def)
  have digits: "py_isdigit (?c i)" for i
    using code_text_digits [of "rfc4226 hm key (nat (t div 30 + i))"] by (auto simp: py_isdigit_def)
  have window: "[- VALID_WINDOW..VALID_WINDOW] = [- 1, 0, 1]"
    by code_simp
  have "any_match hm (generate_secret key) (py_strip code) t [- 1, 0, 1] =
      Inr (\<exists>i \<in> {- 1, 0, 1}. py_strip code = ?c i)"
    using totp [of "- 1"] totp [of 0] totp [of 1] same
    by (simp only: any_match.simps insert_iff simp_thms and_then_simps) auto
  moreover have "code \<noteq> [] \<and> py_isdigit (py_strip code)" if matched: "\<exists>i \<in> {- 1, 0, 1}. py_strip code = ?c i"
  proof -
    obtain i where "py_strip code = ?c i"
      using matched by blast
    with digits [of i] show ?thesis
      by (auto simp: py_strip_def py_isdigit_def)
  qed
  ultimately show ?thesis
    unfolding verify_totp_def window
    by (cases "\<exists>i \<in> {- 1, 0, 1}. py_strip code = ?c i") (simp_all only: if_False not_not refl simp_thms if_cancel)
qed

text \<open>A digest whose code starts with a zero.\<close>

definition example_hm :: hmac_sha1 where
  "example_hm k m = [0, 0, 4, 210] @ replicate 16 0"

lemma code_text_unfold:
  "code_text n = map (\<lambda>d. char_of (48 + d)) [n div 10 div 10 div 10 div 10 div 10 mod 10,
     n div 10 div 10 div 10 div 10 mod 10, n div 10 div 10 div 10 mod 10, n div 10 div 10 mod 10,
     n div 10 mod 10, n mod 10]"
proof -
  have "to_base b 6 n = to_base b (Suc (Suc (Suc (Suc (Suc (Suc 0)))))) n" for b
    by (simp add: eval_nat_numeral)
  then show ?thesis
    by (simp add: code_text_def)
qed

theorem totp_accepts_window_witness:
  "verify_totp example_hm (generate_secret [1, 2, 3, 4, 5]) '' 001234 '' VALID_WINDOW 59 = Inr True"
proof -
  have "rfc4226 example_hm [1, 2, 3, 4, 5] n = 1234" for n
    by (simp add: rfc4226_def example_hm_def)
  moreover have "char_of (48 :: nat) = CHR ''0'' \<and> char_of (49 :: nat) = CHR ''1'' \<and>
      char_of (50 :: nat) = CHR ''2'' \<and> char_of (51 :: nat) = CHR ''3'' \<and> char_of (52 :: nat) = CHR ''4''"
    by code_simp
  then have "code_text 1234 = ''001234''"
    by (simp add: code_text_unfold)
  moreover have "py_strip '' 001234 '' = ''001234''" "is_ascii '' 001234 ''"
    by code_simp+
  ultimately show ?thesis
    by (subst totp_accepts_window) (auto simp: example_hm_def)
qed

end
