(* ===== verification/Accounts.thy ===== *)
theory Accounts
  imports AuditTrail Totp
begin

text \<open>
  Signing in (\<open>apps/accounts\<close>: \<open>throttle.py\<close>, \<open>models.py\<close>, \<open>mfa_services.py\<close>, \<open>views.py\<close>,
  \<open>portal_views.py\<close>): the lockout counters in the cache, MFA devices, backup codes, the password
  step and the code step. Times are in whole seconds. Checking a password is the framework's: the
  parameter \<open>auth\<close> gives the active user an email and a password belong to, \<open>valid\<close> whether the
  text is an email address. Views get the session and return it changed, since the framework
  saves it only with an answer.
\<close>

record mfa_device =
  md_id :: uuid
  md_user :: uuid
  md_secret :: string
  md_confirmed :: bool
  md_last_used_at :: "time option"

record backup_code =
  bc_id :: uuid
  bc_user :: uuid
  bc_lookup_hash :: string
  bc_used_at :: "time option"

text \<open>The cache maps a key to a value and the time it expires at; no transaction covers it.\<close>

type_synonym cache = "string \<Rightarrow> (nat \<times> time) option"

record accounts_st = audit_st +
  mfa_devices :: "mfa_device list"
  backup_codes :: "backup_code list"
  auth_cache :: cache

subsection \<open>Lockout counters\<close>

definition MAX_ATTEMPTS :: nat where
  "MAX_ATTEMPTS = 5"

definition LOCKOUT_SECONDS :: int where
  "LOCKOUT_SECONDS = 15 * 60"

definition throttle_key :: "string \<Rightarrow> string \<Rightarrow> string" where
  "throttle_key scope identifier = ''auth_throttle:'' @ scope @ '':'' @ identifier"

definition cache_value :: "cache \<Rightarrow> string \<Rightarrow> time \<Rightarrow> nat" where
  "cache_value c key t = (case c key of Some (n, expires) \<Rightarrow> if t < expires then n else 0 | None \<Rightarrow> 0)"

definition is_locked_out :: "env \<Rightarrow> string \<Rightarrow> string \<Rightarrow> ('z accounts_st_scheme, bool) pm" where
  "is_locked_out E scope identifier =
     mbind (now E) (\<lambda>t. gets (\<lambda>s. MAX_ATTEMPTS \<le> cache_value (auth_cache s) (throttle_key scope identifier) t))"

definition record_failure :: "env \<Rightarrow> string \<Rightarrow> string \<Rightarrow> ('z accounts_st_scheme, nat) pm" where
  "record_failure E scope identifier =
     (let key = throttle_key scope identifier in
      mbind (now E) (\<lambda>t.
      mbind (gets (\<lambda>s. Suc (cache_value (auth_cache s) key t))) (\<lambda>count.
      mseq (modify (\<lambda>s. s\<lparr>auth_cache := (auth_cache s)(key \<mapsto> (count, t + LOCKOUT_SECONDS))\<rparr>))
        (ret count))))"

definition reset_throttle :: "string \<Rightarrow> string \<Rightarrow> ('z accounts_st_scheme, unit) pm" where
  "reset_throttle scope identifier =
     modify (\<lambda>s. s\<lparr>auth_cache := (auth_cache s)(throttle_key scope identifier := None)\<rparr>)"

subsection \<open>Backup codes\<close>

definition BACKUP_CODE_COUNT :: nat where
  "BACKUP_CODE_COUNT = 10"

definition code_alphabet :: string where
  "code_alphabet = ''ABCDEFGHIJKLMNOPQRSTUVWXYZ0123456789''"

primrec random_chars :: "env \<Rightarrow> nat \<Rightarrow> ('z accounts_st_scheme, string) pm" where
  "random_chars E 0 = ret []"
| "random_chars E (Suc n) =
     mbind draw (\<lambda>k. mbind (random_chars E n) (\<lambda>cs.
       ret (code_alphabet ! (e_randint E k mod 36) # cs)))"

definition generate_backup_code :: "env \<Rightarrow> ('z accounts_st_scheme, string) pm" where
  "generate_backup_code E = mbind (random_chars E 10) (\<lambda>raw. ret (take 5 raw @ ''-'' @ drop 5 raw))"

definition is_code_char :: "char \<Rightarrow> bool" where
  "is_code_char c \<longleftrightarrow> c \<in> set code_alphabet"

text \<open>The regular expression \<open>^[A-Z0-9]{5}-[A-Z0-9]{5}$\<close> on the stripped upper-case text.\<close>

definition looks_like_backup_code :: "string \<Rightarrow> bool" where
  "looks_like_backup_code raw =
     (let c = py_upper (py_strip raw) in
      length c = 11 \<and> c ! 5 = CHR ''-'' \<and> list_all is_code_char (take 5 c) \<and> list_all is_code_char (drop 6 c))"

definition backup_code_lookup_hash :: "env \<Rightarrow> string \<Rightarrow> string \<Rightarrow> string" where
  "backup_code_lookup_hash E secret_key raw = e_hmac E secret_key (py_upper (py_strip raw))"

primrec generate_codes :: "env \<Rightarrow> nat \<Rightarrow> ('z accounts_st_scheme, string list) pm" where
  "generate_codes E 0 = ret []"
| "generate_codes E (Suc n) =
     mbind (generate_backup_code E) (\<lambda>c. mbind (generate_codes E n) (\<lambda>cs. ret (c # cs)))"

primrec insert_codes :: "env \<Rightarrow> string \<Rightarrow> uuid \<Rightarrow> string list \<Rightarrow> ('z accounts_st_scheme, unit) pm" where
  "insert_codes E secret_key user [] = ret ()"
| "insert_codes E secret_key user (raw # raws) =
     mbind fresh_uuid (\<lambda>i.
     mseq (modify (\<lambda>s. s\<lparr>backup_codes :=
             \<lparr>bc_id = i, bc_user = user, bc_lookup_hash = backup_code_lookup_hash E secret_key raw,
              bc_used_at = None\<rparr> # backup_codes s\<rparr>))
       (insert_codes E secret_key user raws))"

definition generate_backup_codes ::
  "env \<Rightarrow> string \<Rightarrow> user option \<Rightarrow> user \<Rightarrow> ('z accounts_st_scheme, string list) pm" where
  "generate_backup_codes E secret_key actor user =
     mseq (modify (\<lambda>s. s\<lparr>backup_codes := filter (\<lambda>c. bc_user c \<noteq> u_id user) (backup_codes s)\<rparr>))
     (mbind (generate_codes E BACKUP_CODE_COUNT) (\<lambda>raws.
      mseq (insert_codes E secret_key (u_id user) raws)
      (mseq (record_audit_event E ''mfa.backup_codes_generated'' actor None None None None
               (JObj [(''user'', JStr (u_email user))]))
        (ret raws))))"

definition find_backup_code :: "uuid \<Rightarrow> string \<Rightarrow> backup_code list \<Rightarrow> backup_code option" where
  "find_backup_code user hash codes =
     List.find (\<lambda>c. bc_user c = user \<and> bc_lookup_hash c = hash \<and> bc_used_at c = None) codes"

definition consume_backup_code ::
  "env \<Rightarrow> string \<Rightarrow> user \<Rightarrow> string \<Rightarrow> ('z accounts_st_scheme, bool) pm" where
  "consume_backup_code E secret_key user raw =
     (if raw = [] \<or> \<not> looks_like_backup_code raw then ret False
      else mbind (gets (\<lambda>s. find_backup_code (u_id user) (backup_code_lookup_hash E secret_key raw)
                   (backup_codes s))) (\<lambda>found.
        case found of
          None \<Rightarrow> ret False
        | Some b \<Rightarrow>
            mbind (now E) (\<lambda>t.
            mseq (modify (\<lambda>s. s\<lparr>backup_codes := row_update bc_id (bc_id b)
                    (\<lambda>r. r\<lparr>bc_used_at := Some t\<rparr>) (backup_codes s)\<rparr>))
            (mseq (audit_event E ''mfa.backup_code_used'' (Some user) None (Some (MBackupCode, bc_id b)))
              (ret True)))))"


subsection \<open>Devices\<close>

definition confirmed_device :: "uuid \<Rightarrow> 'z accounts_st_scheme \<Rightarrow> mfa_device option" where
  "confirmed_device user s = List.find (\<lambda>d. md_user d = user \<and> md_confirmed d) (mfa_devices s)"

text \<open>\<open>verify_totp\<close> with the clock.\<close>

definition check_totp :: "env \<Rightarrow> hmac_sha1 \<Rightarrow> string \<Rightarrow> string \<Rightarrow> ('z accounts_st_scheme, bool) pm" where
  "check_totp E hm secret code =
     mbind (now E) (\<lambda>t. lift_sum (verify_totp hm secret code VALID_WINDOW t))"

definition confirm_device ::
  "env \<Rightarrow> hmac_sha1 \<Rightarrow> user option \<Rightarrow> mfa_device \<Rightarrow> string \<Rightarrow> ('z accounts_st_scheme, bool) pm" where
  "confirm_device E hm actor d code =
     mbind (check_totp E hm (md_secret d) code) (\<lambda>ok.
     if \<not> ok then ret False
     else mseq (modify (\<lambda>s. s\<lparr>mfa_devices := row_update md_id (md_id d)
                  (\<lambda>r. r\<lparr>md_confirmed := True\<rparr>) (mfa_devices s)\<rparr>))
          (mseq (audit_event E ''mfa.enabled'' actor None (Some (MMFADevice, md_id d)))
            (ret True)))"

definition disable_mfa :: "env \<Rightarrow> user option \<Rightarrow> user \<Rightarrow> ('z accounts_st_scheme, unit) pm" where
  "disable_mfa E actor user =
     mseq (modify (\<lambda>s. s\<lparr>mfa_devices := filter (\<lambda>d. md_user d \<noteq> u_id user) (mfa_devices s)\<rparr>))
     (mseq (modify (\<lambda>s. s\<lparr>backup_codes := filter (\<lambda>c. bc_user c \<noteq> u_id user) (backup_codes s)\<rparr>))
     (mseq (record_audit_event E ''mfa.disabled'' actor None None None None
              (JObj [(''user'', JStr (u_email user))]))
       (ret ())))"

text \<open>\<open>MFADevice.objects.get_or_create(user=request.user)\<close>; \<open>random\<close> are the bytes of the secret.\<close>

definition get_or_create_device :: "byte list \<Rightarrow> user \<Rightarrow> ('z accounts_st_scheme, mfa_device) pm" where
  "get_or_create_device random user =
     mbind (gets (\<lambda>s. List.find (\<lambda>d. md_user d = u_id user) (mfa_devices s))) (\<lambda>existing.
     case existing of
       Some d \<Rightarrow> ret d
     | None \<Rightarrow>
         mbind fresh_uuid (\<lambda>i.
         let d = \<lparr>md_id = i, md_user = u_id user, md_secret = generate_secret random,
                  md_confirmed = False, md_last_used_at = None\<rparr> in
         mseq (modify (\<lambda>s. s\<lparr>mfa_devices := d # mfa_devices s\<rparr>)) (ret d)))"

subsection \<open>Signing in\<close>

text \<open>\<open>LoginPage b\<close> is the sign-in page; \<open>b\<close> says whether it shows that the password is wrong.\<close>

datatype answer = LoginPage bool | CodePage | RedirectLogin | RedirectCode | RedirectTo string

definition MODEL_BACKEND :: string where
  "MODEL_BACKEND = ''django.contrib.auth.backends.ModelBackend''"

definition DASHBOARD :: string where
  "DASHBOARD = ''core:dashboard-router''"

text \<open>
  \<open>django.contrib.auth.login\<close>: a session of another user is emptied first; then the
  \<open>user_logged_in\<close> signal reaches \<open>on_login\<close>.
\<close>

definition auth_login :: "env \<Rightarrow> user \<Rightarrow> session \<Rightarrow> ('z accounts_st_scheme, session) pm" where
  "auth_login E u ses =
     (let base = (if ses_user ses \<in> {None, Some (u_id u)} then ses
                  else \<lparr>ses_user = None, ses_active_tenant_id = None,
                        ses_mfa_pending_user_id = None, ses_mfa_pending_backend = None\<rparr>) in
      mseq (on_login E u) (ret (base\<lparr>ses_user := Some (u_id u)\<rparr>)))"

definition request_user :: "session \<Rightarrow> 'z accounts_st_scheme \<Rightarrow> user option" where
  "request_user ses s = (case ses_user ses of None \<Rightarrow> None
     | Some i \<Rightarrow> List.find (\<lambda>u. u_id u = i \<and> u_is_active u) (users s))"

definition login_throttle_identifier :: "string option \<Rightarrow> string \<Rightarrow> string" where
  "login_throttle_identifier ip username =
     (case ip of Some i \<Rightarrow> if i = [] then ''unknown'' else i | None \<Rightarrow> ''unknown'')
     @ '':'' @ py_lower (py_strip username)"

definition login_form_valid ::
  "env \<Rightarrow> string \<Rightarrow> user \<Rightarrow> string \<Rightarrow> session \<Rightarrow> ('z accounts_st_scheme, answer \<times> session) pm" where
  "login_form_valid E identifier u target ses =
     mseq (reset_throttle ''login'' identifier)
     (mbind (gets (confirmed_device (u_id u))) (\<lambda>device.
      case device of
        Some d \<Rightarrow> ret (RedirectCode, ses\<lparr>ses_mfa_pending_user_id := Some (u_id u),
                         ses_mfa_pending_backend := Some MODEL_BACKEND\<rparr>)
      | None \<Rightarrow> mbind (auth_login E u ses) (\<lambda>ses1. ret (RedirectTo target, ses1))))"

text \<open>
  Validating the form: a failed \<open>authenticate\<close> sends \<open>user_login_failed\<close>. The template asks a form
  for its errors, which validates it if that has not been done.
\<close>

datatype form_result = FieldErrors | WrongPassword | Credentials user

definition clean_login_form ::
  "env \<Rightarrow> (string \<Rightarrow> string \<Rightarrow> user list \<Rightarrow> user option) \<Rightarrow> (string \<Rightarrow> bool) \<Rightarrow> string \<times> string \<Rightarrow>
   ('z accounts_st_scheme, form_result) pm" where
  "clean_login_form E auth valid form =
     (let email = py_strip (fst form) in
      if \<not> valid email \<or> snd form = [] then ret FieldErrors
      else mbind (gets (\<lambda>s. auth email (snd form) (users s))) (\<lambda>found.
        case found of
          Some u \<Rightarrow> ret (Credentials u)
        | None \<Rightarrow> mseq (on_login_failed E email) (ret WrongPassword)))"

definition login_form_invalid ::
  "env \<Rightarrow> string \<Rightarrow> form_result \<Rightarrow> session \<Rightarrow> ('z accounts_st_scheme, answer \<times> session) pm" where
  "login_form_invalid E identifier r ses =
     mseq (record_failure E ''login'' identifier) (ret (LoginPage (r = WrongPassword), ses))"

text \<open>
  \<open>EmailLoginView.post\<close>, behind \<open>redirect_authenticated_user\<close>; \<open>target\<close> is the success URL, which
  the framework restricts to the own host.
\<close>

definition email_login ::
  "env \<Rightarrow> (string \<Rightarrow> string \<Rightarrow> user list \<Rightarrow> user option) \<Rightarrow> (string \<Rightarrow> bool) \<Rightarrow> string option \<Rightarrow>
   string \<Rightarrow> string \<times> string \<Rightarrow> session \<Rightarrow> ('z accounts_st_scheme, answer \<times> session) pm" where
  "email_login E auth valid ip target form ses =
     mbind (gets (request_user ses)) (\<lambda>signed_in.
     if signed_in \<noteq> None then ret (RedirectTo target, ses)
     else
       let identifier = login_throttle_identifier ip (fst form) in
       mbind (is_locked_out E ''login'' identifier) (\<lambda>locked.
       if locked
         then mbind (clean_login_form E auth valid form) (\<lambda>r. ret (LoginPage (r = WrongPassword), ses))
       else mbind (clean_login_form E auth valid form) (\<lambda>r.
         case r of
           Credentials u \<Rightarrow> login_form_valid E identifier u target ses
         | _ \<Rightarrow> login_form_invalid E identifier r ses)))"

text \<open>The two ways a code is accepted.\<close>

definition verify_code ::
  "env \<Rightarrow> hmac_sha1 \<Rightarrow> string \<Rightarrow> user \<Rightarrow> mfa_device option \<Rightarrow> string \<Rightarrow> ('z accounts_st_scheme, bool) pm" where
  "verify_code E hm secret_key u device code =
     mbind (case device of None \<Rightarrow> ret False | Some d \<Rightarrow> check_totp E hm (md_secret d) code) (\<lambda>ok.
     if ok then ret True else consume_backup_code E secret_key u code)"

definition code_accepted ::
  "env \<Rightarrow> user \<Rightarrow> mfa_device option \<Rightarrow> string \<Rightarrow> session \<Rightarrow> ('z accounts_st_scheme, answer \<times> session) pm" where
  "code_accepted E u device target ses =
     mseq (reset_throttle ''mfa'' (e_str_uuid E (u_id u)))
     (mbind (auth_login E u (ses\<lparr>ses_mfa_pending_backend := None, ses_mfa_pending_user_id := None\<rparr>)) (\<lambda>ses1.
      mseq (case device of
              None \<Rightarrow> ret ()
            | Some d \<Rightarrow> mbind (now E) (\<lambda>t. modify (\<lambda>s. s\<lparr>mfa_devices := row_update md_id (md_id d)
                          (\<lambda>r. r\<lparr>md_last_used_at := Some t\<rparr>) (mfa_devices s)\<rparr>)))
        (ret (RedirectTo (if target = [] then DASHBOARD else target), ses1))))"

text \<open>\<open>mfa_verify\<close>; \<open>code = None\<close> is a \<open>GET\<close>, \<open>target\<close> the \<open>next\<close> parameter.\<close>

definition mfa_verify ::
  "env \<Rightarrow> hmac_sha1 \<Rightarrow> string \<Rightarrow> string \<Rightarrow> string option \<Rightarrow> session \<Rightarrow>
   ('z accounts_st_scheme, answer \<times> session) pm" where
  "mfa_verify E hm secret_key target form ses =
     (case ses_mfa_pending_user_id ses of
        None \<Rightarrow> ret (RedirectLogin, ses)
      | Some i \<Rightarrow>
          mbind (gets (\<lambda>s. List.find (\<lambda>u. u_id u = i) (users s))) (\<lambda>found.
          case found of
            None \<Rightarrow> ret (RedirectLogin, ses\<lparr>ses_mfa_pending_user_id := None\<rparr>)
          | Some u \<Rightarrow>
              (case form of
                 None \<Rightarrow> ret (CodePage, ses)
               | Some raw \<Rightarrow>
                   mbind (is_locked_out E ''mfa'' (e_str_uuid E (u_id u))) (\<lambda>locked.
                   if locked then ret (CodePage, ses)
                   else
                     mbind (gets (confirmed_device (u_id u))) (\<lambda>device.
                     mbind (verify_code E hm secret_key u device (py_strip raw)) (\<lambda>verified.
                     if verified then code_accepted E u device target ses
                     else mseq (record_failure E ''mfa'' (e_str_uuid E (u_id u)))
                            (ret (CodePage, ses))))))))"

subsection \<open>Managing MFA\<close>

definition mfa_status :: "user \<Rightarrow> ('z accounts_st_scheme, mfa_device option \<times> nat) pm" where
  "mfa_status user =
     mbind (gets (confirmed_device (u_id user))) (\<lambda>device.
     mbind (gets (\<lambda>s. length (filter (\<lambda>c. bc_user c = u_id user \<and> bc_used_at c = None) (backup_codes s)))) (\<lambda>n.
       ret (device, if device = None then 0 else n)))"

text \<open>\<open>Some codes\<close> is the page that shows the codes once.\<close>

definition mfa_setup ::
  "env \<Rightarrow> hmac_sha1 \<Rightarrow> string \<Rightarrow> byte list \<Rightarrow> user \<Rightarrow> string option \<Rightarrow>
   ('z accounts_st_scheme, string list option) pm" where
  "mfa_setup E hm secret_key random user form =
     mbind (gets (confirmed_device (u_id user))) (\<lambda>existing.
     if existing \<noteq> None then ret None
     else mbind (get_or_create_device random user) (\<lambda>d.
       case form of
         None \<Rightarrow> ret None
       | Some raw \<Rightarrow>
           mbind (confirm_device E hm (Some user) d (py_strip raw)) (\<lambda>ok.
           if ok then mbind (generate_backup_codes E secret_key (Some user) user) (\<lambda>codes. ret (Some codes))
           else ret None)))"

definition mfa_disable :: "env \<Rightarrow> user \<Rightarrow> bool \<Rightarrow> ('z accounts_st_scheme, unit) pm" where
  "mfa_disable E user post = mwhen post (disable_mfa E (Some user) user)"

definition mfa_regenerate_backup_codes ::
  "env \<Rightarrow> string \<Rightarrow> user \<Rightarrow> bool \<Rightarrow> ('z accounts_st_scheme, string list option) pm" where
  "mfa_regenerate_backup_codes E secret_key user post =
     mbind (gets (confirmed_device (u_id user))) (\<lambda>device.
     if device = None \<or> \<not> post then ret None
     else mbind (generate_backup_codes E secret_key (Some user) user) (\<lambda>codes. ret (Some codes)))"

end
