(* ===== verification/AccountProperties.thy ===== *)
theory AccountProperties
  imports Accounts
begin

text \<open>
  Signing in takes both factors, lockouts hold, and backup codes work once.
\<close>

subsection \<open>Projections\<close>

lemma accounts_projections [simp]:
  "mfa_devices (audited r s) = mfa_devices s" "backup_codes (audited r s) = backup_codes s"
  "auth_cache (audited r s) = auth_cache s"
  by (simp_all add: audited_def)

text \<open>What the sign-in views leave alone: the users and which devices are confirmed.\<close>

definition devices_view :: "'z accounts_st_scheme \<Rightarrow> user list \<times> (uuid \<times> bool) list" where
  "devices_view s = (users s, map (\<lambda>d. (md_user d, md_confirmed d)) (mfa_devices s))"

lemma confirmed_same:
  assumes "devices_view t = devices_view s"
  shows "confirmed_device i t = None \<longleftrightarrow> confirmed_device i s = None"
proof -
  have found: "List.find (\<lambda>d. md_user d = i \<and> md_confirmed d) ds = None \<longleftrightarrow>
      (i, True) \<notin> set (map (\<lambda>d. (md_user d, md_confirmed d)) ds)" for ds
    by (force simp: find_None_iff)
  have "map (\<lambda>d. (md_user d, md_confirmed d)) (mfa_devices t) =
      map (\<lambda>d. (md_user d, md_confirmed d)) (mfa_devices s)"
    using assms by (simp add: devices_view_def)
  then show ?thesis
    unfolding confirmed_device_def found by (rule arg_cong)
qed

lemma devices_view_used [simp]:
  "devices_view (s\<lparr>mfa_devices := row_update md_id i (\<lambda>r. r\<lparr>md_last_used_at := x\<rparr>) (mfa_devices s)\<rparr>) = devices_view s"
  by (simp add: devices_view_def map_row_update)

lemma devices_view_frame [simp]:
  "devices_view (audited r s) = devices_view s"
  "devices_view (s\<lparr>clock_reads := n\<rparr>) = devices_view s"
  "devices_view (s\<lparr>auth_cache := c\<rparr>) = devices_view s"
  "devices_view (s\<lparr>clock_reads := n, auth_cache := c\<rparr>) = devices_view s"
  "devices_view (s\<lparr>backup_codes := bs\<rparr>) = devices_view s"
  "devices_view (s\<lparr>clock_reads := n, backup_codes := bs\<rparr>) = devices_view s"
  by (simp_all add: devices_view_def)

lemma wpx_is_locked_out [simp]:
  "wpx (is_locked_out E scope i) Q X s =
     Q (MAX_ATTEMPTS \<le> cache_value (auth_cache s) (throttle_key scope i) (e_now E (clock_reads s)))
       (s\<lparr>clock_reads := Suc (clock_reads s)\<rparr>)"
  by (simp add: is_locked_out_def)

lemma wpx_auth_login [simp]:
  "wpx (auth_login E u ses) Q X s =
     (let r = new_audit E ''auth.login'' (Some u) None None None None (JObj []) s in
      Q ((if ses_user ses \<in> {None, Some (u_id u)} then ses
          else \<lparr>ses_user = None, ses_active_tenant_id = None, ses_mfa_pending_user_id = None,
                ses_mfa_pending_backend = None\<rparr>)\<lparr>ses_user := Some (u_id u)\<rparr>) (audited r s))"
  by (simp add: auth_login_def on_login_def Let_def)

subsection \<open>Both factors\<close>

text \<open>One request to the sign-in pages.\<close>

datatype sign_in =
  Password "string option" string "string \<times> string"
| Code string "string option"

fun sign_in_step ::
  "env \<Rightarrow> (string \<Rightarrow> string \<Rightarrow> user list \<Rightarrow> user option) \<Rightarrow> (string \<Rightarrow> bool) \<Rightarrow> hmac_sha1 \<Rightarrow> string \<Rightarrow>
   sign_in \<Rightarrow> session \<Rightarrow> ('z accounts_st_scheme, answer \<times> session) pm" where
  "sign_in_step E auth valid hm key (Password ip target form) ses = email_login E auth valid ip target form ses"
| "sign_in_step E auth valid hm key (Code target form) ses = mfa_verify E hm key target form ses"

text \<open>The password of user \<open>i\<close> was right in this request.\<close>

definition password_right ::
  "(string \<Rightarrow> string \<Rightarrow> user list \<Rightarrow> user option) \<Rightarrow> uuid \<Rightarrow> sign_in \<Rightarrow> 'z accounts_st_scheme \<Rightarrow> bool" where
  "password_right auth i r s = (case r of
     Password ip target form \<Rightarrow> (case auth (py_strip (fst form)) (snd form) (users s) of
        Some u \<Rightarrow> u_id u = i | None \<Rightarrow> False)
   | Code target form \<Rightarrow> False)"

text \<open>A code of user \<open>i\<close>, not locked out, was verified in this request.\<close>

definition code_right ::
  "env \<Rightarrow> hmac_sha1 \<Rightarrow> string \<Rightarrow> uuid \<Rightarrow> sign_in \<Rightarrow> 'z accounts_st_scheme \<Rightarrow> bool" where
  "code_right E hm key i r s = (case r of
     Code target (Some raw) \<Rightarrow>
       (case List.find (\<lambda>u. u_id u = i) (users s) of None \<Rightarrow> False
        | Some u \<Rightarrow> cache_value (auth_cache s) (throttle_key ''mfa'' (e_str_uuid E i)) (e_now E (clock_reads s))
              < MAX_ATTEMPTS \<and>
            fst (verify_code E hm key u (confirmed_device i s) (py_strip raw)
              (s\<lparr>clock_reads := Suc (clock_reads s)\<rparr>)) = Inr True)
   | _ \<Rightarrow> False)"

lemma wpx_known: "wpx m Q X s \<Longrightarrow> wpx m (\<lambda>x t. Q x t \<and> fst (m s) = Inr x) X s"
  by (auto simp: wpx_def split: prod.splits sum.splits)

lemma verify_code_view:
  "wpx (verify_code E hm key u d code) (\<lambda>_ t. devices_view t = devices_view s) (\<lambda>_ t. devices_view t = devices_view s) s"
  by (auto simp: verify_code_def check_totp_def consume_backup_code_def Let_def split: option.split sum.split)

lemma password_step:
  "wpx (email_login E auth valid ip target form ses)
     (\<lambda>(a, ses') t. devices_view t = devices_view s \<and>
        (\<forall>i. ses_mfa_pending_user_id ses' = Some i \<longrightarrow> ses_mfa_pending_user_id ses = Some i \<or>
           password_right auth i (Password ip target form) s) \<and>
        (\<forall>i. ses_user ses' = Some i \<longrightarrow> ses_user ses = Some i \<or>
           password_right auth i (Password ip target form) s \<and> confirmed_device i s = None))
     (\<lambda>_ t. devices_view t = devices_view s) s"
  by (auto simp: email_login_def clean_login_form_def login_form_invalid_def login_form_valid_def reset_throttle_def record_failure_def Let_def
      on_login_failed_def password_right_def wpx_eta confirmed_device_def split: option.split prod.split)

lemma code_step:
  "wpx (mfa_verify E hm key target form ses)
     (\<lambda>(a, ses') t. devices_view t = devices_view s \<and>
        (\<forall>i. ses_mfa_pending_user_id ses' = Some i \<longrightarrow> ses_mfa_pending_user_id ses = Some i) \<and>
        (\<forall>i. ses_user ses' = Some i \<longrightarrow> ses_user ses = Some i \<or>
           ses_mfa_pending_user_id ses = Some i \<and> code_right E hm key i (Code target form) s))
     (\<lambda>_ t. devices_view t = devices_view s) s"
proof (cases "ses_mfa_pending_user_id ses")
  case (Some i)
  show ?thesis
  proof (cases "List.find (\<lambda>u. u_id u = i) (users s)")
    case u: (Some u)
    then have id: "u_id u = i"
      by (auto dest: find_Some_D)
    show ?thesis
    proof (cases form)
      case raw: (Some raw)
      let ?t = "s\<lparr>clock_reads := Suc (clock_reads s)\<rparr>"
      let ?locked = "MAX_ATTEMPTS \<le> cache_value (auth_cache s) (throttle_key ''mfa'' (e_str_uuid E i)) (e_now E (clock_reads s))"
      have same: "confirmed_device i ?t = confirmed_device i s"
        by (simp add: confirmed_device_def)
      note checked = wpx_known [OF verify_code_view [of E hm key u "confirmed_device i ?t" "py_strip raw" ?t]]
      show ?thesis
      proof (cases ?locked)
        case False
        have "wpx (mbind (verify_code E hm key u (confirmed_device i ?t) (py_strip raw)) (\<lambda>verified.
              if verified then code_accepted E u (confirmed_device i ?t) target ses
              else mseq (record_failure E ''mfa'' (e_str_uuid E (u_id u))) (ret (CodePage, ses))))
            (\<lambda>(a, ses') t. devices_view t = devices_view s \<and>
              (\<forall>i. ses_mfa_pending_user_id ses' = Some i \<longrightarrow> ses_mfa_pending_user_id ses = Some i) \<and>
              (\<forall>i. ses_user ses' = Some i \<longrightarrow> ses_user ses = Some i \<or>
                ses_mfa_pending_user_id ses = Some i \<and> code_right E hm key i (Code target form) s))
            (\<lambda>_ t. devices_view t = devices_view s) ?t"
          unfolding wpx_mbind
          by (rule wpx_mono [OF checked])
             (use False raw u Some id same in \<open>auto simp: code_accepted_def reset_throttle_def record_failure_def Let_def
               wpx_eta code_right_def devices_view_def map_row_update split: option.split\<close>)
        with Some u raw False id show ?thesis
          by (simp add: mfa_verify_def wpx_eta)
      qed (use Some u raw id in \<open>simp add: mfa_verify_def\<close>)
    qed (use Some u in \<open>simp add: mfa_verify_def\<close>)
  qed (use Some in \<open>simp add: mfa_verify_def\<close>)
qed (simp add: mfa_verify_def)


text \<open>
  One request of a browser: an error rolls the database back, not the cache, and leaves the
  session as it was. A browser sends several in a row; the visits are the requests with the
  states they met.
\<close>

definition visit ::
  "env \<Rightarrow> (string \<Rightarrow> string \<Rightarrow> user list \<Rightarrow> user option) \<Rightarrow> (string \<Rightarrow> bool) \<Rightarrow> hmac_sha1 \<Rightarrow> string \<Rightarrow>
   sign_in \<Rightarrow> session \<Rightarrow> 'z accounts_st_scheme \<Rightarrow> session \<times> 'z accounts_st_scheme" where
  "visit E auth valid hm key r ses s =
     (case sign_in_step E auth valid hm key r ses s of
        (Inr (a, ses1), t) \<Rightarrow> (ses1, commit t)
      | (Inl e, t) \<Rightarrow> (ses, (rollback s t)\<lparr>auth_cache := auth_cache t\<rparr>))"

primrec browse ::
  "env \<Rightarrow> (string \<Rightarrow> string \<Rightarrow> user list \<Rightarrow> user option) \<Rightarrow> (string \<Rightarrow> bool) \<Rightarrow> hmac_sha1 \<Rightarrow> string \<Rightarrow>
   sign_in list \<Rightarrow> session \<Rightarrow> 'z accounts_st_scheme \<Rightarrow> session \<times> 'z accounts_st_scheme" where
  "browse E auth valid hm key [] ses s = (ses, s)"
| "browse E auth valid hm key (r # rs) ses s =
     (case visit E auth valid hm key r ses s of (ses1, t) \<Rightarrow> browse E auth valid hm key rs ses1 t)"

primrec visits ::
  "env \<Rightarrow> (string \<Rightarrow> string \<Rightarrow> user list \<Rightarrow> user option) \<Rightarrow> (string \<Rightarrow> bool) \<Rightarrow> hmac_sha1 \<Rightarrow> string \<Rightarrow>
   sign_in list \<Rightarrow> session \<Rightarrow> 'z accounts_st_scheme \<Rightarrow> (sign_in \<times> 'z accounts_st_scheme) list" where
  "visits E auth valid hm key [] ses s = []"
| "visits E auth valid hm key (r # rs) ses s = (r, s) #
     (case visit E auth valid hm key r ses s of (ses1, t) \<Rightarrow> visits E auth valid hm key rs ses1 t)"

lemma devices_view_ends [simp]:
  "devices_view (commit t) = devices_view t"
  "devices_view (rollback s t) = devices_view s"
  by (simp_all add: devices_view_def commit_def rollback_def)

lemma visit_view:
  assumes "visit E auth valid hm key r ses s = (ses1, t)"
  shows "devices_view t = devices_view s \<and>
    (ses_mfa_pending_user_id ses1 = Some i \<longrightarrow>
      ses_mfa_pending_user_id ses = Some i \<or> password_right auth i r s) \<and>
    (ses_user ses1 = Some i \<longrightarrow>
      ses_user ses = Some i \<or> password_right auth i r s \<and> confirmed_device i s = None \<or>
      ses_mfa_pending_user_id ses = Some i \<and> code_right E hm key i r s)"
proof -
  have step: "wpx (sign_in_step E auth valid hm key r ses)
     (\<lambda>(a, ses1) t. devices_view t = devices_view s \<and>
        (\<forall>i. ses_mfa_pending_user_id ses1 = Some i \<longrightarrow> ses_mfa_pending_user_id ses = Some i \<or> password_right auth i r s) \<and>
        (\<forall>i. ses_user ses1 = Some i \<longrightarrow> ses_user ses = Some i \<or>
           password_right auth i r s \<and> confirmed_device i s = None \<or>
           ses_mfa_pending_user_id ses = Some i \<and> code_right E hm key i r s))
     (\<lambda>_ t. devices_view t = devices_view s) s"
  proof (cases r)
    case (Password ip target form)
    then show ?thesis
      by (simp, intro wpx_mono [OF password_step]) auto
  next
    case (Code target form)
    then show ?thesis
      by (simp, intro wpx_mono [OF code_step]) auto
  qed
  obtain res u where run: "sign_in_step E auth valid hm key r ses s = (res, u)"
    by (cases "sign_in_step E auth valid hm key r ses s")
  show ?thesis
  proof (cases res)
    case (Inl e)
    then show ?thesis
      using run assms by (auto simp: visit_def)
  next
    case (Inr p)
    then show ?thesis
      using wpx_result(1) [OF step run [unfolded Inr]] run assms by (cases p) (auto simp: visit_def)
  qed
qed

lemma browse_evidence:
  assumes "browse E auth valid hm key rs ses s = (ses', t)"
  shows "(ses_mfa_pending_user_id ses' = Some i \<longrightarrow> ses_mfa_pending_user_id ses = Some i \<or>
        (\<exists>(r, u) \<in> set (visits E auth valid hm key rs ses s). password_right auth i r u)) \<and>
    (ses_user ses' = Some i \<longrightarrow> ses_user ses = Some i \<or>
        ((ses_mfa_pending_user_id ses = Some i \<or>
          (\<exists>(r, u) \<in> set (visits E auth valid hm key rs ses s). password_right auth i r u)) \<and>
        (confirmed_device i s = None \<or>
          (\<exists>(r, u) \<in> set (visits E auth valid hm key rs ses s). code_right E hm key i r u))))"
  using assms
proof (induction rs arbitrary: ses s)
  case (Cons r rs)
  obtain ses1 u where step: "visit E auth valid hm key r ses s = (ses1, u)"
    by (cases "visit E auth valid hm key r ses s")
  note view = visit_view [OF step, of i]
  have conf: "confirmed_device i u = None \<longleftrightarrow> confirmed_device i s = None"
    by (rule confirmed_same [OF view [THEN conjunct1]])
  have "browse E auth valid hm key rs ses1 u = (ses', t)"
    using Cons.prems step by simp
  from Cons.IH [OF this] view step conf show ?case
    by (simp only: visits.simps prod.case list.set(2)) blast
qed auto

text \<open>
  C25 (\<open>EmailLoginView\<close>, \<open>mfa_verify\<close>): however a browser that starts signed out mixes requests to
  the password and the code page, it ends up signed in as a user only if one request gave that
  user's password, and, where the user has a confirmed device, another one passed a code of that
  user, a current time-based one or an unused backup code, while not locked out.
\<close>

theorem sign_in_needs_both_factors:
  assumes "ses_user ses = None" and "ses_mfa_pending_user_id ses = None"
    and "browse E auth valid hm key rs ses s = (ses', t)" and "ses_user ses' = Some i"
  shows "(\<exists>(r, u) \<in> set (visits E auth valid hm key rs ses s). password_right auth i r u) \<and>
    (confirmed_device i s = None \<or>
     (\<exists>(r, u) \<in> set (visits E auth valid hm key rs ses s). code_right E hm key i r u))"
  using browse_evidence [OF assms(3), of i] assms(1,2,4) by simp

definition example_user :: user where
  "example_user = \<lparr>u_id = Uuid 1, u_email = ''a@b.c'', u_password = ''pw'', u_first_name = [],
     u_first_name_lookup_hash = [], u_last_name = [], u_last_name_lookup_hash = [], u_phone_number = [],
     u_is_active = True, u_is_staff = False, u_is_superuser = False\<rparr>"

definition example_auth :: "string \<Rightarrow> string \<Rightarrow> user list \<Rightarrow> user option" where
  "example_auth email pw us = List.find (\<lambda>u. u_email u = email \<and> u_password u = pw \<and> u_is_active u) us"

definition signed_out :: session where
  "signed_out = \<lparr>ses_user = None, ses_active_tenant_id = None, ses_mfa_pending_user_id = None,
     ses_mfa_pending_backend = None\<rparr>"

definition example_accounts :: accounts_st where
  "example_accounts = \<lparr>clock_reads = 0, draws = 9, tx_broken = False, on_commit = [], broker = [],
     users = [example_user], platform_memberships = [], tenants = [], tenant_memberships = [], audit_logs = [],
     mfa_devices = [\<lparr>md_id = Uuid 2, md_user = Uuid 1, md_secret = [], md_confirmed = True, md_last_used_at = None\<rparr>],
     backup_codes = [\<lparr>bc_id = Uuid 3, bc_user = Uuid 1, bc_lookup_hash = ''kABCDE-12345'', bc_used_at = None\<rparr>],
     auth_cache = \<lambda>_. None\<rparr>"

definition example_visits :: "sign_in list" where
  "example_visits = [Password None ''home'' (''a@b.c'', ''pw''), Code [] (Some '' abcde-12345'')]"

theorem sign_in_needs_both_factors_witness:
  "let vs = visits example_env example_auth (\<lambda>_. True) example_hm ''k'' example_visits signed_out example_accounts
   in (\<exists>(r, u) \<in> set vs. password_right example_auth (Uuid 1) r u) \<and>
      (\<exists>(r, u) \<in> set vs. code_right example_env example_hm ''k'' (Uuid 1) r u)"
proof -
  let ?b = "browse example_env example_auth (\<lambda>_. True) example_hm ''k'' example_visits signed_out example_accounts"
  have "ses_user (fst ?b) = Some (Uuid 1)"
    by code_simp
  from sign_in_needs_both_factors [OF _ _ prod.collapse [symmetric] this]
  have "(\<exists>(r, u) \<in> set (visits example_env example_auth (\<lambda>_. True) example_hm ''k'' example_visits signed_out
        example_accounts). password_right example_auth (Uuid 1) r u) \<and>
      (confirmed_device (Uuid 1) example_accounts = None \<or>
       (\<exists>(r, u) \<in> set (visits example_env example_auth (\<lambda>_. True) example_hm ''k'' example_visits signed_out
        example_accounts). code_right example_env example_hm ''k'' (Uuid 1) r u))"
    by (simp add: signed_out_def)
  moreover have "confirmed_device (Uuid 1) example_accounts \<noteq> None"
    by (simp add: confirmed_device_def example_accounts_def)
  ultimately show ?thesis
    unfolding Let_def by blast
qed

subsection \<open>Guessing codes\<close>

text \<open>Requests from any number of browsers, each with its session, and the states they meet.\<close>

primrec serve ::
  "env \<Rightarrow> (string \<Rightarrow> string \<Rightarrow> user list \<Rightarrow> user option) \<Rightarrow> (string \<Rightarrow> bool) \<Rightarrow> hmac_sha1 \<Rightarrow> string \<Rightarrow>
   (session \<times> sign_in) list \<Rightarrow> 'z accounts_st_scheme \<Rightarrow> 'z accounts_st_scheme" where
  "serve E auth valid hm key [] s = s"
| "serve E auth valid hm key (q # qs) s =
     serve E auth valid hm key qs (snd (visit E auth valid hm key (snd q) (fst q) s))"

text \<open>
  The same requests with the states they meet, and what the code page shows of a request whose
  session waits for the code of user \<open>i\<close>. It let the browser in when it redirects onwards. It was
  a wrong guess when the code page came back although the page looked at the code: with some
  other code the visit would have ended differently, in its answer or in the tables.
\<close>

primrec served ::
  "env \<Rightarrow> (string \<Rightarrow> string \<Rightarrow> user list \<Rightarrow> user option) \<Rightarrow> (string \<Rightarrow> bool) \<Rightarrow> hmac_sha1 \<Rightarrow> string \<Rightarrow>
   (session \<times> sign_in) list \<Rightarrow> 'z accounts_st_scheme \<Rightarrow> ((session \<times> sign_in) \<times> 'z accounts_st_scheme) list" where
  "served E auth valid hm key [] s = []"
| "served E auth valid hm key (q # qs) s =
     (q, s) # served E auth valid hm key qs (snd (visit E auth valid hm key (snd q) (fst q) s))"

definition let_in ::
  "env \<Rightarrow> (string \<Rightarrow> string \<Rightarrow> user list \<Rightarrow> user option) \<Rightarrow> (string \<Rightarrow> bool) \<Rightarrow> hmac_sha1 \<Rightarrow> string \<Rightarrow>
   uuid \<Rightarrow> session \<times> sign_in \<Rightarrow> 'z accounts_st_scheme \<Rightarrow> bool" where
  "let_in E auth valid hm key i q s = (case snd q of
     Code target (Some raw) \<Rightarrow> ses_mfa_pending_user_id (fst q) = Some i \<and>
       (case fst (sign_in_step E auth valid hm key (snd q) (fst q) s) of Inr (RedirectTo a, ses) \<Rightarrow> True | _ \<Rightarrow> False)
   | _ \<Rightarrow> False)"

definition wrong_guess ::
  "env \<Rightarrow> (string \<Rightarrow> string \<Rightarrow> user list \<Rightarrow> user option) \<Rightarrow> (string \<Rightarrow> bool) \<Rightarrow> hmac_sha1 \<Rightarrow> string \<Rightarrow>
   uuid \<Rightarrow> session \<times> sign_in \<Rightarrow> 'z accounts_st_scheme \<Rightarrow> bool" where
  "wrong_guess E auth valid hm key i q s = (case snd q of
     Code target (Some raw) \<Rightarrow> ses_mfa_pending_user_id (fst q) = Some i \<and>
       (case fst (sign_in_step E auth valid hm key (snd q) (fst q) s) of Inr (CodePage, ses) \<Rightarrow> True | _ \<Rightarrow> False) \<and>
       (\<exists>code. visit E auth valid hm key (Code target (Some code)) (fst q) s \<noteq>
          visit E auth valid hm key (snd q) (fst q) s)
   | _ \<Rightarrow> False)"

text \<open>
  For the proof, the result of the check inside the view: \<open>None\<close> if no code of the user was
  checked, because of the page, the session, the lockout or an error.
\<close>

definition check_result ::
  "env \<Rightarrow> hmac_sha1 \<Rightarrow> string \<Rightarrow> uuid \<Rightarrow> session \<times> sign_in \<Rightarrow> 'z accounts_st_scheme \<Rightarrow> bool option" where
  "check_result E hm key i q s = (case snd q of
     Code target (Some raw) \<Rightarrow>
       if ses_mfa_pending_user_id (fst q) \<noteq> Some i then None
       else (case List.find (\<lambda>u. u_id u = i) (users s) of None \<Rightarrow> None
        | Some u \<Rightarrow>
            if MAX_ATTEMPTS \<le> cache_value (auth_cache s) (throttle_key ''mfa'' (e_str_uuid E i)) (e_now E (clock_reads s))
            then None
            else (case fst (verify_code E hm key u (confirmed_device i s) (py_strip raw)
                    (s\<lparr>clock_reads := Suc (clock_reads s)\<rparr>)) of Inl e \<Rightarrow> None | Inr b \<Rightarrow> Some b))
   | _ \<Rightarrow> None)"

primrec outcomes ::
  "env \<Rightarrow> (string \<Rightarrow> string \<Rightarrow> user list \<Rightarrow> user option) \<Rightarrow> (string \<Rightarrow> bool) \<Rightarrow> hmac_sha1 \<Rightarrow> string \<Rightarrow>
   uuid \<Rightarrow> (session \<times> sign_in) list \<Rightarrow> 'z accounts_st_scheme \<Rightarrow> bool option list" where
  "outcomes E auth valid hm key i [] s = []"
| "outcomes E auth valid hm key i (q # qs) s =
     check_result E hm key i q s #
     outcomes E auth valid hm key i qs (snd (visit E auth valid hm key (snd q) (fst q) s))"

lemma verify_code_quiet:
  "wpx (verify_code E hm key u d code) (\<lambda>_ t. auth_cache t = auth_cache s \<and> clock_reads s \<le> clock_reads t)
     (\<lambda>_ t. auth_cache t = auth_cache s \<and> clock_reads s \<le> clock_reads t) s"
  by (auto simp: verify_code_def check_totp_def consume_backup_code_def Let_def audited_def
      split: option.split sum.split)

definition mfa_key :: "env \<Rightarrow> uuid \<Rightarrow> string" where
  "mfa_key E i = throttle_key ''mfa'' (e_str_uuid E i)"

lemma mfa_keys: "throttle_key ''login'' x \<noteq> mfa_key E i" "mfa_key E i \<noteq> throttle_key ''login'' x"
  "inj (e_str_uuid E) \<Longrightarrow> mfa_key E j = mfa_key E i \<longleftrightarrow> j = i"
  by (auto simp: mfa_key_def throttle_key_def inj_def)

lemma password_leaves_mfa:
  "wpx (email_login E auth valid ip target form ses)
     (\<lambda>_ t. auth_cache t (mfa_key E i) = auth_cache s (mfa_key E i) \<and> clock_reads s \<le> clock_reads t)
     (\<lambda>_ t. auth_cache t (mfa_key E i) = auth_cache s (mfa_key E i) \<and> clock_reads s \<le> clock_reads t) s"
  by (auto simp: email_login_def clean_login_form_def login_form_invalid_def login_form_valid_def reset_throttle_def record_failure_def Let_def
      on_login_failed_def wpx_eta mfa_keys audited_def split: option.split)

text \<open>What a request to the code page does to the counter of user \<open>i\<close>.\<close>

definition counted ::
  "env \<Rightarrow> uuid \<Rightarrow> bool option \<Rightarrow> 'z accounts_st_scheme \<Rightarrow> 'z accounts_st_scheme \<Rightarrow> bool" where
  "counted E i outcome s t = (clock_reads s \<le> clock_reads t \<and> (case outcome of
      None \<Rightarrow> auth_cache t (mfa_key E i) = auth_cache s (mfa_key E i)
    | Some False \<Rightarrow> (\<exists>k. clock_reads s \<le> k \<and> k < clock_reads t \<and> auth_cache t (mfa_key E i) =
        Some (Suc (cache_value (auth_cache s) (mfa_key E i) (e_now E k)), e_now E k + LOCKOUT_SECONDS))
    | Some True \<Rightarrow> True))"

lemma accepted_cache:
  "wpx (code_accepted E u d target ses)
     (\<lambda>_ t. clock_reads s \<le> clock_reads t \<and> (\<forall>k. k \<noteq> mfa_key E (u_id u) \<longrightarrow> auth_cache t k = auth_cache s k)) X s"
  by (simp add: code_accepted_def reset_throttle_def Let_def wpx_eta mfa_key_def split: option.split)

lemma failure_cache:
  "wpx (mseq (record_failure E ''mfa'' (e_str_uuid E j)) (ret r))
     (\<lambda>_ t. clock_reads t = Suc (clock_reads s) \<and> auth_cache t = (auth_cache s)(mfa_key E j \<mapsto>
        (Suc (cache_value (auth_cache s) (mfa_key E j) (e_now E (clock_reads s))),
         e_now E (clock_reads s) + LOCKOUT_SECONDS))) X s"
  by (simp add: record_failure_def Let_def mfa_key_def)

lemma code_counted:
  assumes inj: "inj (e_str_uuid E)"
  shows "wpx (mfa_verify E hm key target form ses)
     (\<lambda>_. counted E i (check_result E hm key i (ses, Code target form) s) s)
     (\<lambda>_. counted E i (check_result E hm key i (ses, Code target form) s) s) s"
proof (cases "ses_mfa_pending_user_id ses")
  case (Some j)
  show ?thesis
  proof (cases "List.find (\<lambda>u. u_id u = j) (users s)")
    case u: (Some u)
    then have id: "u_id u = j"
      by (auto dest: find_Some_D)
    show ?thesis
    proof (cases form)
      case raw: (Some raw)
      let ?t = "s\<lparr>clock_reads := Suc (clock_reads s)\<rparr>"
      let ?locked = "MAX_ATTEMPTS \<le> cache_value (auth_cache s) (mfa_key E j) (e_now E (clock_reads s))"
      let ?m = "verify_code E hm key u (confirmed_device j ?t) (py_strip raw)"
      let ?outcome = "check_result E hm key i (ses, Code target form) s"
      have same: "confirmed_device j ?t = confirmed_device j s"
        by (simp add: confirmed_device_def)
      note keys = mfa_keys(3) [OF inj, of j i]
      show ?thesis
      proof (cases ?locked)
        case False
        with Some u raw same have outcome: "?outcome = (if j = i then
            case fst (?m ?t) of Inl e \<Rightarrow> None | Inr b \<Rightarrow> Some b else None)"
          by (cases "j = i") (auto simp: check_result_def mfa_key_def)
        let ?k = "\<lambda>verified. if verified then code_accepted E u (confirmed_device j ?t) target ses
              else mseq (record_failure E ''mfa'' (e_str_uuid E j)) (ret (CodePage, ses))"
        have went: "wpx (?k b) (\<lambda>_. counted E i ?outcome s) (\<lambda>_. counted E i ?outcome s) v"
          if quiet: "auth_cache v = auth_cache s \<and> Suc (clock_reads s) \<le> clock_reads v"
            and b: "fst (?m ?t) = Inr b" for b v
        proof (cases b)
          case True
          have "wpx (code_accepted E u (confirmed_device j ?t) target ses)
              (\<lambda>_. counted E i ?outcome s) (\<lambda>_. counted E i ?outcome s) v"
            by (rule wpx_mono [OF accepted_cache [where X = "\<lambda>_ _. False"]])
              (use quiet b True keys id in \<open>auto simp: outcome counted_def\<close>)
          with True show ?thesis
            by (simp only: if_True)
        next
          case False
          have done1: "counted E i ?outcome s t"
            if "clock_reads t = Suc (clock_reads v)" and "auth_cache t = (auth_cache v)(mfa_key E j \<mapsto>
              (Suc (cache_value (auth_cache v) (mfa_key E j) (e_now E (clock_reads v))),
               e_now E (clock_reads v) + LOCKOUT_SECONDS))" for t :: "'a accounts_st_scheme"
          proof (cases "j = i")
            case True
            with quiet b False that show ?thesis
              by (auto simp: outcome counted_def intro!: exI [of _ "clock_reads v"])
          qed (use quiet that keys in \<open>simp add: outcome counted_def\<close>)
          have "wpx (mseq (record_failure E ''mfa'' (e_str_uuid E j)) (ret (CodePage, ses)))
              (\<lambda>_. counted E i ?outcome s) (\<lambda>_. counted E i ?outcome s) v"
            by (rule wpx_mono [OF failure_cache [where X = "\<lambda>_ _. False"]]) (simp_all add: done1)
          with False show ?thesis
            by (simp only: if_False)
        qed
        have "wpx ?m (\<lambda>b v. (auth_cache v = auth_cache ?t \<and> clock_reads ?t \<le> clock_reads v) \<and> fst (?m ?t) = Inr b)
            (\<lambda>e v. (auth_cache v = auth_cache ?t \<and> clock_reads ?t \<le> clock_reads v) \<and> fst (?m ?t) = Inl e) ?t"
          using verify_code_quiet [of E hm key u "confirmed_device j ?t" "py_strip raw" ?t]
          by (auto simp: wpx_def split: prod.splits sum.splits)
        then have "wpx (mbind ?m ?k) (\<lambda>_. counted E i ?outcome s) (\<lambda>_. counted E i ?outcome s) ?t"
          unfolding wpx_mbind
          by (rule wpx_mono) (simp_all add: went, auto simp: outcome counted_def)
        with Some u raw False id show ?thesis
          by (simp add: mfa_verify_def wpx_eta mfa_key_def cong: if_cong)
      qed (use Some u raw id in \<open>cases "j = i"; auto simp: mfa_verify_def mfa_key_def counted_def check_result_def\<close>)
    qed (use Some u in \<open>simp add: mfa_verify_def counted_def check_result_def\<close>)
  qed (use Some in \<open>cases form; cases "j = i"; auto simp: mfa_verify_def counted_def check_result_def\<close>)
qed (cases form; simp add: mfa_verify_def counted_def check_result_def)

lemma counted_ends [simp]:
  "counted E i b s (commit t) = counted E i b s t"
  "counted E i b s ((rollback s t)\<lparr>auth_cache := auth_cache t\<rparr>) = counted E i b s t"
  by (simp_all add: counted_def commit_def rollback_def split: option.split bool.split)

lemma visit_counted:
  assumes "inj (e_str_uuid E)"
  shows "counted E i (check_result E hm key i q s) s (snd (visit E auth valid hm key (snd q) (fst q) s))"
proof -
  obtain ses r where q: "q = (ses, r)"
    by (cases q)
  let ?o = "check_result E hm key i (ses, r) s"
  have "wpx (sign_in_step E auth valid hm key r ses) (\<lambda>_. counted E i ?o s) (\<lambda>_. counted E i ?o s) s"
  proof (cases r)
    case (Password ip target form)
    then have "?o = None"
      by (simp add: check_result_def)
    then show ?thesis
      unfolding Password sign_in_step.simps
      by (intro wpx_mono [OF password_leaves_mfa [of E auth valid ip target form ses i s]])
        (simp_all add: counted_def)
  next
    case (Code target form)
    then show ?thesis
      using code_counted [OF assms, of hm key target form ses i s] by simp
  qed
  then show ?thesis
    by (auto simp: wpx_def visit_def q split: prod.splits sum.splits)
qed

lemma serve_clock:
  "inj (e_str_uuid E) \<Longrightarrow> clock_reads s \<le> clock_reads (serve E auth valid hm key qs s)"
proof (induction qs arbitrary: s)
  case (Cons q qs)
  from visit_counted [OF Cons.prems, of undefined hm key q s auth valid]
  have "clock_reads s \<le> clock_reads (snd (visit E auth valid hm key (snd q) (fst q) s))"
    by (simp add: counted_def)
  with Cons show ?case
    using le_trans by fastforce
qed simp

lemma wrong_code_unlocked:
  "check_result E hm key i q s = Some b \<Longrightarrow>
   cache_value (auth_cache s) (mfa_key E i) (e_now E (clock_reads s)) < MAX_ATTEMPTS"
  by (auto simp: check_result_def mfa_key_def split: sign_in.splits option.splits if_splits)

text \<open>Once the counter of \<open>i\<close> stands at \<open>n\<close> and outlives the run, \<open>5 - n\<close> codes can fail.\<close>

lemma guesses_left:
  assumes inj: "inj (e_str_uuid E)"
    and clock: "\<And>k. clock_reads s \<le> k \<Longrightarrow> k < clock_reads (serve E auth valid hm key qs s) \<Longrightarrow>
      start \<le> e_now E k \<and> e_now E k < start + LOCKOUT_SECONDS"
    and wrong: "Some True \<notin> set (outcomes E auth valid hm key i qs s)"
  shows "count_list (outcomes E auth valid hm key i qs s) (Some False) \<le>
    (case auth_cache s (mfa_key E i) of
       Some (n, expires) \<Rightarrow> if start + LOCKOUT_SECONDS \<le> expires then MAX_ATTEMPTS - n else MAX_ATTEMPTS
     | None \<Rightarrow> MAX_ATTEMPTS)"
  using clock wrong
proof (induction qs arbitrary: s)
  case (Cons q qs)
  let ?t = "snd (visit E auth valid hm key (snd q) (fst q) s)"
  let ?K = "mfa_key E i"
  have step: "counted E i (check_result E hm key i q s) s ?t"
    by (rule visit_counted [OF inj])
  then have le: "clock_reads s \<le> clock_reads ?t"
    by (simp add: counted_def)
  have rest: "count_list (outcomes E auth valid hm key i qs ?t) (Some False) \<le>
      (case auth_cache ?t ?K of
         Some (n, expires) \<Rightarrow> if start + LOCKOUT_SECONDS \<le> expires then MAX_ATTEMPTS - n else MAX_ATTEMPTS
       | None \<Rightarrow> MAX_ATTEMPTS)"
    by (rule Cons.IH) (use Cons.prems le in auto)
  consider (None) "check_result E hm key i q s = None" | (False) "check_result E hm key i q s = Some False"
    using Cons.prems(2) by (cases "check_result E hm key i q s") auto
  then show ?case
  proof cases
    case None
    with step rest show ?thesis
      by (simp add: counted_def)
  next
    case False
    with step obtain k where k: "clock_reads s \<le> k" "k < clock_reads ?t"
      and now_t: "auth_cache ?t ?K = Some (Suc (cache_value (auth_cache s) ?K (e_now E k)), e_now E k + LOCKOUT_SECONDS)"
      by (auto simp: counted_def)
    let ?final = "clock_reads (serve E auth valid hm key qs ?t)"
    have "clock_reads ?t \<le> ?final"
      by (rule serve_clock [OF inj])
    with k have times: "start \<le> e_now E k" "e_now E k < start + LOCKOUT_SECONDS"
        "e_now E (clock_reads s) < start + LOCKOUT_SECONDS"
      using Cons.prems(1) [of k] Cons.prems(1) [of "clock_reads s"] by auto
    note free = wrong_code_unlocked [OF False]
    have "count_list (outcomes E auth valid hm key i qs ?t) (Some False) \<le>
        MAX_ATTEMPTS - Suc (cache_value (auth_cache s) ?K (e_now E k))"
      using rest times(1) by (simp add: now_t)
    moreover have "Suc (MAX_ATTEMPTS - Suc (cache_value (auth_cache s) ?K (e_now E k))) \<le>
      (case auth_cache s ?K of
         Some (n, expires) \<Rightarrow> if start + LOCKOUT_SECONDS \<le> expires then MAX_ATTEMPTS - n else MAX_ATTEMPTS
       | None \<Rightarrow> MAX_ATTEMPTS)"
      using times(2,3) free by (auto simp: cache_value_def MAX_ATTEMPTS_def split: option.split)
    ultimately show ?thesis
      using False by simp
  qed
qed (simp split: option.split prod.split)

text \<open>What the page shows against the check inside it.\<close>

lemma let_in_checked:
  assumes "check_result E hm key i q s = Some True"
  shows "let_in E auth valid hm key i q s"
proof -
  obtain target raw u where q: "snd q = Code target (Some raw)" "ses_mfa_pending_user_id (fst q) = Some i"
      and u: "List.find (\<lambda>u. u_id u = i) (users s) = Some u" and id: "u_id u = i"
      and free: "\<not> MAX_ATTEMPTS \<le> cache_value (auth_cache s) (throttle_key ''mfa'' (e_str_uuid E i)) (e_now E (clock_reads s))"
      and ok: "fst (verify_code E hm key u (confirmed_device i s) (py_strip raw) (s\<lparr>clock_reads := Suc (clock_reads s)\<rparr>)) = Inr True"
    using assms by (auto simp: check_result_def dest: find_Some_D split: sign_in.splits option.splits if_splits sum.splits)
  let ?t = "s\<lparr>clock_reads := Suc (clock_reads s)\<rparr>"
  have "wpx (code_accepted E u d target ses) (\<lambda>(a, ses) t. \<exists>x. a = RedirectTo x) (\<lambda>_ _. False) t" for d ses and t :: "'a accounts_st_scheme"
    by (simp add: code_accepted_def reset_throttle_def Let_def wpx_eta split: option.split)
  then have "wpx (mbind (verify_code E hm key u (confirmed_device i s) (py_strip raw)) (\<lambda>verified.
      if verified then code_accepted E u (confirmed_device i s) target (fst q)
      else mseq (record_failure E ''mfa'' (e_str_uuid E i)) (ret (CodePage, fst q))))
      (\<lambda>(a, ses) t. \<exists>x. a = RedirectTo x) (\<lambda>_ _. False) ?t"
    unfolding wpx_mbind using ok by (auto simp: wpx_def split: prod.splits sum.splits)
  then have "wpx (mfa_verify E hm key target (Some raw) (fst q)) (\<lambda>(a, ses) t. \<exists>x. a = RedirectTo x) (\<lambda>_ _. False) s"
    using q u id free by (simp add: mfa_verify_def confirmed_device_def cong: if_cong)
  with q show ?thesis
    by (auto simp: let_in_def wpx_def split: prod.splits sum.splits answer.splits)
qed

lemma locked_page_blind:
  assumes "ses_mfa_pending_user_id ses = Some i"
    and "MAX_ATTEMPTS \<le> cache_value (auth_cache s) (throttle_key ''mfa'' (e_str_uuid E i)) (e_now E (clock_reads s))"
  shows "mfa_verify E hm key target (Some a) ses s = mfa_verify E hm key target (Some b) ses s"
  using assms by (auto simp: mfa_verify_def is_locked_out_def mbind_def gets_def ret_def now_def mseq_def modify_def
      dest: find_Some_D split: option.split)

lemma wrong_guess_checked:
  assumes "wrong_guess E auth valid hm key i q s"
  shows "check_result E hm key i q s = Some False"
proof -
  let ?t = "s\<lparr>clock_reads := Suc (clock_reads s)\<rparr>"
  obtain target raw where q: "snd q = Code target (Some raw)" "ses_mfa_pending_user_id (fst q) = Some i"
    using assms by (auto simp: wrong_guess_def split: sign_in.splits option.splits)
  with assms obtain code
    where page: "case fst (mfa_verify E hm key target (Some raw) (fst q) s) of Inr (CodePage, ses) \<Rightarrow> True | _ \<Rightarrow> False"
      and differs: "visit E auth valid hm key (Code target (Some code)) (fst q) s \<noteq> visit E auth valid hm key (snd q) (fst q) s"
    by (auto simp: wrong_guess_def)
  have other: "mfa_verify E hm key target (Some code) (fst q) s \<noteq> mfa_verify E hm key target (Some raw) (fst q) s"
    using differs q(1) by (auto simp: visit_def)
  have free: "\<not> MAX_ATTEMPTS \<le> cache_value (auth_cache s) (throttle_key ''mfa'' (e_str_uuid E i)) (e_now E (clock_reads s))"
    using locked_page_blind [OF q(2)] other by blast
  obtain u where u: "List.find (\<lambda>u. u_id u = i) (users s) = Some u" and id: "u_id u = i"
    using other q(2) by (auto simp: mfa_verify_def mbind_def gets_def dest: find_Some_D split: option.splits)
  have device: "confirmed_device i ?t = confirmed_device i s"
    by (simp add: confirmed_device_def)
  show ?thesis
  proof (cases "fst (verify_code E hm key u (confirmed_device i s) (py_strip raw) ?t)")
    case (Inl e)
    then obtain t where t: "verify_code E hm key u (confirmed_device i s) (py_strip raw) ?t = (Inl e, t)"
      by (metis prod.collapse)
    have "fst (mfa_verify E hm key target (Some raw) (fst q) s) = Inl e"
      using t free q u id device
      by (simp add: mfa_verify_def is_locked_out_def mbind_def gets_def now_def mseq_def modify_def ret_def split: prod.splits)
    with page show ?thesis
      by simp
  next
    case (Inr b)
    have result: "check_result E hm key i q s = Some b"
      using Inr free q u by (simp add: check_result_def)
    then have "\<not> b"
      using let_in_checked [of E hm key i q s auth valid] page q
      by (auto simp: let_in_def split: sum.splits answer.splits prod.splits)
    with result show ?thesis
      by simp
  qed
qed

lemma outcomes_served:
  "outcomes E auth valid hm key i qs s = map (\<lambda>(q, u). check_result E hm key i q u) (served E auth valid hm key qs s)"
  by (induction qs arbitrary: s) simp_all

text \<open>
  C26 (\<open>mfa_verify\<close>, \<open>throttle.py\<close>): whoever knows a user's password, and however many browsers
  they use, can try at most five wrong codes of that user within fifteen minutes: among any
  requests to the sign-in pages whose clock readings lie that close, of which none lets a browser
  in with a code of the user, the code page comes back at most five times with an answer that
  depended on the code. Every other time it comes back without having looked: any code, the right
  one too, would have met the same answer and left the same tables.
\<close>

theorem code_guesses_bounded:
  assumes "inj (e_str_uuid E)"
    and "\<And>k. clock_reads s \<le> k \<Longrightarrow> k < clock_reads (serve E auth valid hm key qs s) \<Longrightarrow>
      start \<le> e_now E k \<and> e_now E k < start + LOCKOUT_SECONDS"
    and "\<And>q u. (q, u) \<in> set (served E auth valid hm key qs s) \<Longrightarrow> \<not> let_in E auth valid hm key i q u"
  shows "length (filter (\<lambda>(q, u). wrong_guess E auth valid hm key i q u) (served E auth valid hm key qs s)) \<le> 5"
proof -
  let ?os = "outcomes E auth valid hm key i qs s"
  have "length (filter (\<lambda>(q, u). wrong_guess E auth valid hm key i q u) vs)
      \<le> count_list (map (\<lambda>(q, u). check_result E hm key i q u) vs) (Some False)" for vs
    by (induction vs) (auto simp: wrong_guess_checked le_SucI)
  moreover have "Some True \<notin> set ?os"
    using assms(3) let_in_checked by (fastforce simp: outcomes_served)
  from guesses_left [OF assms(1,2) this] have "count_list ?os (Some False) \<le> 5"
    by (auto simp: MAX_ATTEMPTS_def split: option.splits if_splits)
  ultimately show ?thesis
    unfolding outcomes_served using le_trans by blast
qed

definition guessing :: "(session \<times> sign_in) list" where
  "guessing = replicate 2 (signed_out\<lparr>ses_mfa_pending_user_id := Some (Uuid 1)\<rparr>, Code [] (Some ''AAAAA-00000''))"

definition four_failed :: accounts_st where
  "four_failed = example_accounts\<lparr>auth_cache := (\<lambda>_. None)(throttle_key ''mfa'' (e_str_uuid example_env (Uuid 1)) \<mapsto> (4, 900))\<rparr>"

theorem code_guesses_bounded_witness:
  "length (filter (\<lambda>(q, u). wrong_guess example_env example_auth (\<lambda>_. True) example_hm ''k'' (Uuid 1) q u)
     (served example_env example_auth (\<lambda>_. True) example_hm ''k'' guessing four_failed)) \<le> 5 \<and>
   list_ex (\<lambda>(q, u). wrong_guess example_env example_auth (\<lambda>_. True) example_hm ''k'' (Uuid 1) q u)
     (served example_env example_auth (\<lambda>_. True) example_hm ''k'' guessing four_failed)"
proof (rule conjI, rule code_guesses_bounded [where start = 0])
  show "inj (e_str_uuid example_env)"
    by (auto simp: example_env_def inj_def uuid.expand)
  have "clock_reads (serve example_env example_auth (\<lambda>_. True) example_hm ''k'' guessing four_failed) < 100"
    by code_simp
  then show "0 \<le> e_now example_env k \<and> e_now example_env k < 0 + LOCKOUT_SECONDS"
    if "k < clock_reads (serve example_env example_auth (\<lambda>_. True) example_hm ''k'' guessing four_failed)" for k
    using that by (simp add: LOCKOUT_SECONDS_def)
  have "list_all (\<lambda>(q, u). \<not> let_in example_env example_auth (\<lambda>_. True) example_hm ''k'' (Uuid 1) q u)
      (served example_env example_auth (\<lambda>_. True) example_hm ''k'' guessing four_failed)"
    by code_simp
  then show "\<not> let_in example_env example_auth (\<lambda>_. True) example_hm ''k'' (Uuid 1) q u"
    if "(q, u) \<in> set (served example_env example_auth (\<lambda>_. True) example_hm ''k'' guessing four_failed)" for q u
    using that by (auto simp: list_all_iff)
  let ?q = "(signed_out\<lparr>ses_mfa_pending_user_id := Some (Uuid 1)\<rparr>, Code [] (Some ''AAAAA-00000''))"
  have "fst (visit example_env example_auth (\<lambda>_. True) example_hm ''k'' (Code [] (Some ''abcde-12345'')) (fst ?q) four_failed) \<noteq>
      fst (visit example_env example_auth (\<lambda>_. True) example_hm ''k'' (snd ?q) (fst ?q) four_failed)"
    by code_simp
  moreover have "case fst (sign_in_step example_env example_auth (\<lambda>_. True) example_hm ''k'' (snd ?q) (fst ?q) four_failed) of
      Inr (CodePage, ses) \<Rightarrow> True | _ \<Rightarrow> False"
    by code_simp
  ultimately have "wrong_guess example_env example_auth (\<lambda>_. True) example_hm ''k'' (Uuid 1) ?q four_failed"
    unfolding wrong_guess_def by (simp, metis)
  then show "list_ex (\<lambda>(q, u). wrong_guess example_env example_auth (\<lambda>_. True) example_hm ''k'' (Uuid 1) q u)
      (served example_env example_auth (\<lambda>_. True) example_hm ''k'' guessing four_failed)"
    by (simp add: guessing_def numeral_eq_Suc)
qed

subsection \<open>What a locked page tells\<close>

text \<open>
  Also (\<open>EmailLoginView.post\<close>, \<open>login.html\<close>): the lockout stops the session, not the guessing: while
  an address and email are locked out, the page still shows, for a well-formed form, whether the
  password was right, and a wrong one is audited as a failed login.
\<close>

theorem locked_login_page_tells_password:
  assumes "request_user ses s = None" and "valid (py_strip email)" and "pw \<noteq> []"
    and "5 \<le> cache_value (auth_cache s) (throttle_key ''login'' (login_throttle_identifier ip email))
      (e_now E (clock_reads s))"
  shows "succeeds (email_login E auth valid ip target (email, pw) ses)
     (\<lambda>(a, ses') t. a = LoginPage (auth (py_strip email) pw (users s) = None) \<and> ses' = ses \<and>
        auth_cache t = auth_cache s \<and>
        length (audit_logs t) = length (audit_logs s) + (if a = LoginPage True then 1 else 0)) s"
  using assms by (auto simp: email_login_def clean_login_form_def on_login_failed_def MAX_ATTEMPTS_def Let_def
      audited_def split: option.split)

theorem locked_login_page_tells_password_witness:
  "let s = example_accounts\<lparr>auth_cache := \<lambda>_. Some (5, 900)\<rparr> in
   fst (email_login example_env example_auth (\<lambda>_. True) None [] (''a@b.c'', ''pw'') signed_out s) =
     Inr (LoginPage False, signed_out) \<and>
   fst (email_login example_env example_auth (\<lambda>_. True) None [] (''a@b.c'', ''no'') signed_out s) =
     Inr (LoginPage True, signed_out)"
proof -
  let ?s = "example_accounts\<lparr>auth_cache := \<lambda>_. Some (5, 900)\<rparr>"
  have found: "example_auth (py_strip ''a@b.c'') ''pw'' (users ?s) \<noteq> None"
      "example_auth (py_strip ''a@b.c'') ''no'' (users ?s) = None"
    by code_simp+
  have signed_out_user: "request_user signed_out ?s = None"
    and locked: "5 \<le> cache_value (auth_cache ?s)
      (throttle_key ''login'' (login_throttle_identifier None ''a@b.c'')) (e_now example_env (clock_reads ?s))"
    by (simp_all add: request_user_def signed_out_def cache_value_def example_accounts_def)
  have page: "fst (email_login example_env example_auth (\<lambda>_. True) None [] (''a@b.c'', pw) signed_out ?s) =
      Inr (LoginPage (example_auth (py_strip ''a@b.c'') pw (users ?s) = None), signed_out)" if "pw \<noteq> []" for pw
    using locked_login_page_tells_password [OF signed_out_user TrueI that locked, of example_auth "[]"]
    unfolding succeeds_iff by (elim exE conjE) (simp only: fst_conv prod.case split: prod.splits)
  show ?thesis
    unfolding Let_def using page [of "''pw''"] page [of "''no''"] found by (simp only: list.distinct not_False_eq_True simp_thms)
qed

end
