(* ===== verification/BackupCodes.thy ===== *)
theory BackupCodes
  imports Accounts
begin

text \<open>
  Backup codes (\<open>mfa_services.py\<close>): a fresh set replaces the old one, each of its codes is
  accepted however it is typed, and each is accepted once.
\<close>

definition unused_codes :: "uuid \<Rightarrow> 'z accounts_st_scheme \<Rightarrow> nat" where
  "unused_codes i s = length (filter (\<lambda>c. bc_user c = i \<and> bc_used_at c = None) (backup_codes s))"

lemma unused_codes_frame [simp]:
  "unused_codes i (audited r s) = unused_codes i s" "backup_codes (audited r s) = backup_codes s"
  "unused_codes i (s\<lparr>clock_reads := n\<rparr>) = unused_codes i s"
  by (simp_all add: unused_codes_def audited_def)

subsection \<open>Each code once\<close>

lemma used_once:
  assumes "distinct (map bc_id cs)" and "b \<in> set cs" and "Q b" and "\<And>c. \<not> Q (f c)" and "\<And>c. bc_id (f c) = bc_id c"
  shows "Suc (length (filter Q (row_update bc_id (bc_id b) f cs))) = length (filter Q cs)"
  using assms
proof (induction cs)
  case (Cons c cs)
  show ?case
  proof (cases "bc_id c = bc_id b")
    case True
    with Cons.prems(1,2) have "b = c" and others: "\<And>x. x \<in> set cs \<Longrightarrow> bc_id x \<noteq> bc_id b"
      by (auto simp: image_iff)
    moreover from others have "row_update bc_id (bc_id b) f cs = cs"
      unfolding row_update_def by (intro map_idI) auto
    ultimately show ?thesis
      using Cons.prems(3,4) by (simp add: row_update_def)
  next
    case False
    with Cons show ?thesis
      by (auto simp: row_update_def)
  qed
qed simp

definition code_ids :: "'z accounts_st_scheme \<Rightarrow> uuid list" where
  "code_ids s = map bc_id (backup_codes s)"

lemma wpx_consume:
  assumes "distinct (code_ids s)"
  shows "wpx (consume_backup_code E key u raw)
     (\<lambda>b t. code_ids t = code_ids s \<and> unused_codes (u_id u) t + (if b then 1 else 0) = unused_codes (u_id u) s)
     (\<lambda>_ _. False) s"
proof (cases "raw = [] \<or> \<not> looks_like_backup_code raw")
  case False
  let ?h = "backup_code_lookup_hash E key raw"
  show ?thesis
  proof (cases "find_backup_code (u_id u) ?h (backup_codes s)")
    case (Some b)
    then have b: "b \<in> set (backup_codes s)" "bc_user b = u_id u" "bc_used_at b = None"
      by (auto simp: find_backup_code_def dest: find_Some_D)
    have "Suc (length (filter (\<lambda>c. bc_user c = u_id u \<and> bc_used_at c = None)
        (row_update bc_id (bc_id b) (\<lambda>r. r\<lparr>bc_used_at := Some n\<rparr>) (backup_codes s)))) = unused_codes (u_id u) s" for n
      unfolding unused_codes_def
      by (rule used_once) (use assms b in \<open>auto simp: code_ids_def\<close>)
    with Some False show ?thesis
      by (simp add: consume_backup_code_def Let_def code_ids_def map_row_update unused_codes_def)
  qed (use False in \<open>simp add: consume_backup_code_def\<close>)
qed (simp add: consume_backup_code_def)

lemma consume_run:
  "distinct (code_ids s) \<Longrightarrow> run_calls (map (consume_backup_code E key u) raws) s = (rs, t) \<Longrightarrow>
   code_ids t = code_ids s \<and> list_all (\<lambda>r. r \<in> {Inr True, Inr False}) rs \<and>
   count_list rs (Inr True) + unused_codes (u_id u) t = unused_codes (u_id u) s"
proof (induction raws arbitrary: s rs)
  case (Cons raw raws)
  obtain r v where run: "consume_backup_code E key u raw s = (r, v)"
    by (cases "consume_backup_code E key u raw s")
  obtain rs' where rest: "run_calls (map (consume_backup_code E key u) raws) v = (rs', t)"
    using Cons.prems(2) run by (auto split: prod.splits)
  note ok = wpx_consume [OF Cons.prems(1), of E key u raw]
  obtain b where r: "r = Inr b"
    using wpx_result(2) [OF ok] run by (cases r) auto
  note one = wpx_result(1) [OF ok run [unfolded r]]
  with Cons.prems have "distinct (code_ids v)"
    by simp
  from Cons.IH [OF this rest] one r run rest Cons.prems show ?case
    by (cases b) auto
qed simp

text \<open>
  C28 (\<open>consume_backup_code\<close>): a backup code works once: over any sequence of attempts by a user,
  whatever is typed, the number accepted is the number of the user's unused codes before less the
  number after, and no attempt raises an error.
\<close>

theorem backup_codes_single_use:
  assumes "distinct (map bc_id (backup_codes s))"
    and "run_calls (map (consume_backup_code E key u) raws) s = (rs, t)"
  shows "count_list rs (Inr True) + unused_codes (u_id u) t = unused_codes (u_id u) s \<and>
    filter isl rs = []"
  using consume_run [OF assms(1) [folded code_ids_def] assms(2)]
  by (auto simp: list_all_iff filter_empty_conv)

subsection \<open>A fresh set\<close>

definition well_shaped :: "string \<Rightarrow> bool" where
  "well_shaped c \<longleftrightarrow> length c = 11 \<and> c ! 5 = CHR ''-'' \<and> list_all is_code_char (take 5 c) \<and> list_all is_code_char (drop 6 c)"

lemma looks_like_shaped: "looks_like_backup_code raw = well_shaped (py_upper (py_strip raw))"
  by (simp add: looks_like_backup_code_def well_shaped_def Let_def)

lemma wpx_random_chars:
  "wpx (random_chars E n) (\<lambda>cs t. length cs = n \<and> list_all is_code_char cs \<and> backup_codes t = backup_codes s) X s"
proof (induction n arbitrary: s)
  case (Suc n)
  have char: "is_code_char (code_alphabet ! (k mod 36))" for k
    unfolding is_code_char_def by (rule nth_mem) (simp add: code_alphabet_def)
  show ?case
    by (simp, rule wpx_mono [OF Suc.IH]) (auto simp: char)
qed simp

lemma wpx_generate_codes:
  "wpx (generate_codes E n) (\<lambda>cs t. length cs = n \<and> list_all well_shaped cs \<and> backup_codes t = backup_codes s) X s"
proof (induction n arbitrary: s)
  case (Suc n)
  have shape: "well_shaped (take 5 cs @ CHR ''-'' # drop 5 cs)" if "length cs = 10" "list_all is_code_char cs" for cs
    using that by (auto simp: well_shaped_def nth_append list_all_iff dest: in_set_takeD in_set_dropD)
  show ?case
    unfolding generate_codes.simps generate_backup_code_def wpx_mbind
    by (rule wpx_mono [OF wpx_random_chars [where X = X]])
      (simp_all, rule wpx_mono [OF Suc.IH], auto intro!: shape)
qed simp

lemma wpx_insert_codes:
  "wpx (insert_codes E key i raws)
     (\<lambda>_ t. unused_codes i t = length raws + unused_codes i s \<and>
        (\<exists>new. backup_codes t = new @ backup_codes s \<and>
          (\<forall>raw \<in> set raws. \<exists>b \<in> set new. bc_user b = i \<and> bc_used_at b = None \<and>
             bc_lookup_hash b = backup_code_lookup_hash E key raw))) X s"
proof (induction raws arbitrary: s)
  case (Cons raw raws)
  show ?case
    by (simp, rule wpx_mono [OF Cons.IH])
      (auto simp: unused_codes_def append_eq_append_conv2)
qed simp

lemma find_new_code:
  "\<exists>b \<in> set new. bc_user b = i \<and> bc_used_at b = None \<and> bc_lookup_hash b = h \<Longrightarrow>
   \<exists>y. find_backup_code i h (new @ old) = Some y"
  unfolding not_None_eq [symmetric] by (auto simp: find_backup_code_def find_None_iff simp del: not_None_eq)

lemma wpx_fresh_set:
  "succeeds (generate_backup_codes E key actor u)
     (\<lambda>raws t. length raws = BACKUP_CODE_COUNT \<and> list_all well_shaped raws \<and>
        unused_codes (u_id u) t = BACKUP_CODE_COUNT \<and>
        (\<forall>raw \<in> set raws. find_backup_code (u_id u) (backup_code_lookup_hash E key raw) (backup_codes t) \<noteq> None)) s"
proof -
  let ?old = "s\<lparr>backup_codes := filter (\<lambda>c. bc_user c \<noteq> u_id u) (backup_codes s)\<rparr>"
  have none: "unused_codes (u_id u) t = 0" if "backup_codes t = backup_codes ?old" for t :: "'a accounts_st_scheme"
    using that by (simp add: unused_codes_def)
  have stored: "succeeds (insert_codes E key (u_id u) raws)
      (\<lambda>_ v. unused_codes (u_id u) v = length raws \<and>
        (\<forall>raw \<in> set raws. find_backup_code (u_id u) (backup_code_lookup_hash E key raw) (backup_codes v) \<noteq> None)) t"
    if "backup_codes t = backup_codes ?old" for raws and t :: "'a accounts_st_scheme"
    by (rule wpx_mono [OF wpx_insert_codes [where X = "\<lambda>_ _. False"]])
      (use none [OF that] in \<open>auto intro!: find_new_code\<close>)
  have "succeeds (mseq (insert_codes E key (u_id u) raws)
      (mseq (record_audit_event E ''mfa.backup_codes_generated'' actor None None None None
               (JObj [(''user'', JStr (u_email u))])) (ret raws)))
     (\<lambda>raws t. length raws = BACKUP_CODE_COUNT \<and> list_all well_shaped raws \<and>
        unused_codes (u_id u) t = BACKUP_CODE_COUNT \<and>
        (\<forall>raw \<in> set raws. find_backup_code (u_id u) (backup_code_lookup_hash E key raw) (backup_codes t) \<noteq> None)) t"
    if "length raws = BACKUP_CODE_COUNT" "list_all well_shaped raws" "backup_codes t = backup_codes ?old"
    for raws and t :: "'a accounts_st_scheme"
    unfolding wpx_mseq
    by (rule wpx_mono [OF stored [OF that(3)]]) (use that in \<open>simp_all add: Let_def\<close>)
  then show ?thesis
    unfolding generate_backup_codes_def wpx_mseq wpx_mbind wpx_modify
    by (intro wpx_mono [OF wpx_generate_codes [where X = "\<lambda>_ _. False"]]) auto
qed

lemma shaped_char:
  assumes "is_code_char c \<or> c = CHR ''-''"
  shows "\<not> is_space c \<and> upper_char c = c"
proof -
  have "list_all (\<lambda>c. \<not> is_space c \<and> upper_char c = c) (CHR ''-'' # code_alphabet)"
    by code_simp
  with assms show ?thesis
    by (auto simp: is_code_char_def list_all_iff)
qed

lemma shaped_plain:
  assumes "well_shaped c"
  shows "py_upper (py_strip c) = c"
proof -
  have "c = take 5 c @ c ! 5 # drop (Suc 5) c"
    by (rule id_take_nth_drop) (use assms in \<open>simp add: well_shaped_def\<close>)
  then have "set c = set (take 5 c) \<union> {c ! 5} \<union> set (drop 6 c)"
    by (metis Un_insert_right list.simps(15) set_append sup_bot_right Suc_numeral semiring_norm(5) semiring_norm(8) Un_assoc Un_insert_left sup_bot_left insert_is_Un)
  with assms have plain: "\<forall>x \<in> set c. \<not> is_space x \<and> upper_char x = x"
    unfolding well_shaped_def list_all_iff by (metis Un_iff shaped_char singletonD)
  then have "dropWhile is_space c = c" "dropWhile is_space (rev c) = rev c"
    by (auto intro!: dropWhile_id simp: hd_in_set simp flip: last_rev)
  with plain show ?thesis
    by (simp add: py_strip_def py_upper_def map_idI)
qed

lemma fresh_code_accepted:
  assumes "find_backup_code (u_id u) (backup_code_lookup_hash E key c) (backup_codes t) \<noteq> None"
    and "well_shaped c" and "py_upper (py_strip raw) = c"
  shows "fst (consume_backup_code E key u raw t) = Inr True"
proof -
  have "raw \<noteq> []"
    using assms(2,3) by (auto simp: py_strip_def py_upper_def well_shaped_def)
  with assms shaped_plain [OF assms(2)] have "succeeds (consume_backup_code E key u raw) (\<lambda>b _. b) t"
    by (auto simp: consume_backup_code_def looks_like_shaped backup_code_lookup_hash_def Let_def)
  then show ?thesis
    by (auto simp: succeeds_iff)
qed

text \<open>
  C29 (\<open>generate_backup_codes\<close>, \<open>consume_backup_code\<close>): generating gives ten codes and leaves the
  user exactly ten unused ones, however many there were before; each of the ten is then accepted,
  typed in either case and with any spaces around it, though only its keyed hash is stored.
\<close>

theorem backup_codes_round_trip:
  assumes "generate_backup_codes E key actor u s = (r, t)"
  shows "\<exists>codes. r = Inr codes \<and> length codes = 10 \<and> unused_codes (u_id u) t = 10 \<and>
    (\<forall>raw. py_upper (py_strip raw) \<in> set codes \<longrightarrow> fst (consume_backup_code E key u raw t) = Inr True)"
proof -
  from wpx_fresh_set [of E key actor u s] assms obtain codes where r: "r = Inr codes"
    by (auto simp: succeeds_iff)
  note fresh = wpx_result(1) [OF wpx_fresh_set assms [unfolded r]]
  have "fst (consume_backup_code E key u raw t) = Inr True" if "py_upper (py_strip raw) \<in> set codes" for raw
    by (rule fresh_code_accepted [where c = "py_upper (py_strip raw)"]) (use fresh that in \<open>auto simp: list_all_iff\<close>)
  with fresh r show ?thesis
    by (auto simp: BACKUP_CODE_COUNT_def)
qed

definition code_holder :: user where
  "code_holder = \<lparr>u_id = Uuid 1, u_email = ''a@b.c'', u_password = ''pw'', u_first_name = [],
     u_first_name_lookup_hash = [], u_last_name = [], u_last_name_lookup_hash = [], u_phone_number = [],
     u_is_active = True, u_is_staff = False, u_is_superuser = False\<rparr>"

definition holder_st :: "backup_code list \<Rightarrow> accounts_st" where
  "holder_st cs = \<lparr>clock_reads = 0, draws = 0, tx_broken = False, on_commit = [], broker = [],
     users = [code_holder], platform_memberships = [], tenants = [], tenant_memberships = [], audit_logs = [],
     mfa_devices = [], backup_codes = cs, auth_cache = \<lambda>_. None\<rparr>"

theorem backup_codes_round_trip_witness:
  "\<exists>codes. fst (generate_backup_codes example_env ''k'' None code_holder (holder_st [])) = Inr codes \<and>
     length codes = 10 \<and>
     list_all (\<lambda>c. fst (consume_backup_code example_env ''k'' code_holder ('' '' @ c)
       (snd (generate_backup_codes example_env ''k'' None code_holder (holder_st [])))) = Inr True) codes"
proof -
  let ?g = "generate_backup_codes example_env ''k'' None code_holder (holder_st [])"
  obtain codes where codes: "fst ?g = Inr codes" "length codes = 10"
    and ok: "\<And>raw. py_upper (py_strip raw) \<in> set codes \<Longrightarrow>
      fst (consume_backup_code example_env ''k'' code_holder raw (snd ?g)) = Inr True"
    using backup_codes_round_trip [OF prod.collapse [symmetric, of ?g]] by blast
  have "list_all well_shaped codes"
    using wpx_result(1) [OF wpx_fresh_set [of example_env "''k''" None code_holder "holder_st []"], of codes "snd ?g"]
      codes(1) by (metis prod.collapse)
  moreover have "py_strip ('' '' @ c) = py_strip c" for c
    by (simp add: py_strip_def is_space_def)
  ultimately show ?thesis
    using codes ok shaped_plain by (auto simp: list_all_iff)
qed

theorem backup_codes_single_use_witness:
  "count_list (fst (run_calls (map (consume_backup_code example_env ''k'' code_holder)
      [''AAAAA-00000'', ''BBBBB-11111'', ''aaaaa-00000''])
      (holder_st [\<lparr>bc_id = Uuid 3, bc_user = Uuid 1, bc_lookup_hash = ''kAAAAA-00000'', bc_used_at = None\<rparr>])))
    (Inr True) = 1"
proof -
  let ?s = "holder_st [\<lparr>bc_id = Uuid 3, bc_user = Uuid 1, bc_lookup_hash = ''kAAAAA-00000'', bc_used_at = None\<rparr>]"
  let ?run = "run_calls (map (consume_backup_code example_env ''k'' code_holder)
      [''AAAAA-00000'', ''BBBBB-11111'', ''aaaaa-00000'']) ?s"
  have "unused_codes (u_id code_holder) (snd ?run) = 0" "unused_codes (u_id code_holder) ?s = 1"
      "distinct (map bc_id (backup_codes ?s))"
    by code_simp+
  with backup_codes_single_use [OF this(3) prod.collapse [symmetric, of ?run]] show ?thesis
    by simp
qed

end
