(* ===== verification/TenantAdmin.thy ===== *)
theory TenantAdmin
  imports Accounts
begin

text \<open>
  Institutions and people (\<open>apps/tenants/views.py\<close>, \<open>forms.py\<close>, \<open>apps/users/views.py\<close>, \<open>forms.py\<close>,
  \<open>managers.py\<close>): registration, approval, teams, platform users. Django's parts are the parameter
  \<open>site\<close>: which texts are email addresses or ids, \<open>slugify\<close>, \<open>normalize_email\<close>, the password
  hasher. A form is the record of its texts; a field that was not sent is the empty text.
\<close>

record site =
  si_is_email :: "string \<Rightarrow> bool"
  si_uuid :: "string \<Rightarrow> uuid option"
  si_slugify :: "string \<Rightarrow> string"
  si_normalize_email :: "string \<Rightarrow> string"
  si_hash :: "nat \<Rightarrow> string \<Rightarrow> string"

subsection \<open>Choices\<close>

fun tenant_role_value :: "tenant_role \<Rightarrow> string" where
  "tenant_role_value TENANT_ADMIN = ''tenant_admin''"
| "tenant_role_value FINANCE_MANAGER = ''finance_manager''"
| "tenant_role_value ACCOUNTANT = ''accountant''"
| "tenant_role_value BILLING_OFFICER = ''billing_officer''"
| "tenant_role_value RECONCILIATION_OFFICER = ''reconciliation_officer''"
| "tenant_role_value VIEWER = ''viewer''"
| "tenant_role_value API_CLIENT = ''api_client''"

fun platform_role_value :: "platform_role \<Rightarrow> string" where
  "platform_role_value SUPER_ADMIN = ''super_admin''"
| "platform_role_value FINANCE_ADMIN = ''finance_admin''"
| "platform_role_value OPERATIONS_ADMIN = ''operations_admin''"
| "platform_role_value COMPLIANCE_ADMIN = ''compliance_admin''"
| "platform_role_value SUPPORT_ADMIN = ''support_admin''"
| "platform_role_value AUDITOR = ''auditor''"

text \<open>\<open>ChoiceField\<close>: the choice with the submitted value.\<close>

definition choice_field :: "('a \<Rightarrow> string) \<Rightarrow> 'a list \<Rightarrow> string \<Rightarrow> 'a option" where
  "choice_field name choices v = List.find (\<lambda>x. name x = v) choices"

definition SECTORS :: "sector list" where
  "SECTORS = [EDUCATION, HEALTHCARE, RETAIL, HOSPITALITY, PROPERTY, PROFESSIONAL_SERVICES, NGO, RELIGIOUS,
     TRAINING, MEMBERSHIP, UTILITIES, ASSOCIATION, GOVERNMENT_ADJACENT, OTHER_SECTOR]"

definition TEAM_ROLES :: "tenant_role list" where
  "TEAM_ROLES = filter (\<lambda>r. r \<noteq> API_CLIENT)
     [TENANT_ADMIN, FINANCE_MANAGER, ACCOUNTANT, BILLING_OFFICER, RECONCILIATION_OFFICER, VIEWER, API_CLIENT]"

definition PLATFORM_ROLES :: "platform_role list" where
  "PLATFORM_ROLES = [SUPER_ADMIN, FINANCE_ADMIN, OPERATIONS_ADMIN, COMPLIANCE_ADMIN, SUPPORT_ADMIN, AUDITOR]"

subsection \<open>Form fields\<close>

text \<open>\<open>CharField\<close> strips; this includes the passwords.\<close>

definition text_field :: "nat \<Rightarrow> nat \<Rightarrow> string \<Rightarrow> string option" where
  "text_field low high v = (let t = py_strip v in
     if low \<le> length t \<and> length t \<le> high then Some t else None)"

definition password_field :: "string \<Rightarrow> string option" where
  "password_field v = (let t = py_strip v in if 12 \<le> length t then Some t else None)"

definition email_field :: "site \<Rightarrow> string \<Rightarrow> string option" where
  "email_field S v = (let t = py_strip v in
     if t \<noteq> [] \<and> length t \<le> 320 \<and> si_is_email S t then Some t else None)"

text \<open>\<open>clean_email\<close> of the three forms.\<close>

definition clean_email :: "string \<Rightarrow> 'z identity_st_scheme \<Rightarrow> string option" where
  "clean_email v s = (let e = py_lower (py_strip v) in
     if list_ex (\<lambda>u. u_email u = e) (users s) then None else Some e)"

definition clean_institution_name :: "string \<Rightarrow> 'z identity_st_scheme \<Rightarrow> string option" where
  "clean_institution_name v s = (let n = py_strip v in
     if list_ex (\<lambda>t. py_upper (t_name t) = py_upper n) (tenants s) then None else Some n)"

subsection \<open>Forms\<close>

record onboarding_form =
  of_institution_name :: string
  of_sector :: string
  of_contact_email :: string
  of_contact_phone :: string
  of_first_name :: string
  of_last_name :: string
  of_email :: string
  of_password :: string

record person =
  ps_first_name :: string
  ps_last_name :: string
  ps_email :: string
  ps_password :: string

record institution =
  in_name :: string
  in_sector :: sector
  in_contact_email :: string
  in_contact_phone :: string

definition clean_person ::
  "site \<Rightarrow> string \<Rightarrow> string \<Rightarrow> string \<Rightarrow> string \<Rightarrow> 'z identity_st_scheme \<Rightarrow> person option" where
  "clean_person S first surname email password s =
     Option.bind (text_field 1 150 first) (\<lambda>f.
     Option.bind (text_field 1 150 surname) (\<lambda>l.
     Option.bind (email_field S email) (\<lambda>e0.
     Option.bind (clean_email e0 s) (\<lambda>e.
     Option.bind (password_field password) (\<lambda>p.
       Some \<lparr>ps_first_name = f, ps_last_name = l, ps_email = e, ps_password = p\<rparr>)))))"

definition clean_onboarding ::
  "site \<Rightarrow> onboarding_form \<Rightarrow> 'z identity_st_scheme \<Rightarrow> (institution \<times> person) option" where
  "clean_onboarding S f s =
     Option.bind (text_field 1 200 (of_institution_name f)) (\<lambda>n0.
     Option.bind (clean_institution_name n0 s) (\<lambda>n.
     Option.bind (choice_field sector_value SECTORS (of_sector f)) (\<lambda>c.
     Option.bind (email_field S (of_contact_email f)) (\<lambda>e.
     Option.bind (text_field 0 32 (of_contact_phone f)) (\<lambda>p.
     Option.bind (clean_person S (of_first_name f) (of_last_name f) (of_email f) (of_password f) s) (\<lambda>who.
       Some (\<lparr>in_name = n, in_sector = c, in_contact_email = e, in_contact_phone = p\<rparr>, who)))))))"

record team_form =
  tf_first_name :: string
  tf_last_name :: string
  tf_email :: string
  tf_password :: string
  tf_role :: string

definition clean_team_form :: "site \<Rightarrow> team_form \<Rightarrow> 'z identity_st_scheme \<Rightarrow> (person \<times> tenant_role) option" where
  "clean_team_form S f s =
     Option.bind (clean_person S (tf_first_name f) (tf_last_name f) (tf_email f) (tf_password f) s) (\<lambda>who.
     Option.bind (choice_field tenant_role_value TEAM_ROLES (tf_role f)) (\<lambda>r. Some (who, r)))"

record platform_user_form = team_form +
  pf_access_type :: string
  pf_tenant :: string
  pf_platform_role :: string

datatype access = MemberOf uuid tenant_role | Staff platform_role

text \<open>\<open>ModelChoiceField\<close> over the active institutions, not required; an optional choice.\<close>

definition tenant_choice :: "site \<Rightarrow> string \<Rightarrow> 'z identity_st_scheme \<Rightarrow> uuid option option" where
  "tenant_choice S v s =
     (if v = [] then Some None
      else Option.bind (si_uuid S v) (\<lambda>i. map_option (\<lambda>t. Some (t_id t))
        (List.find (\<lambda>t. t_id t = i \<and> t_status t = TenantActive) (tenants s))))"

definition optional_choice :: "('a \<Rightarrow> string) \<Rightarrow> 'a list \<Rightarrow> string \<Rightarrow> 'a option option" where
  "optional_choice name choices v =
     (if v = [] then Some None else map_option Some (choice_field name choices v))"

definition clean_access ::
  "string \<Rightarrow> uuid option \<Rightarrow> tenant_role option \<Rightarrow> platform_role option \<Rightarrow> access option" where
  "clean_access kind tenant role prole =
     (if kind = ''tenant_member'' then Option.bind tenant (\<lambda>t. map_option (MemberOf t) role)
      else if kind = ''platform_staff'' then map_option Staff prole
      else None)"

definition clean_platform_user ::
  "site \<Rightarrow> platform_user_form \<Rightarrow> 'z identity_st_scheme \<Rightarrow> (person \<times> access) option" where
  "clean_platform_user S f s =
     Option.bind (clean_person S (tf_first_name f) (tf_last_name f) (tf_email f) (tf_password f) s) (\<lambda>who.
     Option.bind (tenant_choice S (pf_tenant f) s) (\<lambda>t.
     Option.bind (optional_choice tenant_role_value TEAM_ROLES (tf_role f)) (\<lambda>r.
     Option.bind (optional_choice platform_role_value PLATFORM_ROLES (pf_platform_role f)) (\<lambda>p.
     Option.bind (clean_access (pf_access_type f) t r p) (\<lambda>a. Some (who, a))))))"

subsection \<open>Rows\<close>

definition insert_user :: "env \<Rightarrow> user \<Rightarrow> ('z audit_st_scheme, user) pm" where
  "insert_user E u =
     (if 150 < length (u_first_name u) \<or> 150 < length (u_last_name u) \<or> 32 < length (u_phone_number u)
      then raise (ValueError ''exceeds max_length'')
      else if 254 < length (u_email u) then raise (OtherError ''DataError: value too long'')
      else mbind (gets (\<lambda>s. list_ex (\<lambda>v. u_email v = u_email u) (users s))) (\<lambda>taken.
        if taken then integrity_error ''users_user_email_key''
        else let u1 = user_before_save E u in
          mseq (modify (\<lambda>s. s\<lparr>users := u1 # users s\<rparr>)) (ret u1)))"

definition create_user_row ::
  "site \<Rightarrow> env \<Rightarrow> bool \<Rightarrow> bool \<Rightarrow> person \<Rightarrow> ('z audit_st_scheme, user) pm" where
  "create_user_row S E staff superuser who =
     (if ps_email who = [] then raise (ValueError ''Users must have an email address.'')
      else mbind fresh_uuid (\<lambda>i. mbind draw (\<lambda>salt.
        insert_user E
          \<lparr>u_id = i, u_email = si_normalize_email S (ps_email who), u_password = si_hash S salt (ps_password who),
           u_first_name = ps_first_name who, u_first_name_lookup_hash = [],
           u_last_name = ps_last_name who, u_last_name_lookup_hash = [], u_phone_number = [],
           u_is_active = True, u_is_staff = staff, u_is_superuser = superuser\<rparr>)))"

definition create_user :: "site \<Rightarrow> env \<Rightarrow> person \<Rightarrow> ('z audit_st_scheme, user) pm" where
  "create_user S E who = create_user_row S E False False who"

text \<open>The flags are those of the caller, if any.\<close>

definition create_superuser ::
  "site \<Rightarrow> env \<Rightarrow> bool option \<Rightarrow> bool option \<Rightarrow> person \<Rightarrow> ('z audit_st_scheme, user) pm" where
  "create_superuser S E staff superuser who =
     (if staff = Some False then raise (ValueError ''Superuser must have is_staff=True.'')
      else if superuser = Some False then raise (ValueError ''Superuser must have is_superuser=True.'')
      else create_user_row S E True True who)"

definition insert_tenant :: "site \<Rightarrow> env \<Rightarrow> tenant \<Rightarrow> ('z audit_st_scheme, tenant) pm" where
  "insert_tenant S E t =
     (if 254 < length (t_contact_email t) \<or> 32 < length (t_contact_phone t)
      then raise (ValueError ''exceeds max_length'')
      else let t1 = tenant_before_save E (si_slugify S) t in
        mbind (gets (\<lambda>s. list_ex (\<lambda>u. t_slug u = t_slug t1) (tenants s))) (\<lambda>taken.
        if taken then integrity_error ''tenants_tenant_slug_key''
        else mseq (modify (\<lambda>s. s\<lparr>tenants := t1 # tenants s\<rparr>)) (ret t1)))"

definition create_tenant ::
  "site \<Rightarrow> env \<Rightarrow> institution \<Rightarrow> tenant_status \<Rightarrow> time option \<Rightarrow> uuid option \<Rightarrow>
   ('z audit_st_scheme, tenant) pm" where
  "create_tenant S E d status approved_at approved_by =
     mbind fresh_uuid (\<lambda>i. insert_tenant S E
       \<lparr>t_id = i, t_name = in_name d, t_slug = [], t_sector = in_sector d, t_status = status,
        t_contact_email = in_contact_email d, t_contact_email_lookup_hash = [],
        t_contact_phone = in_contact_phone d, t_default_currency = ''TZS'', t_fee_refund_policy = CLAWBACK,
        t_metadata = JObj [], t_approved_at = approved_at, t_approved_by = approved_by\<rparr>)"

definition create_membership ::
  "uuid \<Rightarrow> uuid \<Rightarrow> tenant_role \<Rightarrow> uuid option \<Rightarrow> ('z audit_st_scheme, tenant_membership) pm" where
  "create_membership tenant user role invited_by =
     mbind (gets (\<lambda>s. list_ex (\<lambda>m. tm_tenant m = tenant \<and> tm_user m = user) (tenant_memberships s))) (\<lambda>taken.
     if taken then integrity_error ''unique_tenant_user_membership''
     else mbind fresh_uuid (\<lambda>i.
       let m = \<lparr>tm_id = i, tm_tenant = tenant, tm_user = user, tm_role = role, tm_is_active = True,
                tm_invited_by = invited_by\<rparr> in
       mseq (modify (\<lambda>s. s\<lparr>tenant_memberships := m # tenant_memberships s\<rparr>)) (ret m)))"

definition create_platform_membership :: "uuid \<Rightarrow> platform_role \<Rightarrow> ('z audit_st_scheme, unit) pm" where
  "create_platform_membership user role =
     mbind (gets (\<lambda>s. list_ex (\<lambda>m. pm_user m = user \<and> pm_role m = role) (platform_memberships s))) (\<lambda>taken.
     if taken then integrity_error ''unique_user_platform_role''
     else mbind fresh_uuid (\<lambda>i. modify (\<lambda>s. s\<lparr>platform_memberships :=
       \<lparr>pm_id = i, pm_user = user, pm_role = role, pm_is_active = True\<rparr> # platform_memberships s\<rparr>)))"

subsection \<open>Registration\<close>

datatype admin_page =
  OnboardingPage | RedirectDashboard | TeamList "tenant_membership list" | TeamForm | RedirectTeam
| PendingList "tenant list" | PlatformTenantPage | RedirectPending | UserList "user list" | UserPage
| RedirectUsers

definition register_institution ::
  "env \<Rightarrow> site \<Rightarrow> institution \<Rightarrow> person \<Rightarrow> ('z accounts_st_scheme, user) pm" where
  "register_institution E S d who =
     mbind (create_user S E who) (\<lambda>u.
     mbind (create_tenant S E d TenantPending None None) (\<lambda>t.
     mbind (create_membership (t_id t) (u_id u) TENANT_ADMIN None) (\<lambda>_.
     mseq (record_audit_event E ''tenant.registered'' (Some u) (Some (t_id t)) (Some (MTenant, t_id t)) None None
             (JObj [(''sector'', JStr (sector_value (t_sector t)))]))
       (ret u))))"

definition onboard ::
  "env \<Rightarrow> site \<Rightarrow> onboarding_form option \<Rightarrow> session \<Rightarrow> ('z accounts_st_scheme, admin_page \<times> session) pm" where
  "onboard E S post ses =
     (case post of
        None \<Rightarrow> ret (OnboardingPage, ses)
      | Some f \<Rightarrow> mbind (gets (clean_onboarding S f)) (\<lambda>data.
          case data of
            None \<Rightarrow> ret (OnboardingPage, ses)
          | Some (d, who) \<Rightarrow>
              mbind (atomic (register_institution E S d who)) (\<lambda>u.
              mbind (auth_login E u ses) (\<lambda>ses1. ret (RedirectDashboard, ses1)))))"

subsection \<open>Teams\<close>

definition user_email :: "'z identity_st_scheme \<Rightarrow> uuid \<Rightarrow> string" where
  "user_email s i = (case row_get u_id i (users s) of None \<Rightarrow> [] | Some u \<Rightarrow> u_email u)"

definition team_members :: "user option \<Rightarrow> uuid option \<Rightarrow> ('z accounts_st_scheme, admin_page) pm" where
  "team_members user tenant = require_tenant_role [TENANT_ADMIN] user tenant
     (mbind (gets (\<lambda>s. sort_key (\<lambda>m. \<not> tm_is_active m) (sort_key (\<lambda>m. user_email s (tm_user m))
        (filter (\<lambda>m. Some (tm_tenant m) = tenant) (tenant_memberships s))))) (\<lambda>ms. ret (TeamList ms)))"

definition add_team_member ::
  "env \<Rightarrow> site \<Rightarrow> user option \<Rightarrow> uuid \<Rightarrow> person \<Rightarrow> tenant_role \<Rightarrow> ('z accounts_st_scheme, unit) pm" where
  "add_team_member E S actor tid who role =
     mbind (create_user S E who) (\<lambda>u.
     mbind (create_membership tid (u_id u) role (map_option u_id actor)) (\<lambda>m.
     mseq (record_audit_event E ''team_member.added'' actor (Some tid) (Some (MTenantMembership, tm_id m)) None None
             (JObj [(''role'', JStr (tenant_role_value role)), (''member_email'', JStr (u_email u))]))
       (ret ())))"

definition team_member_create ::
  "env \<Rightarrow> site \<Rightarrow> user option \<Rightarrow> uuid option \<Rightarrow> team_form option \<Rightarrow> ('z accounts_st_scheme, admin_page) pm" where
  "team_member_create E S user tenant post = require_tenant_role [TENANT_ADMIN] user tenant
     (case (post, tenant) of
        (Some f, Some tid) \<Rightarrow> mbind (gets (clean_team_form S f)) (\<lambda>data.
          case data of
            None \<Rightarrow> ret TeamForm
          | Some (who, role) \<Rightarrow> mseq (atomic (add_team_member E S user tid who role)) (ret RedirectTeam))
      | _ \<Rightarrow> ret TeamForm)"

definition team_membership :: "uuid \<Rightarrow> uuid option \<Rightarrow> ('z accounts_st_scheme, tenant_membership) pm" where
  "team_membership pk tenant =
     require Http404 (\<lambda>s. List.find (\<lambda>m. tm_id m = pk \<and> Some (tm_tenant m) = tenant) (tenant_memberships s))"

definition save_is_active :: "uuid \<Rightarrow> bool \<Rightarrow> ('z accounts_st_scheme, unit) pm" where
  "save_is_active pk b = modify (\<lambda>s. s\<lparr>tenant_memberships :=
     row_update tm_id pk (\<lambda>r. r\<lparr>tm_is_active := b\<rparr>) (tenant_memberships s)\<rparr>)"

definition team_member_deactivate ::
  "env \<Rightarrow> user option \<Rightarrow> uuid option \<Rightarrow> uuid \<Rightarrow> bool \<Rightarrow> ('z accounts_st_scheme, admin_page) pm" where
  "team_member_deactivate E user tenant pk post = require_tenant_role [TENANT_ADMIN] user tenant
     (mbind (team_membership pk tenant) (\<lambda>m.
      if \<not> post \<or> Some (tm_user m) = map_option u_id user then ret RedirectTeam
      else mseq (save_is_active pk False)
          (mseq (audit_event E ''team_member.deactivated'' user tenant (Some (MTenantMembership, tm_id m)))
            (ret RedirectTeam))))"

definition team_member_activate ::
  "env \<Rightarrow> user option \<Rightarrow> uuid option \<Rightarrow> uuid \<Rightarrow> bool \<Rightarrow> ('z accounts_st_scheme, admin_page) pm" where
  "team_member_activate E user tenant pk post = require_tenant_role [TENANT_ADMIN] user tenant
     (mbind (team_membership pk tenant) (\<lambda>m.
      if \<not> post then ret RedirectTeam
      else mseq (save_is_active pk True)
          (mseq (audit_event E ''team_member.reactivated'' user tenant (Some (MTenantMembership, tm_id m)))
            (ret RedirectTeam))))"

subsection \<open>The platform's pages\<close>

definition ONBOARDING_ROLES :: "platform_role list" where
  "ONBOARDING_ROLES = [SUPER_ADMIN, OPERATIONS_ADMIN]"

text \<open>Rows are newest first, the list is oldest first.\<close>

definition pending_tenants :: "user option \<Rightarrow> ('z accounts_st_scheme, admin_page) pm" where
  "pending_tenants user = require_platform_role ONBOARDING_ROLES user
     (mbind (gets (\<lambda>s. rev (filter (\<lambda>t. t_status t = TenantPending) (tenants s)))) (\<lambda>ts. ret (PendingList ts)))"

definition create_active_institution ::
  "env \<Rightarrow> site \<Rightarrow> user option \<Rightarrow> institution \<Rightarrow> person \<Rightarrow> ('z accounts_st_scheme, unit) pm" where
  "create_active_institution E S actor d who =
     mbind (create_user S E who) (\<lambda>u.
     mbind (now E) (\<lambda>at.
     mbind (create_tenant S E d TenantActive (Some at) (map_option u_id actor)) (\<lambda>t.
     mbind (create_membership (t_id t) (u_id u) TENANT_ADMIN None) (\<lambda>_.
     mseq (record_audit_event E ''tenant.created_by_platform'' actor (Some (t_id t)) (Some (MTenant, t_id t)) None None
             (JObj [(''sector'', JStr (sector_value (t_sector t))), (''admin_email'', JStr (u_email u))]))
       (ret ())))))"

definition platform_create_tenant ::
  "env \<Rightarrow> site \<Rightarrow> user option \<Rightarrow> onboarding_form option \<Rightarrow> ('z accounts_st_scheme, admin_page) pm" where
  "platform_create_tenant E S user post = require_platform_role ONBOARDING_ROLES user
     (case post of
        None \<Rightarrow> ret PlatformTenantPage
      | Some f \<Rightarrow> mbind (gets (clean_onboarding S f)) (\<lambda>data.
          case data of
            None \<Rightarrow> ret PlatformTenantPage
          | Some (d, who) \<Rightarrow> mseq (atomic (create_active_institution E S user d who)) (ret RedirectPending)))"

definition approve_tenant ::
  "env \<Rightarrow> user option \<Rightarrow> uuid \<Rightarrow> bool \<Rightarrow> ('z accounts_st_scheme, admin_page) pm" where
  "approve_tenant E user pk post = require_platform_role ONBOARDING_ROLES user
     (mbind (require Http404 (\<lambda>s. row_get t_id pk (tenants s))) (\<lambda>t.
      if \<not> post then ret RedirectPending
      else mbind (now E) (\<lambda>at.
        mseq (modify (\<lambda>s. s\<lparr>tenants := row_update t_id pk (\<lambda>r. r\<lparr>t_status := TenantActive,
                 t_approved_at := Some at, t_approved_by := map_option u_id user\<rparr>) (tenants s)\<rparr>))
        (mseq (audit_event E ''tenant.approved'' user (Some (t_id t)) (Some (MTenant, t_id t)))
          (ret RedirectPending)))))"

definition platform_users :: "user option \<Rightarrow> int option \<Rightarrow> ('z accounts_st_scheme, admin_page) pm" where
  "platform_users user page = require_platform_role ONBOARDING_ROLES user
     (mbind (gets (\<lambda>s. get_page 50 (sort_key u_email (users s)) page)) (\<lambda>us. ret (UserList us)))"

definition grant_access ::
  "env \<Rightarrow> user option \<Rightarrow> user \<Rightarrow> access \<Rightarrow> ('z accounts_st_scheme, unit) pm" where
  "grant_access E actor u a =
     (case a of
        MemberOf tid role \<Rightarrow>
          mbind (create_membership tid (u_id u) role (map_option u_id actor)) (\<lambda>m.
          mseq (record_audit_event E ''user.created_by_platform'' actor (Some tid) (Some (MTenantMembership, tm_id m))
                  None None (JObj [(''role'', JStr (tenant_role_value role)), (''user_email'', JStr (u_email u))]))
            (ret ()))
      | Staff role \<Rightarrow>
          mseq (modify (\<lambda>s. s\<lparr>users := row_update u_id (u_id u) (\<lambda>r. r\<lparr>u_is_staff := True\<rparr>) (users s)\<rparr>))
          (mseq (create_platform_membership (u_id u) role)
          (mseq (record_audit_event E ''user.created_by_platform'' actor None (Some (MUser, u_id u)) None None
                  (JObj [(''platform_role'', JStr (platform_role_value role)), (''user_email'', JStr (u_email u))]))
            (ret ()))))"

definition create_platform_user ::
  "env \<Rightarrow> site \<Rightarrow> user option \<Rightarrow> person \<Rightarrow> access \<Rightarrow> ('z accounts_st_scheme, unit) pm" where
  "create_platform_user E S actor who a = mbind (create_user S E who) (\<lambda>u. grant_access E actor u a)"

definition platform_user_create ::
  "env \<Rightarrow> site \<Rightarrow> user option \<Rightarrow> platform_user_form option \<Rightarrow> ('z accounts_st_scheme, admin_page) pm" where
  "platform_user_create E S user post = require_platform_role ONBOARDING_ROLES user
     (case post of
        None \<Rightarrow> ret UserPage
      | Some f \<Rightarrow> mbind (gets (clean_platform_user S f)) (\<lambda>data.
          case data of
            None \<Rightarrow> ret UserPage
          | Some (who, a) \<Rightarrow>
              mseq (atomic (create_platform_user E S user who a)) (ret RedirectUsers)))"

end
