(* ===== verification/TenantProperties.thy ===== *)
theory TenantProperties
  imports TenantAdmin
begin

text \<open>
  Registration, approval and teams over all the program's own pages for them: who makes an institution
  active, what a registration leaves, and that an institution keeps an administrator.
\<close>

subsection \<open>One request\<close>

datatype admin_call =
  Onboard "onboarding_form option" session | TeamMembers | TeamCreate "team_form option"
| TeamDeactivate uuid bool | TeamActivate uuid bool | PendingTenants
| PlatformTenant "onboarding_form option" | ApproveTenant uuid bool
| PlatformUsers "int option" | PlatformUser "platform_user_form option"

fun admin_view ::
  "env \<Rightarrow> site \<Rightarrow> user option \<Rightarrow> uuid option \<Rightarrow> admin_call \<Rightarrow> ('z accounts_st_scheme, admin_page) pm" where
  "admin_view E S user tenant (Onboard post ses) = mbind (onboard E S post ses) (\<lambda>r. ret (fst r))"
| "admin_view E S user tenant TeamMembers = team_members user tenant"
| "admin_view E S user tenant (TeamCreate post) = team_member_create E S user tenant post"
| "admin_view E S user tenant (TeamDeactivate pk post) = team_member_deactivate E user tenant pk post"
| "admin_view E S user tenant (TeamActivate pk post) = team_member_activate E user tenant pk post"
| "admin_view E S user tenant PendingTenants = pending_tenants user"
| "admin_view E S user tenant (PlatformTenant post) = platform_create_tenant E S user post"
| "admin_view E S user tenant (ApproveTenant pk post) = approve_tenant E user pk post"
| "admin_view E S user tenant (PlatformUsers page) = platform_users user page"
| "admin_view E S user tenant (PlatformUser post) = platform_user_create E S user post"

definition admin_serve ::
  "env \<Rightarrow> site \<Rightarrow> user option \<times> uuid option \<times> admin_call \<Rightarrow> ('z accounts_st_scheme, admin_page) pm" where
  "admin_serve E S q = (case q of (user, tenant, call) \<Rightarrow> request (admin_view E S user tenant call))"

primrec admin_run ::
  "env \<Rightarrow> site \<Rightarrow> (user option \<times> uuid option \<times> admin_call) list \<Rightarrow> 'z accounts_st_scheme \<Rightarrow>
   'z accounts_st_scheme" where
  "admin_run E S [] s = s"
| "admin_run E S (q # qs) s = admin_run E S qs (snd (admin_serve E S q s))"

subsection \<open>What the creating steps write\<close>

lemma al_actor_new [simp]: "al_actor (new_audit E a u tn k b f m s) = map_option u_id u"
  by (simp add: new_audit_def link_record_def Let_def)

lemma before_save_fields [simp]:
  "u_id (user_before_save E u) = u_id u" "u_email (user_before_save E u) = u_email u"
  "u_is_staff (user_before_save E u) = u_is_staff u"
  "u_is_superuser (user_before_save E u) = u_is_superuser u" "u_password (user_before_save E u) = u_password u"
  "t_id (tenant_before_save E f t) = t_id t" "t_status (tenant_before_save E f t) = t_status t"
  "t_name (tenant_before_save E f t) = t_name t" "t_approved_by (tenant_before_save E f t) = t_approved_by t"
  by (simp_all add: user_before_save_def tenant_before_save_def)

text \<open>What a step leaves alone: memberships, institutions and the log, with draws going up.\<close>

definition untouched :: "'z accounts_st_scheme \<Rightarrow> 'z accounts_st_scheme \<Rightarrow> bool" where
  "untouched s t \<longleftrightarrow> tenant_memberships t = tenant_memberships s \<and> tenants t = tenants s \<and>
     audit_logs t = audit_logs s \<and> draws s \<le> draws t"

lemma wpx_create_user:
  "wpx (create_user S E who)
     (\<lambda>u t. untouched s t \<and> users t = u # users s \<and> u_id u = Uuid (draws s) \<and> draws s < draws t \<and>
        \<not> u_is_staff u \<and> \<not> u_is_superuser u \<and>
        u_password u = si_hash S (Suc (draws s)) (ps_password who) \<and>
        u_email u = si_normalize_email S (ps_email who))
     (\<lambda>_ t. draws s \<le> draws t) (s :: 'z accounts_st_scheme)"
  by (simp add: create_user_def create_user_row_def insert_user_def untouched_def Let_def)

lemma wpx_create_tenant:
  "wpx (create_tenant S E d status at by_user)
     (\<lambda>tn t. tenants t = tn # tenants s \<and> t_status tn = status \<and> t_approved_by tn = by_user \<and>
        t_id tn = Uuid (draws s) \<and> t_name tn = in_name d \<and> users t = users s \<and>
        tenant_memberships t = tenant_memberships s \<and> audit_logs t = audit_logs s \<and> draws s < draws t)
     (\<lambda>_ t. draws s \<le> draws t) (s :: 'z accounts_st_scheme)"
  by (simp add: create_tenant_def insert_tenant_def Let_def)

lemma wpx_create_membership:
  "wpx (create_membership tid uid role by_user)
     (\<lambda>m t. tenant_memberships t = m # tenant_memberships s \<and> tm_id m = Uuid (draws s) \<and>
        tm_tenant m = tid \<and> tm_user m = uid \<and> tm_role m = role \<and> tm_is_active m \<and>
        users t = users s \<and> tenants t = tenants s \<and> audit_logs t = audit_logs s \<and> draws s < draws t)
     (\<lambda>_ t. draws s \<le> draws t) (s :: 'z accounts_st_scheme)"
  by (simp add: create_membership_def Let_def)

lemma wpx_mbind_mono:
  assumes "wpx m Q X s" and "\<And>x t. Q x t \<Longrightarrow> wpx (f x) R Y t" and "\<And>e t. X e t \<Longrightarrow> Y e t"
  shows "wpx (mbind m f) R Y s"
  by (simp, rule wpx_mono [OF assms(1)]) (simp_all add: assms(2,3))

lemmas creating = wpx_mbind_mono [OF wpx_create_user] wpx_mbind_mono [OF wpx_create_tenant]
  wpx_mbind_mono [OF wpx_create_membership]

text \<open>A registration: one user, one pending institution, one administrator.\<close>

definition registered ::
  "site \<Rightarrow> institution \<Rightarrow> person \<Rightarrow> 'z accounts_st_scheme \<Rightarrow> user \<Rightarrow> tenant \<Rightarrow> tenant_membership \<Rightarrow>
   'z accounts_st_scheme \<Rightarrow> bool" where
  "registered S d who s u tn m t \<longleftrightarrow>
     users t = u # users s \<and> tenants t = tn # tenants s \<and> tenant_memberships t = m # tenant_memberships s \<and>
     draws s \<le> uuid_no (tm_id m) \<and> uuid_no (tm_id m) < draws t \<and> draws s < draws t \<and>
     u_id u = Uuid (draws s) \<and> u_password u = si_hash S (Suc (draws s)) (ps_password who) \<and>
     \<not> u_is_staff u \<and> \<not> u_is_superuser u \<and> t_name tn = in_name d \<and>
     tm_tenant m = t_id tn \<and> tm_user m = u_id u \<and> tm_role m = TENANT_ADMIN \<and> tm_is_active m"

lemma wpx_register:
  "wpx (register_institution E S d who)
     (\<lambda>u t. \<exists>tn m. registered S d who s u tn m t \<and> t_status tn = TenantPending)
     (\<lambda>_ t. draws s \<le> draws t) s"
  unfolding register_institution_def
  by (rule creating(1), rule creating(2), rule creating(3))
     (auto simp: untouched_def registered_def Let_def)

lemma wpx_create_active:
  "wpx (create_active_institution E S actor d who)
     (\<lambda>_ t. \<exists>u tn m a. registered S d who s u tn m t \<and> t_approved_by tn = map_option u_id actor \<and>
        audit_logs t = a # audit_logs s \<and> al_action a = ''tenant.created_by_platform'' \<and>
        al_actor a = map_option u_id actor \<and> al_tenant a = Some (t_id tn))
     (\<lambda>_ t. draws s \<le> draws t) s"
  unfolding create_active_institution_def wpx_mbind [of "now E"]
  by (rule creating(1), simp, rule wpx_mono [OF wpx_create_tenant])
     (auto simp: untouched_def registered_def Let_def intro!: wpx_mono [OF wpx_create_membership])

subsection \<open>Administrators\<close>

definition members_ok :: "'z accounts_st_scheme \<Rightarrow> bool" where
  "members_ok s \<longleftrightarrow> distinct (map tm_id (tenant_memberships s)) \<and>
     (\<forall>i \<in> set (map tm_id (tenant_memberships s)). uuid_no i < draws s)"

lemma members_ok_ids:
  "members_ok s \<Longrightarrow> map tm_id (tenant_memberships t) = map tm_id (tenant_memberships s) \<Longrightarrow> draws s \<le> draws t \<Longrightarrow>
   members_ok t"
  unfolding members_ok_def by (metis order_less_le_trans)

definition has_admin :: "uuid \<Rightarrow> 'z accounts_st_scheme \<Rightarrow> bool" where
  "has_admin tid s \<longleftrightarrow>
     (\<exists>m \<in> set (tenant_memberships s). tm_tenant m = tid \<and> tm_role m = TENANT_ADMIN \<and> tm_is_active m)"

definition keeps_admins :: "'z accounts_st_scheme \<Rightarrow> 'z accounts_st_scheme \<Rightarrow> bool" where
  "keeps_admins s t \<longleftrightarrow> (members_ok s \<longrightarrow> members_ok t \<and> (\<forall>tid. has_admin tid s \<longrightarrow> has_admin tid t))"

lemma keeps_admins_same:
  "tenant_memberships t = tenant_memberships s \<Longrightarrow> draws s \<le> draws t \<Longrightarrow> keeps_admins s t"
  by (fastforce simp: keeps_admins_def members_ok_def has_admin_def)

lemma keeps_admins_added:
  assumes "tenant_memberships t = m # tenant_memberships s"
    and "draws s \<le> uuid_no (tm_id m)" and "uuid_no (tm_id m) < draws t"
  shows "keeps_admins s t"
  using assms by (fastforce simp: keeps_admins_def members_ok_def has_admin_def)

lemma keeps_admins_activated:
  assumes "tenant_memberships t = row_update tm_id pk (\<lambda>r. r\<lparr>tm_is_active := True\<rparr>) (tenant_memberships s)"
    and "draws s \<le> draws t"
  shows "keeps_admins s t"
proof -
  have "map tm_id (tenant_memberships t) = map tm_id (tenant_memberships s)"
    unfolding assms(1) by (rule map_row_update) simp
  moreover have "has_admin tid t" if "has_admin tid s" for tid
    using that by (force simp: has_admin_def assms(1) row_update_def)
  ultimately show ?thesis
    using assms(2) by (simp add: keeps_admins_def members_ok_ids)
qed

text \<open>Nobody deactivates the own membership: the administrator who asks stays.\<close>

lemma keeps_admins_deactivated:
  assumes t: "tenant_memberships t = row_update tm_id pk (\<lambda>r. r\<lparr>tm_is_active := False\<rparr>) (tenant_memberships s)"
    and draws: "draws s \<le> draws t"
    and m: "m \<in> set (tenant_memberships s)" "tm_id m = pk" "tm_tenant m = tid" "tm_user m \<noteq> u_id u"
    and a: "find_membership s (u_id u) tid = Some a" "tm_role a = TENANT_ADMIN"
  shows "keeps_admins s t"
proof -
  have ids: "map tm_id (tenant_memberships t) = map tm_id (tenant_memberships s)"
    unfolding t by (rule map_row_update) simp
  note actor = find_membership_SomeD [OF a(1)]
  have "has_admin i t" if "members_ok s" "has_admin i s" for i
  proof -
    have only: "r = m" if "r \<in> set (tenant_memberships s)" "tm_id r = pk" for r
      using that m(1,2) \<open>members_ok s\<close> by (auto simp: members_ok_def distinct_map dest: inj_onD)
    have "a \<noteq> m"
      using m(4) actor by auto
    then have kept: "a \<in> set (tenant_memberships t)"
      using only actor by (force simp: t row_update_def)
    show ?thesis
    proof (cases "i = tid")
      case True
      with kept actor a(2) show ?thesis
        by (auto simp: has_admin_def)
    next
      case False
      obtain r where r: "r \<in> set (tenant_memberships s)" "tm_tenant r = i" "tm_role r = TENANT_ADMIN" "tm_is_active r"
        using \<open>has_admin i s\<close> by (auto simp: has_admin_def)
      then have "r \<in> set (tenant_memberships t)"
        using only m(3) False by (force simp: t row_update_def)
      with r show ?thesis
        by (auto simp: has_admin_def)
    qed
  qed
  with ids draws show ?thesis
    by (simp add: keeps_admins_def members_ok_ids)
qed

lemma registered_keeps_admins: "registered S d who s u tn m t \<Longrightarrow> draws t \<le> draws t' \<Longrightarrow>
  tenant_memberships t' = tenant_memberships t \<Longrightarrow> keeps_admins s t'"
  by (rule keeps_admins_added [of t' m s]) (auto simp: registered_def)

lemma accounts_world [simp]:
  "tenant_memberships (rollback s t) = tenant_memberships s" "tenants (rollback s t) = tenants s"
  "tenant_memberships (commit s) = tenant_memberships s" "tenants (commit s) = tenants s"
  "draws (commit s) = draws s" "draws (rollback s t) = draws t"
  by (simp_all add: rollback_def commit_def)

lemma onboard_keeps_admins:
  "wpx (onboard E S post ses) (\<lambda>_ t. keeps_admins s t) (\<lambda>_ t. draws s \<le> draws t) s"
  unfolding onboard_def auth_login_def on_login_def
  by (auto simp: keeps_admins_same Let_def elim!: registered_keeps_admins
      intro!: wpx_mono [OF wpx_register] split: option.split)

lemma registration_keeps_admins:
  "wpx (mbind (onboard E S post ses) (\<lambda>r. ret (fst r))) (\<lambda>_ t. keeps_admins s t) (\<lambda>_ t. draws s \<le> draws t) s"
  by (rule wpx_mbind_mono [OF onboard_keeps_admins]) simp_all

lemma team_create_keeps_admins:
  "wpx (team_member_create E S user tenant post) (\<lambda>_ t. keeps_admins s t) (\<lambda>_ t. draws s \<le> draws t) s"
proof -
  have added: "wpx (add_team_member E S user tid who role) (\<lambda>_ t. keeps_admins s t) (\<lambda>_ t. draws s \<le> draws t) s" for tid who role
    unfolding add_team_member_def
    by (rule creating(1), rule creating(3))
       (auto simp: untouched_def Let_def intro!: keeps_admins_added)
  show ?thesis
    unfolding team_member_create_def by (auto simp: keeps_admins_same split: option.split intro!: wpx_mono [OF added])
qed

lemma platform_create_keeps_admins:
  "wpx (platform_create_tenant E S user post) (\<lambda>_ t. keeps_admins s t) (\<lambda>_ t. draws s \<le> draws t) s"
  unfolding platform_create_tenant_def
  by (auto simp: keeps_admins_same elim!: registered_keeps_admins
      intro!: wpx_mono [OF wpx_create_active] split: option.split)

lemma user_create_keeps_admins:
  "wpx (platform_user_create E S user post) (\<lambda>_ t. keeps_admins s t) (\<lambda>_ t. draws s \<le> draws t) s"
proof -
  have added: "wpx (create_platform_user E S user who a) (\<lambda>_ t. keeps_admins s t)
      (\<lambda>_ t. draws s \<le> draws t) s" for who a
  proof (cases a)
    case (MemberOf tid role)
    show ?thesis
      unfolding create_platform_user_def grant_access_def MemberOf access.case
      by (rule creating(1), rule creating(3))
         (auto simp: untouched_def Let_def intro!: keeps_admins_added)
  next
    case (Staff role)
    show ?thesis
      unfolding create_platform_user_def grant_access_def Staff access.case
      by (rule creating(1))
         (auto simp: untouched_def create_platform_membership_def Let_def intro!: keeps_admins_same)
  qed
  show ?thesis
    unfolding platform_user_create_def
    by (auto simp: keeps_admins_same split: option.split intro!: wpx_mono [OF added])
qed

lemma deactivate_keeps_admins:
  "wpx (team_member_deactivate E user tenant pk post) (\<lambda>_ t. keeps_admins s t) (\<lambda>_ t. draws s \<le> draws t) s"
  unfolding team_member_deactivate_def team_membership_def save_is_active_def
  by (auto simp: keeps_admins_same has_tenant_role_iff Let_def dest!: find_Some_D
      intro!: keeps_admins_deactivated split: option.split)

lemma activate_keeps_admins:
  "wpx (team_member_activate E user tenant pk post) (\<lambda>_ t. keeps_admins s t) (\<lambda>_ t. draws s \<le> draws t) s"
  unfolding team_member_activate_def team_membership_def save_is_active_def
  by (auto simp: keeps_admins_same Let_def intro!: keeps_admins_activated split: option.split)

lemma view_keeps_admins:
  "wpx (admin_view E S user tenant call) (\<lambda>_ t. keeps_admins s t) (\<lambda>_ t. draws s \<le> draws t) s"
  by (cases call)
     (simp_all add: registration_keeps_admins [simplified] team_create_keeps_admins deactivate_keeps_admins activate_keeps_admins
        platform_create_keeps_admins user_create_keeps_admins team_members_def pending_tenants_def
        platform_users_def approve_tenant_def keeps_admins_same Let_def split: option.split)

lemma keeps_admins_commit: "keeps_admins s t \<Longrightarrow> keeps_admins s (commit t)"
  by (simp add: keeps_admins_def members_ok_def has_admin_def)

lemma serve_keeps_admins: "keeps_admins s (snd (admin_serve E S q s))"
proof -
  obtain user tenant call where q: "q = (user, tenant, call)"
    by (cases q)
  have "wpx (request (admin_view E S user tenant call)) (\<lambda>_ t. keeps_admins s t) (\<lambda>_ t. keeps_admins s t) s"
    by (auto intro!: wpx_mono [OF view_keeps_admins] keeps_admins_commit intro: keeps_admins_same)
  from wpx_result [OF this] show ?thesis
    by (cases "admin_serve E S q s"; cases "fst (admin_serve E S q s)") (auto simp: admin_serve_def q)
qed

text \<open>
  C35 (\<open>team_member_deactivate\<close> and the other views of \<open>tenants/views.py\<close> and \<open>users/views.py\<close>): whatever
  requests to the program's own pages for registering, teams, institutions and people whoever sends, an
  institution that has an active administrator always has one. (The framework's admin pages of
  institutions and memberships, \<open>tenants/admin.py\<close>, can deactivate or delete the last one.)
\<close>

theorem institution_keeps_admin:
  assumes "members_ok s" and "has_admin tid s"
  shows "has_admin tid (admin_run E S qs s)"
  using assms
proof (induction qs arbitrary: s)
  case (Cons q qs)
  then show ?case
    using serve_keeps_admins [of s E S q] by (simp add: keeps_admins_def)
qed simp

subsection \<open>Activation\<close>

definition newly_active :: "'z accounts_st_scheme \<Rightarrow> 'z accounts_st_scheme \<Rightarrow> tenant \<Rightarrow> bool" where
  "newly_active s t tn \<longleftrightarrow> tn \<in> set (tenants t) \<and> t_status tn = TenantActive \<and>
     (\<forall>r \<in> set (tenants s). t_id r = t_id tn \<longrightarrow> t_status r \<noteq> TenantActive)"

definition approved_by_staff ::
  "user option \<Rightarrow> 'z accounts_st_scheme \<Rightarrow> 'z accounts_st_scheme \<Rightarrow> tenant \<Rightarrow> bool" where
  "approved_by_staff user s t tn \<longleftrightarrow>
     (\<exists>u a. user = Some u \<and> has_platform_role s user ONBOARDING_ROLES \<and> t_approved_by tn = Some (u_id u) \<and>
        audit_logs t = a # audit_logs s \<and> al_actor a = Some (u_id u) \<and> al_tenant a = Some (t_id tn) \<and>
        al_action a \<in> {''tenant.approved'', ''tenant.created_by_platform''})"

abbreviation activates_properly ::
  "user option \<Rightarrow> 'z accounts_st_scheme \<Rightarrow> 'z accounts_st_scheme \<Rightarrow> bool" where
  "activates_properly user s t \<equiv> \<forall>tn. newly_active s t tn \<longrightarrow> approved_by_staff user s t tn"

lemma nothing_activated: "tenants t = tenants s \<Longrightarrow> \<not> newly_active s t tn"
  by (auto simp: newly_active_def)

lemma onboard_activates:
  "wpx (onboard E S post ses) (\<lambda>_ t. activates_properly user s t) (\<lambda>_ _. True) s"
proof -
  have "\<not> newly_active s t tn'" if "registered S d who s u tn m t0" "t_status tn = TenantPending" "tenants t = tenants t0"
    for d who u tn m t0 t tn'
    using that by (auto simp: newly_active_def registered_def)
  then show ?thesis
    unfolding onboard_def auth_login_def on_login_def
    by (auto simp: nothing_activated Let_def intro!: wpx_mono [OF wpx_register] split: option.split)
qed

lemma platform_create_activates:
  "wpx (platform_create_tenant E S user post) (\<lambda>_ t. activates_properly user s t) (\<lambda>_ _. True) s"
proof -
  have "approved_by_staff user s t tn'" if "registered S d who s u tn m t" "t_approved_by tn = map_option u_id user"
      "audit_logs t = a # audit_logs s" "al_action a = ''tenant.created_by_platform''"
      "al_actor a = map_option u_id user" "al_tenant a = Some (t_id tn)"
      "has_platform_role s user ONBOARDING_ROLES" "newly_active s t tn'"
    for d who u tn m a t tn'
    using that by (cases user) (auto simp: newly_active_def registered_def approved_by_staff_def has_platform_role_iff)
  then show ?thesis
    unfolding platform_create_tenant_def
    by (auto simp: nothing_activated intro!: wpx_mono [OF wpx_create_active] split: option.split)
qed

lemma approve_activates:
  "wpx (approve_tenant E user pk post) (\<lambda>_ t. activates_properly user s t) (\<lambda>_ _. True) s"
  unfolding approve_tenant_def
  by (auto simp: nothing_activated newly_active_def approved_by_staff_def has_platform_role_iff row_update_def Let_def
      dest!: row_get_SomeD split: option.split)

lemma team_create_tenants:
  "wpx (team_member_create E S user tenant post) (\<lambda>_ t. tenants t = tenants s) (\<lambda>_ _. True) s"
proof -
  have added: "wpx (add_team_member E S user tid who role) (\<lambda>_ t. tenants t = tenants s) (\<lambda>_ _. True) s" for tid who role
    unfolding add_team_member_def
    by (rule creating(1), rule creating(3)) (auto simp: untouched_def Let_def)
  show ?thesis
    unfolding team_member_create_def by (auto split: option.split intro!: wpx_mono [OF added])
qed

lemma user_create_tenants:
  "wpx (platform_user_create E S user post) (\<lambda>_ t. tenants t = tenants s) (\<lambda>_ _. True) s"
proof -
  have added: "wpx (create_platform_user E S user who a) (\<lambda>_ t. tenants t = tenants s) (\<lambda>_ _. True) s" for who a
  proof (cases a)
    case (MemberOf tid role)
    show ?thesis
      unfolding create_platform_user_def grant_access_def MemberOf access.case
      by (rule creating(1), rule creating(3)) (auto simp: untouched_def Let_def)
  next
    case (Staff role)
    show ?thesis
      unfolding create_platform_user_def grant_access_def Staff access.case
      by (rule creating(1)) (auto simp: untouched_def create_platform_membership_def Let_def)
  qed
  show ?thesis
    unfolding platform_user_create_def by (auto split: option.split intro!: wpx_mono [OF added])
qed

lemma view_activates:
  "wpx (admin_view E S user tenant call) (\<lambda>_ t. activates_properly user s t) (\<lambda>_ _. True) s"
proof (cases call)
  case (Onboard post ses)
  have "wpx (mbind (onboard E S post ses) (\<lambda>r. ret (fst r))) (\<lambda>_ t. activates_properly user s t) (\<lambda>_ _. True) s"
    by (rule wpx_mbind_mono [OF onboard_activates]) simp_all
  then show ?thesis
    by (simp add: Onboard)
next
  case (TeamCreate post)
  have "wpx (team_member_create E S user tenant post) (\<lambda>_ t. activates_properly user s t) (\<lambda>_ _. True) s"
    by (rule wpx_mono [OF team_create_tenants]) (simp_all add: nothing_activated)
  then show ?thesis
    by (simp add: TeamCreate)
next
  case (PlatformUser post)
  have "wpx (platform_user_create E S user post) (\<lambda>_ t. activates_properly user s t) (\<lambda>_ _. True) s"
    by (rule wpx_mono [OF user_create_tenants]) (simp_all add: nothing_activated)
  then show ?thesis
    by (simp add: PlatformUser)
qed (simp_all add: platform_create_activates approve_activates team_members_def team_member_deactivate_def
       team_member_activate_def team_membership_def save_is_active_def pending_tenants_def platform_users_def
       nothing_activated Let_def split: option.split)

text \<open>
  C36 (\<open>approve_tenant\<close>, \<open>platform_create_tenant\<close> and the other views of \<open>tenants/views.py\<close> and
  \<open>users/views.py\<close>): through the program's own pages for registering, teams, institutions and people, an
  institution becomes active only by a request of a signed-in person with one of the two onboarding
  roles of the platform, whom its row names, and the last record of the log says who let it in. (The
  framework's admin page of institutions, \<open>tenants/admin.py\<close>, has the status among its fields.)
\<close>

theorem activation_needs_platform_role:
  assumes "admin_serve E S (user, tenant, call) s = (r, t)" and "newly_active s t tn"
  shows "\<exists>u a. user = Some u \<and> has_platform_role s user [SUPER_ADMIN, OPERATIONS_ADMIN] \<and>
    t_approved_by tn = Some (u_id u) \<and> audit_logs t = a # audit_logs s \<and> al_actor a = Some (u_id u) \<and>
    al_tenant a = Some (t_id tn) \<and> al_action a \<in> {''tenant.approved'', ''tenant.created_by_platform''}"
proof -
  have "wpx (request (admin_view E S user tenant call)) (\<lambda>_ t. activates_properly user s t)
      (\<lambda>_ t. activates_properly user s t) s"
    by (simp, rule wpx_mono [OF view_activates])
       (auto simp: newly_active_def approved_by_staff_def commit_def rollback_def)
  from wpx_result [OF this] have "activates_properly user s t"
    using assms(1) by (cases r) (auto simp: admin_serve_def)
  with assms(2) show ?thesis
    unfolding approved_by_staff_def ONBOARDING_ROLES_def by blast
qed

subsection \<open>What a registration leaves\<close>

lemma clean_onboarding_password:
  "clean_onboarding S f s = Some (d, who) \<Longrightarrow> ps_password who = py_strip (of_password f)"
  by (auto simp: clean_onboarding_def clean_person_def password_field_def Let_def bind_eq_Some_conv split: if_splits)

definition opens_portal ::
  "site \<Rightarrow> onboarding_form \<Rightarrow> 'z accounts_st_scheme \<Rightarrow> session \<Rightarrow> 'z accounts_st_scheme \<Rightarrow> bool" where
  "opens_portal S f s ses t \<longleftrightarrow>
     (\<exists>d who u tn m. clean_onboarding S f s = Some (d, who) \<and> ses_user ses = Some (u_id u) \<and>
        users t = u # users s \<and> tenants t = tn # tenants s \<and> tenant_memberships t = m # tenant_memberships s \<and>
        u_id u = Uuid (draws s) \<and> \<not> u_is_staff u \<and> t_status tn = TenantPending \<and>
        tm_tenant m = t_id tn \<and> tm_user m = u_id u \<and> tm_role m = TENANT_ADMIN \<and> tm_is_active m \<and>
        u_password u = si_hash S (Suc (draws s)) (ps_password who))"

lemma onboard_opens_portal:
  "wpx (onboard E S (Some f) ses) (\<lambda>r t. fst r = RedirectDashboard \<longrightarrow> opens_portal S f s (snd r) t) (\<lambda>_ _. True) s"
proof -
  have made: "wpx (mbind (atomic (register_institution E S d who)) (\<lambda>u.
      mbind (auth_login E u ses) (\<lambda>ses1. ret (RedirectDashboard, ses1))))
      (\<lambda>r t. fst r = RedirectDashboard \<longrightarrow> opens_portal S f s (snd r) t) (\<lambda>_ _. True) s"
    if "clean_onboarding S f s = Some (d, who)" for d who
    unfolding auth_login_def on_login_def
    by (simp add: Let_def, intro wpx_mono [OF wpx_register])
       (use that in \<open>auto simp: registered_def opens_portal_def\<close>)
  show ?thesis
    unfolding onboard_def wpx_mbind wpx_gets option.case
    by (cases "clean_onboarding S f s") (auto simp del: wpx_mbind wpx_atomic intro!: made)
qed

text \<open>
  Also (\<open>onboard\<close>, \<open>dashboard_router\<close>, \<open>require_tenant_role\<close>): after a registration the new person is
  signed in, is sent to the new institution's dashboard and passes every check for the
  administrator's role there, although the institution is still pending; and the stored password
  is that of the text without its surrounding blanks.
\<close>

theorem registration_opens_pending_portal:
  assumes "request (onboard E S (Some f) ses) s = (Inr (RedirectDashboard, ses1), t)"
    and "\<forall>m \<in> set (tenant_memberships s). uuid_no (tm_user m) < draws s" and "TENANT_ADMIN \<in> set roles"
  shows "\<exists>u tn k. ses_user ses1 = Some (u_id u) \<and> u \<in> set (users t) \<and> tn \<in> set (tenants t) \<and>
    t_status tn = TenantPending \<and> fst (dashboard_router t (Some u) ses1) = TenantDashboard \<and>
    fst (resolve_tenant t (Some u) (snd (dashboard_router t (Some u) ses1))) = Some tn \<and>
    require_tenant_role roles (Some u) (Some (t_id tn)) view t = view t \<and>
    u_password u = si_hash S k (py_strip (of_password f))"
proof -
  have "wpx (request (onboard E S (Some f) ses))
      (\<lambda>r t. fst r = RedirectDashboard \<longrightarrow> opens_portal S f s (snd r) t) (\<lambda>_ _. True) s"
    by (simp, rule wpx_mono [OF onboard_opens_portal]) (auto simp: opens_portal_def commit_def)
  from wpx_result(1) [OF this assms(1)] obtain d who u tn m where
    made: "clean_onboarding S f s = Some (d, who)" "ses_user ses1 = Some (u_id u)" "users t = u # users s"
      "tenants t = tn # tenants s" "tenant_memberships t = m # tenant_memberships s" "u_id u = Uuid (draws s)"
      "\<not> u_is_staff u" "t_status tn = TenantPending" "tm_tenant m = t_id tn" "tm_user m = u_id u"
      "tm_role m = TENANT_ADMIN" "tm_is_active m" "u_password u = si_hash S (Suc (draws s)) (ps_password who)"
    by (auto simp: opens_portal_def)
  have "filter (\<lambda>m. tm_user m = u_id u \<and> tm_is_active m) (tenant_memberships s) = []"
    using assms(2) made(6) by (auto simp: filter_empty_conv)
  then have only: "active_memberships t (u_id u) = [m]"
    using made by (simp add: active_memberships_def)
  have found: "find_membership t (u_id u) (t_id tn) = Some m"
    using made by (simp add: find_membership_def)
  have "fst (resolve_tenant t (Some u) (snd (dashboard_router t (Some u) ses1))) = Some tn"
    using only found made by (simp add: dashboard_router_def resolve_tenant_def)
  moreover have "require_tenant_role roles (Some u) (Some (t_id tn)) view t = view t"
    using found made(11) assms(3)
    by (simp add: require_tenant_role_def has_tenant_role_iff mbind_def gets_def)
  moreover have "fst (dashboard_router t (Some u) ses1) = TenantDashboard"
    using only made(7) by (simp add: dashboard_router_def)
  ultimately show ?thesis
    using made clean_onboarding_password [OF made(1)]
    by (intro exI [of _ u] exI [of _ tn] exI [of _ "Suc (draws s)"]) simp
qed

text \<open>
  Two names with one slug: the form accepts the second institution, and the registration fails
  with a server error.
\<close>

theorem registration_slug_clash:
  assumes "clean_onboarding S f s = Some (d, who)"
    and "r \<in> set (tenants s)" and "t_slug r = take 220 (si_slugify S (in_name d))"
    and "si_normalize_email S (ps_email who) = ps_email who" and "length (ps_email who) \<le> 254"
    and "length (in_contact_email d) \<le> 254" and "length (in_contact_phone d) \<le> 32" 
    and "length (ps_first_name who) \<le> 150" and "length (ps_last_name who) \<le> 150" and "ps_email who \<noteq> []"
    and "\<forall>u \<in> set (users s). u_email u \<noteq> ps_email who"
  shows "fst (request (onboard E S (Some f) ses) s) = Inl (IntegrityError ''tenants_tenant_slug_key'')"
proof -
  have "wpx (request (onboard E S (Some f) ses)) (\<lambda>_ _. False) (\<lambda>e _. e = IntegrityError ''tenants_tenant_slug_key'') s"
    using assms
    by (auto simp: onboard_def register_institution_def create_user_def create_user_row_def insert_user_def
        create_tenant_def insert_tenant_def tenant_before_save_def list_ex_iff Let_def)
  then show ?thesis
    by (auto simp: wpx_def split: prod.splits sum.splits)
qed

subsection \<open>Concrete requests\<close>

definition example_site :: site where
  "example_site = \<lparr>si_is_email = \<lambda>_. True, si_uuid = \<lambda>_. None, si_slugify = filter (\<lambda>c. c \<noteq> CHR '' ''),
     si_normalize_email = \<lambda>e. e, si_hash = \<lambda>k p. p\<rparr>"

definition staff_member :: user where
  "staff_member = \<lparr>u_id = Uuid 1, u_email = ''s'', u_password = [], u_first_name = [],
     u_first_name_lookup_hash = [], u_last_name = [], u_last_name_lookup_hash = [], u_phone_number = [],
     u_is_active = True, u_is_staff = True, u_is_superuser = False\<rparr>"

definition pending_institution :: tenant where
  "pending_institution = \<lparr>t_id = Uuid 0, t_name = ''I'', t_slug = ''i'', t_sector = NGO, t_status = TenantPending,
     t_contact_email = ''c'', t_contact_email_lookup_hash = [], t_contact_phone = [], t_default_currency = ''TZS'',
     t_fee_refund_policy = CLAWBACK, t_metadata = JObj [], t_approved_at = None, t_approved_by = None\<rparr>"

definition example_team_st :: accounts_st where
  "example_team_st = \<lparr>clock_reads = 0, draws = 10, tx_broken = False, on_commit = [], broker = [],
     users = [staff_member],
     platform_memberships = [\<lparr>pm_id = Uuid 3, pm_user = Uuid 1, pm_role = OPERATIONS_ADMIN, pm_is_active = True\<rparr>],
     tenants = [pending_institution],
     tenant_memberships = [\<lparr>tm_id = Uuid 2, tm_tenant = Uuid 0, tm_user = Uuid 1, tm_role = TENANT_ADMIN,
       tm_is_active = True, tm_invited_by = None\<rparr>],
     audit_logs = [], mfa_devices = [], backup_codes = [], auth_cache = \<lambda>_. None\<rparr>"

definition example_registration :: onboarding_form where
  "example_registration = \<lparr>of_institution_name = ''J'', of_sector = ''ngo'', of_contact_email = ''c'',
     of_contact_phone = [], of_first_name = ''a'', of_last_name = ''b'', of_email = ''d'',
     of_password = '' aaaaaaaaaaaa''\<rparr>"

definition empty_session :: session where
  "empty_session = \<lparr>ses_user = None, ses_active_tenant_id = None, ses_mfa_pending_user_id = None,
     ses_mfa_pending_backend = None\<rparr>"

definition example_requests :: "(user option \<times> uuid option \<times> admin_call) list" where
  "example_requests = [(Some staff_member, Some (Uuid 0), TeamDeactivate (Uuid 2) True),
     (Some staff_member, Some (Uuid 0), TeamCreate (Some \<lparr>tf_first_name = ''a'', tf_last_name = ''b'',
        tf_email = ''d'', tf_password = ''aaaaaaaaaaaa'', tf_role = ''tenant_admin''\<rparr>))]"

theorem institution_keeps_admin_witness:
  "has_admin (Uuid 0) (admin_run example_env example_site example_requests example_team_st)"
  by (rule institution_keeps_admin) (simp_all add: members_ok_def has_admin_def example_team_st_def)

theorem activation_needs_platform_role_witness:
  "let t = snd (admin_serve example_env example_site (Some staff_member, None, ApproveTenant (Uuid 0) True)
     example_team_st) in
   \<exists>a. audit_logs t = [a] \<and> al_actor a = Some (Uuid 1) \<and> al_tenant a = Some (Uuid 0)"
proof -
  let ?r = "admin_serve example_env example_site (Some staff_member, None, ApproveTenant (Uuid 0) True) example_team_st"
  let ?tn = "pending_institution\<lparr>t_status := TenantActive, t_approved_at := Some 0, t_approved_by := Some (Uuid 1)\<rparr>"
  have "tenants (snd ?r) = [?tn]"
    by code_simp
  then have "newly_active example_team_st (snd ?r) ?tn"
    by (simp add: newly_active_def example_team_st_def pending_institution_def)
  from activation_needs_platform_role [OF prod.collapse [symmetric] this] obtain u a where
    "Some staff_member = Some u" "audit_logs (snd ?r) = a # audit_logs example_team_st" "al_actor a = Some (u_id u)"
    "al_tenant a = Some (t_id ?tn)"
    by blast
  moreover have "audit_logs example_team_st = []" "u_id staff_member = Uuid 1" "t_id ?tn = Uuid 0"
    by (simp_all add: example_team_st_def staff_member_def pending_institution_def)
  ultimately show ?thesis
    unfolding Let_def by (intro exI [of _ a]) auto
qed

theorem registration_opens_pending_portal_witness:
  "\<exists>(u :: user) (tn :: tenant) k. u_id u = Uuid 10 \<and> t_status tn = TenantPending \<and>
     u_password u = si_hash example_site k (py_strip (of_password example_registration))"
proof -
  let ?r = "request (onboard example_env example_site (Some example_registration) empty_session) example_team_st"
  let ?ses = "empty_session\<lparr>ses_user := Some (Uuid 10)\<rparr>"
  have "fst ?r = Inr (RedirectDashboard, ?ses)"
    by code_simp
  then have "?r = (Inr (RedirectDashboard, ?ses), snd ?r)"
    by (metis prod.collapse)
  note ran = this
  have known: "\<forall>m \<in> set (tenant_memberships example_team_st). uuid_no (tm_user m) < draws example_team_st"
      "TENANT_ADMIN \<in> set [TENANT_ADMIN]"
    by (simp_all add: example_team_st_def)
  obtain u :: user and tn :: tenant and k where "ses_user ?ses = Some (u_id u)" "t_status tn = TenantPending"
    "u_password u = si_hash example_site k (py_strip (of_password example_registration))"
    using registration_opens_pending_portal [OF ran known, of "ret ()"]
    by blast
  then show ?thesis
    by (intro exI [of _ u] exI [of _ tn] exI [of _ k]) simp
qed

end
