(* ===== verification/Webhooks.thy ===== *)
theory Webhooks
  imports Accounts "HOL-Library.Char_ord" "HOL-Library.List_Lexorder"
begin

text \<open>
  Outbound webhooks: \<open>apps/webhooks/models.py\<close>, \<open>services.py\<close> (\<open>dispatch_event\<close>),
  \<open>signing.py\<close>, \<open>tasks.py\<close> (\<open>_perform_delivery\<close>, \<open>deliver_webhook\<close>) and the three views.
  \<open>requests.post\<close> is the parameter \<open>net\<close>: what the n-th request of the run answers. The
  Celery worker is modelled by what Celery documents: \<open>self.retry\<close> reschedules the task
  until \<open>max_retries\<close> is reached.
\<close>

record webhook_endpoint =
  we_id :: uuid
  we_tenant :: uuid
  we_url :: string
  we_secret :: string
  we_description :: string
  we_is_active :: bool
  we_subscribed_events :: "string list"

datatype webhook_status = WPending | WRetrying | WDelivered | WDeadLetter

record webhook_delivery =
  wd_id :: uuid
  wd_tenant :: uuid
  wd_endpoint :: uuid
  wd_event_type :: string
  wd_payload :: json
  wd_status :: webhook_status
  wd_attempt_count :: nat
  wd_max_attempts :: nat
  wd_last_attempted_at :: "time option"
  wd_response_status_code :: "nat option"
  wd_response_body :: string
  wd_correlation_id :: string

record http_request =
  hr_url :: string
  hr_body :: string
  hr_event :: string
  hr_delivery_id :: string
  hr_timestamp :: string
  hr_signature :: string

datatype http_result = HttpFailed string | HttpResponse nat string

record webhook_st = accounts_st +
  webhook_endpoints :: "webhook_endpoint list"
  webhook_deliveries :: "webhook_delivery list"
  http_posts :: "http_request list"

definition is_subscribed_to :: "webhook_endpoint \<Rightarrow> string \<Rightarrow> bool" where
  "is_subscribed_to ep event \<longleftrightarrow>
     we_subscribed_events ep = [] \<or> event \<in> set (we_subscribed_events ep)"

subsection \<open>Dispatch\<close>

definition active_endpoints :: "'z webhook_st_scheme \<Rightarrow> uuid \<Rightarrow> webhook_endpoint list" where
  "active_endpoints s tenant =
     sort_key we_url (filter (\<lambda>ep. we_tenant ep = tenant \<and> we_is_active ep)
       (rev (webhook_endpoints s)))"

definition create_delivery ::
  "env \<Rightarrow> uuid \<Rightarrow> webhook_endpoint \<Rightarrow> string \<Rightarrow> json \<Rightarrow> ('z webhook_st_scheme, webhook_delivery) pm" where
  "create_delivery E tenant ep event payload =
     mbind fresh_uuid (\<lambda>i.
       let d = \<lparr>wd_id = i, wd_tenant = tenant, wd_endpoint = we_id ep, wd_event_type = event,
                wd_payload = payload, wd_status = WPending, wd_attempt_count = 0,
                wd_max_attempts = 6, wd_last_attempted_at = None,
                wd_response_status_code = None, wd_response_body = [],
                wd_correlation_id = e_correlation_id E\<rparr>
       in mseq (modify (\<lambda>s. s\<lparr>webhook_deliveries := d # webhook_deliveries s\<rparr>)) (ret d))"

definition enqueue_webhook :: "uuid \<Rightarrow> ('z webhook_st_scheme, unit) pm" where
  "enqueue_webhook i = on_commit_do (DeliverWebhook i)"

fun dispatch_to ::
  "env \<Rightarrow> uuid \<Rightarrow> string \<Rightarrow> json \<Rightarrow> webhook_endpoint list \<Rightarrow>
   ('z webhook_st_scheme, webhook_delivery list) pm" where
  "dispatch_to E tenant event payload [] = ret []"
| "dispatch_to E tenant event payload (ep # eps) =
     (if \<not> is_subscribed_to ep event then dispatch_to E tenant event payload eps
      else mbind (create_delivery E tenant ep event payload) (\<lambda>d.
        mseq (enqueue_webhook (wd_id d))
          (mbind (dispatch_to E tenant event payload eps) (\<lambda>ds. ret (d # ds)))))"

definition dispatch_event ::
  "env \<Rightarrow> uuid \<Rightarrow> string \<Rightarrow> json \<Rightarrow> ('z webhook_st_scheme, webhook_delivery list) pm" where
  "dispatch_event E tenant event payload =
     mbind (gets (\<lambda>s. active_endpoints s tenant)) (dispatch_to E tenant event payload)"

subsection \<open>Signing\<close>

definition canonical_body :: "env \<Rightarrow> json \<Rightarrow> string" where
  "canonical_body E payload = e_json_compact E payload"

definition build_signature :: "env \<Rightarrow> string \<Rightarrow> string \<Rightarrow> string \<Rightarrow> string" where
  "build_signature E secret timestamp body = sign E secret (timestamp @ ''.'' @ body)"

definition verify_signature ::
  "env \<Rightarrow> string \<Rightarrow> string \<Rightarrow> string \<Rightarrow> string \<Rightarrow> exn + bool" where
  "verify_signature E secret timestamp body signature =
     verify E secret (timestamp @ ''.'' @ body) signature"

subsection \<open>Delivery\<close>

definition save_delivery :: "webhook_delivery \<Rightarrow> ('z webhook_st_scheme, unit) pm" where
  "save_delivery d = modify (\<lambda>s. s\<lparr>webhook_deliveries :=
     row_update wd_id (wd_id d) (\<lambda>_. d) (webhook_deliveries s)\<rparr>)"

definition delivery_request ::
  "env \<Rightarrow> webhook_delivery \<Rightarrow> webhook_endpoint \<Rightarrow> string \<Rightarrow> http_request" where
  "delivery_request E d ep timestamp =
     (let body = canonical_body E (wd_payload d)
      in \<lparr>hr_url = we_url ep, hr_body = body, hr_event = wd_event_type d,
          hr_delivery_id = e_str_uuid E (wd_id d), hr_timestamp = timestamp,
          hr_signature = ''sha256='' @ build_signature E (we_secret ep) timestamp body\<rparr>)"

definition post_request ::
  "(nat \<Rightarrow> http_request \<Rightarrow> http_result) \<Rightarrow> http_request \<Rightarrow> ('z webhook_st_scheme, http_result) pm" where
  "post_request net req =
     mbind (gets (\<lambda>s. length (http_posts s))) (\<lambda>n.
       mseq (modify (\<lambda>s. s\<lparr>http_posts := req # http_posts s\<rparr>)) (ret (net n req)))"

definition perform_delivery ::
  "env \<Rightarrow> (nat \<Rightarrow> http_request \<Rightarrow> http_result) \<Rightarrow> webhook_delivery \<Rightarrow> webhook_endpoint \<Rightarrow>
   ('z webhook_st_scheme, bool \<times> webhook_delivery) pm" where
  "perform_delivery E net d ep =
     mbind (now E) (\<lambda>t1.
       let req = delivery_request E d ep (e_unix E t1) in
       mbind (now E) (\<lambda>t2.
         let d1 = d\<lparr>wd_attempt_count := wd_attempt_count d + 1, wd_last_attempted_at := Some t2\<rparr> in
         mbind (post_request net req) (\<lambda>res.
           case res of
             HttpFailed msg \<Rightarrow>
               (let d2 = d1\<lparr>wd_response_status_code := None, wd_response_body := take 2000 msg\<rparr>
                in mseq (save_delivery d2) (ret (False, d2)))
           | HttpResponse code body \<Rightarrow>
               (let d2 = d1\<lparr>wd_response_status_code := Some code,
                            wd_response_body := take 2000 body\<rparr>;
                    success = (200 \<le> code \<and> code < 300);
                    d3 = (if success then d2\<lparr>wd_status := WDelivered\<rparr> else d2)
                in mseq (save_delivery d3) (ret (success, d3))))))"

definition backoff :: "nat \<Rightarrow> nat" where
  "backoff attempts = min (2 ^ attempts * 5) 300"

definition deliver_webhook ::
  "env \<Rightarrow> (nat \<Rightarrow> http_request \<Rightarrow> http_result) \<Rightarrow> uuid \<Rightarrow> ('z webhook_st_scheme, unit) pm" where
  "deliver_webhook E net i =
     mbind (gets (\<lambda>s. (row_get wd_id i (webhook_deliveries s), webhook_endpoints s))) (\<lambda>(od, eps).
       case od of None \<Rightarrow> ret ()
       | Some d \<Rightarrow>
         (case row_get we_id (wd_endpoint d) eps of None \<Rightarrow> ret ()
          | Some ep \<Rightarrow>
            if wd_status d = WDelivered then ret ()
            else mbind (perform_delivery E net d ep) (\<lambda>(ok, d1).
              if ok then ret ()
              else if wd_attempt_count d1 \<ge> wd_max_attempts d1
              then save_delivery (d1\<lparr>wd_status := WDeadLetter\<rparr>)
              else mseq (save_delivery (d1\<lparr>wd_status := WRetrying\<rparr>))
                     (raise (RetryTask (int (backoff (wd_attempt_count d1))))))))"

text \<open>
  One task on a Celery worker: run it, and run it again for as long as it asks for a retry and
  \<open>retries\<close> are left. The result lists the countdowns it was given.
\<close>

fun run_task :: "nat \<Rightarrow> ('s, unit) pm \<Rightarrow> 's \<Rightarrow> int list \<times> 's" where
  "run_task retries job s =
     (case job s of
        (Inl (RetryTask c), t) \<Rightarrow>
          (case retries of 0 \<Rightarrow> ([], t)
           | Suc n \<Rightarrow> (case run_task n job t of (cs, u) \<Rightarrow> (c # cs, u)))
      | (_, t) \<Rightarrow> ([], t))"

definition WEBHOOK_MAX_RETRIES :: nat where
  "WEBHOOK_MAX_RETRIES = 6"

definition webhook_worker ::
  "env \<Rightarrow> (nat \<Rightarrow> http_request \<Rightarrow> http_result) \<Rightarrow> uuid \<Rightarrow> 'z webhook_st_scheme \<Rightarrow>
   int list \<times> 'z webhook_st_scheme" where
  "webhook_worker E net i s = run_task WEBHOOK_MAX_RETRIES (deliver_webhook E net i) s"

subsection \<open>Views\<close>

definition WEBHOOK_CAN_MANAGE :: "tenant_role list" where
  "WEBHOOK_CAN_MANAGE = [TENANT_ADMIN, FINANCE_MANAGER]"

definition endpoint_list ::
  "user option \<Rightarrow> uuid option \<Rightarrow> ('z webhook_st_scheme, webhook_endpoint list) pm" where
  "endpoint_list user tenant =
     require_tenant_role WEBHOOK_CAN_MANAGE user tenant
       (gets (\<lambda>s. sort_key we_url (filter (\<lambda>ep. Some (we_tenant ep) = tenant) (webhook_endpoints s))))"

text \<open>
  \<open>endpoint_create\<close> on a POST with the cleaned form data (\<open>None\<close> when the form is invalid
  or the method is not POST); it answers the secret that the message shows once.
\<close>

definition endpoint_create ::
  "env \<Rightarrow> user option \<Rightarrow> uuid option \<Rightarrow> (string \<times> string) option \<Rightarrow>
   ('z webhook_st_scheme, string option) pm" where
  "endpoint_create E user tenant form =
     require_tenant_role WEBHOOK_CAN_MANAGE user tenant
       (case (form, tenant) of
          (Some (url, descr), Some tid) \<Rightarrow>
            mbind fresh_uuid (\<lambda>i. mbind draw (\<lambda>k.
              let ep = \<lparr>we_id = i, we_tenant = tid, we_url = url, we_secret = e_hex E k,
                        we_description = descr, we_is_active = True, we_subscribed_events = []\<rparr>
              in mseq (modify (\<lambda>s. s\<lparr>webhook_endpoints := ep # webhook_endpoints s\<rparr>))
                   (ret (Some (we_secret ep)))))
        | _ \<Rightarrow> ret None)"

definition endpoint_deliveries ::
  "user option \<Rightarrow> uuid option \<Rightarrow> uuid \<Rightarrow>
   ('z webhook_st_scheme, webhook_endpoint \<times> webhook_delivery list) pm" where
  "endpoint_deliveries user tenant pk =
     require_tenant_role WEBHOOK_CAN_MANAGE user tenant
       (mbind (require Http404 (\<lambda>s. List.find (\<lambda>ep. we_id ep = pk \<and> Some (we_tenant ep) = tenant)
                 (webhook_endpoints s)))
          (\<lambda>ep. mbind (gets (\<lambda>s. take 100 (filter (\<lambda>d. wd_endpoint d = we_id ep)
                   (webhook_deliveries s)))) (\<lambda>ds. ret (ep, ds))))"

subsection \<open>Dispatch: one pending delivery and one deferred task per subscriber\<close>

definition fresh_delivery :: "env \<Rightarrow> uuid \<Rightarrow> string \<Rightarrow> json \<Rightarrow> nat \<Rightarrow> webhook_endpoint \<Rightarrow> webhook_delivery" where
  "fresh_delivery E tenant event payload n ep =
     \<lparr>wd_id = Uuid n, wd_tenant = tenant, wd_endpoint = we_id ep, wd_event_type = event,
      wd_payload = payload, wd_status = WPending, wd_attempt_count = 0,
      wd_max_attempts = 6, wd_last_attempted_at = None,
      wd_response_status_code = None, wd_response_body = [],
      wd_correlation_id = e_correlation_id E\<rparr>"

fun fresh_deliveries ::
  "env \<Rightarrow> uuid \<Rightarrow> string \<Rightarrow> json \<Rightarrow> nat \<Rightarrow> webhook_endpoint list \<Rightarrow> webhook_delivery list" where
  "fresh_deliveries E tenant event payload n [] = []"
| "fresh_deliveries E tenant event payload n (ep # eps) =
     fresh_delivery E tenant event payload n ep # fresh_deliveries E tenant event payload (Suc n) eps"

definition dispatched ::
  "webhook_delivery list \<Rightarrow> 'z webhook_st_scheme \<Rightarrow> 'z webhook_st_scheme" where
  "dispatched ds s = s
     \<lparr>draws := draws s + length ds,
      on_commit := on_commit s @ map (\<lambda>d. DeliverWebhook (wd_id d)) ds,
      webhook_deliveries := rev ds @ webhook_deliveries s\<rparr>"

definition subscribers :: "'z webhook_st_scheme \<Rightarrow> uuid \<Rightarrow> string \<Rightarrow> webhook_endpoint list" where
  "subscribers s tenant event = filter (\<lambda>ep. is_subscribed_to ep event) (active_endpoints s tenant)"

definition event_deliveries ::
  "env \<Rightarrow> uuid \<Rightarrow> string \<Rightarrow> json \<Rightarrow> 'z webhook_st_scheme \<Rightarrow> webhook_delivery list" where
  "event_deliveries E tenant event payload s =
     fresh_deliveries E tenant event payload (draws s) (subscribers s tenant event)"

lemma dispatched_Nil [simp]: "dispatched [] s = s"
  by (simp add: dispatched_def)

lemma dispatched_Cons:
  "dispatched (d # ds) s = dispatched ds (s\<lparr>draws := Suc (draws s),
     webhook_deliveries := d # webhook_deliveries s,
     on_commit := on_commit s @ [DeliverWebhook (wd_id d)]\<rparr>)"
  by (simp add: dispatched_def)

lemma wpx_create_delivery:
  "wpx (create_delivery E tenant ep event payload) Q X s =
     (let d = fresh_delivery E tenant event payload (draws s) ep
      in Q d (s\<lparr>draws := Suc (draws s), webhook_deliveries := d # webhook_deliveries s\<rparr>))"
  by (simp add: create_delivery_def fresh_delivery_def Let_def)

lemma wpx_dispatch_to:
  "wpx (dispatch_to E tenant event payload eps) Q X s =
     (let ds = fresh_deliveries E tenant event payload (draws s)
                 (filter (\<lambda>ep. is_subscribed_to ep event) eps)
      in Q ds (dispatched ds s))"
proof (induction eps arbitrary: s Q)
  case Nil
  show ?case by (simp add: Let_def)
next
  case (Cons ep eps)
  show ?case
    by (simp add: wpx_create_delivery enqueue_webhook_def Cons.IH Let_def dispatched_Cons)
qed

lemma wpx_dispatch_event [simp, wp_rules]:
  "wpx (dispatch_event E tenant event payload) Q X s =
     (let ds = event_deliveries E tenant event payload s in Q ds (dispatched ds s))"
  by (simp add: dispatch_event_def wpx_dispatch_to event_deliveries_def subscribers_def)

lemma dispatched_simps [simp]:
  "clock_reads (dispatched ds s) = clock_reads s"
  "draws (dispatched ds s) = draws s + length ds"
  "tx_broken (dispatched ds s) = tx_broken s"
  "broker (dispatched ds s) = broker s"
  "users (dispatched ds s) = users s"
  "tenants (dispatched ds s) = tenants s"
  "tenant_memberships (dispatched ds s) = tenant_memberships s"
  "platform_memberships (dispatched ds s) = platform_memberships s"
  "audit_logs (dispatched ds s) = audit_logs s"
  "webhook_endpoints (dispatched ds s) = webhook_endpoints s"
  "http_posts (dispatched ds s) = http_posts s"
  "webhook_st.more (dispatched ds s) = webhook_st.more s"
  by (simp_all add: dispatched_def)

lemma audited_webhook [simp]:
  "webhook_endpoints (audited r s) = webhook_endpoints s"
  "webhook_deliveries (audited r s) = webhook_deliveries s"
  "http_posts (audited r s) = http_posts s"
  "webhook_st.more (audited r s) = webhook_st.more s"
  by (simp_all add: audited_def)

lemma fresh_deliveries_facts:
  assumes "d \<in> set (fresh_deliveries E tenant event payload n eps)"
  shows "wd_status d = WPending \<and> wd_attempt_count d = 0 \<and> wd_tenant d = tenant \<and>
         wd_event_type d = event \<and> wd_payload d = payload \<and> wd_max_attempts d = 6"
  using assms by (induction eps arbitrary: n) (auto simp: fresh_delivery_def)

lemma fresh_deliveries_endpoints:
  "map wd_endpoint (fresh_deliveries E tenant event payload n eps) = map we_id eps"
  by (induction eps arbitrary: n) (auto simp: fresh_delivery_def)

lemma fresh_deliveries_ids:
  "map wd_id (fresh_deliveries E tenant event payload n eps) = map Uuid [n..<n + length eps]"
proof (induction eps arbitrary: n)
  case (Cons ep eps)
  have "[n..<n + length (ep # eps)] = n # [Suc n..<Suc n + length eps]"
    by (subst upt_conv_Cons) auto
  with Cons.IH [of "Suc n"] show ?case
    by (simp add: fresh_delivery_def)
qed simp

lemma fresh_deliveries_distinct:
  "distinct (map wd_id (fresh_deliveries E tenant event payload n eps))"
  unfolding fresh_deliveries_ids by (simp add: distinct_map inj_on_def)

lemma set_subscribers:
  "set (subscribers s tenant event) =
     {ep \<in> set (webhook_endpoints s). we_tenant ep = tenant \<and> we_is_active ep \<and>
        is_subscribed_to ep event}"
  by (auto simp: subscribers_def active_endpoints_def)

text \<open>
  The frame of the component: what it may change. Every later component's invariants are
  carried through its operations by interpreting this locale.
\<close>

locale webhook_frame = state_relation R
  for R :: "'z webhook_st_scheme \<Rightarrow> 'z webhook_st_scheme \<Rightarrow> bool" +
  assumes frame_audited: "R s (audited r s)"
    and frame_endpoints: "R s (s\<lparr>webhook_endpoints := eps\<rparr>)"
    and frame_deliveries: "R s (s\<lparr>webhook_deliveries := ds\<rparr>)"
    and frame_posts: "R s (s\<lparr>http_posts := ps\<rparr>)"
begin

lemma upholds_audit: "upholds R (record_audit_event E action actor tenant target b a m)"
  by (rule upholds_record_audit_event) (rule frame_audited)

lemma upholds_audit1: "upholds R (audit_event E action actor tenant target)"
  by (rule upholds_audit_event) (rule frame_audited)

lemma upholds_create_delivery: "upholds R (create_delivery E tenant ep event payload)"
  unfolding create_delivery_def Let_def
  by (intro combinator_rules upholds_modify frame_deliveries)

lemma upholds_dispatch_to: "upholds R (dispatch_to E tenant event payload eps)"
  by (induction eps)
     (auto intro!: combinator_rules upholds_create_delivery simp: enqueue_webhook_def)

lemma upholds_dispatch_event: "upholds R (dispatch_event E tenant event payload)"
  unfolding dispatch_event_def by (intro combinator_rules upholds_dispatch_to)

lemma upholds_save_delivery: "upholds R (save_delivery d)"
  unfolding save_delivery_def by (intro upholds_modify frame_deliveries)

lemma upholds_perform_delivery: "upholds R (perform_delivery E net d ep)"
  unfolding perform_delivery_def Let_def post_request_def
  by (auto intro!: combinator_rules upholds_modify frame_posts upholds_save_delivery
      split: http_result.split)

lemma upholds_deliver_webhook: "upholds R (deliver_webhook E net i)"
  unfolding deliver_webhook_def
  by (auto intro!: combinator_rules upholds_perform_delivery upholds_save_delivery
      upholds_case_option upholds_if split: prod.split)

lemma upholds_endpoint_create: "upholds R (endpoint_create E user tenant form)"
  unfolding endpoint_create_def require_tenant_role_def Let_def
  by (auto intro!: combinator_rules upholds_modify frame_endpoints
      upholds_if split: prod.split option.split)

end

interpretation webhook_audit: webhook_frame "appends_only audit_logs"
  by unfold_locales (auto intro: appends_only_same audit_growth_event simp: later_def)

subsection \<open>Every delivery is resolved\<close>

definition accepted :: "http_result \<Rightarrow> bool" where
  "accepted r = (case r of HttpFailed _ \<Rightarrow> False | HttpResponse code _ \<Rightarrow> 200 \<le> code \<and> code < 300)"

lemma wpx_perform_delivery:
  "wpx (perform_delivery E net d ep) Q X s =
     (let req = delivery_request E d ep (e_unix E (e_now E (clock_reads s)));
          res = net (length (http_posts s)) req;
          d1 = d\<lparr>wd_attempt_count := wd_attempt_count d + 1,
                 wd_last_attempted_at := Some (e_now E (Suc (clock_reads s))),
                 wd_response_status_code :=
                   (case res of HttpFailed _ \<Rightarrow> None | HttpResponse code _ \<Rightarrow> Some code),
                 wd_response_body :=
                   take 2000 (case res of HttpFailed m \<Rightarrow> m | HttpResponse _ b \<Rightarrow> b)\<rparr>;
          d2 = (if accepted res then d1\<lparr>wd_status := WDelivered\<rparr> else d1)
      in Q (accepted res, d2)
           (s\<lparr>clock_reads := Suc (Suc (clock_reads s)), http_posts := req # http_posts s,
             webhook_deliveries := row_update wd_id (wd_id d) (\<lambda>_. d2) (webhook_deliveries s)\<rparr>))"
proof (cases "net (length (http_posts s))
    (delivery_request E d ep (e_unix E (e_now E (clock_reads s))))")
  case (HttpResponse code body)
  then show ?thesis
    by (cases "200 \<le> code"; cases "code < 300")
       (simp_all add: perform_delivery_def post_request_def save_delivery_def Let_def accepted_def)
qed (simp add: perform_delivery_def post_request_def save_delivery_def Let_def accepted_def)

text \<open>The fields of a delivery that a worker never changes.\<close>

definition same_delivery :: "webhook_delivery \<Rightarrow> webhook_delivery \<Rightarrow> bool" where
  "same_delivery d d' \<longleftrightarrow> wd_endpoint d' = wd_endpoint d \<and> wd_max_attempts d' = wd_max_attempts d"

text \<open>Some request would be answered with a 2xx status.\<close>

definition accepts :: "(nat \<Rightarrow> http_request \<Rightarrow> http_result) \<Rightarrow> bool" where
  "accepts net \<longleftrightarrow> (\<exists>n req. accepted (net n req))"

lemma deliver_webhook_attempt:
  assumes row: "row_get wd_id i (webhook_deliveries s) = Some d"
    and ep: "row_get we_id (wd_endpoint d) (webhook_endpoints s) = Some ep"
    and st: "wd_status d \<noteq> WDelivered"
  shows "wpx (deliver_webhook E net i)
    (\<lambda>_ t. \<exists>d'. row_get wd_id i (webhook_deliveries t) = Some d' \<and> same_delivery d d' \<and>
       length (http_posts t) = Suc (length (http_posts s)) \<and>
       wd_attempt_count d' = Suc (wd_attempt_count d) \<and>
       ((wd_status d' = WDelivered \<and> accepts net) \<or>
        (wd_status d' = WDeadLetter \<and> wd_max_attempts d \<le> Suc (wd_attempt_count d))))
    (\<lambda>e t. \<exists>d'. row_get wd_id i (webhook_deliveries t) = Some d' \<and> same_delivery d d' \<and>
       webhook_endpoints t = webhook_endpoints s \<and>
       length (http_posts t) = Suc (length (http_posts s)) \<and>
       wd_attempt_count d' = Suc (wd_attempt_count d) \<and>
       Suc (wd_attempt_count d) < wd_max_attempts d \<and>
       wd_status d' = WRetrying \<and> e = RetryTask (int (backoff (wd_attempt_count d')))) s"
proof -
  have id: "wd_id d = i"
    using row_get_SomeD [OF row] by simp
  have acc: "accepts net" if "accepted (net n req)" for n req
    using that by (auto simp: accepts_def)
  show ?thesis
    using st by (simp add: deliver_webhook_def row ep wpx_perform_delivery Let_def save_delivery_def
        id row_get_save [OF row] row_update_overwrite same_delivery_def)
       (auto intro: acc)
qed

lemma run_task_webhook:
  assumes "row_get wd_id i (webhook_deliveries s) = Some d"
    and "row_get we_id (wd_endpoint d) (webhook_endpoints s) = Some ep"
    and "wd_status d \<noteq> WDelivered" and "wd_attempt_count d < wd_max_attempts d"
    and "wd_max_attempts d \<le> wd_attempt_count d + Suc retries"
    and "run_task retries (deliver_webhook E net i) s = (cs, t)"
  shows "\<exists>d'. row_get wd_id i (webhook_deliveries t) = Some d' \<and>
    length (http_posts t) = length (http_posts s) + (wd_attempt_count d' - wd_attempt_count d) \<and>
    cs = map (int \<circ> backoff) [Suc (wd_attempt_count d)..<wd_attempt_count d'] \<and>
    wd_attempt_count d < wd_attempt_count d' \<and> wd_attempt_count d' \<le> wd_max_attempts d \<and>
    ((wd_status d' = WDelivered \<and> accepts net) \<or>
     (wd_status d' = WDeadLetter \<and> wd_attempt_count d' = wd_max_attempts d))"
  using assms
proof (induction retries arbitrary: s d cs)
  case 0
  show ?case
  proof (cases "deliver_webhook E net i s")
    case (Pair r u)
    with deliver_webhook_attempt [OF 0(1-3), of E net] 0(4-6) show ?thesis
      by (cases r) (auto simp: wpx_def same_delivery_def)
  qed
next
  case (Suc retries)
  obtain r u where ru: "deliver_webhook E net i s = (r, u)"
    by (cases "deliver_webhook E net i s")
  note step = deliver_webhook_attempt [OF Suc(2-4), of E net]
  show ?case
  proof (cases r)
    case (Inr x)
    with step ru Suc(5-7) show ?thesis
      by (auto simp: wpx_def same_delivery_def)
  next
    case (Inl e)
    with step ru obtain d' where d': "row_get wd_id i (webhook_deliveries u) = Some d'"
      "same_delivery d d'" "webhook_endpoints u = webhook_endpoints s"
      "length (http_posts u) = Suc (length (http_posts s))"
      "wd_attempt_count d' = Suc (wd_attempt_count d)"
      "Suc (wd_attempt_count d) < wd_max_attempts d"
      "wd_status d' = WRetrying" "e = RetryTask (int (backoff (wd_attempt_count d')))"
      by (auto simp: wpx_def)
    obtain cs' where cs': "run_task retries (deliver_webhook E net i) u = (cs', t)"
      "cs = int (backoff (wd_attempt_count d')) # cs'"
      using Suc(7) ru Inl d'(8) by (auto split: prod.splits)
    have "row_get we_id (wd_endpoint d') (webhook_endpoints u) = Some ep"
      using Suc(3) d'(2,3) by (simp add: same_delivery_def)
    from Suc.IH [OF d'(1) this _ _ _ cs'(1)] d' Suc(5,6) obtain d'' where
      d'': "row_get wd_id i (webhook_deliveries t) = Some d''"
      "length (http_posts t) = length (http_posts u) + (wd_attempt_count d'' - wd_attempt_count d')"
      "cs' = map (int \<circ> backoff) [Suc (wd_attempt_count d')..<wd_attempt_count d'']"
      "wd_attempt_count d' < wd_attempt_count d''" "wd_attempt_count d'' \<le> wd_max_attempts d"
      "(wd_status d'' = WDelivered \<and> accepts net) \<or>
       (wd_status d'' = WDeadLetter \<and> wd_attempt_count d'' = wd_max_attempts d)"
      by (auto simp: same_delivery_def)
    moreover have "cs = map (int \<circ> backoff) [Suc (wd_attempt_count d)..<wd_attempt_count d'']"
      using d''(3,4) d'(5) cs'(2) by (simp add: upt_conv_Cons)
    ultimately show ?thesis
      using d'(4,5) by auto
  qed
qed

subsection \<open>Properties\<close>

text \<open>
  Also (\<open>dispatch_event\<close>, \<open>_enqueue\<close>): an event creates exactly one pending delivery, with no
  attempt made, for each active endpoint of that tenant subscribed to the event, in the order
  of the endpoints; each delivery has exactly one task, registered to run after the commit and
  not handed to the broker before.
\<close>

theorem dispatch_event_deferred:
  "succeeds (dispatch_event E tenant event payload)
     (\<lambda>ds t. map wd_endpoint ds = map we_id (filter (\<lambda>ep. is_subscribed_to ep event)
          (sort_key we_url (filter (\<lambda>ep. we_tenant ep = tenant \<and> we_is_active ep)
             (rev (webhook_endpoints s))))) \<and>
        list_all (\<lambda>d. wd_status d = WPending \<and> wd_attempt_count d = 0 \<and> wd_tenant d = tenant \<and>
          wd_event_type d = event \<and> wd_payload d = payload) ds \<and>
        distinct (map wd_id ds) \<and>
        webhook_deliveries t = rev ds @ webhook_deliveries s \<and>
        on_commit t = on_commit s @ map (\<lambda>d. DeliverWebhook (wd_id d)) ds \<and>
        broker t = broker s \<and> http_posts t = http_posts s) s"
  by (simp add: Let_def event_deliveries_def fresh_deliveries_endpoints fresh_deliveries_distinct
      list_all_iff fresh_deliveries_facts dispatched_def subscribers_def active_endpoints_def)

text \<open>
  C21 (\<open>deliver_webhook\<close> under the Celery worker): a delivery that has attempts left is
  resolved. The worker makes at most \<open>max_attempts\<close> HTTP requests in all, waits the capped
  exponential backoff between them, and leaves the delivery either delivered, which only a 2xx
  answer can cause, or in the dead-letter state with every attempt used. With the code's
  \<open>max_retries=6\<close> this needs \<open>max_attempts\<close> to be at most seven above the attempts made.
\<close>

theorem webhook_worker_resolves:
  assumes "row_get wd_id i (webhook_deliveries s) = Some d"
    and "row_get we_id (wd_endpoint d) (webhook_endpoints s) = Some ep"
    and "wd_status d \<noteq> WDelivered" and "wd_attempt_count d < wd_max_attempts d"
    and "wd_max_attempts d \<le> wd_attempt_count d + 7"
    and "webhook_worker E net i s = (cs, t)"
  shows "\<exists>d'. row_get wd_id i (webhook_deliveries t) = Some d' \<and>
    length (http_posts t) = length (http_posts s) + (wd_attempt_count d' - wd_attempt_count d) \<and>
    wd_attempt_count d' \<le> wd_max_attempts d \<and>
    cs = map (\<lambda>n. int (min (2 ^ n * 5) 300)) [Suc (wd_attempt_count d)..<wd_attempt_count d'] \<and>
    ((wd_status d' = WDelivered \<and> accepts net) \<or>
     (wd_status d' = WDeadLetter \<and> wd_attempt_count d' = wd_max_attempts d))"
proof -
  have "run_task 6 (deliver_webhook E net i) s = (cs, t)"
    using assms(6) by (simp add: webhook_worker_def WEBHOOK_MAX_RETRIES_def)
  from run_task_webhook [OF assms(1-4) _ this] assms(5) show ?thesis
    by (auto simp: backoff_def comp_def)
qed

definition example_endpoint :: webhook_endpoint where
  "example_endpoint = \<lparr>we_id = Uuid 1, we_tenant = Uuid 2, we_url = ''u'', we_secret = ''k'',
     we_description = [], we_is_active = True, we_subscribed_events = []\<rparr>"

definition example_delivery :: webhook_delivery where
  "example_delivery = \<lparr>wd_id = Uuid 3, wd_tenant = Uuid 2, wd_endpoint = Uuid 1,
     wd_event_type = ''payment.successful'', wd_payload = JObj [], wd_status = WPending,
     wd_attempt_count = 0, wd_max_attempts = 6, wd_last_attempted_at = None,
     wd_response_status_code = None, wd_response_body = [], wd_correlation_id = []\<rparr>"

definition example_webhook_st :: webhook_st where
  "example_webhook_st = \<lparr>clock_reads = 0, draws = 9, tx_broken = False, on_commit = [], broker = [],
     users = [], platform_memberships = [], tenants = [], tenant_memberships = [], audit_logs = [],
     mfa_devices = [], backup_codes = [], auth_cache = (\<lambda>_. None),
     webhook_endpoints = [example_endpoint], webhook_deliveries = [example_delivery],
     http_posts = []\<rparr>"

theorem webhook_worker_resolves_witness:
  "\<exists>d. row_get wd_id (Uuid 3) (webhook_deliveries (snd (webhook_worker example_env
       (\<lambda>_ _. HttpResponse 500 ''down'') (Uuid 3) example_webhook_st))) = Some d \<and>
     wd_status d = WDeadLetter \<and> wd_attempt_count d = 6"
proof -
  let ?net = "\<lambda>(_ :: nat) (_ :: http_request). HttpResponse 500 ''down''"
  obtain cs t where ct: "webhook_worker example_env ?net (Uuid 3) example_webhook_st = (cs, t)"
    by (cases "webhook_worker example_env ?net (Uuid 3) example_webhook_st")
  have "\<not> accepts ?net"
    by (simp add: accepts_def accepted_def)
  with webhook_worker_resolves [OF _ _ _ _ _ ct, of example_delivery example_endpoint] ct
  show ?thesis
    by (auto simp: example_webhook_st_def example_delivery_def example_endpoint_def)
qed

end
