(* ===== verification/Notifications.thy ===== *)
theory Notifications
  imports Webhooks
begin

text \<open>
  The notification engine: \<open>apps/notifications/models.py\<close>, \<open>services.py\<close>
  (\<open>_SafeDict\<close>, \<open>render_template\<close>, \<open>send_notification\<close>), \<open>defaults.py\<close>, \<open>tasks.py\<close>
  (\<open>deliver_notification\<close>) and the list view. \<open>str.format_map\<close> is modelled by a parser for the
  replacement-field syntax; a field that uses a conversion, a format spec, an attribute or an
  index goes to the parameter \<open>e_format_field\<close> with its text. \<open>send_mail\<close> is the parameter
  \<open>mailer\<close>: the error, if any, that the n-th mail of the run ends in. Text is a list of UTF-8
  bytes.
\<close>

datatype channel = EMAIL | SMS | WHATSAPP | PUSH

fun channel_value :: "channel \<Rightarrow> string" where
  "channel_value EMAIL = ''email''"
| "channel_value SMS = ''sms''"
| "channel_value WHATSAPP = ''whatsapp''"
| "channel_value PUSH = ''push''"

datatype notification_event =
  BILL_CREATED | CONTROL_NUMBER_GENERATED | PAYMENT_PENDING | PAYMENT_SUCCESSFUL
| PAYMENT_FAILED | PAYMENT_PARTIAL | BILL_FULLY_PAID | BALANCE_REMINDER | PAYMENT_REVERSED
| PAYMENT_REFUNDED

record notification_template =
  nt_id :: uuid
  nt_tenant :: uuid
  nt_event_type :: notification_event
  nt_channel :: channel
  nt_subject :: string
  nt_body :: string
  nt_is_active :: bool

datatype notification_status = NPending | NSent | NFailed

record notification =
  n_id :: uuid
  n_tenant :: uuid
  n_event_type :: notification_event
  n_channel :: channel
  n_recipient :: string
  n_recipient_lookup_hash :: string
  n_subject :: string
  n_body :: string
  n_status :: notification_status
  n_sent_at :: "time option"
  n_error_message :: string
  n_correlation_id :: string

record notification_st = webhook_st +
  notification_templates :: "notification_template list"
  notifications :: "notification list"
  sent_mails :: "notification list"

definition nl :: string where
  "nl = [CHR 0x0A]"

definition em_dash :: string where
  "em_dash = [CHR 0xE2, CHR 0x80, CHR 0x94]"

subsection \<open>Format strings\<close>

datatype segment = Literal char | Field string

text \<open>
  \<open>parse_format\<close> in literal mode; \<open>parse_field\<close> collects a replacement field up to its
  closing brace. The errors are the \<open>ValueError\<close>s of \<open>str.format_map\<close>.
\<close>

function (sequential) parse_format :: "string \<Rightarrow> exn + segment list"
  and parse_field :: "string \<Rightarrow> string \<Rightarrow> exn + segment list" where
  "parse_format [] = Inr []"
| "parse_format (c # cs) =
     (if c = CHR ''{'' then
        (case cs of
           [] \<Rightarrow> Inl (ValueError ''Single { encountered in format string'')
         | d # ds \<Rightarrow>
             if d = CHR ''{'' then map_sum id (\<lambda>ss. Literal c # ss) (parse_format ds)
             else parse_field [] cs)
      else if c = CHR ''}'' then
        (case cs of
           [] \<Rightarrow> Inl (ValueError ''Single } encountered in format string'')
         | d # ds \<Rightarrow>
             if d = CHR ''}'' then map_sum id (\<lambda>ss. Literal c # ss) (parse_format ds)
             else Inl (ValueError ''Single } encountered in format string''))
      else map_sum id (\<lambda>ss. Literal c # ss) (parse_format cs))"
| "parse_field acc [] = Inl (ValueError ''expected } before end of string'')"
| "parse_field acc (c # cs) =
     (if c = CHR ''}'' then map_sum id (\<lambda>ss. Field (rev acc) # ss) (parse_format cs)
      else if c = CHR ''{'' then Inl (ValueError ''unexpected { in field name'')
      else parse_field (c # acc) cs)"
  by pat_completeness auto

termination
  by (relation "measure (case_sum length (\<lambda>(acc, cs). length cs))") auto

text \<open>
  \<open>_SafeDict\<close>: a missing variable is the empty string. \<open>get_field\<close> is one replacement field:
  an empty or numeric name is positional, which \<open>format_map\<close> rejects.
\<close>

definition safe_get :: "(string \<times> string) list \<Rightarrow> string \<Rightarrow> string" where
  "safe_get context k = (case map_of context k of None \<Rightarrow> [] | Some v \<Rightarrow> v)"

definition plain_field :: "string \<Rightarrow> bool" where
  "plain_field f \<longleftrightarrow> f \<noteq> [] \<and> \<not> list_all is_digit_char f \<and>
     list_all (\<lambda>c. c \<notin> {CHR ''.'', CHR ''['', CHR ''!'', CHR '':''}) f"

definition get_field :: "env \<Rightarrow> (string \<times> string) list \<Rightarrow> string \<Rightarrow> exn + string" where
  "get_field E context f =
     (if plain_field f then Inr (safe_get context f)
      else if list_all is_digit_char f
      then Inl (ValueError ''Format string contains positional fields'')
      else e_format_field E f (safe_get context))"

fun render_segments :: "env \<Rightarrow> (string \<times> string) list \<Rightarrow> segment list \<Rightarrow> exn + string" where
  "render_segments E context [] = Inr []"
| "render_segments E context (Literal c # ss) =
     map_sum id (\<lambda>t. c # t) (render_segments E context ss)"
| "render_segments E context (Field f # ss) =
     (case get_field E context f of
        Inl e \<Rightarrow> Inl e
      | Inr v \<Rightarrow> map_sum id (\<lambda>t. v @ t) (render_segments E context ss))"

definition format_map :: "env \<Rightarrow> string \<Rightarrow> (string \<times> string) list \<Rightarrow> exn + string" where
  "format_map E tpl context =
     (case parse_format tpl of Inl e \<Rightarrow> Inl e | Inr ss \<Rightarrow> render_segments E context ss)"

subsection \<open>Templates\<close>

fun DEFAULT_TEMPLATES ::
  "notification_event \<Rightarrow> channel \<Rightarrow> (string \<times> string) option" where
  "DEFAULT_TEMPLATES BILL_CREATED EMAIL = Some
     (''New bill from {institution_name}'',
      ''Dear {customer_name},'' @ nl @ nl
       @ ''{institution_name} has issued bill {bill_number}.'' @ nl @ nl
       @ ''Regards,'' @ nl @ ''{institution_name}'')"
| "DEFAULT_TEMPLATES BILL_CREATED SMS = Some
     ([],
      ''{institution_name}: new bill {bill_number} issued.'')"
| "DEFAULT_TEMPLATES CONTROL_NUMBER_GENERATED EMAIL = Some
     (''Your control number from {institution_name}'',
      ''Dear {customer_name},'' @ nl @ nl
       @ ''Use control number {control_number} to pay bill {bill_number} at {institution_name}.''
       @ nl @ nl @ ''Regards,'' @ nl @ ''{institution_name}'')"
| "DEFAULT_TEMPLATES CONTROL_NUMBER_GENERATED SMS = Some
     ([],
      ''{institution_name}: pay using control number {control_number}.'')"
| "DEFAULT_TEMPLATES PAYMENT_PENDING EMAIL = Some
     (''Payment pending '' @ em_dash @ '' {institution_name}'',
      ''Dear {customer_name},'' @ nl @ nl
       @ ''Your payment (ref {payment_reference}) against control number {control_number} is pending confirmation.''
       @ nl @ nl @ ''Regards,'' @ nl @ ''{institution_name}'')"
| "DEFAULT_TEMPLATES PAYMENT_PENDING SMS = Some
     ([],
      ''{institution_name}: payment {payment_reference} pending.'')"
| "DEFAULT_TEMPLATES PAYMENT_SUCCESSFUL EMAIL = Some
     (''Payment received '' @ em_dash @ '' {institution_name}'',
      ''Dear {customer_name},'' @ nl @ nl
       @ ''We have received your payment of {paid_amount} (ref {payment_reference}) against control number {control_number}.''
       @ nl @ ''Remaining balance: {remaining_balance}.'' @ nl
       @ ''Receipt: {receipt_number}.'' @ nl @ nl @ ''Regards,'' @ nl
       @ ''{institution_name}'')"
| "DEFAULT_TEMPLATES PAYMENT_SUCCESSFUL SMS = Some
     ([],
      ''{institution_name}: payment of {paid_amount} received. Balance {remaining_balance}. Receipt {receipt_number}.'')"
| "DEFAULT_TEMPLATES PAYMENT_PARTIAL EMAIL = Some
     (''Partial payment received '' @ em_dash @ '' {institution_name}'',
      ''Dear {customer_name},'' @ nl @ nl
       @ ''We have received a partial payment of {paid_amount} against bill {bill_number}. Remaining balance: {remaining_balance}.''
       @ nl @ nl @ ''Regards,'' @ nl @ ''{institution_name}'')"
| "DEFAULT_TEMPLATES PAYMENT_PARTIAL SMS = Some
     ([],
      ''{institution_name}: partial payment {paid_amount} received. Balance {remaining_balance}.'')"
| "DEFAULT_TEMPLATES BILL_FULLY_PAID EMAIL = Some
     (''Bill fully paid '' @ em_dash @ '' {institution_name}'',
      ''Dear {customer_name},'' @ nl @ nl
       @ ''Bill {bill_number} is now fully paid. Thank you.'' @ nl @ nl
       @ ''Regards,'' @ nl @ ''{institution_name}'')"
| "DEFAULT_TEMPLATES BILL_FULLY_PAID SMS = Some
     ([],
      ''{institution_name}: bill {bill_number} fully paid. Thank you.'')"
| "DEFAULT_TEMPLATES PAYMENT_FAILED EMAIL = Some
     (''Payment failed '' @ em_dash @ '' {institution_name}'',
      ''Dear {customer_name},'' @ nl @ nl
       @ ''Your payment (ref {payment_reference}) against control number {control_number} could not be completed. Please try again.''
       @ nl @ nl @ ''Regards,'' @ nl @ ''{institution_name}'')"
| "DEFAULT_TEMPLATES PAYMENT_FAILED SMS = Some
     ([],
      ''{institution_name}: payment {payment_reference} failed. Please try again.'')"
| "DEFAULT_TEMPLATES PAYMENT_REVERSED EMAIL = Some
     (''Payment reversed '' @ em_dash @ '' {institution_name}'',
      ''Dear {customer_name},'' @ nl @ nl
       @ ''Your payment (ref {payment_reference}) has been reversed.'' @ nl @ nl
       @ ''Regards,'' @ nl @ ''{institution_name}'')"
| "DEFAULT_TEMPLATES PAYMENT_REVERSED SMS = Some
     ([],
      ''{institution_name}: payment {payment_reference} reversed.'')"
| "DEFAULT_TEMPLATES PAYMENT_REFUNDED EMAIL = Some
     (''Payment refunded '' @ em_dash @ '' {institution_name}'',
      ''Dear {customer_name},'' @ nl @ nl
       @ ''Your payment (ref {payment_reference}) of {paid_amount} has been refunded.''
       @ nl @ nl @ ''Regards,'' @ nl @ ''{institution_name}'')"
| "DEFAULT_TEMPLATES PAYMENT_REFUNDED SMS = Some
     ([],
      ''{institution_name}: payment {payment_reference} refunded.'')"
| "DEFAULT_TEMPLATES BALANCE_REMINDER EMAIL = Some
     (''Balance reminder '' @ em_dash @ '' {institution_name}'',
      ''Dear {customer_name},'' @ nl @ nl
       @ ''This is a reminder that bill {bill_number} has an outstanding balance of {remaining_balance}.''
       @ nl @ nl @ ''Regards,'' @ nl @ ''{institution_name}'')"
| "DEFAULT_TEMPLATES BALANCE_REMINDER SMS = Some
     ([],
      ''{institution_name}: bill {bill_number} balance {remaining_balance} due.'')"
| "DEFAULT_TEMPLATES _ _ = None"

definition find_template ::
  "'z notification_st_scheme \<Rightarrow> uuid \<Rightarrow> notification_event \<Rightarrow> channel \<Rightarrow> notification_template option" where
  "find_template s tenant event ch =
     List.find (\<lambda>t. nt_tenant t = tenant \<and> nt_event_type t = event \<and> nt_channel t = ch \<and>
       nt_is_active t) (notification_templates s)"

definition render_template ::
  "env \<Rightarrow> 'z notification_st_scheme \<Rightarrow> uuid \<Rightarrow> notification_event \<Rightarrow> channel \<Rightarrow>
   (string \<times> string) list \<Rightarrow> exn + (string \<times> string)" where
  "render_template E s tenant event ch context =
     (case (case find_template s tenant event ch of
              Some t \<Rightarrow> Some (nt_subject t, nt_body t)
            | None \<Rightarrow> DEFAULT_TEMPLATES event ch) of
        None \<Rightarrow> Inl (KeyError ''No template (default or tenant override)'')
      | Some (subject_tpl, body_tpl) \<Rightarrow>
          (case format_map E subject_tpl context of
             Inl e \<Rightarrow> Inl e
           | Inr subject \<Rightarrow>
               (case format_map E body_tpl context of
                  Inl e \<Rightarrow> Inl e
                | Inr body \<Rightarrow> Inr (subject, body))))"

subsection \<open>Sending\<close>

definition notification_before_save :: "env \<Rightarrow> notification \<Rightarrow> notification" where
  "notification_before_save E n =
     n\<lparr>n_recipient_lookup_hash := compute_lookup_hash E (n_recipient n)\<rparr>"

definition new_notification ::
  "env \<Rightarrow> uuid \<Rightarrow> uuid \<Rightarrow> notification_event \<Rightarrow> channel \<Rightarrow> string \<Rightarrow> string \<Rightarrow> string \<Rightarrow> notification" where
  "new_notification E i tenant event ch recipient subject body = notification_before_save E
     \<lparr>n_id = i, n_tenant = tenant, n_event_type = event, n_channel = ch,
      n_recipient = recipient, n_recipient_lookup_hash = [], n_subject = subject,
      n_body = body, n_status = NPending, n_sent_at = None, n_error_message = [],
      n_correlation_id = e_correlation_id E\<rparr>"

definition enqueue_notification :: "uuid \<Rightarrow> ('z notification_st_scheme, unit) pm" where
  "enqueue_notification i = on_commit_do (DeliverNotification i)"

text \<open>One channel of \<open>send_notification\<close>; the subject is dropped for SMS.\<close>

definition notify_channel ::
  "env \<Rightarrow> uuid \<Rightarrow> notification_event \<Rightarrow> (string \<times> string) list \<Rightarrow> channel \<Rightarrow> string \<Rightarrow>
   ('z notification_st_scheme, notification) pm" where
  "notify_channel E tenant event context ch recipient =
     mbind (gets (\<lambda>s. render_template E s tenant event ch context)) (\<lambda>res.
       case res of
         Inl e \<Rightarrow> raise e
       | Inr (subject, body) \<Rightarrow>
           mbind fresh_uuid (\<lambda>i.
             let n = new_notification E i tenant event ch recipient
                       (if ch = SMS then [] else subject) body
             in mseq (modify (\<lambda>s. s\<lparr>notifications := n # notifications s\<rparr>))
                  (mseq (enqueue_notification i) (ret n))))"

definition send_notification ::
  "env \<Rightarrow> uuid \<Rightarrow> notification_event \<Rightarrow> (string \<times> string) list \<Rightarrow> string \<Rightarrow> string \<Rightarrow>
   ('z notification_st_scheme, notification list) pm" where
  "send_notification E tenant event context recipient_email recipient_phone =
     mbind (if recipient_email \<noteq> []
            then mbind (notify_channel E tenant event context EMAIL recipient_email) (\<lambda>n. ret [n])
            else ret []) (\<lambda>ns1.
     mbind (if recipient_phone \<noteq> []
            then mbind (notify_channel E tenant event context SMS recipient_phone) (\<lambda>n. ret [n])
            else ret []) (\<lambda>ns2. ret (ns1 @ ns2)))"

subsection \<open>Delivery\<close>

definition save_notification :: "notification \<Rightarrow> ('z notification_st_scheme, unit) pm" where
  "save_notification n = modify (\<lambda>s. s\<lparr>notifications :=
     row_update n_id (n_id n) (\<lambda>_. n) (notifications s)\<rparr>)"

type_synonym mailer = "nat \<Rightarrow> notification \<Rightarrow> string option"

definition deliver_email :: "mailer \<Rightarrow> notification \<Rightarrow> ('z notification_st_scheme, unit) pm" where
  "deliver_email mailer n =
     mbind (gets (\<lambda>s. mailer (length (sent_mails s)) n)) (\<lambda>res.
       case res of
         Some msg \<Rightarrow> raise (OtherError msg)
       | None \<Rightarrow> modify (\<lambda>s. s\<lparr>sent_mails := n # sent_mails s\<rparr>))"

text \<open>The mock SMS channel only logs.\<close>

definition deliver_mock_sms :: "notification \<Rightarrow> ('z notification_st_scheme, unit) pm" where
  "deliver_mock_sms n = ret ()"

definition delivery_handler ::
  "mailer \<Rightarrow> channel \<Rightarrow> (notification \<Rightarrow> ('z notification_st_scheme, unit) pm) option" where
  "delivery_handler mailer ch =
     (case ch of EMAIL \<Rightarrow> Some (deliver_email mailer) | SMS \<Rightarrow> Some deliver_mock_sms
      | _ \<Rightarrow> None)"

definition deliver_notification ::
  "env \<Rightarrow> mailer \<Rightarrow> uuid \<Rightarrow> ('z notification_st_scheme, unit) pm" where
  "deliver_notification E mailer i =
     mbind (gets (\<lambda>s. row_get n_id i (notifications s))) (\<lambda>row.
       case row of
         None \<Rightarrow> ret ()
       | Some n \<Rightarrow>
           if n_status n = NSent then ret ()
           else (case delivery_handler mailer (n_channel n) of
               None \<Rightarrow> save_notification (n\<lparr>n_status := NFailed,
                 n_error_message := ''No delivery handler implemented for channel '' @ [CHR 0x27] @
                   channel_value (n_channel n) @ [CHR 0x27, CHR ''.'']\<rparr>)
             | Some handler \<Rightarrow>
                 mseq
                   (catch (handler n) (\<lambda>e.
                      mseq (save_notification (n\<lparr>n_status := NFailed,
                              n_error_message := take 500 (exn_text e)\<rparr>))
                        (raise (RetryTask 30))))
                   (mbind (now E) (\<lambda>t.
                      save_notification (n\<lparr>n_status := NSent, n_sent_at := Some t\<rparr>)))))"

definition NOTIFICATION_MAX_RETRIES :: nat where
  "NOTIFICATION_MAX_RETRIES = 3"

definition notification_worker ::
  "env \<Rightarrow> mailer \<Rightarrow> uuid \<Rightarrow> 'z notification_st_scheme \<Rightarrow> int list \<times> 'z notification_st_scheme" where
  "notification_worker E mailer i s =
     run_task NOTIFICATION_MAX_RETRIES (deliver_notification E mailer i) s"

text \<open>The list view; \<open>None\<close> is the no-access page.\<close>

definition notification_list ::
  "uuid option \<Rightarrow> ('z notification_st_scheme, notification list option) pm" where
  "notification_list tenant =
     (case tenant of
        None \<Rightarrow> ret None
      | Some tid \<Rightarrow> gets (\<lambda>s. Some (take 200 (filter (\<lambda>n. n_tenant n = tid) (notifications s)))))"

subsection \<open>Rendering never fails on the default templates\<close>

definition TEMPLATE_VARIABLES :: "string list" where
  "TEMPLATE_VARIABLES = [''institution_name'', ''customer_name'', ''bill_number'',
     ''control_number'', ''paid_amount'', ''remaining_balance'', ''payment_reference'',
     ''receipt_number'']"

definition segments_known :: "segment list \<Rightarrow> bool" where
  "segments_known ss \<longleftrightarrow>
     list_all (\<lambda>g. case g of Literal _ \<Rightarrow> True | Field f \<Rightarrow> f \<in> set TEMPLATE_VARIABLES) ss"

definition template_known :: "string \<Rightarrow> bool" where
  "template_known tpl = (case parse_format tpl of Inl _ \<Rightarrow> False | Inr ss \<Rightarrow> segments_known ss)"

definition default_known :: "notification_event \<Rightarrow> channel \<Rightarrow> bool" where
  "default_known event ch = (case DEFAULT_TEMPLATES event ch of
     None \<Rightarrow> False | Some (subj, body) \<Rightarrow> template_known subj \<and> template_known body)"

lemma variables_plain: "list_all plain_field TEMPLATE_VARIABLES"
  by code_simp

lemma defaults_known_email:
  "list_all (\<lambda>ev. default_known ev EMAIL)
     [BILL_CREATED, CONTROL_NUMBER_GENERATED, PAYMENT_PENDING, PAYMENT_SUCCESSFUL,
      PAYMENT_FAILED, PAYMENT_PARTIAL, BILL_FULLY_PAID, BALANCE_REMINDER, PAYMENT_REVERSED,
      PAYMENT_REFUNDED]"
  by code_simp

lemma defaults_known_sms:
  "list_all (\<lambda>ev. default_known ev SMS)
     [BILL_CREATED, CONTROL_NUMBER_GENERATED, PAYMENT_PENDING, PAYMENT_SUCCESSFUL,
      PAYMENT_FAILED, PAYMENT_PARTIAL, BILL_FULLY_PAID, BALANCE_REMINDER, PAYMENT_REVERSED,
      PAYMENT_REFUNDED]"
  by code_simp

lemma default_known: "ch \<in> {EMAIL, SMS} \<Longrightarrow> default_known event ch"
  using defaults_known_email defaults_known_sms by (cases event) auto

lemma render_known:
  assumes "segments_known ss"
  shows "\<exists>text. render_segments E context ss = Inr text"
  using assms
proof (induction ss)
  case (Cons g ss)
  then obtain t where t: "render_segments E context ss = Inr t"
    by (auto simp: segments_known_def)
  show ?case
  proof (cases g)
    case (Field f)
    then have "plain_field f"
      using Cons.prems variables_plain
      by (auto simp: segments_known_def list_all_iff)
    with Field t show ?thesis
      by (simp add: get_field_def)
  qed (simp add: t)
qed simp

lemma format_known:
  assumes "template_known tpl"
  shows "\<exists>text. format_map E tpl context = Inr text"
  using assms render_known by (auto simp: format_map_def template_known_def split: sum.splits)

definition no_override :: "'z notification_st_scheme \<Rightarrow> uuid \<Rightarrow> bool" where
  "no_override s tenant \<longleftrightarrow>
     list_all (\<lambda>t. nt_tenant t = tenant \<longrightarrow> \<not> nt_is_active t) (notification_templates s)"

lemma find_template_none: "no_override s tenant \<Longrightarrow> find_template s tenant event ch = None"
  by (auto simp: no_override_def find_template_def find_None_iff_all list_all_iff)

lemma render_default:
  assumes "no_override s tenant" and "ch \<in> {EMAIL, SMS}"
  shows "\<exists>text. render_template E s tenant event ch context = Inr text"
proof -
  obtain subj body where d: "DEFAULT_TEMPLATES event ch = Some (subj, body)"
    and "template_known subj" "template_known body"
    using default_known [OF assms(2), of event]
    by (auto simp: default_known_def split: option.splits)
  then obtain a b where "format_map E subj context = Inr a" "format_map E body context = Inr b"
    using format_known by blast
  then show ?thesis
    by (simp add: render_template_def find_template_none [OF assms(1)] d)
qed

subsection \<open>What sending adds\<close>

text \<open>
  The state after \<open>send_notification\<close>: the notifications \<open>ns\<close> in front of the table, one
  deferred task for each.
\<close>

definition notified :: "notification list \<Rightarrow> 'z notification_st_scheme \<Rightarrow> 'z notification_st_scheme" where
  "notified ns s = s
     \<lparr>draws := draws s + length ns,
      notifications := rev ns @ notifications s,
      on_commit := on_commit s @ map (\<lambda>n. DeliverNotification (n_id n)) ns\<rparr>"

lemma notified_Nil [simp]: "notified [] s = s"
  by (simp add: notified_def)

lemma notified_simps [simp]:
  "clock_reads (notified ns s) = clock_reads s"
  "draws (notified ns s) = draws s + length ns"
  "tx_broken (notified ns s) = tx_broken s"
  "broker (notified ns s) = broker s"
  "users (notified ns s) = users s"
  "tenants (notified ns s) = tenants s"
  "tenant_memberships (notified ns s) = tenant_memberships s"
  "platform_memberships (notified ns s) = platform_memberships s"
  "audit_logs (notified ns s) = audit_logs s"
  "webhook_endpoints (notified ns s) = webhook_endpoints s"
  "webhook_deliveries (notified ns s) = webhook_deliveries s"
  "http_posts (notified ns s) = http_posts s"
  "notification_templates (notified ns s) = notification_templates s"
  "sent_mails (notified ns s) = sent_mails s"
  "notification_st.more (notified ns s) = notification_st.more s"
  by (simp_all add: notified_def)

lemma audited_notification [simp]:
  "notification_templates (audited r s) = notification_templates s"
  "notifications (audited r s) = notifications s"
  "sent_mails (audited r s) = sent_mails s"
  "notification_st.more (audited r s) = notification_st.more s"
  by (simp_all add: audited_def)

lemma dispatched_notification [simp]:
  "notification_templates (dispatched ds s) = notification_templates s"
  "notifications (dispatched ds s) = notifications s"
  "sent_mails (dispatched ds s) = sent_mails s"
  "notification_st.more (dispatched ds s) = notification_st.more s"
  by (simp_all add: dispatched_def)

lemma wpx_notify_channel:
  "wpx (notify_channel E tenant event context ch recipient) Q X s =
     (case render_template E s tenant event ch context of
        Inl e \<Rightarrow> X e s
      | Inr (subject, body) \<Rightarrow>
          (let n = new_notification E (Uuid (draws s)) tenant event ch recipient
                     (if ch = SMS then [] else subject) body
           in Q n (notified [n] s)))"
  by (simp add: notify_channel_def enqueue_notification_def notified_def new_notification_def
      notification_before_save_def Let_def split: sum.split prod.split)

lemma render_template_notified [simp]:
  "render_template E (notified ns s) tenant event ch context =
   render_template E s tenant event ch context"
  by (simp add: render_template_def find_template_def)

text \<open>With no broken override, sending always succeeds and adds only pending rows.\<close>

lemma send_notification_wpx:
  assumes "no_override s tenant"
    and "\<And>ns. list_all (\<lambda>n. n_status n = NPending \<and> n_tenant n = tenant \<and>
             n_event_type n = event) ns \<Longrightarrow>
           length ns = (if email = [] then 0 else 1) + (if phone = [] then 0 else 1) \<Longrightarrow>
           Q ns (notified ns s)"
  shows "wpx (send_notification E tenant event context email phone) Q X s"
proof -
  obtain t1 where t1: "render_template E s tenant event EMAIL context = Inr t1"
    using render_default [OF assms(1), of EMAIL E event "context"] by blast
  obtain t2 where t2: "render_template E s tenant event SMS context = Inr t2"
    using render_default [OF assms(1), of SMS E event "context"] by blast
  obtain a b c d where ab: "t1 = (a, b)" and cd: "t2 = (c, d)"
    by (cases t1; cases t2)
  let ?n1 = "new_notification E (Uuid (draws s)) tenant event EMAIL email a b"
  let ?n2 = "\<lambda>i. new_notification E (Uuid i) tenant event SMS phone [] d"
  have two: "notified [?n2 (Suc (draws s))] (notified [?n1] s) =
      notified [?n1, ?n2 (Suc (draws s))] s"
    by (simp add: notified_def new_notification_def notification_before_save_def)
  have st: "n_status (new_notification E i tenant event ch r x y) = NPending"
    "n_tenant (new_notification E i tenant event ch r x y) = tenant"
    "n_event_type (new_notification E i tenant event ch r x y) = event" for i ch r x y
    by (simp_all add: new_notification_def notification_before_save_def)
  show ?thesis
    using assms(2) [of "[]"] assms(2) [of "[?n1]"] assms(2) [of "[?n2 (draws s)]"]
      assms(2) [of "[?n1, ?n2 (Suc (draws s))]"]
    by (simp add: send_notification_def wpx_notify_channel t1 t2 ab cd Let_def two st)
qed

locale notification_frame = webhook_frame R
  for R :: "'z notification_st_scheme \<Rightarrow> 'z notification_st_scheme \<Rightarrow> bool" +
  assumes frame_notifications: "R s (s\<lparr>notifications := ns\<rparr>)"
    and frame_mails: "R s (s\<lparr>sent_mails := ms\<rparr>)"
begin

lemma upholds_notify_channel: "upholds R (notify_channel E tenant event context ch recipient)"
  unfolding notify_channel_def Let_def enqueue_notification_def
  by (auto intro!: combinator_rules upholds_modify frame_notifications
      split: sum.split prod.split)

lemma upholds_send_notification:
  "upholds R (send_notification E tenant event context email phone)"
  unfolding send_notification_def by (intro combinator_rules upholds_if upholds_notify_channel)

lemma upholds_save_notification: "upholds R (save_notification n)"
  unfolding save_notification_def by (intro upholds_modify frame_notifications)

lemma upholds_deliver_notification: "upholds R (deliver_notification E mailer i)"
  unfolding deliver_notification_def delivery_handler_def deliver_email_def deliver_mock_sms_def
  by (auto intro!: combinator_rules upholds_modify frame_mails upholds_save_notification
      upholds_if split: option.split channel.split)

end

interpretation notification_audit: notification_frame "appends_only audit_logs"
  by unfold_locales (auto intro: appends_only_same simp: later_def)

subsection \<open>The worker\<close>

lemma deliver_notification_sent:
  assumes row: "row_get n_id i (notifications s) = Some n"
    and st: "n_status n \<noteq> NSent" and ch: "n_channel n \<in> {EMAIL, SMS}"
  shows "wpx (deliver_notification E mailer i)
    (\<lambda>_ t. \<exists>n'. row_get n_id i (notifications t) = Some n' \<and> n_status n' = NSent \<and>
       n_sent_at n' \<noteq> None)
    (\<lambda>e t. \<exists>n'. row_get n_id i (notifications t) = Some n' \<and> n_status n' = NFailed \<and>
       n_channel n' = n_channel n \<and> e = RetryTask 30 \<and> n_channel n = EMAIL) s"
proof -
  have id: "n_id n = i"
    using row_get_SomeD [OF row] by simp
  note save = row_get_save [OF row, unfolded id [symmetric]]
  from st ch id show ?thesis
    by (auto simp: deliver_notification_def row delivery_handler_def deliver_email_def
        deliver_mock_sms_def save_notification_def save split: option.split)
qed

lemma run_task_notification:
  assumes "row_get n_id i (notifications s) = Some n"
    and "n_status n \<noteq> NSent" and "n_channel n \<in> {EMAIL, SMS}"
    and "run_task k (deliver_notification E mailer i) s = (cs, t)"
  shows "length cs \<le> k \<and> set cs \<subseteq> {30} \<and>
    (\<exists>n'. row_get n_id i (notifications t) = Some n' \<and>
      (n_status n' = NSent \<and> n_sent_at n' \<noteq> None \<or>
       n_status n' = NFailed \<and> n_channel n = EMAIL \<and> length cs = k))"
  using assms
proof (induction k arbitrary: s n cs)
  case 0
  show ?case
  proof (cases "deliver_notification E mailer i s")
    case (Pair r u)
    with deliver_notification_sent [OF 0(1-3), of E mailer] 0(4) show ?thesis
      by (cases r) (auto simp: wpx_def)
  qed
next
  case (Suc k)
  obtain r u where ru: "deliver_notification E mailer i s = (r, u)"
    by (cases "deliver_notification E mailer i s")
  note step = deliver_notification_sent [OF Suc(2-4), of E mailer]
  show ?case
  proof (cases r)
    case (Inr x)
    with step ru Suc(5) show ?thesis
      by (auto simp: wpx_def)
  next
    case (Inl e)
    with step ru obtain n' where n': "row_get n_id i (notifications u) = Some n'"
      "n_status n' = NFailed" "n_channel n' = n_channel n" "e = RetryTask 30" "n_channel n = EMAIL"
      by (auto simp: wpx_def)
    obtain cs' where cs': "run_task k (deliver_notification E mailer i) u = (cs', t)"
      "cs = 30 # cs'"
      using Suc(5) ru Inl n'(4) by (auto split: prod.splits)
    from Suc.IH [OF n'(1) _ _ cs'(1)] n' Suc(4) cs'(2) show ?thesis
      by auto
  qed
qed

subsection \<open>Properties\<close>

text \<open>
  Also (\<open>defaults.py\<close>, \<open>_SafeDict\<close>, \<open>render_template\<close>, \<open>send_notification\<close>): for a tenant
  without an active template override, no event and no context can make sending fail. Exactly
  one pending notification is created for each channel that has a recipient, and nothing is
  handed to the broker before the commit.
\<close>

theorem send_notification_total:
  assumes "no_override s tenant"
  shows "succeeds (send_notification E tenant event context email phone)
    (\<lambda>ns t. length ns = (if email = [] then 0 else 1) + (if phone = [] then 0 else 1) \<and>
       list_all (\<lambda>n. n_status n = NPending \<and> n_tenant n = tenant \<and> n_event_type n = event) ns \<and>
       notifications t = rev ns @ notifications s \<and>
       on_commit t = on_commit s @ map (\<lambda>n. DeliverNotification (n_id n)) ns \<and>
       broker t = broker s) s"
  by (rule send_notification_wpx [OF assms]) (simp add: notified_def)

definition example_notification_st :: notification_st where
  "example_notification_st = \<lparr>clock_reads = 0, draws = 9, tx_broken = False, on_commit = [],
     broker = [], users = [], platform_memberships = [], tenants = [], tenant_memberships = [],
     audit_logs = [], mfa_devices = [], backup_codes = [], auth_cache = (\<lambda>_. None),
     webhook_endpoints = [], webhook_deliveries = [], http_posts = [],
     notification_templates = [], notifications = [], sent_mails = []\<rparr>"

theorem send_notification_total_witness:
  "succeeds (send_notification example_env (Uuid 1) PAYMENT_SUCCESSFUL [] ''a'' [])
     (\<lambda>ns t. length ns = 1 \<and> broker t = []) example_notification_st"
  by (rule wpx_mono [OF send_notification_total])
     (simp_all add: example_notification_st_def no_override_def)

text \<open>
  Also (\<open>render_template\<close>, \<open>_notify\<close>): a tenant's override with an unbalanced brace makes
  \<open>format_map\<close> raise \<open>ValueError\<close>, whatever the context, and the exception leaves
  \<open>send_notification\<close>. \<open>_SafeDict\<close> only guards against missing variables.
\<close>

theorem broken_override_raises:
  assumes "find_template s tenant event EMAIL = Some tpl"
    and "nt_subject tpl = []" and "nt_body tpl = ''Paid {paid_amount''" and "email \<noteq> []"
  shows "wpx (send_notification E tenant event context email phone) (\<lambda>_ _. False)
    (\<lambda>e t. e = ValueError ''expected } before end of string'') s"
proof -
  have "parse_format ''Paid {paid_amount'' = Inl (ValueError ''expected } before end of string'')"
    by code_simp
  then have "render_template E s tenant event EMAIL context =
      Inl (ValueError ''expected } before end of string'')"
    by (simp add: render_template_def assms format_map_def)
  then show ?thesis
    by (simp add: send_notification_def wpx_notify_channel assms(4))
qed

definition example_override :: notification_template where
  "example_override = \<lparr>nt_id = Uuid 1, nt_tenant = Uuid 2, nt_event_type = PAYMENT_SUCCESSFUL,
     nt_channel = EMAIL, nt_subject = [], nt_body = ''Paid {paid_amount'', nt_is_active = True\<rparr>"

theorem broken_override_raises_witness:
  "wpx (send_notification example_env (Uuid 2) PAYMENT_SUCCESSFUL [] ''a'' [])
     (\<lambda>_ _. False) (\<lambda>e t. e = ValueError ''expected } before end of string'')
     (example_notification_st\<lparr>notification_templates := [example_override]\<rparr>)"
  by (rule broken_override_raises [where tpl = example_override])
     (simp_all add: find_template_def example_override_def)

text \<open>
  C22 (\<open>deliver_notification\<close> under the Celery worker): an email or SMS that is not yet sent
  ends sent, with the time recorded, or failed; it can only end failed by email and after all
  three retries, each 30 seconds after the last attempt.
\<close>

theorem notification_worker_resolves:
  assumes "row_get n_id i (notifications s) = Some n"
    and "n_status n \<noteq> NSent" and "n_channel n \<in> {EMAIL, SMS}"
    and "notification_worker E mailer i s = (cs, t)"
  shows "length cs \<le> 3 \<and> set cs \<subseteq> {30} \<and>
    (\<exists>n'. row_get n_id i (notifications t) = Some n' \<and>
      (n_status n' = NSent \<and> n_sent_at n' \<noteq> None \<or>
       n_status n' = NFailed \<and> n_channel n = EMAIL \<and> length cs = 3))"
  using run_task_notification [OF assms(1-3), of 3 E mailer cs t] assms(4)
  by (simp add: notification_worker_def NOTIFICATION_MAX_RETRIES_def)

definition example_notification :: notification where
  "example_notification = new_notification example_env (Uuid 1) (Uuid 2) PAYMENT_FAILED SMS
     ''255'' [] ''text''"

theorem notification_worker_resolves_witness:
  "\<exists>n. row_get n_id (Uuid 1) (notifications (snd (notification_worker example_env (\<lambda>_ _. None)
      (Uuid 1) (example_notification_st\<lparr>notifications := [example_notification]\<rparr>)))) = Some n \<and>
     n_status n = NSent"
proof -
  let ?s = "example_notification_st\<lparr>notifications := [example_notification]\<rparr>"
  obtain cs t where ct: "notification_worker example_env (\<lambda>_ _. None) (Uuid 1) ?s = (cs, t)"
    by (cases "notification_worker example_env (\<lambda>_ _. None) (Uuid 1) ?s")
  from notification_worker_resolves [OF _ _ _ ct, of example_notification] ct show ?thesis
    by (auto simp: example_notification_def new_notification_def notification_before_save_def)
qed

end
