(* ===== verification/Customers.thy ===== *)
theory Customers
  imports Notifications
begin

text \<open>
  Customers and customer accounts: \<open>apps/customers/models.py\<close>, \<open>services.py\<close> (the two idempotent
  creators), \<open>views.py\<close> and the form of \<open>forms.py\<close>. A form argument is the cleaned data of a
  valid POST; \<open>None\<close> is any other request. Newest rows come first, so the default ordering
  \<open>-created_at\<close> is the order of the table.
\<close>

record customer =
  c_id :: uuid
  c_tenant :: uuid
  c_full_name :: string
  c_full_name_lookup_hash :: string
  c_email :: string
  c_email_lookup_hash :: string
  c_phone_number :: string
  c_phone_number_lookup_hash :: string
  c_external_reference :: string
  c_metadata :: json
  c_is_active :: bool

record customer_account =
  ca_id :: uuid
  ca_tenant :: uuid
  ca_customer :: uuid
  ca_revenue_source :: "uuid option"
  ca_name :: string
  ca_external_reference :: string
  ca_metadata :: json
  ca_is_active :: bool

record customer_st = notification_st +
  customers :: "customer list"
  customer_accounts :: "customer_account list"

subsection \<open>\<open>Customer.save\<close> and the unique constraints\<close>

definition customer_before_save :: "env \<Rightarrow> customer \<Rightarrow> customer" where
  "customer_before_save E c = c
     \<lparr>c_full_name_lookup_hash := compute_lookup_hash E (c_full_name c),
      c_email_lookup_hash :=
        (if c_email c \<noteq> [] then compute_lookup_hash E (py_lower (c_email c)) else []),
      c_phone_number_lookup_hash := compute_lookup_hash E (c_phone_number c)\<rparr>"

definition customer_lengths_ok :: "customer \<Rightarrow> bool" where
  "customer_lengths_ok c \<longleftrightarrow> length (c_full_name c) \<le> 255 \<and> length (c_email c) \<le> 254 \<and>
     length (c_phone_number c) \<le> 32"

definition find_customer :: "uuid \<times> string \<Rightarrow> 'z customer_st_scheme \<Rightarrow> customer option" where
  "find_customer k s = (if snd k = [] then None else
     List.find (\<lambda>c. c_tenant c = fst k \<and> c_external_reference c = snd k) (customers s))"

definition find_account :: "uuid \<times> string \<Rightarrow> 'z customer_st_scheme \<Rightarrow> customer_account option" where
  "find_account k s = (if snd k = [] then None else
     List.find (\<lambda>a. ca_tenant a = fst k \<and> ca_external_reference a = snd k) (customer_accounts s))"

definition insert_customer :: "env \<Rightarrow> customer \<Rightarrow> ('z customer_st_scheme, customer) pm" where
  "insert_customer E c =
     (if \<not> customer_lengths_ok c then raise (ValueError ''exceeds max_length'')
      else mbind (gets (find_customer (c_tenant c, c_external_reference c))) (\<lambda>dup.
        if dup \<noteq> None then integrity_error ''unique_customer_external_reference_per_tenant''
        else let c1 = customer_before_save E c
             in mseq (modify (\<lambda>s. s\<lparr>customers := c1 # customers s\<rparr>)) (ret c1)))"

definition insert_account :: "customer_account \<Rightarrow> ('z customer_st_scheme, customer_account) pm" where
  "insert_account a =
     mbind (gets (find_account (ca_tenant a, ca_external_reference a))) (\<lambda>dup.
       if dup \<noteq> None then integrity_error ''unique_account_external_reference_per_tenant''
       else mseq (modify (\<lambda>s. s\<lparr>customer_accounts := a # customer_accounts s\<rparr>)) (ret a))"

subsection \<open>Services\<close>

record customer_fields =
  cf_full_name :: string
  cf_email :: string
  cf_phone_number :: string
  cf_metadata :: json

definition get_or_create_customer ::
  "env \<Rightarrow> user option \<Rightarrow> uuid \<times> string \<Rightarrow> customer_fields \<Rightarrow>
   ('z customer_st_scheme, customer \<times> bool) pm" where
  "get_or_create_customer E actor k f =
     mbind (gets (find_customer k)) (\<lambda>existing.
       case existing of
         Some c \<Rightarrow> ret (c, False)
       | None \<Rightarrow> atomic (mbind fresh_uuid (\<lambda>i.
           mbind (insert_customer E
             \<lparr>c_id = i, c_tenant = fst k, c_full_name = cf_full_name f,
              c_full_name_lookup_hash = [], c_email = cf_email f, c_email_lookup_hash = [],
              c_phone_number = cf_phone_number f, c_phone_number_lookup_hash = [],
              c_external_reference = snd k, c_metadata = cf_metadata f, c_is_active = True\<rparr>) (\<lambda>c.
           mseq (audit_event E ''customer.created'' actor (Some (fst k)) (Some (MCustomer, c_id c)))
             (ret (c, True))))))"

record account_fields =
  af_customer :: uuid
  af_revenue_source :: "uuid option"
  af_name :: string
  af_metadata :: json

definition get_or_create_customer_account ::
  "env \<Rightarrow> user option \<Rightarrow> uuid \<times> string \<Rightarrow> account_fields \<Rightarrow>
   ('z customer_st_scheme, customer_account \<times> bool) pm" where
  "get_or_create_customer_account E actor k f =
     mbind (gets (find_account k)) (\<lambda>existing.
       case existing of
         Some a \<Rightarrow> ret (a, False)
       | None \<Rightarrow> atomic (mbind fresh_uuid (\<lambda>i.
           mbind (insert_account
             \<lparr>ca_id = i, ca_tenant = fst k, ca_customer = af_customer f,
              ca_revenue_source = af_revenue_source f, ca_name = af_name f,
              ca_external_reference = snd k, ca_metadata = af_metadata f, ca_is_active = True\<rparr>) (\<lambda>a.
           mseq (audit_event E ''customer_account.created'' actor (Some (fst k))
                   (Some (MCustomerAccount, ca_id a)))
             (ret (a, True))))))"

subsection \<open>Views\<close>

definition CUSTOMERS_CAN_MANAGE :: "tenant_role list" where
  "CUSTOMERS_CAN_MANAGE = [TENANT_ADMIN, FINANCE_MANAGER, BILLING_OFFICER, ACCOUNTANT]"

definition customer_matches :: "env \<Rightarrow> string \<Rightarrow> customer \<Rightarrow> bool" where
  "customer_matches E query c \<longleftrightarrow> query = [] \<or> icontains (c_external_reference c) query \<or>
     c_full_name_lookup_hash c = compute_lookup_hash E query \<or>
     c_email_lookup_hash c = compute_lookup_hash E (py_lower query) \<or>
     c_phone_number_lookup_hash c = compute_lookup_hash E query"

definition sort_customers :: "string \<Rightarrow> customer list \<Rightarrow> customer list" where
  "sort_customers sort_by cs =
     (if sort_by = ''created_at'' then rev cs
      else if sort_by = ''is_active'' then sort_key c_is_active cs
      else if sort_by = ''-is_active'' then sort_key (\<lambda>c. \<not> c_is_active c) cs
      else cs)"

text \<open>\<open>customer_list\<close>: the rows of the page, each with its number of accounts.\<close>

definition customer_list ::
  "env \<Rightarrow> uuid option \<Rightarrow> string \<Rightarrow> string \<Rightarrow> int option \<Rightarrow>
   ('z customer_st_scheme, (customer \<times> nat) list option) pm" where
  "customer_list E tenant q sort_by page =
     (case tenant of None \<Rightarrow> ret None
      | Some tid \<Rightarrow> gets (\<lambda>s. Some (map
          (\<lambda>c. (c, length (filter (\<lambda>a. ca_customer a = c_id c) (customer_accounts s))))
          (get_page 25 (sort_customers sort_by (filter (customer_matches E (py_strip q))
             (filter (\<lambda>c. c_tenant c = tid) (customers s)))) page))))"

definition tenant_customer ::
  "uuid \<Rightarrow> uuid option \<Rightarrow> 'z customer_st_scheme \<Rightarrow> customer option" where
  "tenant_customer pk tenant s =
     List.find (\<lambda>c. c_id c = pk \<and> Some (c_tenant c) = tenant) (customers s)"

text \<open>
  \<open>customer_detail\<close>: the customer, its accounts in the order \<open>name\<close>, and its recent activity.
  (The number of bills of each account is shown by the template only.)
\<close>

definition customer_detail ::
  "env \<Rightarrow> uuid option \<Rightarrow> uuid \<Rightarrow>
   ('z customer_st_scheme, (customer \<times> customer_account list \<times> audit_record list) option) pm" where
  "customer_detail E tenant pk =
     (if tenant = None then ret None
      else mbind (require Http404 (tenant_customer pk tenant)) (\<lambda>c.
        gets (\<lambda>s. Some (c,
          sort_key ca_name (filter (\<lambda>a. ca_customer a = c_id c) (customer_accounts s)),
          get_activity_for E (audit_logs s) MCustomer (c_id c) 20))))"

record customer_form =
  fm_full_name :: string
  fm_email :: string
  fm_phone_number :: string
  fm_external_reference :: string

definition customer_create ::
  "env \<Rightarrow> user option \<Rightarrow> uuid option \<Rightarrow> customer_form option \<Rightarrow>
   ('z customer_st_scheme, (customer \<times> bool) option) pm" where
  "customer_create E user tenant form = require_tenant_role CUSTOMERS_CAN_MANAGE user tenant
     (case (form, tenant) of
        (Some f, Some tid) \<Rightarrow>
          mbind (get_or_create_customer E user (tid, fm_external_reference f)
            \<lparr>cf_full_name = fm_full_name f, cf_email = fm_email f,
             cf_phone_number = fm_phone_number f, cf_metadata = JObj []\<rparr>) (\<lambda>r. ret (Some r))
      | _ \<Rightarrow> ret None)"

definition customer_json :: "customer \<Rightarrow> json" where
  "customer_json c = JObj [(''full_name'', JStr (c_full_name c)), (''email'', JStr (c_email c)),
     (''phone_number'', JStr (c_phone_number c)),
     (''external_reference'', JStr (c_external_reference c))]"

text \<open>
  \<open>customer_edit\<close>: \<open>form.save()\<close> writes the whole row. The form leaves \<open>tenant\<close> out, so the
  uniqueness of the reference is only checked by the database.
\<close>

definition customer_edit ::
  "env \<Rightarrow> user option \<Rightarrow> uuid option \<Rightarrow> uuid \<Rightarrow> customer_form option \<Rightarrow>
   ('z customer_st_scheme, customer option) pm" where
  "customer_edit E user tenant pk form = require_tenant_role CUSTOMERS_CAN_MANAGE user tenant
     (mbind (require Http404 (tenant_customer pk tenant)) (\<lambda>c.
        case form of
          None \<Rightarrow> ret None
        | Some f \<Rightarrow>
            let c1 = customer_before_save E (c\<lparr>c_full_name := fm_full_name f,
                       c_email := fm_email f, c_phone_number := fm_phone_number f,
                       c_external_reference := fm_external_reference f\<rparr>)
            in mbind (gets (\<lambda>s. List.find (\<lambda>d. c_id d \<noteq> pk \<and> c_tenant d = c_tenant c1 \<and>
                   c_external_reference d = c_external_reference c1 \<and>
                   c_external_reference c1 \<noteq> []) (customers s))) (\<lambda>dup.
               if dup \<noteq> None then integrity_error ''unique_customer_external_reference_per_tenant''
               else if \<not> customer_lengths_ok c1 then raise (ValueError ''exceeds max_length'')
               else mseq (modify (\<lambda>s. s\<lparr>customers := row_update c_id pk (\<lambda>_. c1) (customers s)\<rparr>))
                 (mseq (record_audit_event E ''customer.updated'' user tenant
                          (Some (MCustomer, pk)) (Some (customer_json c)) (Some (customer_json c1))
                          (JObj []))
                    (ret (Some c1))))))"

text \<open>The body that \<open>customer_deactivate\<close>, \<open>customer_activate\<close> and the bulk view share.\<close>

definition set_customer_active ::
  "env \<Rightarrow> user option \<Rightarrow> uuid option \<Rightarrow> bool \<Rightarrow> string \<Rightarrow> json \<Rightarrow> uuid \<Rightarrow>
   ('z customer_st_scheme, unit) pm" where
  "set_customer_active E user tenant active action metadata pk =
     mseq (modify (\<lambda>s. s\<lparr>customers := row_update c_id pk (\<lambda>c. c\<lparr>c_is_active := active\<rparr>)
             (customers s)\<rparr>))
       (mseq (record_audit_event E action user tenant (Some (MCustomer, pk)) None None metadata)
          (ret ()))"

definition customer_deactivate ::
  "env \<Rightarrow> user option \<Rightarrow> uuid option \<Rightarrow> uuid \<Rightarrow> bool \<Rightarrow> ('z customer_st_scheme, unit) pm" where
  "customer_deactivate E user tenant pk post = require_tenant_role CUSTOMERS_CAN_MANAGE user tenant
     (mbind (require Http404 (tenant_customer pk tenant)) (\<lambda>c. mwhen post
        (set_customer_active E user tenant False ''customer.deactivated'' (JObj []) (c_id c))))"

definition customer_activate ::
  "env \<Rightarrow> user option \<Rightarrow> uuid option \<Rightarrow> uuid \<Rightarrow> bool \<Rightarrow> ('z customer_st_scheme, unit) pm" where
  "customer_activate E user tenant pk post = require_tenant_role CUSTOMERS_CAN_MANAGE user tenant
     (mbind (require Http404 (tenant_customer pk tenant)) (\<lambda>c. mwhen post
        (set_customer_active E user tenant True ''customer.reactivated'' (JObj []) (c_id c))))"

definition customer_bulk_deactivate ::
  "env \<Rightarrow> user option \<Rightarrow> uuid option \<Rightarrow> uuid list \<Rightarrow> ('z customer_st_scheme, nat) pm" where
  "customer_bulk_deactivate E user tenant ids = require_tenant_role CUSTOMERS_CAN_MANAGE user tenant
     (mbind (gets (\<lambda>s. map c_id (filter (\<lambda>c. c_id c \<in> set ids \<and> Some (c_tenant c) = tenant \<and>
          c_is_active c) (customers s)))) (\<lambda>cs.
        mseq (for_each cs (set_customer_active E user tenant False ''customer.deactivated''
                (JObj [(''bulk'', JBool True)])))
          (ret (length cs))))"

definition account_create ::
  "env \<Rightarrow> user option \<Rightarrow> uuid option \<Rightarrow> uuid \<Rightarrow> (string \<times> uuid option \<times> string) option \<Rightarrow>
   ('z customer_st_scheme, (customer_account \<times> bool) option) pm" where
  "account_create E user tenant customer_pk form = require_tenant_role CUSTOMERS_CAN_MANAGE user tenant
     (mbind (require Http404 (tenant_customer customer_pk tenant)) (\<lambda>c.
        case form of
          None \<Rightarrow> ret None
        | Some (name, source, reference) \<Rightarrow>
            mbind (get_or_create_customer_account E user (c_tenant c, reference)
              \<lparr>af_customer = c_id c, af_revenue_source = source, af_name = name,
               af_metadata = JObj []\<rparr>) (\<lambda>r. ret (Some r))))"

subsection \<open>The command palette search\<close>

definition search_customers ::
  "env \<Rightarrow> 'z customer_st_scheme \<Rightarrow> uuid \<Rightarrow> string \<Rightarrow> nat \<Rightarrow> customer list" where
  "search_customers E s tenant query limit =
     (if query = [] then []
      else let exact = filter (\<lambda>c. c_tenant c = tenant \<and>
                 c_full_name_lookup_hash c = compute_lookup_hash E query) (customers s);
               found = (if exact \<noteq> [] then exact
                        else filter (\<lambda>c. c_tenant c = tenant \<and>
                               icontains (c_external_reference c) query) (customers s))
           in take limit found)"

subsection \<open>Frames\<close>

lemma audited_customer [simp]:
  "customers (audited r s) = customers s"
  "customer_accounts (audited r s) = customer_accounts s"
  "customer_st.more (audited r s) = customer_st.more s"
  by (simp_all add: audited_def)

lemma dispatched_customer [simp]:
  "customers (dispatched ds s) = customers s"
  "customer_accounts (dispatched ds s) = customer_accounts s"
  "customer_st.more (dispatched ds s) = customer_st.more s"
  by (simp_all add: dispatched_def)

lemma notified_customer [simp]:
  "customers (notified ns s) = customers s"
  "customer_accounts (notified ns s) = customer_accounts s"
  "customer_st.more (notified ns s) = customer_st.more s"
  by (simp_all add: notified_def)

lemma find_customer_cong [simp]:
  "find_customer k (audited r s) = find_customer k s"
  "find_account k (audited r s) = find_account k s"
  by (simp_all add: find_customer_def find_account_def)

locale customer_frame = notification_frame R
  for R :: "'z customer_st_scheme \<Rightarrow> 'z customer_st_scheme \<Rightarrow> bool" +
  assumes frame_customers: "R s (s\<lparr>customers := cs\<rparr>)"
    and frame_accounts: "R s (s\<lparr>customer_accounts := cas\<rparr>)"
begin

lemma upholds_get_or_create_customer: "upholds R (get_or_create_customer E actor k f)"
  unfolding get_or_create_customer_def insert_customer_def Let_def
  by (intro combinator_rules upholds_modify frame_customers upholds_audit1
      upholds_case_option upholds_if)

lemma upholds_get_or_create_account: "upholds R (get_or_create_customer_account E actor k f)"
  unfolding get_or_create_customer_account_def insert_account_def
  by (intro combinator_rules upholds_modify frame_accounts upholds_audit1
      upholds_case_option upholds_if)

lemma upholds_set_customer_active:
  "upholds R (set_customer_active E user tenant active action metadata pk)"
  unfolding set_customer_active_def
  by (intro combinator_rules upholds_modify frame_customers upholds_audit)

lemma upholds_customer_edit: "upholds R (customer_edit E user tenant pk form)"
  unfolding customer_edit_def require_tenant_role_def Let_def
  by (intro combinator_rules upholds_modify frame_customers upholds_audit
      upholds_case_option upholds_if)

lemma upholds_customer_views:
  "upholds R (customer_create E user tenant form)"
  "upholds R (customer_deactivate E user tenant pk post)"
  "upholds R (customer_activate E user tenant pk post)"
  "upholds R (customer_bulk_deactivate E user tenant ids)"
  "upholds R (account_create E user tenant pk aform)"
  unfolding customer_create_def customer_deactivate_def customer_activate_def
    customer_bulk_deactivate_def account_create_def require_tenant_role_def
  by (auto intro!: combinator_rules upholds_set_customer_active upholds_get_or_create_customer
      upholds_get_or_create_account upholds_if upholds_case_option split: prod.split option.split)

end

interpretation customer_audit: customer_frame "appends_only audit_logs"
  by unfold_locales (auto intro: appends_only_same simp: later_def)

subsection \<open>Creation is idempotent\<close>

lemma customer_before_save_simps [simp]:
  "c_id (customer_before_save E c) = c_id c"
  "c_tenant (customer_before_save E c) = c_tenant c"
  "c_external_reference (customer_before_save E c) = c_external_reference c"
  "c_is_active (customer_before_save E c) = c_is_active c"
  "customer_lengths_ok (customer_before_save E c) = customer_lengths_ok c"
  by (simp_all add: customer_before_save_def customer_lengths_ok_def)

lemma wpx_get_or_create_customer:
  "wpx (get_or_create_customer E actor k f) Q X s =
     (case find_customer k s of
        Some c \<Rightarrow> Q (c, False) s
      | None \<Rightarrow>
          let c = customer_before_save E
             \<lparr>c_id = Uuid (draws s), c_tenant = fst k, c_full_name = cf_full_name f,
              c_full_name_lookup_hash = [], c_email = cf_email f, c_email_lookup_hash = [],
              c_phone_number = cf_phone_number f, c_phone_number_lookup_hash = [],
              c_external_reference = snd k, c_metadata = cf_metadata f, c_is_active = True\<rparr>;
              s1 = s\<lparr>draws := Suc (draws s), customers := c # customers s\<rparr>
          in if customer_lengths_ok c
             then Q (c, True) (audited (new_audit E ''customer.created'' actor (Some (fst k))
                    (Some (MCustomer, c_id c)) None None (JObj []) s1) s1)
             else X (ValueError ''exceeds max_length'') (s\<lparr>draws := Suc (draws s)\<rparr>))"
  by (cases k) (simp add: get_or_create_customer_def insert_customer_def Let_def rollback_def
      find_customer_def split: option.split)

lemma wpx_get_or_create_customer_account:
  "wpx (get_or_create_customer_account E actor k f) Q X s =
     (case find_account k s of
        Some a \<Rightarrow> Q (a, False) s
      | None \<Rightarrow>
          let a = \<lparr>ca_id = Uuid (draws s), ca_tenant = fst k, ca_customer = af_customer f,
              ca_revenue_source = af_revenue_source f, ca_name = af_name f,
              ca_external_reference = snd k, ca_metadata = af_metadata f, ca_is_active = True\<rparr>;
              s1 = s\<lparr>draws := Suc (draws s), customer_accounts := a # customer_accounts s\<rparr>
          in Q (a, True) (audited (new_audit E ''customer_account.created'' actor (Some (fst k))
                    (Some (MCustomerAccount, ca_id a)) None None (JObj []) s1) s1))"
  by (cases k) (simp add: get_or_create_customer_account_def insert_account_def Let_def
      find_account_def split: option.split)

text \<open>
  The idempotency key is the external reference: a blank one is no key. The keyed calls are an
  instance of the interface.
\<close>

definition has_reference :: "uuid \<times> string \<Rightarrow> bool" where
  "has_reference k \<longleftrightarrow> snd k \<noteq> []"

interpretation customer_goc: get_or_create "\<lambda>k _. has_reference k" "(=)" find_customer
    "get_or_create_customer E actor"
  for E actor
proof
  fix k and s t :: "'a customer_st_scheme" and r a b
  show "\<exists>t. get_or_create_customer E actor k a s = (Inr (r, False), t) \<and> s = t"
    if "find_customer k s = Some r"
    using that by (simp add: run_wpx [of "get_or_create_customer E actor k a"]
        wpx_get_or_create_customer)
  show "b \<and> find_customer k t = Some r \<and> has_reference k"
    if "has_reference k" "find_customer k s = None"
      and "get_or_create_customer E actor k a s = (Inr (r, b), t)"
    using that by (auto simp: run_wpx [of "get_or_create_customer E actor k a"]
        wpx_get_or_create_customer Let_def has_reference_def find_customer_def split: if_splits)
qed auto

interpretation account_goc: get_or_create "\<lambda>k _. has_reference k" "(=)" find_account
    "get_or_create_customer_account E actor"
  for E actor
proof
  fix k and s t :: "'a customer_st_scheme" and r a b
  show "\<exists>t. get_or_create_customer_account E actor k a s = (Inr (r, False), t) \<and> s = t"
    if "find_account k s = Some r"
    using that by (simp add: run_wpx [of "get_or_create_customer_account E actor k a"]
        wpx_get_or_create_customer_account)
  show "b \<and> find_account k t = Some r \<and> has_reference k"
    if "has_reference k" "find_account k s = None"
      and "get_or_create_customer_account E actor k a s = (Inr (r, b), t)"
    using that by (auto simp: run_wpx [of "get_or_create_customer_account E actor k a"]
        wpx_get_or_create_customer_account Let_def has_reference_def find_account_def
        split: if_splits)
qed auto

subsection \<open>Properties\<close>

text \<open>
  Also (\<open>get_or_create_customer\<close>, \<open>get_or_create_customer_account\<close>): with an external reference,
  any number of repeated calls, whatever other data they send, answer the record the first call
  answered, report it as not created and change nothing.
\<close>

theorem customer_creation_idempotent:
  assumes "snd k \<noteq> []"
    and "get_or_create_customer E actor k f s = (Inr (c, created), t)"
    and "get_or_create_customer_account E actor k' g s' = (Inr (a, created'), t')" and "snd k' \<noteq> []"
  shows "created = (find_customer k s = None) \<and> created' = (find_account k' s' = None) \<and>
    run_calls (map (get_or_create_customer E actor2 k) fs) t =
      (replicate (length fs) (Inr (c, False)), t) \<and>
    run_calls (map (get_or_create_customer_account E actor2 k') gs) t' =
      (replicate (length gs) (Inr (a, False)), t')"
proof -
  have k: "has_reference k" "has_reference k'"
    using assms by (simp_all add: has_reference_def)
  have found: "find_customer k t = Some c" "find_account k' t' = Some a"
    using customer_goc.goc_lookup [OF k(1) assms(2)] account_goc.goc_lookup [OF k(2) assms(3)]
    by simp_all
  obtain rs u rs' u' where
    u: "run_calls (map (get_or_create_customer E actor2 k) fs) t = (rs, u)" and
    u': "run_calls (map (get_or_create_customer_account E actor2 k') gs) t' = (rs', u')"
    by (meson surj_pair)
  from customer_goc.goc_retries [OF k(1) found(1) u] account_goc.goc_retries [OF k(2) found(2) u']
  show ?thesis
    using u u' customer_goc.goc_created_iff [OF k(1) assms(2)]
      account_goc.goc_created_iff [OF k(2) assms(3)] by simp
qed

definition example_customer_st :: customer_st where
  "example_customer_st = \<lparr>clock_reads = 0, draws = 9, tx_broken = False, on_commit = [],
     broker = [], users = [], platform_memberships = [], tenants = [], tenant_memberships = [],
     audit_logs = [], mfa_devices = [], backup_codes = [], auth_cache = (\<lambda>_. None),
     webhook_endpoints = [], webhook_deliveries = [], http_posts = [],
     notification_templates = [], notifications = [], sent_mails = [], customers = [],
     customer_accounts = []\<rparr>"

definition example_customer_fields :: customer_fields where
  "example_customer_fields = \<lparr>cf_full_name = ''Asha'', cf_email = [], cf_phone_number = [],
     cf_metadata = JObj []\<rparr>"

definition example_account_fields :: account_fields where
  "example_account_fields = \<lparr>af_customer = Uuid 9, af_revenue_source = None, af_name = ''2026'',
     af_metadata = JObj []\<rparr>"

theorem customer_creation_idempotent_witness:
  "snd (run_calls [get_or_create_customer example_env None (Uuid 1, ''erp-1'') example_customer_fields]
      (snd (get_or_create_customer example_env None (Uuid 1, ''erp-1'') example_customer_fields
         example_customer_st))) =
   snd (get_or_create_customer example_env None (Uuid 1, ''erp-1'') example_customer_fields
         example_customer_st)"
proof -
  let ?k = "(Uuid 1, ''erp-1'')"
  have "succeeds (get_or_create_customer example_env None ?k example_customer_fields)
      (\<lambda>_ _. True) example_customer_st"
    by (simp add: wpx_get_or_create_customer find_customer_def example_customer_st_def Let_def
        customer_lengths_ok_def customer_before_save_def example_customer_fields_def)
  then obtain c cr t where c: "get_or_create_customer example_env None ?k example_customer_fields
      example_customer_st = (Inr (c, cr), t)"
    by (auto simp: succeeds_iff)
  have "succeeds (get_or_create_customer_account example_env None ?k example_account_fields)
      (\<lambda>_ _. True) example_customer_st"
    by (simp add: wpx_get_or_create_customer_account find_account_def example_customer_st_def Let_def)
  then obtain a ar u where a: "get_or_create_customer_account example_env None ?k
      example_account_fields example_customer_st = (Inr (a, ar), u)"
    by (auto simp: succeeds_iff)
  from customer_creation_idempotent [OF _ c a, of None "[example_customer_fields]" "[]"] c
  show ?thesis
    by simp
qed

end
