(* ===== verification/Billing.thy ===== *)
theory Billing
  imports Customers
begin

text \<open>
  Bills: \<open>apps/billing/models.py\<close> (rows, the transition table, numbering, totals, balance),
  \<open>services.py\<close> (\<open>get_or_create_bill\<close> with its retry loop, \<open>cancel_bill\<close>), \<open>forms.py\<close> and the
  views that need no control number. \<open>PaymentAllocation\<close> of \<open>apps/payments/models.py\<close> is here
  because the balance is computed from it. Amounts are hundredths; what a request sends is a
  \<open>decimal\<close>, rounded half away from zero by the \<open>numeric(p, 2)\<close> column it is stored in.
\<close>

subsection \<open>Rows\<close>

record revenue_source =
  rs_id :: uuid
  rs_tenant :: uuid
  rs_name :: string
  rs_code :: string
  rs_description :: string
  rs_is_active :: bool

datatype bill_status = DRAFT | ACTIVE | PARTIALLY_PAID | PAID | EXPIRED | CANCELLED | DISPUTED

fun bill_status_value :: "bill_status \<Rightarrow> string" where
  "bill_status_value DRAFT = ''draft''"
| "bill_status_value ACTIVE = ''active''"
| "bill_status_value PARTIALLY_PAID = ''partially_paid''"
| "bill_status_value PAID = ''paid''"
| "bill_status_value EXPIRED = ''expired''"
| "bill_status_value CANCELLED = ''cancelled''"
| "bill_status_value DISPUTED = ''disputed''"

fun BILL_TRANSITIONS :: "bill_status \<Rightarrow> bill_status list" where
  "BILL_TRANSITIONS DRAFT = [ACTIVE, CANCELLED]"
| "BILL_TRANSITIONS ACTIVE = [PARTIALLY_PAID, PAID, EXPIRED, CANCELLED, DISPUTED]"
| "BILL_TRANSITIONS PARTIALLY_PAID = [PAID, DISPUTED, CANCELLED]"
| "BILL_TRANSITIONS PAID = [DISPUTED]"
| "BILL_TRANSITIONS EXPIRED = []"
| "BILL_TRANSITIONS CANCELLED = []"
| "BILL_TRANSITIONS DISPUTED = [ACTIVE, PARTIALLY_PAID, PAID]"

record bill =
  b_id :: uuid
  b_tenant :: uuid
  b_customer_account :: uuid
  b_revenue_source :: "uuid option"
  b_bill_number :: string
  b_status :: bill_status
  b_currency :: string
  b_total_amount :: money
  b_due_date :: "time option"
  b_issued_at :: "time option"
  b_cancelled_at :: "time option"
  b_external_reference :: string
  b_metadata :: json
  b_notes :: string

record bill_item =
  bi_id :: uuid
  bi_tenant :: uuid
  bi_bill :: uuid
  bi_description :: string
  bi_quantity :: int
  bi_unit_amount :: money
  bi_line_total :: money

record payment_allocation =
  pa_id :: uuid
  pa_tenant :: uuid
  pa_payment :: uuid
  pa_bill :: uuid
  pa_amount :: money

record billing_st = customer_st +
  revenue_sources :: "revenue_source list"
  bills :: "bill list"
  bill_items :: "bill_item list"
  payment_allocations :: "payment_allocation list"

subsection \<open>Amounts and columns\<close>

definition dec_mult :: "decimal \<Rightarrow> decimal \<Rightarrow> decimal" where
  "dec_mult a b = Dec (coeff a * coeff b) (expo a + expo b)"

definition to_hundredths :: "decimal \<Rightarrow> int" where
  "to_hundredths d =
     (if - 2 \<le> expo d then coeff d * 10 ^ nat (expo d + 2)
      else div_half_up (coeff d) (10 ^ nat (- 2 - expo d)))"

text \<open>A column with two places and \<open>digits\<close> digits in all: \<open>None\<close> is \<open>numeric field overflow\<close>.\<close>

definition to_column :: "nat \<Rightarrow> decimal \<Rightarrow> int option" where
  "to_column digits d = (let m = to_hundredths d in if \<bar>m\<bar> < 10 ^ digits then Some m else None)"

definition column :: "nat \<Rightarrow> decimal \<Rightarrow> ('s, int) pm" where
  "column digits d = (case to_column digits d of
     None \<Rightarrow> raise (OtherError ''DataError: numeric field overflow'') | Some m \<Rightarrow> ret m)"

definition amount_paid :: "'z billing_st_scheme \<Rightarrow> uuid \<Rightarrow> money" where
  "amount_paid s bid =
     sum_list (map pa_amount (filter (\<lambda>a. pa_bill a = bid) (payment_allocations s)))"

definition balance :: "'z billing_st_scheme \<Rightarrow> bill \<Rightarrow> money" where
  "balance s b = b_total_amount b - amount_paid s (b_id b)"

definition items_total :: "'z billing_st_scheme \<Rightarrow> uuid \<Rightarrow> money" where
  "items_total s bid = sum_list (map bi_line_total (filter (\<lambda>i. bi_bill i = bid) (bill_items s)))"

subsection \<open>\<open>Bill\<close>\<close>

definition generate_bill_number :: "env \<Rightarrow> ('z billing_st_scheme, string) pm" where
  "generate_bill_number E =
     mbind (now E) (\<lambda>t. mbind draw (\<lambda>k.
       ret (''BILL-'' @ e_ymd E t @ ''-'' @ py_upper (take 8 (e_hex E k)))))"

definition save_bill_status :: "bill \<Rightarrow> ('z billing_st_scheme, unit) pm" where
  "save_bill_status b = modify (\<lambda>s. s\<lparr>bills := row_update b_id (b_id b)
     (\<lambda>r. r\<lparr>b_status := b_status b, b_issued_at := b_issued_at b,
            b_cancelled_at := b_cancelled_at b\<rparr>) (bills s)\<rparr>)"

definition bill_transition_to ::
  "env \<Rightarrow> bill \<Rightarrow> bill_status \<Rightarrow> ('z billing_st_scheme, bill) pm" where
  "bill_transition_to E b new =
     (if new \<notin> set (BILL_TRANSITIONS (b_status b))
      then raise (ValidationError (''Cannot transition bill from '' @ bill_status_value (b_status b)
             @ '' to '' @ bill_status_value new @ ''.''))
      else
        mbind (if new = ACTIVE \<and> b_issued_at b = None
               then mbind (now E) (\<lambda>t. ret (b\<lparr>b_status := new, b_issued_at := Some t\<rparr>))
               else ret (b\<lparr>b_status := new\<rparr>)) (\<lambda>b1.
        mbind (if new = CANCELLED
               then mbind (now E) (\<lambda>t. ret (b1\<lparr>b_cancelled_at := Some t\<rparr>))
               else ret b1) (\<lambda>b2.
        mseq (save_bill_status b2) (ret b2))))"

text \<open>\<open>recalculate_total\<close>: the sum is the database's, over the rows of the bill.\<close>

definition recalculate_total :: "bill \<Rightarrow> ('z billing_st_scheme, bill) pm" where
  "recalculate_total b =
     mbind (gets (\<lambda>s. items_total s (b_id b))) (\<lambda>sum.
     mbind (column 18 (Dec sum (- 2))) (\<lambda>amount.
       mseq (modify (\<lambda>s. s\<lparr>bills := row_update b_id (b_id b)
               (\<lambda>r. r\<lparr>b_total_amount := amount\<rparr>) (bills s)\<rparr>))
         (ret (b\<lparr>b_total_amount := amount\<rparr>))))"

definition find_bill :: "uuid \<times> string \<Rightarrow> 'z billing_st_scheme \<Rightarrow> bill option" where
  "find_bill k s = (if snd k = [] then None else
     List.find (\<lambda>b. b_tenant b = fst k \<and> b_external_reference b = snd k) (bills s))"

definition bill_number_taken :: "uuid \<Rightarrow> string \<Rightarrow> 'z billing_st_scheme \<Rightarrow> bool" where
  "bill_number_taken tenant n s \<longleftrightarrow>
     list_ex (\<lambda>b. b_tenant b = tenant \<and> b_bill_number b = n) (bills s)"

text \<open>The \<open>INSERT\<close> with the two unique constraints of the table.\<close>

definition insert_bill :: "bill \<Rightarrow> ('z billing_st_scheme, bill) pm" where
  "insert_bill b =
     mbind (gets (\<lambda>s. bill_number_taken (b_tenant b) (b_bill_number b) s \<or>
              find_bill (b_tenant b, b_external_reference b) s \<noteq> None)) (\<lambda>clash.
       if clash then integrity_error ''unique constraint of Bill''
       else mseq (modify (\<lambda>s. s\<lparr>bills := b # bills s\<rparr>)) (ret b))"

subsection \<open>Creating a bill\<close>

record new_item =
  ni_description :: string
  ni_quantity :: decimal
  ni_unit_amount :: decimal

record bill_args =
  ba_customer_account :: uuid
  ba_items :: "new_item list"
  ba_revenue_source :: "uuid option"
  ba_due_date :: "time option"
  ba_metadata :: json

fun create_items ::
  "uuid \<Rightarrow> uuid \<Rightarrow> new_item list \<Rightarrow> ('z billing_st_scheme, unit) pm" where
  "create_items tenant bid [] = ret ()"
| "create_items tenant bid (i # is) =
     mbind fresh_uuid (\<lambda>k.
     mbind (column 10 (ni_quantity i)) (\<lambda>q.
     mbind (column 18 (ni_unit_amount i)) (\<lambda>u.
     mbind (column 18 (dec_mult (ni_quantity i) (ni_unit_amount i))) (\<lambda>lt.
       mseq (modify (\<lambda>s. s\<lparr>bill_items :=
               \<lparr>bi_id = k, bi_tenant = tenant, bi_bill = bid, bi_description = ni_description i,
                bi_quantity = q, bi_unit_amount = u, bi_line_total = lt\<rparr> # bill_items s\<rparr>))
         (create_items tenant bid is)))))"

text \<open>
  \<open>str(bill.total_amount)\<close> right after \<open>recalculate_total\<close>: a zero sum is the integer \<open>0\<close>,
  because of the \<open>or 0\<close>.
\<close>

definition total_text :: "env \<Rightarrow> money \<Rightarrow> string" where
  "total_text E m = (if m = 0 then ''0'' else e_str_dec E m)"

definition dispatch_bill_event ::
  "env \<Rightarrow> bill \<Rightarrow> string \<Rightarrow> string \<Rightarrow> ('z billing_st_scheme, unit) pm" where
  "dispatch_bill_event E b event amount =
     mbind (require (DoesNotExist ''CustomerAccount'')
              (\<lambda>s. row_get ca_id (b_customer_account b) (customer_accounts s))) (\<lambda>acc.
     mseq (dispatch_event E (b_tenant b) event (JObj
        [(''bill_id'', JStr (e_str_uuid E (b_id b))), (''bill_number'', JStr (b_bill_number b)),
         (''status'', JStr (bill_status_value (b_status b))), (''total_amount'', JStr amount),
         (''currency'', JStr (b_currency b)), (''customer_account'', JStr (ca_name acc))]))
       (ret ()))"

definition account_customer ::
  "uuid \<Rightarrow> 'z billing_st_scheme \<Rightarrow> (customer_account \<times> customer) option" where
  "account_customer aid s =
     (case row_get ca_id aid (customer_accounts s) of None \<Rightarrow> None
      | Some a \<Rightarrow> (case row_get c_id (ca_customer a) (customers s) of None \<Rightarrow> None
                   | Some c \<Rightarrow> Some (a, c)))"

definition notify_bill_created :: "env \<Rightarrow> bill \<Rightarrow> ('z billing_st_scheme, unit) pm" where
  "notify_bill_created E b =
     mbind (require (DoesNotExist ''Customer'') (account_customer (b_customer_account b)))
       (\<lambda>(a, c).
     mbind (gets (\<lambda>s. tenant_name s (b_tenant b))) (\<lambda>tname.
     mseq (send_notification E (b_tenant b) BILL_CREATED
        [(''institution_name'', tname), (''customer_name'', c_full_name c),
         (''bill_number'', b_bill_number b)] (c_email c) (c_phone_number c))
       (ret ())))"

text \<open>The rows one attempt writes, then the whole attempt.\<close>

definition create_bill_rows ::
  "env \<Rightarrow> uuid \<times> string \<Rightarrow> bill_args \<Rightarrow> ('z billing_st_scheme, bill) pm" where
  "create_bill_rows E k a =
     mbind fresh_uuid (\<lambda>i.
     mbind (generate_bill_number E) (\<lambda>n.
     mbind (insert_bill
       \<lparr>b_id = i, b_tenant = fst k, b_customer_account = ba_customer_account a,
        b_revenue_source = ba_revenue_source a, b_bill_number = n, b_status = DRAFT,
        b_currency = ''TZS'', b_total_amount = 0, b_due_date = ba_due_date a,
        b_issued_at = None, b_cancelled_at = None, b_external_reference = snd k,
        b_metadata = ba_metadata a, b_notes = []\<rparr>) (\<lambda>b.
     mseq (create_items (fst k) i (ba_items a)) (recalculate_total b))))"

definition create_bill ::
  "env \<Rightarrow> user option \<Rightarrow> uuid \<times> string \<Rightarrow> bill_args \<Rightarrow> ('z billing_st_scheme, bill) pm" where
  "create_bill E actor k a =
     mbind (create_bill_rows E k a) (\<lambda>b.
     mseq (record_audit_event E ''bill.created'' actor (Some (fst k)) (Some (MBill, b_id b)) None
             (Some (JObj [(''total_amount'', JStr (total_text E (b_total_amount b))),
                          (''status'', JStr (bill_status_value (b_status b)))])) (JObj []))
     (mseq (dispatch_bill_event E b ''bill.created'' (total_text E (b_total_amount b)))
     (mseq (notify_bill_created E b)
       (ret b))))"

fun bill_attempts ::
  "env \<Rightarrow> user option \<Rightarrow> uuid \<times> string \<Rightarrow> bill_args \<Rightarrow> nat \<Rightarrow>
   ('z billing_st_scheme, bill \<times> bool) pm" where
  "bill_attempts E actor k a 0 =
     raise (IntegrityError ''Could not generate a unique bill number after 3 attempts.'')"
| "bill_attempts E actor k a (Suc n) =
     catch (mbind (atomic (create_bill E actor k a)) (\<lambda>b. ret (b, True)))
       (\<lambda>e. if is_integrity_error e
            then mbind (gets (find_bill k)) (\<lambda>existing.
              case existing of
                Some b \<Rightarrow> ret (b, False)
              | None \<Rightarrow> bill_attempts E actor k a n)
            else raise e)"

definition get_or_create_bill ::
  "env \<Rightarrow> user option \<Rightarrow> uuid \<times> string \<Rightarrow> bill_args \<Rightarrow>
   ('z billing_st_scheme, bill \<times> bool) pm" where
  "get_or_create_bill E actor k a =
     mbind (gets (find_bill k)) (\<lambda>existing.
       case existing of
         Some b \<Rightarrow> ret (b, False)
       | None \<Rightarrow> bill_attempts E actor k a 3)"

definition cancel_bill ::
  "env \<Rightarrow> user option \<Rightarrow> bill \<Rightarrow> ('z billing_st_scheme, bill) pm" where
  "cancel_bill E actor b =
     mbind (bill_transition_to E b CANCELLED) (\<lambda>b1.
     mseq (audit_event E ''bill.cancelled'' actor (Some (b_tenant b1)) (Some (MBill, b_id b1)))
     (mseq (dispatch_bill_event E b1 ''bill.cancelled'' (e_str_dec E (b_total_amount b1)))
       (ret b1)))"

subsection \<open>Views and forms\<close>

definition BILLING_CAN_MANAGE :: "tenant_role list" where
  "BILLING_CAN_MANAGE = [TENANT_ADMIN, FINANCE_MANAGER, BILLING_OFFICER, ACCOUNTANT]"

definition bill_matches :: "env \<Rightarrow> 'z billing_st_scheme \<Rightarrow> string \<Rightarrow> bill \<Rightarrow> bool" where
  "bill_matches E s query b \<longleftrightarrow> query = [] \<or> icontains (b_bill_number b) query \<or>
     icontains (b_external_reference b) query \<or>
     (case account_customer (b_customer_account b) s of
        Some (_, c) \<Rightarrow> c_full_name_lookup_hash c = compute_lookup_hash E query
      | None \<Rightarrow> False)"

definition bill_list ::
  "env \<Rightarrow> uuid option \<Rightarrow> string \<Rightarrow> string \<Rightarrow> int option \<Rightarrow>
   ('z billing_st_scheme, bill list option) pm" where
  "bill_list E tenant q status page =
     (case tenant of None \<Rightarrow> ret None
      | Some tid \<Rightarrow> gets (\<lambda>s. Some (get_page 25
          (filter (\<lambda>b. py_strip status \<notin> set (map bill_status_value
               [DRAFT, ACTIVE, PARTIALLY_PAID, PAID, EXPIRED, CANCELLED, DISPUTED]) \<or>
             bill_status_value (b_status b) = py_strip status)
          (filter (bill_matches E s (py_strip q))
          (filter (\<lambda>b. b_tenant b = tid) (bills s)))) page)))"

definition tenant_bill :: "uuid \<Rightarrow> uuid option \<Rightarrow> 'z billing_st_scheme \<Rightarrow> bill option" where
  "tenant_bill pk tenant s = List.find (\<lambda>b. b_id b = pk \<and> Some (b_tenant b) = tenant) (bills s)"

text \<open>\<open>bill_detail\<close>: the bill, its items oldest first, and its allocations.\<close>

definition bill_detail ::
  "uuid option \<Rightarrow> uuid \<Rightarrow>
   ('z billing_st_scheme, (bill \<times> bill_item list \<times> payment_allocation list) option) pm" where
  "bill_detail tenant pk =
     (if tenant = None then ret None
      else mbind (require Http404 (tenant_bill pk tenant)) (\<lambda>b. gets (\<lambda>s. Some (b,
        rev (filter (\<lambda>i. bi_bill i = b_id b) (bill_items s)),
        filter (\<lambda>a. pa_bill a = b_id b) (payment_allocations s)))))"

text \<open>The view answers whether the bill was cancelled; a refusal is only a message.\<close>

definition bill_cancel ::
  "env \<Rightarrow> user option \<Rightarrow> uuid option \<Rightarrow> uuid \<Rightarrow> bool \<Rightarrow> ('z billing_st_scheme, bool) pm" where
  "bill_cancel E user tenant pk post = require_tenant_role BILLING_CAN_MANAGE user tenant
     (mbind (require Http404 (tenant_bill pk tenant)) (\<lambda>b.
        if \<not> post then ret False
        else catch (mseq (cancel_bill E user b) (ret True))
          (\<lambda>e. case e of ValidationError _ \<Rightarrow> ret False | _ \<Rightarrow> raise e)))"

record quick_bill_form =
  qf_customer_account :: uuid
  qf_revenue_source :: "uuid option"
  qf_description :: string
  qf_unit_amount :: decimal
  qf_due_date :: "time option"
  qf_external_reference :: string

text \<open>
  \<open>MinValueValidator(0.01)\<close>: the limit is the binary fraction nearest to one hundredth,
  \<open>5764607523034235 / 2 ^ 59\<close>, and \<open>Decimal\<close> compares with it exactly.
\<close>

definition below_float_cent :: "decimal \<Rightarrow> bool" where
  "below_float_cent d \<longleftrightarrow>
     (if 0 \<le> expo d then coeff d * 10 ^ nat (expo d) * 2 ^ 59 < 5764607523034235
      else coeff d * 2 ^ 59 < 5764607523034235 * 10 ^ nat (- expo d))"

definition money_field_clean :: "decimal \<Rightarrow> bool" where
  "money_field_clean d \<longleftrightarrow> - 2 \<le> expo d \<and> \<bar>to_hundredths d\<bar> < 10 ^ 18"

definition quick_bill_clean :: "'z billing_st_scheme \<Rightarrow> uuid option \<Rightarrow> quick_bill_form \<Rightarrow> bool" where
  "quick_bill_clean s tenant f \<longleftrightarrow>
     list_ex (\<lambda>a. ca_id a = qf_customer_account f \<and> Some (ca_tenant a) = tenant \<and> ca_is_active a)
       (customer_accounts s) \<and>
     (case qf_revenue_source f of None \<Rightarrow> True
      | Some r \<Rightarrow> list_ex (\<lambda>x. rs_id x = r \<and> Some (rs_tenant x) = tenant \<and> rs_is_active x)
                    (revenue_sources s)) \<and>
     qf_description f \<noteq> [] \<and> length (qf_description f) \<le> 255 \<and>
     money_field_clean (qf_unit_amount f) \<and> \<not> below_float_cent (qf_unit_amount f) \<and>
     length (qf_external_reference f) \<le> 100"

definition search_bills :: "'z billing_st_scheme \<Rightarrow> uuid \<Rightarrow> string \<Rightarrow> nat \<Rightarrow> bill list" where
  "search_bills s tenant query limit =
     (if query = [] then []
      else take limit (filter (\<lambda>b. b_tenant b = tenant \<and>
        (icontains (b_bill_number b) query \<or> icontains (b_external_reference b) query)) (bills s)))"

subsection \<open>Frames\<close>

lemma audited_billing [simp]:
  "revenue_sources (audited r s) = revenue_sources s"
  "bills (audited r s) = bills s"
  "bill_items (audited r s) = bill_items s"
  "payment_allocations (audited r s) = payment_allocations s"
  "billing_st.more (audited r s) = billing_st.more s"
  by (simp_all add: audited_def)

lemma dispatched_billing [simp]:
  "revenue_sources (dispatched ds s) = revenue_sources s"
  "bills (dispatched ds s) = bills s"
  "bill_items (dispatched ds s) = bill_items s"
  "payment_allocations (dispatched ds s) = payment_allocations s"
  "billing_st.more (dispatched ds s) = billing_st.more s"
  by (simp_all add: dispatched_def)

lemma notified_billing [simp]:
  "revenue_sources (notified ns s) = revenue_sources s"
  "bills (notified ns s) = bills s"
  "bill_items (notified ns s) = bill_items s"
  "payment_allocations (notified ns s) = payment_allocations s"
  "billing_st.more (notified ns s) = billing_st.more s"
  by (simp_all add: notified_def)

text \<open>What the events of a bill (audit, webhooks, notifications) leave alone.\<close>

locale event_frame = customer_frame R
  for R :: "'z billing_st_scheme \<Rightarrow> 'z billing_st_scheme \<Rightarrow> bool"
begin

lemma upholds_dispatch_bill_event: "upholds R (dispatch_bill_event E b event amount)"
  unfolding dispatch_bill_event_def by (intro combinator_rules upholds_dispatch_event)

lemma upholds_notify_bill_created: "upholds R (notify_bill_created E b)"
  unfolding notify_bill_created_def
  by (intro combinator_rules upholds_case_prod upholds_send_notification)

end

locale billing_frame = event_frame R
  for R :: "'z billing_st_scheme \<Rightarrow> 'z billing_st_scheme \<Rightarrow> bool" +
  assumes frame_bills: "R s (s\<lparr>bills := bs\<rparr>)"
    and frame_items: "R s (s\<lparr>bill_items := is\<rparr>)"
begin

lemma upholds_column: "upholds R (column digits d)"
  unfolding column_def by (intro upholds_case_option combinator_rules)

lemma upholds_bill_transition: "upholds R (bill_transition_to E b new)"
  unfolding bill_transition_to_def save_bill_status_def
  by (intro upholds_if combinator_rules upholds_modify frame_bills)

lemma upholds_create_items: "upholds R (create_items tenant bid is)"
  by (induction "is") (auto intro!: combinator_rules upholds_modify frame_items upholds_column)

lemma upholds_create_bill_rows: "upholds R (create_bill_rows E k a)"
  unfolding create_bill_rows_def generate_bill_number_def insert_bill_def recalculate_total_def
  by (intro combinator_rules upholds_if upholds_modify frame_bills upholds_column
      upholds_create_items)

lemma upholds_create_bill: "upholds R (create_bill E actor k a)"
  unfolding create_bill_def
  by (intro combinator_rules upholds_create_bill_rows upholds_audit upholds_dispatch_bill_event
      upholds_notify_bill_created)

lemma upholds_bill_attempts: "upholds R (bill_attempts E actor k a n)"
  by (induction n) (auto intro!: combinator_rules upholds_create_bill split: option.split)

lemma upholds_get_or_create_bill: "upholds R (get_or_create_bill E actor k a)"
  unfolding get_or_create_bill_def
  by (intro combinator_rules upholds_case_option upholds_bill_attempts)

lemma upholds_cancel_bill: "upholds R (cancel_bill E actor b)"
  unfolding cancel_bill_def
  by (intro combinator_rules upholds_bill_transition upholds_audit1 upholds_dispatch_bill_event)

lemma upholds_bill_cancel: "upholds R (bill_cancel E user tenant pk post)"
  unfolding bill_cancel_def require_tenant_role_def
  by (auto intro!: combinator_rules upholds_if upholds_cancel_bill split: exn.split)

end

interpretation billing_audit: billing_frame "appends_only audit_logs"
  by unfold_locales (auto intro: appends_only_same simp: later_def)

definition billing_rows ::
  "'z billing_st_scheme \<Rightarrow> revenue_source list \<times> bill list \<times> bill_item list \<times> payment_allocation list" where
  "billing_rows s = (revenue_sources s, bills s, bill_items s, payment_allocations s)"

interpretation bill_events: event_frame "same billing_rows"
  by unfold_locales (auto simp: same_def billing_rows_def later_def)

subsection \<open>The status machine\<close>

lemma wpx_bill_transition:
  "wpx (bill_transition_to E b new) Q X s =
     (if new \<notin> set (BILL_TRANSITIONS (b_status b))
      then X (ValidationError (''Cannot transition bill from '' @ bill_status_value (b_status b)
             @ '' to '' @ bill_status_value new @ ''.'')) s
      else
        let first = (new = ACTIVE \<and> b_issued_at b = None);
            b2 = b\<lparr>b_status := new,
              b_issued_at := (if first then Some (e_now E (clock_reads s)) else b_issued_at b),
              b_cancelled_at := (if new = CANCELLED then Some (e_now E (clock_reads s))
                                 else b_cancelled_at b)\<rparr>
        in Q b2 (s\<lparr>clock_reads := clock_reads s + (if first \<or> new = CANCELLED then 1 else 0),
                  bills := row_update b_id (b_id b)
                    (\<lambda>r. r\<lparr>b_status := b_status b2, b_issued_at := b_issued_at b2,
                           b_cancelled_at := b_cancelled_at b2\<rparr>) (bills s)\<rparr>))"
  by (cases new) (auto simp: bill_transition_to_def save_bill_status_def Let_def)

interpretation bill_machine: status_machine BILL_TRANSITIONS b_status "bill_transition_to E" for E
proof
  fix new r and s :: "'a billing_st_scheme"
  show "\<exists>m. bill_transition_to E r new s = (Inl (ValidationError m), s)"
    if "new \<notin> set (BILL_TRANSITIONS (b_status r))"
    using that by (auto simp: bill_transition_to_def raise_def)
  show "\<exists>r' t. bill_transition_to E r new s = (Inr r', t) \<and> b_status r' = new"
    if "new \<in> set (BILL_TRANSITIONS (b_status r))"
  proof -
    have "succeeds (bill_transition_to E r new) (\<lambda>q _. b_status q = new) s"
      using that by (simp add: wpx_bill_transition Let_def)
    then show ?thesis
      by (auto simp: succeeds_iff)
  qed
qed

subsection \<open>Creation is idempotent\<close>

lemma wpx_column [simp, wp_rules]:
  "wpx (column digits d) Q X s =
     (case to_column digits d of
        None \<Rightarrow> X (OtherError ''DataError: numeric field overflow'') s | Some m \<Rightarrow> Q m s)"
  by (simp add: column_def split: option.split)

lemma upholds_column_same: "upholds (same billing_rows) (column digits d)"
  unfolding column_def
  by (intro upholds_case_option bill_events.upholds_raise bill_events.upholds_ret)

text \<open>What \<open>create_items\<close> adds: one row per item, its columns rounded from what was sent.\<close>

definition item_row :: "uuid \<Rightarrow> uuid \<Rightarrow> new_item \<Rightarrow> bill_item \<Rightarrow> bool" where
  "item_row tenant bid i r \<longleftrightarrow> bi_tenant r = tenant \<and> bi_bill r = bid \<and>
     bi_description r = ni_description i \<and>
     to_column 10 (ni_quantity i) = Some (bi_quantity r) \<and>
     to_column 18 (ni_unit_amount i) = Some (bi_unit_amount r) \<and>
     to_column 18 (dec_mult (ni_quantity i) (ni_unit_amount i)) = Some (bi_line_total r)"

definition items_added ::
  "uuid \<Rightarrow> uuid \<Rightarrow> new_item list \<Rightarrow> 'z billing_st_scheme \<Rightarrow> 'z billing_st_scheme \<Rightarrow> bool" where
  "items_added tenant bid is s t \<longleftrightarrow> later s t \<and> bills t = bills s \<and>
     payment_allocations t = payment_allocations s \<and>
     (\<exists>rows. bill_items t = rev rows @ bill_items s \<and> list_all2 (item_row tenant bid) is rows)"

lemma items_added_Nil: "items_added tenant bid [] s s"
  by (simp add: items_added_def)

lemma items_added_Cons:
  assumes "item_row tenant bid i r"
    and "items_added tenant bid is (s\<lparr>draws := Suc (draws s), bill_items := r # bill_items s\<rparr>) t"
  shows "items_added tenant bid (i # is) s t"
proof -
  from assms(2) obtain rows where "bill_items t = rev rows @ r # bill_items s"
    "list_all2 (item_row tenant bid) is rows" "later s t" "bills t = bills s"
    "payment_allocations t = payment_allocations s"
    by (auto simp: items_added_def later_def)
  moreover from this have "bill_items t = rev (r # rows) @ bill_items s"
    "list_all2 (item_row tenant bid) (i # is) (r # rows)"
    using assms(1) by simp_all
  ultimately show ?thesis
    unfolding items_added_def by blast
qed

lemma create_items_wpx:
  "wpx (create_items tenant bid is) (\<lambda>_ t. items_added tenant bid is s t) (\<lambda>e t. True) s"
proof (induction "is" arbitrary: s)
  case Nil
  show ?case
    by (simp add: items_added_Nil)
next
  case (Cons i "is")
  show ?case
  proof (cases "to_column 10 (ni_quantity i)"; cases "to_column 18 (ni_unit_amount i)";
      cases "to_column 18 (dec_mult (ni_quantity i) (ni_unit_amount i))")
    fix q u lt
    assume cols: "to_column 10 (ni_quantity i) = Some q" "to_column 18 (ni_unit_amount i) = Some u"
      "to_column 18 (dec_mult (ni_quantity i) (ni_unit_amount i)) = Some lt"
    let ?r = "\<lparr>bi_id = Uuid (draws s), bi_tenant = tenant, bi_bill = bid,
      bi_description = ni_description i, bi_quantity = q, bi_unit_amount = u, bi_line_total = lt\<rparr>"
    have r: "item_row tenant bid i ?r"
      using cols by (simp add: item_row_def)
    show ?thesis
      using cols by (simp, intro wpx_mono [OF Cons.IH]) (auto intro: items_added_Cons [OF r])
  qed simp_all
qed

lemma recalculate_wpx:
  "wpx (recalculate_total b) Q X s =
     (if \<bar>items_total s (b_id b)\<bar> < 10 ^ 18
      then Q (b\<lparr>b_total_amount := items_total s (b_id b)\<rparr>)
             (s\<lparr>bills := row_update b_id (b_id b)
                (\<lambda>r. r\<lparr>b_total_amount := items_total s (b_id b)\<rparr>) (bills s)\<rparr>)
      else X (OtherError ''DataError: numeric field overflow'') s)"
  by (simp add: recalculate_total_def to_column_def to_hundredths_def Let_def)

text \<open>The bill that a successful creation answers, in the state after it.\<close>

definition created_as ::
  "uuid \<times> string \<Rightarrow> bill_args \<Rightarrow> 'z billing_st_scheme \<Rightarrow> bill \<Rightarrow> 'z billing_st_scheme \<Rightarrow> bool" where
  "created_as k a s b t \<longleftrightarrow>
     b_tenant b = fst k \<and> b_external_reference b = snd k \<and> b_status b = DRAFT \<and>
     b_customer_account b = ba_customer_account a \<and> b_issued_at b = None \<and>
     b_total_amount b = items_total t (b_id b) \<and> draws s \<le> uuid_no (b_id b) \<and>
     (\<exists>rest. bills t = b # rest) \<and> payment_allocations t = payment_allocations s \<and>
     (\<exists>rows. bill_items t = rev rows @ bill_items s \<and>
        list_all2 (item_row (fst k) (b_id b)) (ba_items a) rows)"

lemma create_bill_rows_wpx:
  "wpx (create_bill_rows E k a) (created_as k a s) (\<lambda>_ _. True) s"
  unfolding create_bill_rows_def generate_bill_number_def insert_bill_def
  by (auto simp: recalculate_wpx intro!: wpx_mono [OF create_items_wpx])
     (auto simp: created_as_def items_added_def items_total_def)

lemma create_bill_wpx:
  "wpx (create_bill E actor k a) (created_as k a s) (\<lambda>_ _. True) s"
proof -
  have frame: "created_as k a s b u" if "created_as k a s b t" "same billing_rows t u" for b t u
    using that by (simp add: created_as_def same_def billing_rows_def items_total_def)
  have events: "wpx (mseq (record_audit_event E ''bill.created'' actor (Some (fst k)) tgt None after m)
      (mseq (dispatch_bill_event E b ''bill.created'' amt)
      (mseq (notify_bill_created E b) (ret b)))) (created_as k a s) (\<lambda>_ _. True) t"
    if "created_as k a s b t" for b t tgt after m amt
  proof -
    have "upholds (same billing_rows)
        (mseq (record_audit_event E ''bill.created'' actor (Some (fst k)) tgt None after m)
        (mseq (dispatch_bill_event E b ''bill.created'' amt) (notify_bill_created E b)))"
      by (intro bill_events.combinator_rules bill_events.upholds_audit
          bill_events.upholds_dispatch_bill_event bill_events.upholds_notify_bill_created)
    from upholds_wpx [OF this, of t] have "wpx (mseq (record_audit_event E ''bill.created'' actor
        (Some (fst k)) tgt None after m) (mseq (dispatch_bill_event E b ''bill.created'' amt)
        (notify_bill_created E b))) (\<lambda>_. created_as k a s b) (\<lambda>_ _. True) t"
      by (rule wpx_mono) (auto intro: frame [OF that])
    then show ?thesis
      by (simp add: wpx_eta)
  qed
  show ?thesis
    unfolding create_bill_def wpx_mbind
    by (rule wpx_mono [OF create_bill_rows_wpx]) (auto simp del: wpx_mseq intro: events)
qed

lemma find_bill_rollback [simp]: "find_bill k (rollback s t) = find_bill k s"
  by (simp add: find_bill_def rollback_def)

lemma created_find:
  "has_reference k \<Longrightarrow> created_as k a s b t \<Longrightarrow> find_bill k t = Some b"
  by (auto simp: created_as_def find_bill_def has_reference_def)

lemma created_as_rollback:
  "draws s \<le> draws u \<Longrightarrow> created_as k a (rollback s u) b t \<Longrightarrow> created_as k a s b t"
  by (auto simp: created_as_def rollback_def)

lemma bill_attempts_wpx:
  assumes "find_bill k s = None"
  shows "wpx (bill_attempts E actor k a n) (\<lambda>(b, c) t. c \<and> created_as k a s b t) (\<lambda>_ _. True) s"
  using assms
proof (induction n arbitrary: s)
  case (Suc n)
  have later: "wpx (create_bill E actor k a) (\<lambda>_. later s) (\<lambda>_. later s) s"
    using upholds_wpx [OF billing_audit.upholds_create_bill] by (rule wpx_mono) (auto simp: appends_only_def)
  have again: "wpx (bill_attempts E actor k a n) (\<lambda>(b, c) t. c \<and> created_as k a s b t)
      (\<lambda>_ _. True) (rollback s u)" if "later s u" for u
    using Suc.IH [of "rollback s u"] Suc.prems that
    by (auto elim!: wpx_mono simp: later_def intro: created_as_rollback)
  show ?case
    using wpx_conj [OF create_bill_wpx later] Suc.prems
    by simp (elim wpx_mono, auto intro: again)
qed simp

lemma bill_goc_wpx:
  "wpx (get_or_create_bill E actor k a)
     (\<lambda>(b, c) t. case find_bill k s of Some q \<Rightarrow> b = q \<and> \<not> c \<and> t = s
                 | None \<Rightarrow> c \<and> created_as k a s b t) (\<lambda>_ _. True) s"
  using bill_attempts_wpx [of k s E actor a 3]
  by (cases "find_bill k s") (simp_all add: get_or_create_bill_def del: bill_attempts.simps)

interpretation bill_goc: get_or_create "\<lambda>k _. has_reference k" "(=)" find_bill
    "get_or_create_bill E actor"
  for E actor
proof
  fix k and s t :: "'a billing_st_scheme" and r a b
  show "\<exists>t. get_or_create_bill E actor k a s = (Inr (r, False), t) \<and> s = t"
    if "find_bill k s = Some r"
    using that by (simp add: get_or_create_bill_def mbind_def gets_def ret_def)
  show "b \<and> find_bill k t = Some r \<and> has_reference k"
    if "has_reference k" "find_bill k s = None" "get_or_create_bill E actor k a s = (Inr (r, b), t)"
    using wpx_result(1) [OF bill_goc_wpx that(3)] that(1,2) by (auto intro: created_find)
qed auto

lemma float_cent_iff: "below_float_cent (Dec m (- 2)) \<longleftrightarrow> m \<le> 1"
  by (auto simp: below_float_cent_def)

text \<open>A bill of exactly one hundredth fits the column and is refused by the form.\<close>

lemma quick_bill_rejects_one_cent:
  "money_field_clean (Dec 1 (- 2)) \<and> \<not> quick_bill_clean s tenant (f\<lparr>qf_unit_amount := Dec 1 (- 2)\<rparr>)"
  by (simp add: quick_bill_clean_def float_cent_iff money_field_clean_def to_hundredths_def)

subsection \<open>Properties\<close>

text \<open>
  Also (\<open>get_or_create_bill\<close>): with an external reference, the first successful call creates the
  bill exactly when the tenant had none under it, and any number of later calls, whatever items
  they send, answer that bill unchanged, report it as not created and change nothing.
\<close>

theorem bill_creation_idempotent:
  assumes "snd k \<noteq> []" and "get_or_create_bill E actor k a s = (Inr (b, created), t)"
  shows "created = (find_bill k s = None) \<and>
    run_calls (map (get_or_create_bill E actor2 k) as) t =
      (replicate (length as) (Inr (b, False)), t)"
proof -
  have k: "has_reference k"
    using assms by (simp add: has_reference_def)
  have found: "find_bill k t = Some b"
    using bill_goc.goc_lookup [OF k assms(2)] by simp
  obtain rs u where u: "run_calls (map (get_or_create_bill E actor2 k) as) t = (rs, u)"
    by (meson surj_pair)
  from bill_goc.goc_retries [OF k found u] show ?thesis
    using u bill_goc.goc_created_iff [OF k assms(2)] by simp
qed

text \<open>The columns of an item that was accepted, and the sum a bill of such items has.\<close>

lemma item_rows_total:
  assumes "list_all2 (item_row tenant bid) is rows"
  shows "sum_list (map bi_line_total rows) =
      sum_list (map (\<lambda>i. to_hundredths (dec_mult (ni_quantity i) (ni_unit_amount i))) is) \<and>
    filter (\<lambda>r. bi_bill r = bid) rows = rows"
  using assms
  by (induction rule: list_all2_induct)
     (auto simp: item_row_def to_column_def Let_def split: if_splits)

text \<open>
  Also (\<open>get_or_create_bill\<close>, \<open>recalculate_total\<close>): a newly created bill is a draft of that tenant
  with nothing paid, and its total is the sum, over the items of the request, of quantity times
  unit amount rounded to hundredths.
\<close>

theorem new_bill_total:
  assumes "\<And>i. i \<in> set (bill_items s) \<Longrightarrow> uuid_no (bi_bill i) < draws s"
    and "\<And>p. p \<in> set (payment_allocations s) \<Longrightarrow> uuid_no (pa_bill p) < draws s"
    and "get_or_create_bill E actor k a s = (Inr (b, True), t)"
  shows "b_total_amount b = sum_list (map
       (\<lambda>i. to_hundredths (dec_mult (ni_quantity i) (ni_unit_amount i))) (ba_items a)) \<and>
    balance t b = b_total_amount b \<and> b_status b = DRAFT \<and> b_tenant b = fst k \<and>
    row_get b_id (b_id b) (bills t) = Some b"
proof -
  have cr: "created_as k a s b t"
    using wpx_result(1) [OF bill_goc_wpx assms(3)] by (simp split: option.splits)
  then obtain rows where rows: "bill_items t = rev rows @ bill_items s"
      "list_all2 (item_row (fst k) (b_id b)) (ba_items a) rows"
    by (auto simp: created_as_def)
  have "filter (\<lambda>i. bi_bill i = b_id b) (bill_items s) = []"
    using assms(1) cr by (force simp: created_as_def filter_empty_conv)
  with rows item_rows_total [OF rows(2)] have "items_total t (b_id b) = sum_list (map
       (\<lambda>i. to_hundredths (dec_mult (ni_quantity i) (ni_unit_amount i))) (ba_items a))"
    by (simp add: items_total_def rev_map [symmetric] flip: rev_filter)
  moreover have "filter (\<lambda>p. pa_bill p = b_id b) (payment_allocations t) = []"
    using assms(2) cr by (force simp: created_as_def filter_empty_conv)
  ultimately show ?thesis
    using cr by (auto simp: created_as_def balance_def amount_paid_def)
qed

primrec bill_moves ::
  "env \<Rightarrow> bill \<Rightarrow> bill_status list \<Rightarrow> ('z billing_st_scheme, bill) pm" where
  "bill_moves E b [] = ret b"
| "bill_moves E b (new # rest) = mbind (bill_transition_to E b new) (\<lambda>b'. bill_moves E b' rest)"

fun bill_path :: "bill_status \<Rightarrow> bill_status list \<Rightarrow> bool" where
  "bill_path a [] \<longleftrightarrow> True"
| "bill_path a (b # bs) \<longleftrightarrow> b \<in> set (BILL_TRANSITIONS a) \<and> bill_path b bs"

lemma bill_moves_eq: "bill_moves E b ns = bill_machine.moves E b ns"
  by (induction ns arbitrary: b) simp_all

lemma bill_path_eq: "bill_path a ns = bill_machine.path a ns"
  by (induction ns arbitrary: a) simp_all

text \<open>
  Also (\<open>Bill.transition_to\<close>): a sequence of status changes goes through exactly when it is a path
  of \<open>ALLOWED_TRANSITIONS\<close>, and then ends in its last status; in particular nothing leaves
  \<open>EXPIRED\<close> or \<open>CANCELLED\<close>, and a refused change leaves the whole state as it was.
\<close>

theorem bill_status_machine:
  "(\<exists>b' t. bill_moves E b ns s = (Inr b', t) \<and> b_status b' = last (b_status b # ns)) =
     bill_path (b_status b) ns \<and>
   (case bill_transition_to E b new s of
      (Inl e, t) \<Rightarrow> new \<notin> set (BILL_TRANSITIONS (b_status b)) \<and> t = s
    | (Inr q, t) \<Rightarrow> new \<in> set (BILL_TRANSITIONS (b_status b)) \<and> b_status q = new) \<and>
   bill_path EXPIRED (new # ns) = False \<and> bill_path CANCELLED (new # ns) = False"
proof (intro conjI)
  show "(\<exists>b' t. bill_moves E b ns s = (Inr b', t) \<and> b_status b' = last (b_status b # ns)) =
      bill_path (b_status b) ns"
    using bill_machine.moves_path [of E b ns s] bill_machine.moves_status [of E b ns s]
    unfolding bill_moves_eq bill_path_eq by auto
  show "case bill_transition_to E b new s of
      (Inl e, t) \<Rightarrow> new \<notin> set (BILL_TRANSITIONS (b_status b)) \<and> t = s
    | (Inr q, t) \<Rightarrow> new \<in> set (BILL_TRANSITIONS (b_status b)) \<and> b_status q = new"
    using bill_machine.move_refused [of new b E s] bill_machine.move_taken [of new b E s]
    by (cases "new \<in> set (BILL_TRANSITIONS (b_status b))") auto
qed simp_all

definition example_billing_st :: billing_st where
  "example_billing_st = \<lparr>clock_reads = 0, draws = 9, tx_broken = False, on_commit = [],
     broker = [], users = [], platform_memberships = [], tenants = [], tenant_memberships = [],
     audit_logs = [], mfa_devices = [], backup_codes = [], auth_cache = (\<lambda>_. None),
     webhook_endpoints = [], webhook_deliveries = [], http_posts = [],
     notification_templates = [], notifications = [], sent_mails = [],
     customers = [\<lparr>c_id = Uuid 1, c_tenant = Uuid 0, c_full_name = ''Asha'',
       c_full_name_lookup_hash = [], c_email = [], c_email_lookup_hash = [], c_phone_number = [],
       c_phone_number_lookup_hash = [], c_external_reference = [], c_metadata = JNull,
       c_is_active = True\<rparr>],
     customer_accounts = [\<lparr>ca_id = Uuid 2, ca_tenant = Uuid 0, ca_customer = Uuid 1,
       ca_revenue_source = None, ca_name = ''2026'', ca_external_reference = [],
       ca_metadata = JNull, ca_is_active = True\<rparr>],
     revenue_sources = [], bills = [], bill_items = [], payment_allocations = []\<rparr>"

definition example_bill_args :: bill_args where
  "example_bill_args = \<lparr>ba_customer_account = Uuid 2, ba_items =
     [\<lparr>ni_description = ''fee'', ni_quantity = Dec 3 0, ni_unit_amount = Dec 10050 (- 2)\<rparr>],
     ba_revenue_source = None, ba_due_date = None, ba_metadata = JObj []\<rparr>"

definition example_bill_run :: "(exn + bill \<times> bool) \<times> billing_st" where
  "example_bill_run =
     get_or_create_bill example_env None (Uuid 0, ''INV-1'') example_bill_args example_billing_st"

lemma example_bill_created:
  "succeeds (get_or_create_bill example_env None (Uuid 0, ''INV-1'') example_bill_args)
     (\<lambda>(b, c) t. c) example_billing_st"
  by (simp add: get_or_create_bill_def numeral_3_eq_3 create_bill_def create_bill_rows_def
      generate_bill_number_def insert_bill_def find_bill_def bill_number_taken_def recalculate_wpx
      to_column_def to_hundredths_def dec_mult_def items_total_def dispatch_bill_event_def
      notify_bill_created_def account_customer_def send_notification_def example_billing_st_def
      example_bill_args_def Let_def)

lemma example_bill_result:
  obtains b t where "get_or_create_bill example_env None (Uuid 0, ''INV-1'') example_bill_args
    example_billing_st = (Inr (b, True), t)" and "example_bill_run = (Inr (b, True), t)"
  using example_bill_created by (auto simp: succeeds_iff example_bill_run_def)

theorem bill_creation_idempotent_witness:
  "\<exists>b t. example_bill_run = (Inr (b, True), t) \<and>
     run_calls [get_or_create_bill example_env None (Uuid 0, ''INV-1'') example_bill_args] t =
       ([Inr (b, False)], t)"
proof -
  obtain b t where b: "get_or_create_bill example_env None (Uuid 0, ''INV-1'') example_bill_args
      example_billing_st = (Inr (b, True), t)" "example_bill_run = (Inr (b, True), t)"
    by (rule example_bill_result)
  from bill_creation_idempotent [OF _ b(1), of None "[example_bill_args]"] b(2) show ?thesis
    by (intro exI [of _ b] exI [of _ t]) simp
qed

theorem new_bill_total_witness:
  "\<exists>b t. example_bill_run = (Inr (b, True), t) \<and> b_total_amount b = 30150"
proof -
  obtain b t where b: "get_or_create_bill example_env None (Uuid 0, ''INV-1'') example_bill_args
      example_billing_st = (Inr (b, True), t)" "example_bill_run = (Inr (b, True), t)"
    by (rule example_bill_result)
  from new_bill_total [OF _ _ b(1)] b(2) show ?thesis
    by (auto simp: example_billing_st_def example_bill_args_def dec_mult_def to_hundredths_def)
qed

end
