(* ===== verification/Ledger.thy ===== *)
theory Ledger
  imports Billing
begin

text \<open>
  The financial ledger (\<open>apps/ledger/models.py\<close>, \<open>apps/ledger/services.py\<close>) and the platform's
  revenue events (\<open>apps/revenue/models.py\<close>, \<open>apps/revenue/services.py\<close>), with the rows of
  \<open>ControlNumber\<close>, \<open>Payment\<close> and the two statuses they carry, which the revenue service reads.
\<close>

subsection \<open>Ledger entries\<close>

datatype entry_type =
  BILL_AMOUNT | PAYMENT_RECEIVED | INSTITUTION_ENTITLEMENT | PLATFORM_CONTROL_NUMBER_FEE
| PLATFORM_PAYMENT_FEE | PROVIDER_FEE | REFUND | REVERSAL | SETTLEMENT | ADJUSTMENT

datatype ledger_account =
  CUSTOMER_ACCOUNT | INSTITUTION_ACCOUNT | PLATFORM_ACCOUNT | PROVIDER_ACCOUNT | SUSPENSE_ACCOUNT

record ledger_entry =
  le_id :: uuid
  le_tenant :: uuid
  le_entry_type :: entry_type
  le_account :: ledger_account
  le_amount :: money
  le_currency :: string
  le_reference :: string
  le_correlation_id :: string
  le_source :: "(model \<times> uuid) option"
  le_related_entry :: "uuid option"
  le_metadata :: json

record ledger_st = billing_st +
  ledger_entries :: "ledger_entry list"

definition ledger_save :: "bool \<Rightarrow> ledger_entry \<Rightarrow> ('z ledger_st_scheme, ledger_entry) pm" where
  "ledger_save adding e =
     (if \<not> adding
      then raise (LedgerEntryImmutableError ''Ledger entries cannot be modified after creation.'')
      else mseq (modify (\<lambda>s. s\<lparr>ledger_entries := e # ledger_entries s\<rparr>)) (ret e))"

definition ledger_delete :: "ledger_entry \<Rightarrow> ('z ledger_st_scheme, unit) pm" where
  "ledger_delete e = raise (LedgerEntryImmutableError
     ''Ledger entries cannot be deleted. Post a compensating entry instead.'')"

definition post_entry ::
  "env \<Rightarrow> uuid \<Rightarrow> entry_type \<Rightarrow> ledger_account \<Rightarrow> money \<Rightarrow> string \<Rightarrow> string \<Rightarrow>
   (model \<times> uuid) option \<Rightarrow> uuid option \<Rightarrow> json \<Rightarrow> ('z ledger_st_scheme, ledger_entry) pm" where
  "post_entry E tenant ty account amount currency reference source related metadata =
     mbind fresh_uuid (\<lambda>i. ledger_save True
       \<lparr>le_id = i, le_tenant = tenant, le_entry_type = ty, le_account = account,
        le_amount = amount, le_currency = currency, le_reference = reference,
        le_correlation_id = e_correlation_id E, le_source = source, le_related_entry = related,
        le_metadata = metadata\<rparr>)"

definition post_compensating_entry ::
  "env \<Rightarrow> ledger_entry \<Rightarrow> entry_type \<Rightarrow> money \<Rightarrow> json \<Rightarrow> ('z ledger_st_scheme, ledger_entry) pm" where
  "post_compensating_entry E original ty amount metadata =
     post_entry E (le_tenant original) ty (le_account original) amount (le_currency original)
       (le_reference original) (le_source original) (Some (le_id original)) metadata"

definition new_entry ::
  "env \<Rightarrow> uuid \<Rightarrow> entry_type \<Rightarrow> ledger_account \<Rightarrow> money \<Rightarrow> string \<Rightarrow> string \<Rightarrow>
   (model \<times> uuid) option \<Rightarrow> uuid option \<Rightarrow> json \<Rightarrow> nat \<Rightarrow> ledger_entry" where
  "new_entry E tenant ty account amount currency reference source related metadata n =
     \<lparr>le_id = Uuid n, le_tenant = tenant, le_entry_type = ty, le_account = account,
      le_amount = amount, le_currency = currency, le_reference = reference,
      le_correlation_id = e_correlation_id E, le_source = source, le_related_entry = related,
      le_metadata = metadata\<rparr>"

lemma new_entry_fields [simp]:
  "le_id (new_entry E t ty ac a c r src rel m n) = Uuid n"
  "le_tenant (new_entry E t ty ac a c r src rel m n) = t"
  "le_entry_type (new_entry E t ty ac a c r src rel m n) = ty"
  "le_account (new_entry E t ty ac a c r src rel m n) = ac"
  "le_amount (new_entry E t ty ac a c r src rel m n) = a"
  "le_currency (new_entry E t ty ac a c r src rel m n) = c"
  "le_reference (new_entry E t ty ac a c r src rel m n) = r"
  "le_source (new_entry E t ty ac a c r src rel m n) = src"
  "le_related_entry (new_entry E t ty ac a c r src rel m n) = rel"
  "le_metadata (new_entry E t ty ac a c r src rel m n) = m"
  by (simp_all add: new_entry_def)

definition posted :: "ledger_entry \<Rightarrow> 'z ledger_st_scheme \<Rightarrow> 'z ledger_st_scheme" where
  "posted e s = s\<lparr>draws := Suc (draws s), ledger_entries := e # ledger_entries s\<rparr>"

lemma wpx_post_entry [simp, wp_rules]:
  "wpx (post_entry E tenant ty account amount currency reference source related metadata) Q X s =
     (let e = new_entry E tenant ty account amount currency reference source related metadata (draws s)
      in Q e (posted e s))"
  by (simp add: post_entry_def ledger_save_def new_entry_def posted_def Let_def)

lemma posted_simps [simp]:
  "clock_reads (posted e s) = clock_reads s"
  "draws (posted e s) = Suc (draws s)"
  "tx_broken (posted e s) = tx_broken s"
  "on_commit (posted e s) = on_commit s"
  "broker (posted e s) = broker s"
  "users (posted e s) = users s"
  "tenants (posted e s) = tenants s"
  "tenant_memberships (posted e s) = tenant_memberships s"
  "platform_memberships (posted e s) = platform_memberships s"
  "audit_logs (posted e s) = audit_logs s"
  "webhook_endpoints (posted e s) = webhook_endpoints s"
  "webhook_deliveries (posted e s) = webhook_deliveries s"
  "http_posts (posted e s) = http_posts s"
  "notification_templates (posted e s) = notification_templates s"
  "notifications (posted e s) = notifications s"
  "sent_mails (posted e s) = sent_mails s"
  "customers (posted e s) = customers s"
  "customer_accounts (posted e s) = customer_accounts s"
  "revenue_sources (posted e s) = revenue_sources s"
  "bills (posted e s) = bills s"
  "bill_items (posted e s) = bill_items s"
  "payment_allocations (posted e s) = payment_allocations s"
  "ledger_entries (posted e s) = e # ledger_entries s"
  "ledger_st.more (posted e s) = ledger_st.more s"
  by (simp_all add: posted_def)

interpretation ledger_immutable: immutable_log ledger_entries ledger_save ledger_delete
  by unfold_locales
     (auto simp: ledger_save_def ledger_delete_def raise_def mseq_def mbind_def modify_def ret_def)

subsection \<open>The rows that revenue events are about\<close>

datatype control_number_scope = ONE_TIME | PERSISTENT

datatype control_number_status = CnActive | CnExpired | CnCancelled

record control_number =
  cn_id :: uuid
  cn_tenant :: uuid
  cn_value :: string
  cn_scope :: control_number_scope
  cn_status :: control_number_status
  cn_bill :: "uuid option"
  cn_customer_account :: "uuid option"
  cn_expires_at :: "time option"
  cn_cancelled_at :: "time option"
  cn_created_by :: "uuid option"

datatype payment_status =
  INITIATED | PENDING | SUCCESSFUL | FAILED | UNKNOWN | PExpired | REVERSED | REFUNDED

fun payment_status_value :: "payment_status \<Rightarrow> string" where
  "payment_status_value INITIATED = ''initiated''"
| "payment_status_value PENDING = ''pending''"
| "payment_status_value SUCCESSFUL = ''successful''"
| "payment_status_value FAILED = ''failed''"
| "payment_status_value UNKNOWN = ''unknown''"
| "payment_status_value PExpired = ''expired''"
| "payment_status_value REVERSED = ''reversed''"
| "payment_status_value REFUNDED = ''refunded''"

record payment =
  p_id :: uuid
  p_tenant :: uuid
  p_control_number :: uuid
  p_provider :: uuid
  p_channel :: "uuid option"
  p_status :: payment_status
  p_amount :: money
  p_currency :: string
  p_payer_reference :: string
  p_payer_reference_lookup_hash :: string
  p_merchant_reference :: string
  p_provider_reference :: string
  p_idempotency_key :: string
  p_initiated_at :: time
  p_completed_at :: "time option"
  p_failure_reason :: string
  p_raw_provider_response :: json
  p_metadata :: json
  p_settlement_batch :: "uuid option"

subsection \<open>Revenue events\<close>

datatype revenue_event_type =
  RE_CONTROL_NUMBER_CREATED | RE_CONTROL_NUMBER_REUSED | RE_PAYMENT_SUCCESSFUL
| RE_PAYMENT_FAILED | RE_PAYMENT_DUPLICATE | RE_PAYMENT_REVERSED | RE_PAYMENT_REFUNDED

fun revenue_event_value :: "revenue_event_type \<Rightarrow> string" where
  "revenue_event_value RE_CONTROL_NUMBER_CREATED = ''control_number_created''"
| "revenue_event_value RE_CONTROL_NUMBER_REUSED = ''control_number_reused''"
| "revenue_event_value RE_PAYMENT_SUCCESSFUL = ''payment_successful''"
| "revenue_event_value RE_PAYMENT_FAILED = ''payment_failed''"
| "revenue_event_value RE_PAYMENT_DUPLICATE = ''payment_duplicate''"
| "revenue_event_value RE_PAYMENT_REVERSED = ''payment_reversed''"
| "revenue_event_value RE_PAYMENT_REFUNDED = ''payment_refunded''"

record revenue_event =
  re_id :: uuid
  re_tenant :: uuid
  re_event_type :: revenue_event_type
  re_amount :: money
  re_currency :: string
  re_source :: "model \<times> uuid"
  re_ledger_entry :: "uuid option"
  re_correlation_id :: string
  re_metadata :: json

record revenue_st = ledger_st +
  revenue_events :: "revenue_event list"

definition revenue_save :: "bool \<Rightarrow> revenue_event \<Rightarrow> ('z revenue_st_scheme, revenue_event) pm" where
  "revenue_save adding e =
     (if \<not> adding
      then raise (RevenueEventImmutableError ''Revenue events cannot be modified after creation.'')
      else mseq (modify (\<lambda>s. s\<lparr>revenue_events := e # revenue_events s\<rparr>)) (ret e))"

definition revenue_delete :: "revenue_event \<Rightarrow> ('z revenue_st_scheme, unit) pm" where
  "revenue_delete e = raise (RevenueEventImmutableError ''Revenue events cannot be deleted.'')"

definition CONTROL_NUMBER_CREATION_FEE :: money where
  "CONTROL_NUMBER_CREATION_FEE = 5000"

definition PAYMENT_SUCCESS_FEE :: money where
  "PAYMENT_SUCCESS_FEE = 5000"

definition record_event ::
  "env \<Rightarrow> uuid \<Rightarrow> revenue_event_type \<Rightarrow> money \<Rightarrow> string \<Rightarrow> model \<times> uuid \<Rightarrow> uuid option \<Rightarrow> json \<Rightarrow>
   ('z revenue_st_scheme, revenue_event) pm" where
  "record_event E tenant ty amount currency source entry metadata =
     mbind fresh_uuid (\<lambda>i. revenue_save True
       \<lparr>re_id = i, re_tenant = tenant, re_event_type = ty, re_amount = amount,
        re_currency = currency, re_source = source, re_ledger_entry = entry,
        re_correlation_id = e_correlation_id E, re_metadata = metadata\<rparr>)"

definition the_tenant :: "uuid \<Rightarrow> ('z identity_st_scheme, tenant) pm" where
  "the_tenant tid = require (DoesNotExist ''Tenant'') (\<lambda>s. row_get t_id tid (tenants s))"

definition record_control_number_created ::
  "env \<Rightarrow> control_number \<Rightarrow> ('z revenue_st_scheme, revenue_event) pm" where
  "record_control_number_created E cn =
     mbind (the_tenant (cn_tenant cn)) (\<lambda>t.
     mbind (post_entry E (cn_tenant cn) PLATFORM_CONTROL_NUMBER_FEE PLATFORM_ACCOUNT
              CONTROL_NUMBER_CREATION_FEE (t_default_currency t) (cn_value cn)
              (Some (MControlNumber, cn_id cn)) None (JObj [])) (\<lambda>e.
     record_event E (cn_tenant cn) RE_CONTROL_NUMBER_CREATED CONTROL_NUMBER_CREATION_FEE
       (t_default_currency t) (MControlNumber, cn_id cn) (Some (le_id e)) (JObj [])))"

definition record_control_number_reused ::
  "env \<Rightarrow> control_number \<Rightarrow> ('z revenue_st_scheme, revenue_event) pm" where
  "record_control_number_reused E cn =
     mbind (the_tenant (cn_tenant cn)) (\<lambda>t.
     record_event E (cn_tenant cn) RE_CONTROL_NUMBER_REUSED 0 (t_default_currency t)
       (MControlNumber, cn_id cn) None (JObj []))"

definition record_payment_successful ::
  "env \<Rightarrow> payment \<Rightarrow> ('z revenue_st_scheme, revenue_event) pm" where
  "record_payment_successful E p =
     mbind (post_entry E (p_tenant p) PLATFORM_PAYMENT_FEE PLATFORM_ACCOUNT PAYMENT_SUCCESS_FEE
              (p_currency p) (p_merchant_reference p) (Some (MPayment, p_id p)) None (JObj [])) (\<lambda>e.
     record_event E (p_tenant p) RE_PAYMENT_SUCCESSFUL PAYMENT_SUCCESS_FEE (p_currency p)
       (MPayment, p_id p) (Some (le_id e)) (JObj []))"

definition record_payment_failed ::
  "env \<Rightarrow> payment \<Rightarrow> ('z revenue_st_scheme, revenue_event) pm" where
  "record_payment_failed E p =
     record_event E (p_tenant p) RE_PAYMENT_FAILED 0 (p_currency p) (MPayment, p_id p) None (JObj [])"

definition record_payment_duplicate ::
  "env \<Rightarrow> payment \<Rightarrow> ('z revenue_st_scheme, revenue_event) pm" where
  "record_payment_duplicate E p =
     record_event E (p_tenant p) RE_PAYMENT_DUPLICATE 0 (p_currency p) (MPayment, p_id p) None
       (JObj [])"

text \<open>\<open>RevenueEvent.objects.filter(...).first()\<close>: the newest success event of the payment.\<close>

definition original_event :: "payment \<Rightarrow> 'z revenue_st_scheme \<Rightarrow> revenue_event option" where
  "original_event p s = List.find (\<lambda>e. re_tenant e = p_tenant p \<and>
     re_event_type e = RE_PAYMENT_SUCCESSFUL \<and> re_source e = (MPayment, p_id p)) (revenue_events s)"

text \<open>\<open>_compensate\<close>.\<close>

definition compensate ::
  "env \<Rightarrow> payment \<Rightarrow> revenue_event_type \<Rightarrow> entry_type \<Rightarrow> ('z revenue_st_scheme, revenue_event) pm" where
  "compensate E p ty entry_ty =
     mbind (gets (original_event p)) (\<lambda>original.
     mbind (the_tenant (p_tenant p)) (\<lambda>t.
       let clawback = (t_fee_refund_policy t = CLAWBACK \<and>
             (case original of None \<Rightarrow> False | Some o1 \<Rightarrow> re_amount o1 > 0));
           amount = (case original of
             Some o1 \<Rightarrow> if clawback then - re_amount o1 else 0 | None \<Rightarrow> 0)
       in mbind
           (case original of
              None \<Rightarrow> ret None
            | Some o1 \<Rightarrow>
                if \<not> clawback then ret None
                else (case re_ledger_entry o1 of
                        None \<Rightarrow> ret None
                      | Some le \<Rightarrow>
                          mbind (require (DoesNotExist ''LedgerEntry'')
                                   (\<lambda>s. row_get le_id le (ledger_entries s))) (\<lambda>e.
                          mbind (post_compensating_entry E e entry_ty amount
                                   (JObj [(''reason'', JStr (revenue_event_value ty))])) (\<lambda>ce.
                          ret (Some (le_id ce)))))) (\<lambda>entry.
         record_event E (p_tenant p) ty amount (p_currency p) (MPayment, p_id p) entry
           (JObj [(''policy'', JStr (fee_refund_policy_value (t_fee_refund_policy t))),
                  (''original_fee'', JStr (case original of
                     Some o1 \<Rightarrow> e_str_dec E (re_amount o1) | None \<Rightarrow> ''0''))]))))"

definition record_payment_reversed ::
  "env \<Rightarrow> payment \<Rightarrow> ('z revenue_st_scheme, revenue_event) pm" where
  "record_payment_reversed E p = compensate E p RE_PAYMENT_REVERSED REVERSAL"

definition record_payment_refunded ::
  "env \<Rightarrow> payment \<Rightarrow> ('z revenue_st_scheme, revenue_event) pm" where
  "record_payment_refunded E p = compensate E p RE_PAYMENT_REFUNDED REFUND"

definition new_event ::
  "env \<Rightarrow> uuid \<Rightarrow> revenue_event_type \<Rightarrow> money \<Rightarrow> string \<Rightarrow> model \<times> uuid \<Rightarrow> uuid option \<Rightarrow> json \<Rightarrow>
   nat \<Rightarrow> revenue_event" where
  "new_event E tenant ty amount currency source entry metadata n =
     \<lparr>re_id = Uuid n, re_tenant = tenant, re_event_type = ty, re_amount = amount,
      re_currency = currency, re_source = source, re_ledger_entry = entry,
      re_correlation_id = e_correlation_id E, re_metadata = metadata\<rparr>"

lemma new_event_fields [simp]:
  "re_id (new_event E t ty a c src le m n) = Uuid n"
  "re_tenant (new_event E t ty a c src le m n) = t"
  "re_event_type (new_event E t ty a c src le m n) = ty"
  "re_amount (new_event E t ty a c src le m n) = a"
  "re_currency (new_event E t ty a c src le m n) = c"
  "re_source (new_event E t ty a c src le m n) = src"
  "re_ledger_entry (new_event E t ty a c src le m n) = le"
  "re_metadata (new_event E t ty a c src le m n) = m"
  by (simp_all add: new_event_def)

definition earned :: "revenue_event \<Rightarrow> 'z revenue_st_scheme \<Rightarrow> 'z revenue_st_scheme" where
  "earned e s = s\<lparr>draws := Suc (draws s), revenue_events := e # revenue_events s\<rparr>"

lemma wpx_record_event [simp, wp_rules]:
  "wpx (record_event E tenant ty amount currency source entry metadata) Q X s =
     (let e = new_event E tenant ty amount currency source entry metadata (draws s)
      in Q e (earned e s))"
  by (simp add: record_event_def revenue_save_def new_event_def earned_def Let_def)

lemma wpx_the_tenant [simp, wp_rules]:
  "wpx (the_tenant tid) Q X s =
     (case row_get t_id tid (tenants s) of None \<Rightarrow> X (DoesNotExist ''Tenant'') s | Some t \<Rightarrow> Q t s)"
  by (simp add: the_tenant_def)

lemma earned_simps [simp]:
  "clock_reads (earned e s) = clock_reads s"
  "draws (earned e s) = Suc (draws s)"
  "tx_broken (earned e s) = tx_broken s"
  "on_commit (earned e s) = on_commit s"
  "broker (earned e s) = broker s"
  "users (earned e s) = users s"
  "tenants (earned e s) = tenants s"
  "tenant_memberships (earned e s) = tenant_memberships s"
  "platform_memberships (earned e s) = platform_memberships s"
  "audit_logs (earned e s) = audit_logs s"
  "webhook_endpoints (earned e s) = webhook_endpoints s"
  "webhook_deliveries (earned e s) = webhook_deliveries s"
  "http_posts (earned e s) = http_posts s"
  "notification_templates (earned e s) = notification_templates s"
  "notifications (earned e s) = notifications s"
  "sent_mails (earned e s) = sent_mails s"
  "customers (earned e s) = customers s"
  "customer_accounts (earned e s) = customer_accounts s"
  "revenue_sources (earned e s) = revenue_sources s"
  "bills (earned e s) = bills s"
  "bill_items (earned e s) = bill_items s"
  "payment_allocations (earned e s) = payment_allocations s"
  "ledger_entries (earned e s) = ledger_entries s"
  "revenue_events (earned e s) = e # revenue_events s"
  "revenue_st.more (earned e s) = revenue_st.more s"
  by (simp_all add: earned_def)

lemma ledger_projections [simp]:
  "ledger_entries (audited r s) = ledger_entries s"
  "ledger_entries (dispatched ds s) = ledger_entries s"
  "ledger_entries (notified ns s) = ledger_entries s"
  "ledger_st.more (audited r s) = ledger_st.more s"
  "ledger_st.more (dispatched ds s) = ledger_st.more s"
  "ledger_st.more (notified ns s) = ledger_st.more s"
  by (simp_all add: audited_def dispatched_def notified_def)

lemma revenue_projections [simp]:
  "revenue_events (audited r s) = revenue_events s"
  "revenue_events (dispatched ds s) = revenue_events s"
  "revenue_events (notified ns s) = revenue_events s"
  "revenue_events (posted e s) = revenue_events s"
  "revenue_st.more (audited r s) = revenue_st.more s"
  "revenue_st.more (dispatched ds s) = revenue_st.more s"
  "revenue_st.more (notified ns s) = revenue_st.more s"
  "revenue_st.more (posted e s) = revenue_st.more s"
  by (simp_all add: audited_def dispatched_def notified_def posted_def)

interpretation revenue_immutable: immutable_log revenue_events revenue_save revenue_delete
  by unfold_locales
     (auto simp: revenue_save_def revenue_delete_def raise_def mseq_def mbind_def modify_def ret_def)

subsection \<open>Frames\<close>

text \<open>Both tables may only grow at the front.\<close>

locale revenue_frame = event_frame R
  for R :: "'z revenue_st_scheme \<Rightarrow> 'z revenue_st_scheme \<Rightarrow> bool" +
  assumes frame_ledger: "R s (s\<lparr>ledger_entries := le # ledger_entries s\<rparr>)"
    and frame_revenue: "R s (s\<lparr>revenue_events := re # revenue_events s\<rparr>)"
begin

lemma upholds_post_entry:
  "upholds R (post_entry E tenant ty account amount currency reference source related metadata)"
  unfolding post_entry_def ledger_save_def
  by (intro combinator_rules upholds_if upholds_modify frame_ledger)

lemma upholds_record_event:
  "upholds R (record_event E tenant ty amount currency source entry metadata)"
  unfolding record_event_def revenue_save_def
  by (intro combinator_rules upholds_if upholds_modify frame_revenue)

lemma upholds_the_tenant: "upholds R (the_tenant tid)"
  unfolding the_tenant_def by (rule upholds_require)

lemma upholds_compensate: "upholds R (compensate E p ty entry_ty)"
  unfolding compensate_def post_compensating_entry_def Let_def
  by (intro combinator_rules upholds_case_option upholds_if upholds_post_entry
      upholds_record_event upholds_the_tenant)

lemma upholds_revenue:
  "upholds R (record_control_number_created E cn)"
  "upholds R (record_control_number_reused E cn)"
  "upholds R (record_payment_successful E p)"
  "upholds R (record_payment_failed E p)"
  "upholds R (record_payment_duplicate E p)"
  "upholds R (record_payment_reversed E p)"
  "upholds R (record_payment_refunded E p)"
  unfolding record_control_number_created_def record_control_number_reused_def
    record_payment_successful_def record_payment_failed_def record_payment_duplicate_def
    record_payment_reversed_def record_payment_refunded_def
  by (intro combinator_rules upholds_post_entry upholds_record_event upholds_the_tenant
      upholds_compensate)+

end

text \<open>No row of the three financial logs is ever altered or removed.\<close>

definition logs_grow :: "'z revenue_st_scheme \<Rightarrow> 'z revenue_st_scheme \<Rightarrow> bool" where
  "logs_grow s t \<longleftrightarrow> later s t \<and> suffix (ledger_entries s) (ledger_entries t) \<and>
     suffix (revenue_events s) (revenue_events t) \<and> suffix (audit_logs s) (audit_logs t)"

interpretation revenue_logs: revenue_frame logs_grow
  by unfold_locales
     (auto simp: logs_grow_def later_def intro: suffix_ConsI suffix_order.order_trans)

subsection \<open>Compensation\<close>

text \<open>
  C23 (\<open>_compensate\<close>, \<open>record_payment_reversed\<close>, \<open>record_payment_refunded\<close>): when the payment
  earned its fee, a reversal or refund under the \<open>CLAWBACK\<close> policy posts one new ledger entry,
  the negated fee on the account, in the currency and under the reference of the original entry
  and linked to it, and one event for the same amount; under \<open>RETAIN\<close> it posts no entry and
  records an event of amount zero. The earlier rows stay as they are.
\<close>

theorem compensation_follows_policy:
  assumes "original_event p s = Some orig" and "0 < re_amount orig"
    and "re_ledger_entry orig = Some le" and "row_get le_id le (ledger_entries s) = Some entry"
    and "row_get t_id (p_tenant p) (tenants s) = Some t"
    and "(ty, lty) \<in> {(RE_PAYMENT_REVERSED, REVERSAL), (RE_PAYMENT_REFUNDED, REFUND)}"
    and "f = (if ty = RE_PAYMENT_REVERSED then record_payment_reversed E p else record_payment_refunded E p)"
  shows "succeeds f (\<lambda>ev u. revenue_events u = ev # revenue_events s \<and>
      re_event_type ev = ty \<and> re_source ev = (MPayment, p_id p) \<and>
      (case t_fee_refund_policy t of
         CLAWBACK \<Rightarrow> \<exists>e. ledger_entries u = e # ledger_entries s \<and>
           le_amount e = - re_amount orig \<and> le_entry_type e = lty \<and>
           le_account e = le_account entry \<and> le_currency e = le_currency entry \<and>
           le_reference e = le_reference entry \<and> le_tenant e = le_tenant entry \<and>
           le_related_entry e = Some le \<and> re_amount ev = - re_amount orig \<and>
           re_ledger_entry ev = Some (le_id e)
       | RETAIN \<Rightarrow> ledger_entries u = ledger_entries s \<and> re_amount ev = 0 \<and>
           re_ledger_entry ev = None)) s"
proof -
  have "le_id entry = le"
    using row_get_SomeD [OF assms(4)] by simp
  with assms show ?thesis
    by (cases "t_fee_refund_policy t")
       (auto simp: record_payment_reversed_def record_payment_refunded_def compensate_def Let_def
         post_compensating_entry_def)
qed

definition example_tenant :: tenant where
  "example_tenant = \<lparr>t_id = Uuid 0, t_name = ''ABC'', t_slug = ''abc'', t_sector = EDUCATION,
     t_status = TenantActive, t_contact_email = [], t_contact_email_lookup_hash = [],
     t_contact_phone = [], t_default_currency = ''TZS'', t_fee_refund_policy = CLAWBACK,
     t_metadata = JNull, t_approved_at = None, t_approved_by = None\<rparr>"

definition example_payment :: payment where
  "example_payment = \<lparr>p_id = Uuid 5, p_tenant = Uuid 0, p_control_number = Uuid 4,
     p_provider = Uuid 6, p_channel = None, p_status = SUCCESSFUL, p_amount = 30000,
     p_currency = ''TZS'', p_payer_reference = [], p_payer_reference_lookup_hash = [],
     p_merchant_reference = ''PAY-1'', p_provider_reference = ''X'', p_idempotency_key = [],
     p_initiated_at = 0, p_completed_at = None, p_failure_reason = [],
     p_raw_provider_response = JNull, p_metadata = JNull, p_settlement_batch = None\<rparr>"

definition example_revenue_st :: revenue_st where
  "example_revenue_st = ledger_st.extend
     (billing_st.extend (example_billing_st\<lparr>tenants := [example_tenant]\<rparr>)
       (ledger_st.fields
          [new_entry example_env (Uuid 0) PLATFORM_PAYMENT_FEE PLATFORM_ACCOUNT 5000
             ''TZS'' ''PAY-1'' (Some (MPayment, Uuid 5)) None JNull 7]))
     (revenue_st.fields
        [new_event example_env (Uuid 0) RE_PAYMENT_SUCCESSFUL 5000 ''TZS''
           (MPayment, Uuid 5) (Some (Uuid 7)) JNull 8])"

lemma example_revenue_simps:
  "ledger_entries example_revenue_st =
     [new_entry example_env (Uuid 0) PLATFORM_PAYMENT_FEE PLATFORM_ACCOUNT 5000
        ''TZS'' ''PAY-1'' (Some (MPayment, Uuid 5)) None JNull 7]"
  "revenue_events example_revenue_st =
     [new_event example_env (Uuid 0) RE_PAYMENT_SUCCESSFUL 5000 ''TZS''
        (MPayment, Uuid 5) (Some (Uuid 7)) JNull 8]"
  "tenants example_revenue_st = [example_tenant]"
  by (simp_all add: example_revenue_st_def example_billing_st_def billing_st.defs ledger_st.defs
      revenue_st.defs)

theorem compensation_follows_policy_witness:
  "succeeds (record_payment_refunded example_env example_payment)
     (\<lambda>ev u. re_amount ev = - 5000) example_revenue_st"
proof -
  have st: "original_event example_payment example_revenue_st =
      Some (new_event example_env (Uuid 0) RE_PAYMENT_SUCCESSFUL 5000 ''TZS'' (MPayment, Uuid 5)
        (Some (Uuid 7)) JNull 8)"
    by (simp add: original_event_def example_revenue_simps example_payment_def)
  show ?thesis
    by (rule wpx_mono [OF compensation_follows_policy [OF st, where lty = REFUND and
          ty = RE_PAYMENT_REFUNDED and t = example_tenant and le = "Uuid 7"]])
       (auto simp: example_revenue_simps example_payment_def example_tenant_def)
qed

end
