(* ===== verification/ControlNumbers.thy ===== *)
theory ControlNumbers
  imports Ledger
begin

text \<open>
  The control-number engine: \<open>apps/control_numbers/models.py\<close> (the row is in \<open>Ledger\<close>, the
  constraints are in \<open>insert_control_number\<close>), \<open>services.py\<close> and the list view, and the two
  billing views that issue control numbers. \<open>random.randint\<close> is the parameter \<open>e_randint\<close>,
  reduced to its documented range.
\<close>

record control_number_st = revenue_st +
  control_numbers :: "control_number list"

subsection \<open>Generation and the constraints of the table\<close>

definition digit :: "nat \<Rightarrow> char" where
  "digit n = char_of (48 + n mod 10)"

text \<open>\<open>f"{n:06d}"\<close> of a number below a million.\<close>

definition pad6 :: "nat \<Rightarrow> string" where
  "pad6 n = [digit (n div 100000), digit (n div 10000), digit (n div 1000), digit (n div 100),
     digit (n div 10), digit n]"

definition generate_value :: "env \<Rightarrow> ('z control_number_st_scheme, string) pm" where
  "generate_value E =
     mbind (now E) (\<lambda>t. mbind draw (\<lambda>k.
       ret (e_yymmdd E t @ pad6 (e_randint E k mod 1000000))))"

text \<open>
  The \<open>INSERT\<close>: \<open>value\<close> is unique, a bill has at most one control number, an account at most one
  active one, and exactly one owner is set.
\<close>

definition control_number_clash :: "control_number \<Rightarrow> 'z control_number_st_scheme \<Rightarrow> bool" where
  "control_number_clash cn s \<longleftrightarrow>
     list_ex (\<lambda>c. cn_value c = cn_value cn \<or>
        (cn_bill cn \<noteq> None \<and> cn_bill c = cn_bill cn) \<or>
        (cn_customer_account cn \<noteq> None \<and> cn_customer_account c = cn_customer_account cn \<and>
         cn_status c = CnActive \<and> cn_status cn = CnActive)) (control_numbers s) \<or>
     (cn_bill cn = None) = (cn_customer_account cn = None)"

definition insert_control_number ::
  "control_number \<Rightarrow> ('z control_number_st_scheme, control_number) pm" where
  "insert_control_number cn =
     mbind (gets (control_number_clash cn)) (\<lambda>clash.
       if clash then integrity_error ''constraint of ControlNumber''
       else mseq (modify (\<lambda>s. s\<lparr>control_numbers := cn # control_numbers s\<rparr>)) (ret cn))"

subsection \<open>Notification\<close>

definition notify_control_number_generated ::
  "env \<Rightarrow> control_number \<Rightarrow> ('z control_number_st_scheme, unit) pm" where
  "notify_control_number_generated E cn =
     mbind (case cn_bill cn of
              Some bid \<Rightarrow> mbind (require (DoesNotExist ''Bill'') (\<lambda>s. row_get b_id bid (bills s)))
                (\<lambda>b. ret (b_customer_account b, b_bill_number b))
            | None \<Rightarrow> mbind (require (DoesNotExist ''CustomerAccount'') (\<lambda>s. cn_customer_account cn))
                (\<lambda>a. ret (a, []))) (\<lambda>(aid, bill_number).
     mbind (require (DoesNotExist ''Customer'') (account_customer aid)) (\<lambda>(a, c).
     mbind (the_tenant (cn_tenant cn)) (\<lambda>t.
     mseq (send_notification E (cn_tenant cn) CONTROL_NUMBER_GENERATED
        [(''institution_name'', t_name t), (''customer_name'', c_full_name c),
         (''bill_number'', bill_number), (''control_number'', cn_value cn)]
        (c_email c) (c_phone_number c))
       (ret ()))))"

subsection \<open>The services\<close>

text \<open>
  Whom a control number belongs to. \<open>get_or_create_for_bill\<close> and \<open>get_or_create_for_account\<close> are
  the same code up to the owner, the scope and the query for an existing one, which for an
  account looks at active control numbers only.
\<close>

datatype owner = OwnerBill uuid | OwnerAccount uuid

definition find_control_number :: "owner \<Rightarrow> 'z control_number_st_scheme \<Rightarrow> control_number option" where
  "find_control_number ow s =
     (case ow of
        OwnerBill b \<Rightarrow> List.find (\<lambda>c. cn_bill c = Some b) (control_numbers s)
      | OwnerAccount a \<Rightarrow> List.find (\<lambda>c. cn_customer_account c = Some a \<and> cn_status c = CnActive)
                            (control_numbers s))"

definition create_control_number ::
  "env \<Rightarrow> user option \<Rightarrow> uuid \<Rightarrow> owner \<Rightarrow> time option \<Rightarrow>
   ('z control_number_st_scheme, control_number) pm" where
  "create_control_number E actor tenant ow expires =
     mbind (generate_value E) (\<lambda>v.
     mbind fresh_uuid (\<lambda>i.
     mbind (insert_control_number
       \<lparr>cn_id = i, cn_tenant = tenant, cn_value = v,
        cn_scope = (case ow of OwnerBill _ \<Rightarrow> ONE_TIME | OwnerAccount _ \<Rightarrow> PERSISTENT),
        cn_status = CnActive,
        cn_bill = (case ow of OwnerBill b \<Rightarrow> Some b | OwnerAccount _ \<Rightarrow> None),
        cn_customer_account = (case ow of OwnerBill _ \<Rightarrow> None | OwnerAccount a \<Rightarrow> Some a),
        cn_expires_at = expires, cn_cancelled_at = None,
        cn_created_by = map_option u_id actor\<rparr>) (\<lambda>cn.
     mseq (audit_event E ''control_number.created'' actor (Some tenant)
             (Some (MControlNumber, cn_id cn)))
     (mseq (record_control_number_created E cn)
     (mseq (notify_control_number_generated E cn)
       (ret cn))))))"

fun control_number_attempts ::
  "env \<Rightarrow> user option \<Rightarrow> uuid \<Rightarrow> owner \<Rightarrow> time option \<Rightarrow> nat \<Rightarrow>
   ('z control_number_st_scheme, control_number \<times> bool) pm" where
  "control_number_attempts E actor tenant ow expires 0 =
     raise (IntegrityError ''Could not generate a unique control number after several attempts.'')"
| "control_number_attempts E actor tenant ow expires (Suc n) =
     catch (mbind (atomic (create_control_number E actor tenant ow expires)) (\<lambda>cn. ret (cn, True)))
       (\<lambda>e. if is_integrity_error e
            then mbind (gets (find_control_number ow)) (\<lambda>existing.
              case existing of
                Some cn \<Rightarrow> ret (cn, False)
              | None \<Rightarrow> control_number_attempts E actor tenant ow expires n)
            else raise e)"

definition MAX_GENERATION_ATTEMPTS :: nat where
  "MAX_GENERATION_ATTEMPTS = 5"

definition get_or_create_control_number ::
  "env \<Rightarrow> user option \<Rightarrow> uuid \<times> owner \<Rightarrow> time option \<Rightarrow>
   ('z control_number_st_scheme, control_number \<times> bool) pm" where
  "get_or_create_control_number E actor k expires =
     mbind (gets (find_control_number (snd k))) (\<lambda>existing.
       case existing of
         Some cn \<Rightarrow>
           mseq (audit_event E ''control_number.reused'' actor (Some (fst k))
                   (Some (MControlNumber, cn_id cn)))
             (mseq (record_control_number_reused E cn) (ret (cn, False)))
       | None \<Rightarrow>
           control_number_attempts E actor (fst k) (snd k) expires MAX_GENERATION_ATTEMPTS)"

definition get_or_create_for_bill ::
  "env \<Rightarrow> user option \<Rightarrow> uuid \<Rightarrow> uuid \<Rightarrow> time option \<Rightarrow>
   ('z control_number_st_scheme, control_number \<times> bool) pm" where
  "get_or_create_for_bill E actor tenant bill expires =
     get_or_create_control_number E actor (tenant, OwnerBill bill) expires"

definition get_or_create_for_account ::
  "env \<Rightarrow> user option \<Rightarrow> uuid \<Rightarrow> uuid \<Rightarrow> time option \<Rightarrow>
   ('z control_number_st_scheme, control_number \<times> bool) pm" where
  "get_or_create_for_account E actor tenant account expires =
     get_or_create_control_number E actor (tenant, OwnerAccount account) expires"

definition cancel_control_number ::
  "env \<Rightarrow> user option \<Rightarrow> control_number \<Rightarrow> ('z control_number_st_scheme, control_number) pm" where
  "cancel_control_number E actor cn =
     mbind (now E) (\<lambda>t.
       let cn1 = cn\<lparr>cn_status := CnCancelled, cn_cancelled_at := Some t\<rparr>
       in mseq (modify (\<lambda>s. s\<lparr>control_numbers := row_update cn_id (cn_id cn)
                 (\<lambda>c. c\<lparr>cn_status := CnCancelled, cn_cancelled_at := Some t\<rparr>) (control_numbers s)\<rparr>))
            (mseq (audit_event E ''control_number.cancelled'' actor (Some (cn_tenant cn))
                     (Some (MControlNumber, cn_id cn)))
               (ret cn1)))"

definition overdue :: "uuid option \<Rightarrow> time \<Rightarrow> control_number \<Rightarrow> bool" where
  "overdue tenant t c \<longleftrightarrow> cn_status c = CnActive \<and>
     (case cn_expires_at c of None \<Rightarrow> False | Some x \<Rightarrow> x < t) \<and>
     (case tenant of None \<Rightarrow> True | Some tid \<Rightarrow> cn_tenant c = tid)"

definition expire_overdue :: "env \<Rightarrow> uuid option \<Rightarrow> ('z control_number_st_scheme, nat) pm" where
  "expire_overdue E tenant =
     mbind (now E) (\<lambda>t. mbind (now E) (\<lambda>t_updated.
     mbind (gets (\<lambda>s. length (filter (overdue tenant t) (control_numbers s)))) (\<lambda>n.
     mseq (modify (\<lambda>s. s\<lparr>control_numbers := map (\<lambda>c. if overdue tenant t c
             then c\<lparr>cn_status := CnExpired\<rparr> else c) (control_numbers s)\<rparr>))
       (ret n))))"

subsection \<open>Views\<close>

definition control_number_list ::
  "uuid option \<Rightarrow> ('z control_number_st_scheme, control_number list option) pm" where
  "control_number_list tenant =
     (case tenant of None \<Rightarrow> ret None
      | Some tid \<Rightarrow> gets (\<lambda>s. Some (filter (\<lambda>c. cn_tenant c = tid) (control_numbers s))))"

text \<open>\<open>bill_create\<close>: \<open>None\<close> is the form page, for a request that is no valid POST.\<close>

definition bill_create ::
  "env \<Rightarrow> user option \<Rightarrow> uuid option \<Rightarrow> quick_bill_form option \<Rightarrow>
   ('z control_number_st_scheme, (bill \<times> bool) option) pm" where
  "bill_create E user tenant form = require_tenant_role BILLING_CAN_MANAGE user tenant
     (mbind (gets (\<lambda>s. case form of None \<Rightarrow> None
         | Some f \<Rightarrow> if quick_bill_clean s tenant f then Some f else None)) (\<lambda>clean.
      case (clean, tenant) of
        (Some f, Some tid) \<Rightarrow>
          mbind (get_or_create_bill E user (tid, qf_external_reference f)
            \<lparr>ba_customer_account = qf_customer_account f,
             ba_items = [\<lparr>ni_description = qf_description f, ni_quantity = Dec 1 0,
                          ni_unit_amount = qf_unit_amount f\<rparr>],
             ba_revenue_source = qf_revenue_source f, ba_due_date = qf_due_date f,
             ba_metadata = JObj []\<rparr>) (\<lambda>(b, created).
          if created
          then mbind (bill_transition_to E b ACTIVE) (\<lambda>b1.
               mseq (get_or_create_for_bill E user tid (b_id b1) None) (ret (Some (b1, True))))
          else ret (Some (b, False)))
      | _ \<Rightarrow> ret None))"

definition bill_request_control_number ::
  "env \<Rightarrow> user option \<Rightarrow> uuid option \<Rightarrow> uuid \<Rightarrow> bool \<Rightarrow>
   ('z control_number_st_scheme, (control_number \<times> bool) option) pm" where
  "bill_request_control_number E user tenant pk post = require_tenant_role BILLING_CAN_MANAGE user tenant
     (mbind (require Http404 (tenant_bill pk tenant)) (\<lambda>b.
        if \<not> post then ret None
        else mbind (get_or_create_for_bill E user (b_tenant b) (b_id b) None) (\<lambda>r. ret (Some r))))"

subsection \<open>Frames\<close>

lemma control_number_projections [simp]:
  "control_numbers (audited r s) = control_numbers s"
  "control_numbers (dispatched ds s) = control_numbers s"
  "control_numbers (notified ns s) = control_numbers s"
  "control_numbers (posted e s) = control_numbers s"
  "control_numbers (earned ev s) = control_numbers s"
  "control_number_st.more (audited r s) = control_number_st.more s"
  "control_number_st.more (dispatched ds s) = control_number_st.more s"
  "control_number_st.more (notified ns s) = control_number_st.more s"
  "control_number_st.more (posted e s) = control_number_st.more s"
  "control_number_st.more (earned ev s) = control_number_st.more s"
  by (simp_all add: audited_def dispatched_def notified_def posted_def earned_def)

text \<open>
  The interface of a relation that allows everything around a control number, its fees included:
  what the services need of it is that it is kept by the two operations that post fees.
\<close>

locale number_frame = billing_frame R
  for R :: "'z control_number_st_scheme \<Rightarrow> 'z control_number_st_scheme \<Rightarrow> bool" +
  assumes frame_control_numbers: "R s (s\<lparr>control_numbers := cns\<rparr>)"
    and number_fees: "upholds R (record_control_number_created E cn)"
      "upholds R (record_control_number_reused E cn)"
begin

lemma upholds_notify_control_number: "upholds R (notify_control_number_generated E cn)"
  unfolding notify_control_number_generated_def the_tenant_def
  by (intro combinator_rules upholds_case_option upholds_case_prod upholds_send_notification)

lemma upholds_create_control_number: "upholds R (create_control_number E actor tenant ow expires)"
  unfolding create_control_number_def generate_value_def insert_control_number_def
  by (intro combinator_rules upholds_if upholds_modify frame_control_numbers upholds_audit1
      number_fees upholds_notify_control_number)

lemma upholds_control_number_attempts:
  "upholds R (control_number_attempts E actor tenant ow expires n)"
  by (induction n)
     (auto intro!: combinator_rules upholds_create_control_number split: option.split)

lemma upholds_get_or_create_control_number:
  "upholds R (get_or_create_control_number E actor k expires)"
  unfolding get_or_create_control_number_def
  by (intro combinator_rules upholds_case_option upholds_control_number_attempts upholds_audit1
      number_fees)

lemma upholds_for_bill: "upholds R (get_or_create_for_bill E actor tenant bill expires)"
  unfolding get_or_create_for_bill_def by (rule upholds_get_or_create_control_number)

lemma upholds_for_account: "upholds R (get_or_create_for_account E actor tenant account expires)"
  unfolding get_or_create_for_account_def by (rule upholds_get_or_create_control_number)

lemma upholds_cancel_control_number: "upholds R (cancel_control_number E actor cn)"
  unfolding cancel_control_number_def Let_def
  by (intro combinator_rules upholds_modify frame_control_numbers upholds_audit1)

lemma upholds_expire_overdue: "upholds R (expire_overdue E tenant)"
  unfolding expire_overdue_def by (intro combinator_rules upholds_modify frame_control_numbers)

lemma upholds_bill_create: "upholds R (bill_create E user tenant form)"
  unfolding bill_create_def require_tenant_role_def
  by (auto intro!: combinator_rules upholds_if upholds_get_or_create_bill upholds_bill_transition
      upholds_for_bill split: option.split prod.split)

lemma upholds_bill_request: "upholds R (bill_request_control_number E user tenant pk post)"
  unfolding bill_request_control_number_def require_tenant_role_def
  by (intro combinator_rules upholds_if upholds_for_bill)

end

text \<open>A relation that allows new rows in both logs allows those fees.\<close>

locale control_number_frame = revenue_frame R + billing_frame R
  for R :: "'z control_number_st_scheme \<Rightarrow> 'z control_number_st_scheme \<Rightarrow> bool" +
  assumes frame_number_rows: "R s (s\<lparr>control_numbers := cns\<rparr>)"

sublocale control_number_frame \<subseteq> number_frame R
  by unfold_locales (rule frame_number_rows upholds_revenue)+

interpretation control_number_logs: control_number_frame logs_grow
  by unfold_locales (auto simp: logs_grow_def later_def)

subsection \<open>One control number per owner, one fee per control number\<close>

text \<open>The fee that a genuine creation posts, as the one new ledger entry.\<close>

definition fee_posted ::
  "control_number \<Rightarrow> 'z control_number_st_scheme \<Rightarrow> 'z control_number_st_scheme \<Rightarrow> bool" where
  "fee_posted cn s t \<longleftrightarrow> (\<exists>e. ledger_entries t = e # ledger_entries s \<and>
     le_entry_type e = PLATFORM_CONTROL_NUMBER_FEE \<and> le_account e = PLATFORM_ACCOUNT \<and>
     le_amount e = 5000 \<and> le_reference e = cn_value cn \<and>
     le_source e = Some (MControlNumber, cn_id cn))"

definition owned_by :: "owner \<Rightarrow> control_number \<Rightarrow> bool" where
  "owned_by ow cn \<longleftrightarrow> (case ow of
     OwnerBill b \<Rightarrow> cn_bill cn = Some b \<and> cn_customer_account cn = None \<and> cn_scope cn = ONE_TIME
   | OwnerAccount a \<Rightarrow> cn_bill cn = None \<and> cn_customer_account cn = Some a \<and> cn_scope cn = PERSISTENT)"

definition issued ::
  "uuid \<times> owner \<Rightarrow> 'z control_number_st_scheme \<Rightarrow> control_number \<Rightarrow>
   'z control_number_st_scheme \<Rightarrow> bool" where
  "issued k s cn t \<longleftrightarrow> control_numbers t = cn # control_numbers s \<and> cn_status cn = CnActive \<and>
     cn_tenant cn = fst k \<and> owned_by (snd k) cn \<and> \<not> control_number_clash cn s \<and>
     fee_posted cn s t \<and> tenants t = tenants s \<and> row_get t_id (fst k) (tenants s) \<noteq> None"

definition cn_rows ::
  "'z control_number_st_scheme \<Rightarrow> control_number list \<times> ledger_entry list \<times> tenant list" where
  "cn_rows s = (control_numbers s, ledger_entries s, tenants s)"

text \<open>The notification of a creation touches none of these rows.\<close>

locale control_number_events = event_frame R
  for R :: "'z control_number_st_scheme \<Rightarrow> 'z control_number_st_scheme \<Rightarrow> bool"
begin

lemma upholds_notify: "upholds R (notify_control_number_generated E cn)"
  unfolding notify_control_number_generated_def the_tenant_def
  by (intro combinator_rules upholds_case_option upholds_case_prod upholds_send_notification)

end

interpretation cn_events: control_number_events "same cn_rows"
  by unfold_locales (auto simp: same_def cn_rows_def later_def)

lemma control_number_clash_cong:
  "control_numbers t = control_numbers s \<Longrightarrow> control_number_clash cn t = control_number_clash cn s"
  by (simp add: control_number_clash_def)

lemma create_control_number_wpx:
  "wpx (create_control_number E actor tenant ow expires) (issued (tenant, ow) s) (\<lambda>_ _. True) s"
proof -
  have notify: "wpx (notify_control_number_generated E cn) (\<lambda>_. issued (tenant, ow) s cn)
      (\<lambda>_ _. True) u" if "issued (tenant, ow) s cn u" for cn u
    using upholds_wpx [OF cn_events.upholds_notify, where s = u]
    by (rule wpx_mono) (use that in \<open>auto simp: same_def cn_rows_def issued_def fee_posted_def\<close>)
  show ?thesis
    by (auto simp: create_control_number_def generate_value_def insert_control_number_def wpx_eta
        record_control_number_created_def Let_def control_number_clash_def
        CONTROL_NUMBER_CREATION_FEE_def intro!: notify split: option.split)
       (auto simp: issued_def fee_posted_def owned_by_def control_number_clash_def
          CONTROL_NUMBER_CREATION_FEE_def split: owner.split)
qed

lemma find_control_number_rollback [simp]:
  "find_control_number ow (rollback s t) = find_control_number ow s"
  by (simp add: find_control_number_def rollback_def split: owner.split)

lemma issued_rollback: "issued k (rollback s u) cn t \<Longrightarrow> issued k s cn t"
  by (auto simp: issued_def rollback_def fee_posted_def control_number_clash_def)

lemma control_number_attempts_wpx:
  assumes "find_control_number ow s = None"
  shows "wpx (control_number_attempts E actor tenant ow expires n)
    (\<lambda>(cn, c) t. c \<and> issued (tenant, ow) s cn t) (\<lambda>_ _. True) s"
  using assms
proof (induction n arbitrary: s)
  case (Suc n)
  have again: "wpx (control_number_attempts E actor tenant ow expires n)
      (\<lambda>(cn, c) t. c \<and> issued (tenant, ow) s cn t) (\<lambda>_ _. True) (rollback s u)" for u
    using Suc.IH [of "rollback s u"] Suc.prems
    by (auto elim!: wpx_mono intro: issued_rollback)
  show ?case
    using Suc.prems
    by (simp, intro wpx_mono [OF create_control_number_wpx]) (auto intro: again)
qed simp

definition tenants_known :: "'z control_number_st_scheme \<Rightarrow> bool" where
  "tenants_known s \<longleftrightarrow>
     (\<forall>cn \<in> set (control_numbers s). row_get t_id (cn_tenant cn) (tenants s) \<noteq> None)"

definition quiet_cn :: "'z control_number_st_scheme \<Rightarrow> 'z control_number_st_scheme \<Rightarrow> bool" where
  "quiet_cn s t \<longleftrightarrow> cn_rows t = cn_rows s"

lemma find_control_number_mem:
  "find_control_number ow s = Some cn \<Longrightarrow> cn \<in> set (control_numbers s)"
  by (auto simp: find_control_number_def dest: find_Some_D split: owner.splits)

lemma reuse_wpx:
  assumes "tenants_known s" and "find_control_number (snd k) s = Some cn"
  shows "succeeds (get_or_create_control_number E actor k expires)
    (\<lambda>r t. r = (cn, False) \<and> quiet_cn s t \<and> (\<exists>ev. revenue_events t = ev # revenue_events s \<and>
       re_event_type ev = RE_CONTROL_NUMBER_REUSED \<and> re_amount ev = 0)) s"
proof -
  from assms obtain t where "row_get t_id (cn_tenant cn) (tenants s) = Some t"
    by (auto simp: tenants_known_def dest!: find_control_number_mem)
  with assms(2) show ?thesis
    by (simp add: get_or_create_control_number_def record_control_number_reused_def Let_def
        quiet_cn_def cn_rows_def)
qed

lemma issue_wpx:
  assumes "find_control_number (snd k) s = None"
  shows "wpx (get_or_create_control_number E actor k expires)
    (\<lambda>(cn, c) t. c \<and> issued k s cn t) (\<lambda>_ _. True) s"
  using control_number_attempts_wpx [OF assms, of E actor "fst k" expires MAX_GENERATION_ATTEMPTS]
  by (simp add: get_or_create_control_number_def assms)

lemma issued_found: "issued k s cn t \<Longrightarrow> find_control_number (snd k) t = Some cn"
  by (auto simp: issued_def find_control_number_def owned_by_def split: owner.splits)

interpretation control_number_goc: get_or_create "\<lambda>_. tenants_known" quiet_cn
    "\<lambda>k. find_control_number (snd k)" "get_or_create_control_number E actor"
  for E actor
proof
  fix k and s t u :: "'a control_number_st_scheme" and r a b
  show "\<exists>t. get_or_create_control_number E actor k a s = (Inr (r, False), t) \<and> quiet_cn s t"
    if "tenants_known s" "find_control_number (snd k) s = Some r"
    using reuse_wpx [OF that, of E actor a] by (auto simp: succeeds_iff)
  show "b \<and> find_control_number (snd k) t = Some r \<and> tenants_known t"
    if "tenants_known s" "find_control_number (snd k) s = None"
      and "get_or_create_control_number E actor k a s = (Inr (r, b), t)"
    using wpx_result(1) [OF issue_wpx [OF that(2)] that(3)] that(1)
    by (auto simp: issued_found) (auto simp: issued_def tenants_known_def)
qed (auto simp: quiet_cn_def cn_rows_def tenants_known_def find_control_number_def
      split: owner.splits)

subsection \<open>Properties\<close>

text \<open>
  Also (\<open>get_or_create_for_bill\<close>): requests for the number of one bill right after another all
  answer the same number, only the first reports it as created, and all but the first succeed.
\<close>

theorem control_number_retries:
  assumes "tenants_known s" and "find_control_number (OwnerBill bill) s = None"
    and "run_calls (map (get_or_create_for_bill E actor tenant bill) (x # xs)) s =
      (Inr (cn, c) # rs, t)"
  shows "c \<and> rs = replicate (length xs) (Inr (cn, False)) \<and>
    control_numbers t = cn # control_numbers s \<and>
    (\<exists>e. ledger_entries t = e # ledger_entries s \<and> le_amount e = 5000 \<and>
       le_entry_type e = PLATFORM_CONTROL_NUMBER_FEE \<and> le_account e = PLATFORM_ACCOUNT \<and>
       le_source e = Some (MControlNumber, cn_id cn))"
proof -
  let ?goc = "get_or_create_control_number E actor (tenant, OwnerBill bill)"
  have eq: "get_or_create_for_bill E actor tenant bill = ?goc"
    by (simp add: get_or_create_for_bill_def fun_eq_iff)
  obtain u where u: "?goc x s = (Inr (cn, c), u)" "run_calls (map ?goc xs) u = (rs, t)"
    using assms(3) by (auto simp: eq split: prod.splits)
  have i: "c" "issued (tenant, OwnerBill bill) s cn u"
    using wpx_result(1) [OF issue_wpx u(1)] assms(2) by simp_all
  from control_number_goc.goc_lookup [OF assms(1) u(1)]
  have "tenants_known u" "find_control_number (OwnerBill bill) u = Some cn"
    by simp_all
  with control_number_goc.goc_retries [OF this(1) _ u(2)]
  have "rs = replicate (length xs) (Inr (cn, False))" "quiet_cn u t"
    by simp_all
  with i show ?thesis
    by (auto simp: issued_def fee_posted_def quiet_cn_def cn_rows_def)
qed

subsection \<open>Requests, cancellations and expiries in any order\<close>



text \<open>The numbers issued, each with its bill, and the fees charged for numbers, newest first.\<close>

definition numbers_of :: "'z control_number_st_scheme \<Rightarrow> (uuid \<times> uuid option) list" where
  "numbers_of s = map (\<lambda>c. (cn_id c, cn_bill c)) (control_numbers s)"

definition number_fees :: "'z control_number_st_scheme \<Rightarrow> ((model \<times> uuid) option \<times> ledger_account \<times> int) list" where
  "number_fees s = map (\<lambda>e. (le_source e, le_account e, le_amount e))
     (filter (\<lambda>e. le_entry_type e = PLATFORM_CONTROL_NUMBER_FEE) (ledger_entries s))"


lemma numbers_frame [simp]:
  "numbers_of (rollback s t) = numbers_of s" "number_fees (rollback s t) = number_fees s"
  "tenants_known (rollback s t) = tenants_known s"
  by (simp_all add: numbers_of_def number_fees_def tenants_known_def rollback_def)









lemma find_row_update:
  assumes "\<And>q. P (f q) = P q" and "List.find P tbl = Some r" and "key r = k"
  shows "List.find P (row_update key k f tbl) = Some (f r)"
  using assms(2,3) by (induction tbl) (auto simp: assms(1) split: if_splits)

lemma cancel_result:
  assumes "cancel_control_number E actor cn s = (Inr cn', t)"
  shows "control_numbers t = row_update cn_id (cn_id cn) (\<lambda>c. c\<lparr>cn_status := CnCancelled,
      cn_cancelled_at := cn_cancelled_at cn'\<rparr>) (control_numbers s) \<and>
    tenants t = tenants s \<and> cn_status cn' = CnCancelled"
proof -
  have "wpx (cancel_control_number E actor cn) (\<lambda>cn' t. control_numbers t =
      row_update cn_id (cn_id cn) (\<lambda>c. c\<lparr>cn_status := CnCancelled,
        cn_cancelled_at := cn_cancelled_at cn'\<rparr>) (control_numbers s) \<and>
      tenants t = tenants s \<and> cn_status cn' = CnCancelled) (\<lambda>_ _. True) s"
    by (simp add: cancel_control_number_def Let_def)
  from wpx_result(1) [OF this assms] show ?thesis .
qed

text \<open>
  Also (\<open>get_or_create_for_account\<close>, \<open>cancel\<close>): a persistent number is shared by every request
  for its account while it is active; after it is cancelled, the next request that succeeds
  issues another one, with a fresh value and a fee of its own.
\<close>

theorem account_number_reissued:
  assumes "tenants_known s" and "find_control_number (OwnerAccount account) s = Some cn"
    and "\<And>c. c \<in> set (control_numbers s) \<Longrightarrow> cn_customer_account c = Some account \<Longrightarrow>
           cn_status c = CnActive \<Longrightarrow> cn_id c = cn_id cn"
    and "cancel_control_number E actor cn s = (Inr cn', t)"
    and "get_or_create_for_account E actor tenant account expires t = (Inr (new, c), u)"
  shows "get_or_create_for_account E actor tenant account expires s =
      (Inr (cn, False), snd (get_or_create_for_account E actor tenant account expires s)) \<and>
    cn_status cn' = CnCancelled \<and> c \<and> cn_value new \<noteq> cn_value cn \<and> fee_posted new t u"
proof -
  let ?k = "(tenant, OwnerAccount account)"
  have t: "control_numbers t = row_update cn_id (cn_id cn) (\<lambda>c. c\<lparr>cn_status := CnCancelled,
      cn_cancelled_at := cn_cancelled_at cn'\<rparr>) (control_numbers s)" "cn_status cn' = CnCancelled"
    using cancel_result [OF assms(4)] by simp_all
  have mem: "cn \<in> set (control_numbers s)"
    by (rule find_control_number_mem [OF assms(2)])
  have "find_control_number (OwnerAccount account) t = None"
    using assms(3) by (simp add: find_control_number_def find_None_iff_all t(1) row_update_def)
      auto
  then have "find_control_number (snd ?k) t = None"
    by simp
  from wpx_result(1) [OF issue_wpx [OF this] assms(5) [unfolded get_or_create_for_account_def]]
  have i: "c" "issued ?k t new u"
    by simp_all
  then have "cn_value new \<noteq> cn_value q" if "q \<in> set (control_numbers t)" for q
    using that by (auto simp: issued_def control_number_clash_def list_ex_iff)
  moreover have "cn\<lparr>cn_status := CnCancelled, cn_cancelled_at := cn_cancelled_at cn'\<rparr>
      \<in> set (control_numbers t)"
    using mem by (auto simp: t(1) in_row_update intro: bexI [of _ cn])
  ultimately have "cn_value new \<noteq> cn_value cn"
    by fastforce
  moreover from control_number_goc.goc_hit [OF assms(1), of ?k cn E actor expires] assms(2)
  have "\<exists>v. get_or_create_for_account E actor tenant account expires s = (Inr (cn, False), v)"
    by (auto simp: get_or_create_for_account_def)
  ultimately show ?thesis
    using i t(2) by (auto simp: issued_def)
qed

text \<open>
  Also (\<open>get_or_create_for_bill\<close>, \<open>cancel\<close>): the query for the number of a bill does not look at its
  status, so a request after the cancellation answers the cancelled number, charges nothing and
  reports a reuse; the module promises \<open>an active one\<close>.
\<close>

theorem cancelled_bill_number_returned:
  assumes "tenants_known s" and "find_control_number (OwnerBill bill) s = Some cn"
    and "cancel_control_number E actor cn s = (Inr cn', t)"
  shows "\<exists>q u. get_or_create_for_bill E actor tenant bill expires t = (Inr (q, False), u) \<and>
    cn_status q = CnCancelled \<and> cn_value q = cn_value cn \<and> ledger_entries u = ledger_entries t"
proof -
  have t: "control_numbers t = row_update cn_id (cn_id cn) (\<lambda>c. c\<lparr>cn_status := CnCancelled,
      cn_cancelled_at := cn_cancelled_at cn'\<rparr>) (control_numbers s)" "tenants t = tenants s"
    using cancel_result [OF assms(3)] by simp_all
  have known: "tenants_known t"
    using assms(1) by (auto simp: tenants_known_def t in_row_update)
  have "find_control_number (OwnerBill bill) t =
      Some (cn\<lparr>cn_status := CnCancelled, cn_cancelled_at := cn_cancelled_at cn'\<rparr>)"
    using assms(2) by (simp add: find_control_number_def t(1) find_row_update)
  with control_number_goc.goc_hit [OF known, of "(tenant, OwnerBill bill)" _ E actor expires]
  show ?thesis
    by (force simp: get_or_create_for_bill_def quiet_cn_def cn_rows_def)
qed

lemma example_env_values:
  "e_yymmdd example_env t = ''260101''" "e_randint example_env n = n"
  by (simp_all add: example_env_def)

definition example_bill :: bill where
  "example_bill = \<lparr>b_id = Uuid 3, b_tenant = Uuid 0, b_customer_account = Uuid 2,
     b_revenue_source = None, b_bill_number = ''BILL-1'', b_status = ACTIVE, b_currency = ''TZS'',
     b_total_amount = 30000, b_due_date = None, b_issued_at = Some 0, b_cancelled_at = None,
     b_external_reference = [], b_metadata = JNull, b_notes = []\<rparr>"

definition example_cn :: "owner \<Rightarrow> control_number" where
  "example_cn ow = \<lparr>cn_id = Uuid 4, cn_tenant = Uuid 0, cn_value = ''9'',
     cn_scope = (case ow of OwnerBill _ \<Rightarrow> ONE_TIME | OwnerAccount _ \<Rightarrow> PERSISTENT),
     cn_status = CnActive,
     cn_bill = (case ow of OwnerBill b \<Rightarrow> Some b | OwnerAccount _ \<Rightarrow> None),
     cn_customer_account = (case ow of OwnerBill _ \<Rightarrow> None | OwnerAccount a \<Rightarrow> Some a),
     cn_expires_at = None, cn_cancelled_at = None, cn_created_by = None\<rparr>"

definition example_cn_st :: "control_number list \<Rightarrow> control_number_st" where
  "example_cn_st cns = revenue_st.extend (example_revenue_st\<lparr>bills := [example_bill]\<rparr>)
     (control_number_st.fields cns)"

lemma example_cn_simps:
  "control_numbers (example_cn_st cns) = cns"
  "tenants (example_cn_st cns) = [example_tenant]"
  "bills (example_cn_st cns) = [example_bill]"
  "customers (example_cn_st cns) = customers example_billing_st"
  "customer_accounts (example_cn_st cns) = customer_accounts example_billing_st"
  "clock_reads (example_cn_st cns) = 0"
  "draws (example_cn_st cns) = 9"
  by (simp_all add: example_cn_st_def example_revenue_st_def example_billing_st_def
      billing_st.defs ledger_st.defs revenue_st.defs control_number_st.defs)

lemma max_attempts_Suc: "MAX_GENERATION_ATTEMPTS = Suc (Suc (Suc (Suc (Suc 0))))"
  by (simp add: MAX_GENERATION_ATTEMPTS_def)

lemma example_for_bill:
  "succeeds (get_or_create_for_bill example_env None (Uuid 0) (Uuid 3) None) (\<lambda>_ _. True)
     (example_cn_st [])"
  by (simp add: get_or_create_for_bill_def get_or_create_control_number_def
      find_control_number_def example_cn_simps max_attempts_Suc
      create_control_number_def generate_value_def insert_control_number_def
      control_number_clash_def record_control_number_created_def Let_def example_tenant_def
      notify_control_number_generated_def example_bill_def account_customer_def
      example_billing_st_def send_notification_def)

theorem control_number_retries_witness:
  "\<exists>cn t. run_calls (map (get_or_create_for_bill example_env None (Uuid 0) (Uuid 3)) [None, None])
     (example_cn_st []) = ([Inr (cn, True), Inr (cn, False)], t)"
proof -
  let ?run = "run_calls (map (get_or_create_for_bill example_env None (Uuid 0) (Uuid 3)) [None, None])
     (example_cn_st [])"
  obtain cn c u where one: "get_or_create_for_bill example_env None (Uuid 0) (Uuid 3) None
      (example_cn_st []) = (Inr (cn, c), u)"
    using example_for_bill by (auto simp: succeeds_iff)
  obtain rs t where "run_calls [get_or_create_for_bill example_env None (Uuid 0) (Uuid 3) None] u = (rs, t)"
    by (meson surj_pair)
  with one have run: "?run = (Inr (cn, c) # rs, t)"
    by simp
  have "tenants_known (example_cn_st [])"
    and "find_control_number (OwnerBill (Uuid 3)) (example_cn_st []) = None"
    by (simp_all add: tenants_known_def find_control_number_def example_cn_simps)
  from control_number_retries [OF this run] run show ?thesis
    by auto
qed



lemma example_cancelled:
  obtains cn' t where "cancel_control_number example_env None (example_cn ow)
      (example_cn_st [example_cn ow]) = (Inr cn', t)"
proof -
  have "succeeds (cancel_control_number example_env None (example_cn ow)) (\<lambda>_ _. True)
      (example_cn_st [example_cn ow])"
    by (simp add: cancel_control_number_def Let_def)
  with that show ?thesis
    by (auto simp: succeeds_iff)
qed

lemma example_known: "tenants_known (example_cn_st [example_cn ow])"
  by (simp add: tenants_known_def example_cn_simps example_cn_def example_tenant_def)

lemma example_found: "find_control_number ow (example_cn_st [example_cn ow]) = Some (example_cn ow)"
  by (cases ow) (simp_all add: find_control_number_def example_cn_simps example_cn_def)

theorem cancelled_bill_number_returned_witness:
  "\<exists>q (t :: control_number_st) u. cn_status q = CnCancelled \<and>
     get_or_create_for_bill example_env None (Uuid 0) (Uuid 3) None t = (Inr (q, False), u)"
proof -
  let ?ow = "OwnerBill (Uuid 3)"
  obtain cn' t where c: "cancel_control_number example_env None (example_cn ?ow)
      (example_cn_st [example_cn ?ow]) = (Inr cn', t)"
    by (rule example_cancelled)
  from cancelled_bill_number_returned [OF example_known example_found c, of "Uuid 0" None]
  show ?thesis
    by blast
qed

theorem account_number_reissued_witness:
  "\<exists>new (t :: control_number_st) u. get_or_create_for_account example_env None (Uuid 0) (Uuid 2) None t =
     (Inr (new, True), u) \<and> cn_value new \<noteq> ''9''"
proof -
  let ?ow = "OwnerAccount (Uuid 2)"
  let ?s = "example_cn_st [example_cn ?ow]"
  have "succeeds (cancel_control_number example_env None (example_cn ?ow)) (\<lambda>_ t.
      succeeds (get_or_create_for_account example_env None (Uuid 0) (Uuid 2) None) (\<lambda>_ _. True) t) ?s"
    by (simp add: cancel_control_number_def Let_def get_or_create_for_account_def
      get_or_create_control_number_def find_control_number_def example_cn_simps
      max_attempts_Suc create_control_number_def generate_value_def
      insert_control_number_def control_number_clash_def record_control_number_created_def
      example_tenant_def example_cn_def notify_control_number_generated_def account_customer_def
      example_billing_st_def send_notification_def example_env_values pad6_def digit_def)
  then obtain cn' t new c u where
    t: "cancel_control_number example_env None (example_cn ?ow) ?s = (Inr cn', t)" and
    u: "get_or_create_for_account example_env None (Uuid 0) (Uuid 2) None t = (Inr (new, c), u)"
    by (auto simp: succeeds_iff)
  from account_number_reissued [OF example_known example_found _ t u] u show ?thesis
    by (auto simp: example_cn_simps example_cn_def)
qed

end
