(* ===== verification/Providers.thy ===== *)
theory Providers
  imports ControlNumbers
begin

text \<open>
  The provider abstraction: \<open>apps/providers/base.py\<close> (outcomes, results, the adapter interface as
  a record of operations), \<open>models.py\<close>, \<open>mock.py\<close> (the sandbox adapter with its own transaction
  table) and \<open>registry.py\<close>. \<open>json.loads\<close> is the parameter \<open>e_json_loads\<close>; the event id and the
  reference of a callback are taken to be text, as the provider sends them.
\<close>

subsection \<open>Outcomes and results\<close>

datatype outcome = OPending | OSuccessful | OFailed | OUnknown

fun outcome_value :: "outcome \<Rightarrow> string" where
  "outcome_value OPending = ''pending''"
| "outcome_value OSuccessful = ''successful''"
| "outcome_value OFailed = ''failed''"
| "outcome_value OUnknown = ''unknown''"

text \<open>\<open>ProviderOutcome(value)\<close> raises \<open>ValueError\<close> on any other text.\<close>

definition outcome_of :: "string \<Rightarrow> exn + outcome" where
  "outcome_of v =
     (case List.find (\<lambda>out. outcome_value out = v) [OPending, OSuccessful, OFailed, OUnknown] of
        Some out \<Rightarrow> Inr out
      | None \<Rightarrow> Inl (ValueError ''not a valid ProviderOutcome''))"

record provider_result =
  pr_outcome :: outcome
  pr_provider_reference :: string
  pr_message :: string
  pr_raw_response :: json

record callback_result =
  cb_external_event_id :: string
  cb_provider_reference :: string
  cb_outcome :: outcome
  cb_raw_response :: json

record initiate_args =
  ia_amount :: money
  ia_currency :: string
  ia_control_number :: string
  ia_payer_reference :: string
  ia_merchant_reference :: string
  ia_metadata :: "(string \<times> json) list"

record 's adapter =
  ad_initiate_payment :: "initiate_args \<Rightarrow> ('s, provider_result) pm"
  ad_query_payment :: "string \<Rightarrow> ('s, provider_result) pm"
  ad_validate_reference :: "string \<Rightarrow> bool"
  ad_process_callback :: "string \<Rightarrow> string \<Rightarrow> ('s, callback_result) pm"
  ad_refund :: "string \<Rightarrow> money \<Rightarrow> ('s, provider_result) pm"
  ad_reverse :: "string \<Rightarrow> ('s, provider_result) pm"
  ad_reconcile :: "string \<Rightarrow> ('s, provider_result) pm"
  ad_health_check :: bool

subsection \<open>Rows\<close>

record payment_provider =
  pp_id :: uuid
  pp_code :: string
  pp_name :: string
  pp_is_sandbox :: bool
  pp_is_active :: bool

datatype channel_type = MOBILE_MONEY | BANK | CARD | OTHER_CHANNEL

record payment_channel =
  pc_id :: uuid
  pc_provider :: uuid
  pc_code :: string
  pc_name :: string
  pc_channel_type :: channel_type
  pc_is_active :: bool

record mock_transaction =
  mt_merchant_reference :: string
  mt_provider_reference :: string
  mt_outcome :: outcome

record provider_st = control_number_st +
  payment_providers :: "payment_provider list"
  payment_channels :: "payment_channel list"
  mock_transactions :: "mock_transaction list"

definition provider_str :: "payment_provider \<Rightarrow> string" where
  "provider_str p = pp_name p @ (if pp_is_sandbox p then '' (SANDBOX)'' else [])"

definition channel_str :: "payment_channel \<Rightarrow> payment_provider \<Rightarrow> string" where
  "channel_str c p = pc_name c @ '' ('' @ pp_name p @ '')''"

subsection \<open>The mock adapter\<close>

definition DEFAULT_CALLBACK_SECRET :: string where
  "DEFAULT_CALLBACK_SECRET = ''mock-provider-callback-secret''"

text \<open>
  \<open>metadata.get("mock_outcome", "successful")\<close>, then the table of actual outcomes with its
  default. A list or an object is no dictionary key.
\<close>

definition outcome_hint :: "(string \<times> json) list \<Rightarrow> json" where
  "outcome_hint metadata =
     (case map_of metadata ''mock_outcome'' of None \<Rightarrow> JStr ''successful'' | Some v \<Rightarrow> v)"

definition actual_outcome :: "json \<Rightarrow> exn + outcome" where
  "actual_outcome hint =
     (case hint of
        JStr v \<Rightarrow>
          Inr (if v = ''failed'' then OFailed else if v = ''pending'' then OPending else OSuccessful)
      | JList _ \<Rightarrow> Inl (TypeError ''unhashable type'')
      | JObj _ \<Rightarrow> Inl (TypeError ''unhashable type'')
      | _ \<Rightarrow> Inr OSuccessful)"

definition mock_initiate_payment ::
  "env \<Rightarrow> initiate_args \<Rightarrow> ('z provider_st_scheme, provider_result) pm" where
  "mock_initiate_payment E a =
     (let hint = outcome_hint (ia_metadata a) in
      mbind draw (\<lambda>k.
        let reference = ''MOCK-'' @ py_upper (take 10 (e_hex E k)) in
        mbind (lift_sum (actual_outcome hint)) (\<lambda>actual.
        mbind (gets (\<lambda>s. list_ex (\<lambda>t. mt_merchant_reference t = ia_merchant_reference a)
                 (mock_transactions s))) (\<lambda>clash.
        if clash then integrity_error ''unique merchant_reference of MockProviderTransaction''
        else
          mseq (modify (\<lambda>s. s\<lparr>mock_transactions :=
                  \<lparr>mt_merchant_reference = ia_merchant_reference a,
                   mt_provider_reference = reference, mt_outcome = actual\<rparr> # mock_transactions s\<rparr>))
            (if hint = JStr ''timeout''
             then raise (ProviderTimeoutError (''Simulated provider timeout for merchant_reference=''
                    @ ia_merchant_reference a))
             else ret \<lparr>pr_outcome = actual, pr_provider_reference = reference,
                    pr_message = ''Simulated by the MOCK/SANDBOX provider'',
                    pr_raw_response = JObj [(''mock'', JBool True),
                      (''merchant_reference'', JStr (ia_merchant_reference a))]\<rparr>)))))"

definition mock_query_payment :: "string \<Rightarrow> ('z provider_st_scheme, provider_result) pm" where
  "mock_query_payment merchant_reference =
     mbind (gets (\<lambda>s. List.find (\<lambda>t. mt_merchant_reference t = merchant_reference)
              (mock_transactions s))) (\<lambda>txn.
       case txn of
         None \<Rightarrow> ret \<lparr>pr_outcome = OUnknown, pr_provider_reference = [],
           pr_message = ''No record found at the provider for this reference yet.'',
           pr_raw_response = JObj []\<rparr>
       | Some t \<Rightarrow> ret \<lparr>pr_outcome = mt_outcome t, pr_provider_reference = mt_provider_reference t,
           pr_message = [], pr_raw_response = JObj [(''mock'', JBool True)]\<rparr>)"

definition mock_validate_reference :: "string \<Rightarrow> bool" where
  "mock_validate_reference control_number \<longleftrightarrow> control_number \<noteq> [] \<and> py_isdigit control_number"

definition text_field :: "(string \<times> json) list \<Rightarrow> string \<Rightarrow> exn + string" where
  "text_field kvs k =
     (case map_of kvs k of
        None \<Rightarrow> Inl (KeyError k)
      | Some (JStr v) \<Rightarrow> Inr v
      | Some _ \<Rightarrow> Inl (ValueError k))"

definition parse_callback :: "json \<Rightarrow> exn + callback_result" where
  "parse_callback data =
     (case data of
        JObj kvs \<Rightarrow>
          (case text_field kvs ''event_id'' of Inl e \<Rightarrow> Inl e | Inr event_id \<Rightarrow>
          (case text_field kvs ''provider_reference'' of Inl e \<Rightarrow> Inl e | Inr reference \<Rightarrow>
          (case text_field kvs ''outcome'' of Inl e \<Rightarrow> Inl e | Inr v \<Rightarrow>
          (case outcome_of v of Inl e \<Rightarrow> Inl e | Inr out \<Rightarrow>
             Inr \<lparr>cb_external_event_id = event_id, cb_provider_reference = reference,
                  cb_outcome = out, cb_raw_response = data\<rparr>))))
      | _ \<Rightarrow> Inl (TypeError ''callback payload is not an object''))"

definition mock_process_callback ::
  "env \<Rightarrow> string \<Rightarrow> string \<Rightarrow> string \<Rightarrow> ('z provider_st_scheme, callback_result) pm" where
  "mock_process_callback E secret body signature =
     mbind (lift_sum (verify E secret body signature)) (\<lambda>ok.
       if \<not> ok
       then raise (InvalidCallbackSignatureError ''Mock provider callback signature did not verify.'')
       else (case e_json_loads E body of
           None \<Rightarrow> raise (ProviderError ''Malformed mock callback payload'')
         | Some data \<Rightarrow> lift_sum (parse_callback data)))"

definition mock_refund :: "env \<Rightarrow> string \<Rightarrow> money \<Rightarrow> ('z provider_st_scheme, provider_result) pm" where
  "mock_refund E provider_reference amount =
     ret \<lparr>pr_outcome = OSuccessful, pr_provider_reference = provider_reference,
          pr_message = ''Simulated refund'',
          pr_raw_response = JObj [(''mock'', JBool True), (''refunded_amount'', JStr (e_str_dec E amount))]\<rparr>"

definition mock_reverse :: "string \<Rightarrow> ('z provider_st_scheme, provider_result) pm" where
  "mock_reverse provider_reference =
     ret \<lparr>pr_outcome = OSuccessful, pr_provider_reference = provider_reference,
          pr_message = ''Simulated reversal'', pr_raw_response = JObj [(''mock'', JBool True)]\<rparr>"

definition mock_reconcile :: "string \<Rightarrow> ('z provider_st_scheme, provider_result) pm" where
  "mock_reconcile provider_reference =
     mbind (gets (\<lambda>s. List.find (\<lambda>t. mt_provider_reference t = provider_reference)
              (mock_transactions s))) (\<lambda>txn.
       case txn of
         None \<Rightarrow> ret \<lparr>pr_outcome = OUnknown, pr_provider_reference = [],
           pr_message = ''Unknown to mock provider.'', pr_raw_response = JObj []\<rparr>
       | Some t \<Rightarrow> ret \<lparr>pr_outcome = mt_outcome t, pr_provider_reference = provider_reference,
           pr_message = [], pr_raw_response = JObj []\<rparr>)"

definition mock_adapter :: "env \<Rightarrow> 'z provider_st_scheme adapter" where
  "mock_adapter E =
     \<lparr>ad_initiate_payment = mock_initiate_payment E, ad_query_payment = mock_query_payment,
      ad_validate_reference = mock_validate_reference,
      ad_process_callback = mock_process_callback E DEFAULT_CALLBACK_SECRET,
      ad_refund = mock_refund E, ad_reverse = mock_reverse, ad_reconcile = mock_reconcile,
      ad_health_check = True\<rparr>"

text \<open>\<open>build_mock_callback_payload\<close>: the body and its signature.\<close>

definition build_mock_callback_payload :: "env \<Rightarrow> string \<Rightarrow> string \<Rightarrow> outcome \<Rightarrow> string \<Rightarrow> string \<times> string" where
  "build_mock_callback_payload E event_id provider_reference out secret =
     (let body = e_json_dumps E (JObj [(''event_id'', JStr event_id),
            (''provider_reference'', JStr provider_reference), (''outcome'', JStr (outcome_value out))])
      in (body, sign E secret body))"

subsection \<open>The registry\<close>

definition get_adapter :: "env \<Rightarrow> payment_provider \<Rightarrow> exn + 'z provider_st_scheme adapter" where
  "get_adapter E p =
     (if pp_code p = ''mock'' then Inr (mock_adapter E)
      else Inl (ProviderError (''No adapter registered for provider code '' @ pp_code p)))"

subsection \<open>The contract of an adapter\<close>

lemma provider_projections [simp]:
  "payment_providers (audited r s) = payment_providers s"
  "payment_providers (dispatched ds s) = payment_providers s"
  "payment_providers (notified ns s) = payment_providers s"
  "payment_providers (posted e s) = payment_providers s"
  "payment_providers (earned ev s) = payment_providers s"
  "payment_channels (audited r s) = payment_channels s"
  "payment_channels (dispatched ds s) = payment_channels s"
  "payment_channels (notified ns s) = payment_channels s"
  "payment_channels (posted e s) = payment_channels s"
  "payment_channels (earned ev s) = payment_channels s"
  "mock_transactions (audited r s) = mock_transactions s"
  "mock_transactions (dispatched ds s) = mock_transactions s"
  "mock_transactions (notified ns s) = mock_transactions s"
  "mock_transactions (posted e s) = mock_transactions s"
  "mock_transactions (earned ev s) = mock_transactions s"
  "provider_st.more (audited r s) = provider_st.more s"
  "provider_st.more (dispatched ds s) = provider_st.more s"
  "provider_st.more (notified ns s) = provider_st.more s"
  "provider_st.more (posted e s) = provider_st.more s"
  "provider_st.more (earned ev s) = provider_st.more s"
  by (simp_all add: audited_def dispatched_def notified_def posted_def earned_def)

text \<open>
  What the orchestrator relies on: the adapter only touches its own records (\<open>keeps_all\<close> is any
  relation that allows that), and a query under our reference answers what the provider recorded
  for it at initiation, also when the answer to the initiation was lost.
\<close>

definition recorded :: "string \<Rightarrow> outcome \<Rightarrow> 'z provider_st_scheme \<Rightarrow> bool" where
  "recorded reference out s \<longleftrightarrow> (\<exists>t. List.find (\<lambda>t. mt_merchant_reference t = reference)
     (mock_transactions s) = Some t \<and> mt_outcome t = out)"

locale provider_adapter =
  fixes ad :: "'z provider_st_scheme adapter"
  assumes initiate_recorded: "wpx (ad_initiate_payment ad a)
      (\<lambda>r t. recorded (ia_merchant_reference a) (pr_outcome r) t)
      (\<lambda>e t. is_provider_error e \<longrightarrow> (\<exists>out. recorded (ia_merchant_reference a) out t)) s"
    and query_answers: "recorded reference out s \<Longrightarrow>
      \<exists>r. ad_query_payment ad reference s = (Inr r, s) \<and> pr_outcome r = out"
begin

lemma query_after_initiate:
  assumes "ad_initiate_payment ad a s = (Inr r, t)"
  shows "\<exists>q. ad_query_payment ad (ia_merchant_reference a) t = (Inr q, t) \<and> pr_outcome q = pr_outcome r"
  using wpx_result(1) [OF initiate_recorded assms] by (rule query_answers)

lemma query_after_timeout:
  assumes "ad_initiate_payment ad a s = (Inl (ProviderTimeoutError m), t)"
  shows "\<exists>q. ad_query_payment ad (ia_merchant_reference a) t = (Inr q, t)"
  using wpx_result(2) [OF initiate_recorded assms] by (auto dest: query_answers)

end

lemma mock_initiate_wpx:
  "wpx (mock_initiate_payment E a)
     (\<lambda>r t. recorded (ia_merchant_reference a) (pr_outcome r) t)
     (\<lambda>e t. is_provider_error e \<longrightarrow> (\<exists>out. recorded (ia_merchant_reference a) out t)) s"
  by (auto simp: mock_initiate_payment_def Let_def recorded_def actual_outcome_def
      split: json.split sum.split)

interpretation mock: provider_adapter "mock_adapter E" for E
proof
  fix a reference out and s :: "'a provider_st_scheme"
  show "wpx (ad_initiate_payment (mock_adapter E) a)
      (\<lambda>r t. recorded (ia_merchant_reference a) (pr_outcome r) t)
      (\<lambda>e t. is_provider_error e \<longrightarrow> (\<exists>out. recorded (ia_merchant_reference a) out t)) s"
    by (simp add: mock_adapter_def mock_initiate_wpx)
  show "\<exists>r. ad_query_payment (mock_adapter E) reference s = (Inr r, s) \<and> pr_outcome r = out"
    if "recorded reference out s"
    using that by (auto simp: recorded_def mock_adapter_def mock_query_payment_def mbind_def
        gets_def ret_def)
qed

text \<open>An adapter writes its own records and nothing else.\<close>

locale adapter_frame = state_relation R
  for R :: "'z provider_st_scheme \<Rightarrow> 'z provider_st_scheme \<Rightarrow> bool" +
  assumes frame_mock: "R s (s\<lparr>mock_transactions := ts\<rparr>)"
begin

lemma upholds_lift_sum: "upholds R (lift_sum r)"
  unfolding lift_sum_def by (intro upholds_case_sum combinator_rules)

lemma upholds_mock_initiate: "upholds R (mock_initiate_payment E a)"
  unfolding mock_initiate_payment_def Let_def
  by (intro combinator_rules upholds_if upholds_modify frame_mock upholds_lift_sum)

lemma upholds_mock_others:
  "upholds R (mock_query_payment reference)"
  "upholds R (mock_process_callback E secret body signature)"
  "upholds R (mock_refund E reference amount)"
  "upholds R (mock_reverse reference)"
  "upholds R (mock_reconcile reference)"
  unfolding mock_query_payment_def mock_process_callback_def mock_refund_def mock_reverse_def
    mock_reconcile_def
  by (intro combinator_rules upholds_if upholds_case_option upholds_lift_sum)+

lemma upholds_adapter:
  assumes "get_adapter E p = Inr ad"
  shows "upholds R (ad_initiate_payment ad a)" "upholds R (ad_query_payment ad reference)"
    "upholds R (ad_process_callback ad body signature)" "upholds R (ad_refund ad reference amount)"
    "upholds R (ad_reverse ad reference)" "upholds R (ad_reconcile ad reference)"
  using assms upholds_mock_initiate upholds_mock_others
  by (auto simp: get_adapter_def mock_adapter_def split: if_splits)

end

interpretation provider_logs: adapter_frame logs_grow
  by unfold_locales (auto simp: logs_grow_def later_def)

text \<open>
  Also (\<open>MockPaymentProviderAdapter\<close>): after an initiation, whether the answer arrived or timed out,
  a query under our own reference answers the outcome that the provider recorded, which after a
  simulated timeout is success; and a callback built by \<open>build_mock_callback_payload\<close> is accepted
  and parsed back, while one with any other ASCII signature is refused.
\<close>

theorem mock_adapter_contract:
  assumes "is_ascii (sign E DEFAULT_CALLBACK_SECRET (fst (build_mock_callback_payload E ev ref out
             DEFAULT_CALLBACK_SECRET)))"
    and "sign E DEFAULT_CALLBACK_SECRET (fst (build_mock_callback_payload E ev ref out
             DEFAULT_CALLBACK_SECRET)) \<noteq> []"
    and "e_json_loads E body = Some (JObj [(''event_id'', JStr ev),
      (''provider_reference'', JStr ref), (''outcome'', JStr (outcome_value out))])"
    and "is_ascii other"
    and "build_mock_callback_payload E ev ref out DEFAULT_CALLBACK_SECRET = (body, signature)"
    and "mock_initiate_payment E a s = (res, t)"
    and "map_of (ia_metadata a) ''mock_outcome'' = Some (JStr hint)"
    and "res = Inr r \<or> res = Inl (ProviderTimeoutError m)"
  shows "(\<exists>q. mock_query_payment (ia_merchant_reference a) t = (Inr q, t) \<and>
      pr_outcome q = (if hint = ''failed'' then OFailed
                      else if hint = ''pending'' then OPending else OSuccessful) \<and>
      (hint = ''timeout'' \<longrightarrow> res = Inl (ProviderTimeoutError m) \<and> pr_outcome q = OSuccessful)) \<and>
    (\<exists>p. mock_process_callback E DEFAULT_CALLBACK_SECRET body signature u = (Inr p, u) \<and>
      cb_external_event_id p = ev \<and> cb_provider_reference p = ref \<and> cb_outcome p = out) \<and>
    (other \<noteq> signature \<longrightarrow> (\<exists>msg. mock_process_callback E DEFAULT_CALLBACK_SECRET body other u =
       (Inl (InvalidCallbackSignatureError msg), u)))"
proof (intro conjI)
  show "\<exists>q. mock_query_payment (ia_merchant_reference a) t = (Inr q, t) \<and>
      pr_outcome q = (if hint = ''failed'' then OFailed
                      else if hint = ''pending'' then OPending else OSuccessful) \<and>
      (hint = ''timeout'' \<longrightarrow> res = Inl (ProviderTimeoutError m) \<and> pr_outcome q = OSuccessful)"
    using assms(6-8)
    by (auto simp: mock_initiate_payment_def Let_def outcome_hint_def actual_outcome_def lift_sum_def
        mbind_def draw_def gets_def modify_def mseq_def ret_def raise_def integrity_error_def
        mock_query_payment_def split: if_splits)
  note body = assms(3)
  have sig: "signature = sign E DEFAULT_CALLBACK_SECRET body"
    using assms(5) by (auto simp: build_mock_callback_payload_def Let_def)
  have asc: "is_ascii signature" "signature \<noteq> []"
    using assms(1,2,5) sig by auto
  have "outcome_of (outcome_value out) = Inr out"
    by (cases out) (simp_all add: outcome_of_def)
  then show "\<exists>p. mock_process_callback E DEFAULT_CALLBACK_SECRET body signature u = (Inr p, u) \<and>
      cb_external_event_id p = ev \<and> cb_provider_reference p = ref \<and> cb_outcome p = out"
    using asc by (simp add: mock_process_callback_def sig [symmetric] verify_def
        compare_digest_def lift_sum_def mbind_def ret_def body parse_callback_def text_field_def)
  show "other \<noteq> signature \<longrightarrow> (\<exists>msg. mock_process_callback E DEFAULT_CALLBACK_SECRET body other u =
       (Inl (InvalidCallbackSignatureError msg), u))"
    using asc assms(4) by (auto simp: mock_process_callback_def sig [symmetric] verify_def
        compare_digest_def lift_sum_def mbind_def ret_def raise_def)
qed

definition example_provider :: payment_provider where
  "example_provider = \<lparr>pp_id = Uuid 6, pp_code = ''mock'', pp_name = ''Mock'', pp_is_sandbox = True,
     pp_is_active = True\<rparr>"

definition example_provider_st :: provider_st where
  "example_provider_st = control_number_st.extend (example_cn_st [example_cn (OwnerBill (Uuid 3))])
     (provider_st.fields [example_provider] [] [])"

definition example_initiate_args :: initiate_args where
  "example_initiate_args = \<lparr>ia_amount = 30000, ia_currency = ''TZS'', ia_control_number = ''9'',
     ia_payer_reference = [], ia_merchant_reference = ''PAY-1'',
     ia_metadata = [(''mock_outcome'', JStr ''timeout'')]\<rparr>"

definition example_callback_env :: env where
  "example_callback_env = example_env\<lparr>e_hmac := \<lambda>_ _. ''s'',
     e_json_loads := \<lambda>_. Some (JObj [(''event_id'', JStr ''E1''),
       (''provider_reference'', JStr ''R1''), (''outcome'', JStr ''successful'')])\<rparr>"

theorem mock_adapter_contract_witness:
  "\<exists>q t m. mock_initiate_payment example_callback_env example_initiate_args example_provider_st =
       (Inl (ProviderTimeoutError m), t) \<and>
     mock_query_payment ''PAY-1'' t = (Inr q, t) \<and> pr_outcome q = OSuccessful"
proof -
  let ?E = example_callback_env
  have "wpx (mock_initiate_payment ?E example_initiate_args) (\<lambda>_ _. False)
      (\<lambda>e _. \<exists>m. e = ProviderTimeoutError m) example_provider_st"
    by (simp add: mock_initiate_payment_def example_initiate_args_def outcome_hint_def
        actual_outcome_def Let_def example_provider_st_def provider_st.defs control_number_st.defs)
  then obtain m t where t: "mock_initiate_payment ?E example_initiate_args example_provider_st =
      (Inl (ProviderTimeoutError m), t)"
    by (auto simp: wpx_def split: prod.splits sum.splits)
  have sig: "sign ?E secret body = ''s''" for secret body
    by (simp add: sign_def example_callback_env_def)
  have asc: "is_ascii ''s''"
    by code_simp
  obtain body signature where b: "build_mock_callback_payload ?E ''E1'' ''R1'' OSuccessful
      DEFAULT_CALLBACK_SECRET = (body, signature)"
    by (meson surj_pair)
  have loads: "e_json_loads ?E body = Some (JObj [(''event_id'', JStr ''E1''),
      (''provider_reference'', JStr ''R1''), (''outcome'', JStr (outcome_value OSuccessful))])"
    by (simp add: example_callback_env_def)
  have hint: "map_of (ia_metadata example_initiate_args) ''mock_outcome'' = Some (JStr ''timeout'')"
    and ref: "ia_merchant_reference example_initiate_args = ''PAY-1''"
    by (simp_all add: example_initiate_args_def)
  have "\<exists>q. mock_query_payment ''PAY-1'' t = (Inr q, t) \<and> pr_outcome q = OSuccessful"
    using mock_adapter_contract [OF _ _ loads asc b t hint, of undefined m example_provider_st]
    by (auto simp: sig asc ref)
  with t show ?thesis
    by blast
qed

end
