(* ===== verification/Payments.thy ===== *)
theory Payments
  imports Providers
begin

text \<open>
  The payment orchestrator: \<open>apps/payments/models.py\<close> (the row is in \<open>Ledger\<close>), \<open>services.py\<close> and
  \<open>views.py\<close>, with the receipts it issues (\<open>apps/receipts/models.py\<close>, \<open>services.py\<close>,
  \<open>views.py\<close>). A service takes the payment object its caller loaded and answers it updated.
\<close>

datatype callback_outcome = CProcessed | CDuplicate | CUnmatched | CInvalidSignature

record callback_event =
  ce_id :: uuid
  ce_provider :: uuid
  ce_external_event_id :: string
  ce_payment :: "uuid option"
  ce_outcome :: callback_outcome
  ce_raw_payload :: json

record receipt =
  r_id :: uuid
  r_tenant :: uuid
  r_payment :: uuid
  r_receipt_number :: string
  r_issued_at :: time
  r_institution_name :: string
  r_customer_name :: string
  r_customer_name_lookup_hash :: string
  r_bill_number :: string
  r_control_number :: string
  r_payment_reference :: string
  r_amount :: money
  r_currency :: string
  r_payment_channel_label :: string
  r_remaining_balance_at_issue :: "money option"

record payment_st = provider_st +
  payments :: "payment list"
  callback_events :: "callback_event list"
  receipts :: "receipt list"

subsection \<open>\<open>Payment\<close>\<close>

fun PAYMENT_TRANSITIONS :: "payment_status \<Rightarrow> payment_status list" where
  "PAYMENT_TRANSITIONS INITIATED = [PENDING, SUCCESSFUL, FAILED, UNKNOWN]"
| "PAYMENT_TRANSITIONS PENDING = [SUCCESSFUL, FAILED, UNKNOWN, PExpired]"
| "PAYMENT_TRANSITIONS UNKNOWN = [SUCCESSFUL, FAILED]"
| "PAYMENT_TRANSITIONS SUCCESSFUL = [REVERSED, REFUNDED]"
| "PAYMENT_TRANSITIONS FAILED = []"
| "PAYMENT_TRANSITIONS PExpired = []"
| "PAYMENT_TRANSITIONS REVERSED = []"
| "PAYMENT_TRANSITIONS REFUNDED = []"

definition payment_transition_to ::
  "env \<Rightarrow> payment \<Rightarrow> payment_status \<Rightarrow> string \<Rightarrow> ('z payment_st_scheme, payment) pm" where
  "payment_transition_to E p new failure_reason =
     (if new \<notin> set (PAYMENT_TRANSITIONS (p_status p))
      then raise (ValidationError (''Cannot transition payment from ''
             @ payment_status_value (p_status p) @ '' to '' @ payment_status_value new @ ''.''))
      else
        mbind (if new \<in> {SUCCESSFUL, FAILED, REVERSED, REFUNDED}
               then mbind (now E) (\<lambda>t. ret (p\<lparr>p_status := new, p_completed_at := Some t\<rparr>))
               else ret (p\<lparr>p_status := new\<rparr>)) (\<lambda>p1.
        let p2 = (if failure_reason \<noteq> [] then p1\<lparr>p_failure_reason := failure_reason\<rparr> else p1)
        in mseq (modify (\<lambda>s. s\<lparr>payments := row_update p_id (p_id p)
                  (\<lambda>r. r\<lparr>p_status := p_status p2, p_completed_at := p_completed_at p2,
                         p_failure_reason := p_failure_reason p2\<rparr>) (payments s)\<rparr>))
             (ret p2)))"

definition find_payment :: "uuid \<times> string \<Rightarrow> 'z payment_st_scheme \<Rightarrow> payment option" where
  "find_payment k s = (if snd k = [] then None else
     List.find (\<lambda>p. p_tenant p = fst k \<and> p_idempotency_key p = snd k) (payments s))"

text \<open>\<open>Payment.save\<close> of a new row, with the constraints of the table.\<close>

definition insert_payment :: "env \<Rightarrow> payment \<Rightarrow> ('z payment_st_scheme, payment) pm" where
  "insert_payment E p =
     mbind (if p_merchant_reference p = []
            then mbind draw (\<lambda>k. ret (p\<lparr>p_merchant_reference :=
                   ''PAY-'' @ py_upper (take 16 (e_hex E k))\<rparr>))
            else ret p) (\<lambda>p1.
     let p2 = p1\<lparr>p_payer_reference_lookup_hash := compute_lookup_hash E (p_payer_reference p1)\<rparr> in
     if 100 < length (p_payer_reference p2) then raise (ValueError ''exceeds max_length'')
     else mbind (gets (\<lambda>s. find_payment (p_tenant p2, p_idempotency_key p2) s \<noteq> None \<or>
              list_ex (\<lambda>q. p_merchant_reference q = p_merchant_reference p2) (payments s))) (\<lambda>clash.
       if clash then integrity_error ''unique constraint of Payment''
       else mseq (modify (\<lambda>s. s\<lparr>payments := p2 # payments s\<rparr>)) (ret p2)))"

subsection \<open>What a payment points at\<close>

definition payment_control_number :: "payment \<Rightarrow> ('z payment_st_scheme, control_number) pm" where
  "payment_control_number p = require (DoesNotExist ''ControlNumber'')
     (\<lambda>s. row_get cn_id (p_control_number p) (control_numbers s))"

definition control_number_bill :: "control_number \<Rightarrow> ('z payment_st_scheme, bill option) pm" where
  "control_number_bill cn =
     (case cn_bill cn of
        None \<Rightarrow> ret None
      | Some bid \<Rightarrow> mbind (require (DoesNotExist ''Bill'') (\<lambda>s. row_get b_id bid (bills s)))
                     (\<lambda>b. ret (Some b)))"

definition payment_bill :: "payment \<Rightarrow> ('z payment_st_scheme, bill option) pm" where
  "payment_bill p = mbind (payment_control_number p) control_number_bill"

definition payment_provider_of :: "payment \<Rightarrow> ('z payment_st_scheme, payment_provider) pm" where
  "payment_provider_of p = require (DoesNotExist ''PaymentProvider'')
     (\<lambda>s. row_get pp_id (p_provider p) (payment_providers s))"

definition customer_for_payment :: "payment \<Rightarrow> ('z payment_st_scheme, customer) pm" where
  "customer_for_payment p =
     mbind (payment_control_number p) (\<lambda>cn.
     mbind (control_number_bill cn) (\<lambda>ob.
     mbind (require (DoesNotExist ''CustomerAccount'') (\<lambda>s.
              case ob of Some b \<Rightarrow> Some (b_customer_account b) | None \<Rightarrow> cn_customer_account cn)) (\<lambda>aid.
     mbind (require (DoesNotExist ''Customer'') (account_customer aid)) (\<lambda>(a, c). ret c))))"

subsection \<open>Webhooks and notifications of a payment\<close>

definition dispatch_payment :: "env \<Rightarrow> payment \<Rightarrow> string \<Rightarrow> ('z payment_st_scheme, unit) pm" where
  "dispatch_payment E p event =
     mbind (payment_control_number p) (\<lambda>cn.
     mbind (control_number_bill cn) (\<lambda>ob.
     mseq (dispatch_event E (p_tenant p) event (JObj
        [(''payment_id'', JStr (e_str_uuid E (p_id p))),
         (''merchant_reference'', JStr (p_merchant_reference p)),
         (''provider_reference'', JStr (p_provider_reference p)),
         (''control_number'', JStr (cn_value cn)),
         (''bill_number'', case ob of Some b \<Rightarrow> JStr (b_bill_number b) | None \<Rightarrow> JNull),
         (''amount'', JStr (e_str_dec E (p_amount p))), (''currency'', JStr (p_currency p)),
         (''status'', JStr (payment_status_value (p_status p)))]))
       (ret ())))"

definition notification_context ::
  "payment \<Rightarrow> customer \<Rightarrow> (string \<times> string) list \<Rightarrow> ('z payment_st_scheme, (string \<times> string) list) pm" where
  "notification_context p c extra =
     mbind (payment_control_number p) (\<lambda>cn.
     mbind (control_number_bill cn) (\<lambda>ob.
     mbind (the_tenant (p_tenant p)) (\<lambda>t.
       ret (extra @
         [(''institution_name'', t_name t), (''customer_name'', c_full_name c),
          (''bill_number'', case ob of Some b \<Rightarrow> b_bill_number b | None \<Rightarrow> []),
          (''control_number'', cn_value cn), (''payment_reference'', p_merchant_reference p)]))))"

definition notify_payment ::
  "env \<Rightarrow> payment \<Rightarrow> notification_event \<Rightarrow> (string \<times> string) list \<Rightarrow> ('z payment_st_scheme, unit) pm" where
  "notify_payment E p event extra =
     mbind (customer_for_payment p) (\<lambda>c.
     mbind (notification_context p c extra) (\<lambda>context_vars.
     mseq (send_notification E (p_tenant p) event context_vars (c_email c) (c_phone_number c))
       (ret ())))"

text \<open>\<open>_notify_payment_successful\<close>: the most specific of three events.\<close>

definition notify_payment_successful ::
  "env \<Rightarrow> payment \<Rightarrow> receipt \<Rightarrow> ('z payment_st_scheme, unit) pm" where
  "notify_payment_successful E p rc =
     mbind (payment_bill p) (\<lambda>ob.
     mbind (gets (\<lambda>s. case ob of Some b \<Rightarrow> e_str_dec E (balance s b) | None \<Rightarrow> [])) (\<lambda>remaining.
       notify_payment E p
         (case ob of
            Some b \<Rightarrow> if b_status b = PAID then BILL_FULLY_PAID
                      else if b_status b = PARTIALLY_PAID then PAYMENT_PARTIAL
                      else PAYMENT_SUCCESSFUL
          | None \<Rightarrow> PAYMENT_SUCCESSFUL)
         [(''paid_amount'', e_str_dec E (p_amount p)), (''remaining_balance'', remaining),
          (''receipt_number'', r_receipt_number rc)]))"

subsection \<open>Receipts\<close>

definition find_receipt :: "uuid \<Rightarrow> 'z payment_st_scheme \<Rightarrow> receipt option" where
  "find_receipt pid s = List.find (\<lambda>r. r_payment r = pid) (receipts s)"

definition insert_receipt :: "env \<Rightarrow> receipt \<Rightarrow> ('z payment_st_scheme, receipt) pm" where
  "insert_receipt E r =
     mbind (if r_receipt_number r = []
            then mbind (now E) (\<lambda>t. mbind draw (\<lambda>k. ret (r\<lparr>r_receipt_number :=
                   ''RCPT-'' @ e_ymd E t @ ''-'' @ py_upper (take 8 (e_hex E k))\<rparr>)))
            else ret r) (\<lambda>r1.
     let r2 = r1\<lparr>r_customer_name_lookup_hash := compute_lookup_hash E (r_customer_name r1)\<rparr> in
     mbind (gets (\<lambda>s. find_receipt (r_payment r2) s \<noteq> None \<or>
              list_ex (\<lambda>q. r_tenant q = r_tenant r2 \<and> r_receipt_number q = r_receipt_number r2)
                (receipts s))) (\<lambda>clash.
       if clash then integrity_error ''unique constraint of Receipt''
       else mseq (modify (\<lambda>s. s\<lparr>receipts := r2 # receipts s\<rparr>)) (ret r2)))"

definition payment_channel_label :: "payment \<Rightarrow> ('z payment_st_scheme, string) pm" where
  "payment_channel_label p =
     (case p_channel p of
        None \<Rightarrow> mbind (payment_provider_of p) (\<lambda>pr. ret (provider_str pr))
      | Some ch \<Rightarrow>
          mbind (require (DoesNotExist ''PaymentChannel'')
                   (\<lambda>s. row_get pc_id ch (payment_channels s))) (\<lambda>c.
          mbind (require (DoesNotExist ''PaymentProvider'')
                   (\<lambda>s. row_get pp_id (pc_provider c) (payment_providers s))) (\<lambda>pr.
          ret (channel_str c pr))))"

text \<open>
  The query after the \<open>IntegrityError\<close> is guarded: the insert has no savepoint, so the database
  refuses it until the transaction ends.
\<close>

definition generate_receipt :: "env \<Rightarrow> payment \<Rightarrow> ('z payment_st_scheme, receipt) pm" where
  "generate_receipt E p =
     mbind (gets (find_receipt (p_id p))) (\<lambda>existing.
     case existing of
       Some r \<Rightarrow> ret r
     | None \<Rightarrow>
         if p_status p \<noteq> SUCCESSFUL
         then raise (ValidationError ''A receipt can only be issued for a payment already confirmed SUCCESSFUL'')
         else
           mbind (payment_control_number p) (\<lambda>cn.
           mbind (control_number_bill cn) (\<lambda>ob.
           mbind (case ob of
                    Some b \<Rightarrow> mbind (require (DoesNotExist ''Customer'')
                                (account_customer (b_customer_account b))) (\<lambda>(a, c). ret (c_full_name c))
                  | None \<Rightarrow> (case cn_customer_account cn of
                        Some aid \<Rightarrow> mbind (require (DoesNotExist ''Customer'') (account_customer aid))
                                     (\<lambda>(a, c). ret (c_full_name c))
                      | None \<Rightarrow> ret [])) (\<lambda>name.
           mbind (the_tenant (p_tenant p)) (\<lambda>t.
           mbind (payment_channel_label p) (\<lambda>label.
           mbind (gets (\<lambda>s. map_option (balance s) ob)) (\<lambda>remaining.
           mbind fresh_uuid (\<lambda>i.
           mbind (now E) (\<lambda>issued.
           catch (insert_receipt E
               \<lparr>r_id = i, r_tenant = p_tenant p, r_payment = p_id p, r_receipt_number = [],
                r_issued_at = issued, r_institution_name = t_name t, r_customer_name = name,
                r_customer_name_lookup_hash = [],
                r_bill_number = (case ob of Some b \<Rightarrow> b_bill_number b | None \<Rightarrow> []),
                r_control_number = cn_value cn, r_payment_reference = p_merchant_reference p,
                r_amount = p_amount p, r_currency = p_currency p, r_payment_channel_label = label,
                r_remaining_balance_at_issue = remaining\<rparr>)
             (\<lambda>e. if is_integrity_error e
                  then db_guard (require (DoesNotExist ''Receipt'') (find_receipt (p_id p)))
                  else raise e))))))))))"

subsection \<open>Effects of an outcome\<close>

definition post_settlement_ledger_entries ::
  "env \<Rightarrow> payment \<Rightarrow> ('z payment_st_scheme, unit) pm" where
  "post_settlement_ledger_entries E p =
     mseq (post_entry E (p_tenant p) PAYMENT_RECEIVED CUSTOMER_ACCOUNT (p_amount p) (p_currency p)
             (p_merchant_reference p) (Some (MPayment, p_id p)) None (JObj []))
     (mseq (post_entry E (p_tenant p) INSTITUTION_ENTITLEMENT INSTITUTION_ACCOUNT (p_amount p)
             (p_currency p) (p_merchant_reference p) (Some (MPayment, p_id p)) None (JObj []))
       (ret ()))"

definition allocate_to_bill :: "env \<Rightarrow> payment \<Rightarrow> ('z payment_st_scheme, unit) pm" where
  "allocate_to_bill E p =
     mbind (payment_bill p) (\<lambda>ob.
     case ob of
       None \<Rightarrow> ret ()
     | Some b \<Rightarrow>
         mbind fresh_uuid (\<lambda>i.
         mseq (modify (\<lambda>s. s\<lparr>payment_allocations :=
                 \<lparr>pa_id = i, pa_tenant = p_tenant p, pa_payment = p_id p, pa_bill = b_id b,
                  pa_amount = p_amount p\<rparr> # payment_allocations s\<rparr>))
         (mbind (gets (\<lambda>s. balance s b)) (\<lambda>bal.
           if b_status b \<notin> {ACTIVE, PARTIALLY_PAID} then ret ()
           else if bal \<le> 0 then mseq (bill_transition_to E b PAID) (ret ())
           else if b_status b = ACTIVE then mseq (bill_transition_to E b PARTIALLY_PAID) (ret ())
           else ret ()))))"

text \<open>The three branches of \<open>_apply_outcome\<close> after the transition.\<close>

definition payment_succeeded ::
  "env \<Rightarrow> user option \<Rightarrow> payment \<Rightarrow> ('z payment_st_scheme, unit) pm" where
  "payment_succeeded E actor p =
     mseq (audit_event E ''payment.successful'' actor (Some (p_tenant p)) (Some (MPayment, p_id p)))
     (mseq (post_settlement_ledger_entries E p)
     (mseq (record_payment_successful E p)
     (mseq (allocate_to_bill E p)
     (mbind (generate_receipt E p) (\<lambda>rc.
      mseq (notify_payment_successful E p rc)
        (dispatch_payment E p ''payment.successful''))))))"

definition payment_failed ::
  "env \<Rightarrow> user option \<Rightarrow> payment \<Rightarrow> ('z payment_st_scheme, unit) pm" where
  "payment_failed E actor p =
     mseq (audit_event E ''payment.failed'' actor (Some (p_tenant p)) (Some (MPayment, p_id p)))
     (mseq (record_payment_failed E p)
     (mseq (notify_payment E p PAYMENT_FAILED [])
       (dispatch_payment E p ''payment.failed'')))"

definition payment_pending ::
  "env \<Rightarrow> user option \<Rightarrow> payment \<Rightarrow> ('z payment_st_scheme, unit) pm" where
  "payment_pending E actor p =
     mseq (audit_event E ''payment.pending'' actor (Some (p_tenant p)) (Some (MPayment, p_id p)))
     (mseq (notify_payment E p PAYMENT_PENDING [])
       (dispatch_payment E p ''payment.pending''))"

fun outcome_to_status :: "outcome \<Rightarrow> payment_status" where
  "outcome_to_status OSuccessful = SUCCESSFUL"
| "outcome_to_status OFailed = FAILED"
| "outcome_to_status OPending = PENDING"
| "outcome_to_status OUnknown = UNKNOWN"

definition apply_outcome ::
  "env \<Rightarrow> user option \<Rightarrow> payment \<Rightarrow> outcome \<Rightarrow> ('z payment_st_scheme, payment) pm" where
  "apply_outcome E actor p out =
     (if out = OUnknown then
        (if p_status p \<in> {INITIATED, PENDING}
         then mbind (payment_transition_to E p UNKNOWN []) (\<lambda>p1.
              mseq (audit_event E ''payment.unknown'' actor (Some (p_tenant p1))
                      (Some (MPayment, p_id p1))) (ret p1))
         else ret p)
      else
        let target = outcome_to_status out in
        if p_status p = target then ret p
        else mbind (payment_transition_to E p target []) (\<lambda>p1.
          mseq (if target = SUCCESSFUL then payment_succeeded E actor p1
                else if target = FAILED then payment_failed E actor p1
                else payment_pending E actor p1)
            (ret p1)))"

subsection \<open>Initiation, query, refund and reversal\<close>

record payment_args =
  pg_control_number :: uuid
  pg_provider :: payment_provider
  pg_channel :: "uuid option"
  pg_amount :: money
  pg_payer_reference :: string
  pg_metadata :: "(string \<times> json) list"

definition create_payment ::
  "env \<Rightarrow> uuid \<times> string \<Rightarrow> payment_args \<Rightarrow> ('z payment_st_scheme, payment) pm" where
  "create_payment E k a =
     mbind (the_tenant (fst k)) (\<lambda>t.
     mbind fresh_uuid (\<lambda>i.
     mbind (now E) (\<lambda>initiated.
     insert_payment E
       \<lparr>p_id = i, p_tenant = fst k, p_control_number = pg_control_number a,
        p_provider = pp_id (pg_provider a), p_channel = pg_channel a, p_status = INITIATED,
        p_amount = pg_amount a, p_currency = t_default_currency t,
        p_payer_reference = pg_payer_reference a, p_payer_reference_lookup_hash = [],
        p_merchant_reference = [], p_provider_reference = [], p_idempotency_key = snd k,
        p_initiated_at = initiated, p_completed_at = None, p_failure_reason = [],
        p_raw_provider_response = JObj [], p_metadata = JObj [], p_settlement_batch = None\<rparr>)))"

definition TIMEOUT_REASON :: string where
  "TIMEOUT_REASON = ''Provider request timed out; status must be confirmed via query_payment before any further action.''"

text \<open>What follows the call of the adapter: one continuation per way it can end.\<close>

definition initiation_answered ::
  "env \<Rightarrow> user option \<Rightarrow> payment \<Rightarrow> provider_result \<Rightarrow> ('z payment_st_scheme, payment) pm" where
  "initiation_answered E actor p r =
     (let p1 = p\<lparr>p_provider_reference := pr_provider_reference r,
                 p_raw_provider_response := pr_raw_response r\<rparr>
      in mseq (modify (\<lambda>s. s\<lparr>payments := row_update p_id (p_id p)
                (\<lambda>q. q\<lparr>p_provider_reference := pr_provider_reference r,
                       p_raw_provider_response := pr_raw_response r\<rparr>) (payments s)\<rparr>))
           (apply_outcome E actor p1 (pr_outcome r)))"

definition initiation_timed_out ::
  "env \<Rightarrow> user option \<Rightarrow> payment \<Rightarrow> ('z payment_st_scheme, payment) pm" where
  "initiation_timed_out E actor p =
     mbind (payment_transition_to E p UNKNOWN TIMEOUT_REASON) (\<lambda>p1.
     mseq (audit_event E ''payment.unknown'' actor (Some (p_tenant p1)) (Some (MPayment, p_id p1)))
       (ret p1))"

definition initiation_failed ::
  "env \<Rightarrow> user option \<Rightarrow> payment \<Rightarrow> string \<Rightarrow> ('z payment_st_scheme, payment) pm" where
  "initiation_failed E actor p reason =
     mbind (payment_transition_to E p FAILED reason) (\<lambda>p1.
     mseq (record_audit_event E ''payment.failed'' actor (Some (p_tenant p1)) (Some (MPayment, p_id p1))
             None None (JObj [(''reason'', JStr reason)]))
     (mseq (record_payment_failed E p1)
     (mseq (notify_payment E p1 PAYMENT_FAILED [])
       (ret p1))))"

definition try_adapter :: "('s, 'a) pm \<Rightarrow> ('s, exn + 'a) pm" where
  "try_adapter m = catch (mbind m (\<lambda>x. ret (Inr x)))
     (\<lambda>e. if is_provider_error e then ret (Inl e) else raise e)"

definition initiate_payment ::
  "env \<Rightarrow> user option \<Rightarrow> uuid \<times> string \<Rightarrow> payment_args \<Rightarrow> ('z payment_st_scheme, payment) pm" where
  "initiate_payment E actor k a =
     mbind (gets (find_payment k)) (\<lambda>existing.
     case existing of
       Some p \<Rightarrow>
         mseq (audit_event E ''payment.initiation_deduplicated'' actor (Some (fst k))
                 (Some (MPayment, p_id p)))
           (ret p)
     | None \<Rightarrow>
         mbind (create_payment E k a) (\<lambda>p.
         mseq (audit_event E ''payment.initiated'' actor (Some (fst k)) (Some (MPayment, p_id p)))
         (mbind (lift_sum (get_adapter E (pg_provider a))) (\<lambda>ad.
          mbind (require (DoesNotExist ''ControlNumber'')
                   (\<lambda>s. row_get cn_id (pg_control_number a) (control_numbers s))) (\<lambda>cn.
          mbind (try_adapter (ad_initiate_payment ad
             \<lparr>ia_amount = pg_amount a, ia_currency = p_currency p, ia_control_number = cn_value cn,
              ia_payer_reference = pg_payer_reference a,
              ia_merchant_reference = p_merchant_reference p, ia_metadata = pg_metadata a\<rparr>)) (\<lambda>res.
          case res of
            Inr r \<Rightarrow> initiation_answered E actor p r
          | Inl (ProviderTimeoutError m) \<Rightarrow> initiation_timed_out E actor p
          | Inl e \<Rightarrow> initiation_failed E actor p (exn_text e)))))))"

definition query_payment ::
  "env \<Rightarrow> user option \<Rightarrow> payment \<Rightarrow> ('z payment_st_scheme, payment) pm" where
  "query_payment E actor p =
     mbind (payment_provider_of p) (\<lambda>pr.
     mbind (lift_sum (get_adapter E pr)) (\<lambda>ad.
     mbind (ad_query_payment ad (p_merchant_reference p)) (\<lambda>r.
     mbind (if pr_provider_reference r \<noteq> [] \<and> p_provider_reference p = []
            then mseq (modify (\<lambda>s. s\<lparr>payments := row_update p_id (p_id p)
                         (\<lambda>q. q\<lparr>p_provider_reference := pr_provider_reference r\<rparr>) (payments s)\<rparr>))
                   (ret (p\<lparr>p_provider_reference := pr_provider_reference r\<rparr>))
            else ret p) (\<lambda>p1.
     mseq (record_audit_event E ''payment.queried'' actor (Some (p_tenant p1))
             (Some (MPayment, p_id p1)) None None
             (JObj [(''provider_outcome'', JStr (outcome_value (pr_outcome r)))]))
       (apply_outcome E actor p1 (pr_outcome r))))))"

definition refund_payment ::
  "env \<Rightarrow> user option \<Rightarrow> money option \<Rightarrow> payment \<Rightarrow> ('z payment_st_scheme, payment) pm" where
  "refund_payment E actor amount p =
     (if p_status p \<noteq> SUCCESSFUL
      then raise (ValidationError ''Only a successful payment can be refunded.'')
      else
        let refund_amount = (case amount of Some m \<Rightarrow> m | None \<Rightarrow> p_amount p) in
        mbind (payment_provider_of p) (\<lambda>pr.
        mbind (lift_sum (get_adapter E pr)) (\<lambda>ad.
        mbind (ad_refund ad (p_provider_reference p) refund_amount) (\<lambda>r.
        if pr_outcome r \<noteq> OSuccessful then ret p
        else
          mbind (payment_transition_to E p REFUNDED []) (\<lambda>p1.
          mseq (record_audit_event E ''payment.refunded'' actor (Some (p_tenant p1))
                  (Some (MPayment, p_id p1)) None None
                  (JObj [(''amount'', JStr (e_str_dec E refund_amount))]))
          (mseq (record_payment_refunded E p1)
          (mseq (dispatch_payment E p1 ''payment.refunded'')
          (mseq (notify_payment E p1 PAYMENT_REFUNDED [])
            (ret p1)))))))))"

definition reverse_payment ::
  "env \<Rightarrow> user option \<Rightarrow> payment \<Rightarrow> ('z payment_st_scheme, payment) pm" where
  "reverse_payment E actor p =
     (if p_status p \<noteq> SUCCESSFUL
      then raise (ValidationError ''Only a successful payment can be reversed.'')
      else
        mbind (payment_provider_of p) (\<lambda>pr.
        mbind (lift_sum (get_adapter E pr)) (\<lambda>ad.
        mbind (ad_reverse ad (p_provider_reference p)) (\<lambda>r.
        if pr_outcome r \<noteq> OSuccessful then ret p
        else
          mbind (payment_transition_to E p REVERSED []) (\<lambda>p1.
          mseq (audit_event E ''payment.reversed'' actor (Some (p_tenant p1)) (Some (MPayment, p_id p1)))
          (mseq (record_payment_reversed E p1)
          (mseq (dispatch_payment E p1 ''payment.reversed'')
          (mseq (notify_payment E p1 PAYMENT_REVERSED [])
            (ret p1)))))))))"

subsection \<open>Callbacks\<close>

definition find_callback_event :: "uuid \<Rightarrow> string \<Rightarrow> 'z payment_st_scheme \<Rightarrow> callback_event option" where
  "find_callback_event pid ext s =
     List.find (\<lambda>e. ce_provider e = pid \<and> ce_external_event_id e = ext) (callback_events s)"

text \<open>\<open>PaymentCallbackEvent.objects.create\<close> under the constraint \<open>unique_provider_callback_event\<close>.\<close>

definition create_callback_event ::
  "uuid \<Rightarrow> string \<Rightarrow> uuid option \<Rightarrow> callback_outcome \<Rightarrow> json \<Rightarrow>
   ('z payment_st_scheme, callback_event) pm" where
  "create_callback_event pid ext payment out payload =
     mbind fresh_uuid (\<lambda>i.
     mbind (gets (\<lambda>s. ext \<noteq> [] \<and> find_callback_event pid ext s \<noteq> None)) (\<lambda>clash.
       if clash then integrity_error ''unique_provider_callback_event''
       else let e = \<lparr>ce_id = i, ce_provider = pid, ce_external_event_id = ext,
                     ce_payment = payment, ce_outcome = out, ce_raw_payload = payload\<rparr>
            in mseq (modify (\<lambda>s. s\<lparr>callback_events := e # callback_events s\<rparr>)) (ret e)))"

definition save_callback_event :: "callback_event \<Rightarrow> ('z payment_st_scheme, unit) pm" where
  "save_callback_event e = modify (\<lambda>s. s\<lparr>callback_events :=
     row_update ce_id (ce_id e) (\<lambda>_. e) (callback_events s)\<rparr>)"

text \<open>The handling of a second delivery of an event.\<close>

definition duplicate_callback ::
  "env \<Rightarrow> user option \<Rightarrow> payment_provider \<Rightarrow> callback_result \<Rightarrow>
   ('z payment_st_scheme, callback_event) pm" where
  "duplicate_callback E actor pr parsed =
     mbind (gets (find_callback_event (pp_id pr) (cb_external_event_id parsed))) (\<lambda>original.
     mbind (gets (\<lambda>s. case original of None \<Rightarrow> None
        | Some o1 \<Rightarrow> (case ce_payment o1 of None \<Rightarrow> None
            | Some pid \<Rightarrow> row_get p_id pid (payments s)))) (\<lambda>op.
     mbind (create_callback_event (pp_id pr) [] (map_option p_id op) CDuplicate
              (cb_raw_response parsed)) (\<lambda>dup.
     mseq (audit_event E ''payment.callback_duplicate'' actor (map_option p_tenant op)
             (Some (MPaymentCallbackEvent, ce_id dup)))
     (mseq (case op of Some p \<Rightarrow> mseq (record_payment_duplicate E p) (ret ()) | None \<Rightarrow> ret ())
       (ret dup)))))"

definition first_callback ::
  "env \<Rightarrow> user option \<Rightarrow> callback_event \<Rightarrow> callback_result \<Rightarrow>
   ('z payment_st_scheme, callback_event) pm" where
  "first_callback E actor ev parsed =
     mbind (gets (\<lambda>s. List.find (\<lambda>p. p_provider_reference p = cb_provider_reference parsed)
              (payments s))) (\<lambda>op.
     case op of
       None \<Rightarrow>
         let ev1 = ev\<lparr>ce_outcome := CUnmatched\<rparr>
         in mseq (save_callback_event ev1)
              (mseq (audit_event E ''payment.callback_unmatched'' actor None
                       (Some (MPaymentCallbackEvent, ce_id ev1)))
                 (ret ev1))
     | Some p \<Rightarrow>
         let ev1 = ev\<lparr>ce_payment := Some (p_id p)\<rparr>
         in mseq (save_callback_event ev1)
              (mseq (apply_outcome E actor p (cb_outcome parsed)) (ret ev1)))"

definition process_callback ::
  "env \<Rightarrow> user option \<Rightarrow> payment_provider \<Rightarrow> string \<Rightarrow> string \<Rightarrow>
   ('z payment_st_scheme, callback_event) pm" where
  "process_callback E actor pr body signature =
     mbind (lift_sum (get_adapter E pr)) (\<lambda>ad.
     mbind (catch (mbind (ad_process_callback ad body signature) (\<lambda>x. ret (Some x)))
              (\<lambda>e. case e of InvalidCallbackSignatureError m \<Rightarrow> ret None | _ \<Rightarrow> raise e)) (\<lambda>res.
     case res of
       None \<Rightarrow>
         mbind (create_callback_event (pp_id pr) [] None CInvalidSignature (JObj [])) (\<lambda>ev.
         mseq (audit_event E ''payment.callback_invalid_signature'' actor None
                 (Some (MPaymentCallbackEvent, ce_id ev)))
           (ret ev))
     | Some parsed \<Rightarrow>
         mbind (catch (mbind (atomic (create_callback_event (pp_id pr) (cb_external_event_id parsed)
                                None CProcessed (cb_raw_response parsed))) (\<lambda>ev. ret (Some ev)))
                  (\<lambda>e. if is_integrity_error e then ret None else raise e)) (\<lambda>created.
         case created of
           None \<Rightarrow> duplicate_callback E actor pr parsed
         | Some ev \<Rightarrow> first_callback E actor ev parsed)))"

subsection \<open>Views\<close>

definition PAYMENTS_CAN_MANAGE :: "tenant_role list" where
  "PAYMENTS_CAN_MANAGE = [TENANT_ADMIN, FINANCE_MANAGER, BILLING_OFFICER, ACCOUNTANT]"

definition payment_list :: "uuid option \<Rightarrow> ('z payment_st_scheme, payment list option) pm" where
  "payment_list tenant =
     (case tenant of None \<Rightarrow> ret None
      | Some tid \<Rightarrow> gets (\<lambda>s. Some (filter (\<lambda>p. p_tenant p = tid) (payments s))))"

definition tenant_payment :: "uuid \<Rightarrow> uuid option \<Rightarrow> 'z payment_st_scheme \<Rightarrow> payment option" where
  "tenant_payment pk tenant s =
     List.find (\<lambda>p. p_id p = pk \<and> Some (p_tenant p) = tenant) (payments s)"

definition payment_detail :: "uuid option \<Rightarrow> uuid \<Rightarrow> ('z payment_st_scheme, payment option) pm" where
  "payment_detail tenant pk =
     (if tenant = None then ret None
      else mbind (require Http404 (tenant_payment pk tenant)) (\<lambda>p. ret (Some p)))"

record pay_form =
  py_amount :: decimal
  py_payer_reference :: string
  py_mock_outcome :: string

definition pay_form_clean :: "pay_form \<Rightarrow> bool" where
  "pay_form_clean f \<longleftrightarrow> money_field_clean (py_amount f) \<and> \<not> below_float_cent (py_amount f) \<and>
     length (py_payer_reference f) \<le> 100 \<and>
     py_mock_outcome f \<in> set [''successful'', ''failed'', ''pending'', ''timeout'']"

definition pay_bill ::
  "env \<Rightarrow> user option \<Rightarrow> uuid option \<Rightarrow> uuid \<Rightarrow> pay_form option \<Rightarrow>
   ('z payment_st_scheme, payment option) pm" where
  "pay_bill E user tenant bill_pk form = require_tenant_role PAYMENTS_CAN_MANAGE user tenant
     (mbind (require Http404 (tenant_bill bill_pk tenant)) (\<lambda>b.
      mbind (gets (find_control_number (OwnerBill (b_id b)))) (\<lambda>ocn.
      case (ocn, form, tenant) of
        (Some cn, Some f, Some tid) \<Rightarrow>
          if \<not> pay_form_clean f then ret None
          else mbind (require (DoesNotExist ''PaymentProvider'')
                 (\<lambda>s. List.find (\<lambda>p. pp_code p = ''mock'') (payment_providers s))) (\<lambda>pr.
               mbind (initiate_payment E user (tid, [])
                 \<lparr>pg_control_number = cn_id cn, pg_provider = pr, pg_channel = None,
                  pg_amount = to_hundredths (py_amount f),
                  pg_payer_reference = py_payer_reference f,
                  pg_metadata = [(''mock_outcome'', JStr (py_mock_outcome f))]\<rparr>)
               (\<lambda>p. ret (Some p)))
      | _ \<Rightarrow> ret None)))"

definition payment_query ::
  "env \<Rightarrow> user option \<Rightarrow> uuid option \<Rightarrow> uuid \<Rightarrow> bool \<Rightarrow> ('z payment_st_scheme, unit) pm" where
  "payment_query E user tenant pk post = require_tenant_role PAYMENTS_CAN_MANAGE user tenant
     (mbind (require Http404 (tenant_payment pk tenant)) (\<lambda>p.
        mwhen post (mseq (query_payment E user p) (ret ()))))"

definition catch_validation :: "('s, unit) pm \<Rightarrow> ('s, unit) pm" where
  "catch_validation m = catch m (\<lambda>e. case e of ValidationError _ \<Rightarrow> ret () | _ \<Rightarrow> raise e)"

definition payment_refund ::
  "env \<Rightarrow> user option \<Rightarrow> uuid option \<Rightarrow> uuid \<Rightarrow> bool \<Rightarrow> ('z payment_st_scheme, unit) pm" where
  "payment_refund E user tenant pk post = require_tenant_role PAYMENTS_CAN_MANAGE user tenant
     (mbind (require Http404 (tenant_payment pk tenant)) (\<lambda>p.
        mwhen post (catch_validation (mseq (refund_payment E user None p) (ret ())))))"

definition payment_reverse ::
  "env \<Rightarrow> user option \<Rightarrow> uuid option \<Rightarrow> uuid \<Rightarrow> bool \<Rightarrow> ('z payment_st_scheme, unit) pm" where
  "payment_reverse E user tenant pk post = require_tenant_role PAYMENTS_CAN_MANAGE user tenant
     (mbind (require Http404 (tenant_payment pk tenant)) (\<lambda>p.
        mwhen post (catch_validation (mseq (reverse_payment E user p) (ret ())))))"

text \<open>The HTTP status of \<open>mock_provider_callback\<close>.\<close>

definition mock_provider_callback ::
  "env \<Rightarrow> string \<Rightarrow> string \<Rightarrow> ('z payment_st_scheme, nat) pm" where
  "mock_provider_callback E body signature =
     mbind (gets (\<lambda>s. List.find (\<lambda>p. pp_code p = ''mock'') (payment_providers s))) (\<lambda>opr.
     case opr of
       None \<Rightarrow> ret 400
     | Some pr \<Rightarrow>
         mbind (process_callback E None pr body signature) (\<lambda>ev.
         ret (case ce_outcome ev of
                CInvalidSignature \<Rightarrow> 401 | CUnmatched \<Rightarrow> 404 | _ \<Rightarrow> 200)))"

definition receipt_list :: "uuid option \<Rightarrow> ('z payment_st_scheme, receipt list option) pm" where
  "receipt_list tenant =
     (case tenant of None \<Rightarrow> ret None
      | Some tid \<Rightarrow> gets (\<lambda>s. Some (take 200 (filter (\<lambda>r. r_tenant r = tid) (receipts s)))))"

definition receipt_detail :: "uuid option \<Rightarrow> uuid \<Rightarrow> ('z payment_st_scheme, receipt option) pm" where
  "receipt_detail tenant pk =
     (if tenant = None then ret None
      else mbind (require Http404 (\<lambda>s. List.find (\<lambda>r. r_id r = pk \<and> Some (r_tenant r) = tenant)
             (receipts s))) (\<lambda>r. ret (Some r)))"

end
