(* ===== verification/PaymentFrames.thy ===== *)
theory PaymentFrames
  imports Payments
begin

text \<open>
  What the payment operations leave alone. \<open>payment_outbox_frame\<close> is the interface of a relation
  that allows the writes after the books are made, \<open>payment_frame\<close> of one that allows every write; each service is shown to keep such a relation once, and
  the interpretations say which parts of the state never change, or only grow.
\<close>

text \<open>The part of a success that writes receipts, allocations, notifications and deliveries.\<close>

locale payment_outbox_frame = billing_frame R
  for R :: "'z payment_st_scheme \<Rightarrow> 'z payment_st_scheme \<Rightarrow> bool" +
  assumes frame_receipts: "R s (s\<lparr>receipts := rs\<rparr>)"
    and frame_allocations: "R s (s\<lparr>payment_allocations := pas\<rparr>)"
begin

lemma upholds_lookups:
  "upholds R (payment_control_number p)" "upholds R (control_number_bill cn)"
  "upholds R (payment_bill p)" "upholds R (payment_provider_of p)" "upholds R (customer_for_payment p)"
  unfolding payment_control_number_def control_number_bill_def payment_bill_def
    payment_provider_of_def customer_for_payment_def
  by (intro combinator_rules upholds_case_option upholds_case_prod)+

lemma upholds_dispatch_payment: "upholds R (dispatch_payment E p event)"
  unfolding dispatch_payment_def by (intro combinator_rules upholds_lookups upholds_dispatch_event)

lemma upholds_notify_payment: "upholds R (notify_payment E p event extra)"
  unfolding notify_payment_def notification_context_def the_tenant_def
  by (intro combinator_rules upholds_lookups upholds_send_notification)

lemma upholds_notify_successful: "upholds R (notify_payment_successful E p rc)"
  unfolding notify_payment_successful_def
  by (intro combinator_rules upholds_lookups upholds_notify_payment)

lemma upholds_insert_receipt: "upholds R (insert_receipt E r)"
  unfolding insert_receipt_def Let_def
  by (intro combinator_rules upholds_if upholds_modify frame_receipts)

lemma upholds_generate_receipt: "upholds R (generate_receipt E p)"
  unfolding generate_receipt_def payment_channel_label_def the_tenant_def
  by (intro combinator_rules upholds_if upholds_case_option upholds_case_prod upholds_lookups
      upholds_insert_receipt)

lemma upholds_allocate: "upholds R (allocate_to_bill E p)"
  unfolding allocate_to_bill_def
  by (intro combinator_rules upholds_if upholds_case_option upholds_modify frame_allocations
      upholds_lookups upholds_bill_transition)

lemma upholds_success_tail:
  "upholds R (mseq (allocate_to_bill E p) (mbind (generate_receipt E p) (\<lambda>rc.
     mseq (notify_payment_successful E p rc) (dispatch_payment E p event))))"
  by (intro combinator_rules upholds_allocate upholds_generate_receipt upholds_notify_successful
      upholds_dispatch_payment)

end

text \<open>
  What follows a transition: entries, fees, and that part. The interface names the operations that
  post, not the rows they write, so that a relation between the two logs can meet it.
\<close>

locale payment_postings_frame = number_frame R + payment_outbox_frame R
  for R :: "'z payment_st_scheme \<Rightarrow> 'z payment_st_scheme \<Rightarrow> bool" +
  assumes settlement_entries: "upholds R (post_settlement_ledger_entries E p)"
    and payment_fees: "upholds R (record_payment_successful E p)" "upholds R (record_payment_failed E p)"
      "upholds R (record_payment_duplicate E p)" "upholds R (record_payment_reversed E p)"
      "upholds R (record_payment_refunded E p)"
begin

lemma upholds_effects:
  "upholds R (payment_succeeded E actor p)" "upholds R (payment_failed E actor p)"
  "upholds R (payment_pending E actor p)"
  unfolding payment_succeeded_def payment_failed_def payment_pending_def
  by (intro combinator_rules upholds_audit1 settlement_entries payment_fees
      upholds_allocate upholds_generate_receipt upholds_notify_successful upholds_notify_payment
      upholds_dispatch_payment)+

end

text \<open>A relation that allows new rows in both logs allows them.\<close>

locale row_postings_frame = control_number_frame R + payment_outbox_frame R
  for R :: "'z payment_st_scheme \<Rightarrow> 'z payment_st_scheme \<Rightarrow> bool"

sublocale row_postings_frame \<subseteq> payment_postings_frame R
proof unfold_locales
  show "upholds R (post_settlement_ledger_entries E p)" for E p
    unfolding post_settlement_ledger_entries_def by (intro combinator_rules upholds_post_entry)
qed (rule upholds_revenue)+

text \<open>What no update of a payment row changes.\<close>

definition identity ::
  "payment \<Rightarrow> (uuid \<times> uuid \<times> uuid \<times> uuid) \<times> (string \<times> string) \<times> money \<times> string \<times> uuid option" where
  "identity p = ((p_id p, p_tenant p, p_control_number p, p_provider p),
     (p_idempotency_key p, p_merchant_reference p), p_amount p, p_currency p, p_settlement_batch p)"

locale payment_effect_frame = payment_postings_frame R
  for R :: "'z payment_st_scheme \<Rightarrow> 'z payment_st_scheme \<Rightarrow> bool" +
  assumes frame_payment_row: "(\<And>q. identity (f q) = identity q) \<Longrightarrow>
    R s (s\<lparr>payments := row_update p_id i f (payments s)\<rparr>)"
begin

lemma upholds_transition: "upholds R (payment_transition_to E p new reason)"
  unfolding payment_transition_to_def Let_def
  by (intro combinator_rules upholds_if upholds_modify frame_payment_row) (simp_all add: identity_def)

lemma upholds_apply_outcome: "upholds R (apply_outcome E actor p out)"
  unfolding apply_outcome_def Let_def
  by (intro combinator_rules upholds_if upholds_transition upholds_audit1 upholds_effects)

lemma upholds_with_sum:
  assumes "\<And>x. r = Inr x \<Longrightarrow> upholds R (f x)"
  shows "upholds R (mbind (lift_sum r) f)"
proof (cases r)
  case (Inl e)
  then have "mbind (lift_sum r) f = raise e"
    by (simp add: mbind_def lift_sum_def raise_def fun_eq_iff)
  then show ?thesis
    by (simp add: upholds_raise)
next
  case (Inr x)
  then have "mbind (lift_sum r) f = f x"
    by (simp add: mbind_def lift_sum_def ret_def fun_eq_iff)
  with assms [OF Inr] show ?thesis
    by simp
qed

end

text \<open>Together with what the adapters keep: the services.\<close>

locale payment_core_frame = payment_effect_frame R + adapter_frame R
  for R :: "'z payment_st_scheme \<Rightarrow> 'z payment_st_scheme \<Rightarrow> bool"
begin

lemmas upholds_with_adapter = upholds_with_sum [where r = "get_adapter E p" for E p]

lemma upholds_initiation_failed:
  "upholds R (initiation_failed E actor p reason)" "upholds R (initiation_timed_out E actor p)"
  "upholds R (initiation_answered E actor p r)"
  unfolding initiation_failed_def initiation_timed_out_def initiation_answered_def Let_def
  by (intro combinator_rules upholds_transition upholds_audit upholds_audit1 payment_fees
      upholds_notify_payment upholds_modify frame_payment_row upholds_apply_outcome)+
    (simp_all add: identity_def)

lemma upholds_case_result:
  "(\<And>r. upholds R (f r)) \<Longrightarrow> (\<And>m. upholds R g) \<Longrightarrow> (\<And>e. upholds R (h e)) \<Longrightarrow>
   upholds R (case res of Inr r \<Rightarrow> f r | Inl (ProviderTimeoutError m) \<Rightarrow> g | Inl e \<Rightarrow> h e)"
  by (auto split: sum.split exn.split)

lemma upholds_query: "upholds R (query_payment E actor p)"
  unfolding query_payment_def
  by (intro combinator_rules upholds_if upholds_lookups upholds_with_adapter upholds_adapter(2)
      upholds_modify frame_payment_row upholds_audit upholds_apply_outcome | assumption
      | simp add: identity_def)+

lemma upholds_refund: "upholds R (refund_payment E actor amount p)"
  unfolding refund_payment_def Let_def
  by (intro combinator_rules upholds_if upholds_lookups upholds_with_adapter upholds_adapter(4)
      upholds_transition upholds_audit payment_fees upholds_dispatch_payment
      upholds_notify_payment | assumption)+

lemma upholds_reverse: "upholds R (reverse_payment E actor p)"
  unfolding reverse_payment_def
  by (intro combinator_rules upholds_if upholds_lookups upholds_with_adapter upholds_adapter(5)
      upholds_transition upholds_audit1 payment_fees upholds_dispatch_payment
      upholds_notify_payment | assumption)+

end

text \<open>With the insertion of a payment and the log of callbacks: everything the endpoints do.\<close>

locale payment_services_frame = payment_core_frame R
  for R :: "'z payment_st_scheme \<Rightarrow> 'z payment_st_scheme \<Rightarrow> bool" +
  assumes insert_new: "p_settlement_batch p = None \<Longrightarrow> upholds R (insert_payment E p)"
    and frame_callbacks: "R s (s\<lparr>callback_events := ces\<rparr>)"
begin

lemma upholds_initiate: "upholds R (initiate_payment E actor k a)"
  unfolding initiate_payment_def create_payment_def try_adapter_def the_tenant_def
  by (intro combinator_rules upholds_if upholds_case_option upholds_audit1
      insert_new upholds_with_adapter upholds_adapter(1) upholds_case_result
      upholds_initiation_failed | assumption | simp)+

lemma upholds_create_callback: "upholds R (create_callback_event pid ext pm out payload)"
  unfolding create_callback_event_def Let_def
  by (intro combinator_rules upholds_if upholds_modify frame_callbacks)

lemma upholds_callback_branches:
  "upholds R (duplicate_callback E actor pr parsed)" "upholds R (first_callback E actor ev parsed)"
  unfolding duplicate_callback_def first_callback_def save_callback_event_def Let_def
  by (intro combinator_rules upholds_case_option upholds_create_callback upholds_audit1
      payment_fees upholds_modify frame_callbacks upholds_apply_outcome)+

lemma upholds_case_signature:
  "upholds R k \<Longrightarrow> (\<And>e. upholds R (h e)) \<Longrightarrow>
   upholds R (case e of InvalidCallbackSignatureError m \<Rightarrow> k | _ \<Rightarrow> h e)"
  by (auto split: exn.split)

lemma upholds_process_callback: "upholds R (process_callback E actor pr body signature)"
  unfolding process_callback_def
  by (intro combinator_rules upholds_if upholds_case_option upholds_with_adapter upholds_adapter(3)
      upholds_case_signature upholds_create_callback upholds_audit1 upholds_callback_branches
      | assumption)+

lemma upholds_case_validation:
  "upholds R k \<Longrightarrow> (\<And>e. upholds R (h e)) \<Longrightarrow>
   upholds R (case e of ValidationError m \<Rightarrow> k | _ \<Rightarrow> h e)"
  by (auto split: exn.split)

lemma upholds_payment_views:
  "upholds R (pay_bill E user tenant bpk form)" "upholds R (payment_query E user tenant pk post)"
  "upholds R (payment_refund E user tenant pk post)"
  "upholds R (payment_reverse E user tenant pk post)"
  "upholds R (mock_provider_callback E body signature)"
  unfolding pay_bill_def payment_query_def payment_refund_def payment_reverse_def
    mock_provider_callback_def catch_validation_def require_tenant_role_def
  by (auto intro!: combinator_rules upholds_if upholds_case_option upholds_initiate upholds_query
      upholds_refund upholds_reverse upholds_process_callback upholds_case_validation
      split: prod.split option.split)

end

text \<open>A relation that allows any new row allows the insertion.\<close>

locale payment_frame = payment_core_frame R
  for R :: "'z payment_st_scheme \<Rightarrow> 'z payment_st_scheme \<Rightarrow> bool" +
  assumes frame_payment_new: "p_settlement_batch p = None \<Longrightarrow> R s (s\<lparr>payments := p # payments s\<rparr>)"
    and frame_callback_rows: "R s (s\<lparr>callback_events := ces\<rparr>)"
begin

lemma upholds_insert_payment:
  assumes "p_settlement_batch p = None"
  shows "upholds R (insert_payment E p)"
proof (rule upholdsI)
  fix s :: "'z payment_st_scheme"
  have new: "R t (t\<lparr>payments := q # payments s\<rparr>)"
    if "p_settlement_batch q = None" "payments t = payments s" for q t
    using frame_payment_new [of q t] that by simp
  have drawn: "R s (s\<lparr>draws := Suc (draws s)\<rparr>)"
    by (rule rel_draws) simp
  then show "wpx (insert_payment E p) (\<lambda>_. R s) (\<lambda>_. R s) s"
    using assms new [of _ s] rel_trans [OF drawn new] rel_trans [OF drawn rel_broken]
    by (simp add: insert_payment_def Let_def rel_broken rel_refl)
qed

end

sublocale payment_frame \<subseteq> payment_services_frame R
  by unfold_locales (rule upholds_insert_payment frame_callback_rows | assumption)+

text \<open>The financial logs only grow, whatever the orchestrator does.\<close>

interpretation log_postings: row_postings_frame logs_grow
  by unfold_locales (auto simp: logs_grow_def later_def)

interpretation payment_logs: payment_frame logs_grow
  by unfold_locales (auto simp: logs_grow_def later_def)

end
