(* ===== verification/PaymentEffects.thy ===== *)
theory PaymentEffects
  imports PaymentFrames
begin

text \<open>
  The effects of the payment operations: the status machine, what a success writes, and the
  worked example of \<open>docs/MONEY_FLOW.md\<close>.
\<close>

subsection \<open>Reading the state\<close>

lemma payment_projections [simp]:
  "payments (audited r s) = payments s" "payments (dispatched ds s) = payments s"
  "payments (notified ns s) = payments s" "payments (posted e s) = payments s"
  "payments (earned ev s) = payments s"
  "callback_events (audited r s) = callback_events s"
  "callback_events (dispatched ds s) = callback_events s"
  "callback_events (notified ns s) = callback_events s"
  "callback_events (posted e s) = callback_events s"
  "callback_events (earned ev s) = callback_events s"
  "receipts (audited r s) = receipts s" "receipts (dispatched ds s) = receipts s"
  "receipts (notified ns s) = receipts s" "receipts (posted e s) = receipts s"
  "receipts (earned ev s) = receipts s"
  by (simp_all add: audited_def dispatched_def notified_def posted_def earned_def)

text \<open>Only the callback handler writes callback events.\<close>

interpretation callback_postings: row_postings_frame "same callback_events"
  by unfold_locales (auto simp: same_def later_def)

interpretation callback_rows: payment_core_frame "same callback_events"
  by unfold_locales (auto simp: same_def later_def)

lemma account_customer_same [simp]:
  "account_customer a (audited r s) = account_customer a s"
  "account_customer a (dispatched ds s) = account_customer a s"
  "account_customer a (notified ns s) = account_customer a s"
  "account_customer a (posted e s) = account_customer a s"
  "account_customer a (earned ev s) = account_customer a s"
  "account_customer a (s\<lparr>clock_reads := n\<rparr>) = account_customer a s"
  "account_customer a (s\<lparr>draws := n\<rparr>) = account_customer a s"
  "account_customer a (s\<lparr>bills := bs\<rparr>) = account_customer a s"
  "account_customer a (s\<lparr>payment_allocations := pas\<rparr>) = account_customer a s"
  "account_customer a (u\<lparr>payments := ps\<rparr>) = account_customer a u"
  "account_customer a (u\<lparr>receipts := rs\<rparr>) = account_customer a u"
  by (simp_all add: account_customer_def split: option.split)

lemma no_override_same [simp]:
  "no_override (audited r s) tid = no_override s tid"
  "no_override (dispatched ds s) tid = no_override s tid"
  "no_override (notified ns s) tid = no_override s tid"
  "no_override (posted e s) tid = no_override s tid"
  "no_override (earned ev s) tid = no_override s tid"
  "no_override (s\<lparr>clock_reads := n\<rparr>) tid = no_override s tid"
  "no_override (s\<lparr>draws := n\<rparr>) tid = no_override s tid"
  "no_override (s\<lparr>bills := bs\<rparr>) tid = no_override s tid"
  "no_override (s\<lparr>payment_allocations := pas\<rparr>) tid = no_override s tid"
  "no_override (u\<lparr>payments := ps\<rparr>) tid = no_override u tid"
  "no_override (u\<lparr>receipts := rs\<rparr>) tid = no_override u tid"
  by (simp_all add: no_override_def)

text \<open>Everything the services follow from a payment is there: what the foreign keys guarantee.\<close>

definition channel_known :: "'z payment_st_scheme \<Rightarrow> payment \<Rightarrow> bool" where
  "channel_known s p \<longleftrightarrow>
     (case p_channel p of
        None \<Rightarrow> row_get pp_id (p_provider p) (payment_providers s) \<noteq> None
      | Some ch \<Rightarrow> (case row_get pc_id ch (payment_channels s) of
            None \<Rightarrow> False
          | Some c \<Rightarrow> row_get pp_id (pc_provider c) (payment_providers s) \<noteq> None))"

text \<open>The control number of a payment, with its bill if it has one, and the customer who pays.\<close>

definition concerns ::
  "'z payment_st_scheme \<Rightarrow> payment \<Rightarrow> control_number \<Rightarrow> bill option \<Rightarrow> customer \<Rightarrow> bool" where
  "concerns s p cn ob c \<longleftrightarrow>
     row_get cn_id (p_control_number p) (control_numbers s) = Some cn \<and> cn_bill cn = map_option b_id ob \<and>
     (case ob of
        Some b \<Rightarrow> row_get b_id (b_id b) (bills s) = Some b \<and>
          map_option snd (account_customer (b_customer_account b) s) = Some c
      | None \<Rightarrow> (case cn_customer_account cn of None \<Rightarrow> False
          | Some aid \<Rightarrow> map_option snd (account_customer aid s) = Some c))"

definition linked ::
  "'z payment_st_scheme \<Rightarrow> payment \<Rightarrow> control_number \<Rightarrow> bill option \<Rightarrow> customer \<Rightarrow> tenant \<Rightarrow> bool" where
  "linked s p cn ob c t \<longleftrightarrow> concerns s p cn ob c \<and>
     row_get t_id (p_tenant p) (tenants s) = Some t \<and> channel_known s p"

text \<open>No receipt has a number that the random source has still to give.\<close>

definition receipt_numbers_fresh :: "env \<Rightarrow> 'z payment_st_scheme \<Rightarrow> bool" where
  "receipt_numbers_fresh E s \<longleftrightarrow> (\<forall>r \<in> set (receipts s). \<forall>t k. draws s \<le> k \<longrightarrow>
     r_receipt_number r \<noteq> ''RCPT-'' @ e_ymd E t @ ''-'' @ py_upper (take 8 (e_hex E k)))"

subsection \<open>The status machine\<close>

definition moved ::
  "env \<Rightarrow> payment_status \<Rightarrow> string \<Rightarrow> 'z payment_st_scheme \<Rightarrow> payment \<Rightarrow> payment" where
  "moved E new reason s p = p\<lparr>p_status := new,
     p_completed_at := (if new \<in> {SUCCESSFUL, FAILED, REVERSED, REFUNDED}
                        then Some (e_now E (clock_reads s)) else p_completed_at p),
     p_failure_reason := (if reason \<noteq> [] then reason else p_failure_reason p)\<rparr>"

lemma moved_fields [simp]:
  "p_id (moved E new reason s p) = p_id p"
  "p_tenant (moved E new reason s p) = p_tenant p"
  "p_control_number (moved E new reason s p) = p_control_number p"
  "p_provider (moved E new reason s p) = p_provider p"
  "p_channel (moved E new reason s p) = p_channel p"
  "p_status (moved E new reason s p) = new"
  "p_amount (moved E new reason s p) = p_amount p"
  "p_currency (moved E new reason s p) = p_currency p"
  "p_merchant_reference (moved E new reason s p) = p_merchant_reference p"
  "p_provider_reference (moved E new reason s p) = p_provider_reference p"
  "p_idempotency_key (moved E new reason s p) = p_idempotency_key p"
  "p_settlement_batch (moved E new reason s p) = p_settlement_batch p"
  by (simp_all add: moved_def)

definition with_status :: "payment \<Rightarrow> payment \<Rightarrow> payment" where
  "with_status p2 r = r\<lparr>p_status := p_status p2, p_completed_at := p_completed_at p2,
     p_failure_reason := p_failure_reason p2\<rparr>"

lemma with_status_fields [simp]:
  "p_id (with_status p2 r) = p_id r"
  "p_tenant (with_status p2 r) = p_tenant r"
  "p_status (with_status p2 r) = p_status p2"
  "p_amount (with_status p2 r) = p_amount r"
  "p_currency (with_status p2 r) = p_currency r"
  "p_merchant_reference (with_status p2 r) = p_merchant_reference r"
  "p_provider_reference (with_status p2 r) = p_provider_reference r"
  "p_idempotency_key (with_status p2 r) = p_idempotency_key r"
  "p_settlement_batch (with_status p2 r) = p_settlement_batch r"
  by (simp_all add: with_status_def)

lemma with_status_moved [simp]: "with_status (moved E new reason s p) p = moved E new reason s p"
  by (simp add: with_status_def moved_def)

definition after_move :: "env \<Rightarrow> payment_status \<Rightarrow> string \<Rightarrow> payment \<Rightarrow>
    'z payment_st_scheme \<Rightarrow> 'z payment_st_scheme" where
  "after_move E new reason p s =
     s\<lparr>clock_reads := clock_reads s + (if new \<in> {SUCCESSFUL, FAILED, REVERSED, REFUNDED} then 1 else 0),
       payments := row_update p_id (p_id p) (with_status (moved E new reason s p)) (payments s)\<rparr>"

lemma wpx_payment_transition [simp]:
  "wpx (payment_transition_to E p new reason) Q X s =
     (if new \<notin> set (PAYMENT_TRANSITIONS (p_status p))
      then X (ValidationError (''Cannot transition payment from ''
             @ payment_status_value (p_status p) @ '' to '' @ payment_status_value new @ ''.'')) s
      else Q (moved E new reason s p) (after_move E new reason p s))"
  by (cases new) (auto simp: payment_transition_to_def Let_def moved_def after_move_def
      with_status_def [abs_def])

interpretation payment_machine:
  status_machine PAYMENT_TRANSITIONS p_status "\<lambda>p new. payment_transition_to E p new reason"
  for E reason
proof
  fix new r and s :: "'a payment_st_scheme"
  show "\<exists>m. payment_transition_to E r new reason s = (Inl (ValidationError m), s)"
    if "new \<notin> set (PAYMENT_TRANSITIONS (p_status r))"
    using that by (auto simp: payment_transition_to_def raise_def)
  show "\<exists>r' t. payment_transition_to E r new reason s = (Inr r', t) \<and> p_status r' = new"
    if "new \<in> set (PAYMENT_TRANSITIONS (p_status r))"
  proof -
    have "succeeds (payment_transition_to E r new reason) (\<lambda>q _. p_status q = new) s"
      using that by simp
    then show ?thesis
      by (auto simp: succeeds_iff)
  qed
qed

lemma after_move_simps [simp]:
  "clock_reads s \<le> clock_reads (after_move E new reason p s)"
  "draws (after_move E new reason p s) = draws s"
  "tx_broken (after_move E new reason p s) = tx_broken s"
  "on_commit (after_move E new reason p s) = on_commit s"
  "broker (after_move E new reason p s) = broker s"
  "tenants (after_move E new reason p s) = tenants s"
  "webhook_endpoints (after_move E new reason p s) = webhook_endpoints s"
  "webhook_deliveries (after_move E new reason p s) = webhook_deliveries s"
  "notification_templates (after_move E new reason p s) = notification_templates s"
  "notifications (after_move E new reason p s) = notifications s"
  "audit_logs (after_move E new reason p s) = audit_logs s"
  "customers (after_move E new reason p s) = customers s"
  "customer_accounts (after_move E new reason p s) = customer_accounts s"
  "bills (after_move E new reason p s) = bills s"
  "payment_allocations (after_move E new reason p s) = payment_allocations s"
  "ledger_entries (after_move E new reason p s) = ledger_entries s"
  "revenue_events (after_move E new reason p s) = revenue_events s"
  "control_numbers (after_move E new reason p s) = control_numbers s"
  "payment_providers (after_move E new reason p s) = payment_providers s"
  "payment_channels (after_move E new reason p s) = payment_channels s"
  "callback_events (after_move E new reason p s) = callback_events s"
  "receipts (after_move E new reason p s) = receipts s"
  "payments (after_move E new reason p s) =
     row_update p_id (p_id p) (with_status (moved E new reason s p)) (payments s)"
  by (simp_all add: after_move_def)


lemma after_move_reads [simp]:
  "account_customer a (after_move E new reason p s) = account_customer a s"
  "no_override (after_move E new reason p s) tid = no_override s tid"
  by (simp_all add: after_move_def)

subsection \<open>Steps of a success\<close>

lemma concerns_same:
  "control_numbers u = control_numbers s \<Longrightarrow> bills u = bills s \<Longrightarrow>
   customers u = customers s \<Longrightarrow> customer_accounts u = customer_accounts s \<Longrightarrow>
   p_control_number q = p_control_number p \<Longrightarrow> concerns u q cn ob c = concerns s p cn ob c"
  by (simp add: concerns_def account_customer_def split: option.split)

lemma wpx_lookups:
  assumes "concerns s p cn ob c"
  shows "wpx (payment_control_number p) Q X s = Q cn s"
    and "wpx (control_number_bill cn) Q' X s = Q' ob s"
    and "wpx (payment_bill p) Q' X s = Q' ob s"
    and "wpx (customer_for_payment p) Q'' X s = Q'' c s"
  using assms by (auto simp: concerns_def payment_bill_def payment_control_number_def control_number_bill_def
      customer_for_payment_def split: option.splits)

definition delivery_of :: "env \<Rightarrow> payment \<Rightarrow> string \<Rightarrow> webhook_delivery \<Rightarrow> bool" where
  "delivery_of E p event d \<longleftrightarrow> wd_status d = WPending \<and> wd_attempt_count d = 0 \<and> wd_tenant d = p_tenant p \<and>
     wd_event_type d = event \<and> (case wd_payload d of
       JObj items \<Rightarrow> (''payment_id'', JStr (e_str_uuid E (p_id p))) \<in> set items \<and>
         (''amount'', JStr (e_str_dec E (p_amount p))) \<in> set items \<and>
         (''status'', JStr (payment_status_value (p_status p))) \<in> set items
     | _ \<Rightarrow> False)"

lemma wpx_dispatch_payment:
  assumes "concerns s p cn ob c"
    and "\<And>ds. map wd_endpoint ds = map we_id (subscribers s (p_tenant p) event) \<Longrightarrow>
      list_all (delivery_of E p event) ds \<Longrightarrow> Q () (dispatched ds s)"
  shows "wpx (dispatch_payment E p event) Q X s"
proof -
  have "list_all (delivery_of E p event) (event_deliveries E (p_tenant p) event payload s)"
    if "payload = JObj ((''payment_id'', JStr (e_str_uuid E (p_id p))) # items)"
      "(''amount'', JStr (e_str_dec E (p_amount p))) \<in> set items"
      "(''status'', JStr (payment_status_value (p_status p))) \<in> set items" for payload items
    using that by (auto simp: list_all_iff delivery_of_def event_deliveries_def fresh_deliveries_facts)
  then show ?thesis
    by (simp add: dispatch_payment_def wpx_eta wpx_lookups [OF assms(1)] Let_def assms(2)
        event_deliveries_def fresh_deliveries_endpoints)
qed

lemma wpx_notify_payment:
  assumes "concerns s p cn ob c"
    and "row_get t_id (p_tenant p) (tenants s) = Some t" and "no_override s (p_tenant p)"
    and "\<And>ns. list_all (\<lambda>n. n_status n = NPending \<and> n_tenant n = p_tenant p \<and> n_event_type n = event) ns \<Longrightarrow>
           length ns = (if c_email c = [] then 0 else 1) + (if c_phone_number c = [] then 0 else 1) \<Longrightarrow>
           Q () (notified ns s)"
  shows "wpx (notify_payment E p event extra) Q X s"
proof -
  have "wpx (send_notification E (p_tenant p) event context_vars (c_email c) (c_phone_number c))
      (\<lambda>_. Q ()) X s" for context_vars
    by (rule send_notification_wpx [OF assms(3)]) (rule assms(4))
  then show ?thesis
    using assms(2) by (simp add: notify_payment_def notification_context_def wpx_lookups [OF assms(1)] wpx_eta)
qed

definition bill_after :: "bill \<Rightarrow> 'z billing_st_scheme \<Rightarrow> money \<Rightarrow> bill" where
  "bill_after b s amount = b\<lparr>b_status := (if balance s b \<le> amount then PAID else PARTIALLY_PAID)\<rparr>"

definition only_bill :: "bill \<Rightarrow> bill list \<Rightarrow> bill list \<Rightarrow> bool" where
  "only_bill b' bs bs' \<longleftrightarrow> row_get b_id (b_id b') bs' = Some b' \<and>
     (\<forall>i. i \<noteq> b_id b' \<longrightarrow> row_get b_id i bs' = row_get b_id i bs)"

lemma only_bill_update:
  assumes "row_get b_id (b_id b) bs = Some b"
  shows "only_bill (b\<lparr>b_status := st, b_issued_at := b_issued_at b, b_cancelled_at := b_cancelled_at b\<rparr>) bs
    (row_update b_id (b_id b) (\<lambda>r. r\<lparr>b_status := st, b_issued_at := b_issued_at b,
       b_cancelled_at := b_cancelled_at b\<rparr>) bs)"
  using assms by (simp add: only_bill_def row_get_update_same row_get_update_other)

lemma bill_after_same [simp]:
  "b_id (bill_after b s m) = b_id b" "b_customer_account (bill_after b s m) = b_customer_account b"
  "b_bill_number (bill_after b s m) = b_bill_number b"
  "b_total_amount (bill_after b s m) = b_total_amount b"
  by (simp_all add: bill_after_def)

text \<open>What the allocation of a payment writes: one row and one bill, or nothing for an account.\<close>

definition allocation_written ::
  "payment \<Rightarrow> bill option \<Rightarrow> 'z payment_st_scheme \<Rightarrow> payment_allocation list \<Rightarrow> bill list \<Rightarrow> bool" where
  "allocation_written p ob s als bs \<longleftrightarrow> (case ob of
     None \<Rightarrow> als = payment_allocations s \<and> bs = bills s
   | Some b \<Rightarrow> only_bill (bill_after b s (p_amount p)) (bills s) bs \<and>
       (\<exists>al. als = al # payment_allocations s \<and> pa_payment al = p_id p \<and>
          pa_bill al = b_id b \<and> pa_tenant al = p_tenant p \<and> pa_amount al = p_amount p))"

lemma wpx_allocate:
  assumes "concerns s p cn ob c"
    and "\<And>b. ob = Some b \<Longrightarrow> b_status b \<in> {ACTIVE, PARTIALLY_PAID}"
    and "\<And>d als bs. draws s \<le> d \<Longrightarrow> allocation_written p ob s als bs \<Longrightarrow>
      Q () (s\<lparr>draws := d, payment_allocations := als, bills := bs\<rparr>)"
  shows "wpx (allocate_to_bill E p) Q X s"
proof (cases ob)
  case None
  have "Q () s"
    using assms(3) [of "draws s" "payment_allocations s" "bills s"] None by (simp add: allocation_written_def)
  then show ?thesis
    using None by (simp add: allocate_to_bill_def wpx_lookups [OF assms(1)])
next
  case (Some b)
  let ?al = "\<lparr>pa_id = Uuid (draws s), pa_tenant = p_tenant p, pa_payment = p_id p, pa_bill = b_id b,
      pa_amount = p_amount p\<rparr>"
  let ?t = "s\<lparr>draws := Suc (draws s), payment_allocations := ?al # payment_allocations s\<rparr>"
  have bb: "row_get b_id (b_id b) (bills s) = Some b"
    using assms(1) Some by (simp add: concerns_def)
  have Q: "Q () (?t\<lparr>bills := bs\<rparr>)"
    if "only_bill (bill_after b s (p_amount p)) (bills s) bs" for bs
    using assms(3) [of "Suc (draws s)" "?al # payment_allocations s" bs] that Some by (simp add: allocation_written_def)
  have bal: "balance ?t b = balance s b - p_amount p"
    by (simp add: balance_def amount_paid_def)
  have "Q () ?t" if "\<not> balance s b \<le> p_amount p" "b_status b = PARTIALLY_PAID"
  proof -
    have "bill_after b s (p_amount p) = b"
      using that by (simp add: bill_after_def)
    then show ?thesis
      using Q [of "bills s"] bb by (simp add: only_bill_def)
  qed
  moreover have "Q () (?t\<lparr>bills := row_update b_id (b_id b) (\<lambda>r. r\<lparr>b_status := b_status (bill_after b s (p_amount p)),
      b_issued_at := b_issued_at b, b_cancelled_at := b_cancelled_at b\<rparr>) (bills s)\<rparr>)"
    by (rule Q) (use only_bill_update [OF bb] in \<open>simp add: bill_after_def\<close>)
  ultimately show ?thesis
    using assms(2) [OF Some] bal Some by (auto simp: allocate_to_bill_def wpx_lookups [OF assms(1)]
        wpx_bill_transition Let_def bill_after_def split: if_splits)
qed

definition receipt_for ::
  "payment \<Rightarrow> control_number \<Rightarrow> bill option \<Rightarrow> customer \<Rightarrow> tenant \<Rightarrow> money option \<Rightarrow> receipt \<Rightarrow> bool" where
  "receipt_for p cn ob c t remaining rc \<longleftrightarrow>
     r_tenant rc = p_tenant p \<and> r_payment rc = p_id p \<and> r_amount rc = p_amount p \<and>
     r_currency rc = p_currency p \<and> r_payment_reference rc = p_merchant_reference p \<and>
     r_control_number rc = cn_value cn \<and>
     r_bill_number rc = (case ob of Some b \<Rightarrow> b_bill_number b | None \<Rightarrow> []) \<and>
     r_customer_name rc = c_full_name c \<and> r_institution_name rc = t_name t \<and>
     r_remaining_balance_at_issue rc = remaining"

lemma wpx_channel_label:
  assumes "channel_known s p" and "\<And>l. Q l s"
  shows "wpx (payment_channel_label p) Q X s"
  using assms by (auto simp: channel_known_def payment_channel_label_def payment_provider_of_def
      split: option.splits)

lemma fresh_number:
  assumes "receipt_numbers_fresh E s" and "draws s \<le> k"
  shows "\<not> list_ex (\<lambda>q. r_tenant q = tid \<and>
    r_receipt_number q = ''RCPT-'' @ e_ymd E t @ ''-'' @ py_upper (take 8 (e_hex E k))) (receipts s)"
  using assms unfolding receipt_numbers_fresh_def list_ex_iff by blast

text \<open>The name on the receipt is that of the bill's or the account's customer.\<close>

lemma wpx_receipt_name:
  assumes "concerns s p cn ob c" and "Q (c_full_name c) s"
  shows "wpx (case ob of
       Some b \<Rightarrow> mbind (require (DoesNotExist ''Customer'') (account_customer (b_customer_account b)))
         (\<lambda>(a, c). ret (c_full_name c))
     | None \<Rightarrow> (case cn_customer_account cn of
           Some aid \<Rightarrow> mbind (require (DoesNotExist ''Customer'') (account_customer aid)) (\<lambda>(a, c). ret (c_full_name c))
         | None \<Rightarrow> ret [])) Q X s"
  using assms by (auto simp: concerns_def split: option.splits)

lemma wpx_generate_receipt:
  assumes about: "concerns s p cn ob c"
    and "row_get t_id (p_tenant p) (tenants s) = Some t" and "channel_known s p"
    and "p_status p = SUCCESSFUL" and "find_receipt (p_id p) s = None" and "receipt_numbers_fresh E s"
    and "\<And>rc. receipt_for p cn ob c t (map_option (balance s) ob) rc \<Longrightarrow>
      Q rc (s\<lparr>clock_reads := Suc (Suc (clock_reads s)), draws := Suc (Suc (draws s)),
             receipts := rc # receipts s\<rparr>)"
  shows "wpx (generate_receipt E p) Q X s"
proof -
  have label: "wpx (payment_channel_label p) P X s" if "\<And>l. P l s" for P
    using assms(3) that by (rule wpx_channel_label)
  have fresh: "\<not> list_ex (\<lambda>q. r_tenant q = p_tenant p \<and> r_receipt_number q =
      ''RCPT-'' @ e_ymd E t @ ''-'' @ py_upper (take 8 (e_hex E (Suc (draws s))))) (receipts s)" for t
    by (rule fresh_number [OF assms(6)]) simp
  have find: "find_receipt i (s\<lparr>clock_reads := m, draws := n\<rparr>) = find_receipt i s"
    "find_receipt i (s\<lparr>draws := n\<rparr>) = find_receipt i s" for i n m
    by (simp_all add: find_receipt_def)
  note name = wpx_receipt_name [OF about]
  show ?thesis
    unfolding generate_receipt_def wpx_mbind wpx_gets assms(5) option.case
    using assms(2,4,5) fresh
    by (simp add: wpx_lookups [OF about] wpx_eta, intro name [unfolded wpx_eta])
      (auto simp: wpx_eta insert_receipt_def Let_def find receipt_for_def intro!: label assms(7))
qed

definition bill_paid_event :: "bill option \<Rightarrow> 'z billing_st_scheme \<Rightarrow> money \<Rightarrow> notification_event" where
  "bill_paid_event ob s amount = (case ob of
     None \<Rightarrow> PAYMENT_SUCCESSFUL
   | Some b \<Rightarrow> if balance s b \<le> amount then BILL_FULLY_PAID else PAYMENT_PARTIAL)"

lemma wpx_notify_successful:
  assumes about: "concerns s p cn ob c"
    and "row_get t_id (p_tenant p) (tenants s) = Some t" and "no_override s (p_tenant p)"
    and "\<And>ns. list_all (\<lambda>n. n_status n = NPending \<and> n_tenant n = p_tenant p \<and> n_event_type n =
             (case ob of None \<Rightarrow> PAYMENT_SUCCESSFUL
              | Some b \<Rightarrow> if b_status b = PAID then BILL_FULLY_PAID
                  else if b_status b = PARTIALLY_PAID then PAYMENT_PARTIAL else PAYMENT_SUCCESSFUL)) ns \<Longrightarrow>
           length ns = (if c_email c = [] then 0 else 1) + (if c_phone_number c = [] then 0 else 1) \<Longrightarrow>
           Q () (notified ns s)"
  shows "wpx (notify_payment_successful E p rc) Q X s"
  unfolding notify_payment_successful_def wpx_mbind wpx_lookups [OF about] wpx_gets
  by (rule wpx_notify_payment [OF assms(1-3)], rule assms(4))

definition settlement_entries :: "payment \<Rightarrow> ledger_entry list \<Rightarrow> bool" where
  "settlement_entries p es \<longleftrightarrow>
     map (\<lambda>e. (le_entry_type e, le_account e, le_amount e)) es =
       [(PLATFORM_PAYMENT_FEE, PLATFORM_ACCOUNT, 5000),
        (INSTITUTION_ENTITLEMENT, INSTITUTION_ACCOUNT, p_amount p),
        (PAYMENT_RECEIVED, CUSTOMER_ACCOUNT, p_amount p)] \<and>
     list_all (\<lambda>e. le_tenant e = p_tenant p \<and> le_currency e = p_currency p \<and>
       le_reference e = p_merchant_reference p \<and> le_source e = Some (MPayment, p_id p) \<and>
       le_related_entry e = None) es"

lemma receipts_fresh_later:
  assumes "receipt_numbers_fresh E s" and "receipts u = receipts s" and "draws s \<le> draws u"
  shows "receipt_numbers_fresh E u"
  unfolding receipt_numbers_fresh_def
proof (intro ballI allI impI)
  fix r t k
  assume "r \<in> set (receipts u)" "draws u \<le> k"
  then have "r \<in> set (receipts s)" "draws s \<le> k"
    using assms(2,3) by simp_all
  then show "r_receipt_number r \<noteq> ''RCPT-'' @ e_ymd E t @ ''-'' @ py_upper (take 8 (e_hex E k))"
    using assms(1) unfolding receipt_numbers_fresh_def by blast
qed

lemma channel_known_same:
  "payment_providers u = payment_providers s \<Longrightarrow> payment_channels u = payment_channels s \<Longrightarrow>
   p_provider q = p_provider p \<Longrightarrow> p_channel q = p_channel p \<Longrightarrow>
   channel_known u q = channel_known s p"
  by (simp add: channel_known_def split: option.split)

text \<open>The rows of the outbox: one notification per contact, then one delivery per subscriber.\<close>

definition outbox_written ::
  "env \<Rightarrow> payment \<Rightarrow> bill option \<Rightarrow> customer \<Rightarrow> 'z payment_st_scheme \<Rightarrow> 'z payment_st_scheme \<Rightarrow> bool" where
  "outbox_written E p ob c s u \<longleftrightarrow> (\<exists>ns ds.
     notifications u = rev ns @ notifications s \<and>
     length ns = (if c_email c = [] then 0 else 1) + (if c_phone_number c = [] then 0 else 1) \<and>
     list_all (\<lambda>n. n_status n = NPending \<and> n_tenant n = p_tenant p \<and>
       n_event_type n = bill_paid_event ob s (p_amount p)) ns \<and>
     webhook_deliveries u = rev ds @ webhook_deliveries s \<and>
     map wd_endpoint ds = map we_id (subscribers s (p_tenant p) ''payment.successful'') \<and>
     list_all (delivery_of E p ''payment.successful'') ds \<and>
     on_commit u = on_commit s @ map (\<lambda>n. DeliverNotification (n_id n)) ns @ map (\<lambda>d. DeliverWebhook (wd_id d)) ds \<and>
     broker u = broker s)"

definition tail_written ::
  "env \<Rightarrow> payment \<Rightarrow> control_number \<Rightarrow> bill option \<Rightarrow> customer \<Rightarrow> tenant \<Rightarrow>
   'z payment_st_scheme \<Rightarrow> 'z payment_st_scheme \<Rightarrow> bool" where
  "tail_written E p cn ob c t s u \<longleftrightarrow>
     allocation_written p ob s (payment_allocations u) (bills u) \<and>
     (\<exists>rc. receipts u = rc # receipts s \<and>
        receipt_for p cn ob c t (map_option (\<lambda>b. balance s b - p_amount p) ob) rc) \<and>
     outbox_written E p ob c s u"

lemma concerns_allocated:
  assumes "concerns s p cn ob c" and "allocation_written p ob s als bs"
  shows "concerns (s\<lparr>draws := d, payment_allocations := als, bills := bs\<rparr>) p cn
    (map_option (\<lambda>b. bill_after b s (p_amount p)) ob) c"
  using assms by (auto simp: concerns_def allocation_written_def only_bill_def split: option.splits)

lemma wpx_success_tail:
  assumes link: "linked s p cn ob c t" and open_bill: "\<And>b. ob = Some b \<Longrightarrow> b_status b \<in> {ACTIVE, PARTIALLY_PAID}"
    and st: "p_status p = SUCCESSFUL" and none: "find_receipt (p_id p) s = None"
    and fresh: "receipt_numbers_fresh E s" and tpl: "no_override s (p_tenant p)"
  shows "wpx (mseq (allocate_to_bill E p) (mbind (generate_receipt E p) (\<lambda>rc.
      mseq (notify_payment_successful E p rc) (dispatch_payment E p ''payment.successful''))))
    (\<lambda>_ u. tail_written E p cn ob c t s u \<and> payments u = payments s \<and>
       ledger_entries u = ledger_entries s \<and> revenue_events u = revenue_events s) X s"
    (is "wpx (mseq _ ?receipt) ?Q X s")
proof -
  have about: "concerns s p cn ob c" and tt: "row_get t_id (p_tenant p) (tenants s) = Some t"
    and ch: "channel_known s p"
    using link by (simp_all add: linked_def)
  let ?ob = "map_option (\<lambda>b. bill_after b s (p_amount p)) ob"
  have "wpx ?receipt ?Q X (s\<lparr>draws := d, payment_allocations := als, bills := bs\<rparr>)" (is "wpx _ _ _ ?s1")
    if al: "draws s \<le> d" "allocation_written p ob s als bs" for d als bs
  proof -
    have about1: "concerns ?s1 p cn ?ob c"
      by (rule concerns_allocated [OF about al(2)])
    have ch1: "channel_known ?s1 p"
      using ch channel_known_same [of ?s1 s p p] by simp
    have fresh1: "receipt_numbers_fresh E ?s1"
      by (rule receipts_fresh_later [OF fresh]) (use al in simp_all)
    have tt1: "row_get t_id (p_tenant p) (tenants ?s1) = Some t" and none1: "find_receipt (p_id p) ?s1 = None"
      using tt none by (simp_all add: find_receipt_def)
    have bal: "map_option (balance ?s1) ?ob = map_option (\<lambda>b. balance s b - p_amount p) ob"
      using al(2) by (auto simp: allocation_written_def balance_def amount_paid_def split: option.splits)
    have "wpx (mseq (notify_payment_successful E p rc) (dispatch_payment E p ''payment.successful'')) ?Q X
       (?s1\<lparr>clock_reads := Suc (Suc (clock_reads ?s1)), draws := Suc (Suc (draws ?s1)),
            receipts := rc # receipts ?s1\<rparr>)" (is "wpx _ _ _ ?s2")
      if rc: "receipt_for p cn ?ob c t (map_option (balance ?s1) ?ob) rc" for rc
    proof -
      have rc': "receipt_for p cn ob c t (map_option (\<lambda>b. balance s b - p_amount p) ob) rc"
        using rc unfolding bal by (auto simp: receipt_for_def split: option.splits)
      have about2: "concerns ?s2 p cn ?ob c"
        using about1 concerns_same [of ?s2 ?s1 p p] by simp
      have about3: "concerns (notified ns ?s2) p cn ?ob c" for ns
        using about2 concerns_same [of "notified ns ?s2" ?s2 p p] by simp
      have event: "(case ?ob of None \<Rightarrow> PAYMENT_SUCCESSFUL
          | Some b \<Rightarrow> if b_status b = PAID then BILL_FULLY_PAID
              else if b_status b = PARTIALLY_PAID then PAYMENT_PARTIAL else PAYMENT_SUCCESSFUL) =
          bill_paid_event ob s (p_amount p)"
        by (simp add: bill_paid_event_def bill_after_def split: option.split)
      have subs: "subscribers (notified ns ?s2) tid ev = subscribers s tid ev" for ns tid ev
        by (simp add: subscribers_def active_endpoints_def)
      have "wpx (dispatch_payment E p ''payment.successful'') ?Q X (notified ns ?s2)"
        if "list_all (\<lambda>n. n_status n = NPending \<and> n_tenant n = p_tenant p \<and>
            n_event_type n = bill_paid_event ob s (p_amount p)) ns"
          and "length ns = (if c_email c = [] then 0 else 1) + (if c_phone_number c = [] then 0 else 1)" for ns
      proof (rule wpx_dispatch_payment [OF about3])
        fix ds
        assume "map wd_endpoint ds = map we_id (subscribers (notified ns ?s2) (p_tenant p) ''payment.successful'')"
          "list_all (delivery_of E p ''payment.successful'') ds"
        then have "outbox_written E p ob c s (dispatched ds (notified ns ?s2))"
          unfolding outbox_written_def subs using that
          by (intro exI [of _ ns] exI [of _ ds]) (simp add: dispatched_def notified_def)
        then show "?Q () (dispatched ds (notified ns ?s2))"
          using al(2) rc' by (simp add: tail_written_def)
      qed
      then show ?thesis
        unfolding wpx_eta using tt1 tpl
        by (intro wpx_notify_successful [OF about2, unfolded event]) simp_all
    qed
    then show ?thesis
      unfolding wpx_eta
      by (rule wpx_generate_receipt [OF about1 tt1 ch1 st none1 fresh1])
  qed
  then show ?thesis
    unfolding wpx_eta by (rule wpx_allocate [OF about, rotated]) (assumption | erule open_bill)+
qed

definition success_written ::
  "env \<Rightarrow> payment \<Rightarrow> control_number \<Rightarrow> bill option \<Rightarrow> customer \<Rightarrow> tenant \<Rightarrow>
   'z payment_st_scheme \<Rightarrow> 'z payment_st_scheme \<Rightarrow> bool" where
  "success_written E p cn ob c t s u \<longleftrightarrow> tail_written E p cn ob c t s u \<and>
     (\<exists>fee es. ledger_entries u = fee # es @ ledger_entries s \<and> settlement_entries p (fee # es) \<and>
        (\<exists>ev. revenue_events u = ev # revenue_events s \<and> re_event_type ev = RE_PAYMENT_SUCCESSFUL \<and>
           re_amount ev = 5000 \<and> re_tenant ev = p_tenant p \<and> re_source ev = (MPayment, p_id p) \<and>
           re_ledger_entry ev = Some (le_id fee)))"

lemma tail_written_same:
  assumes "receipts s1 = receipts s" "payments s1 = payments s" "bills s1 = bills s"
    "payment_allocations s1 = payment_allocations s" "notifications s1 = notifications s"
    "webhook_deliveries s1 = webhook_deliveries s" "webhook_endpoints s1 = webhook_endpoints s"
    "on_commit s1 = on_commit s" "broker s1 = broker s"
  shows "tail_written E p cn ob c t s1 u = tail_written E p cn ob c t s u"
proof -
  have "balance s1 = balance s"
    by (simp add: balance_def amount_paid_def assms fun_eq_iff)
  moreover have "subscribers s1 tid ev = subscribers s tid ev" for tid ev
    by (simp add: subscribers_def active_endpoints_def assms)
  ultimately show ?thesis
    by (simp add: tail_written_def outbox_written_def allocation_written_def bill_after_def bill_paid_event_def assms
        split: option.split)
qed

lemma linked_same:
  "control_numbers u = control_numbers s \<Longrightarrow> bills u = bills s \<Longrightarrow> tenants u = tenants s \<Longrightarrow>
   customers u = customers s \<Longrightarrow> customer_accounts u = customer_accounts s \<Longrightarrow>
   payment_providers u = payment_providers s \<Longrightarrow> payment_channels u = payment_channels s \<Longrightarrow>
   p_control_number q = p_control_number p \<Longrightarrow> p_tenant q = p_tenant p \<Longrightarrow>
   p_provider q = p_provider p \<Longrightarrow> p_channel q = p_channel p \<Longrightarrow>
   linked u q cn ob c t = linked s p cn ob c t"
  using channel_known_same [of u s q p] concerns_same [of u s q p]
  by (simp add: linked_def)

lemma wpx_payment_succeeded:
  fixes s :: "'z payment_st_scheme"
  assumes link: "linked s p cn ob c t" and open_bill: "\<And>b. ob = Some b \<Longrightarrow> b_status b \<in> {ACTIVE, PARTIALLY_PAID}"
    and st: "p_status p = SUCCESSFUL" and none: "find_receipt (p_id p) s = None"
    and fresh: "receipt_numbers_fresh E s" and tpl: "no_override s (p_tenant p)"
  shows "wpx (payment_succeeded E actor p)
    (\<lambda>_ u. success_written E p cn ob c t s u \<and> payments u = payments s) X s"
proof -
  define rows where "rows = (\<lambda>s1 :: 'z payment_st_scheme. \<exists>fee es ev.
    ledger_entries s1 = fee # es @ ledger_entries s \<and> settlement_entries p (fee # es) \<and>
    revenue_events s1 = ev # revenue_events s \<and> re_event_type ev = RE_PAYMENT_SUCCESSFUL \<and>
    re_amount ev = 5000 \<and> re_tenant ev = p_tenant p \<and> re_source ev = (MPayment, p_id p) \<and>
    re_ledger_entry ev = Some (le_id fee))"
  have tail: "wpx (mseq (allocate_to_bill E p) (mbind (generate_receipt E p) (\<lambda>rc.
      mseq (notify_payment_successful E p rc) (dispatch_payment E p ''payment.successful''))))
    (\<lambda>_ u. success_written E p cn ob c t s u \<and> payments u = payments s) X s1"
    if "rows s1" and same: "linked s1 p cn ob c t" "receipts s1 = receipts s" "draws s \<le> draws s1"
      "no_override s1 (p_tenant p)" "payments s1 = payments s" "bills s1 = bills s"
      "payment_allocations s1 = payment_allocations s" "notifications s1 = notifications s"
      "webhook_deliveries s1 = webhook_deliveries s" "webhook_endpoints s1 = webhook_endpoints s"
      "on_commit s1 = on_commit s" "broker s1 = broker s" for s1
  proof -
    have none1: "find_receipt (p_id p) s1 = None"
      using none same(2) by (simp add: find_receipt_def)
    have written: "tail_written E p cn ob c t s1 u = tail_written E p cn ob c t s u" for u
      using same(2,5-12) by (rule tail_written_same)
    show ?thesis
      by (rule wpx_mono [OF wpx_success_tail [OF same(1) open_bill st none1
            receipts_fresh_later [OF fresh same(2,3)] same(4)]])
         (use that(1) same(5) in \<open>auto simp: written rows_def success_written_def\<close>)
  qed
  show ?thesis
    unfolding payment_succeeded_def post_settlement_ledger_entries_def record_payment_successful_def
    by (simp add: wpx_eta Let_def, rule tail [unfolded wpx_eta],
        simp add: rows_def settlement_entries_def PAYMENT_SUCCESS_FEE_def,
        rule iffD2 [OF linked_same link], simp_all add: tpl)
qed

end
