(* ===== verification/PaymentBooks.thy ===== *)
theory PaymentBooks
  imports PaymentEffects
begin

text \<open>
  The books of the payments: whatever requests arrive in whatever order, the ledger and the
  revenue log hold the entries of each payment exactly once if it ever succeeded, and none
  otherwise; and statuses only move along \<open>PAYMENT_TRANSITIONS\<close>.
\<close>

subsection \<open>The books\<close>

definition paid :: "payment_status \<Rightarrow> bool" where
  "paid st \<longleftrightarrow> st \<in> {SUCCESSFUL, REVERSED, REFUNDED}"

definition booked :: "entry_type \<Rightarrow> uuid \<Rightarrow> ledger_entry list \<Rightarrow> money list" where
  "booked ty i les = map le_amount (filter (\<lambda>e. le_entry_type e = ty \<and> le_source e = Some (MPayment, i)) les)"

text \<open>The fee events of a payment: amounts and tenants.\<close>

definition fees :: "uuid \<Rightarrow> revenue_event list \<Rightarrow> (money \<times> uuid) list" where
  "fees i res = map (\<lambda>e. (re_amount e, re_tenant e))
     (filter (\<lambda>e. re_event_type e = RE_PAYMENT_SUCCESSFUL \<and> re_source e = (MPayment, i)) res)"

definition once :: "bool \<Rightarrow> 'a \<Rightarrow> 'a list" where
  "once b m = (if b then [m] else [])"

definition balanced :: "ledger_entry list \<Rightarrow> revenue_event list \<Rightarrow> payment \<Rightarrow> bool" where
  "balanced les res q \<longleftrightarrow>
     booked PAYMENT_RECEIVED (p_id q) les = once (paid (p_status q)) (p_amount q) \<and>
     booked INSTITUTION_ENTITLEMENT (p_id q) les = once (paid (p_status q)) (p_amount q) \<and>
     booked PLATFORM_PAYMENT_FEE (p_id q) les = once (paid (p_status q)) 5000 \<and>
     fees (p_id q) res = once (paid (p_status q)) (5000, p_tenant q)"

definition used :: "nat \<Rightarrow> uuid \<Rightarrow> bool" where
  "used n i \<longleftrightarrow> (case i of Uuid k \<Rightarrow> k < n)"

text \<open>Every payment of an earlier state is still there, in a status its own leads to.\<close>

definition leads_to :: "payment_status \<Rightarrow> payment_status \<Rightarrow> bool" where
  "leads_to a b \<longleftrightarrow> (a, b) \<in> {(x, y). y \<in> set (PAYMENT_TRANSITIONS x)}\<^sup>*"

definition progress :: "payment list \<Rightarrow> payment list \<Rightarrow> bool" where
  "progress old ps \<longleftrightarrow> (\<forall>q \<in> set old. \<exists>r. row_get p_id (p_id q) ps = Some r \<and>
     leads_to (p_status q) (p_status r))"

text \<open>The two entries of an amount name a payment of the same institution.\<close>

definition owned :: "payment list \<Rightarrow> ledger_entry \<Rightarrow> bool" where
  "owned ps e \<longleftrightarrow> (le_entry_type e \<in> {PAYMENT_RECEIVED, INSTITUTION_ENTITLEMENT} \<longrightarrow>
     (\<exists>q \<in> set ps. le_source e = Some (MPayment, p_id q) \<and> le_tenant e = p_tenant q))"

definition books_at :: "payment list \<Rightarrow> nat \<Rightarrow> payment list \<Rightarrow> ledger_entry list \<Rightarrow> revenue_event list \<Rightarrow> bool" where
  "books_at old n ps les res \<longleftrightarrow> distinct (map p_id ps) \<and> (\<forall>q \<in> set ps. used n (p_id q)) \<and>
     (\<forall>e \<in> set les. \<forall>i. le_source e = Some (MPayment, i) \<longrightarrow> used n i) \<and>
     (\<forall>e \<in> set res. \<forall>i. re_source e = (MPayment, i) \<longrightarrow> used n i) \<and>
     (\<forall>q \<in> set ps. balanced les res q) \<and> progress old ps \<and> (\<forall>e \<in> set les. owned ps e)"

definition books :: "payment list \<Rightarrow> 'z payment_st_scheme \<Rightarrow> bool" where
  "books old s \<longleftrightarrow> books_at old (draws s) (payments s) (ledger_entries s) (revenue_events s)"

lemma used_Uuid [simp]: "used n (Uuid k) \<longleftrightarrow> k < n"
  by (simp add: used_def)

lemma books_atD:
  assumes "books_at old n ps les res"
  shows "distinct (map p_id ps)" "q \<in> set ps \<Longrightarrow> used n (p_id q)"
    "e \<in> set les \<Longrightarrow> le_source e = Some (MPayment, i) \<Longrightarrow> used n i"
    "ev \<in> set res \<Longrightarrow> re_source ev = (MPayment, i) \<Longrightarrow> used n i"
    "q \<in> set ps \<Longrightarrow> balanced les res q" "progress old ps" "e \<in> set les \<Longrightarrow> owned ps e"
  using assms by (auto simp: books_at_def)

lemma books_atI:
  assumes "distinct (map p_id ps)" and "\<And>q. q \<in> set ps \<Longrightarrow> balanced les res q \<and> used n (p_id q)"
    and "\<And>e i. e \<in> set les \<Longrightarrow> le_source e = Some (MPayment, i) \<Longrightarrow> used n i"
    and "\<And>ev i. ev \<in> set res \<Longrightarrow> re_source ev = (MPayment, i) \<Longrightarrow> used n i"
    and "progress old ps" and "\<And>e. e \<in> set les \<Longrightarrow> owned ps e"
  shows "books_at old n ps les res"
  using assms by (simp add: books_at_def)

lemma owned_map:
  "owned ps e \<Longrightarrow> (\<And>q. q \<in> set ps \<Longrightarrow> \<exists>r \<in> set rs. p_id r = p_id q \<and> p_tenant r = p_tenant q) \<Longrightarrow> owned rs e"
  unfolding owned_def by metis

lemma leads_to_step: "leads_to a b \<Longrightarrow> c = b \<or> c \<in> set (PAYMENT_TRANSITIONS b) \<Longrightarrow> leads_to a c"
  by (auto simp: leads_to_def elim: rtrancl_into_rtrancl)

lemma progress_update:
  assumes "progress old ps" and "row_get p_id (p_id p) ps = Some p" and "\<And>q. p_id (f q) = p_id q"
    and "p_status (f p) = p_status p \<or> p_status (f p) \<in> set (PAYMENT_TRANSITIONS (p_status p))"
  shows "progress old (row_update p_id (p_id p) f ps)"
  unfolding progress_def
proof
  fix q
  assume "q \<in> set old"
  then obtain r where r: "row_get p_id (p_id q) ps = Some r" "leads_to (p_status q) (p_status r)"
    using assms(1) by (auto simp: progress_def)
  show "\<exists>r. row_get p_id (p_id q) (row_update p_id (p_id p) f ps) = Some r \<and>
      leads_to (p_status q) (p_status r)"
  proof (cases "p_id q = p_id p")
    case True
    then have "r = p"
      using r(1) assms(2) by simp
    then show ?thesis
      using True r leads_to_step [OF r(2) assms(4) [folded \<open>r = p\<close>]] assms(2,3)
      by (simp add: row_get_update_same)
  qed (use r assms(3) in \<open>simp add: row_get_update_other\<close>)
qed

lemma used_mono: "used n i \<Longrightarrow> n \<le> m \<Longrightarrow> used m i"
  by (auto simp: used_def split: uuid.splits)

lemma books_mono: "books_at old n ps les res \<Longrightarrow> n \<le> m \<Longrightarrow> books_at old m ps les res"
  unfolding books_at_def by (meson used_mono)

lemma row_get_distinct:
  "distinct (map key tbl) \<Longrightarrow> r \<in> set tbl \<Longrightarrow> row_get key (key r) tbl = Some r"
  by (induction tbl) force+

lemma books_row: "books old s \<Longrightarrow> p \<in> set (payments s) \<Longrightarrow> row_get p_id (p_id p) (payments s) = Some p"
  by (simp add: books_def books_at_def row_get_distinct)

lemma row_update_cases:
  assumes "distinct (map key tbl)" and "row_get key (key p) tbl = Some p"
    and "r \<in> set (row_update key (key p) f tbl)"
  obtains "r = f p" | "r \<in> set tbl" and "key r \<noteq> key p"
proof -
  from assms(3) obtain q where q: "q \<in> set tbl" "r = (if key q = key p then f q else q)"
    by (auto simp: in_row_update)
  show thesis
  proof (cases "key q = key p")
    case True
    then have "Some q = Some p"
      using row_get_distinct [OF assms(1) q(1)] assms(2) by (simp only:)
    then show ?thesis
      using q(2) True that(1) by (simp only: if_True option.inject)
  qed (use q that(2) in simp)
qed

lemma owned_update:
  assumes "owned ps e" and "\<And>q. p_id (f q) = p_id q" and "\<And>q. p_tenant (f q) = p_tenant q"
  shows "owned (row_update p_id i f ps) e"
  using assms(1)
proof (rule owned_map)
  show "\<exists>r \<in> set (row_update p_id i f ps). p_id r = p_id q \<and> p_tenant r = p_tenant q" if "q \<in> set ps" for q
    by (rule bexI [of _ "if p_id q = i then f q else q"]) (use that assms(2,3) in \<open>auto simp: row_update_def\<close>)
qed

lemma books_update:
  assumes "books_at old n ps les res" and "row_get p_id (p_id p) ps = Some p"
    and "\<And>q. p_id (f q) = p_id q" and "\<And>q. p_amount (f q) = p_amount q \<and> p_tenant (f q) = p_tenant q"
    and "paid (p_status (f p)) = paid (p_status p)"
    and "p_status (f p) = p_status p \<or> p_status (f p) \<in> set (PAYMENT_TRANSITIONS (p_status p))"
  shows "books_at old n (row_update p_id (p_id p) f ps) les res"
proof (rule books_atI)
  have pin: "p \<in> set ps"
    using row_get_SomeD [OF assms(2)] by simp
  show "distinct (map p_id (row_update p_id (p_id p) f ps))"
    using books_atD(1) [OF assms(1)] by (subst map_row_update) (rule assms(3))
  fix r
  assume "r \<in> set (row_update p_id (p_id p) f ps)"
  then show "balanced les res r \<and> used n (p_id r)"
  proof (rule row_update_cases [OF books_atD(1) [OF assms(1)] assms(2)])
    assume "r = f p"
    then show ?thesis
      using books_atD(2,5) [OF assms(1) pin] by (simp add: balanced_def assms(3-5))
  qed (use books_atD(2,5) [OF assms(1)] in simp)
next
  show "progress old (row_update p_id (p_id p) f ps)"
    by (rule progress_update [OF books_atD(6) [OF assms(1)] assms(2,3,6)])
  show "owned (row_update p_id (p_id p) f ps) e" if "e \<in> set les" for e
    by (rule owned_update [OF books_atD(7) [OF assms(1) that]]) (simp_all add: assms(3,4))
qed (use books_atD(3,4) [OF assms(1)] in blast)+

lemma booked_simps [simp]:
  "booked ty i (e # les) =
     (if le_entry_type e = ty \<and> le_source e = Some (MPayment, i) then le_amount e # booked ty i les
      else booked ty i les)"
  "fees i (ev # res) =
     (if re_event_type ev = RE_PAYMENT_SUCCESSFUL \<and> re_source ev = (MPayment, i)
      then (re_amount ev, re_tenant ev) # fees i res else fees i res)"
  by (simp_all add: booked_def fees_def)

lemma books_other_event:
  assumes "books_at old n ps les res" and "re_event_type ev \<noteq> RE_PAYMENT_SUCCESSFUL"
    and "\<And>i. re_source ev = (MPayment, i) \<Longrightarrow> used n i"
  shows "books_at old n ps les (ev # res)"
  using books_atD [OF assms(1)] assms(2,3) by (intro books_atI) (auto simp: balanced_def)

lemma books_other_entry:
  assumes "books_at old n ps les res"
    and "le_entry_type e \<notin> {PAYMENT_RECEIVED, INSTITUTION_ENTITLEMENT, PLATFORM_PAYMENT_FEE}"
    and "\<And>i. le_source e = Some (MPayment, i) \<Longrightarrow> used n i"
  shows "books_at old n ps (e # les) res"
  using books_atD [OF assms(1)] assms(2,3) by (intro books_atI) (auto simp: balanced_def owned_def)

lemma books_unused:
  assumes "books_at old n ps les res"
  shows "booked ty (Uuid n) les = []" and "fees (Uuid n) res = []"
  using books_atD(3,4) [OF assms] by (fastforce simp: booked_def fees_def filter_empty_conv)+

lemma books_insert:
  assumes "books_at old n ps les res" and "p_id p = Uuid n" and "\<not> paid (p_status p)"
  shows "books_at old (Suc n) (p # ps) les res"
proof (rule books_atI)
  note old = books_atD [OF books_mono [OF assms(1) le_SucI [OF le_refl]]]
  have "Uuid n \<notin> p_id ` set ps"
    using books_atD(2) [OF assms(1)] used_Uuid [of n n] by (metis imageE less_irrefl)
  then show "distinct (map p_id (p # ps))"
    using old(1) assms(2) by simp
  show "balanced les res q \<and> used (Suc n) (p_id q)" if "q \<in> set (p # ps)" for q
    using that old(2,5) assms(2,3) books_unused [OF assms(1)]
    by (auto simp: balanced_def once_def)
  show "used (Suc n) i" if "e \<in> set les" "le_source e = Some (MPayment, i)" for e i
    using that by (rule old(3))
  show "used (Suc n) i" if "ev \<in> set res" "re_source ev = (MPayment, i)" for ev i
    using that by (rule old(4))
  show "owned (p # ps) e" if "e \<in> set les" for e
    using old(7) [OF that] by (rule owned_map) auto
  show "progress old (p # ps)"
    unfolding progress_def
  proof
    fix q
    assume "q \<in> set old"
    then obtain r where r: "row_get p_id (p_id q) ps = Some r" "leads_to (p_status q) (p_status r)"
      using books_atD(6) [OF assms(1)] by (auto simp: progress_def)
    then have "p_id q \<noteq> p_id p"
      using \<open>Uuid n \<notin> p_id ` set ps\<close> row_get_SomeD [OF r(1)] assms(2) by force
    with r show "\<exists>r. row_get p_id (p_id q) (p # ps) = Some r \<and> leads_to (p_status q) (p_status r)"
      by simp
  qed
qed

text \<open>The transition to \<open>SUCCESSFUL\<close> together with the three entries and the fee event.\<close>

lemma books_success:
  assumes "books_at old n ps les res" and "row_get p_id (p_id p) ps = Some p"
    and "\<not> paid (p_status p)"
    and "\<And>q. p_id (f q) = p_id q" and "\<And>q. p_amount (f q) = p_amount q \<and> p_tenant (f q) = p_tenant q" and "paid (p_status (f p))"
    and "p_status (f p) \<in> set (PAYMENT_TRANSITIONS (p_status p))"
    and "map (\<lambda>e. (le_entry_type e, le_amount e, le_source e, le_tenant e)) es =
      [(PLATFORM_PAYMENT_FEE, 5000, Some (MPayment, p_id p), p_tenant p),
       (INSTITUTION_ENTITLEMENT, p_amount p, Some (MPayment, p_id p), p_tenant p),
       (PAYMENT_RECEIVED, p_amount p, Some (MPayment, p_id p), p_tenant p)]"
    and "re_event_type ev = RE_PAYMENT_SUCCESSFUL" "re_amount ev = 5000 \<and> re_tenant ev = p_tenant p"
      "re_source ev = (MPayment, p_id p)"
  shows "books_at old n (row_update p_id (p_id p) f ps) (es @ les) (ev # res)"
proof (rule books_atI)
  obtain e1 e2 e3 where es: "es = [e1, e2, e3]"
    using assms(8) by (auto simp: map_eq_Cons_conv)
  have pin: "p \<in> set ps"
    using row_get_SomeD [OF assms(2)] by simp
  note old = books_atD [OF assms(1)]
  show "distinct (map p_id (row_update p_id (p_id p) f ps))"
    using old(1) by (subst map_row_update) (rule assms(4))
  show "balanced (es @ les) (ev # res) r \<and> used n (p_id r)"
    if "r \<in> set (row_update p_id (p_id p) f ps)" for r
    using old(1) assms(2) that
  proof (rule row_update_cases)
    assume "r = f p"
    then show ?thesis
      using old(2,5) [OF pin] assms(3-11) by (simp add: balanced_def es once_def)
  next
    assume "r \<in> set ps" "p_id r \<noteq> p_id p"
    then show ?thesis
      using old(2,5) [of r] assms(8-11) by (simp add: balanced_def es)
  qed
  show "used n i" if "e \<in> set (es @ les)" "le_source e = Some (MPayment, i)" for e i
    using that old(2) [OF pin] old(3) assms(8) by (auto simp: es)
  show "used n i" if "v \<in> set (ev # res)" "re_source v = (MPayment, i)" for v i
    using that old(2) [OF pin] old(4) assms(11) by auto
  show "progress old (row_update p_id (p_id p) f ps)"
    by (rule progress_update [OF old(6) assms(2,4) disjI2 [OF assms(7)]])
  show "owned (row_update p_id (p_id p) f ps) e" if e: "e \<in> set (es @ les)" for e
  proof (cases "e \<in> set les")
    case True
    show ?thesis
      by (rule owned_update [OF old(7) [OF True]]) (simp_all add: assms(4,5))
  next
    case False
    then have "le_source e = Some (MPayment, p_id p)" "le_tenant e = p_tenant p"
      using e assms(8) by (auto simp: es)
    then have "owned ps e"
      using pin by (auto simp: owned_def)
    then show ?thesis
      by (rule owned_update) (simp_all add: assms(4,5))
  qed
qed


subsection \<open>Operations keep the books\<close>

text \<open>The tables the books are read from, and the frames that leave them alone.\<close>

definition book_rows :: "'z payment_st_scheme \<Rightarrow> payment list \<times> ledger_entry list \<times> revenue_event list" where
  "book_rows s = (payments s, ledger_entries s, revenue_events s)"

interpretation adapter_books: adapter_frame "same book_rows"
  by unfold_locales (auto simp: same_def book_rows_def later_def)

interpretation outbox_books: payment_outbox_frame "same book_rows"
  by unfold_locales (auto simp: same_def book_rows_def later_def)

lemma books_same: "same book_rows s t \<Longrightarrow> books old s \<Longrightarrow> books old t"
  by (auto simp: same_def book_rows_def later_def books_def elim: books_mono)

lemma wpx_same_books:
  assumes "upholds (same book_rows) m" and "books old s"
    and "\<And>x t. same book_rows s t \<Longrightarrow> books old t \<Longrightarrow> Q x t" and "\<And>e t. books old t \<Longrightarrow> X e t"
  shows "wpx m Q X s"
  by (rule wpx_mono [OF upholds_wpx [OF assms(1), of s]]) (auto intro: assms(3,4) books_same assms(2))

abbreviation keeps_books :: "payment list \<Rightarrow> ('z payment_st_scheme, 'a) pm \<Rightarrow> 'z payment_st_scheme \<Rightarrow> bool" where
  "keeps_books old m s \<equiv> wpx m (\<lambda>_. books old) (\<lambda>_. books old) s"

lemma same_keeps_books: "upholds (same book_rows) m \<Longrightarrow> books old s \<Longrightarrow> keeps_books old m s"
  by (rule wpx_same_books)

definition current :: "payment \<Rightarrow> 'z payment_st_scheme \<Rightarrow> bool" where
  "current p s \<longleftrightarrow> row_get p_id (p_id p) (payments s) = Some p"

lemma books_audited [simp]: "books old s \<Longrightarrow> books old (audited r s)"
  by (auto simp: books_def elim: books_mono)

lemma books_used: "books old s \<Longrightarrow> current p s \<Longrightarrow> used (draws s) (p_id p)"
  unfolding books_def current_def by (drule row_get_SomeD) (blast dest: books_atD(2))

lemma books_after_move:
  assumes "books old s" and "current p s" and "paid new = paid (p_status p)"
    and "new \<in> set (PAYMENT_TRANSITIONS (p_status p))"
  shows "books old (after_move E new reason p s)"
  unfolding books_def after_move_simps
  by (rule books_update) (use assms in \<open>simp_all add: books_def current_def\<close>)

lemma books_earned:
  assumes "books old s" and "re_event_type ev \<noteq> RE_PAYMENT_SUCCESSFUL"
    and "\<And>i. re_source ev = (MPayment, i) \<Longrightarrow> used (draws s) i"
  shows "books old (earned ev s)"
  unfolding books_def earned_simps revenue_projections payment_projections
  by (rule books_mono [OF books_other_event [OF assms(1) [unfolded books_def] assms(2,3)]]) auto

lemma books_posted:
  assumes "books old s"
    and "le_entry_type e \<notin> {PAYMENT_RECEIVED, INSTITUTION_ENTITLEMENT, PLATFORM_PAYMENT_FEE}"
    and "\<And>i. le_source e = Some (MPayment, i) \<Longrightarrow> used (draws s) i"
  shows "books old (posted e s)"
  unfolding books_def posted_simps revenue_projections payment_projections
  by (rule books_mono [OF books_other_entry [OF assms(1) [unfolded books_def] assms(2,3)]]) auto

lemma succeeded_keeps_books:
  assumes "books old s" and "current p s" and "p_status p \<in> {INITIATED, PENDING, UNKNOWN}"
  shows "keeps_books old (payment_succeeded E actor (moved E SUCCESSFUL reason s p))
    (after_move E SUCCESSFUL reason p s)"
proof -
  let ?p = "moved E SUCCESSFUL reason s p"
  have tail: "keeps_books old (mseq (allocate_to_bill E ?p) (mbind (generate_receipt E ?p) (\<lambda>rc.
      mseq (notify_payment_successful E ?p rc) (dispatch_payment E ?p ''payment.successful'')))) s1"
    if "books old s1" for s1
    by (rule same_keeps_books [OF outbox_books.upholds_success_tail that])
  have "books_at old (draws s) (row_update p_id (p_id p) (with_status ?p) (payments s))
      (es @ ledger_entries s) (ev # revenue_events s)"
    if "map (\<lambda>e. (le_entry_type e, le_amount e, le_source e, le_tenant e)) es =
      [(PLATFORM_PAYMENT_FEE, 5000, Some (MPayment, p_id p), p_tenant p),
       (INSTITUTION_ENTITLEMENT, p_amount p, Some (MPayment, p_id p), p_tenant p),
       (PAYMENT_RECEIVED, p_amount p, Some (MPayment, p_id p), p_tenant p)]"
      "re_event_type ev = RE_PAYMENT_SUCCESSFUL" "re_amount ev = 5000 \<and> re_tenant ev = p_tenant p"
      "re_source ev = (MPayment, p_id p)" for es ev
    by (rule books_success [OF _ _ _ _ _ _ _ that])
       (use assms in \<open>auto simp: books_def current_def paid_def\<close>)
  note made = books_mono [OF this]
  show ?thesis
    unfolding payment_succeeded_def post_settlement_ledger_entries_def record_payment_successful_def
    by (simp add: wpx_eta Let_def, rule tail [unfolded wpx_eta])
       (use made [of "[_, _, _]"] in \<open>simp add: books_def PAYMENT_SUCCESS_FEE_def\<close>)
qed

lemma record_event_keeps_books:
  assumes "books old s" and "used (draws s) i" and "ty \<noteq> RE_PAYMENT_SUCCESSFUL"
  shows "keeps_books old (record_event E t ty amount currency (MPayment, i) entry metadata) s"
  using assms by (auto simp: Let_def intro!: books_earned)

lemma failed_keeps_books:
  assumes "books old s" and "used (draws s) (p_id p)"
  shows "keeps_books old (payment_failed E actor p) s" and "keeps_books old (payment_pending E actor p) s"
proof -
  have tail: "keeps_books old (mseq (notify_payment E p event extra) (dispatch_payment E p hook)) s1"
    if "books old s1" for s1 event extra hook
    by (rule same_keeps_books [OF _ that])
       (intro adapter_books.combinator_rules outbox_books.upholds_notify_payment
         outbox_books.upholds_dispatch_payment)
  show "keeps_books old (payment_failed E actor p) s"
    unfolding payment_failed_def record_payment_failed_def
    by (simp add: wpx_eta Let_def, rule tail [unfolded wpx_eta], rule books_earned)
       (use assms in \<open>auto intro: used_mono\<close>)
  show "keeps_books old (payment_pending E actor p) s"
    unfolding payment_pending_def
    by (simp add: wpx_eta Let_def, rule tail [unfolded wpx_eta]) (simp add: assms)
qed

lemma apply_outcome_keeps_books:
  assumes "books old s" and "current p s"
  shows "keeps_books old (apply_outcome E actor p out) s"
proof -
  have moved: "books old (after_move E new reason p s)" if "\<not> paid (p_status p)" "\<not> paid new"
      "new \<in> set (PAYMENT_TRANSITIONS (p_status p))" for new reason
    by (rule books_after_move [OF assms]) (use that in simp_all)
  have used: "used (draws s) (p_id p)"
    by (rule books_used [OF assms])
  have effects:
    "keeps_books old (payment_failed E actor (moved E new reason s p)) (after_move E new reason p s)"
    "keeps_books old (payment_pending E actor (moved E new reason s p)) (after_move E new reason p s)"
    if "\<not> paid (p_status p)" "\<not> paid new" "new \<in> set (PAYMENT_TRANSITIONS (p_status p))"
    for new reason
    by (rule failed_keeps_books; use moved [OF that] used in simp)+
  show ?thesis
    using succeeded_keeps_books [OF assms] effects moved used assms(1)
    by (cases out; cases "p_status p")
       (simp_all add: apply_outcome_def paid_def Let_def wpx_eta)
qed

lemma compensate_keeps_books:
  assumes "books old s" and "used (draws s) (p_id p)" and "ty \<noteq> RE_PAYMENT_SUCCESSFUL"
    and "lty \<in> {REVERSAL, REFUND}"
  shows "keeps_books old (compensate E p ty lty) s"
proof -
  have event: "keeps_books old (record_event E t ty amount currency (MPayment, p_id p) entry metadata) s1"
    if "books old s1" "draws s \<le> draws s1" for s1 t amount currency entry metadata
    by (rule record_event_keeps_books [OF that(1) used_mono [OF assms(2) that(2)] assms(3)])
  have entry: "books old (posted (new_entry E t lty ac a c r (le_source e) rel m n) s)"
    if "row_get le_id i (ledger_entries s) = Some e" for i e t ac a c r rel m n
  proof (rule books_posted [OF assms(1)])
    fix j
    assume "le_source (new_entry E t lty ac a c r (le_source e) rel m n) = Some (MPayment, j)"
    then show "used (draws s) j"
      using row_get_SomeD [OF that] books_atD(3) [OF assms(1) [unfolded books_def]] by auto
  qed (use assms(4) in auto)
  show ?thesis
    unfolding compensate_def post_compensating_entry_def
    using event [OF assms(1)] event [OF entry] assms(1)
    by (auto simp: wpx_eta Let_def split: option.split simp del: wpx_record_event)
qed

subsection \<open>The services keep the books\<close>

lemma current_update:
  assumes "current p s" and "\<And>q. p_id (f q) = p_id q"
  shows "current (f p) (s\<lparr>payments := row_update p_id (p_id p) f (payments s)\<rparr>)"
  using assms by (simp add: current_def row_get_update_same)

lemma books_update_row:
  assumes "books old s" and "current p s"
    and "\<And>q. p_id (f q) = p_id q" and "\<And>q. p_amount (f q) = p_amount q \<and> p_tenant (f q) = p_tenant q"
    and "\<And>q. p_status (f q) = p_status q"
  shows "books old (s\<lparr>payments := row_update p_id (p_id p) f (payments s)\<rparr>)"
  using books_update [of old "draws s" "payments s" "ledger_entries s" "revenue_events s" p f] assms
  by (simp add: books_def current_def)

lemma current_same: "same book_rows s t \<Longrightarrow> current p s \<Longrightarrow> current p t"
  by (auto simp: same_def book_rows_def current_def)

lemma current_audited [simp]: "current p (audited r s) = current p s"
  by (simp add: current_def)

lemma books_member: "books old s \<Longrightarrow> p \<in> set (payments s) \<Longrightarrow> current p s"
  by (simp add: books_row current_def)

lemma query_keeps_books:
  assumes "books old s" and "current p s"
  shows "keeps_books old (query_payment E actor p) s"
proof -
  let ?set = "\<lambda>r q. q\<lparr>p_provider_reference := pr_provider_reference r\<rparr>"
  have rest: "keeps_books old (mseq (record_audit_event E ''payment.queried'' actor (Some (p_tenant q))
      (Some (MPayment, p_id q)) None None m) (apply_outcome E actor q out)) s1"
    if "books old s1" "current q s1" for s1 q m out
    using that by (simp add: wpx_eta Let_def apply_outcome_keeps_books)
  have step: "keeps_books old (mbind (ad_query_payment ad reference) (\<lambda>r.
      mbind (if pr_provider_reference r \<noteq> [] \<and> p_provider_reference p = []
             then mseq (modify (\<lambda>s. s\<lparr>payments := row_update p_id (p_id p) (?set r) (payments s)\<rparr>))
                   (ret (?set r p)) else ret p) (\<lambda>p1.
      mseq (record_audit_event E ''payment.queried'' actor (Some (p_tenant p1))
             (Some (MPayment, p_id p1)) None None (m r)) (apply_outcome E actor p1 (pr_outcome r))))) s"
    if "get_adapter E pr = Inr ad" for ad pr reference m
    unfolding wpx_mbind
  proof (rule wpx_same_books [OF adapter_books.upholds_adapter(2) [OF that] assms(1)])
    fix r t
    assume t: "same book_rows s t" "books old t"
    note cur = current_same [OF t(1) assms(2)]
    have "keeps_books old (mseq (record_audit_event E ''payment.queried'' actor (Some (p_tenant (?set r p)))
        (Some (MPayment, p_id (?set r p))) None None (m r)) (apply_outcome E actor (?set r p) (pr_outcome r)))
        (t\<lparr>payments := row_update p_id (p_id p) (?set r) (payments t)\<rparr>)"
      by (rule rest [OF books_update_row [OF t(2) cur] current_update [OF cur]]) simp_all
    with rest [OF t(2) cur] show "wpx (if pr_provider_reference r \<noteq> [] \<and> p_provider_reference p = []
             then mseq (modify (\<lambda>s. s\<lparr>payments := row_update p_id (p_id p) (?set r) (payments s)\<rparr>))
                   (ret (?set r p)) else ret p)
       (\<lambda>p1. keeps_books old (mseq (record_audit_event E ''payment.queried'' actor (Some (p_tenant p1))
             (Some (MPayment, p_id p1)) None None (m r)) (apply_outcome E actor p1 (pr_outcome r)))) (\<lambda>_. books old) t"
      by simp
  qed
  show ?thesis
    unfolding query_payment_def payment_provider_of_def using assms(1)
    by (auto split: option.split sum.split intro: step simp del: wpx_mbind wpx_mseq simp: wpx_mbind [of "require e f" for e f] wpx_mbind [of "lift_sum r" for r])
qed

text \<open>Refund and reversal share the steps after the provider's answer.\<close>

lemma compensated_keeps_books:
  assumes "books old s" and "current p s" and "p_status p = SUCCESSFUL"
    and "(new, ty, lty) \<in> {(REFUNDED, RE_PAYMENT_REFUNDED, REFUND), (REVERSED, RE_PAYMENT_REVERSED, REVERSAL)}"
  shows "keeps_books old (mbind (payment_transition_to E p new []) (\<lambda>p1.
      mseq (record_audit_event E action actor (Some (p_tenant p1)) (Some (MPayment, p_id p1)) None None m)
     (mseq (compensate E p1 ty lty)
     (mseq (dispatch_payment E p1 hook)
     (mseq (notify_payment E p1 event extra)
       (ret p1)))))) s"
proof -
  have tail: "keeps_books old (mseq (dispatch_payment E q hook) (mseq (notify_payment E q event extra) (ret q))) s1"
    if "books old s1" for s1 q
    by (rule same_keeps_books [OF _ that])
       (intro adapter_books.combinator_rules outbox_books.upholds_notify_payment
         outbox_books.upholds_dispatch_payment)
  have rest: "keeps_books old (mseq (compensate E q ty lty)
      (mseq (dispatch_payment E q hook) (mseq (notify_payment E q event extra) (ret q)))) s1"
    if "books old s1" "used (draws s1) (p_id q)" for s1 q
  proof -
    have "keeps_books old (compensate E q ty lty) s1"
      by (rule compensate_keeps_books [OF that]) (use assms(4) in auto)
    then show ?thesis
      unfolding wpx_mseq [of "compensate E q ty lty"] by (rule wpx_mono) (use tail in simp_all)
  qed
  have "books old (after_move E new [] p s)"
    by (rule books_after_move [OF assms(1,2)]) (use assms(3,4) in \<open>auto simp: paid_def\<close>)
  then have "keeps_books old (mseq (compensate E (moved E new [] s p) ty lty)
      (mseq (dispatch_payment E (moved E new [] s p) hook)
      (mseq (notify_payment E (moved E new [] s p) event extra) (ret (moved E new [] s p)))))
      (audited r (after_move E new [] p s))" for r
    by (intro rest) (use books_used [OF assms(1,2)] in \<open>auto elim: used_mono\<close>)
  then show ?thesis
    using assms by (auto simp: wpx_eta Let_def)
qed

lemma refund_keeps_books:
  assumes "books old s" and "current p s"
  shows "keeps_books old (refund_payment E actor amount p) s" and "keeps_books old (reverse_payment E actor p) s"
proof -
  have adapter: "keeps_books old (mbind m f) s"
    if "upholds (same book_rows) m" "\<And>x t. books old t \<Longrightarrow> current p t \<Longrightarrow> keeps_books old (f x) t" for m f
    unfolding wpx_mbind
    by (rule wpx_same_books [OF that(1) assms(1)]) (auto intro: that(2) current_same assms(2))
  note wpx_heads = wpx_mbind [of "require e f" for e f] wpx_mbind [of "lift_sum r" for r]
  show "keeps_books old (refund_payment E actor amount p) s"
    unfolding refund_payment_def payment_provider_of_def record_payment_refunded_def using assms(1)
    by (auto simp: wpx_heads Let_def simp del: wpx_mbind wpx_mseq split: option.split sum.split
        intro!: adapter adapter_books.upholds_adapter(4) compensated_keeps_books)
  show "keeps_books old (reverse_payment E actor p) s"
    unfolding reverse_payment_def payment_provider_of_def record_payment_reversed_def audit_event_def
    using assms(1)
    by (auto simp: wpx_heads Let_def simp del: wpx_mbind wpx_mseq split: option.split sum.split
        intro!: adapter adapter_books.upholds_adapter(5) compensated_keeps_books)
qed

lemma books_frame:
  "books old s \<Longrightarrow> books old (s\<lparr>tx_broken := b\<rparr>)"
  "books old s \<Longrightarrow> books old (s\<lparr>callback_events := ces\<rparr>)"
  "books old s \<Longrightarrow> books old (s\<lparr>clock_reads := n\<rparr>)"
  "books old s \<Longrightarrow> draws s \<le> m \<Longrightarrow> books old (s\<lparr>draws := m\<rparr>)"
  by (auto simp: books_def elim: books_mono)

lemma books_rollback: "books old s \<Longrightarrow> draws s \<le> draws t \<Longrightarrow> books old (rollback s t)"
  by (auto simp: books_def rollback_def elim: books_mono)

lemma books_commit: "books old s \<Longrightarrow> books old (commit s)"
  by (simp add: books_def commit_def)

lemma books_new_callback:
  "books old s \<Longrightarrow> books old (s\<lparr>draws := Suc (draws s), callback_events := ces\<rparr>)"
  "books old s \<Longrightarrow> books old (s\<lparr>draws := Suc (draws s), tx_broken := b\<rparr>)"
  by (auto simp: books_def elim: books_mono)

lemma create_callback_keeps_books:
  assumes "books old s"
  shows "keeps_books old (create_callback_event pid ext pm out payload) s"
  using assms by (simp add: create_callback_event_def Let_def books_new_callback)

lemma duplicate_keeps_books:
  assumes "books old s"
  shows "keeps_books old (duplicate_callback E actor pr parsed) s"
proof -
  have event: "keeps_books old (record_payment_duplicate E p) s1"
    if "books old s1" "used (draws s1) (p_id p)" for p s1
    unfolding record_payment_duplicate_def using that by (auto simp: Let_def intro!: books_earned)
  have op: "used m (p_id p)" if "row_get p_id i (payments s) = Some p" "draws s \<le> m" for i p m
    using books_atD(2) [OF assms [unfolded books_def]] row_get_SomeD [OF that(1)] that(2)
    by (blast intro: used_mono)
  show ?thesis
    unfolding duplicate_callback_def create_callback_event_def
    using assms op by (auto simp: Let_def wpx_eta books_new_callback split: option.split
        intro!: event)
qed

lemma first_keeps_books:
  assumes "books old s"
  shows "keeps_books old (first_callback E actor ev parsed) s"
proof -
  have "current p s" if "List.find P (payments s) = Some p" for p P
    using find_Some_D [OF that] books_member [OF assms] by blast
  then show ?thesis
    unfolding first_callback_def save_callback_event_def
    using assms by (auto simp: Let_def wpx_eta books_frame current_def split: option.split
        intro!: apply_outcome_keeps_books)
qed

lemma callback_keeps_books:
  fixes s :: "'z payment_st_scheme"
  assumes "books old s"
  shows "keeps_books old (process_callback E actor pr body signature) s"
proof -
  have "keeps_books old (mbind (catch (mbind m (\<lambda>x. ret (Some x)))
       (\<lambda>e. case e of InvalidCallbackSignatureError m \<Rightarrow> ret None | _ \<Rightarrow> raise e)) f) s"
    if "upholds (same book_rows) m" "\<And>x t. books old t \<Longrightarrow> keeps_books old (f x) t" for m f
    unfolding wpx_mbind wpx_catch wpx_ret
    by (rule wpx_same_books [OF that(1) assms(1)])
       (auto intro: that(2) split: exn.split)
  note answered = this
  have created: "keeps_books old (mbind (catch (mbind (atomic (create_callback_event (pp_id pr) ext None CProcessed j))
         (\<lambda>ev. ret (Some ev))) (\<lambda>e. if is_integrity_error e then ret None else raise e))
       (\<lambda>created. case created of None \<Rightarrow> duplicate_callback E actor pr parsed
          | Some ev \<Rightarrow> first_callback E actor ev parsed)) t"
    if "books old t" for t ext j parsed
    using that by (auto simp: wpx_eta create_callback_event_def Let_def books_new_callback
        intro!: duplicate_keeps_books first_keeps_books books_rollback)
  show ?thesis
  proof (cases "get_adapter E pr :: exn + 'z payment_st_scheme adapter")
    case (Inr ad)
    have ans: "keeps_books old (case res of
         None \<Rightarrow> mbind (create_callback_event (pp_id pr) [] None CInvalidSignature (JObj [])) (\<lambda>ev.
           mseq (audit_event E ''payment.callback_invalid_signature'' actor None
                   (Some (MPaymentCallbackEvent, ce_id ev))) (ret ev))
       | Some parsed \<Rightarrow>
           mbind (catch (mbind (atomic (create_callback_event (pp_id pr) (cb_external_event_id parsed)
                                  None CProcessed (cb_raw_response parsed))) (\<lambda>ev. ret (Some ev)))
                    (\<lambda>e. if is_integrity_error e then ret None else raise e)) (\<lambda>created.
           case created of None \<Rightarrow> duplicate_callback E actor pr parsed
           | Some ev \<Rightarrow> first_callback E actor ev parsed)) t" if "books old t" for res t
    proof (cases res)
      case None
      then show ?thesis
        using that by (simp add: wpx_eta create_callback_event_def Let_def books_new_callback)
    qed (simp only: option.case created [OF that])
    show ?thesis
      unfolding process_callback_def wpx_mbind [of "lift_sum r" for r] wpx_lift_sum Inr sum.case
      by (rule answered [OF adapter_books.upholds_adapter(3) [OF Inr] ans])
  qed (simp add: assms process_callback_def)
qed

lemma insert_keeps_books:
  assumes "books old s" and "p_id p = Uuid n" and "n < draws s"
    and "\<And>q. q \<in> set (payments s) \<Longrightarrow> used n (p_id q)"
    and "\<And>e i. e \<in> set (ledger_entries s) \<Longrightarrow> le_source e = Some (MPayment, i) \<Longrightarrow> used n i"
    and "\<And>ev i. ev \<in> set (revenue_events s) \<Longrightarrow> re_source ev = (MPayment, i) \<Longrightarrow> used n i"
    and "p_status p = INITIATED"
  shows "wpx (insert_payment E p) (\<lambda>q t. books old t \<and> current q t \<and> p_status q = INITIATED) (\<lambda>_. books old) s"
proof -
  have at: "books_at old n (payments s) (ledger_entries s) (revenue_events s)"
    by (rule books_atI) (use assms(1,4-6) in \<open>auto simp: books_def dest: books_atD\<close>)
  have "books_at old m (q # payments s) (ledger_entries s) (revenue_events s)"
    if "p_id q = Uuid n" "p_status q = INITIATED" "Suc n \<le> m" for q m
    by (rule books_mono [OF books_insert [OF at that(1)] that(3)]) (simp add: that(2) paid_def)
  then show ?thesis
    using assms(1-3,7)
    by (auto simp: insert_payment_def Let_def books_def current_def elim: books_mono)
qed

lemma create_payment_keeps_books:
  assumes "books old s"
  shows "wpx (create_payment E k a) (\<lambda>q t. books old t \<and> current q t \<and> p_status q = INITIATED) (\<lambda>_. books old) s"
proof -
  have insert: "wpx (insert_payment E p) (\<lambda>q t. books old t \<and> current q t \<and> p_status q = INITIATED) (\<lambda>_. books old)
      (s\<lparr>draws := Suc (draws s), clock_reads := c\<rparr>)"
    if "p_id p = Uuid (draws s)" "p_status p = INITIATED" for p c
    by (rule insert_keeps_books [where n = "draws s"])
       (use assms that books_atD [OF assms [unfolded books_def]] in
         \<open>auto simp: books_def elim: books_mono\<close>)
  then show ?thesis
    using assms by (auto simp: create_payment_def wpx_eta split: option.split)
qed

lemma initiate_keeps_books:
  fixes s :: "'z payment_st_scheme"
  assumes "books old s"
  shows "keeps_books old (initiate_payment E actor k a) s"
proof -
  have failed: "keeps_books old (initiation_failed E actor p reason) t"
    if "books old t" "current p t" "p_status p = INITIATED" for p reason t
  proof -
    have notify: "keeps_books old (notify_payment E q PAYMENT_FAILED []) t1" if "books old t1" for q t1
      by (rule same_keeps_books [OF outbox_books.upholds_notify_payment that])
    have "books old (after_move E FAILED reason p t)"
      by (rule books_after_move [OF that(1,2)]) (simp_all add: that(3) paid_def)
    moreover have "used (Suc (draws t)) (p_id p)"
      using books_used [OF that(1,2)] by (rule used_mono) simp
    ultimately show ?thesis
      using that(3) by (auto simp: initiation_failed_def wpx_eta Let_def record_payment_failed_def
          intro!: notify books_earned)
  qed
  have timed_out: "keeps_books old (initiation_timed_out E actor p) t"
    if "books old t" "current p t" "p_status p = INITIATED" for p t
    using that books_after_move [OF that(1,2), of UNKNOWN]
    by (simp add: initiation_timed_out_def wpx_eta Let_def paid_def)
  have answered: "keeps_books old (initiation_answered E actor p r) t"
    if "books old t" "current p t" "p_status p = INITIATED" for p r t
    unfolding initiation_answered_def Let_def wpx_eta wpx_mseq wpx_modify
    by (rule apply_outcome_keeps_books [OF books_update_row [OF that(1,2)] current_update [OF that(2)]]) simp_all
  have tried: "keeps_books old (mbind (try_adapter m) f) t"
    if "upholds (same book_rows) m" "books old t \<and> current p t \<and> p_status p = INITIATED"
      "\<And>x u. books old u \<Longrightarrow> current p u \<Longrightarrow> keeps_books old (f x) u" for m f t p
  proof -
    have "upholds (same book_rows) (try_adapter m)"
      unfolding try_adapter_def using that(1)
      by (intro adapter_books.combinator_rules upholds_if)
    then show ?thesis
      unfolding wpx_mbind [of "try_adapter m"]
      by (rule wpx_same_books) (use that in \<open>auto intro: current_same\<close>)
  qed
  show ?thesis
  proof (cases "find_payment k s")
    case None
    have "keeps_books old (mseq (audit_event E ''payment.initiated'' actor tn tg)
         (mbind (lift_sum (get_adapter E (pg_provider a))) (\<lambda>ad.
          mbind (require e f) (\<lambda>cn. mbind (try_adapter (ad_initiate_payment ad (args cn))) (\<lambda>res.
          case res of
            Inr r \<Rightarrow> initiation_answered E actor p r
          | Inl (ProviderTimeoutError m) \<Rightarrow> initiation_timed_out E actor p
          | Inl e \<Rightarrow> initiation_failed E actor p (exn_text e)))))) t"
      if p: "books old t \<and> current p t \<and> p_status p = INITIATED" for p t tn tg e args
        and f :: "'z payment_st_scheme \<Rightarrow> 'c option"
      using p by (auto simp: wpx_mbind [of "lift_sum r" for r] wpx_mbind [of "require e f" for e f]
          Let_def simp del: wpx_mbind split: sum.split option.split
          intro!: tried adapter_books.upholds_adapter(1) answered timed_out failed
          split: exn.split)
    then show ?thesis
      unfolding initiate_payment_def wpx_mbind [of "gets f" for f] wpx_gets None option.case
        wpx_mbind [of "create_payment E k a"]
      by (intro wpx_mono [OF create_payment_keeps_books [OF assms]]) simp_all
  qed (use assms in \<open>simp add: initiate_payment_def Let_def\<close>)
qed

subsection \<open>Requests\<close>

text \<open>The requests that reach the orchestrator, each handled in its own transaction.\<close>

datatype payment_call =
  PayBill "user option" "uuid option" uuid "pay_form option"
| QueryPayment "user option" "uuid option" uuid bool
| RefundPayment "user option" "uuid option" uuid bool
| ReversePayment "user option" "uuid option" uuid bool
| ProviderCallback string string

fun payment_endpoint :: "env \<Rightarrow> payment_call \<Rightarrow> ('z payment_st_scheme, unit) pm" where
  "payment_endpoint E (PayBill user tenant bill form) = mseq (pay_bill E user tenant bill form) (ret ())"
| "payment_endpoint E (QueryPayment user tenant pk post) = payment_query E user tenant pk post"
| "payment_endpoint E (RefundPayment user tenant pk post) = payment_refund E user tenant pk post"
| "payment_endpoint E (ReversePayment user tenant pk post) = payment_reverse E user tenant pk post"
| "payment_endpoint E (ProviderCallback body signature) =
     mseq (mock_provider_callback E body signature) (ret ())"

fun serve :: "env \<Rightarrow> payment_call list \<Rightarrow> 'z payment_st_scheme \<Rightarrow> 'z payment_st_scheme" where
  "serve E [] s = s"
| "serve E (c # cs) s = serve E cs (snd (request (payment_endpoint E c) s))"

lemma tenant_payment_current:
  "books old s \<Longrightarrow> tenant_payment pk tenant s = Some p \<Longrightarrow> current p s"
  unfolding tenant_payment_def by (drule find_Some_D) (blast dest: books_member)

lemma guarded_keeps_books:
  assumes "books old s" and "keeps_books old m s"
  shows "keeps_books old (require_tenant_role roles user tenant m) s"
  using assms by (auto simp: require_tenant_role_def)

lemma caught_keeps_books:
  assumes "keeps_books old m s"
  shows "keeps_books old (catch_validation (mseq m (ret ()))) s"
  unfolding catch_validation_def wpx_catch wpx_mseq wpx_ret
  by (rule wpx_mono [OF assms]) (auto split: exn.split)

lemma endpoint_keeps_books:
  assumes "books old s"
  shows "keeps_books old (payment_endpoint E c) s"
proof -
  note services = query_keeps_books [OF assms] refund_keeps_books [OF assms]
    initiate_keeps_books [OF assms] callback_keeps_books [OF assms]
  note cur = tenant_payment_current [OF assms]
  show ?thesis
  proof (cases c)
    case (PayBill user tenant bill form)
    then show ?thesis
      using assms services(4)
      by (auto simp: pay_bill_def require_tenant_role_def wpx_eta split: option.split)
  next
    case (QueryPayment user tenant pk post)
    then show ?thesis
      using assms cur services(1)
      by (auto simp: payment_query_def require_tenant_role_def wpx_eta split: option.split)
  next
    case (RefundPayment user tenant pk post)
    then show ?thesis
      using assms cur caught_keeps_books [OF services(2)]
      by (auto simp: payment_refund_def require_tenant_role_def split: option.split)
  next
    case (ReversePayment user tenant pk post)
    then show ?thesis
      using assms cur caught_keeps_books [OF services(3)]
      by (auto simp: payment_reverse_def require_tenant_role_def split: option.split)
  next
    case (ProviderCallback body signature)
    then show ?thesis
      using assms services(5) by (auto simp: mock_provider_callback_def wpx_eta split: option.split)
  qed
qed

lemma endpoint_logs: "upholds logs_grow (payment_endpoint E c)"
  by (cases c) (auto intro!: revenue_logs.combinator_rules payment_logs.upholds_payment_views)

lemma request_keeps_books:
  assumes "books old s"
  shows "books old (snd (request (payment_endpoint E c) s))"
proof -
  have "wpx (request (payment_endpoint E c)) (\<lambda>_. books old) (\<lambda>_. books old) s"
    unfolding wpx_request
    by (rule wpx_mono [OF wpx_conj [OF endpoint_keeps_books [OF assms]
          upholds_wpx [OF endpoint_logs, where s = s]]])
       (auto intro: books_commit books_rollback assms simp: logs_grow_def later_def)
  then show ?thesis
    by (cases "request (payment_endpoint E c) s"; cases "fst (request (payment_endpoint E c) s)")
       (auto simp: wpx_def)
qed

lemma serve_keeps_books: "books old s \<Longrightarrow> books old (serve E cs s)"
  by (induction cs arbitrary: s) (simp_all add: request_keeps_books)

lemma serve_logs: "logs_grow s (serve E cs s)"
proof (induction cs arbitrary: s)
  case (Cons c cs)
  have "logs_grow s (snd (request (payment_endpoint E c) s))"
    using revenue_logs.upholds_request [OF endpoint_logs [of E c]] unfolding upholds_def by blast
  then show ?case
    using Cons.IH revenue_logs.rel_trans by simp blast
qed (simp add: revenue_logs.rel_refl)

text \<open>
  C2 (\<open>apps/payments/services.py\<close>, \<open>views.py\<close>): start from balanced books and let any requests
  reach the payment endpoints, in any order, each in its transaction, failing or not. Then every
  payment that ever succeeded has exactly one \<open>PAYMENT_RECEIVED\<close> and one
  \<open>INSTITUTION_ENTITLEMENT\<close> entry for its amount, one platform fee entry of 50.00 and one fee event,
  and every other payment has none; no payment disappears, and its status only moves along
  \<open>PAYMENT_TRANSITIONS\<close>; the ledger, the revenue log and the audit log only grow.
\<close>

theorem payment_books_balance:
  assumes "books (payments s) s" and "u = serve E calls s"
  shows "(\<forall>q \<in> set (payments u).
        booked PAYMENT_RECEIVED (p_id q) (ledger_entries u) = once (paid (p_status q)) (p_amount q) \<and>
        booked INSTITUTION_ENTITLEMENT (p_id q) (ledger_entries u) = once (paid (p_status q)) (p_amount q) \<and>
        booked PLATFORM_PAYMENT_FEE (p_id q) (ledger_entries u) = once (paid (p_status q)) 5000 \<and>
        fees (p_id q) (revenue_events u) = once (paid (p_status q)) (5000, p_tenant q)) \<and>
    (\<forall>q \<in> set (payments s). \<exists>r. row_get p_id (p_id q) (payments u) = Some r \<and>
        leads_to (p_status q) (p_status r)) \<and>
    suffix (ledger_entries s) (ledger_entries u) \<and> suffix (revenue_events s) (revenue_events u) \<and>
    suffix (audit_logs s) (audit_logs u)"
  using books_atD(5,6) [OF serve_keeps_books [OF assms(1), unfolded books_def]] serve_logs [of s E calls]
  by (simp add: assms(2) balanced_def progress_def logs_grow_def)

definition example_payment_st :: "payment list \<Rightarrow> payment_st" where
  "example_payment_st ps = provider_st.extend example_provider_st (payment_st.fields ps [] [])"

lemma example_payment_simps [simp]:
  "payments (example_payment_st ps) = ps"
  "ledger_entries (example_payment_st ps) = ledger_entries example_revenue_st"
  "revenue_events (example_payment_st ps) = revenue_events example_revenue_st"
  "draws (example_payment_st ps) = 9"
  by (simp_all add: example_payment_st_def example_provider_st_def example_cn_st_def
      example_revenue_st_def example_billing_st_def payment_st.defs provider_st.defs
      control_number_st.defs revenue_st.defs ledger_st.defs billing_st.defs)

definition example_calls :: "payment_call list" where
  "example_calls = [RefundPayment None None (Uuid 5) True, ProviderCallback ''b'' ''s'',
     QueryPayment None None (Uuid 7) True]"

definition example_unknown :: payment where
  "example_unknown = example_payment\<lparr>p_id := Uuid 7, p_status := UNKNOWN\<rparr>"

lemma example_books: "books [example_unknown] (example_payment_st [example_unknown])"
  by (auto simp: books_def example_revenue_simps example_payment_def once_def paid_def owned_def
      balanced_def progress_def leads_to_def example_unknown_def intro!: books_atI)
     (auto simp: booked_def fees_def)

theorem payment_books_balance_witness:
  "\<exists>u. u = serve example_env example_calls (example_payment_st [example_unknown]) \<and>
     (\<forall>q \<in> set (payments u). paid (p_status q) \<or> booked PAYMENT_RECEIVED (p_id q) (ledger_entries u) = [])"
  using payment_books_balance [of "example_payment_st [example_unknown]", OF _ refl] example_books
  by (simp add: once_def)

end
