(* ===== verification/PaymentProperties.thy ===== *)
theory PaymentProperties
  imports PaymentBooks
begin

text \<open>
  Single payments: what a success writes, which payment holds an idempotency key, timeouts, repeated
  callbacks, and the error paths of the query and of the receipt.
\<close>

subsection \<open>Success\<close>

lemma linked_after_move: "linked (after_move E new reason p s) (moved E new reason s p) cn ob c t =
    linked s p cn ob c t"
  by (rule linked_same) (simp_all add: moved_def after_move_def)

lemma settlement_entries_shape:
  "settlement_entries p (fee # es) \<Longrightarrow> \<exists>ent recv. es = [ent, recv]"
  by (auto simp: settlement_entries_def map_eq_Cons_conv)

lemma settlement_entries_moved [simp]:
  "settlement_entries (moved E new reason s p) es = settlement_entries p es"
  "receipt_for (moved E new reason s p) cn ob c t m rc = receipt_for p cn ob c t m rc"
  by (simp_all add: settlement_entries_def receipt_for_def)

lemma outbox_written_after_move:
  "outbox_written E q ob c (after_move E new reason p s) u = outbox_written E q ob c s u"
  by (simp add: outbox_written_def bill_paid_event_def subscribers_def active_endpoints_def balance_def amount_paid_def
      split: option.split)

lemma success_effects:
  assumes "p_status p \<in> {INITIATED, PENDING, UNKNOWN}" and "linked s p cn ob c t"
    and "\<And>b. ob = Some b \<Longrightarrow> b_status b \<in> {ACTIVE, PARTIALLY_PAID}" and "find_receipt (p_id p) s = None"
    and "receipt_numbers_fresh E s" and "no_override s (p_tenant p)"
  shows "succeeds (apply_outcome E actor p OSuccessful) (\<lambda>p' u.
      p_status p' = SUCCESSFUL \<and> p_id p' = p_id p \<and> p_tenant p' = p_tenant p \<and> p_amount p' = p_amount p \<and>
      payments u = row_update p_id (p_id p) (with_status p') (payments s) \<and>
      (\<exists>fee ent recv ev. ledger_entries u = fee # ent # recv # ledger_entries s \<and>
        settlement_entries p [fee, ent, recv] \<and>
        revenue_events u = ev # revenue_events s \<and> re_event_type ev = RE_PAYMENT_SUCCESSFUL \<and>
        re_amount ev = 5000 \<and> re_source ev = (MPayment, p_id p) \<and> re_ledger_entry ev = Some (le_id fee)) \<and>
      (case ob of
         Some b \<Rightarrow> (\<exists>al. payment_allocations u = al # payment_allocations s \<and> pa_payment al = p_id p \<and>
             pa_bill al = b_id b \<and> pa_amount al = p_amount p) \<and>
           only_bill (b\<lparr>b_status := if balance s b \<le> p_amount p then PAID else PARTIALLY_PAID\<rparr>) (bills s) (bills u)
       | None \<Rightarrow> payment_allocations u = payment_allocations s \<and> bills u = bills s) \<and>
      (\<exists>rc. receipts u = rc # receipts s \<and>
        receipt_for p cn ob c t (map_option (\<lambda>b. balance s b - p_amount p) ob) rc) \<and>
      outbox_written E p' ob c s u) s"
    (is "wpx _ ?Q _ _")
proof -
  let ?p = "moved E SUCCESSFUL [] s p" and ?s = "after_move E SUCCESSFUL [] p s"
  have "wpx (payment_succeeded E actor ?p)
      (\<lambda>_ u. success_written E ?p cn ob c t ?s u \<and> payments u = payments ?s) (\<lambda>_ _. False) ?s"
    by (rule wpx_payment_succeeded)
       (use assms in \<open>simp_all add: linked_after_move find_receipt_def receipts_fresh_later [of E s]\<close>)
  then have "succeeds (mseq (payment_succeeded E actor ?p) (ret ?p)) ?Q ?s"
    unfolding wpx_mseq wpx_ret
  proof (rule wpx_mono)
    fix x u
    assume u: "success_written E ?p cn ob c t ?s u \<and> payments u = payments ?s"
    then obtain fee es where es: "ledger_entries u = fee # es @ ledger_entries ?s" "settlement_entries ?p (fee # es)"
      "\<exists>ev. revenue_events u = ev # revenue_events ?s \<and> re_event_type ev = RE_PAYMENT_SUCCESSFUL \<and>
         re_amount ev = 5000 \<and> re_tenant ev = p_tenant ?p \<and> re_source ev = (MPayment, p_id ?p) \<and>
         re_ledger_entry ev = Some (le_id fee)"
      unfolding success_written_def by blast
    then obtain ent recv where three: "es = [ent, recv]"
      using settlement_entries_shape by blast
    have bal: "balance ?s b = balance s b" for b
      by (simp add: balance_def amount_paid_def)
    have books: "\<exists>fee ent recv ev. ledger_entries u = fee # ent # recv # ledger_entries s \<and>
        settlement_entries p [fee, ent, recv] \<and>
        revenue_events u = ev # revenue_events s \<and> re_event_type ev = RE_PAYMENT_SUCCESSFUL \<and>
        re_amount ev = 5000 \<and> re_source ev = (MPayment, p_id p) \<and> re_ledger_entry ev = Some (le_id fee)"
      using es three by auto
    have tail: "tail_written E ?p cn ob c t ?s u"
      using u by (simp add: success_written_def)
    have allocated: "case ob of
         Some b \<Rightarrow> (\<exists>al. payment_allocations u = al # payment_allocations s \<and> pa_payment al = p_id p \<and>
             pa_bill al = b_id b \<and> pa_amount al = p_amount p) \<and>
           only_bill (b\<lparr>b_status := if balance s b \<le> p_amount p then PAID else PARTIALLY_PAID\<rparr>) (bills s) (bills u)
       | None \<Rightarrow> payment_allocations u = payment_allocations s \<and> bills u = bills s"
      using tail by (auto simp: tail_written_def allocation_written_def bill_after_def bal split: option.split)
    have "\<exists>rc. receipts u = rc # receipts s \<and>
        receipt_for p cn ob c t (map_option (\<lambda>b. balance s b - p_amount p) ob) rc" "outbox_written E ?p ob c s u"
      using tail by (simp_all add: tail_written_def bal outbox_written_after_move)
    then show "?Q ?p u"
      using u books allocated by simp
  qed
  then show ?thesis
    using assms(1) by (auto simp: apply_outcome_def Let_def)
qed

lemma outbox_explicit:
  assumes "outbox_written E p' ob c s u" and "p_tenant p' = p_tenant p" and "p_amount p' = p_amount p"
  shows "(\<exists>ns ds. notifications u = rev ns @ notifications s \<and>
        length ns = (if c_email c = [] then 0 else 1) + (if c_phone_number c = [] then 0 else 1) \<and>
        list_all (\<lambda>n. n_status n = NPending \<and> n_tenant n = p_tenant p \<and> n_event_type n = (case ob of
            None \<Rightarrow> PAYMENT_SUCCESSFUL
          | Some b \<Rightarrow> if balance s b \<le> p_amount p then BILL_FULLY_PAID else PAYMENT_PARTIAL)) ns \<and>
        webhook_deliveries u = rev ds @ webhook_deliveries s \<and>
        map wd_endpoint ds = map we_id (filter (\<lambda>ep. is_subscribed_to ep ''payment.successful'')
          (active_endpoints s (p_tenant p))) \<and>
        list_all (delivery_of E p' ''payment.successful'') ds \<and>
        on_commit u = on_commit s @ map (\<lambda>n. DeliverNotification (n_id n)) ns @
          map (\<lambda>d. DeliverWebhook (wd_id d)) ds \<and>
        broker u = broker s)"
  using assms by (simp only: outbox_written_def bill_paid_event_def subscribers_def)

text \<open>
  C5 (\<open>_apply_outcome\<close>, \<open>_post_settlement_ledger_entries\<close>, \<open>_allocate_to_bill\<close>,
  \<open>generate_receipt\<close>, \<open>_notify_payment_successful\<close>, \<open>_dispatch\<close>): confirming an open payment always
  succeeds, whether its control number belongs to a bill that is active or partially paid or to a
  customer account. It posts the amount received, the institution's entitlement to the same amount
  and the platform fee of 50.00, with one fee event linked to the fee entry. It allocates the amount
  to the bill, which becomes paid exactly when its balance is covered; a payment to an account is
  allocated to nothing and touches no bill. It issues one receipt, which shows the remaining balance
  of the bill. It writes one notification per contact of the customer, of the event that fits the
  bill, and one delivery of \<open>payment.successful\<close> per active subscribed endpoint of the
  institution, which names the payment, its amount and its status; the tasks that send them are
  registered for after the commit, in that order, and nothing is handed to the broker before.
  No other payment and no other bill changes.
\<close>

theorem payment_success_effects:
  assumes "p_status p \<in> {INITIATED, PENDING, UNKNOWN}" and "linked s p cn ob c t"
    and "\<And>b. ob = Some b \<Longrightarrow> b_status b \<in> {ACTIVE, PARTIALLY_PAID}" and "find_receipt (p_id p) s = None"
    and "receipt_numbers_fresh E s" and "no_override s (p_tenant p)"
  shows "succeeds (apply_outcome E actor p OSuccessful) (\<lambda>p' u.
      p_status p' = SUCCESSFUL \<and> p_id p' = p_id p \<and>
      payments u = row_update p_id (p_id p) (with_status p') (payments s) \<and>
      (\<exists>fee ent recv ev. ledger_entries u = fee # ent # recv # ledger_entries s \<and>
        settlement_entries p [fee, ent, recv] \<and>
        revenue_events u = ev # revenue_events s \<and> re_event_type ev = RE_PAYMENT_SUCCESSFUL \<and>
        re_amount ev = 5000 \<and> re_source ev = (MPayment, p_id p) \<and> re_ledger_entry ev = Some (le_id fee)) \<and>
      (case ob of
         Some b \<Rightarrow> (\<exists>al. payment_allocations u = al # payment_allocations s \<and> pa_payment al = p_id p \<and>
             pa_bill al = b_id b \<and> pa_amount al = p_amount p) \<and>
           only_bill (b\<lparr>b_status := if balance s b \<le> p_amount p then PAID else PARTIALLY_PAID\<rparr>) (bills s) (bills u)
       | None \<Rightarrow> payment_allocations u = payment_allocations s \<and> bills u = bills s) \<and>
      (\<exists>rc. receipts u = rc # receipts s \<and>
        receipt_for p cn ob c t (map_option (\<lambda>b. balance s b - p_amount p) ob) rc) \<and>
      (\<exists>ns ds. notifications u = rev ns @ notifications s \<and>
        length ns = (if c_email c = [] then 0 else 1) + (if c_phone_number c = [] then 0 else 1) \<and>
        list_all (\<lambda>n. n_status n = NPending \<and> n_tenant n = p_tenant p \<and> n_event_type n = (case ob of
            None \<Rightarrow> PAYMENT_SUCCESSFUL
          | Some b \<Rightarrow> if balance s b \<le> p_amount p then BILL_FULLY_PAID else PAYMENT_PARTIAL)) ns \<and>
        webhook_deliveries u = rev ds @ webhook_deliveries s \<and>
        map wd_endpoint ds = map we_id (filter (\<lambda>ep. is_subscribed_to ep ''payment.successful'')
          (active_endpoints s (p_tenant p))) \<and>
        list_all (delivery_of E p' ''payment.successful'') ds \<and>
        on_commit u = on_commit s @ map (\<lambda>n. DeliverNotification (n_id n)) ns @
          map (\<lambda>d. DeliverWebhook (wd_id d)) ds \<and>
        broker u = broker s)) s"
  by (rule wpx_mono [OF success_effects [OF assms]])
    (assumption, elim conjE, intro conjI, (assumption | rule outbox_explicit)+)

definition open_bill :: bill where
  "open_bill = example_bill\<lparr>b_status := ACTIVE, b_total_amount := 50000\<rparr>"

definition open_st :: "payment list \<Rightarrow> payment_st" where
  "open_st ps = (example_payment_st ps)\<lparr>bills := [open_bill]\<rparr>"

lemma open_st_simps [simp]:
  "payments (open_st ps) = ps" "bills (open_st ps) = [open_bill]" "receipts (open_st ps) = []"
  "control_numbers (open_st ps) = [example_cn (OwnerBill (Uuid 3))]" "draws (open_st ps) = 9"
  "tenants (open_st ps) = [example_tenant]" "payment_providers (open_st ps) = [example_provider]"
  "notification_templates (open_st ps) = []" "payment_allocations (open_st ps) = []"
  "customers (open_st ps) = customers example_billing_st" "mock_transactions (open_st ps) = []"
  "customer_accounts (open_st ps) = customer_accounts example_billing_st"
  "callback_events (open_st ps) = []" "tx_broken (open_st ps) = False"
  "ledger_entries (open_st ps) = ledger_entries example_revenue_st"
  by (simp_all add: open_st_def example_payment_st_def example_provider_st_def example_cn_st_def
      example_revenue_st_def example_billing_st_def payment_st.defs provider_st.defs
      control_number_st.defs revenue_st.defs ledger_st.defs billing_st.defs)

lemma open_bill_simps [simp]:
  "b_id open_bill = Uuid 3" "b_status open_bill = ACTIVE" "b_customer_account open_bill = Uuid 2"
  "b_total_amount open_bill = 50000"
  by (simp_all add: open_bill_def example_bill_def)

definition asha :: customer where
  "asha = hd (customers example_billing_st)"

lemma open_linked:
  assumes "p_tenant p = Uuid 0" "p_control_number p = Uuid 4" "p_provider p = Uuid 6" "p_channel p = None"
  shows "linked (open_st ps) p (example_cn (OwnerBill (Uuid 3))) (Some open_bill) asha example_tenant"
  using assms by (simp add: linked_def concerns_def channel_known_def account_customer_def example_tenant_def
      example_provider_def example_cn_def asha_def example_billing_st_def)

lemma example_unknown_simps [simp]:
  "p_id example_unknown = Uuid 7" "p_tenant example_unknown = Uuid 0" "p_status example_unknown = UNKNOWN"
  "p_control_number example_unknown = Uuid 4" "p_provider example_unknown = Uuid 6"
  "p_channel example_unknown = None" "p_amount example_unknown = 30000"
  "p_merchant_reference example_unknown = ''PAY-1''" "p_provider_reference example_unknown = ''X''"
  by (simp_all add: example_unknown_def example_payment_def)

definition alert_endpoint :: webhook_endpoint where
  "alert_endpoint = \<lparr>we_id = Uuid 30, we_tenant = Uuid 0, we_url = ''u'', we_secret = ''s'', we_description = [],
     we_is_active = True, we_subscribed_events = [''payment.successful'']\<rparr>"

theorem payment_success_effects_witness:
  "succeeds (apply_outcome example_env None example_unknown OSuccessful)
     (\<lambda>p' u. p_status p' = SUCCESSFUL \<and> length (ledger_entries u) = 4 \<and>
        (\<exists>rc. receipts u = [rc] \<and> r_remaining_balance_at_issue rc = Some 20000) \<and>
        map wd_endpoint (webhook_deliveries u) = [Uuid 30])
     ((open_st [example_unknown])\<lparr>webhook_endpoints := [alert_endpoint]\<rparr>)"
proof -
  let ?s = "(open_st [example_unknown])\<lparr>webhook_endpoints := [alert_endpoint]\<rparr>"
  have "balance ?s open_bill = 50000"
    by (simp add: balance_def amount_paid_def)
  moreover have "linked ?s example_unknown (example_cn (OwnerBill (Uuid 3))) (Some open_bill) asha example_tenant"
    using open_linked [of example_unknown "[example_unknown]"] linked_same [of ?s "open_st [example_unknown]" example_unknown example_unknown] by simp
  moreover have "active_endpoints ?s (Uuid 0) = [alert_endpoint]" "is_subscribed_to alert_endpoint ''payment.successful''"
    by (simp_all add: active_endpoints_def is_subscribed_to_def alert_endpoint_def)
  moreover have "webhook_deliveries (open_st [example_unknown]) = []"
    by (simp add: open_st_def example_payment_st_def example_provider_st_def example_cn_st_def
      example_revenue_st_def example_billing_st_def payment_st.defs provider_st.defs
      control_number_st.defs revenue_st.defs ledger_st.defs billing_st.defs)
  ultimately show ?thesis
    by (intro wpx_mono [OF payment_success_effects [where cn = "example_cn (OwnerBill (Uuid 3))" and ob = "Some open_bill"
          and c = asha and t = example_tenant]])
       (auto simp: find_receipt_def receipt_numbers_fresh_def no_override_def
          example_revenue_simps receipt_for_def alert_endpoint_def)
qed

subsection \<open>Retried initiation\<close>

text \<open>Which payment holds a key depends on what no update changes.\<close>

interpretation key_postings: row_postings_frame "same (\<lambda>s. map identity (payments s))"
  by unfold_locales (auto simp: same_def later_def)

interpretation payment_keys: payment_core_frame "same (\<lambda>s. map identity (payments s))"
proof
  show "same (\<lambda>s. map identity (payments s)) s
      (s\<lparr>payments := row_update p_id i f (payments s)\<rparr>)"
    if "\<And>q. identity (f q) = identity q" for s f i
    using that by (simp add: same_def later_def map_row_update)
qed (auto simp: same_def later_def)

lemma find_payment_identity:
  assumes "map identity (payments t) = map identity (payments s)"
  shows "map_option identity (find_payment k t) = map_option identity (find_payment k s)"
proof -
  have "map identity ps = map identity qs \<Longrightarrow>
      map_option identity (List.find (\<lambda>p. p_tenant p = a \<and> p_idempotency_key p = b) ps) =
      map_option identity (List.find (\<lambda>p. p_tenant p = a \<and> p_idempotency_key p = b) qs)" for ps qs a b
    by (induction ps qs rule: list_induct2') (auto simp: identity_def)
  from this [OF assms] show ?thesis
    by (simp add: find_payment_def)
qed

lemma find_payment_same:
  assumes "same (\<lambda>s. map identity (payments s)) s t" and "find_payment k s = Some q"
  shows "\<exists>r. find_payment k t = Some r \<and> identity r = identity q"
  using find_payment_identity [of t s k] assms by (auto simp: same_def)

lemma wpx_True [simp]: "wpx m (\<lambda>_ _. True) (\<lambda>_ _. True) s"
  by (auto simp: wpx_def split: prod.split sum.split)

lemma apply_outcome_id: "wpx (apply_outcome E actor p out) (\<lambda>q _. p_id q = p_id p) (\<lambda>_ _. True) s"
  by (simp add: apply_outcome_def Let_def wpx_eta)

definition holds_key :: "uuid \<times> string \<Rightarrow> payment \<Rightarrow> 'z payment_st_scheme \<Rightarrow> bool" where
  "holds_key k p s \<longleftrightarrow> (\<exists>r. find_payment k s = Some r \<and> p_id r = p_id p)"

lemma keeps_key:
  assumes "upholds (same (\<lambda>s. map identity (payments s))) m" and "holds_key k p s"
    and "wpx m (\<lambda>q _. p_id q = p_id p) (\<lambda>_ _. True) s"
  shows "wpx m (\<lambda>q t. holds_key k q t) (\<lambda>_ _. True) s"
proof -
  obtain r where r: "find_payment k s = Some r" "p_id r = p_id p"
    using assms(2) by (auto simp: holds_key_def)
  show ?thesis
    by (rule wpx_mono [OF wpx_conj [OF upholds_wpx [OF assms(1)] assms(3)]])
       (use find_payment_same [OF _ r(1)] r(2) in \<open>fastforce simp: holds_key_def identity_def\<close>)+
qed

lemma create_payment_key:
  assumes "snd k \<noteq> []"
  shows "wpx (create_payment E k a) (\<lambda>p t. holds_key k p t) (\<lambda>_ _. True) s"
  using assms by (auto simp: create_payment_def insert_payment_def wpx_eta Let_def holds_key_def
      find_payment_def split: option.split)

lemma initiate_key:
  fixes s :: "'z payment_st_scheme"
  assumes "snd k \<noteq> []"
  shows "wpx (initiate_payment E actor k a) (\<lambda>p t. holds_key k p t) (\<lambda>_ _. True) s"
proof (cases "find_payment k s")
  case None
  have outcome: "wpx m (\<lambda>q t. holds_key k q t) (\<lambda>_ _. True) t"
    if "holds_key k p t" "m = initiation_answered E actor p r \<or> m = initiation_timed_out E actor p \<or>
      m = initiation_failed E actor p reason" for m t p r reason
  proof (rule keeps_key [OF _ that(1)])
    show "upholds (same (\<lambda>s. map identity (payments s))) m"
      using that(2) payment_keys.upholds_initiation_failed by blast
    have "wpx (initiation_answered E actor p r) (\<lambda>q _. p_id q = p_id p) (\<lambda>_ _. True) t"
      using apply_outcome_id [of E actor "p\<lparr>p_provider_reference := pr_provider_reference r,
                 p_raw_provider_response := pr_raw_response r\<rparr>"]
      by (simp add: initiation_answered_def Let_def)
    then show "wpx m (\<lambda>q _. p_id q = p_id p) (\<lambda>_ _. True) t"
      using that(2) by (auto simp: initiation_timed_out_def initiation_failed_def Let_def wpx_eta
          record_payment_failed_def)
  qed
  note outcomes = outcome [OF _ disjI1 [OF refl]] outcome [OF _ disjI2 [OF disjI1 [OF refl]]]
    outcome [OF _ disjI2 [OF disjI2 [OF refl]]]
  have adapter: "wpx (try_adapter (ad_initiate_payment ad args)) (\<lambda>_ t. holds_key k p t) (\<lambda>_ _. True) t"
    if "get_adapter E pr = Inr ad" "holds_key k p t" for pr ad args p t
  proof -
    have "upholds (same (\<lambda>s. map identity (payments s))) (try_adapter (ad_initiate_payment ad args))"
      unfolding try_adapter_def using payment_keys.upholds_adapter(1) [OF that(1)]
      by (intro key_postings.combinator_rules upholds_if)
    then show ?thesis
      by (rule wpx_mono [OF upholds_wpx])
         (use that(2) in \<open>auto simp: holds_key_def identity_def dest: find_payment_same\<close>)
  qed
  have rest: "wpx (mseq (audit_event E ''payment.initiated'' actor tn tg)
       (mbind (lift_sum (get_adapter E (pg_provider a))) (\<lambda>ad.
        mbind (require e f) (\<lambda>cn. mbind (try_adapter (ad_initiate_payment ad (args cn))) (\<lambda>res.
        case res of
          Inr r \<Rightarrow> initiation_answered E actor p r
        | Inl (ProviderTimeoutError m) \<Rightarrow> initiation_timed_out E actor p
        | Inl e \<Rightarrow> initiation_failed E actor p (exn_text e))))))
      (\<lambda>q t. holds_key k q t) (\<lambda>_ _. True) t"
    if "holds_key k p t" for p t tn tg e args and f :: "'z payment_st_scheme \<Rightarrow> 'c option"
  proof -
    have "holds_key k p (audited r t)" for r
      using that assms by (simp add: holds_key_def find_payment_def)
    then show ?thesis
      by (auto simp: wpx_mbind [of "lift_sum r" for r] wpx_mbind [of "require e f" for e f]
          wpx_mbind [of "try_adapter m" for m] Let_def simp del: wpx_mbind split: sum.split option.split
          intro!: wpx_mono [OF adapter] outcomes split: exn.split)
  qed
  show ?thesis
    unfolding initiate_payment_def wpx_mbind [of "gets f" for f] wpx_gets None option.case
      wpx_mbind [of "create_payment E k a"]
    by (rule wpx_mono [OF create_payment_key [OF assms]], rule rest, assumption, rule TrueI)
qed (use assms in \<open>simp add: initiate_payment_def Let_def holds_key_def find_payment_def\<close>)

text \<open>Everything of the state but the audit log and the two sources of freshness.\<close>

definition business where
  "business s = ((payments s, mock_transactions s, bills s, payment_allocations s, receipts s),
     (ledger_entries s, revenue_events s), (webhook_deliveries s, notifications s),
     callback_events s, on_commit s)"

lemma initiate_again:
  assumes "find_payment k s = Some r"
  shows "\<exists>t. initiate_payment E actor k a s = (Inr r, t) \<and> business t = business s \<and>
    (\<exists>al. audit_logs t = al # audit_logs s \<and> al_action al = ''payment.initiation_deduplicated'')"
proof -
  have "succeeds (initiate_payment E actor k a) (\<lambda>q t. q = r \<and> business t = business s \<and>
      (\<exists>al. audit_logs t = al # audit_logs s \<and> al_action al = ''payment.initiation_deduplicated'')) s"
    using assms by (simp add: initiate_payment_def Let_def business_def new_audit_def audited_def
        link_record_def Let_def)
  then show ?thesis
    by (auto simp: succeeds_iff)
qed

lemma find_payment_business: "business t = business s \<Longrightarrow> find_payment k t = find_payment k s"
  by (simp add: find_payment_def business_def)

subsection \<open>Timeouts\<close>

text \<open>Nothing in the tables has a reference that the random source has still to give.\<close>

definition references_fresh :: "env \<Rightarrow> 'z payment_st_scheme \<Rightarrow> bool" where
  "references_fresh E s \<longleftrightarrow> (\<forall>n \<ge> draws s. Uuid n \<notin> p_id ` set (payments s) \<and>
     \<not> list_ex (\<lambda>q. p_merchant_reference q = ''PAY-'' @ py_upper (take 16 (e_hex E n))) (payments s) \<and>
     \<not> list_ex (\<lambda>m. mt_merchant_reference m = ''PAY-'' @ py_upper (take 16 (e_hex E n))) (mock_transactions s))"

lemma row_update_absent: "k \<notin> key ` set tbl \<Longrightarrow> row_update key k f tbl = tbl"
  by (induction tbl) auto

lemma moved_reason [simp]:
  "p_failure_reason (moved E new reason s p) = (if reason = [] then p_failure_reason p else reason)"
  by (simp add: moved_def)

lemma TIMEOUT_REASON_nonempty [simp]: "TIMEOUT_REASON \<noteq> []"
  by (simp add: TIMEOUT_REASON_def)

text \<open>What an initiation that times out leaves: the unknown payment, known to the provider.\<close>

definition registered_unknown ::
  "payment \<Rightarrow> uuid \<times> string \<Rightarrow> payment_args \<Rightarrow> 'z payment_st_scheme \<Rightarrow> 'z payment_st_scheme \<Rightarrow> bool" where
  "registered_unknown p k a s u \<longleftrightarrow> p_tenant p = fst k \<and> p_control_number p = pg_control_number a \<and>
     p_provider p = pp_id (pg_provider a) \<and> p_channel p = pg_channel a \<and> p_provider_reference p = [] \<and>
     p_id p = Uuid (draws s) \<and> draws s \<le> draws u \<and>
     (\<exists>m. List.find (\<lambda>m. mt_merchant_reference m = p_merchant_reference p) (mock_transactions u) = Some m \<and>
        mt_outcome m = OSuccessful) \<and>
     (control_numbers u, customers u, customer_accounts u, tenants u) =
       (control_numbers s, customers s, customer_accounts s, tenants s) \<and>
     (payment_providers u, payment_channels u, notification_templates u) =
       (payment_providers s, payment_channels s, notification_templates s)"

lemma initiate_timeout:
  fixes s :: "'z payment_st_scheme"
  assumes "find_payment k s = None" and "pp_code (pg_provider a) = ''mock''"
    and "outcome_hint (pg_metadata a) = JStr ''timeout''" and "length (pg_payer_reference a) \<le> 100"
    and "row_get t_id (fst k) (tenants s) = Some t"
    and "row_get cn_id (pg_control_number a) (control_numbers s) = Some cn"
    and "references_fresh E s"
  shows "succeeds (initiate_payment E actor k a) (\<lambda>p u.
      (p_status p = UNKNOWN \<and> p_failure_reason p = TIMEOUT_REASON \<and> p_amount p = pg_amount a \<and>
      payments u = p # payments s \<and>
      (ledger_entries u, revenue_events u, bills u, payment_allocations u, receipts u) =
        (ledger_entries s, revenue_events s, bills s, payment_allocations s, receipts s) \<and>
      (notifications u, webhook_deliveries u, on_commit u) =
        (notifications s, webhook_deliveries s, on_commit s)) \<and> registered_unknown p k a s u) s"
proof -
  have code: "get_adapter E (pg_provider a) = Inr (mock_adapter E :: 'z payment_st_scheme adapter)"
    using assms(2) by (simp add: get_adapter_def)
  have actual: "actual_outcome (JStr ''timeout'') = Inr OSuccessful"
    by (simp add: actual_outcome_def)
  have key: "find_payment k u = None" if "payments u = payments s" for u :: "'z payment_st_scheme"
    using assms(1) that by (simp add: find_payment_def split: if_splits)
  have fresh: "\<not> list_ex (\<lambda>q. p_merchant_reference q = ''PAY-'' @ py_upper (take 16 (e_hex E n))) (payments s)"
    "\<not> list_ex (\<lambda>m. mt_merchant_reference m = ''PAY-'' @ py_upper (take 16 (e_hex E n))) (mock_transactions s)"
    "Uuid n \<notin> p_id ` set (payments s)"
    if "draws s \<le> n" for n
    using assms(7) that unfolding references_fresh_def by blast+
  show ?thesis
    using assms(3-6) fresh [of "Suc (draws s)"] fresh(3) [of "draws s"]
    by (simp add: row_update_absent initiate_payment_def assms(1) create_payment_def insert_payment_def Let_def wpx_eta key code
       try_adapter_def mock_adapter_def mock_initiate_payment_def actual initiation_timed_out_def registered_unknown_def after_move_def)
qed

text \<open>The query of such a payment: the provider's answer makes it successful, with all that follows.\<close>

lemma query_settles:
  fixes u :: "'z payment_st_scheme"
  assumes "p_status p = UNKNOWN" and provider: "row_get pp_id (p_provider p) (payment_providers u) = Some pr" "pp_code pr = ''mock''"
    and "p_provider_reference p = []"
    and m: "List.find (\<lambda>m. mt_merchant_reference m = p_merchant_reference p) (mock_transactions u) = Some m" "mt_outcome m = OSuccessful"
    and stored: "row_get p_id (p_id p) (payments u) = Some p"
    and link: "linked u p cn ob c t" and open_bill: "\<And>b. ob = Some b \<Longrightarrow> b_status b \<in> {ACTIVE, PARTIALLY_PAID}"
    and none: "find_receipt (p_id p) u = None" and fresh: "receipt_numbers_fresh E u" and tpl: "no_override u (p_tenant p)"
  shows "succeeds (query_payment E actor p) (\<lambda>q v. p_status q = SUCCESSFUL \<and> p_id q = p_id p \<and>
      (\<exists>r. row_get p_id (p_id p) (payments v) = Some r \<and> p_status r = SUCCESSFUL) \<and>
      (\<exists>fee ent recv. ledger_entries v = fee # ent # recv # ledger_entries u \<and> settlement_entries p [fee, ent, recv]) \<and>
      (\<exists>rc. receipts v = rc # receipts u \<and> r_payment rc = p_id p)) u"
    (is "succeeds _ ?Q u")
proof -
  have code: "get_adapter E pr = Inr (mock_adapter E :: 'z payment_st_scheme adapter)"
    using provider by (simp add: get_adapter_def)
  have settled: "succeeds (apply_outcome E actor q OSuccessful) ?Q v"
    if q: "q = p\<lparr>p_provider_reference := r\<rparr>"
      and same: "(control_numbers v, customers v, customer_accounts v, tenants v, bills v) =
         (control_numbers u, customers u, customer_accounts u, tenants u, bills u)"
        "(payment_providers v, payment_channels v, notification_templates v, receipts v, ledger_entries v) =
         (payment_providers u, payment_channels u, notification_templates u, receipts u, ledger_entries u)"
        "draws u \<le> draws v" "row_get p_id (p_id p) (payments v) = Some q" for q r and v :: "'z payment_st_scheme"
  proof -
    have "linked v q cn ob c t"
      using link linked_same [of v u q p] same q by simp
    moreover have "find_receipt (p_id q) v = None" "no_override v (p_tenant q)"
      using none tpl same q by (simp_all add: find_receipt_def no_override_def)
    moreover have "receipt_numbers_fresh E v"
      by (rule receipts_fresh_later [OF fresh]) (use same in simp_all)
    moreover have "settlement_entries q es = settlement_entries p es" for es
      by (simp add: settlement_entries_def q)
    ultimately show ?thesis
      using assms(1) q same open_bill
      by (intro wpx_mono [OF success_effects [of q v cn ob c t E actor]])
        (auto simp: row_get_update_same receipt_for_def)
  qed
  have row: "row_get p_id (p_id p) (row_update p_id (p_id p) f (payments u)) = Some (f p)" if "\<And>q. p_id (f q) = p_id q" for f
    using stored that by (simp add: row_get_update_same)
  show ?thesis
  proof (cases "mt_provider_reference m = []")
    case True
    with provider m assms(4) stored show ?thesis
      by (auto simp: query_payment_def payment_provider_of_def code mock_adapter_def mock_query_payment_def wpx_eta Let_def
          intro!: settled [where r = "p_provider_reference p"])
  next
    case False
    with provider m assms(4) stored show ?thesis
      by (auto simp: query_payment_def payment_provider_of_def code mock_adapter_def mock_query_payment_def wpx_eta Let_def row
          intro!: settled [where r = "mt_provider_reference m"])
  qed
qed

lemma timeout_settles:
  fixes s :: "'z payment_st_scheme"
  assumes "find_payment k s = None" and "pp_code (pg_provider a) = ''mock''"
    and "outcome_hint (pg_metadata a) = JStr ''timeout''" and "length (pg_payer_reference a) \<le> 100"
    and "references_fresh E s"
    and provider: "row_get pp_id (pp_id (pg_provider a)) (payment_providers s) = Some (pg_provider a)"
    and link: "\<And>p. p_tenant p = fst k \<Longrightarrow> p_control_number p = pg_control_number a \<Longrightarrow>
      p_provider p = pp_id (pg_provider a) \<Longrightarrow> p_channel p = pg_channel a \<Longrightarrow> linked s p cn ob c t"
    and open_bill: "\<And>b. ob = Some b \<Longrightarrow> b_status b \<in> {ACTIVE, PARTIALLY_PAID}"
    and none: "find_receipt (Uuid (draws s)) s = None" and fresh: "receipt_numbers_fresh E s" and tpl: "no_override s (fst k)"
  shows "succeeds (initiate_payment E actor k a) (\<lambda>p u.
      p_status p = UNKNOWN \<and> p_failure_reason p = TIMEOUT_REASON \<and> p_amount p = pg_amount a \<and>
      payments u = p # payments s \<and>
      (ledger_entries u, revenue_events u, bills u, payment_allocations u, receipts u) =
        (ledger_entries s, revenue_events s, bills s, payment_allocations s, receipts s) \<and>
      (notifications u, webhook_deliveries u, on_commit u) =
        (notifications s, webhook_deliveries s, on_commit s) \<and>
      succeeds (query_payment E actor2 p) (\<lambda>q v. p_status q = SUCCESSFUL \<and> p_id q = p_id p \<and>
        (\<exists>r. row_get p_id (p_id p) (payments v) = Some r \<and> p_status r = SUCCESSFUL) \<and>
        (\<exists>fee ent recv. ledger_entries v = fee # ent # recv # ledger_entries s \<and> settlement_entries p [fee, ent, recv]) \<and>
        (\<exists>rc. receipts v = rc # receipts s \<and> r_payment rc = p_id p)) u) s"
proof -
  have "linked s (undefined\<lparr>p_tenant := fst k, p_control_number := pg_control_number a,
      p_provider := pp_id (pg_provider a), p_channel := pg_channel a\<rparr>) cn ob c t"
    by (rule link) simp_all
  then have rows: "row_get t_id (fst k) (tenants s) = Some t"
      "row_get cn_id (pg_control_number a) (control_numbers s) = Some cn"
    by (simp_all add: linked_def concerns_def)
  show ?thesis
  proof (rule wpx_mono [OF initiate_timeout [OF assms(1-4) rows assms(5)]])
    fix p u
    assume first: "(p_status p = UNKNOWN \<and> p_failure_reason p = TIMEOUT_REASON \<and> p_amount p = pg_amount a \<and>
      payments u = p # payments s \<and>
      (ledger_entries u, revenue_events u, bills u, payment_allocations u, receipts u) =
        (ledger_entries s, revenue_events s, bills s, payment_allocations s, receipts s) \<and>
      (notifications u, webhook_deliveries u, on_commit u) =
        (notifications s, webhook_deliveries s, on_commit s)) \<and> registered_unknown p k a s u"
    then have known: "registered_unknown p k a s u" and same: "payments u = p # payments s" "receipts u = receipts s"
        "bills u = bills s" "ledger_entries u = ledger_entries s"
      by simp_all
    obtain m where m: "List.find (\<lambda>m. mt_merchant_reference m = p_merchant_reference p) (mock_transactions u) = Some m"
        "mt_outcome m = OSuccessful"
      using known by (auto simp: registered_unknown_def)
    note fields = known [unfolded registered_unknown_def]
    have "linked u p cn ob c t"
      using link [of p] linked_same [of u s p p] fields same by simp
    moreover have "find_receipt (p_id p) u = None" "no_override u (p_tenant p)"
      using none tpl fields same by (simp_all add: find_receipt_def no_override_def)
    moreover have "receipt_numbers_fresh E u"
      by (rule receipts_fresh_later [OF fresh]) (use fields same in simp_all)
    moreover have "row_get p_id (p_id p) (payments u) = Some p"
      by (simp add: same row_get_def)
    ultimately have "succeeds (query_payment E actor2 p) (\<lambda>q v. p_status q = SUCCESSFUL \<and> p_id q = p_id p \<and>
        (\<exists>r. row_get p_id (p_id p) (payments v) = Some r \<and> p_status r = SUCCESSFUL) \<and>
        (\<exists>fee ent recv. ledger_entries v = fee # ent # recv # ledger_entries u \<and> settlement_entries p [fee, ent, recv]) \<and>
        (\<exists>rc. receipts v = rc # receipts u \<and> r_payment rc = p_id p)) u"
      using first fields provider assms(2) open_bill m
      by (intro query_settles [where pr = "pg_provider a"]) auto
    with first show "p_status p = UNKNOWN \<and> p_failure_reason p = TIMEOUT_REASON \<and> p_amount p = pg_amount a \<and>
      payments u = p # payments s \<and>
      (ledger_entries u, revenue_events u, bills u, payment_allocations u, receipts u) =
        (ledger_entries s, revenue_events s, bills s, payment_allocations s, receipts s) \<and>
      (notifications u, webhook_deliveries u, on_commit u) =
        (notifications s, webhook_deliveries s, on_commit s) \<and>
      succeeds (query_payment E actor2 p) (\<lambda>q v. p_status q = SUCCESSFUL \<and> p_id q = p_id p \<and>
        (\<exists>r. row_get p_id (p_id p) (payments v) = Some r \<and> p_status r = SUCCESSFUL) \<and>
        (\<exists>fee ent recv. ledger_entries v = fee # ent # recv # ledger_entries s \<and> settlement_entries p [fee, ent, recv]) \<and>
        (\<exists>rc. receipts v = rc # receipts s \<and> r_payment rc = p_id p)) u"
      by simp
  qed simp
qed

text \<open>
  C16 (\<open>initiate_payment\<close>, \<open>query_payment\<close>): an initiation whose provider times out returns a payment
  that is \<open>UNKNOWN\<close>, never \<open>FAILED\<close>, with the reason recorded, and posts, earns, notifies, dispatches
  and allocates nothing. The provider did register it: the query of that payment, made right
  afterwards for a bill that is still open or for an account, succeeds and leaves the stored payment
  \<open>SUCCESSFUL\<close>, with its three ledger entries and its receipt.
\<close>

theorem timeout_is_unknown:
  fixes s :: "'z payment_st_scheme"
  assumes "find_payment k s = None" and "pp_code (pg_provider a) = ''mock''"
    and "outcome_hint (pg_metadata a) = JStr ''timeout''" and "length (pg_payer_reference a) \<le> 100"
    and "references_fresh E s"
    and "row_get pp_id (pp_id (pg_provider a)) (payment_providers s) = Some (pg_provider a)"
    and "\<And>p. p_tenant p = fst k \<Longrightarrow> p_control_number p = pg_control_number a \<Longrightarrow>
      p_provider p = pp_id (pg_provider a) \<Longrightarrow> p_channel p = pg_channel a \<Longrightarrow> linked s p cn ob c t"
    and "\<And>b. ob = Some b \<Longrightarrow> b_status b \<in> {ACTIVE, PARTIALLY_PAID}"
    and "find_receipt (Uuid (draws s)) s = None" and "receipt_numbers_fresh E s" and "no_override s (fst k)"
  shows "succeeds (initiate_payment E actor k a) (\<lambda>p u.
      p_status p = UNKNOWN \<and> p_failure_reason p = TIMEOUT_REASON \<and> p_amount p = pg_amount a \<and>
      payments u = p # payments s \<and>
      (ledger_entries u, revenue_events u, bills u, payment_allocations u, receipts u) =
        (ledger_entries s, revenue_events s, bills s, payment_allocations s, receipts s) \<and>
      (notifications u, webhook_deliveries u, on_commit u) =
        (notifications s, webhook_deliveries s, on_commit s) \<and>
      succeeds (query_payment E actor2 p) (\<lambda>q v. p_status q = SUCCESSFUL \<and> p_id q = p_id p \<and>
        (\<exists>r. row_get p_id (p_id p) (payments v) = Some r \<and> p_status r = SUCCESSFUL) \<and>
        (\<exists>fee ent recv. ledger_entries v = fee # ent # recv # ledger_entries s \<and> settlement_entries p [fee, ent, recv]) \<and>
        (\<exists>rc. receipts v = rc # receipts s \<and> r_payment rc = p_id p)) u) s"
  by (rule timeout_settles [OF assms]) assumption

definition example_pay_args :: payment_args where
  "example_pay_args = \<lparr>pg_control_number = Uuid 4, pg_provider = example_provider, pg_channel = None,
     pg_amount = 30000, pg_payer_reference = [], pg_metadata = [(''mock_outcome'', JStr ''timeout'')]\<rparr>"

lemma example_timeout:
  "succeeds (initiate_payment example_env None (Uuid 0, ''K'') example_pay_args)
     (\<lambda>p u. p_status p = UNKNOWN \<and> ledger_entries u = ledger_entries example_revenue_st) (open_st [])"
  by (rule wpx_mono [OF initiate_timeout [where t = example_tenant
        and cn = "example_cn (OwnerBill (Uuid 3))"]])
     (auto simp: find_payment_def example_pay_args_def example_provider_def outcome_hint_def
        example_tenant_def example_cn_def references_fresh_def)

theorem timeout_is_unknown_witness:
  "succeeds (initiate_payment example_env None (Uuid 0, ''K'') example_pay_args)
     (\<lambda>p u. p_status p = UNKNOWN \<and> succeeds (query_payment example_env None p)
        (\<lambda>q v. p_status q = SUCCESSFUL \<and> length (ledger_entries v) = Suc (Suc (Suc (length (ledger_entries example_revenue_st))))) u)
     (open_st [])"
proof -
  have "linked (open_st []) p (example_cn (OwnerBill (Uuid 3))) (Some open_bill) asha example_tenant"
    if "p_tenant p = fst (Uuid 0, ''K'')" "p_control_number p = pg_control_number example_pay_args"
      "p_provider p = pp_id (pg_provider example_pay_args)" "p_channel p = pg_channel example_pay_args" for p
    by (rule open_linked) (use that in \<open>simp_all add: example_pay_args_def example_provider_def\<close>)
  then show ?thesis
    by (intro wpx_mono [OF timeout_is_unknown [where t = example_tenant and ob = "Some open_bill" and c = asha
          and cn = "example_cn (OwnerBill (Uuid 3))" and E = example_env and ?actor2.0 = None]])
       (auto simp: find_payment_def example_pay_args_def example_provider_def outcome_hint_def find_receipt_def
          receipt_numbers_fresh_def no_override_def references_fresh_def elim!: wpx_mono)
qed

subsection \<open>Repeated callbacks\<close>

lemma mock_callback_stateless:
  "mock_process_callback E secret body signature s = (Inr x, s) \<Longrightarrow>
   mock_process_callback E secret body signature u = (Inr x, u)"
  by (auto simp: mock_process_callback_def mbind_def lift_sum_def ret_def raise_def
      split: sum.splits option.splits if_splits)

definition seen :: "uuid \<Rightarrow> string \<Rightarrow> 'z payment_st_scheme \<Rightarrow> bool" where
  "seen pid ext s \<longleftrightarrow> find_callback_event pid ext s \<noteq> None"

lemma seen_same: "callback_events t = callback_events s \<Longrightarrow> seen pid ext t = seen pid ext s"
  by (simp add: seen_def find_callback_event_def)

lemma seen_Cons: "callback_events t = e # callback_events s \<Longrightarrow> seen pid ext s \<Longrightarrow> seen pid ext t"
  by (auto simp: seen_def find_callback_event_def)

lemma seen_iff: "seen pid ext s \<longleftrightarrow>
    (pid, ext) \<in> (\<lambda>e. (ce_provider e, ce_external_event_id e)) ` set (callback_events s)"
  unfolding seen_def find_callback_event_def find_None_iff_all not_None_eq [symmetric] by force

lemma seen_rollback [simp]: "seen pid ext (rollback s t) = seen pid ext s"
  by (simp add: seen_def find_callback_event_def rollback_def)

definition money_rows where
  "money_rows s = ((payments s, bills s, payment_allocations s, receipts s),
     (ledger_entries s, filter (\<lambda>e. re_amount e \<noteq> 0) (revenue_events s)),
     (webhook_deliveries s, notifications s, on_commit s, mock_transactions s))"

lemma money_rollback [simp]: "money_rows (rollback s t) = money_rows s"
  by (simp add: money_rows_def rollback_def)

lemma duplicate_wpx:
  assumes "seen pid ext s"
  shows "succeeds (duplicate_callback E actor pr parsed)
    (\<lambda>d t. ce_outcome d = CDuplicate \<and> money_rows t = money_rows s \<and> seen pid ext t) s"
  using assms by (auto simp: duplicate_callback_def create_callback_event_def Let_def wpx_eta
      record_payment_duplicate_def money_rows_def seen_iff split: option.split)

lemma first_wpx:
  assumes "callback_events s = ev # es"
  shows "wpx (first_callback E actor ev parsed)
    (\<lambda>_ t. seen (ce_provider ev) (ce_external_event_id ev) t) (\<lambda>_ _. True) s"
proof -
  let ?seen = "seen (ce_provider ev) (ce_external_event_id ev)"
  have apply_seen: "wpx (apply_outcome E actor p out) (\<lambda>_. ?seen) (\<lambda>_ _. True) t"
    if "?seen t" for p out t
    by (rule wpx_mono [OF upholds_wpx [OF callback_rows.upholds_apply_outcome]])
       (use that in \<open>simp_all add: same_def seen_def find_callback_event_def\<close>)
  show ?thesis
    using assms by (auto simp: first_callback_def save_callback_event_def Let_def wpx_eta seen_iff
        split: option.split intro!: apply_seen [unfolded seen_iff])
qed

lemma create_front:
  "wpx (create_callback_event pid ext pm out payload)
     (\<lambda>ev t. callback_events t = ev # callback_events s \<and> ce_provider ev = pid \<and> ce_external_event_id ev = ext \<and>
        \<not> (ext \<noteq> [] \<and> seen pid ext s) \<and> money_rows t = money_rows s)
     (\<lambda>e t. is_integrity_error e \<and> ext \<noteq> [] \<and> seen pid ext s) s"
  by (auto simp: create_callback_event_def Let_def seen_def find_callback_event_def money_rows_def)

text \<open>How an accepted callback is handled, in two cases.\<close>

lemma process_wpx:
  fixes s :: "'z payment_st_scheme"
  assumes "pp_code pr = ''mock''"
    and "mock_process_callback E DEFAULT_CALLBACK_SECRET body signature s = (Inr parsed, s)"
    and "cb_external_event_id parsed \<noteq> []"
  shows "wpx (process_callback E actor pr body signature)
      (\<lambda>_ t. seen (pp_id pr) (cb_external_event_id parsed) t) (\<lambda>_ _. True) s"
    and "seen (pp_id pr) (cb_external_event_id parsed) s \<Longrightarrow>
      succeeds (process_callback E actor pr body signature)
        (\<lambda>d t. ce_outcome d = CDuplicate \<and> money_rows t = money_rows s \<and>
           seen (pp_id pr) (cb_external_event_id parsed) t) s"
proof -
  let ?ext = "cb_external_event_id parsed"
  have ad: "get_adapter E pr = Inr (mock_adapter E :: 'z payment_st_scheme adapter)"
    using assms(1) by (simp add: get_adapter_def)
  have parse: "wpx (ad_process_callback (mock_adapter E) body signature) Q X s = Q parsed s" for Q X
    using assms(2) by (simp add: mock_adapter_def wpx_def)
  have run: "wpx (process_callback E actor pr body signature) Q X s =
      wpx (catch (mbind (atomic (create_callback_event (pp_id pr) ?ext None CProcessed
                 (cb_raw_response parsed))) (\<lambda>ev. ret (Some ev)))
               (\<lambda>e. if is_integrity_error e then ret None else raise e))
        (\<lambda>created. wpx (case created of None \<Rightarrow> duplicate_callback E actor pr parsed
           | Some ev \<Rightarrow> first_callback E actor ev parsed) Q X) X s" for Q X
    by (simp add: process_callback_def ad parse)
  note create = create_front [of "pp_id pr" ?ext None CProcessed "cb_raw_response parsed" s]
  show "wpx (process_callback E actor pr body signature)
      (\<lambda>_ t. seen (pp_id pr) ?ext t) (\<lambda>_ _. True) s"
    unfolding run wpx_catch wpx_mbind wpx_atomic
    by (rule wpx_mono [OF create])
       (auto intro!: wpx_mono [OF first_wpx] wpx_mono [OF duplicate_wpx])
  show "succeeds (process_callback E actor pr body signature)
        (\<lambda>d t. ce_outcome d = CDuplicate \<and> money_rows t = money_rows s \<and> seen (pp_id pr) ?ext t) s"
    if "seen (pp_id pr) ?ext s"
    unfolding run wpx_catch wpx_mbind wpx_atomic
    by (rule wpx_mono [OF create])
       (use that assms(3) in \<open>auto intro!: wpx_mono [OF duplicate_wpx]\<close>)
qed

text \<open>
  C10 (\<open>process_callback\<close>): once a signed callback with a non-blank event id was handled without an
  exception, every further delivery of it is logged as a duplicate and answers without an
  exception; whatever their number, no payment, bill, allocation, receipt, ledger entry, revenue
  amount, webhook or notification results from them.
\<close>

theorem callback_handled_once:
  assumes "pp_code pr = ''mock''"
    and "mock_process_callback E DEFAULT_CALLBACK_SECRET body signature s = (Inr parsed, s)"
    and "cb_external_event_id parsed \<noteq> []"
    and "process_callback E actor pr body signature s = (Inr ev, t)"
    and "run_calls (replicate n (process_callback E actor2 pr body signature)) t = (rs, u)"
  shows "list_all (\<lambda>r. case r of Inr d \<Rightarrow> ce_outcome d = CDuplicate | Inl e \<Rightarrow> False) rs \<and>
    length rs = n \<and> money_rows u = money_rows t"
proof -
  have "seen (pp_id pr) (cb_external_event_id parsed) t"
    by (rule wpx_result(1) [OF process_wpx(1) [OF assms(1-3)] assms(4)])
  with assms(5) show ?thesis
  proof (induction n arbitrary: t rs)
    case (Suc n)
    obtain d v where d: "process_callback E actor2 pr body signature t = (Inr d, v)"
      "ce_outcome d = CDuplicate" "money_rows v = money_rows t"
      "seen (pp_id pr) (cb_external_event_id parsed) v"
      using process_wpx(2) [OF assms(1) mock_callback_stateless [OF assms(2)] assms(3) Suc.prems(2), of actor2]
      unfolding succeeds_iff by blast
    then obtain rs' where rs: "run_calls (replicate n (process_callback E actor2 pr body signature)) v = (rs', u)"
      "rs = Inr d # rs'"
      using Suc.prems(1) by (auto split: prod.splits)
    from Suc.IH [OF rs(1) d(4)] rs(2) d show ?case
      by simp
  qed simp
qed

definition callback_env :: env where
  "callback_env = example_env\<lparr>e_hmac := \<lambda>_ _. ''s'',
     e_json_loads := \<lambda>_. Some (JObj [(''event_id'', JStr ''E1''),
       (''provider_reference'', JStr ''X''), (''outcome'', JStr ''failed'')])\<rparr>"

lemma callback_parsed:
  "mock_process_callback callback_env DEFAULT_CALLBACK_SECRET ''b'' ''s'' s =
     (Inr \<lparr>cb_external_event_id = ''E1'', cb_provider_reference = ''X'', cb_outcome = OFailed,
        cb_raw_response = JObj [(''event_id'', JStr ''E1''), (''provider_reference'', JStr ''X''),
          (''outcome'', JStr ''failed'')]\<rparr>, s)"
proof -
  have "is_ascii ''s''"
    by code_simp
  then show ?thesis
    by (simp add: mock_process_callback_def verify_def sign_def callback_env_def compare_digest_def
        lift_sum_def mbind_def ret_def parse_callback_def text_field_def outcome_of_def)
qed

lemma callback_wpx:
  "wpx (mock_process_callback callback_env DEFAULT_CALLBACK_SECRET ''b'' ''s'') Q X s =
     Q \<lparr>cb_external_event_id = ''E1'', cb_provider_reference = ''X'', cb_outcome = OFailed,
        cb_raw_response = JObj [(''event_id'', JStr ''E1''), (''provider_reference'', JStr ''X''),
          (''outcome'', JStr ''failed'')]\<rparr> s"
  using callback_parsed [of s] by (simp add: wpx_def)

lemma callback_example:
  "succeeds (process_callback callback_env None example_provider ''b'' ''s'')
      (\<lambda>_ t. p_status (hd (payments t)) = FAILED) (open_st [example_unknown])"
  by (simp add: process_callback_def get_adapter_def example_provider_def mock_adapter_def
      callback_wpx wpx_eta create_callback_event_def find_callback_event_def Let_def
      first_callback_def save_callback_event_def apply_outcome_def payment_failed_def
      record_payment_failed_def notify_payment_def customer_for_payment_def payment_control_number_def
      control_number_bill_def account_customer_def notification_context_def send_notification_def
      dispatch_payment_def example_cn_def example_tenant_def example_billing_st_def)

theorem callback_handled_once_witness:
  "\<exists>ev t rs u. process_callback callback_env None example_provider ''b'' ''s'' (open_st [example_unknown]) = (Inr ev, t) \<and>
     p_status (hd (payments t)) = FAILED \<and>
     run_calls (replicate 2 (process_callback callback_env None example_provider ''b'' ''s'')) t = (rs, u) \<and>
     length rs = 2 \<and> ledger_entries u = ledger_entries t"
proof -
  let ?s = "open_st [example_unknown]"
  obtain ev t where t: "process_callback callback_env None example_provider ''b'' ''s'' ?s = (Inr ev, t)"
    "p_status (hd (payments t)) = FAILED"
    using callback_example by (auto simp: succeeds_iff)
  obtain rs u where u: "run_calls (replicate 2 (process_callback callback_env None example_provider ''b'' ''s'')) t = (rs, u)"
    by (meson surj_pair)
  from callback_handled_once [OF _ callback_parsed _ t(1) u] t u show ?thesis
    by (simp add: example_provider_def money_rows_def)
qed

subsection \<open>Error paths\<close>

lemma wpx_unknown_pending:
  assumes "p_status p = UNKNOWN" and "row_get pp_id (p_provider p) (payment_providers s) = Some pr"
    and "pp_code pr = ''mock''"
    and "List.find (\<lambda>m. mt_merchant_reference m = p_merchant_reference p) (mock_transactions s) = Some m"
    and "mt_outcome m = OPending"
  shows "wpx (query_payment E actor p) (\<lambda>_ _. False)
    (\<lambda>e _. e = ValidationError ''Cannot transition payment from unknown to pending.'') s"
  using assms by (auto simp: query_payment_def payment_provider_of_def get_adapter_def mock_adapter_def
      mock_query_payment_def apply_outcome_def Let_def wpx_eta)

text \<open>
  Also (\<open>query_payment\<close>, \<open>_apply_outcome\<close>, \<open>ALLOWED_TRANSITIONS\<close>): querying an \<open>UNKNOWN\<close> payment
  that the provider still has as pending raises \<open>ValidationError\<close>, because \<open>UNKNOWN\<close> cannot become
  \<open>PENDING\<close>; the exception leaves the service.
\<close>

theorem unknown_pending_query_raises:
  assumes "p_status p = UNKNOWN" and "row_get pp_id (p_provider p) (payment_providers s) = Some pr"
    and "pp_code pr = ''mock''"
    and "List.find (\<lambda>m. mt_merchant_reference m = p_merchant_reference p) (mock_transactions s) = Some m"
    and "mt_outcome m = OPending"
  shows "\<exists>t. query_payment E actor p s =
    (Inl (ValidationError ''Cannot transition payment from unknown to pending.''), t)"
  using wpx_unknown_pending [OF assms, of E actor] by (auto simp: wpx_def split: prod.splits sum.splits)

theorem unknown_pending_query_raises_witness:
  "\<exists>t. query_payment example_env None example_unknown
     ((open_st [example_unknown])\<lparr>mock_transactions := [\<lparr>mt_merchant_reference = ''PAY-1'',
        mt_provider_reference = ''X'', mt_outcome = OPending\<rparr>]\<rparr>) =
     (Inl (ValidationError ''Cannot transition payment from unknown to pending.''), t)"
  by (rule unknown_pending_query_raises [where pr = example_provider and
        m = "\<lparr>mt_merchant_reference = ''PAY-1'', mt_provider_reference = ''X'', mt_outcome = OPending\<rparr>"])
     (simp_all add: example_provider_def)

text \<open>
  Also (\<open>generate_receipt\<close>): when the receipt number drawn is taken in the tenant, the recovery query
  in the \<open>except\<close> branch runs in the broken transaction and raises
  \<open>TransactionManagementError\<close>: the race is not recovered from.
\<close>

theorem receipt_clash_breaks_transaction:
  assumes "linked s p cn ob c t" and "p_status p = SUCCESSFUL" and "find_receipt (p_id p) s = None"
    and "r \<in> set (receipts s)" and "r_tenant r = p_tenant p"
    and "r_receipt_number r = ''RCPT-'' @ e_ymd E (e_now E (Suc (clock_reads s))) @ ''-'' @
      py_upper (take 8 (e_hex E (Suc (draws s))))"
  shows "\<exists>u. generate_receipt E p s = (Inl TransactionManagementError, u) \<and> tx_broken u"
proof -
  have about: "concerns s p cn ob c" and tt: "row_get t_id (p_tenant p) (tenants s) = Some t"
    and ch: "channel_known s p"
    using assms(1) by (simp_all add: linked_def)
  have clash: "list_ex (\<lambda>q. r_tenant q = p_tenant p \<and> r_receipt_number q = ''RCPT-'' @
      e_ymd E (e_now E (Suc (clock_reads s))) @ ''-'' @ py_upper (take 8 (e_hex E (Suc (draws s))))) (receipts s)"
    using assms(4-6) unfolding list_ex_iff by blast
  have find: "find_receipt i (s\<lparr>clock_reads := m, draws := n\<rparr>) = find_receipt i s"
    "find_receipt i (s\<lparr>draws := n\<rparr>) = find_receipt i s" for i n m
    by (simp_all add: find_receipt_def)
  have "wpx (generate_receipt E p) (\<lambda>_ _. False) (\<lambda>e u. e = TransactionManagementError \<and> tx_broken u) s"
    unfolding generate_receipt_def wpx_mbind wpx_gets assms(3) option.case
    using tt assms(2,3) clash
    by (simp add: wpx_lookups [OF about] wpx_eta, intro wpx_receipt_name [OF about, unfolded wpx_eta])
      (auto simp: wpx_eta insert_receipt_def Let_def find intro!: wpx_channel_label [OF ch])
  then show ?thesis
    by (auto simp: wpx_def split: prod.splits sum.splits)
qed

definition taken_receipt :: receipt where
  "taken_receipt = \<lparr>r_id = Uuid 1, r_tenant = Uuid 0, r_payment = Uuid 99, r_receipt_number =
      ''RCPT-'' @ e_ymd example_env 1 @ ''-'' @ py_upper (take 8 (e_hex example_env 10)),
     r_issued_at = 0, r_institution_name = [], r_customer_name = [], r_customer_name_lookup_hash = [],
     r_bill_number = [], r_control_number = [], r_payment_reference = [], r_amount = 0, r_currency = [],
     r_payment_channel_label = [], r_remaining_balance_at_issue = None\<rparr>"

theorem receipt_clash_breaks_transaction_witness:
  "\<exists>u. generate_receipt example_env (example_unknown\<lparr>p_status := SUCCESSFUL\<rparr>)
     ((open_st [])\<lparr>receipts := [taken_receipt]\<rparr>) = (Inl TransactionManagementError, u) \<and> tx_broken u"
proof -
  let ?p = "example_unknown\<lparr>p_status := SUCCESSFUL\<rparr>" and ?s = "(open_st [])\<lparr>receipts := [taken_receipt]\<rparr>"
  have "linked ?s ?p (example_cn (OwnerBill (Uuid 3))) (Some open_bill) asha example_tenant"
    using open_linked [of ?p "[]"] linked_same [of ?s "open_st []" ?p ?p] by simp
  then show ?thesis
    by (rule receipt_clash_breaks_transaction [where r = taken_receipt])
       (simp_all add: taken_receipt_def find_receipt_def open_st_def example_payment_st_def
          example_provider_st_def example_cn_st_def example_revenue_st_def example_billing_st_def
          payment_st.defs provider_st.defs control_number_st.defs revenue_st.defs ledger_st.defs billing_st.defs)
qed

end
