(* ===== verification/Settlement.thy ===== *)
theory Settlement
  imports PaymentProperties
begin

text \<open>
  Settlement batches (\<open>apps/settlement/models.py\<close>, \<open>services.py\<close>, \<open>forms.py\<close>, \<open>views.py\<close>), and the
  invariant that ties a batch to its payments.
\<close>

datatype settlement_status = SPending | SCompleted | SException

record settlement_batch =
  sb_id :: uuid
  sb_tenant :: uuid
  sb_provider :: uuid
  sb_reference :: string
  sb_period_start :: time
  sb_period_end :: time
  sb_gross_amount :: money
  sb_platform_fee_total :: money
  sb_provider_fee_total :: money
  sb_net_amount :: money
  sb_currency :: string
  sb_status :: settlement_status
  sb_settlement_date :: "time option"
  sb_external_settlement_reference :: string
  sb_notes :: string

record settlement_st = payment_st +
  settlement_batches :: "settlement_batch list"

text \<open>\<open>SettlementBatch.save\<close> of a new row, with the unique constraint.\<close>

definition insert_batch :: "env \<Rightarrow> settlement_batch \<Rightarrow> ('z settlement_st_scheme, settlement_batch) pm" where
  "insert_batch E b =
     mbind (if sb_reference b = []
            then mbind (now E) (\<lambda>t. mbind draw (\<lambda>k. ret (b\<lparr>sb_reference :=
                   ''SET-'' @ e_ymd E t @ ''-'' @ py_upper (take 8 (e_hex E k))\<rparr>)))
            else ret b) (\<lambda>b1.
     mbind (gets (\<lambda>s. list_ex (\<lambda>q. sb_tenant q = sb_tenant b1 \<and> sb_reference q = sb_reference b1)
              (settlement_batches s))) (\<lambda>clash.
       if clash then integrity_error ''unique_settlement_batch_reference_per_tenant''
       else mseq (modify (\<lambda>s. s\<lparr>settlement_batches := b1 # settlement_batches s\<rparr>)) (ret b1)))"

definition settleable :: "uuid \<Rightarrow> uuid \<Rightarrow> time \<Rightarrow> time \<Rightarrow> payment \<Rightarrow> bool" where
  "settleable tenant provider start stop p \<longleftrightarrow>
     p_tenant p = tenant \<and> p_provider p = provider \<and> p_status p = SUCCESSFUL \<and>
     p_settlement_batch p = None \<and>
     (case p_completed_at p of None \<Rightarrow> False | Some t \<Rightarrow> start \<le> t \<and> t < stop)"

text \<open>The aggregate over the revenue events of these payments.\<close>

definition success_fees :: "uuid \<Rightarrow> uuid list \<Rightarrow> revenue_event list \<Rightarrow> money" where
  "success_fees tenant ids res = sum_list (map re_amount
     (filter (\<lambda>e. re_tenant e = tenant \<and> re_event_type e = RE_PAYMENT_SUCCESSFUL \<and>
        fst (re_source e) = MPayment \<and> snd (re_source e) \<in> set ids) res))"

text \<open>\<open>str\<close> of a sum that starts at \<open>Decimal("0")\<close>.\<close>

definition sum_text :: "env \<Rightarrow> payment list \<Rightarrow> money \<Rightarrow> string" where
  "sum_text E ps m = (if ps = [] then ''0'' else e_str_dec E m)"

definition claim_payments :: "uuid list \<Rightarrow> uuid \<Rightarrow> payment list \<Rightarrow> payment list" where
  "claim_payments ids bid ps =
     map (\<lambda>p. if p_id p \<in> set ids then p\<lparr>p_settlement_batch := Some bid\<rparr> else p) ps"

definition generate_settlement_batch ::
  "env \<Rightarrow> user option \<Rightarrow> uuid \<Rightarrow> uuid \<Rightarrow> time \<Rightarrow> time \<Rightarrow> ('z settlement_st_scheme, settlement_batch) pm" where
  "generate_settlement_batch E actor tenant provider start stop = atomic
     (mbind (gets (\<lambda>s. filter (settleable tenant provider start stop) (payments s))) (\<lambda>ps.
      let gross = sum_list (map p_amount ps) in
      mbind (gets (\<lambda>s. success_fees tenant (map p_id ps) (revenue_events s))) (\<lambda>fees.
      let provider_fees = 0; net = gross - fees - provider_fees in
      mbind (the_tenant tenant) (\<lambda>t.
      mbind fresh_uuid (\<lambda>i.
      mbind (column 18 (Dec gross (- 2))) (\<lambda>g.
      mbind (column 18 (Dec fees (- 2))) (\<lambda>f.
      mbind (column 18 (Dec net (- 2))) (\<lambda>n.
      mbind (insert_batch E
        \<lparr>sb_id = i, sb_tenant = tenant, sb_provider = provider, sb_reference = [],
         sb_period_start = start, sb_period_end = stop, sb_gross_amount = g,
         sb_platform_fee_total = f, sb_provider_fee_total = provider_fees, sb_net_amount = n,
         sb_currency = t_default_currency t, sb_status = SPending, sb_settlement_date = None,
         sb_external_settlement_reference = [], sb_notes = []\<rparr>) (\<lambda>b.
      mseq (modify (\<lambda>s. s\<lparr>payments := claim_payments (map p_id ps) (sb_id b) (payments s)\<rparr>))
      (mseq (record_audit_event E ''settlement.batch_created'' actor (Some tenant)
               (Some (MSettlementBatch, sb_id b)) None
               (Some (JObj [(''gross_amount'', JStr (sum_text E ps gross)),
                            (''net_amount'', JStr (sum_text E ps net)),
                            (''payment_count'', JInt (int (length ps)))])) (JObj []))
        (ret b)))))))))))"

definition save_batch_completion :: "settlement_batch \<Rightarrow> ('z settlement_st_scheme, unit) pm" where
  "save_batch_completion b = modify (\<lambda>s. s\<lparr>settlement_batches := row_update sb_id (sb_id b)
     (\<lambda>r. r\<lparr>sb_status := sb_status b, sb_settlement_date := sb_settlement_date b,
            sb_external_settlement_reference := sb_external_settlement_reference b\<rparr>) (settlement_batches s)\<rparr>)"

definition mark_settlement_completed ::
  "env \<Rightarrow> user option \<Rightarrow> string \<Rightarrow> settlement_batch \<Rightarrow> ('z settlement_st_scheme, settlement_batch) pm" where
  "mark_settlement_completed E actor external b =
     mbind (now E) (\<lambda>t.
     let b1 = b\<lparr>sb_status := SCompleted, sb_settlement_date := Some t,
                sb_external_settlement_reference := external\<rparr> in
     mseq (save_batch_completion b1)
     (mseq (audit_event E ''settlement.completed'' actor (Some (sb_tenant b1))
              (Some (MSettlementBatch, sb_id b1)))
     (mseq (dispatch_event E (sb_tenant b1) ''settlement.completed'' (JObj
              [(''settlement_batch_id'', JStr (e_str_uuid E (sb_id b1))),
               (''reference'', JStr (sb_reference b1)),
               (''net_amount'', JStr (e_str_dec E (sb_net_amount b1))),
               (''currency'', JStr (sb_currency b1)),
               (''external_settlement_reference'', JStr external)]))
       (ret b1))))"

subsection \<open>Views\<close>

definition SETTLEMENT_ROLES :: "platform_role list" where
  "SETTLEMENT_ROLES = [SUPER_ADMIN, FINANCE_ADMIN]"

text \<open>The order of the table is by descending end of the period.\<close>

definition batch_order :: "settlement_batch list \<Rightarrow> settlement_batch list" where
  "batch_order bs = sort_key (\<lambda>b. - sb_period_end b) bs"

definition batch_list :: "uuid option \<Rightarrow> ('z settlement_st_scheme, settlement_batch list option) pm" where
  "batch_list tenant = (case tenant of None \<Rightarrow> ret None
     | Some tid \<Rightarrow> gets (\<lambda>s. Some (batch_order (filter (\<lambda>b. sb_tenant b = tid) (settlement_batches s)))))"

definition batch_detail :: "uuid option \<Rightarrow> uuid \<Rightarrow> ('z settlement_st_scheme, settlement_batch option) pm" where
  "batch_detail tenant pk =
     (if tenant = None then ret None
      else mbind (require Http404 (\<lambda>s. List.find (\<lambda>b. sb_id b = pk \<and> Some (sb_tenant b) = tenant)
             (settlement_batches s))) (\<lambda>b. ret (Some b)))"

record batch_form =
  gf_tenant :: uuid
  gf_provider :: uuid
  gf_period_start :: time
  gf_period_end :: time

text \<open>\<open>GenerateSettlementBatchForm\<close>: the choices are the active tenants and the active providers.\<close>

definition batch_form_clean :: "batch_form \<Rightarrow> 'z settlement_st_scheme \<Rightarrow> bool" where
  "batch_form_clean f s \<longleftrightarrow>
     list_ex (\<lambda>t. t_id t = gf_tenant f \<and> t_status t = TenantActive) (tenants s) \<and>
     list_ex (\<lambda>p. pp_id p = gf_provider f \<and> pp_is_active p) (payment_providers s)"

definition generate_batch ::
  "env \<Rightarrow> user option \<Rightarrow> batch_form option \<Rightarrow> ('z settlement_st_scheme, settlement_batch option) pm" where
  "generate_batch E user form = require_platform_role SETTLEMENT_ROLES user
     (case form of
        None \<Rightarrow> ret None
      | Some f \<Rightarrow>
          mbind (gets (batch_form_clean f)) (\<lambda>ok.
          if \<not> ok then ret None
          else mbind (generate_settlement_batch E user (gf_tenant f) (gf_provider f)
                        (gf_period_start f) (gf_period_end f)) (\<lambda>b. ret (Some b))))"

definition platform_batch_list :: "user option \<Rightarrow> ('z settlement_st_scheme, settlement_batch list) pm" where
  "platform_batch_list user = require_platform_role SETTLEMENT_ROLES user
     (gets (\<lambda>s. take 200 (batch_order (settlement_batches s))))"

definition completion_form_clean :: "string \<Rightarrow> string option" where
  "completion_form_clean r =
     (let v = py_strip r in if v = [] \<or> 150 < length v then None else Some v)"

definition mark_completed ::
  "env \<Rightarrow> user option \<Rightarrow> uuid \<Rightarrow> string option \<Rightarrow> ('z settlement_st_scheme, settlement_batch option) pm" where
  "mark_completed E user pk form = require_platform_role SETTLEMENT_ROLES user
     (mbind (require Http404 (\<lambda>s. row_get sb_id pk (settlement_batches s))) (\<lambda>b.
      case form of
        None \<Rightarrow> ret None
      | Some r \<Rightarrow> (case completion_form_clean r of
            None \<Rightarrow> ret None
          | Some external \<Rightarrow>
              mbind (mark_settlement_completed E user external b) (\<lambda>b1. ret (Some b1)))))"

subsection \<open>The fees of a batch\<close>

lemma success_fees_Cons:
  "i \<notin> set is \<Longrightarrow> success_fees t (i # is) res =
     sum_list (map fst (filter (\<lambda>x. snd x = t) (fees i res))) + success_fees t is res"
proof (induction res)
  case (Cons e res)
  then show ?case
    by (cases "re_source e") (auto simp: success_fees_def fees_def)
qed (simp add: success_fees_def fees_def)

lemma success_fees_balanced:
  assumes "distinct (map p_id qs)"
    and "\<And>q. q \<in> set qs \<Longrightarrow> balanced les res q \<and> paid (p_status q) \<and> p_tenant q = t"
  shows "success_fees t (map p_id qs) res = 5000 * int (length qs)"
  using assms
proof (induction qs)
  case (Cons q qs)
  have "fees (p_id q) res = [(5000, t)]"
    using Cons.prems(2) [of q] by (simp add: balanced_def once_def)
  with Cons show ?case
    by (simp add: success_fees_Cons algebra_simps)
qed (simp add: success_fees_def)

lemma claim_exact:
  assumes "distinct (map p_id ps)"
  shows "claim_payments (map p_id (filter P ps)) i ps =
    map (\<lambda>p. if P p then p\<lparr>p_settlement_batch := Some i\<rparr> else p) ps"
  unfolding claim_payments_def
proof (rule map_cong [OF refl])
  fix p
  assume p: "p \<in> set ps"
  have "p_id p \<in> set (map p_id (filter P ps)) \<longleftrightarrow> P p"
  proof
    assume "p_id p \<in> set (map p_id (filter P ps))"
    then obtain q where q: "q \<in> set ps" "P q" "p_id q = p_id p"
      by auto
    then have "q = p"
      using assms p by (simp add: distinct_map inj_on_def)
    with q show "P p"
      by simp
  qed (use p in simp)
  then show "(if p_id p \<in> set (map p_id (filter P ps)) then p\<lparr>p_settlement_batch := Some i\<rparr> else p) =
      (if P p then p\<lparr>p_settlement_batch := Some i\<rparr> else p)"
    by simp
qed

definition batch_members :: "uuid \<Rightarrow> payment list \<Rightarrow> payment list" where
  "batch_members i ps = filter (\<lambda>p. p_settlement_batch p = Some i) ps"

lemma batch_members_claim:
  assumes "distinct (map p_id ps)" and none: "\<And>p. P p \<Longrightarrow> p_settlement_batch p = None"
    and new: "\<And>p. p \<in> set ps \<Longrightarrow> p_settlement_batch p \<noteq> Some i"
  shows "batch_members j (claim_payments (map p_id (filter P ps)) i ps) =
    (if j = i then map (\<lambda>p. p\<lparr>p_settlement_batch := Some i\<rparr>) (filter P ps) else batch_members j ps)"
  unfolding claim_exact [OF assms(1)] batch_members_def filter_map comp_def
proof (cases "j = i")
  case True
  have "filter (\<lambda>p. p_settlement_batch (if P p then p\<lparr>p_settlement_batch := Some i\<rparr> else p) = Some i) ps =
      filter P ps"
    by (rule filter_cong [OF refl]) (simp add: new)
  with True show "map (\<lambda>p. if P p then p\<lparr>p_settlement_batch := Some i\<rparr> else p)
       (filter (\<lambda>x. p_settlement_batch (if P x then x\<lparr>p_settlement_batch := Some i\<rparr> else x) = Some j) ps) =
     (if j = i then map (\<lambda>p. p\<lparr>p_settlement_batch := Some i\<rparr>) (filter P ps)
      else filter (\<lambda>p. p_settlement_batch p = Some j) ps)"
    by simp
next
  case False
  have "filter (\<lambda>p. p_settlement_batch (if P p then p\<lparr>p_settlement_batch := Some i\<rparr> else p) = Some j) ps =
      filter (\<lambda>p. p_settlement_batch p = Some j) ps"
    by (rule filter_cong [OF refl]) (use False none in auto)
  moreover have "map (\<lambda>p. if P p then p\<lparr>p_settlement_batch := Some i\<rparr> else p)
      (filter (\<lambda>p. p_settlement_batch p = Some j) ps) = filter (\<lambda>p. p_settlement_batch p = Some j) ps"
    by (rule map_idI) (use none in auto)
  ultimately show "map (\<lambda>p. if P p then p\<lparr>p_settlement_batch := Some i\<rparr> else p)
       (filter (\<lambda>x. p_settlement_batch (if P x then x\<lparr>p_settlement_batch := Some i\<rparr> else x) = Some j) ps) =
     (if j = i then map (\<lambda>p. p\<lparr>p_settlement_batch := Some i\<rparr>) (filter P ps)
      else filter (\<lambda>p. p_settlement_batch p = Some j) ps)"
    using False by simp
qed


lemma column_hundredths: "to_column 18 (Dec m (- 2)) = Some g \<Longrightarrow> g = m"
  by (auto simp: to_column_def to_hundredths_def Let_def split: if_splits)

subsection \<open>Generating a batch\<close>

definition settle_rows ::
  "'z settlement_st_scheme \<Rightarrow> payment list \<times> ledger_entry list \<times> revenue_event list \<times> settlement_batch list" where
  "settle_rows s = (payments s, ledger_entries s, revenue_events s, settlement_batches s)"

definition generated ::
  "uuid \<Rightarrow> uuid \<Rightarrow> time \<Rightarrow> time \<Rightarrow> 'z settlement_st_scheme \<Rightarrow> settlement_batch \<Rightarrow> 'z settlement_st_scheme \<Rightarrow> bool" where
  "generated tenant provider start stop s b t \<longleftrightarrow>
     (let ps = filter (settleable tenant provider start stop) (payments s);
          fee = success_fees tenant (map p_id ps) (revenue_events s) in
      later s t \<and> draws s < draws t \<and> sb_id b = Uuid (draws s) \<and>
      sb_tenant b = tenant \<and> sb_provider b = provider \<and> sb_status b = SPending \<and>
      sb_gross_amount b = sum_list (map p_amount ps) \<and> sb_platform_fee_total b = fee \<and>
      sb_provider_fee_total b = 0 \<and> sb_net_amount b = sum_list (map p_amount ps) - fee \<and>
      settle_rows t = (claim_payments (map p_id ps) (sb_id b) (payments s), ledger_entries s,
        revenue_events s, b # settlement_batches s) \<and>
      (\<exists>r. audit_logs t = r # audit_logs s))"

lemma settlement_projections [simp]:
  "settlement_batches (audited r s) = settlement_batches s"
  "payments (audited r s) = payments (s :: 'z settlement_st_scheme)"
  by (simp_all add: audited_def)

lemma wpx_generate:
  fixes s :: "'z settlement_st_scheme"
  assumes "\<And>b t. generated tenant provider start stop s b t \<Longrightarrow> Q b t"
    and "\<And>e t. same settle_rows s t \<Longrightarrow> X e t"
  shows "wpx (generate_settlement_batch E actor tenant provider start stop) Q X s"
proof -
  have failed: "X e (rollback s (t :: 'z settlement_st_scheme))" if "later s t" for e t
    using that by (intro assms(2)) (auto simp: same_def settle_rows_def rollback_def later_def)
  show ?thesis
    unfolding generate_settlement_batch_def insert_batch_def the_tenant_def
    by (auto simp: Let_def wpx_eta later_def generated_def settle_rows_def split: option.split
        dest!: column_hundredths intro!: failed assms(1))
qed


subsection \<open>The totals of the batches\<close>

type_synonym settle_view = "(uuid \<times> money \<times> uuid option) list"

definition settle_view :: "payment list \<Rightarrow> settle_view" where
  "settle_view ps = map (\<lambda>p. (p_id p, p_amount p, p_settlement_batch p)) ps"

text \<open>The amounts of the payments in batch \<open>i\<close>.\<close>

definition batch_amounts :: "uuid \<Rightarrow> settle_view \<Rightarrow> money list" where
  "batch_amounts i vs = map (\<lambda>v. fst (snd v)) (filter (\<lambda>v. snd (snd v) = Some i) vs)"

definition totals_right :: "settle_view \<Rightarrow> settlement_batch \<Rightarrow> bool" where
  "totals_right vs b \<longleftrightarrow>
     sb_gross_amount b = sum_list (batch_amounts (sb_id b) vs) \<and>
     sb_platform_fee_total b = 5000 * int (length (batch_amounts (sb_id b) vs)) \<and>
     sb_provider_fee_total b = 0 \<and>
     sb_net_amount b = sb_gross_amount b - sb_platform_fee_total b - sb_provider_fee_total b"

definition batches_at :: "settle_view \<Rightarrow> nat \<Rightarrow> settle_view \<Rightarrow> settlement_batch list \<Rightarrow> bool" where
  "batches_at old n vs bs \<longleftrightarrow> distinct (map sb_id bs) \<and> (\<forall>b \<in> set bs. used n (sb_id b) \<and> totals_right vs b) \<and>
     (\<forall>v \<in> set vs. \<forall>i. snd (snd v) = Some i \<longrightarrow> used n i) \<and>
     {v \<in> set old. snd (snd v) \<noteq> None} \<subseteq> set vs"

definition batches :: "settle_view \<Rightarrow> 'z settlement_st_scheme \<Rightarrow> bool" where
  "batches old s \<longleftrightarrow> batches_at old (draws s) (settle_view (payments s)) (settlement_batches s)"

text \<open>What a request to the payment endpoints may do to what the batches are about.\<close>

definition unsettled_news :: "'z settlement_st_scheme \<Rightarrow> 'z settlement_st_scheme \<Rightarrow> bool" where
  "unsettled_news s t \<longleftrightarrow> later s t \<and> settlement_batches t = settlement_batches s \<and>
     (\<exists>news. settle_view (payments t) = news @ settle_view (payments s) \<and>
        (\<forall>v \<in> set news. snd (snd v) = None))"

lemma settle_view_update:
  "(\<And>q. identity (f q) = identity q) \<Longrightarrow> settle_view (row_update p_id i f ps) = settle_view ps"
  by (induction ps) (simp_all add: settle_view_def identity_def)

lemma news_trans:
  assumes "unsettled_news s t" and "unsettled_news t u"
  shows "unsettled_news s u"
proof -
  obtain xs ys where "settle_view (payments t) = xs @ settle_view (payments s)"
      "settle_view (payments u) = ys @ settle_view (payments t)"
      "\<forall>v \<in> set xs. snd (snd v) = None" "\<forall>v \<in> set ys. snd (snd v) = None"
    using assms by (auto simp: unsettled_news_def)
  then have "settle_view (payments u) = (ys @ xs) @ settle_view (payments s) \<and>
      (\<forall>v \<in> set (ys @ xs). snd (snd v) = None)"
    by auto
  with assms show ?thesis
    unfolding unsettled_news_def by (metis later_trans)
qed

lemma news_same:
  "settle_view (payments t) = settle_view (payments s) \<Longrightarrow> settlement_batches t = settlement_batches s \<Longrightarrow>
   later s t \<Longrightarrow> unsettled_news s t"
  by (simp add: unsettled_news_def)

lemma news_one:
  "p_settlement_batch p = None \<Longrightarrow> unsettled_news s (s\<lparr>payments := p # payments s\<rparr>)"
  by (auto simp: unsettled_news_def settle_view_def later_def intro!: exI [of _ "[_]"])

interpretation news_postings: row_postings_frame unsettled_news
proof unfold_locales
  show "unsettled_news s t \<Longrightarrow> unsettled_news t u \<Longrightarrow> unsettled_news s u"
    for s t u :: "'a settlement_st_scheme"
    by (rule news_trans)
qed (auto intro!: news_same simp: later_def simp: unsettled_news_def)

interpretation settlement_news: payment_frame unsettled_news
proof unfold_locales
  show "p_settlement_batch p = None \<Longrightarrow> unsettled_news s (s\<lparr>payments := p # payments s\<rparr>)"
    for p and s :: "'a settlement_st_scheme"
    by (rule news_one)
qed (auto intro!: news_same simp: later_def settle_view_update)


subsection \<open>Every request keeps the totals\<close>

lemma batch_amounts_view: "batch_amounts i (settle_view ps) = map p_amount (batch_members i ps)"
  by (simp add: batch_amounts_def settle_view_def batch_members_def filter_map comp_def)

lemma batch_amounts_news:
  "(\<And>v. v \<in> set news \<Longrightarrow> snd (snd v) = None) \<Longrightarrow> batch_amounts i (news @ vs) = batch_amounts i vs"
  by (auto simp: batch_amounts_def filter_empty_conv)

lemma batches_mono: "batches_at old n vs bs \<Longrightarrow> n \<le> m \<Longrightarrow> batches_at old m vs bs"
  unfolding batches_at_def by (meson used_mono)

lemma batches_news:
  assumes "unsettled_news s t" and "batches old s"
  shows "batches old t"
proof -
  obtain news where news: "settle_view (payments t) = news @ settle_view (payments s)"
      "\<And>v. v \<in> set news \<Longrightarrow> snd (snd v) = None"
    using assms(1) unfolding unsettled_news_def by blast
  have right: "totals_right (news @ vs) b = totals_right vs b" for vs b
    by (simp add: totals_right_def batch_amounts_news [OF news(2)])
  have "draws s \<le> draws t" "settlement_batches t = settlement_batches s"
    using assms(1) by (auto simp: unsettled_news_def later_def)
  moreover have "used (draws t) i"
    if "v \<in> set (news @ settle_view (payments s))" "snd (snd v) = Some i" for v i
  proof -
    have "v \<in> set (settle_view (payments s))"
      using that news(2) [of v] by auto
    then have "used (draws s) i"
      using assms(2) that(2) by (auto simp: batches_def batches_at_def)
    then show ?thesis
      using \<open>draws s \<le> draws t\<close> by (rule used_mono)
  qed
  ultimately show ?thesis
    using assms(2) unfolding batches_def batches_at_def news(1) by (auto simp: right intro: used_mono)
qed

lemma books_map:
  assumes "books_at old n ps les res"
    and "\<And>q. p_id (f q) = p_id q \<and> p_amount (f q) = p_amount q \<and> p_tenant (f q) = p_tenant q \<and>
      p_status (f q) = p_status q"
  shows "books_at old n (map f ps) les res"
proof (rule books_atI)
  have got: "row_get p_id i (map f ps) = map_option f (row_get p_id i ps)" for i
    using assms(2) by (induction ps) auto
  show "progress old (map f ps)"
    using books_atD(6) [OF assms(1)] assms(2) by (auto simp: progress_def got)
  show "owned (map f ps) e" if "e \<in> set les" for e
    using books_atD(7) [OF assms(1) that] by (rule owned_map) (use assms(2) in auto)
qed (use books_atD [OF assms(1)] assms(2) in \<open>auto simp: comp_def balanced_def\<close>)+

lemma generated_keeps:
  fixes s t :: "'z settlement_st_scheme"
  assumes "books old s" and "batches vold s" and "generated tenant provider start stop s b t"
  shows "books old t" and "batches vold t"
proof -
  let ?P = "settleable tenant provider start stop"
  let ?qs = "filter ?P (payments s)"
  let ?f = "\<lambda>p. if ?P p then p\<lparr>p_settlement_batch := Some (sb_id b)\<rparr> else p"
  note old = books_atD [OF assms(1) [unfolded books_def]]
  have made: "payments t = map ?f (payments s)" "draws s < draws t" "sb_id b = Uuid (draws s)"
      "ledger_entries t = ledger_entries s" "revenue_events t = revenue_events s"
      "settlement_batches t = b # settlement_batches s"
    using assms(3) by (auto simp: generated_def Let_def settle_rows_def claim_exact [OF old(1)])
  have paid: "balanced (ledger_entries s) (revenue_events s) q \<and> paid (p_status q) \<and> p_tenant q = tenant"
    if "q \<in> set ?qs" for q
    using that old(5) by (auto simp: settleable_def paid_def)
  have fee: "success_fees tenant (map p_id ?qs) (revenue_events s) = 5000 * int (length ?qs)"
    by (rule success_fees_balanced [OF _ paid]) (simp_all add: old(1) distinct_map_filter)
  have fresh: "p_settlement_batch p \<noteq> Some (sb_id b)" if "p \<in> set (payments s)" for p
    using assms(2) that made(3) by (force simp: batches_def batches_at_def settle_view_def)
  have members: "batch_members i (map ?f (payments s)) =
      (if i = sb_id b then map (\<lambda>p. p\<lparr>p_settlement_batch := Some (sb_id b)\<rparr>) ?qs else batch_members i (payments s))" for i
    unfolding claim_exact [OF old(1), symmetric]
    by (rule batch_members_claim [OF old(1)]) (simp_all add: settleable_def fresh)
  show "books old t"
    unfolding books_def made(1,4,5)
    by (rule books_map [OF books_mono [OF assms(1) [unfolded books_def] less_imp_le [OF made(2)]]]) simp
  have new: "totals_right (settle_view (payments t)) b"
    using assms(3) by (simp add: totals_right_def batch_amounts_view made(1) members comp_def
        generated_def Let_def fee)
  have other: "sb_id c \<noteq> sb_id b" if "c \<in> set (settlement_batches s)" for c
  proof -
    have "used (draws s) (sb_id c)"
      using assms(2) that by (simp add: batches_def batches_at_def)
    then show ?thesis
      using made(3) by auto
  qed
  have kept: "totals_right (settle_view (payments t)) c = totals_right (settle_view (payments s)) c"
    if "c \<in> set (settlement_batches s)" for c
    using other [OF that] by (simp add: totals_right_def batch_amounts_view made(1) members)
  have views: "v \<in> set (settle_view (payments t))"
    if v: "v \<in> set (settle_view (payments s))" "snd (snd v) \<noteq> None" for v
  proof -
    obtain p where p: "p \<in> set (payments s)" "v = (p_id p, p_amount p, p_settlement_batch p)"
      using v(1) by (auto simp: settle_view_def)
    then have "?f p = p"
      using v(2) by (simp add: settleable_def)
    with p show ?thesis
      unfolding made(1) settle_view_def by force
  qed
  have used: "used (draws t) i" if p: "p \<in> set (payments t)" "p_settlement_batch p = Some i" for p i
  proof -
    obtain q where q: "q \<in> set (payments s)" "p = ?f q"
      using p(1) made(1) by auto
    show ?thesis
    proof (cases "?P q")
      case False
      then have "used (draws s) i"
        using assms(2) q p(2) by (force simp: batches_def batches_at_def settle_view_def)
      then show ?thesis
        by (rule used_mono) (use made(2) in simp)
    qed (use q p(2) made(2,3) in auto)
  qed
  have used_views: "used (draws t) i" if "v \<in> set (settle_view (payments t))" "snd (snd v) = Some i" for v i
    using that used by (auto simp: settle_view_def)
  note was = assms(2) [unfolded batches_def, THEN batches_mono, OF less_imp_le [OF made(2)]]
  show "batches vold t"
    unfolding batches_def made(6) batches_at_def
  proof (intro conjI ballI allI impI subsetI)
    show "distinct (map sb_id (b # settlement_batches s))"
      using assms(2) other by (fastforce simp: batches_def batches_at_def)
    show "used (draws t) (sb_id c)" "totals_right (settle_view (payments t)) c"
      if "c \<in> set (b # settlement_batches s)" for c
      using that was made(2,3) new kept by (auto simp: batches_at_def)
    show "v \<in> set (settle_view (payments t))" if "v \<in> {v \<in> set vold. snd (snd v) \<noteq> None}" for v
      using that was by (intro views) (auto simp: batches_at_def)
  qed (rule used_views)
qed


text \<open>The rows a completion leaves alone, and the batch totals it keeps.\<close>

lemma batches_completion:
  assumes "batches old s"
  shows "batches old (s\<lparr>settlement_batches := row_update sb_id i
    (\<lambda>r. r\<lparr>sb_status := st, sb_settlement_date := d, sb_external_settlement_reference := x\<rparr>)
    (settlement_batches s)\<rparr>)" (is "batches old (s\<lparr>settlement_batches := row_update sb_id i ?f _\<rparr>)")
proof -
  have "map sb_id (row_update sb_id i ?f bs) = map sb_id bs" for bs
    by (rule map_row_update) simp
  moreover have "totals_right vs (?f b) = totals_right vs b" for vs b
    by (simp add: totals_right_def)
  ultimately show ?thesis
    using assms by (auto simp: batches_def batches_at_def in_row_update)
qed

definition settled :: "payment list \<Rightarrow> settle_view \<Rightarrow> 'z settlement_st_scheme \<Rightarrow> bool" where
  "settled old vold s \<longleftrightarrow> books old s \<and> batches vold s"

abbreviation keeps_settled ::
  "payment list \<Rightarrow> settle_view \<Rightarrow> ('z settlement_st_scheme, 'a) pm \<Rightarrow> 'z settlement_st_scheme \<Rightarrow> bool" where
  "keeps_settled old vold m s \<equiv> wpx m (\<lambda>_. settled old vold) (\<lambda>_. settled old vold) s"

lemma settled_frame:
  assumes "upholds unsettled_news m" and "settled old vold s" and "keeps_books old m s"
  shows "keeps_settled old vold m s"
  by (rule wpx_mono [OF wpx_conj [OF assms(3) upholds_wpx [OF assms(1), where s = s]]])
     (use assms(2) in \<open>auto simp: settled_def intro: batches_news\<close>)

lemma settled_audited: "settled old vold s \<Longrightarrow> settled old vold (audited r s)"
  by (auto simp: settled_def batches_def elim: batches_mono)

lemma settled_clock: "settled old vold s \<Longrightarrow> settled old vold (s\<lparr>clock_reads := n\<rparr>)"
  by (simp add: settled_def batches_def books_def)

lemma settled_same_rows: "same settle_rows s t \<Longrightarrow> settled old vold s \<Longrightarrow> settled old vold t"
  by (auto simp: same_def settle_rows_def settled_def books_def batches_def later_def
      elim: books_mono batches_mono)

lemma generate_keeps_settled:
  assumes "settled old vold s"
  shows "keeps_settled old vold (generate_settlement_batch E actor tenant provider start stop) s"
proof (rule wpx_generate)
  show "settled old vold t" if "generated tenant provider start stop s b t" for b t
    using generated_keeps [OF _ _ that, of old vold] assms by (simp add: settled_def)
qed (rule settled_same_rows [OF _ assms])

lemma completed_keeps_settled:
  assumes "settled old vold s"
  shows "keeps_settled old vold (mark_settlement_completed E actor external b) s"
proof -
  have tail: "keeps_settled old vold (dispatch_event E tn ev payload) t"
    if "settled old vold t" for tn ev payload t
    by (rule settled_frame [OF news_postings.upholds_dispatch_event that])
       (rule same_keeps_books [OF outbox_books.upholds_dispatch_event],
        use that in \<open>simp add: settled_def\<close>)
  have marked: "settled old vold (s\<lparr>clock_reads := n, settlement_batches := row_update sb_id i
    (\<lambda>r. r\<lparr>sb_status := st, sb_settlement_date := d, sb_external_settlement_reference := x\<rparr>)
    (settlement_batches s)\<rparr>)" for n i st d x
    using settled_clock [OF assms] batches_completion [of vold "s\<lparr>clock_reads := n\<rparr>" i x d st]
    by (simp add: settled_def books_def)
  show ?thesis
    unfolding mark_settlement_completed_def save_batch_completion_def
    by (simp add: wpx_eta Let_def del: wpx_dispatch_event, rule tail, rule settled_audited) (simp add: marked)
qed


datatype settlement_call =
  PaymentRequest payment_call
| GenerateBatch "user option" "batch_form option"
| MarkCompleted "user option" uuid "string option"

fun settlement_endpoint :: "env \<Rightarrow> settlement_call \<Rightarrow> ('z settlement_st_scheme, unit) pm" where
  "settlement_endpoint E (PaymentRequest c) = payment_endpoint E c"
| "settlement_endpoint E (GenerateBatch user form) = mseq (generate_batch E user form) (ret ())"
| "settlement_endpoint E (MarkCompleted user pk form) = mseq (mark_completed E user pk form) (ret ())"

fun settle :: "env \<Rightarrow> settlement_call list \<Rightarrow> 'z settlement_st_scheme \<Rightarrow> 'z settlement_st_scheme" where
  "settle E [] s = s"
| "settle E (c # cs) s = settle E cs (snd (request (settlement_endpoint E c) s))"

lemma endpoint_news: "upholds unsettled_news (payment_endpoint E c)"
  by (cases c) (auto intro!: news_postings.combinator_rules settlement_news.upholds_payment_views)

lemma endpoint_keeps_settled:
  assumes "settled old vold s"
  shows "keeps_settled old vold (settlement_endpoint E c) s"
proof (cases c)
  case (PaymentRequest pc)
  with assms show ?thesis
    using settled_frame [OF endpoint_news assms endpoint_keeps_books] by (simp add: settled_def)
next
  case (GenerateBatch user form)
  then show ?thesis
    using assms generate_keeps_settled [OF assms]
    by (auto simp: generate_batch_def require_platform_role_def wpx_eta split: option.split)
next
  case (MarkCompleted user pk form)
  then show ?thesis
    using assms completed_keeps_settled [OF assms]
    by (auto simp: mark_completed_def require_platform_role_def wpx_eta split: option.split)
qed

lemma settled_commit: "settled old vold s \<Longrightarrow> settled old vold (commit s)"
  by (simp add: settled_def batches_def books_def commit_def)

lemma settled_rollback: "settled old vold s \<Longrightarrow> draws s \<le> draws t \<Longrightarrow> settled old vold (rollback s t)"
  by (auto simp: settled_def batches_def books_def rollback_def elim: books_mono batches_mono)


lemma request_keeps_settled:
  assumes "settled old vold s"
  shows "settled old vold (snd (request (settlement_endpoint E c) s))"
proof -
  have drawn: "wpx (settlement_endpoint E c) (\<lambda>_ t. True) (\<lambda>_ t. draws s \<le> draws t) s"
  proof (cases c)
    case (PaymentRequest pc)
    show ?thesis
      unfolding PaymentRequest settlement_endpoint.simps
      by (rule wpx_mono [OF upholds_wpx [OF endpoint_news, where s = s]])
         (auto simp: unsettled_news_def later_def)
  next
    case (GenerateBatch user form)
    then show ?thesis
      by (auto simp: generate_batch_def require_platform_role_def wpx_eta split: option.split
          intro!: wpx_generate) (simp add: same_def later_def)
  next
    case (MarkCompleted user pk form)
    then show ?thesis
      by (auto simp: mark_completed_def require_platform_role_def mark_settlement_completed_def
          save_batch_completion_def wpx_eta Let_def split: option.split)
  qed
  have "wpx (request (settlement_endpoint E c)) (\<lambda>_. settled old vold) (\<lambda>_. settled old vold) s"
    unfolding wpx_request
    by (rule wpx_mono [OF wpx_conj [OF endpoint_keeps_settled [OF assms] drawn]])
       (auto intro: settled_commit settled_rollback assms)
  then show ?thesis
    by (cases "request (settlement_endpoint E c) s"; cases "fst (request (settlement_endpoint E c) s)")
       (auto simp: wpx_def)
qed

lemma settle_keeps: "settled old vold s \<Longrightarrow> settled old vold (settle E cs s)"
  by (induction cs arbitrary: s) (simp_all add: request_keeps_settled)

text \<open>
  C4 (\<open>apps/settlement/services.py\<close>, \<open>views.py\<close>, \<open>apps/payments\<close>): let payment requests,
  batch generations and completions arrive in any order. Every settlement batch then still shows the
  sum of the amounts of the payments claimed by it, 50.00 of platform fee for each of them, no
  provider fee and the difference as net amount, refunded or reversed payments included; a payment
  once settled stays in its batch; and every payment's ledger entries and fee balance throughout.
\<close>

theorem settlement_totals_kept:
  assumes "books (payments s) s" and "batches (settle_view (payments s)) s" and "u = settle E calls s"
  shows "(\<forall>b \<in> set (settlement_batches u).
        let ps = filter (\<lambda>p. p_settlement_batch p = Some (sb_id b)) (payments u) in
        sb_gross_amount b = sum_list (map p_amount ps) \<and>
        sb_platform_fee_total b = 5000 * int (length ps) \<and> sb_provider_fee_total b = 0 \<and>
        sb_net_amount b = sb_gross_amount b - sb_platform_fee_total b) \<and>
    (\<forall>p \<in> set (payments s). \<forall>i. p_settlement_batch p = Some i \<longrightarrow>
        (\<exists>q \<in> set (payments u). p_id q = p_id p \<and> p_amount q = p_amount p \<and> p_settlement_batch q = Some i)) \<and>
    distinct (map sb_id (settlement_batches u)) \<and>
    (\<forall>q \<in> set (payments u). balanced (ledger_entries u) (revenue_events u) q)"
proof -
  have kept: "books (payments s) u" "batches (settle_view (payments s)) u"
    using settle_keeps [of "payments s" "settle_view (payments s)" s E calls] assms
    by (simp_all add: settled_def)
  have right: "totals_right (settle_view (payments u)) b" if "b \<in> set (settlement_batches u)" for b
    using kept(2) that by (simp add: batches_def batches_at_def)
  have stays: "\<exists>q \<in> set (payments u). p_id q = p_id p \<and> p_amount q = p_amount p \<and> p_settlement_batch q = Some i"
    if "p \<in> set (payments s)" "p_settlement_batch p = Some i" for p i
  proof -
    have "(p_id p, p_amount p, Some i) \<in> {v \<in> set (settle_view (payments s)). snd (snd v) \<noteq> None}"
      using that by (force simp: settle_view_def)
    then have "(p_id p, p_amount p, Some i) \<in> set (settle_view (payments u))"
      using kept(2) unfolding batches_def batches_at_def by blast
    then show ?thesis
      by (auto simp: settle_view_def)
  qed
  have "distinct (map sb_id (settlement_batches u))"
    using kept(2) by (simp add: batches_def batches_at_def)
  with right stays books_atD(5) [OF kept(1) [unfolded books_def]] show ?thesis
    by (auto simp: totals_right_def batch_amounts_view batch_members_def Let_def)
qed

text \<open>
  C14 (\<open>generate_settlement_batch\<close>): on balanced books a generated batch holds exactly the
  successful, unsettled payments of the tenant and provider completed in the half-open period; its
  platform fee is 50.00 for each and its net amount the sum of what each payment exceeds 50.00 by;
  these payments get the batch and nothing else of them changes, nor of the ledger; an attempt that
  fails (an unknown tenant, a taken reference, an overflow) leaves payments and batches alone.
\<close>

theorem settlement_batch_computed:
  assumes "books old s" and "ps = filter (settleable tenant provider start stop) (payments s)"
  shows "wpx (generate_settlement_batch E actor tenant provider start stop)
    (\<lambda>b t. sb_gross_amount b = sum_list (map p_amount ps) \<and>
       sb_platform_fee_total b = 5000 * int (length ps) \<and>
       sb_net_amount b = (\<Sum>p\<leftarrow>ps. p_amount p - 5000) \<and>
       payments t = map (\<lambda>p. if p \<in> set ps then p\<lparr>p_settlement_batch := Some (sb_id b)\<rparr> else p) (payments s) \<and>
       settlement_batches t = b # settlement_batches s \<and>
       ledger_entries t = ledger_entries s \<and> revenue_events t = revenue_events s)
    (\<lambda>e t. payments t = payments s \<and> settlement_batches t = settlement_batches s) s"
proof (rule wpx_generate)
  fix b t
  assume made: "generated tenant provider start stop s b t"
  note old = books_atD [OF assms(1) [unfolded books_def]]
  have paid: "balanced (ledger_entries s) (revenue_events s) q \<and> paid (p_status q) \<and> p_tenant q = tenant"
    if "q \<in> set ps" for q
    using that old(5) by (auto simp: assms(2) settleable_def paid_def)
  have fee: "success_fees tenant (map p_id ps) (revenue_events s) = 5000 * int (length ps)"
    by (rule success_fees_balanced [OF _ paid]) (simp_all add: assms(2) old(1) distinct_map_filter)
  have net: "(\<Sum>p\<leftarrow>qs. p_amount p - 5000) = sum_list (map p_amount qs) - 5000 * int (length qs)" for qs
    by (induction qs) simp_all
  have "claim_payments (map p_id ps) i (payments s) =
      map (\<lambda>p. if p \<in> set ps then p\<lparr>p_settlement_batch := Some i\<rparr> else p) (payments s)" for i
    unfolding assms(2) claim_exact [OF old(1)] by simp
  with made fee show "sb_gross_amount b = sum_list (map p_amount ps) \<and>
       sb_platform_fee_total b = 5000 * int (length ps) \<and>
       sb_net_amount b = (\<Sum>p\<leftarrow>ps. p_amount p - 5000) \<and>
       payments t = map (\<lambda>p. if p \<in> set ps then p\<lparr>p_settlement_batch := Some (sb_id b)\<rparr> else p) (payments s) \<and>
       settlement_batches t = b # settlement_batches s \<and>
       ledger_entries t = ledger_entries s \<and> revenue_events t = revenue_events s"
    by (auto simp: generated_def Let_def settle_rows_def net simp flip: assms(2))
qed (auto simp: same_def settle_rows_def)


text \<open>A state with one payment to settle, completed at time 3, and its books.\<close>

definition settled_payment :: payment where
  "settled_payment = example_payment\<lparr>p_completed_at := Some 3\<rparr>"

definition example_entry :: "entry_type \<Rightarrow> ledger_account \<Rightarrow> nat \<Rightarrow> ledger_entry" where
  "example_entry ty account n = new_entry example_env (Uuid 0) ty account 30000 ''TZS'' ''PAY-1''
     (Some (MPayment, Uuid 5)) None JNull n"

definition example_settlement_st :: settlement_st where
  "example_settlement_st = (payment_st.extend (example_payment_st [settled_payment])
     \<lparr>settlement_batches = []\<rparr>)\<lparr>ledger_entries :=
       ledger_entries example_revenue_st @ [example_entry PAYMENT_RECEIVED CUSTOMER_ACCOUNT 1,
          example_entry INSTITUTION_ENTITLEMENT INSTITUTION_ACCOUNT 2]\<rparr>"

lemma example_settlement_simps [simp]:
  "payments example_settlement_st = [settled_payment]"
  "settlement_batches example_settlement_st = []"
  "draws example_settlement_st = 9"
  "tenants example_settlement_st = [example_tenant]"
  "revenue_events example_settlement_st = revenue_events example_revenue_st"
  "ledger_entries example_settlement_st = ledger_entries example_revenue_st @
     [example_entry PAYMENT_RECEIVED CUSTOMER_ACCOUNT 1,
      example_entry INSTITUTION_ENTITLEMENT INSTITUTION_ACCOUNT 2]"
  by (simp_all add: example_settlement_st_def example_payment_st_def example_provider_st_def
      example_cn_st_def example_revenue_st_def example_billing_st_def payment_st.defs provider_st.defs
      control_number_st.defs revenue_st.defs ledger_st.defs billing_st.defs)

lemma example_settlement_books: "books [settled_payment] example_settlement_st"
  unfolding books_def
  by (rule books_atI)
     (auto simp: example_revenue_simps settled_payment_def example_payment_def once_def paid_def
       balanced_def progress_def leads_to_def owned_def example_entry_def booked_def fees_def)

text \<open>The same payment, already claimed by a batch.\<close>

definition example_batch :: settlement_batch where
  "example_batch = \<lparr>sb_id = Uuid 8, sb_tenant = Uuid 0, sb_provider = Uuid 6, sb_reference = ''SET-1'',
     sb_period_start = 0, sb_period_end = 5, sb_gross_amount = 30000, sb_platform_fee_total = 5000,
     sb_provider_fee_total = 0, sb_net_amount = 25000, sb_currency = ''TZS'', sb_status = SPending,
     sb_settlement_date = None, sb_external_settlement_reference = [], sb_notes = []\<rparr>"

definition example_settled_st :: settlement_st where
  "example_settled_st = example_settlement_st\<lparr>payments :=
     [settled_payment\<lparr>p_settlement_batch := Some (Uuid 8)\<rparr>], settlement_batches := [example_batch]\<rparr>"

lemma example_settled_books:
  "books (payments example_settled_st) example_settled_st"
  "batches (settle_view (payments example_settled_st)) example_settled_st"
  unfolding books_def
  by (rule books_atI)
     (auto simp: example_settled_st_def example_revenue_simps settled_payment_def example_payment_def
       once_def paid_def balanced_def progress_def leads_to_def owned_def example_entry_def booked_def fees_def
       batches_def batches_at_def settle_view_def totals_right_def batch_amounts_def example_batch_def)

theorem settlement_totals_kept_witness:
  "\<exists>u. u = settle example_env [MarkCompleted None (Uuid 8) (Some ''BANK-1''),
       PaymentRequest (RefundPayment None None (Uuid 5) True)] example_settled_st \<and>
     (\<exists>q \<in> set (payments u). p_id q = Uuid 5 \<and> p_settlement_batch q = Some (Uuid 8)) \<and>
     (\<forall>b \<in> set (settlement_batches u). sb_net_amount b = sb_gross_amount b - sb_platform_fee_total b)"
proof -
  have p: "settled_payment\<lparr>p_settlement_batch := Some (Uuid 8)\<rparr> \<in> set (payments example_settled_st)"
    by (simp add: example_settled_st_def)
  note kept = settlement_totals_kept [OF example_settled_books refl,
      of example_env "[MarkCompleted None (Uuid 8) (Some ''BANK-1''),
        PaymentRequest (RefundPayment None None (Uuid 5) True)]"]
  show ?thesis
    by (rule exI, rule conjI [OF refl], rule conjI)
       (use kept p in \<open>fastforce simp: settled_payment_def example_payment_def\<close>, use kept in \<open>simp add: Let_def\<close>)
qed

theorem settlement_batch_computed_witness:
  "wpx (generate_settlement_batch example_env None (Uuid 0) (Uuid 6) 0 5)
     (\<lambda>b t. sb_gross_amount b = 30000 \<and> sb_net_amount b = 25000 \<and> settlement_batches t = [b])
     (\<lambda>e t. settlement_batches t = []) example_settlement_st"
  by (rule wpx_mono [OF settlement_batch_computed [OF example_settlement_books refl]])
     (auto simp: settled_payment_def example_payment_def settleable_def)

end
