(* ===== verification/Reconciliation.thy ===== *)
theory Reconciliation
  imports Settlement
begin

text \<open>
  Reconciliation runs (\<open>apps/reconciliation/models.py\<close>, \<open>services.py\<close>, \<open>views.py\<close>): every unknown
  payment is queried, every settled one compared with the provider's view, and a difference opens
  an exception for a person. Loops run over the rows as they were read, newest first, as the
  tables keep them; notes are encrypted at rest and appear here in the clear.
\<close>

datatype run_status = RunRunning | RunCompleted

record reconciliation_run =
  rr_id :: uuid
  rr_tenant :: uuid
  rr_status :: run_status
  rr_triggered_by :: "uuid option"
  rr_started_at :: time
  rr_completed_at :: "time option"
  rr_total_checked :: nat
  rr_matched_count :: nat
  rr_exception_count :: nat
  rr_resolved_unknown_count :: nat

datatype exception_type = STUCK_UNKNOWN | STATUS_MISMATCH | MISSING_AT_PROVIDER

datatype exception_status = ExceptionOpen | ExceptionResolved

record reconciliation_exception =
  rx_id :: uuid
  rx_tenant :: uuid
  rx_run :: "uuid option"
  rx_payment :: uuid
  rx_exception_type :: exception_type
  rx_status :: exception_status
  rx_details :: json
  rx_resolved_at :: "time option"
  rx_resolved_by :: "uuid option"
  rx_resolution_notes :: string

record reconciliation_st = settlement_st +
  reconciliation_runs :: "reconciliation_run list"
  reconciliation_exceptions :: "reconciliation_exception list"

subsection \<open>Services\<close>

definition create_run :: "env \<Rightarrow> uuid \<Rightarrow> user option \<Rightarrow> ('z reconciliation_st_scheme, reconciliation_run) pm" where
  "create_run E tenant actor =
     mbind fresh_uuid (\<lambda>i. mbind (now E) (\<lambda>t.
     let run = \<lparr>rr_id = i, rr_tenant = tenant, rr_status = RunRunning,
                rr_triggered_by = map_option u_id actor, rr_started_at = t, rr_completed_at = None,
                rr_total_checked = 0, rr_matched_count = 0, rr_exception_count = 0,
                rr_resolved_unknown_count = 0\<rparr> in
     mseq (modify (\<lambda>s. s\<lparr>reconciliation_runs := run # reconciliation_runs s\<rparr>)) (ret run)))"

definition open_exception ::
  "reconciliation_run \<Rightarrow> uuid \<Rightarrow> payment \<Rightarrow> exception_type \<Rightarrow> json \<Rightarrow> ('z reconciliation_st_scheme, unit) pm" where
  "open_exception run tenant p ty details =
     mbind fresh_uuid (\<lambda>i. modify (\<lambda>s. s\<lparr>reconciliation_exceptions :=
       \<lparr>rx_id = i, rx_tenant = tenant, rx_run = Some (rr_id run), rx_payment = p_id p,
        rx_exception_type = ty, rx_status = ExceptionOpen, rx_details = details,
        rx_resolved_at = None, rx_resolved_by = None, rx_resolution_notes = []\<rparr>
       # reconciliation_exceptions s\<rparr>))"

text \<open>The loop of \<open>_resolve_unknown_payments\<close>; \<open>payment.status\<close> is read after the query.\<close>

primrec query_unknown ::
  "env \<Rightarrow> user option \<Rightarrow> uuid \<Rightarrow> reconciliation_run \<Rightarrow> payment list \<Rightarrow>
   ('z reconciliation_st_scheme, reconciliation_run) pm" where
  "query_unknown E actor tenant run [] = ret run"
| "query_unknown E actor tenant run (p # ps) =
     mbind (query_payment E actor p) (\<lambda>p1.
     let run1 = run\<lparr>rr_total_checked := Suc (rr_total_checked run)\<rparr> in
     if p_status p1 \<noteq> UNKNOWN
     then query_unknown E actor tenant
            (run1\<lparr>rr_resolved_unknown_count := Suc (rr_resolved_unknown_count run1)\<rparr>) ps
     else mseq (open_exception run1 tenant p STUCK_UNKNOWN
                  (JObj [(''note'', JStr ''Still UNKNOWN after querying the provider.'')]))
            (query_unknown E actor tenant
               (run1\<lparr>rr_exception_count := Suc (rr_exception_count run1)\<rparr>) ps))"

definition resolve_unknown_payments ::
  "env \<Rightarrow> user option \<Rightarrow> uuid \<Rightarrow> reconciliation_run \<Rightarrow> ('z reconciliation_st_scheme, reconciliation_run) pm" where
  "resolve_unknown_payments E actor tenant run =
     mbind (gets (\<lambda>s. filter (\<lambda>p. p_tenant p = tenant \<and> p_status p = UNKNOWN) (payments s))) (\<lambda>ps.
     mbind (query_unknown E actor tenant run ps) (\<lambda>run1.
     mseq (modify (\<lambda>s. s\<lparr>reconciliation_runs := row_update rr_id (rr_id run1)
             (\<lambda>r. r\<lparr>rr_total_checked := rr_total_checked run1,
                    rr_resolved_unknown_count := rr_resolved_unknown_count run1,
                    rr_exception_count := rr_exception_count run1\<rparr>) (reconciliation_runs s)\<rparr>))
       (ret run1)))"

text \<open>The loop of \<open>_check_settled_payments\<close>.\<close>

primrec check_each ::
  "env \<Rightarrow> uuid \<Rightarrow> reconciliation_run \<Rightarrow> payment list \<Rightarrow> ('z reconciliation_st_scheme, reconciliation_run) pm" where
  "check_each E tenant run [] = ret run"
| "check_each E tenant run (p # ps) =
     mbind (payment_provider_of p) (\<lambda>pr.
     mbind (lift_sum (get_adapter E pr)) (\<lambda>ad.
     mbind (ad_reconcile ad (p_provider_reference p)) (\<lambda>r.
     let run1 = run\<lparr>rr_total_checked := Suc (rr_total_checked run)\<rparr>;
         differs = run1\<lparr>rr_exception_count := Suc (rr_exception_count run1)\<rparr> in
     if pr_outcome r = OUnknown
     then mseq (open_exception run1 tenant p MISSING_AT_PROVIDER
                  (JObj [(''internal_status'', JStr (payment_status_value (p_status p)))]))
            (check_each E tenant differs ps)
     else if outcome_to_status (pr_outcome r) \<noteq> p_status p
     then mseq (open_exception run1 tenant p STATUS_MISMATCH
                  (JObj [(''internal_status'', JStr (payment_status_value (p_status p))),
                         (''provider_outcome'', JStr (outcome_value (pr_outcome r)))]))
            (check_each E tenant differs ps)
     else check_each E tenant (run1\<lparr>rr_matched_count := Suc (rr_matched_count run1)\<rparr>) ps)))"

definition checkable :: "uuid \<Rightarrow> payment \<Rightarrow> bool" where
  "checkable tenant p \<longleftrightarrow>
     p_tenant p = tenant \<and> p_status p \<in> {SUCCESSFUL, FAILED} \<and> p_provider_reference p \<noteq> []"

definition check_settled_payments ::
  "env \<Rightarrow> uuid \<Rightarrow> reconciliation_run \<Rightarrow> ('z reconciliation_st_scheme, reconciliation_run) pm" where
  "check_settled_payments E tenant run =
     mbind (gets (\<lambda>s. filter (checkable tenant) (payments s))) (\<lambda>ps.
     mbind (check_each E tenant run ps) (\<lambda>run1.
     mseq (modify (\<lambda>s. s\<lparr>reconciliation_runs := row_update rr_id (rr_id run1)
             (\<lambda>r. r\<lparr>rr_total_checked := rr_total_checked run1,
                    rr_matched_count := rr_matched_count run1,
                    rr_exception_count := rr_exception_count run1\<rparr>) (reconciliation_runs s)\<rparr>))
       (ret run1)))"

definition complete_run :: "env \<Rightarrow> reconciliation_run \<Rightarrow> ('z reconciliation_st_scheme, reconciliation_run) pm" where
  "complete_run E run =
     mbind (now E) (\<lambda>t.
     mseq (modify (\<lambda>s. s\<lparr>reconciliation_runs := row_update rr_id (rr_id run)
             (\<lambda>r. r\<lparr>rr_status := RunCompleted, rr_completed_at := Some t\<rparr>) (reconciliation_runs s)\<rparr>))
       (ret (run\<lparr>rr_status := RunCompleted, rr_completed_at := Some t\<rparr>)))"

definition run_reconciliation ::
  "env \<Rightarrow> uuid \<Rightarrow> user option \<Rightarrow> ('z reconciliation_st_scheme, reconciliation_run) pm" where
  "run_reconciliation E tenant actor =
     mbind (create_run E tenant actor) (\<lambda>run.
     mbind (resolve_unknown_payments E actor tenant run) (\<lambda>run1.
     mbind (check_settled_payments E tenant run1) (\<lambda>run2. complete_run E run2)))"

definition resolve_exception ::
  "env \<Rightarrow> user option \<Rightarrow> string \<Rightarrow> reconciliation_exception \<Rightarrow>
   ('z reconciliation_st_scheme, reconciliation_exception) pm" where
  "resolve_exception E actor notes x =
     mbind (now E) (\<lambda>t.
     let change = (\<lambda>r. r\<lparr>rx_status := ExceptionResolved, rx_resolved_at := Some t,
                         rx_resolved_by := map_option u_id actor, rx_resolution_notes := notes\<rparr>) in
     mseq (modify (\<lambda>s. s\<lparr>reconciliation_exceptions :=
             row_update rx_id (rx_id x) change (reconciliation_exceptions s)\<rparr>))
     (mseq (audit_event E ''reconciliation.exception_resolved'' actor (Some (rx_tenant x))
              (Some (MReconciliationException, rx_id x)))
       (ret (change x))))"

subsection \<open>Views\<close>

definition RECONCILIATION_CAN_MANAGE :: "tenant_role list" where
  "RECONCILIATION_CAN_MANAGE = [TENANT_ADMIN, FINANCE_MANAGER, RECONCILIATION_OFFICER]"

definition run_list :: "uuid option \<Rightarrow>
    ('z reconciliation_st_scheme, (reconciliation_run list \<times> reconciliation_exception list) option) pm" where
  "run_list tenant = (case tenant of None \<Rightarrow> ret None
     | Some tid \<Rightarrow> gets (\<lambda>s. Some (filter (\<lambda>r. rr_tenant r = tid) (reconciliation_runs s),
         filter (\<lambda>x. rx_tenant x = tid \<and> rx_status x = ExceptionOpen) (reconciliation_exceptions s))))"

definition run_detail :: "uuid option \<Rightarrow> uuid \<Rightarrow>
    ('z reconciliation_st_scheme, (reconciliation_run \<times> reconciliation_exception list) option) pm" where
  "run_detail tenant pk =
     (if tenant = None then ret None
      else mbind (require Http404 (\<lambda>s. List.find (\<lambda>r. rr_id r = pk \<and> Some (rr_tenant r) = tenant)
             (reconciliation_runs s))) (\<lambda>run.
           gets (\<lambda>s. Some (run, filter (\<lambda>x. rx_run x = Some (rr_id run)) (reconciliation_exceptions s)))))"

definition trigger_run ::
  "env \<Rightarrow> user option \<Rightarrow> uuid option \<Rightarrow> bool \<Rightarrow> ('z reconciliation_st_scheme, reconciliation_run option) pm" where
  "trigger_run E user tenant post = require_tenant_role RECONCILIATION_CAN_MANAGE user tenant
     (case tenant of
        Some tid \<Rightarrow> if post then mbind (run_reconciliation E tid user) (\<lambda>run. ret (Some run)) else ret None
      | None \<Rightarrow> ret None)"

definition resolve_exception_view ::
  "env \<Rightarrow> user option \<Rightarrow> uuid option \<Rightarrow> uuid \<Rightarrow> string option \<Rightarrow>
   ('z reconciliation_st_scheme, unit) pm" where
  "resolve_exception_view E user tenant pk notes =
     require_tenant_role RECONCILIATION_CAN_MANAGE user tenant
     (mbind (require Http404 (\<lambda>s. List.find (\<lambda>x. rx_id x = pk \<and> Some (rx_tenant x) = tenant)
         (reconciliation_exceptions s))) (\<lambda>x.
      case notes of None \<Rightarrow> ret ()
      | Some n \<Rightarrow> mseq (resolve_exception E user n x) (ret ())))"


subsection \<open>What the loops leave alone\<close>

abbreviation run_tables ::
  "'z reconciliation_st_scheme \<Rightarrow> reconciliation_run list \<times> reconciliation_exception list" where
  "run_tables s \<equiv> (reconciliation_runs s, reconciliation_exceptions s)"

lemma reconciliation_projections [simp]:
  "reconciliation_runs (audited r s) = reconciliation_runs s"
  "reconciliation_exceptions (audited r s) = reconciliation_exceptions s"
  by (simp_all add: audited_def)

interpretation run_postings: row_postings_frame "same run_tables"
  by unfold_locales (auto simp: same_def later_def)

interpretation reconciliation_frame: payment_core_frame "same run_tables"
  by unfold_locales (auto simp: same_def later_def)

text \<open>A query never changes the providers nor what they know.\<close>

interpretation provider_postings: row_postings_frame "same (\<lambda>s. (mock_transactions s, payment_providers s))"
  by unfold_locales (auto simp: same_def later_def)

interpretation provider_view: payment_effect_frame "same (\<lambda>s. (mock_transactions s, payment_providers s))"
  by unfold_locales (auto simp: same_def later_def)

lemma mock_reads:
  assumes "get_adapter E pr = Inr ad"
  shows "upholds (same (\<lambda>s. (mock_transactions s, payment_providers s))) (ad_query_payment ad r)"
    and "upholds (same f) (ad_reconcile ad r)"
  using assms
  by (auto simp: get_adapter_def mock_adapter_def mock_query_payment_def mock_reconcile_def same_def
      upholds_def mbind_def gets_def ret_def later_def split: if_splits option.splits)

lemma query_keeps_providers:
  "upholds (same (\<lambda>s. (mock_transactions s, payment_providers s))) (query_payment E actor p)"
  unfolding query_payment_def payment_provider_of_def
  by (intro provider_postings.combinator_rules provider_view.upholds_with_sum mock_reads(1) upholds_if
      provider_postings.upholds_modify provider_view.frame_payment_row provider_postings.upholds_audit
      provider_view.upholds_apply_outcome | assumption | simp add: identity_def)+

subsection \<open>Counts and exceptions\<close>

text \<open>The exceptions a run has opened, newest first.\<close>

definition opened :: "reconciliation_run \<Rightarrow> uuid \<Rightarrow> reconciliation_exception list \<Rightarrow> bool" where
  "opened run tenant xs \<longleftrightarrow> (\<forall>x \<in> set xs. rx_run x = Some (rr_id run) \<and> rx_tenant x = tenant \<and>
     rx_status x = ExceptionOpen)"

text \<open>The changes of the run's own row.\<close>

lemma row_update_front:
  assumes "\<And>r. r \<in> set tbl \<Longrightarrow> key r \<noteq> key x"
  shows "row_update key (key x) f (x # tbl) = f x # tbl"
proof -
  have "row_update key (key x) f tbl = tbl"
    using assms by (induction tbl) auto
  then show ?thesis
    by simp
qed

lemma wpx_complete_run:
  assumes "reconciliation_runs s = run # rest" and "\<And>r. r \<in> set rest \<Longrightarrow> rr_id r \<noteq> rr_id run"
  shows "succeeds (complete_run E run)
    (\<lambda>run1 t. \<exists>c n. run1 = run\<lparr>rr_status := RunCompleted, rr_completed_at := Some c\<rparr> \<and>
       t = s\<lparr>clock_reads := n, reconciliation_runs := run1 # rest\<rparr>) s"
  using row_update_front [where key = rr_id and x = run and tbl = rest, OF assms(2)]
  by (simp add: complete_run_def assms(1) del: row_update_Cons) blast

subsection \<open>What is reported\<close>

text \<open>What is wrong with a settled payment, from the provider's record of its reference.\<close>

definition difference :: "'z reconciliation_st_scheme \<Rightarrow> payment \<Rightarrow> exception_type option" where
  "difference s p =
     (case List.find (\<lambda>m. mt_provider_reference m = p_provider_reference p) (mock_transactions s) of
        None \<Rightarrow> Some MISSING_AT_PROVIDER
      | Some m \<Rightarrow> if mt_outcome m = OUnknown then Some MISSING_AT_PROVIDER
                  else if outcome_to_status (mt_outcome m) \<noteq> p_status p then Some STATUS_MISMATCH
                  else None)"

definition differences ::
  "'z reconciliation_st_scheme \<Rightarrow> payment list \<Rightarrow> (uuid \<times> exception_type) list" where
  "differences s ps = List.map_filter (\<lambda>p. map_option (Pair (p_id p)) (difference s p)) ps"

definition reported :: "reconciliation_exception list \<Rightarrow> (uuid \<times> exception_type) list" where
  "reported xs = map (\<lambda>x. (rx_payment x, rx_exception_type x)) (rev xs)"

lemma differences_simps [simp]:
  "differences s [] = []"
  "differences s (p # ps) = (case difference s p of None \<Rightarrow> differences s ps
     | Some ty \<Rightarrow> (p_id p, ty) # differences s ps)"
  "difference (s\<lparr>draws := d, reconciliation_exceptions := xs\<rparr>) = difference s"
  by (simp_all add: differences_def List.map_filter_simps difference_def fun_eq_iff split: option.split)

lemma differences_frame [simp]:
  "differences (s\<lparr>draws := d, reconciliation_exceptions := xs\<rparr>) ps = differences s ps"
  by (simp add: differences_def)

definition mock_provided :: "'z reconciliation_st_scheme \<Rightarrow> payment \<Rightarrow> bool" where
  "mock_provided s p \<longleftrightarrow>
     (case row_get pp_id (p_provider p) (payment_providers s) of None \<Rightarrow> False | Some pr \<Rightarrow> pp_code pr = ''mock'')"

text \<open>The run after the comparison of \<open>n\<close> payments of which \<open>d\<close> differ.\<close>

definition compared :: "nat \<Rightarrow> nat \<Rightarrow> reconciliation_run \<Rightarrow> reconciliation_run" where
  "compared n d run = run\<lparr>rr_total_checked := rr_total_checked run + n,
     rr_matched_count := rr_matched_count run + (n - d), rr_exception_count := rr_exception_count run + d\<rparr>"

lemma compared_zero [simp]: "compared 0 0 run = run"
  by (simp add: compared_def)

lemma compared_id [simp]: "rr_id (compared n d run) = rr_id run"
  by (simp add: compared_def)

lemma differences_le: "length (differences s ps) \<le> length ps"
  by (induction ps) (simp_all add: le_SucI split: option.split)

lemma compared_Suc:
  "d \<le> n \<Longrightarrow> compared n d (run\<lparr>rr_total_checked := Suc (rr_total_checked run), rr_matched_count := Suc (rr_matched_count run)\<rparr>) =
     compared (Suc n) d run"
  "compared n d (run\<lparr>rr_total_checked := Suc (rr_total_checked run), rr_exception_count := Suc (rr_exception_count run)\<rparr>) =
     compared (Suc n) (Suc d) run"
  by (simp_all add: compared_def Suc_diff_le)

lemma wpx_check_each_exact:
  assumes "\<And>p. p \<in> set ps \<Longrightarrow> mock_provided s p"
  shows "wpx (check_each E tenant run ps)
    (\<lambda>run' t. \<exists>xs n. t = s\<lparr>draws := n, reconciliation_exceptions := xs @ reconciliation_exceptions s\<rparr> \<and>
       reported xs = differences s ps \<and> opened run tenant xs \<and>
       run' = compared (length ps) (length (differences s ps)) run) (\<lambda>_ _. False) s"
  using assms
proof (induction ps arbitrary: run s)
  case (Cons p ps)
  obtain pr where pr: "row_get pp_id (p_provider p) (payment_providers s) = Some pr" "pp_code pr = ''mock''"
    using Cons.prems [of p] by (auto simp: mock_provided_def split: option.splits)
  let ?Q = "\<lambda>run' t. \<exists>xs n. t = s\<lparr>draws := n, reconciliation_exceptions := xs @ reconciliation_exceptions s\<rparr> \<and>
       reported xs = differences s (p # ps) \<and> opened run tenant xs \<and>
       run' = compared (Suc (length ps)) (length (differences s (p # ps))) run"
  let ?matched = "run\<lparr>rr_total_checked := Suc (rr_total_checked run), rr_matched_count := Suc (rr_matched_count run)\<rparr>"
  let ?differs = "run\<lparr>rr_total_checked := Suc (rr_total_checked run), rr_exception_count := Suc (rr_exception_count run)\<rparr>"
  have same: "wpx (check_each E tenant ?matched ps) ?Q (\<lambda>_ _. False) s" if "difference s p = None"
    by (rule wpx_mono [OF Cons.IH])
      (use Cons.prems that differences_le [of s ps] in \<open>auto simp: compared_Suc opened_def\<close>)
  have diff: "wpx (check_each E tenant ?differs ps) ?Q (\<lambda>_ _. False)
      (s\<lparr>draws := n, reconciliation_exceptions := x # reconciliation_exceptions s\<rparr>)"
    if found: "difference s p = Some (rx_exception_type x)" "rx_payment x = p_id p"
      "rx_run x = Some (rr_id run)" "rx_tenant x = tenant" "rx_status x = ExceptionOpen" for n x
  proof (rule wpx_mono [OF Cons.IH])
    let ?s = "s\<lparr>draws := n, reconciliation_exceptions := x # reconciliation_exceptions s\<rparr>"
    show "mock_provided ?s q" if "q \<in> set ps" for q
      using Cons.prems [of q] that by (simp add: mock_provided_def)
    show "?Q run' t" if known: "\<exists>xs m. t = ?s\<lparr>draws := m, reconciliation_exceptions := xs @ reconciliation_exceptions ?s\<rparr> \<and>
        reported xs = differences ?s ps \<and> opened ?differs tenant xs \<and>
        run' = compared (length ps) (length (differences ?s ps)) ?differs" for run' t
    proof -
      obtain xs m where t: "t = s\<lparr>draws := m, reconciliation_exceptions := (xs @ [x]) @ reconciliation_exceptions s\<rparr>"
          "reported xs = differences s ps" "opened ?differs tenant xs"
          and run': "run' = compared (length ps) (length (differences s ps)) ?differs"
        using known by auto
      have "reported (xs @ [x]) = differences s (p # ps)" "opened run tenant (xs @ [x])"
        using found t(2,3) by (auto simp: reported_def opened_def)
      moreover have "run' = compared (Suc (length ps)) (length (differences s (p # ps))) run"
        using found(1) by (simp add: run' compared_Suc)
      ultimately show ?thesis
        using t(1) by blast
    qed
  qed simp
  note read = payment_provider_of_def get_adapter_def mock_adapter_def mock_reconcile_def
    open_exception_def Let_def
  show ?case
  proof (cases "List.find (\<lambda>m. mt_provider_reference m = p_provider_reference p) (mock_transactions s)")
    case None
    then have "difference s p = Some MISSING_AT_PROVIDER"
      by (simp add: difference_def)
    then show ?thesis
      using pr None by (simp add: read del: ex_simps differences_simps(2) length_Cons) (rule diff, simp_all)
  next
    case (Some m)
    then have "difference s p = (if mt_outcome m = OUnknown then Some MISSING_AT_PROVIDER
        else if outcome_to_status (mt_outcome m) \<noteq> p_status p then Some STATUS_MISMATCH else None)"
      by (simp add: difference_def)
    then show ?thesis
      using pr Some by (auto simp: read simp del: ex_simps differences_simps(2) length_Cons split: if_splits intro!: same diff)
  qed
next
  case Nil
  show ?case
    unfolding check_each.simps wpx_ret
    by (rule exI [of _ "[]"], rule exI [of _ "draws s"]) (simp add: reported_def opened_def)
qed

text \<open>
  C11 (\<open>_check_settled_payments\<close>): the comparison with the provider's records opens exactly one
  exception for each settled payment whose outcome there is missing, unknown or different, in the
  order of the table, and none for any other; it never corrects anything: no payment, ledger entry,
  fee, bill or receipt changes.
\<close>

theorem settled_check_reports_only:
  assumes "\<And>p. p \<in> set (payments s) \<Longrightarrow> checkable tenant p \<Longrightarrow> mock_provided s p"
  shows "succeeds (check_settled_payments E tenant run)
    (\<lambda>run' t. (\<exists>xs. reconciliation_exceptions t = xs @ reconciliation_exceptions s \<and>
         reported xs = differences s (filter (checkable tenant) (payments s))) \<and>
       payments t = payments s \<and> ledger_entries t = ledger_entries s \<and>
       revenue_events t = revenue_events s \<and> bills t = bills s \<and> receipts t = receipts s) s"
  unfolding check_settled_payments_def wpx_mbind wpx_gets
  by (rule wpx_mono [OF wpx_check_each_exact]) (use assms in auto)

subsection \<open>A payment the provider still has as pending\<close>

lemma wpx_query_unknown_blocked:
  fixes s :: "'z reconciliation_st_scheme"
  assumes "p \<in> set ps" and "p_status p = UNKNOWN" and "mock_provided s p"
    and "List.find (\<lambda>m. mt_merchant_reference m = p_merchant_reference p) (mock_transactions s) = Some m"
    and "mt_outcome m = OPending"
  shows "wpx (query_unknown E actor tenant run ps) (\<lambda>_ _. False) (\<lambda>_ _. True) s"
  using assms
proof (induction ps arbitrary: run s)
  case (Cons q ps)
  show ?case
  proof (cases "q = p")
    case True
    obtain pr where pr: "row_get pp_id (p_provider p) (payment_providers s) = Some pr" "pp_code pr = ''mock''"
      using Cons.prems(3) by (auto simp: mock_provided_def split: option.splits)
    show ?thesis
      unfolding True query_unknown.simps wpx_mbind [of "query_payment E actor p"]
      by (rule wpx_mono [OF wpx_unknown_pending [OF Cons.prems(2) pr Cons.prems(4,5)]]) simp_all
  next
    case False
    have rest: "wpx (query_unknown E actor tenant run1 ps) (\<lambda>_ _. False) (\<lambda>_ _. True) t"
      if "mock_transactions t = mock_transactions s" "payment_providers t = payment_providers s"
      for run1 and t :: "'z reconciliation_st_scheme"
      by (rule Cons.IH) (use Cons.prems False that in \<open>simp_all add: mock_provided_def\<close>)
    have "wpx (query_payment E actor q) (\<lambda>_ t. mock_transactions t = mock_transactions s \<and>
        payment_providers t = payment_providers s) (\<lambda>_ _. True) s"
      by (rule wpx_mono [OF upholds_wpx [OF query_keeps_providers, where s = s]]) (simp_all add: same_def)
    then show ?thesis
      unfolding query_unknown.simps wpx_mbind [of "query_payment E actor q"]
      by (rule wpx_mono) (auto simp: Let_def open_exception_def intro!: rest)
  qed
qed simp

text \<open>
  C13 (\<open>run_reconciliation\<close>, \<open>query_payment\<close>): while one unknown payment of the tenant is still
  pending at the provider, every request for a reconciliation run fails: nothing is reconciled, no
  other unknown payment is resolved, and no run or exception is recorded.
\<close>

theorem pending_payment_blocks_reconciliation:
  assumes "p \<in> set (payments s)" and "p_tenant p = tenant" and "p_status p = UNKNOWN"
    and "mock_provided s p"
    and "List.find (\<lambda>m. mt_merchant_reference m = p_merchant_reference p) (mock_transactions s) = Some m"
    and "mt_outcome m = OPending"
  shows "wpx (request (run_reconciliation E tenant actor)) (\<lambda>_ _. False)
    (\<lambda>e t. payments t = payments s \<and> ledger_entries t = ledger_entries s \<and>
       reconciliation_runs t = reconciliation_runs s \<and>
       reconciliation_exceptions t = reconciliation_exceptions s \<and> audit_logs t = audit_logs s) s"
proof -
  have "wpx (query_unknown E actor tenant run (filter (\<lambda>p. p_tenant p = tenant \<and> p_status p = UNKNOWN) (payments s)))
      (\<lambda>_ _. False) (\<lambda>_ _. True) t"
    if "mock_transactions t = mock_transactions s" "payment_providers t = payment_providers s" for run t
    by (rule wpx_query_unknown_blocked) (use assms that in \<open>auto simp: mock_provided_def\<close>)
  note blocked = wpx_mono [OF this]
  show ?thesis
    unfolding run_reconciliation_def create_run_def resolve_unknown_payments_def
    by (simp add: wpx_eta Let_def, rule blocked) (simp_all add: rollback_def)
qed


subsection \<open>The books under reconciliation\<close>

interpretation payment_rows: row_postings_frame "same payments"
  by unfold_locales (auto simp: same_def later_def)

text \<open>Only the row of the payment itself is written.\<close>

lemma apply_outcome_own_row:
  assumes "i \<noteq> p_id p"
  shows "wpx (apply_outcome E actor p out) (\<lambda>_ t. row_get p_id i (payments t) = row_get p_id i (payments s))
    (\<lambda>_ _. True) s"
proof -
  have moved: "row_get p_id i (payments (after_move E new reason p s)) = row_get p_id i (payments s)" for new reason
    using assms by (auto simp: row_get_update_other)
  have effect: "wpx (mseq m (ret q)) (\<lambda>_ t. row_get p_id i (payments t) = row_get p_id i (payments s)) (\<lambda>_ _. True)
      (after_move E new reason p s)"
    if "upholds (same payments) m" for m q new reason
    unfolding wpx_mseq wpx_ret
    by (rule wpx_mono [OF upholds_wpx [OF that, where s = "after_move E new reason p s"]])
       (use moved in \<open>simp_all add: same_def\<close>)
  show ?thesis
    unfolding apply_outcome_def
    using effect [OF payment_rows.upholds_effects(1)] effect [OF payment_rows.upholds_effects(2)]
      effect [OF payment_rows.upholds_effects(3)] moved
    by (auto simp: Let_def wpx_eta simp del: after_move_simps)
qed


lemma upholds_lift_bind:
  "(\<And>e. upholds R (raise e :: ('s, 'b) pm)) \<Longrightarrow>
   (\<And>x. r = Inr x \<Longrightarrow> upholds R (f x)) \<Longrightarrow> upholds R (mbind (lift_sum r) f :: ('s, 'b) pm)"
  by (cases r) (simp_all add: upholds_def mbind_def lift_sum_def raise_def ret_def)

lemma query_own_row:
  fixes s :: "'z payment_st_scheme"
  assumes "i \<noteq> p_id p"
  shows "wpx (query_payment E actor p) (\<lambda>_ t. row_get p_id i (payments t) = row_get p_id i (payments s))
    (\<lambda>_ _. True) s"
proof -
  let ?Q = "\<lambda>(_ :: payment) (t :: 'z payment_st_scheme).
    row_get p_id i (payments t) = row_get p_id i (payments s)"
  have applied: "wpx (apply_outcome E actor q out) ?Q (\<lambda>_ _. True) t"
    if "p_id q = p_id p" "row_get p_id i (payments t) = row_get p_id i (payments s)"
    for q out and t :: "'z payment_st_scheme"
    unfolding that(2) [symmetric] by (rule apply_outcome_own_row) (simp add: assms that(1))
  have answered: "wpx (mbind (ad_query_payment ad r) f) ?Q (\<lambda>_ _. True) s"
    if "get_adapter E pr = Inr ad"
      "\<And>x t. payments t = payments s \<Longrightarrow> wpx (f x) ?Q (\<lambda>_ _. True) t" for pr ad r f
    unfolding wpx_mbind
    by (rule wpx_mono [OF upholds_wpx [OF adapter_books.upholds_adapter(2) [OF that(1)], where s = s]])
       (use that(2) in \<open>simp_all add: same_def book_rows_def\<close>)
  show ?thesis
    unfolding query_payment_def payment_provider_of_def using assms
    by (auto split: option.split sum.split simp del: wpx_mbind wpx_mseq
        simp: wpx_mbind [of "require e f" for e f] wpx_mbind [of "lift_sum r" for r] intro!: answered)
      (auto simp: row_get_update_other intro!: applied)
qed

text \<open>A query leaves the payment it answers as the stored row.\<close>

lemma apply_outcome_current:
  assumes "current p s"
  shows "wpx (apply_outcome E actor p out) (\<lambda>q t. p_id q = p_id p \<and> current q t) (\<lambda>_ _. True) s"
proof -
  have moved: "current (moved E new reason s p) (after_move E new reason p s)" for new reason
    using assms by (simp add: current_def row_get_update_same)
  have effect: "wpx (mseq m (ret (moved E new reason s p))) (\<lambda>q t. p_id q = p_id p \<and> current q t) (\<lambda>_ _. True)
      (after_move E new reason p s)"
    if "upholds (same payments) m" for m new reason
    unfolding wpx_mseq wpx_ret
    by (rule wpx_mono [OF upholds_wpx [OF that, where s = "after_move E new reason p s"]])
       (use moved [of new reason] in \<open>simp_all add: same_def current_def\<close>)
  show ?thesis
    unfolding apply_outcome_def
    using assms effect [OF payment_rows.upholds_effects(1)] effect [OF payment_rows.upholds_effects(2)]
      effect [OF payment_rows.upholds_effects(3)] moved
    by (auto simp: Let_def wpx_eta simp del: after_move_simps)
qed

lemma query_current:
  fixes s :: "'z payment_st_scheme"
  assumes "current p s"
  shows "wpx (query_payment E actor p) (\<lambda>q t. p_id q = p_id p \<and> current q t) (\<lambda>_ _. True) s"
proof -
  let ?Q = "\<lambda>q (t :: 'z payment_st_scheme). p_id q = p_id p \<and> current q t"
  have applied: "wpx (apply_outcome E actor q out) ?Q (\<lambda>_ _. True) t"
    if "p_id q = p_id p" "current q t" for q out and t :: "'z payment_st_scheme"
    by (rule wpx_mono [OF apply_outcome_current [OF that(2)]]) (simp_all add: that(1))
  have answered: "wpx (mbind (ad_query_payment ad r) f) ?Q (\<lambda>_ _. True) s"
    if "get_adapter E pr = Inr ad"
      "\<And>x t. payments t = payments s \<Longrightarrow> wpx (f x) ?Q (\<lambda>_ _. True) t" for pr ad r f
    unfolding wpx_mbind
    by (rule wpx_mono [OF upholds_wpx [OF adapter_books.upholds_adapter(2) [OF that(1)], where s = s]])
       (use that(2) in \<open>simp_all add: same_def book_rows_def\<close>)
  have row: "current p (audited r t)" if "payments t = payments s" for r and t :: "'z payment_st_scheme"
    using assms that by (simp add: current_def)
  have written: "current (p\<lparr>p_provider_reference := x\<rparr>) (audited r (t\<lparr>payments :=
      row_update p_id (p_id p) (\<lambda>q. q\<lparr>p_provider_reference := x\<rparr>) (payments s)\<rparr>))" for r t x
    using assms by (simp add: current_def row_get_update_same)
  show ?thesis
    unfolding query_payment_def payment_provider_of_def
    by (auto split: option.split sum.split simp del: wpx_mbind wpx_mseq
        simp: wpx_mbind [of "require e f" for e f] wpx_mbind [of "lift_sum r" for r] intro!: answered)
      (auto intro!: applied row written)
qed

text \<open>Whether the provider has a definite answer for a payment; if not, a query does not fail.\<close>

definition answered :: "'z provider_st_scheme \<Rightarrow> payment \<Rightarrow> bool" where
  "answered s p \<longleftrightarrow>
     (case List.find (\<lambda>m. mt_merchant_reference m = p_merchant_reference p) (mock_transactions s) of
        None \<Rightarrow> False | Some m \<Rightarrow> mt_outcome m \<noteq> OUnknown)"

lemma query_unanswered:
  assumes "mock_provided s p" and "p_status p = UNKNOWN" and "\<not> answered s p"
  shows "succeeds (query_payment E actor p) (\<lambda>_ _. True) s"
  using assms by (auto simp: mock_provided_def answered_def query_payment_def payment_provider_of_def get_adapter_def
      mock_adapter_def mock_query_payment_def apply_outcome_def Let_def wpx_eta split: option.splits)

lemma wpx_all: "(\<And>i. wpx m (\<lambda>x t. P i x t) (\<lambda>_ _. True) s) \<Longrightarrow> wpx m (\<lambda>x t. \<forall>i. P i x t) (\<lambda>_ _. True) s"
  by (cases "m s"; cases "fst (m s)") (auto simp: wpx_def)

lemma query_step:
  fixes s :: "'z reconciliation_st_scheme"
  assumes "current p s" and "mock_provided s p" and "p_status p = UNKNOWN"
  shows "wpx (query_payment E actor p) (\<lambda>q t. p_id q = p_id p \<and> current q t \<and>
      (\<forall>i. i \<noteq> p_id p \<longrightarrow> row_get p_id i (payments t) = row_get p_id i (payments s)) \<and>
      run_tables t = run_tables s \<and>
      (mock_transactions t, payment_providers t) = (mock_transactions s, payment_providers s) \<and>
      map identity (payments t) = map identity (payments s)) (\<lambda>_ _. answered s p) s"
proof -
  have own: "wpx (query_payment E actor p)
      (\<lambda>_ t. \<forall>i. i \<noteq> p_id p \<longrightarrow> row_get p_id i (payments t) = row_get p_id i (payments s)) (\<lambda>_ _. True) s"
  proof (rule wpx_all)
    fix i
    show "wpx (query_payment E actor p) (\<lambda>_ t. i \<noteq> p_id p \<longrightarrow>
        row_get p_id i (payments t) = row_get p_id i (payments s)) (\<lambda>_ _. True) s"
    proof (cases "i = p_id p")
      case False
      show ?thesis
        by (rule wpx_mono [OF query_own_row [OF False]]) simp_all
    qed simp
  qed
  have fine: "wpx (query_payment E actor p) (\<lambda>_ _. True) (\<lambda>_ _. answered s p) s"
  proof (cases "answered s p")
    case False
    show ?thesis
      by (rule wpx_mono [OF query_unanswered [OF assms(2,3) False]]) simp_all
  qed (rule wpx_mono [OF wpx_True]; simp)
  show ?thesis
    by (rule wpx_mono [OF wpx_conj [OF query_current [OF assms(1)] wpx_conj [OF own
          wpx_conj [OF upholds_wpx [OF reconciliation_frame.upholds_query]
            wpx_conj [OF upholds_wpx [OF query_keeps_providers] wpx_conj [OF upholds_wpx [OF payment_keys.upholds_query] fine]]]]]])
      (simp_all add: same_def)
qed

text \<open>The loop over the unknown payments: which stay unknown, what is counted and reported.\<close>

definition status_now :: "'z payment_st_scheme \<Rightarrow> payment \<Rightarrow> payment_status option" where
  "status_now t p = map_option p_status (row_get p_id (p_id p) (payments t))"

definition queried :: "nat \<Rightarrow> nat \<Rightarrow> reconciliation_run \<Rightarrow> reconciliation_run" where
  "queried n d run = run\<lparr>rr_total_checked := rr_total_checked run + n,
     rr_exception_count := rr_exception_count run + d,
     rr_resolved_unknown_count := rr_resolved_unknown_count run + (n - d)\<rparr>"

lemma queried_Suc:
  "d \<le> n \<Longrightarrow> queried n d (run\<lparr>rr_total_checked := Suc (rr_total_checked run),
     rr_resolved_unknown_count := Suc (rr_resolved_unknown_count run)\<rparr>) = queried (Suc n) d run"
  "queried n d (run\<lparr>rr_total_checked := Suc (rr_total_checked run), rr_exception_count := Suc (rr_exception_count run)\<rparr>) =
     queried (Suc n) (Suc d) run"
  by (simp_all add: queried_def Suc_diff_le)

definition still_unknown :: "'z payment_st_scheme \<Rightarrow> payment list \<Rightarrow> payment list" where
  "still_unknown t ps = filter (\<lambda>p. status_now t p = Some UNKNOWN) ps"

definition unknowns_queried ::
  "uuid \<Rightarrow> payment list \<Rightarrow> reconciliation_run \<Rightarrow> 'z reconciliation_st_scheme \<Rightarrow> reconciliation_run \<Rightarrow>
   'z reconciliation_st_scheme \<Rightarrow> bool" where
  "unknowns_queried tenant ps run s run' t \<longleftrightarrow>
     run' = queried (length ps) (length (still_unknown t ps)) run \<and>
     (\<exists>xs. reconciliation_exceptions t = xs @ reconciliation_exceptions s \<and> opened run tenant xs \<and>
        reported xs = map (\<lambda>p. (p_id p, STUCK_UNKNOWN)) (still_unknown t ps)) \<and>
     reconciliation_runs t = reconciliation_runs s \<and>
     (mock_transactions t, payment_providers t) = (mock_transactions s, payment_providers s) \<and>
     map identity (payments t) = map identity (payments s) \<and>
     (\<forall>i. i \<notin> p_id ` set ps \<longrightarrow> row_get p_id i (payments t) = row_get p_id i (payments s))"

lemma wpx_query_unknown:
  fixes s :: "'z reconciliation_st_scheme"
  assumes "distinct (map p_id ps)" and "\<And>p. p \<in> set ps \<Longrightarrow> current p s \<and> mock_provided s p \<and> p_status p = UNKNOWN"
  shows "wpx (query_unknown E actor tenant run ps) (unknowns_queried tenant ps run s) (\<lambda>_ _. \<exists>p \<in> set ps. answered s p) s"
  using assms
proof (induction ps arbitrary: run s)
  case (Cons p ps)
  let ?X = "\<lambda>_ _. answered s p \<or> (\<exists>q \<in> set ps. answered s q)"
  have rest: "wpx (query_unknown E actor tenant run1 ps) (unknowns_queried tenant (p # ps) run s) ?X t"
    if q: "p_id q = p_id p" "row_get p_id (p_id p) (payments t) = Some q"
      and same: "\<And>i. i \<noteq> p_id p \<Longrightarrow> row_get p_id i (payments t) = row_get p_id i (payments s)"
        "(mock_transactions t, payment_providers t) = (mock_transactions s, payment_providers s)"
        "map identity (payments t) = map identity (payments s)" "reconciliation_runs t = reconciliation_runs s"
      and one: "if p_status q = UNKNOWN
        then run1 = run\<lparr>rr_total_checked := Suc (rr_total_checked run), rr_exception_count := Suc (rr_exception_count run)\<rparr> \<and>
          (\<exists>x. reconciliation_exceptions t = x # reconciliation_exceptions s \<and> opened run tenant [x] \<and>
             reported [x] = [(p_id p, STUCK_UNKNOWN)])
        else run1 = run\<lparr>rr_total_checked := Suc (rr_total_checked run),
            rr_resolved_unknown_count := Suc (rr_resolved_unknown_count run)\<rparr> \<and>
          reconciliation_exceptions t = reconciliation_exceptions s"
    for run1 q and t :: "'z reconciliation_st_scheme"
  proof (rule wpx_mono [OF Cons.IH])
    show "distinct (map p_id ps)"
      using Cons.prems(1) by simp
    show "current r t \<and> mock_provided t r \<and> p_status r = UNKNOWN" if "r \<in> set ps" for r
    proof -
      have "p_id r \<noteq> p_id p"
        using Cons.prems(1) imageI [OF that, of p_id] by auto
      then show ?thesis
        using Cons.prems(2) [of r] that same(1,2) by (simp add: current_def mock_provided_def)
    qed
    show "?X e u" if "\<exists>r \<in> set ps. answered t r" for e u
      using that same(2) by (simp add: answered_def)
  next
    fix run' u
    assume u: "unknowns_queried tenant ps run1 t run' u"
    then obtain xs where xs: "reconciliation_exceptions u = xs @ reconciliation_exceptions t" "opened run1 tenant xs"
        "reported xs = map (\<lambda>p. (p_id p, STUCK_UNKNOWN)) (still_unknown u ps)"
      by (auto simp: unknowns_queried_def)
    have "row_get p_id (p_id p) (payments u) = Some q"
      using u q Cons.prems(1) by (auto simp: unknowns_queried_def current_def)
    then have stuck: "still_unknown u (p # ps) = (if p_status q = UNKNOWN then [p] else []) @ still_unknown u ps"
      by (simp add: still_unknown_def status_now_def)
    have le: "length (still_unknown u ps) \<le> length ps"
      by (simp add: still_unknown_def)
    have run': "run' = queried (length (p # ps)) (length (still_unknown u (p # ps))) run"
      using u one le by (auto simp: unknowns_queried_def stuck queried_Suc split: if_splits)
    have "\<exists>ys. reconciliation_exceptions u = ys @ reconciliation_exceptions s \<and> opened run tenant ys \<and>
        reported ys = map (\<lambda>p. (p_id p, STUCK_UNKNOWN)) (still_unknown u (p # ps))"
    proof (cases "p_status q = UNKNOWN")
      case True
      with one obtain x where x: "reconciliation_exceptions t = x # reconciliation_exceptions s" "opened run tenant [x]"
          "reported [x] = [(p_id p, STUCK_UNKNOWN)]" "rr_id run1 = rr_id run"
        by auto
      have "reconciliation_exceptions u = (xs @ [x]) @ reconciliation_exceptions s" "opened run tenant (xs @ [x])"
          "reported (xs @ [x]) = map (\<lambda>p. (p_id p, STUCK_UNKNOWN)) (still_unknown u (p # ps))"
        using xs x True by (auto simp: stuck opened_def reported_def)
      then show ?thesis
        by blast
    next
      case False
      with one xs show ?thesis
        by (intro exI [of _ xs]) (auto simp: stuck opened_def)
    qed
    then show "unknowns_queried tenant (p # ps) run s run' u"
      using u run' same unfolding unknowns_queried_def by auto
  qed
  have "wpx (query_unknown E actor tenant run (p # ps)) (unknowns_queried tenant (p # ps) run s) ?X s"
    unfolding query_unknown.simps wpx_mbind [of "query_payment E actor p"]
  proof (rule wpx_mono [OF query_step])
    show "current p s" "mock_provided s p" "p_status p = UNKNOWN"
      using Cons.prems(2) by simp_all
  next
    fix q and t :: "'z reconciliation_st_scheme"
    assume t: "p_id q = p_id p \<and> current q t \<and>
      (\<forall>i. i \<noteq> p_id p \<longrightarrow> row_get p_id i (payments t) = row_get p_id i (payments s)) \<and>
      run_tables t = run_tables s \<and>
      (mock_transactions t, payment_providers t) = (mock_transactions s, payment_providers s) \<and>
      map identity (payments t) = map identity (payments s)"
    show "wpx (let run1 = run\<lparr>rr_total_checked := Suc (rr_total_checked run)\<rparr> in
         if p_status q \<noteq> UNKNOWN
         then query_unknown E actor tenant
                (run1\<lparr>rr_resolved_unknown_count := Suc (rr_resolved_unknown_count run1)\<rparr>) ps
         else mseq (open_exception run1 tenant p STUCK_UNKNOWN
                      (JObj [(''note'', JStr ''Still UNKNOWN after querying the provider.'')]))
                (query_unknown E actor tenant
                   (run1\<lparr>rr_exception_count := Suc (rr_exception_count run1)\<rparr>) ps))
        (unknowns_queried tenant (p # ps) run s) ?X t"
      using t by (auto simp: Let_def open_exception_def current_def opened_def reported_def intro!: rest [of q])
  qed simp
  then show ?case
    by simp
qed (simp add: unknowns_queried_def still_unknown_def queried_def opened_def reported_def)

text \<open>The two halves of a run, with the row of the run saved.\<close>

lemma wpx_resolve_unknown:
  fixes s :: "'z reconciliation_st_scheme"
  assumes "reconciliation_runs s = run # rest" and "\<And>r. r \<in> set rest \<Longrightarrow> rr_id r \<noteq> rr_id run"
    and "distinct (map p_id (payments s))" and "\<And>p. p \<in> set (payments s) \<Longrightarrow> p_tenant p = tenant \<Longrightarrow> mock_provided s p"
  shows "wpx (resolve_unknown_payments E actor tenant run)
    (\<lambda>run1 t. \<exists>u. unknowns_queried tenant (filter (\<lambda>p. p_tenant p = tenant \<and> p_status p = UNKNOWN) (payments s)) run s run1 u \<and>
       t = u\<lparr>reconciliation_runs := run1 # rest\<rparr>)
    (\<lambda>_ _. \<exists>p \<in> set (payments s). p_tenant p = tenant \<and> p_status p = UNKNOWN \<and> answered s p) s"
proof -
  let ?ps = "filter (\<lambda>p. p_tenant p = tenant \<and> p_status p = UNKNOWN) (payments s)"
  have "current p s \<and> mock_provided s p \<and> p_status p = UNKNOWN" if "p \<in> set ?ps" for p
    using that assms(3,4) by (auto simp: current_def row_get_distinct)
  moreover have "distinct (map p_id ?ps)"
    by (rule distinct_map_filter [OF assms(3)])
  ultimately have loop: "wpx (query_unknown E actor tenant run ?ps) (unknowns_queried tenant ?ps run s)
      (\<lambda>_ _. \<exists>p \<in> set ?ps. answered s p) s"
    by (intro wpx_query_unknown) blast+
  have saved: "row_update rr_id (rr_id run1) (\<lambda>r. r\<lparr>rr_total_checked := rr_total_checked run1,
      rr_resolved_unknown_count := rr_resolved_unknown_count run1,
      rr_exception_count := rr_exception_count run1\<rparr>) (run # rest) = run1 # rest"
    if "run1 = queried n d run" for run1 n d
    using row_update_front [where key = rr_id and x = run and tbl = rest, OF assms(2)] that
    by (simp add: queried_def del: row_update_Cons)
  show ?thesis
    unfolding resolve_unknown_payments_def wpx_mbind wpx_gets
    by (rule wpx_mono [OF loop])
      (auto simp: unknowns_queried_def assms(1) saved simp del: row_update_Cons)
qed

lemma wpx_check_settled:
  fixes s :: "'z reconciliation_st_scheme"
  assumes "reconciliation_runs s = run # rest" and "\<And>r. r \<in> set rest \<Longrightarrow> rr_id r \<noteq> rr_id run"
    and "\<And>p. p \<in> set (payments s) \<Longrightarrow> p_tenant p = tenant \<Longrightarrow> mock_provided s p"
  shows "succeeds (check_settled_payments E tenant run)
    (\<lambda>run2 t. let ps = filter (checkable tenant) (payments s) in
       (\<exists>xs n. t = s\<lparr>draws := n, reconciliation_exceptions := xs @ reconciliation_exceptions s, reconciliation_runs := run2 # rest\<rparr> \<and>
          reported xs = differences s ps \<and> opened run tenant xs \<and>
          run2 = compared (length ps) (length (differences s ps)) run)) s"
proof -
  have saved: "row_update rr_id (rr_id run1) (\<lambda>r. r\<lparr>rr_total_checked := rr_total_checked run1,
      rr_matched_count := rr_matched_count run1,
      rr_exception_count := rr_exception_count run1\<rparr>) (run # rest) = run1 # rest"
    if "run1 = compared n d run" for run1 n d
    using row_update_front [where key = rr_id and x = run and tbl = rest, OF assms(2)] that
    by (simp add: compared_def del: row_update_Cons)
  have provided: "mock_provided s p" if "p \<in> set (filter (checkable tenant) (payments s))" for p
    using that assms(3) by (auto simp: checkable_def)
  show ?thesis
    unfolding check_settled_payments_def wpx_mbind wpx_gets Let_def
  proof (rule wpx_mono [OF wpx_check_each_exact [OF provided]], goal_cases)
    case (2 run2 t)
    then obtain xs n where t: "t = s\<lparr>draws := n, reconciliation_exceptions := xs @ reconciliation_exceptions s\<rparr>"
        "reported xs = differences s (filter (checkable tenant) (payments s))" "opened run tenant xs"
        "run2 = compared (length (filter (checkable tenant) (payments s)))
           (length (differences s (filter (checkable tenant) (payments s)))) run"
      by blast
    have "rr_id run2 = rr_id run" "reconciliation_runs t = run # rest"
      by (simp_all add: t(1,4) assms(1))
    then show ?case
      using saved [OF t(4)] t by (simp del: row_update_Cons) blast
  qed (assumption | simp)+
qed

text \<open>
  C12 (\<open>run_reconciliation\<close>): a run that finishes is completed, recorded in front of the earlier
  runs, and counts exactly. It queried every unknown payment of the institution: those whose row is
  no longer unknown are counted as resolved, the others have an open \<open>STUCK_UNKNOWN\<close> exception each.
  It compared every settled payment that carries a provider reference with the provider's records:
  those that agree are counted as matched, and each whose outcome there is missing, unknown or
  different has one open exception of that type. These are all the exceptions it opened, in that
  order, they belong to the run and its institution, and no earlier run or exception is touched.
  A run can only break off when the provider has a definite answer for an unknown payment, whose
  application may raise.
\<close>

theorem reconciliation_run_counts:
  fixes s :: "'z reconciliation_st_scheme"
  assumes "\<And>r. r \<in> set (reconciliation_runs s) \<Longrightarrow> used (draws s) (rr_id r)"
    and "distinct (map p_id (payments s))"
    and "\<And>p. p \<in> set (payments s) \<Longrightarrow> p_tenant p = tenant \<Longrightarrow> mock_provided s p"
  shows "wpx (run_reconciliation E tenant actor)
    (\<lambda>run t. let unknown = filter (\<lambda>p. p_tenant p = tenant \<and> p_status p = UNKNOWN) (payments s);
         stuck = filter (\<lambda>p. status_now t p = Some UNKNOWN) unknown;
         settled = filter (checkable tenant) (payments t);
         wrong = differences t settled in
       rr_status run = RunCompleted \<and> rr_tenant run = tenant \<and>
       reconciliation_runs t = run # reconciliation_runs s \<and>
       rr_total_checked run = length unknown + length settled \<and>
       rr_resolved_unknown_count run = length unknown - length stuck \<and>
       rr_matched_count run = length settled - length wrong \<and>
       rr_exception_count run = length stuck + length wrong \<and>
       (\<exists>xs. reconciliation_exceptions t = xs @ reconciliation_exceptions s \<and> opened run tenant xs \<and>
          reported xs = map (\<lambda>p. (p_id p, STUCK_UNKNOWN)) stuck @ wrong))
    (\<lambda>_ _. \<exists>p \<in> set (payments s). p_tenant p = tenant \<and> p_status p = UNKNOWN \<and> answered s p) s"
    (is "wpx _ ?Q ?X s")
proof -
  let ?rest = "reconciliation_runs s"
  let ?unknown = "filter (\<lambda>p. p_tenant p = tenant \<and> p_status p = UNKNOWN) (payments s)"
  define run0 where "run0 = \<lparr>rr_id = Uuid (draws s), rr_tenant = tenant, rr_status = RunRunning,
      rr_triggered_by = map_option u_id actor, rr_started_at = e_now E (clock_reads s),
      rr_completed_at = None, rr_total_checked = 0, rr_matched_count = 0, rr_exception_count = 0,
      rr_resolved_unknown_count = 0\<rparr>"
  define s1 where "s1 = s\<lparr>draws := Suc (draws s), clock_reads := Suc (clock_reads s),
      reconciliation_runs := run0 # ?rest\<rparr>"
  have s1: "rr_id run0 = Uuid (draws s)" "reconciliation_runs s1 = run0 # ?rest" "payments s1 = payments s"
      "reconciliation_exceptions s1 = reconciliation_exceptions s" "mock_provided s1 = mock_provided s"
      "answered s1 = answered s"
    by (simp_all add: run0_def s1_def mock_provided_def answered_def fun_eq_iff)
  have other: "rr_id r \<noteq> rr_id run" if "r \<in> set ?rest" "rr_id run = rr_id run0" for r run
    using assms(1) [OF that(1)] that(2) s1(1) by auto
  have finished: "wpx (complete_run E run2) ?Q ?X t"
    if first: "unknowns_queried tenant ?unknown run0 s1 run1 u" and second: "let ps = filter (checkable tenant) (payments v) in
       (\<exists>xs n. t = v\<lparr>draws := n, reconciliation_exceptions := xs @ reconciliation_exceptions v, reconciliation_runs := run2 # ?rest\<rparr> \<and>
          reported xs = differences v ps \<and> opened run1 tenant xs \<and>
          run2 = compared (length ps) (length (differences v ps)) run1)"
      and v: "v = u\<lparr>reconciliation_runs := run1 # ?rest\<rparr>"
    for run1 run2 and u v t :: "'z reconciliation_st_scheme"
  proof -
    let ?ps = "filter (checkable tenant) (payments v)" and ?stuck = "still_unknown u ?unknown"
    obtain xs n where t: "t = v\<lparr>draws := n, reconciliation_exceptions := xs @ reconciliation_exceptions v, reconciliation_runs := run2 # ?rest\<rparr>"
        "reported xs = differences v ?ps" "opened run1 tenant xs" "run2 = compared (length ?ps) (length (differences v ?ps)) run1"
      using second unfolding Let_def by blast
    obtain ys where ys: "reconciliation_exceptions u = ys @ reconciliation_exceptions s" "opened run0 tenant ys"
        "reported ys = map (\<lambda>p. (p_id p, STUCK_UNKNOWN)) ?stuck"
        and run1: "run1 = queried (length ?unknown) (length ?stuck) run0"
      using first by (auto simp: unknowns_queried_def s1)
    have ids: "rr_id run1 = rr_id run0" "rr_id run2 = rr_id run0"
      by (simp_all add: run1 t(4) queried_def compared_def)
    have runs: "reconciliation_runs t = run2 # ?rest"
      by (simp add: t(1))
    have same: "differences t = differences v" "payments t = payments v" "status_now t = status_now u"
      by (simp_all add: t(1) v differences_def difference_def status_now_def fun_eq_iff)
    have rows: "reconciliation_exceptions t = (xs @ ys) @ reconciliation_exceptions s" "opened run0 tenant (xs @ ys)"
        "reported (xs @ ys) = map (\<lambda>p. (p_id p, STUCK_UNKNOWN)) ?stuck @ differences v ?ps"
      using t(2,3) ys by (auto simp: t(1) v opened_def reported_def ids)
    have le: "length ?stuck \<le> length ?unknown"
      unfolding still_unknown_def by (rule length_filter_le)
    show ?thesis
    proof (rule wpx_mono [OF wpx_complete_run [OF runs other [OF _ ids(2)]]], assumption)
      fix run and v' :: "'z reconciliation_st_scheme"
      assume "\<exists>c n. run = run2\<lparr>rr_status := RunCompleted, rr_completed_at := Some c\<rparr> \<and>
        v' = t\<lparr>clock_reads := n, reconciliation_runs := run # ?rest\<rparr>"
      then obtain c n where run: "run = run2\<lparr>rr_status := RunCompleted, rr_completed_at := Some c\<rparr>"
          "v' = t\<lparr>clock_reads := n, reconciliation_runs := run # ?rest\<rparr>"
        by blast
      have v': "payments v' = payments v" "differences v' = differences v" "status_now v' = status_now u"
          "reconciliation_exceptions v' = (xs @ ys) @ reconciliation_exceptions s" "reconciliation_runs v' = run # ?rest"
        using same rows(1) by (simp_all add: run(2) differences_def difference_def status_now_def fun_eq_iff)
      have id: "rr_id run = rr_id run0"
        by (simp add: run(1) ids)
      have counts: "rr_status run = RunCompleted" "rr_tenant run = tenant"
          "rr_total_checked run = length ?unknown + length ?ps"
          "rr_resolved_unknown_count run = length ?unknown - length ?stuck"
          "rr_matched_count run = length ?ps - length (differences v ?ps)"
          "rr_exception_count run = length ?stuck + length (differences v ?ps)"
        by (simp_all add: run(1) t(4) run1 compared_def queried_def run0_def)
      have opened: "opened run tenant (xs @ ys)"
        using rows(2) by (simp add: opened_def id)
      have stuck: "filter (\<lambda>p. status_now u p = Some UNKNOWN) ?unknown = ?stuck"
        by (simp only: still_unknown_def)
      show "?Q run v'"
        unfolding Let_def v' stuck by (intro conjI counts refl exI [of _ "xs @ ys"] opened rows(3))
    qed simp
  qed
  have "wpx (mbind (check_settled_payments E tenant run1) (complete_run E)) ?Q ?X v"
    if first: "unknowns_queried tenant ?unknown run0 s1 run1 u" and v: "v = u\<lparr>reconciliation_runs := run1 # ?rest\<rparr>"
    for run1 and u v :: "'z reconciliation_st_scheme"
  proof -
    have id: "rr_id run1 = rr_id run0"
      using first by (simp add: unknowns_queried_def queried_def)
    have same: "map identity (payments v) = map identity (payments s)" "payment_providers v = payment_providers s"
      using first s1(3) by (simp_all add: unknowns_queried_def v s1_def)
    have provided: "mock_provided v p" if "p \<in> set (payments v)" "p_tenant p = tenant" for p
    proof -
      from that(1) same(1) obtain q where "q \<in> set (payments s)" "identity p = identity q"
        by (metis (no_types, lifting) image_iff image_set)
      then show ?thesis
        using assms(3) [of q] that(2) same(2) by (simp add: identity_def mock_provided_def)
    qed
    show ?thesis
      unfolding wpx_mbind
      by (rule wpx_mono [OF wpx_check_settled [OF _ other [OF _ id] provided]])
        (use finished [OF first _ v] in \<open>simp_all add: v\<close>)
  qed
  note second = this
  have "wpx (mbind (resolve_unknown_payments E actor tenant run0) (\<lambda>run1.
      mbind (check_settled_payments E tenant run1) (complete_run E))) ?Q ?X s1"
    unfolding wpx_mbind [of "resolve_unknown_payments E actor tenant run0"]
    by (rule wpx_mono [OF wpx_resolve_unknown [OF s1(2) other [OF _ refl]]])
      (use assms(2,3) second s1 in auto)
  then show ?thesis
    by (simp add: run_reconciliation_def create_run_def Let_def s1_def run0_def)
qed

lemma query_unknown_keeps_books:
  assumes "books old s" and "distinct (map p_id ps)" and "\<And>p. p \<in> set ps \<Longrightarrow> current p s"
  shows "keeps_books old (query_unknown E actor tenant run ps) s"
  using assms
proof (induction ps arbitrary: run s)
  case (Cons p ps)
  have rest: "keeps_books old (query_unknown E actor tenant run1 ps) t"
    if "books old t" "\<And>q. q \<in> set ps \<Longrightarrow> row_get p_id (p_id q) (payments t) = row_get p_id (p_id q) (payments s)"
    for run1 and t :: "'a reconciliation_st_scheme"
    by (rule Cons.IH) (use Cons.prems that in \<open>auto simp: current_def\<close>)
  have "wpx (query_payment E actor p) (\<lambda>_ t. \<forall>q \<in> set qs. row_get p_id (p_id q) (payments t) =
      row_get p_id (p_id q) (payments s)) (\<lambda>_ _. True) s" if "p_id p \<notin> p_id ` set qs" for qs
    using that
  proof (induction qs)
    case (Cons q qs)
    have "p_id q \<noteq> p_id p"
      using Cons.prems by auto
    then show ?case
      using wpx_conj [OF query_own_row [of "p_id q" p E actor s] Cons.IH] Cons.prems by simp
  qed simp
  note others = this [of ps]
  have "wpx (query_payment E actor p) (\<lambda>_ t. books old t \<and> (\<forall>q \<in> set ps. row_get p_id (p_id q) (payments t) =
      row_get p_id (p_id q) (payments s))) (\<lambda>_. books old) s"
    by (rule wpx_mono [OF wpx_conj [OF query_keeps_books [OF Cons.prems(1)] others]])
       (use Cons.prems(2,3) in simp_all)
  then show ?case
    unfolding query_unknown.simps wpx_mbind [of "query_payment E actor p"]
    by (rule wpx_mono)
       (auto simp: Let_def open_exception_def books_def intro!: rest intro: books_mono [OF _ le_SucI [OF le_refl]])
qed simp

lemma reconciliation_keeps_books:
  fixes s :: "'z reconciliation_st_scheme"
  assumes "books old s"
  shows "keeps_books old (run_reconciliation E tenant actor) s"
proof -
  have each: "upholds (same book_rows) (check_each E tenant run ps)" for run ps
  proof (induction ps arbitrary: run)
    case (Cons p ps)
    have opened: "upholds (same book_rows) (open_exception run1 tenant p ty details)" for run1 ty details
      unfolding open_exception_def
      by (intro adapter_books.combinator_rules adapter_books.upholds_modify)
         (simp add: same_def book_rows_def later_def)
    show ?case
      unfolding check_each.simps payment_provider_of_def Let_def
      by (rule adapter_books.upholds_mbind [OF adapter_books.upholds_require])
         (rule upholds_lift_bind [OF adapter_books.upholds_raise],
          rule adapter_books.upholds_mbind [OF mock_reads(2)], assumption,
          intro upholds_if adapter_books.upholds_mseq opened Cons.IH)
  qed (simp add: adapter_books.combinator_rules)
  have checked: "keeps_books old (mbind (check_settled_payments E tenant run) (complete_run E)) t"
    if "books old t" for run and t :: "'z reconciliation_st_scheme"
    by (rule same_keeps_books [OF _ that])
       (auto simp: check_settled_payments_def complete_run_def book_rows_def same_def [of book_rows] later_def
         intro!: adapter_books.combinator_rules each adapter_books.upholds_modify)
  have resolved: "keeps_books old (resolve_unknown_payments E actor tenant run) t"
    if "books old t" for run and t :: "'z reconciliation_st_scheme"
  proof -
    have "keeps_books old (query_unknown E actor tenant run (filter P (payments t))) t" for P
      by (rule query_unknown_keeps_books [OF that])
         (use that in \<open>auto intro: books_member simp: books_def distinct_map_filter dest: books_atD(1)\<close>)
    then show ?thesis
      unfolding resolve_unknown_payments_def wpx_mbind wpx_gets
      by (rule wpx_mono) (auto simp: books_def)
  qed
  have created: "keeps_books old (create_run E tenant actor) s"
    using assms by (auto simp: create_run_def Let_def books_def intro: books_mono [OF _ le_SucI [OF le_refl]])
  show ?thesis
    unfolding run_reconciliation_def wpx_mbind [of "create_run E tenant actor"]
  proof (rule wpx_mono [OF created])
    show "keeps_books old (mbind (resolve_unknown_payments E actor tenant run) (\<lambda>run1.
        mbind (check_settled_payments E tenant run1) (complete_run E))) t" if "books old t"
      for run and t :: "'z reconciliation_st_scheme"
      unfolding wpx_mbind [of "resolve_unknown_payments E actor tenant run"]
      by (rule wpx_mono [OF resolved [OF that]]) (use checked in simp_all)
  qed
qed


text \<open>A relation that allows payments and the rows of a run allows a reconciliation.\<close>

locale run_frame = payment_core_frame R
  for R :: "'z reconciliation_st_scheme \<Rightarrow> 'z reconciliation_st_scheme \<Rightarrow> bool" +
  assumes frame_runs: "R s (s\<lparr>reconciliation_runs := rs\<rparr>)"
    and frame_exceptions: "R s (s\<lparr>reconciliation_exceptions := xs\<rparr>)"
begin

lemma upholds_open_exception: "upholds R (open_exception run tenant p ty details)"
  unfolding open_exception_def by (intro combinator_rules upholds_modify frame_exceptions)

lemma upholds_query_unknown: "upholds R (query_unknown E actor tenant run ps)"
  by (induction ps arbitrary: run)
     (auto simp: Let_def intro!: combinator_rules upholds_query upholds_open_exception)

lemma upholds_check_each: "upholds R (check_each E tenant run ps)"
proof (induction ps arbitrary: run)
  case (Cons p ps)
  show ?case
    unfolding check_each.simps payment_provider_of_def Let_def
    by (rule upholds_mbind [OF upholds_require], rule upholds_lift_bind [OF upholds_raise],
        rule upholds_mbind [OF upholds_adapter(6)], assumption,
        intro upholds_if upholds_mseq upholds_open_exception Cons.IH)
qed (simp add: combinator_rules)

lemma upholds_reconciliation: "upholds R (run_reconciliation E tenant actor)"
  unfolding run_reconciliation_def create_run_def resolve_unknown_payments_def
    check_settled_payments_def complete_run_def Let_def
  by (intro combinator_rules upholds_modify frame_runs upholds_query_unknown upholds_check_each)

lemma upholds_reconciliation_views:
  "upholds R (trigger_run E user tenant post)" "upholds R (resolve_exception_view E user tenant pk notes)"
  unfolding trigger_run_def resolve_exception_view_def resolve_exception_def require_tenant_role_def Let_def
  by (intro combinator_rules upholds_if upholds_case_option upholds_modify frame_exceptions
      upholds_audit1 upholds_reconciliation)+

end

interpretation run_news: run_frame unsettled_news
  by unfold_locales (auto simp: later_def intro!: news_same)

interpretation run_logs: run_frame logs_grow
  by unfold_locales (auto simp: logs_grow_def later_def)

lemma reconciliation_keeps_settled:
  "settled old vold s \<Longrightarrow> keeps_settled old vold (run_reconciliation E tenant actor) s"
  by (rule settled_frame [OF run_news.upholds_reconciliation _ reconciliation_keeps_books]) (simp_all add: settled_def)

subsection \<open>Examples\<close>

definition reconciled_st :: "payment list \<Rightarrow> mock_transaction list \<Rightarrow> reconciliation_run list \<Rightarrow> reconciliation_st" where
  "reconciled_st ps ms runs = settlement_st.extend
     (payment_st.extend ((open_st ps)\<lparr>mock_transactions := ms\<rparr>) (settlement_st.fields []))
     (reconciliation_st.fields runs [])"

lemma reconciled_st_simps [simp]:
  "payments (reconciled_st ps ms runs) = ps" "mock_transactions (reconciled_st ps ms runs) = ms"
  "reconciliation_runs (reconciled_st ps ms runs) = runs" "draws (reconciled_st ps ms runs) = 9"
  "reconciliation_exceptions (reconciled_st ps ms runs) = []"
  "payment_providers (reconciled_st ps ms runs) = [example_provider]"
  by (simp_all add: reconciled_st_def open_st_def example_payment_st_def example_provider_st_def
      example_cn_st_def example_revenue_st_def example_billing_st_def payment_st.defs provider_st.defs
      control_number_st.defs revenue_st.defs ledger_st.defs billing_st.defs settlement_st.defs
      reconciliation_st.defs)

definition example_run :: reconciliation_run where
  "example_run = \<lparr>rr_id = Uuid 2, rr_tenant = Uuid 0, rr_status = RunCompleted, rr_triggered_by = None,
     rr_started_at = 0, rr_completed_at = Some 1, rr_total_checked = 0, rr_matched_count = 0,
     rr_exception_count = 0, rr_resolved_unknown_count = 0\<rparr>"

definition pending_transaction :: mock_transaction where
  "pending_transaction = \<lparr>mt_merchant_reference = ''PAY-1'', mt_provider_reference = ''X'', mt_outcome = OPending\<rparr>"

theorem reconciliation_run_counts_witness:
  "succeeds (run_reconciliation example_env (Uuid 0) None)
     (\<lambda>run t. rr_status run = RunCompleted \<and> 1 \<le> rr_total_checked run \<and> reconciliation_runs t = [run, example_run])
     (reconciled_st [example_unknown, example_payment] [pending_transaction\<lparr>mt_merchant_reference := ''PAY-9''\<rparr>] [example_run])"
  by (rule wpx_mono [OF reconciliation_run_counts])
    (auto simp: example_run_def mock_provided_def example_payment_def example_unknown_def example_provider_def
       answered_def pending_transaction_def Let_def)

theorem settled_check_reports_only_witness:
  "succeeds (check_settled_payments example_env (Uuid 0) example_run)
     (\<lambda>_ t. (\<exists>xs. reconciliation_exceptions t = xs \<and> reported xs = [(Uuid 5, STATUS_MISMATCH)]) \<and>
        payments t = [example_payment])
     (reconciled_st [example_payment] [pending_transaction] [example_run])"
  by (rule wpx_mono [OF settled_check_reports_only])
     (auto simp: mock_provided_def example_payment_def example_provider_def checkable_def
       difference_def pending_transaction_def)

theorem pending_payment_blocks_reconciliation_witness:
  "wpx (request (run_reconciliation example_env (Uuid 0) None)) (\<lambda>_ _. False)
     (\<lambda>e t. payments t = [example_unknown, example_payment] \<and> reconciliation_runs t = [])
     (reconciled_st [example_unknown, example_payment] [pending_transaction] [])"
  by (rule wpx_mono [OF pending_payment_blocks_reconciliation [where p = example_unknown and
          m = pending_transaction]])
     (auto simp: mock_provided_def example_provider_def pending_transaction_def)

end
