(* ===== verification/ApiKeys.thy ===== *)
theory ApiKeys
  imports Reconciliation
begin

text \<open>
  API credentials (\<open>apps/api\<close>: \<open>models.py\<close>, \<open>credential_services.py\<close>, \<open>authentication.py\<close>,
  \<open>permissions.py\<close>, \<open>throttling.py\<close>, \<open>portal_views.py\<close>). The random texts and Django's password
  hasher are parameters: \<open>kh_key\<close> and \<open>kh_secret\<close> give the texts of a draw, \<open>kh_hash\<close> salts with a
  draw, \<open>kh_check\<close> is \<open>check_password\<close>.
\<close>

record key_hasher =
  kh_key :: "nat \<Rightarrow> string"
  kh_secret :: "nat \<Rightarrow> string"
  kh_hash :: "nat \<Rightarrow> string \<Rightarrow> string"
  kh_check :: "string \<Rightarrow> string \<Rightarrow> bool"

record api_credential =
  ak_id :: uuid
  ak_tenant :: uuid
  ak_key_id :: string
  ak_secret_hash :: string
  ak_name :: string
  ak_is_active :: bool
  ak_created_by :: "uuid option"
  ak_last_used_at :: "time option"
  ak_revoked_at :: "time option"

record api_st = reconciliation_st +
  api_credentials :: "api_credential list"

definition generate_key_id :: "key_hasher \<Rightarrow> nat \<Rightarrow> string" where
  "generate_key_id H n = ''kusanya_'' @ kh_key H n"

definition set_secret :: "key_hasher \<Rightarrow> nat \<Rightarrow> string \<Rightarrow> api_credential \<Rightarrow> api_credential" where
  "set_secret H salt raw c = c\<lparr>ak_secret_hash := kh_hash H salt raw\<rparr>"

definition check_secret :: "key_hasher \<Rightarrow> string \<Rightarrow> api_credential \<Rightarrow> bool" where
  "check_secret H raw c = kh_check H raw (ak_secret_hash c)"

definition update_credential ::
  "uuid \<Rightarrow> (api_credential \<Rightarrow> api_credential) \<Rightarrow> ('z api_st_scheme, unit) pm" where
  "update_credential i f = modify (\<lambda>s. s\<lparr>api_credentials := row_update ak_id i f (api_credentials s)\<rparr>)"

definition mark_used :: "env \<Rightarrow> api_credential \<Rightarrow> ('z api_st_scheme, unit) pm" where
  "mark_used E c = mbind (now E) (\<lambda>t. update_credential (ak_id c) (\<lambda>r. r\<lparr>ak_last_used_at := Some t\<rparr>))"

subsection \<open>Lifecycle\<close>

definition key_metadata :: "api_credential \<Rightarrow> json" where
  "key_metadata c = JObj [(''key_id'', JStr (ak_key_id c))]"

definition insert_credential :: "api_credential \<Rightarrow> ('z api_st_scheme, unit) pm" where
  "insert_credential c =
     mbind (gets (\<lambda>s. \<exists>r \<in> set (api_credentials s). ak_key_id r = ak_key_id c)) (\<lambda>taken.
       if taken then integrity_error ''api_apicredential_key_id_key''
       else modify (\<lambda>s. s\<lparr>api_credentials := c # api_credentials s\<rparr>))"

definition create_credential ::
  "env \<Rightarrow> key_hasher \<Rightarrow> user option \<Rightarrow> uuid \<Rightarrow> string \<Rightarrow> ('z api_st_scheme, api_credential \<times> string) pm" where
  "create_credential E H actor tenant name =
     mbind draw (\<lambda>k. let raw = kh_secret H k in
     mbind fresh_uuid (\<lambda>i. mbind draw (\<lambda>kid. mbind draw (\<lambda>salt.
     let c = set_secret H salt raw \<lparr>ak_id = i, ak_tenant = tenant, ak_key_id = generate_key_id H kid,
               ak_secret_hash = [], ak_name = name, ak_is_active = True,
               ak_created_by = map_option u_id actor, ak_last_used_at = None, ak_revoked_at = None\<rparr> in
     mseq (insert_credential c)
     (mseq (record_audit_event E ''api_credential.created'' actor (Some tenant)
              (Some (MApiCredential, i)) None None (key_metadata c))
       (ret (c, raw)))))))"

definition rotate_credential ::
  "env \<Rightarrow> key_hasher \<Rightarrow> user option \<Rightarrow> api_credential \<Rightarrow> ('z api_st_scheme, string) pm" where
  "rotate_credential E H actor c =
     mbind draw (\<lambda>k. let raw = kh_secret H k in
     mbind draw (\<lambda>salt.
     mseq (update_credential (ak_id c) (set_secret H salt raw))
     (mseq (record_audit_event E ''api_credential.rotated'' actor (Some (ak_tenant c))
              (Some (MApiCredential, ak_id c)) None None (key_metadata c))
       (ret raw))))"

definition revoke_credential ::
  "env \<Rightarrow> user option \<Rightarrow> api_credential \<Rightarrow> ('z api_st_scheme, unit) pm" where
  "revoke_credential E actor c =
     mbind (now E) (\<lambda>t.
     mseq (update_credential (ak_id c) (\<lambda>r. r\<lparr>ak_is_active := False, ak_revoked_at := Some t\<rparr>))
     (mseq (record_audit_event E ''api_credential.revoked'' actor (Some (ak_tenant c))
              (Some (MApiCredential, ak_id c)) None None (key_metadata c))
       (ret ())))"

subsection \<open>The portal pages\<close>

definition KEYS_CAN_MANAGE :: "tenant_role list" where
  "KEYS_CAN_MANAGE = [TENANT_ADMIN]"

datatype key_page = KeyList "api_credential list" | KeyForm | SecretShown api_credential string | RedirectKeyList

definition tenant_credential :: "uuid \<Rightarrow> uuid option \<Rightarrow> ('z api_st_scheme, api_credential) pm" where
  "tenant_credential pk tenant =
     require Http404 (\<lambda>s. List.find (\<lambda>c. ak_id c = pk \<and> Some (ak_tenant c) = tenant) (api_credentials s))"

definition credential_list :: "user option \<Rightarrow> uuid option \<Rightarrow> ('z api_st_scheme, key_page) pm" where
  "credential_list user tenant = require_tenant_role KEYS_CAN_MANAGE user tenant
     (mbind (gets (\<lambda>s. filter (\<lambda>c. Some (ak_tenant c) = tenant) (api_credentials s))) (\<lambda>cs. ret (KeyList cs)))"

text \<open>\<open>ApiCredentialForm\<close>: a name of 1 to 150 characters, stripped.\<close>

definition credential_form :: "string option \<Rightarrow> string option" where
  "credential_form post = (case post of None \<Rightarrow> None
     | Some name \<Rightarrow> if py_strip name = [] \<or> 150 < length (py_strip name) then None else Some (py_strip name))"

definition credential_create ::
  "env \<Rightarrow> key_hasher \<Rightarrow> user option \<Rightarrow> uuid option \<Rightarrow> string option \<Rightarrow> ('z api_st_scheme, key_page) pm" where
  "credential_create E H user tenant post = require_tenant_role KEYS_CAN_MANAGE user tenant
     (case (credential_form post, tenant) of
        (Some name, Some tid) \<Rightarrow>
          mbind (create_credential E H user tid name) (\<lambda>(c, raw). ret (SecretShown c raw))
      | _ \<Rightarrow> ret KeyForm)"

definition credential_rotate ::
  "env \<Rightarrow> key_hasher \<Rightarrow> user option \<Rightarrow> uuid option \<Rightarrow> uuid \<Rightarrow> bool \<Rightarrow> ('z api_st_scheme, key_page) pm" where
  "credential_rotate E H user tenant pk post = require_tenant_role KEYS_CAN_MANAGE user tenant
     (mbind (tenant_credential pk tenant) (\<lambda>c.
        if post then mbind (rotate_credential E H user c) (\<lambda>raw. ret (SecretShown c raw))
        else ret RedirectKeyList))"

definition credential_revoke ::
  "env \<Rightarrow> user option \<Rightarrow> uuid option \<Rightarrow> uuid \<Rightarrow> bool \<Rightarrow> ('z api_st_scheme, key_page) pm" where
  "credential_revoke E user tenant pk post = require_tenant_role KEYS_CAN_MANAGE user tenant
     (mbind (tenant_credential pk tenant) (\<lambda>c.
        mseq (mwhen post (revoke_credential E user c)) (ret RedirectKeyList)))"

subsection \<open>Authentication\<close>

definition BEARER :: string where
  "BEARER = ''Bearer ''"

text \<open>\<open>str.partition(".")\<close>.\<close>

definition partition_dot :: "string \<Rightarrow> string \<times> string" where
  "partition_dot t = (takeWhile (\<lambda>c. c \<noteq> CHR ''.'') t, drop 1 (dropWhile (\<lambda>c. c \<noteq> CHR ''.'') t))"

definition tenant_is_active :: "uuid \<Rightarrow> 'z api_st_scheme \<Rightarrow> bool" where
  "tenant_is_active tid s = (case row_get t_id tid (tenants s) of Some t \<Rightarrow> t_status t = TenantActive | None \<Rightarrow> False)"

text \<open>\<open>authenticate\<close>: \<open>None\<close> where the header is not of this scheme.\<close>

definition authenticate ::
  "env \<Rightarrow> key_hasher \<Rightarrow> string \<Rightarrow> ('z api_st_scheme, api_credential option) pm" where
  "authenticate E H header =
     (if \<not> prefix BEARER header then ret None
      else let token = py_strip (drop (length BEARER) header) in
        if CHR ''.'' \<notin> set token then raise (AuthenticationFailed ''Malformed API credential.'')
        else let (key_id, raw) = partition_dot token in
          mbind (gets (\<lambda>s. row_get ak_key_id key_id (api_credentials s))) (\<lambda>found.
          case found of
            None \<Rightarrow> raise (AuthenticationFailed ''Invalid API credential.'')
          | Some c \<Rightarrow>
              if \<not> ak_is_active c then raise (AuthenticationFailed ''This API credential has been revoked.'')
              else if \<not> check_secret H raw c then raise (AuthenticationFailed ''Invalid API credential.'')
              else mbind (gets (tenant_is_active (ak_tenant c))) (\<lambda>ok.
                if \<not> ok then raise (AuthenticationFailed ''This institution is not active.'')
                else mseq (mark_used E c) (ret (Some c)))))"

definition has_api_credential :: "api_credential option \<Rightarrow> bool" where
  "has_api_credential c = (c \<noteq> None)"

text \<open>\<open>ApiCredentialRateThrottle.get_cache_key\<close>; the counting is the framework's.\<close>

definition throttle_cache_key :: "api_credential option \<Rightarrow> string option" where
  "throttle_cache_key c = (case c of None \<Rightarrow> None
     | Some r \<Rightarrow> Some (''throttle_api_credential_'' @ ak_key_id r))"

end
