(* ===== verification/ApiSerializers.thy ===== *)
theory ApiSerializers
  imports ApiKeys Totp
begin

text \<open>
  The serializers of the API (\<open>apps/api/serializers.py\<close>): the shape of every answer, and the
  validation of every request body. Fields come from the framework: what a field accepts is
  written out, while parsing of decimals, dates and ids, and the checks of email and web
  addresses are the parameter \<open>field_parsers\<close>. The answers leave \<open>created_at\<close> out, which the
  tables keep as their order.
\<close>

subsection \<open>Answers\<close>

definition opt_json :: "('a \<Rightarrow> json) \<Rightarrow> 'a option \<Rightarrow> json" where
  "opt_json f x = (case x of None \<Rightarrow> JNull | Some y \<Rightarrow> f y)"

definition uuid_json :: "env \<Rightarrow> uuid \<Rightarrow> json" where
  "uuid_json E i = JStr (e_str_uuid E i)"

definition time_json :: "env \<Rightarrow> time \<Rightarrow> json" where
  "time_json E t = JStr (e_isoformat E t)"

definition money_json :: "env \<Rightarrow> money \<Rightarrow> json" where
  "money_json E m = JStr (e_str_dec E m)"

fun scope_value :: "control_number_scope \<Rightarrow> string" where
  "scope_value ONE_TIME = ''one_time''"
| "scope_value PERSISTENT = ''persistent''"

fun cn_status_value :: "control_number_status \<Rightarrow> string" where
  "cn_status_value CnActive = ''active''"
| "cn_status_value CnExpired = ''expired''"
| "cn_status_value CnCancelled = ''cancelled''"

fun run_status_value :: "run_status \<Rightarrow> string" where
  "run_status_value RunRunning = ''running''"
| "run_status_value RunCompleted = ''completed''"

fun settlement_status_value :: "settlement_status \<Rightarrow> string" where
  "settlement_status_value SPending = ''pending''"
| "settlement_status_value SCompleted = ''completed''"
| "settlement_status_value SException = ''exception''"

fun notification_status_value :: "notification_status \<Rightarrow> string" where
  "notification_status_value NPending = ''pending''"
| "notification_status_value NSent = ''sent''"
| "notification_status_value NFailed = ''failed''"

fun event_type_value :: "notification_event \<Rightarrow> string" where
  "event_type_value BILL_CREATED = ''bill_created''"
| "event_type_value CONTROL_NUMBER_GENERATED = ''control_number_generated''"
| "event_type_value PAYMENT_PENDING = ''payment_pending''"
| "event_type_value PAYMENT_SUCCESSFUL = ''payment_successful''"
| "event_type_value PAYMENT_FAILED = ''payment_failed''"
| "event_type_value PAYMENT_PARTIAL = ''payment_partial''"
| "event_type_value BILL_FULLY_PAID = ''bill_fully_paid''"
| "event_type_value BALANCE_REMINDER = ''balance_reminder''"
| "event_type_value PAYMENT_REVERSED = ''payment_reversed''"
| "event_type_value PAYMENT_REFUNDED = ''payment_refunded''"

definition institution_data :: "env \<Rightarrow> tenant \<Rightarrow> json" where
  "institution_data E t = JObj [(''id'', uuid_json E (t_id t)), (''name'', JStr (t_name t)),
     (''sector'', JStr (sector_value (t_sector t))), (''status'', JStr (tenant_status_value (t_status t))),
     (''default_currency'', JStr (t_default_currency t))]"

definition customer_data :: "env \<Rightarrow> customer \<Rightarrow> json" where
  "customer_data E c = JObj [(''id'', uuid_json E (c_id c)), (''full_name'', JStr (c_full_name c)),
     (''email'', JStr (c_email c)), (''phone_number'', JStr (c_phone_number c)),
     (''external_reference'', JStr (c_external_reference c)), (''is_active'', JBool (c_is_active c))]"

definition account_data :: "env \<Rightarrow> customer_account \<Rightarrow> json" where
  "account_data E a = JObj [(''id'', uuid_json E (ca_id a)), (''customer'', uuid_json E (ca_customer a)),
     (''name'', JStr (ca_name a)), (''external_reference'', JStr (ca_external_reference a)),
     (''is_active'', JBool (ca_is_active a))]"

definition bill_item_data :: "env \<Rightarrow> bill_item \<Rightarrow> json" where
  "bill_item_data E i = JObj [(''description'', JStr (bi_description i)),
     (''quantity'', money_json E (bi_quantity i)), (''unit_amount'', money_json E (bi_unit_amount i)),
     (''line_total'', money_json E (bi_line_total i))]"

definition control_number_data :: "env \<Rightarrow> control_number \<Rightarrow> json" where
  "control_number_data E cn = JObj [(''id'', uuid_json E (cn_id cn)), (''value'', JStr (cn_value cn)),
     (''scope'', JStr (scope_value (cn_scope cn))), (''status'', JStr (cn_status_value (cn_status cn))),
     (''expires_at'', opt_json (time_json E) (cn_expires_at cn))]"

text \<open>
  A bill with its items, oldest first, its balance, and the control number issued for it; a
  one-to-one relation that has no row leaves the field out.
\<close>

definition bill_data :: "env \<Rightarrow> 'z reconciliation_st_scheme \<Rightarrow> bill \<Rightarrow> json" where
  "bill_data E s b = JObj
     ([(''id'', uuid_json E (b_id b)), (''bill_number'', JStr (b_bill_number b)),
       (''status'', JStr (bill_status_value (b_status b))), (''currency'', JStr (b_currency b)),
       (''total_amount'', money_json E (b_total_amount b)),
       (''amount_paid'', money_json E (amount_paid s (b_id b))), (''balance'', money_json E (balance s b)),
       (''due_date'', opt_json (time_json E) (b_due_date b)),
       (''external_reference'', JStr (b_external_reference b)),
       (''items'', JList (map (bill_item_data E) (rev (filter (\<lambda>i. bi_bill i = b_id b) (bill_items s)))))]
      @ (case find_control_number (OwnerBill (b_id b)) s of None \<Rightarrow> []
         | Some cn \<Rightarrow> [(''control_number'', control_number_data E cn)]))"

definition payment_bill_number :: "'z reconciliation_st_scheme \<Rightarrow> payment \<Rightarrow> string option" where
  "payment_bill_number s p =
     Option.bind (row_get cn_id (p_control_number p) (control_numbers s)) (\<lambda>cn.
     Option.bind (cn_bill cn) (\<lambda>i. map_option b_bill_number (row_get b_id i (bills s))))"

definition payment_data :: "env \<Rightarrow> 'z reconciliation_st_scheme \<Rightarrow> payment \<Rightarrow> json" where
  "payment_data E s p = JObj [(''id'', uuid_json E (p_id p)),
     (''merchant_reference'', JStr (p_merchant_reference p)),
     (''provider_reference'', JStr (p_provider_reference p)),
     (''status'', JStr (payment_status_value (p_status p))), (''amount'', money_json E (p_amount p)),
     (''currency'', JStr (p_currency p)),
     (''control_number'', opt_json (\<lambda>cn. JStr (cn_value cn))
        (row_get cn_id (p_control_number p) (control_numbers s))),
     (''bill_number'', opt_json JStr (payment_bill_number s p)),
     (''payer_reference'', JStr (p_payer_reference p)),
     (''initiated_at'', time_json E (p_initiated_at p)),
     (''completed_at'', opt_json (time_json E) (p_completed_at p)),
     (''failure_reason'', JStr (p_failure_reason p))]"

definition run_data :: "env \<Rightarrow> reconciliation_run \<Rightarrow> json" where
  "run_data E r = JObj [(''id'', uuid_json E (rr_id r)), (''status'', JStr (run_status_value (rr_status r))),
     (''started_at'', time_json E (rr_started_at r)),
     (''completed_at'', opt_json (time_json E) (rr_completed_at r)),
     (''total_checked'', JInt (int (rr_total_checked r))), (''matched_count'', JInt (int (rr_matched_count r))),
     (''exception_count'', JInt (int (rr_exception_count r))),
     (''resolved_unknown_count'', JInt (int (rr_resolved_unknown_count r)))]"

definition batch_data :: "env \<Rightarrow> settlement_batch \<Rightarrow> json" where
  "batch_data E b = JObj [(''id'', uuid_json E (sb_id b)), (''reference'', JStr (sb_reference b)),
     (''period_start'', time_json E (sb_period_start b)), (''period_end'', time_json E (sb_period_end b)),
     (''gross_amount'', money_json E (sb_gross_amount b)),
     (''platform_fee_total'', money_json E (sb_platform_fee_total b)),
     (''provider_fee_total'', money_json E (sb_provider_fee_total b)),
     (''net_amount'', money_json E (sb_net_amount b)), (''currency'', JStr (sb_currency b)),
     (''status'', JStr (settlement_status_value (sb_status b))),
     (''settlement_date'', opt_json (time_json E) (sb_settlement_date b)),
     (''external_settlement_reference'', JStr (sb_external_settlement_reference b))]"

definition endpoint_fields :: "env \<Rightarrow> webhook_endpoint \<Rightarrow> (string \<times> json) list" where
  "endpoint_fields E ep = [(''id'', uuid_json E (we_id ep)), (''url'', JStr (we_url ep)),
     (''description'', JStr (we_description ep)), (''is_active'', JBool (we_is_active ep)),
     (''subscribed_events'', JList (map JStr (we_subscribed_events ep)))]"

definition notification_data :: "env \<Rightarrow> notification \<Rightarrow> json" where
  "notification_data E n = JObj [(''id'', uuid_json E (n_id n)),
     (''event_type'', JStr (event_type_value (n_event_type n))), (''channel'', JStr (channel_value (n_channel n))),
     (''recipient'', JStr (n_recipient n)), (''status'', JStr (notification_status_value (n_status n))),
     (''sent_at'', opt_json (time_json E) (n_sent_at n))]"

subsection \<open>Fields\<close>

record field_parsers =
  fp_uuid :: "string \<Rightarrow> uuid option"
  fp_decimal :: "json \<Rightarrow> decimal option"
  fp_date :: "json \<Rightarrow> time option"
  fp_is_email :: "string \<Rightarrow> bool"
  fp_is_url :: "string \<Rightarrow> bool"
  fp_page :: "string \<Rightarrow> nat option"

type_synonym body = "(string \<times> json) list"

text \<open>A validated value or the names of the fields that failed; \<open>also_field\<close> collects both.\<close>

type_synonym 'a validated = "string list + 'a"

definition also_field :: "'a validated \<Rightarrow> 'b validated \<Rightarrow> ('a \<times> 'b) validated" where
  "also_field x y = (case (x, y) of
     (Inr a, Inr b) \<Rightarrow> Inr (a, b)
   | (Inr a, Inl f) \<Rightarrow> Inl f
   | (Inl e, Inr b) \<Rightarrow> Inl e
   | (Inl e, Inl f) \<Rightarrow> Inl (e @ f))"

definition map_field :: "('a \<Rightarrow> 'b) \<Rightarrow> 'a validated \<Rightarrow> 'b validated" where
  "map_field f x = (case x of Inl e \<Rightarrow> Inl e | Inr a \<Rightarrow> Inr (f a))"

text \<open>A field of a body: the default if it is missing, an error if there is none.\<close>

definition field :: "string \<Rightarrow> 'a option \<Rightarrow> (json \<Rightarrow> 'a option) \<Rightarrow> body \<Rightarrow> 'a validated" where
  "field name dflt accept data =
     (case (case map_of data name of None \<Rightarrow> dflt | Some v \<Rightarrow> accept v) of
        None \<Rightarrow> Inl [name] | Some a \<Rightarrow> Inr a)"

fun json_text :: "json \<Rightarrow> string option" where
  "json_text (JStr t) = Some t"
| "json_text (JInt i) = Some ((if i < 0 then ''-'' else []) @ nat_str (nat \<bar>i\<bar>))"
| "json_text _ = None"

text \<open>\<open>CharField\<close>: text or a number, stripped, without null characters, of limited length.\<close>

definition char_value :: "nat option \<Rightarrow> bool \<Rightarrow> (string \<Rightarrow> bool) \<Rightarrow> json \<Rightarrow> string option" where
  "char_value max_length allow_blank valid v =
     (case json_text v of None \<Rightarrow> None
      | Some raw \<Rightarrow> let t = py_strip raw in
          if t = [] then (if allow_blank then Some [] else None)
          else if (case max_length of None \<Rightarrow> False | Some n \<Rightarrow> n < length t) then None
          else if char_of (0 :: nat) \<in> set t \<or> \<not> valid t then None else Some t)"

text \<open>\<open>DecimalField\<close>: \<open>validate_precision\<close> and rounding to the places, then the least value.\<close>

definition digit_count :: "decimal \<Rightarrow> nat" where
  "digit_count d = length (nat_str (nat \<bar>coeff d\<bar>))"

definition within_precision :: "nat \<Rightarrow> nat \<Rightarrow> decimal \<Rightarrow> bool" where
  "within_precision digits places d =
     (let n = digit_count d; e = nat \<bar>expo d\<bar>;
          (sum, whole, decimals) =
            (if 0 \<le> expo d then (n + e, n + e, 0)
             else if e < n then (n, n - e, e) else (e, 0, e))
      in sum \<le> digits \<and> decimals \<le> places \<and> whole \<le> digits - places)"

definition decimal_value :: "field_parsers \<Rightarrow> nat \<Rightarrow> int option \<Rightarrow> json \<Rightarrow> decimal option" where
  "decimal_value F digits least v =
     (case fp_decimal F v of None \<Rightarrow> None
      | Some d \<Rightarrow> if \<not> within_precision digits 2 d then None
                  else let q = to_hundredths d in
          if (case least of None \<Rightarrow> False | Some m \<Rightarrow> q < m) then None else Some (Dec q (- 2)))"

definition uuid_value :: "field_parsers \<Rightarrow> json \<Rightarrow> uuid option" where
  "uuid_value F v = (case v of JStr t \<Rightarrow> fp_uuid F t | _ \<Rightarrow> None)"

definition optional_text :: "string \<Rightarrow> nat \<Rightarrow> (string \<Rightarrow> bool) \<Rightarrow> body \<Rightarrow> string validated" where
  "optional_text name n valid = field name (Some []) (char_value (Some n) True valid)"

definition required_text :: "string \<Rightarrow> nat \<Rightarrow> body \<Rightarrow> string validated" where
  "required_text name n = field name None (char_value (Some n) False (\<lambda>_. True))"

subsection \<open>Request bodies\<close>

definition customer_input :: "field_parsers \<Rightarrow> body \<Rightarrow> (string \<times> customer_fields) validated" where
  "customer_input F data =
     map_field (\<lambda>(name, email, phone, ref). (ref, \<lparr>cf_full_name = name, cf_email = email,
         cf_phone_number = phone, cf_metadata = JObj []\<rparr>))
       (also_field (required_text ''full_name'' 255 data)
       (also_field (field ''email'' (Some []) (char_value None True (fp_is_email F)) data)
       (also_field (optional_text ''phone_number'' 32 (\<lambda>_. True) data)
         (optional_text ''external_reference'' 100 (\<lambda>_. True) data))))"

definition account_input :: "field_parsers \<Rightarrow> body \<Rightarrow> (uuid \<times> string \<times> string) validated" where
  "account_input F data =
     also_field (field ''customer_id'' None (uuid_value F) data)
     (also_field (required_text ''name'' 255 data)
       (optional_text ''external_reference'' 100 (\<lambda>_. True) data))"

definition item_input :: "field_parsers \<Rightarrow> body \<Rightarrow> new_item validated" where
  "item_input F data =
     map_field (\<lambda>(descr, q, u). \<lparr>ni_description = descr, ni_quantity = q, ni_unit_amount = u\<rparr>)
       (also_field (required_text ''description'' 255 data)
       (also_field (field ''quantity'' (Some (Dec 1 0)) (decimal_value F 10 None) data)
         (field ''unit_amount'' None (decimal_value F 18 (Some 0)) data)))"

fun item_list :: "field_parsers \<Rightarrow> json \<Rightarrow> new_item list option" where
  "item_list F (JList vs) =
     (if vs = [] then None
      else those (map (\<lambda>v. case v of
          JObj data \<Rightarrow> (case item_input F data of Inr i \<Rightarrow> Some i | Inl _ \<Rightarrow> None)
        | _ \<Rightarrow> None) vs))"
| "item_list F _ = None"

definition date_value :: "field_parsers \<Rightarrow> json \<Rightarrow> time option option" where
  "date_value F v = (if v = JNull then Some None else map_option Some (fp_date F v))"

definition bill_input :: "field_parsers \<Rightarrow> body \<Rightarrow> (string \<times> bill_args) validated" where
  "bill_input F data =
     map_field (\<lambda>(account, items, due, ref). (ref, \<lparr>ba_customer_account = account, ba_items = items,
         ba_revenue_source = None, ba_due_date = due, ba_metadata = JObj []\<rparr>))
       (also_field (field ''customer_account_id'' None (uuid_value F) data)
       (also_field (field ''items'' None (item_list F) data)
       (also_field (field ''due_date'' (Some None) (date_value F) data)
         (optional_text ''external_reference'' 100 (\<lambda>_. True) data))))"

definition payment_input :: "field_parsers \<Rightarrow> body \<Rightarrow> (string \<times> decimal \<times> string) validated" where
  "payment_input F data =
     also_field (required_text ''control_number'' 32 data)
     (also_field (field ''amount'' None (decimal_value F 18 (Some 1)) data)
       (optional_text ''payer_reference'' 100 (\<lambda>_. True) data))"

fun text_list :: "json \<Rightarrow> string list option" where
  "text_list (JList vs) = those (map (char_value None False (\<lambda>_. True)) vs)"
| "text_list _ = None"

definition endpoint_input :: "field_parsers \<Rightarrow> body \<Rightarrow> (string \<times> string \<times> string list) validated" where
  "endpoint_input F data =
     also_field (field ''url'' None (char_value (Some 500) False (fp_is_url F)) data)
     (also_field (optional_text ''description'' 255 (\<lambda>_. True) data)
       (field ''subscribed_events'' (Some []) text_list data))"

end
