(* ===== verification/ApiViews.thy ===== *)
theory ApiViews
  imports ApiSerializers
begin

text \<open>
  The endpoints of the API (\<open>apps/api/views.py\<close>) with their guard (\<open>ApiView\<close>: authentication,
  permission, throttle, in the framework's order) and the error envelope
  (\<open>core/exceptions.py\<close>). Every request runs in one transaction, which the framework rolls back
  for an error it answers as for one it does not. The counting of the throttle is the
  framework's: the request says whether its key is over the rate.
\<close>

record api_request =
  aq_authorization :: string
  aq_over_rate :: "string \<Rightarrow> bool"
  aq_params :: "(string \<times> string) list"
  aq_idempotency_key :: string

datatype api_body =
  BInstitution tenant | BCustomer customer | BCustomers "customer list"
| BAccount customer_account | BAccounts "customer_account list" | BBill bill | BBills "bill list"
| BControlNumber control_number | BPayment payment | BPayments "payment list"
| BRuns nat "reconciliation_run list" | BBatches nat "settlement_batch list" | BBatch settlement_batch
| BEndpoints "webhook_endpoint list" | BNewEndpoint webhook_endpoint
| BNotifications nat "notification list"
| BError string

type_synonym api_response = "nat \<times> api_body"

datatype api_call =
  GetInstitution
| ListCustomers | CreateCustomer body | GetCustomer uuid
| ListAccounts | CreateAccount body
| ListBills | CreateBill body | GetBill uuid | IssueControlNumber uuid
| ListPayments | CreatePayment body | GetPayment uuid | ResolvePayment uuid
| ListRuns | ListBatches | GetBatch uuid
| ListEndpoints | CreateEndpoint body | ListNotifications

definition api_param :: "string \<Rightarrow> api_request \<Rightarrow> string option" where
  "api_param name req = (case map_of (aq_params req) name of Some [] \<Rightarrow> None | x \<Rightarrow> x)"

definition narrowed :: "('a \<Rightarrow> 'v) \<Rightarrow> 'v option \<Rightarrow> 'a list \<Rightarrow> 'a list" where
  "narrowed f v rows = (case v of None \<Rightarrow> rows | Some x \<Rightarrow> filter (\<lambda>r. f r = x) rows)"

definition checked_input :: "'a validated \<Rightarrow> ('s, 'a) pm" where
  "checked_input v = (case v of Inl names \<Rightarrow> raise (InvalidInput names) | Inr a \<Rightarrow> ret a)"

definition created_status :: "bool \<Rightarrow> nat" where
  "created_status created = (if created then 201 else 200)"

definition INVALID_PAGE :: exn where
  "INVALID_PAGE = OtherError ''Invalid page.''"

text \<open>\<open>PageNumberPagination\<close> with pages of 50: the count and the rows of the page.\<close>

definition api_page ::
  "field_parsers \<Rightarrow> api_request \<Rightarrow> 'a list \<Rightarrow> ('s, nat \<times> 'a list) pm" where
  "api_page F req rows =
     (let pages = max 1 ((length rows + 49) div 50) in
      case (case api_param ''page'' req of None \<Rightarrow> Some 1
            | Some t \<Rightarrow> if t = ''last'' then Some pages else fp_page F t) of
        None \<Rightarrow> raise INVALID_PAGE
      | Some n \<Rightarrow> if n = 0 \<or> pages < n then raise INVALID_PAGE
                  else ret (length rows, take 50 (drop (50 * (n - 1)) rows)))"

subsection \<open>Customers and accounts\<close>

definition of_tenant :: "('r \<Rightarrow> uuid) \<Rightarrow> uuid \<Rightarrow> 'r list \<Rightarrow> 'r list" where
  "of_tenant f tenant rows = filter (\<lambda>r. f r = tenant) rows"

text \<open>\<open>get_object_or_404(..., pk=pk, tenant=request.tenant)\<close>.\<close>

definition own_row :: "('s \<Rightarrow> 'r list) \<Rightarrow> ('r \<Rightarrow> uuid) \<Rightarrow> ('r \<Rightarrow> uuid) \<Rightarrow> uuid \<Rightarrow> uuid \<Rightarrow> ('s, 'r) pm" where
  "own_row table key owner tenant pk =
     require Http404 (\<lambda>s. List.find (\<lambda>r. key r = pk \<and> owner r = tenant) (table s))"

definition customers_get :: "api_request \<Rightarrow> uuid \<Rightarrow> ('z api_st_scheme, api_response) pm" where
  "customers_get req tenant =
     mbind (gets (\<lambda>s. take 200 (narrowed c_external_reference (api_param ''external_reference'' req)
       (of_tenant c_tenant tenant (customers s))))) (\<lambda>cs. ret (200, BCustomers cs))"

definition customers_post ::
  "env \<Rightarrow> field_parsers \<Rightarrow> body \<Rightarrow> uuid \<Rightarrow> ('z api_st_scheme, api_response) pm" where
  "customers_post E F data tenant =
     mbind (checked_input (customer_input F data)) (\<lambda>(ref, f).
     mbind (get_or_create_customer E None (tenant, ref) f) (\<lambda>(c, created).
       ret (created_status created, BCustomer c)))"

text \<open>A \<open>customer_id\<close> that is no UUID makes the filter raise Django's \<open>ValidationError\<close>.\<close>

definition accounts_get ::
  "field_parsers \<Rightarrow> api_request \<Rightarrow> uuid \<Rightarrow> ('z api_st_scheme, api_response) pm" where
  "accounts_get F req tenant =
     mbind (case api_param ''customer_id'' req of None \<Rightarrow> ret None
            | Some t \<Rightarrow> (case fp_uuid F t of None \<Rightarrow> raise (ValidationError ''is not a valid UUID.'')
                          | Some i \<Rightarrow> ret (Some i))) (\<lambda>customer.
     mbind (gets (\<lambda>s. take 200 (narrowed ca_customer customer
       (of_tenant ca_tenant tenant (customer_accounts s))))) (\<lambda>xs. ret (200, BAccounts xs)))"

definition accounts_post ::
  "env \<Rightarrow> field_parsers \<Rightarrow> body \<Rightarrow> uuid \<Rightarrow> ('z api_st_scheme, api_response) pm" where
  "accounts_post E F data tenant =
     mbind (checked_input (account_input F data)) (\<lambda>(customer_id, name, ref).
     mbind (own_row customers c_id c_tenant tenant customer_id) (\<lambda>c.
     mbind (get_or_create_customer_account E None (tenant, ref)
        \<lparr>af_customer = c_id c, af_revenue_source = None, af_name = name, af_metadata = JObj []\<rparr>) (\<lambda>(a, created).
       ret (created_status created, BAccount a))))"

subsection \<open>Bills\<close>

definition bills_get :: "api_request \<Rightarrow> uuid \<Rightarrow> ('z api_st_scheme, api_response) pm" where
  "bills_get req tenant =
     mbind (gets (\<lambda>s. take 200 (narrowed b_external_reference (api_param ''external_reference'' req)
       (narrowed (\<lambda>b. bill_status_value (b_status b)) (api_param ''status'' req)
         (of_tenant b_tenant tenant (bills s)))))) (\<lambda>bs. ret (200, BBills bs))"

definition bills_post ::
  "env \<Rightarrow> field_parsers \<Rightarrow> body \<Rightarrow> uuid \<Rightarrow> ('z api_st_scheme, api_response) pm" where
  "bills_post E F data tenant =
     mbind (checked_input (bill_input F data)) (\<lambda>(ref, a).
     mbind (own_row customer_accounts ca_id ca_tenant tenant (ba_customer_account a)) (\<lambda>account.
     mbind (get_or_create_bill E None (tenant, ref) a) (\<lambda>(b, created).
     if created then mbind (bill_transition_to E b ACTIVE) (\<lambda>b1. ret (201, BBill b1))
     else ret (200, BBill b))))"

definition bill_control_number_post ::
  "env \<Rightarrow> uuid \<Rightarrow> uuid \<Rightarrow> ('z api_st_scheme, api_response) pm" where
  "bill_control_number_post E pk tenant =
     mbind (own_row bills b_id b_tenant tenant pk) (\<lambda>b.
     mbind (get_or_create_for_bill E None tenant (b_id b) None) (\<lambda>(cn, created).
       ret (created_status created, BControlNumber cn)))"

subsection \<open>Payments\<close>

definition payments_get :: "api_request \<Rightarrow> uuid \<Rightarrow> ('z api_st_scheme, api_response) pm" where
  "payments_get req tenant =
     mbind (gets (\<lambda>s. take 200 (narrowed (\<lambda>p. payment_status_value (p_status p)) (api_param ''status'' req)
       (sort_key (\<lambda>p. - p_initiated_at p) (of_tenant p_tenant tenant (payments s)))))) (\<lambda>ps.
     ret (200, BPayments ps))"

definition payments_post ::
  "env \<Rightarrow> field_parsers \<Rightarrow> api_request \<Rightarrow> body \<Rightarrow> uuid \<Rightarrow> ('z api_st_scheme, api_response) pm" where
  "payments_post E F req data tenant =
     mbind (checked_input (payment_input F data)) (\<lambda>(number, amount, payer).
     mbind (require Http404 (\<lambda>s. List.find (\<lambda>cn. cn_value cn = number \<and> cn_tenant cn = tenant)
        (control_numbers s))) (\<lambda>cn.
     mbind (require Http404 (\<lambda>s. List.find (\<lambda>p. pp_code p = ''mock'') (payment_providers s))) (\<lambda>pr.
     mbind (initiate_payment E None (tenant, aq_idempotency_key req)
        \<lparr>pg_control_number = cn_id cn, pg_provider = pr, pg_channel = None,
         pg_amount = to_hundredths amount, pg_payer_reference = payer, pg_metadata = []\<rparr>) (\<lambda>p.
       ret (201, BPayment p)))))"

definition payment_query_post :: "env \<Rightarrow> uuid \<Rightarrow> uuid \<Rightarrow> ('z api_st_scheme, api_response) pm" where
  "payment_query_post E pk tenant =
     mbind (own_row payments p_id p_tenant tenant pk) (\<lambda>p.
     mbind (query_payment E None p) (\<lambda>p1. ret (200, BPayment p1)))"

subsection \<open>Lists and webhooks\<close>

definition runs_get :: "field_parsers \<Rightarrow> api_request \<Rightarrow> uuid \<Rightarrow> ('z api_st_scheme, api_response) pm" where
  "runs_get F req tenant =
     mbind (gets (\<lambda>s. take 100 (sort_key (\<lambda>r. - rr_started_at r)
       (of_tenant rr_tenant tenant (reconciliation_runs s))))) (\<lambda>rows.
     mbind (api_page F req rows) (\<lambda>(n, rs). ret (200, BRuns n rs)))"

definition batches_get :: "field_parsers \<Rightarrow> api_request \<Rightarrow> uuid \<Rightarrow> ('z api_st_scheme, api_response) pm" where
  "batches_get F req tenant =
     mbind (gets (\<lambda>s. take 100 (sort_key (\<lambda>b. - sb_period_end b)
       (of_tenant sb_tenant tenant (settlement_batches s))))) (\<lambda>rows.
     mbind (api_page F req rows) (\<lambda>(n, bs). ret (200, BBatches n bs)))"

definition notifications_get :: "field_parsers \<Rightarrow> api_request \<Rightarrow> uuid \<Rightarrow> ('z api_st_scheme, api_response) pm" where
  "notifications_get F req tenant =
     mbind (gets (\<lambda>s. take 200 (of_tenant n_tenant tenant (notifications s)))) (\<lambda>rows.
     mbind (api_page F req rows) (\<lambda>(n, ns). ret (200, BNotifications n ns)))"

definition endpoints_get :: "uuid \<Rightarrow> ('z api_st_scheme, api_response) pm" where
  "endpoints_get tenant =
     mbind (gets (\<lambda>s. of_tenant we_tenant tenant (webhook_endpoints s))) (\<lambda>es. ret (200, BEndpoints es))"

definition endpoints_post ::
  "env \<Rightarrow> field_parsers \<Rightarrow> body \<Rightarrow> uuid \<Rightarrow> ('z api_st_scheme, api_response) pm" where
  "endpoints_post E F data tenant =
     mbind (checked_input (endpoint_input F data)) (\<lambda>(url, descr, events).
     mbind fresh_uuid (\<lambda>i. mbind draw (\<lambda>k.
     let ep = \<lparr>we_id = i, we_tenant = tenant, we_url = url, we_secret = e_hex E k, we_description = descr,
               we_is_active = True, we_subscribed_events = events\<rparr> in
     mseq (modify (\<lambda>s. s\<lparr>webhook_endpoints := ep # webhook_endpoints s\<rparr>))
       (ret (201, BNewEndpoint ep)))))"

subsection \<open>Single rows\<close>

definition shown :: "('r \<Rightarrow> api_body) \<Rightarrow> ('s, 'r) pm \<Rightarrow> ('s, api_response) pm" where
  "shown f m = mbind m (\<lambda>r. ret (200, f r))"

definition institution_get :: "uuid \<Rightarrow> ('z api_st_scheme, api_response) pm" where
  "institution_get tenant = shown BInstitution (the_tenant tenant)"

definition customer_get :: "uuid \<Rightarrow> uuid \<Rightarrow> ('z api_st_scheme, api_response) pm" where
  "customer_get pk tenant = shown BCustomer (own_row customers c_id c_tenant tenant pk)"

definition bill_get :: "uuid \<Rightarrow> uuid \<Rightarrow> ('z api_st_scheme, api_response) pm" where
  "bill_get pk tenant = shown BBill (own_row bills b_id b_tenant tenant pk)"

definition payment_get :: "uuid \<Rightarrow> uuid \<Rightarrow> ('z api_st_scheme, api_response) pm" where
  "payment_get pk tenant = shown BPayment (own_row payments p_id p_tenant tenant pk)"

definition batch_get :: "uuid \<Rightarrow> uuid \<Rightarrow> ('z api_st_scheme, api_response) pm" where
  "batch_get pk tenant = shown BBatch (own_row settlement_batches sb_id sb_tenant tenant pk)"

subsection \<open>Dispatch\<close>

fun api_handler ::
  "env \<Rightarrow> field_parsers \<Rightarrow> api_request \<Rightarrow> api_call \<Rightarrow> uuid \<Rightarrow> ('z api_st_scheme, api_response) pm" where
  "api_handler E F req GetInstitution tenant = institution_get tenant"
| "api_handler E F req ListCustomers tenant = customers_get req tenant"
| "api_handler E F req (CreateCustomer data) tenant = customers_post E F data tenant"
| "api_handler E F req (GetCustomer pk) tenant = customer_get pk tenant"
| "api_handler E F req ListAccounts tenant = accounts_get F req tenant"
| "api_handler E F req (CreateAccount data) tenant = accounts_post E F data tenant"
| "api_handler E F req ListBills tenant = bills_get req tenant"
| "api_handler E F req (CreateBill data) tenant = bills_post E F data tenant"
| "api_handler E F req (GetBill pk) tenant = bill_get pk tenant"
| "api_handler E F req (IssueControlNumber pk) tenant = bill_control_number_post E pk tenant"
| "api_handler E F req ListPayments tenant = payments_get req tenant"
| "api_handler E F req (CreatePayment data) tenant = payments_post E F req data tenant"
| "api_handler E F req (GetPayment pk) tenant = payment_get pk tenant"
| "api_handler E F req (ResolvePayment pk) tenant = payment_query_post E pk tenant"
| "api_handler E F req ListRuns tenant = runs_get F req tenant"
| "api_handler E F req ListBatches tenant = batches_get F req tenant"
| "api_handler E F req (GetBatch pk) tenant = batch_get pk tenant"
| "api_handler E F req ListEndpoints tenant = endpoints_get tenant"
| "api_handler E F req (CreateEndpoint data) tenant = endpoints_post E F data tenant"
| "api_handler E F req ListNotifications tenant = notifications_get F req tenant"

text \<open>\<open>ApiView.initial\<close> of the framework, with the classes of \<open>ApiView\<close>.\<close>

definition api_view ::
  "env \<Rightarrow> key_hasher \<Rightarrow> field_parsers \<Rightarrow> api_request \<Rightarrow> api_call \<Rightarrow> ('z api_st_scheme, api_response) pm" where
  "api_view E H F req call =
     mbind (authenticate E H (aq_authorization req)) (\<lambda>cred.
     if \<not> has_api_credential cred then raise NotAuthenticated
     else if (case throttle_cache_key cred of None \<Rightarrow> False | Some key \<Rightarrow> aq_over_rate req key)
       then raise Throttled
     else api_handler E F req call (case cred of Some c \<Rightarrow> ak_tenant c | None \<Rightarrow> Uuid 0))"

text \<open>
  \<open>drf_exception_handler\<close>: the status and code of an exception the framework knows; \<open>Http404\<close> and
  Django's \<open>PermissionDenied\<close> carry no code. Anything else is raised again. The envelope's message
  and the links of a page are left out.
\<close>

fun error_answer :: "exn \<Rightarrow> api_response option" where
  "error_answer (AuthenticationFailed m) = Some (401, BError ''authentication_failed'')"
| "error_answer NotAuthenticated = Some (401, BError ''not_authenticated'')"
| "error_answer Throttled = Some (429, BError ''throttled'')"
| "error_answer (InvalidInput names) = Some (400, BError ''invalid'')"
| "error_answer Http404 = Some (404, BError ''error'')"
| "error_answer (PermissionDenied m) = Some (403, BError ''error'')"
| "error_answer (OtherError m) =
     (if OtherError m = INVALID_PAGE then Some (404, BError ''not_found'') else None)"
| "error_answer e = None"

definition api_serve ::
  "env \<Rightarrow> key_hasher \<Rightarrow> field_parsers \<Rightarrow> api_request \<Rightarrow> api_call \<Rightarrow> ('z api_st_scheme, api_response) pm" where
  "api_serve E H F req call = catch (request (api_view E H F req call))
     (\<lambda>e. case error_answer e of None \<Rightarrow> raise e | Some r \<Rightarrow> ret r)"

text \<open>The JSON that is sent, with the state it is rendered in.\<close>

fun body_json :: "env \<Rightarrow> 'z reconciliation_st_scheme \<Rightarrow> api_body \<Rightarrow> json" where
  "body_json E s (BInstitution t) = institution_data E t"
| "body_json E s (BCustomer c) = customer_data E c"
| "body_json E s (BCustomers cs) = JList (map (customer_data E) cs)"
| "body_json E s (BAccount a) = account_data E a"
| "body_json E s (BAccounts xs) = JList (map (account_data E) xs)"
| "body_json E s (BBill b) = bill_data E s b"
| "body_json E s (BBills bs) = JList (map (bill_data E s) bs)"
| "body_json E s (BControlNumber cn) = control_number_data E cn"
| "body_json E s (BPayment p) = payment_data E s p"
| "body_json E s (BPayments ps) = JList (map (payment_data E s) ps)"
| "body_json E s (BRuns n rs) = JObj [(''count'', JInt (int n)), (''results'', JList (map (run_data E) rs))]"
| "body_json E s (BBatches n bs) = JObj [(''count'', JInt (int n)), (''results'', JList (map (batch_data E) bs))]"
| "body_json E s (BBatch b) = batch_data E b"
| "body_json E s (BEndpoints es) = JList (map (\<lambda>ep. JObj (endpoint_fields E ep)) es)"
| "body_json E s (BNewEndpoint ep) = JObj (endpoint_fields E ep @ [(''secret'', JStr (we_secret ep))])"
| "body_json E s (BNotifications n ns) =
     JObj [(''count'', JInt (int n)), (''results'', JList (map (notification_data E) ns))]"
| "body_json E s (BError code) = JObj [(''error'', JObj [(''code'', JStr code),
     (''correlation_id'', JStr (e_correlation_id E))])]"

end
