(* ===== verification/ApiKeyring.thy ===== *)
theory ApiKeyring
  imports ApiKeys
begin

text \<open>
  What the credential pages promise, as an abstract key ring that knows the secrets, and the
  refinement: the table with its hashes represents the ring, every page is a step of it, and
  authentication decides as the ring does.
\<close>

record ring_entry =
  rg_key :: string
  rg_tenant :: uuid
  rg_secret :: string
  rg_active :: bool

type_synonym key_ring = "uuid \<Rightarrow> ring_entry option"

subsection \<open>The abstract ring\<close>

datatype key_op = NewKey "string option" | RotateKey uuid | RevokeKey uuid

text \<open>A step of the ring: the operation, the tenant it is done for, and the page it showed.\<close>

fun ring_step :: "(uuid option \<times> key_op) \<times> key_page \<Rightarrow> key_ring \<Rightarrow> key_ring" where
  "ring_step ((tenant, NewKey name), SecretShown c raw) ring =
     ring(ak_id c \<mapsto> \<lparr>rg_key = ak_key_id c, rg_tenant = ak_tenant c, rg_secret = raw, rg_active = True\<rparr>)"
| "ring_step ((tenant, RotateKey i), SecretShown c raw) ring =
     ring(i := map_option (\<lambda>e. e\<lparr>rg_secret := raw\<rparr>) (ring i))"
| "ring_step ((tenant, RevokeKey i), page) ring =
     ring(i := map_option (\<lambda>e. e\<lparr>rg_active := False\<rparr>) (ring i))"
| "ring_step _ ring = ring"

text \<open>Whether the ring lets a header in: the last secret of a key that was not revoked.\<close>

definition ring_admits :: "key_ring \<Rightarrow> string \<Rightarrow> 'z api_st_scheme \<Rightarrow> bool" where
  "ring_admits ring header s \<longleftrightarrow> prefix BEARER header \<and>
     (let token = py_strip (drop (length BEARER) header) in
      CHR ''.'' \<in> set token \<and>
      (\<exists>i e. ring i = Some e \<and> rg_key e = fst (partition_dot token) \<and>
        rg_secret e = snd (partition_dot token) \<and> rg_active e \<and> tenant_is_active (rg_tenant e) s))"

subsection \<open>Representation\<close>

definition entry_of :: "key_hasher \<Rightarrow> api_credential \<Rightarrow> ring_entry \<Rightarrow> bool" where
  "entry_of H c e \<longleftrightarrow> rg_key e = ak_key_id c \<and> rg_tenant e = ak_tenant c \<and> rg_active e = ak_is_active c \<and>
     (\<exists>salt. ak_secret_hash c = kh_hash H salt (rg_secret e))"

definition represents :: "key_hasher \<Rightarrow> key_ring \<Rightarrow> 'z api_st_scheme \<Rightarrow> bool" where
  "represents H ring s \<longleftrightarrow>
     distinct (map ak_id (api_credentials s)) \<and> distinct (map ak_key_id (api_credentials s)) \<and>
     (\<forall>c \<in> set (api_credentials s). uuid_no (ak_id c) < draws s) \<and>
     (\<forall>c \<in> set (api_credentials s). \<exists>e. ring (ak_id c) = Some e \<and> entry_of H c e) \<and>
     (\<forall>i. ring i \<noteq> None \<longrightarrow> i \<in> ak_id ` set (api_credentials s))"

lemma represents_same:
  "represents H ring s \<Longrightarrow> api_credentials t = api_credentials s \<Longrightarrow> draws s \<le> draws t \<Longrightarrow> represents H ring t"
  unfolding represents_def by fastforce

lemma row_update_distinct:
  "(\<And>c. f (g c) = f c) \<Longrightarrow> map f (row_update ak_id i g cs) = map f cs"
  by (simp add: row_update_def)

text \<open>Changing the row of one credential and its entry in the ring alike.\<close>

lemma represents_update:
  assumes "represents H ring s" and "draws s \<le> draws t"
    and "api_credentials t = row_update ak_id i g (api_credentials s)"
    and "\<And>c. ak_id (g c) = ak_id c" and "\<And>c. ak_key_id (g c) = ak_key_id c"
    and "\<And>c e. entry_of H c e \<Longrightarrow> entry_of H (g c) (h e)"
  shows "represents H (ring(i := map_option h (ring i))) t"
proof -
  have ids: "map ak_id (api_credentials t) = map ak_id (api_credentials s)"
      "map ak_key_id (api_credentials t) = map ak_key_id (api_credentials s)"
    using assms(3-5) by (simp_all add: row_update_distinct)
  then have "ak_id ` set (api_credentials t) = ak_id ` set (api_credentials s)"
    by (metis list.set_map)
  moreover have "\<exists>e. (ring(i := map_option h (ring i))) (ak_id c) = Some e \<and> entry_of H c e \<and> uuid_no (ak_id c) < draws t"
    if c: "c \<in> set (api_credentials t)" for c
  proof -
    obtain b where b: "b \<in> set (api_credentials s)" "c = (if ak_id b = i then g b else b)"
      using c assms(3) by (auto simp: row_update_def)
    obtain e where "ring (ak_id b) = Some e" "entry_of H b e" "uuid_no (ak_id b) < draws s"
      using b(1) assms(1) unfolding represents_def by blast
    then show ?thesis
      using b(2) assms(2,4,6) by (cases "ak_id b = i") auto
  qed
  ultimately show ?thesis
    using assms(1) ids unfolding represents_def by (fastforce split: if_splits)
qed

text \<open>Adding a row under a fresh id and an unused key.\<close>

lemma represents_insert:
  assumes "represents H ring s" and "api_credentials t = c # api_credentials s"
    and "ak_id c = Uuid n" and "draws s \<le> n" and "n < draws t"
    and "\<forall>r \<in> set (api_credentials s). ak_key_id r \<noteq> ak_key_id c" and "entry_of H c e"
  shows "represents H (ring(ak_id c \<mapsto> e)) t"
proof -
  have "ak_id r \<noteq> ak_id c" if "r \<in> set (api_credentials s)" for r
    using that assms(1,3,4) unfolding represents_def by fastforce
  with assms show ?thesis
    unfolding represents_def by fastforce
qed

subsection \<open>Each page is a step of the ring\<close>

fun key_view ::
  "env \<Rightarrow> key_hasher \<Rightarrow> user option \<Rightarrow> uuid option \<times> key_op \<Rightarrow> ('z api_st_scheme, key_page) pm" where
  "key_view E H user (tenant, NewKey post) = credential_create E H user tenant post"
| "key_view E H user (tenant, RotateKey i) = credential_rotate E H user tenant i True"
| "key_view E H user (tenant, RevokeKey i) = credential_revoke E user tenant i True"

lemma api_projections [simp]:
  "api_credentials (audited r s) = api_credentials s"
  "api_credentials (commit s) = api_credentials s" "draws (commit s) = draws s"
  "api_credentials (rollback s t) = api_credentials s" "draws (rollback s t) = draws t"
  by (simp_all add: audited_def commit_def rollback_def)

lemma tenant_credential_SomeD:
  "List.find (\<lambda>c. ak_id c = pk \<and> Some (ak_tenant c) = tenant) cs = Some c \<Longrightarrow> c \<in> set cs \<and> ak_id c = pk"
  by (auto dest: find_Some_D)

lemma create_represents:
  assumes "represents H ring s"
  shows "wpx (credential_create E H user tenant post)
     (\<lambda>page t. represents H (ring_step ((tenant, NewKey post), page) ring) t)
     (\<lambda>_ t. draws s \<le> draws t) s"
proof (cases "credential_form post")
  case (Some name)
  show ?thesis
  proof (cases tenant)
    case tid: (Some tid)
    let ?c = "\<lparr>ak_id = Uuid (Suc (draws s)), ak_tenant = tid, ak_key_id = generate_key_id H (Suc (Suc (draws s))),
        ak_secret_hash = kh_hash H (Suc (Suc (Suc (draws s)))) (kh_secret H (draws s)), ak_name = name,
        ak_is_active = True, ak_created_by = map_option u_id user, ak_last_used_at = None, ak_revoked_at = None\<rparr>"
    let ?e = "\<lparr>rg_key = ak_key_id ?c, rg_tenant = tid, rg_secret = kh_secret H (draws s), rg_active = True\<rparr>"
    have "represents H (ring(Uuid (Suc (draws s)) \<mapsto> ?e)) t"
      if "api_credentials t = ?c # api_credentials s" "Suc (draws s) < draws t"
        "\<forall>r \<in> set (api_credentials s). ak_key_id r \<noteq> ak_key_id ?c" for t :: "'a api_st_scheme"
      using represents_insert [OF assms that(1), of "Suc (draws s)" ?e] that(2,3)
      by (auto simp: entry_of_def)
    then show ?thesis
      using Some tid
      by (auto simp: credential_create_def create_credential_def insert_credential_def set_secret_def Let_def)
  qed (use assms in \<open>simp add: credential_create_def\<close>)
qed (use assms in \<open>simp add: credential_create_def\<close>)

lemma rotate_represents:
  assumes "represents H ring s"
  shows "wpx (credential_rotate E H user tenant i True)
     (\<lambda>page t. represents H (ring_step ((tenant, RotateKey i), page) ring) t)
     (\<lambda>_ t. draws s \<le> draws t) s"
proof -
  have "represents H (ring(i := map_option (\<lambda>e. e\<lparr>rg_secret := raw\<rparr>) (ring i))) t"
    if "api_credentials t = row_update ak_id i (set_secret H salt raw) (api_credentials s)" "draws s \<le> draws t"
    for t :: "'a api_st_scheme" and salt raw
    by (rule represents_update [OF assms that(2,1)]) (auto simp: set_secret_def entry_of_def)
  then show ?thesis
    using assms by (auto simp: credential_rotate_def rotate_credential_def tenant_credential_def update_credential_def Let_def
        dest!: tenant_credential_SomeD split: option.split)
qed

lemma revoke_represents:
  assumes "represents H ring s"
  shows "wpx (credential_revoke E user tenant i True)
     (\<lambda>page t. represents H (ring_step ((tenant, RevokeKey i), page) ring) t)
     (\<lambda>_ t. draws s \<le> draws t) s"
proof -
  have "represents H (ring(i := map_option (\<lambda>e. e\<lparr>rg_active := False\<rparr>) (ring i))) t"
    if "api_credentials t = row_update ak_id i (\<lambda>r. r\<lparr>ak_is_active := False, ak_revoked_at := Some n\<rparr>) (api_credentials s)"
      "draws s \<le> draws t"
    for t :: "'a api_st_scheme" and n
    by (rule represents_update [OF assms that(2,1)]) (auto simp: entry_of_def)
  then show ?thesis
    using assms by (auto simp: credential_revoke_def revoke_credential_def tenant_credential_def update_credential_def
        dest!: tenant_credential_SomeD split: option.split)
qed

lemma key_view_represents:
  assumes "represents H ring s" and "request (key_view E H user q) s = (res, t)"
  shows "represents H (case res of Inr page \<Rightarrow> ring_step (q, page) ring | Inl e \<Rightarrow> ring) t"
proof -
  have "wpx (key_view E H user q) (\<lambda>page t. represents H (ring_step (q, page) ring) t) (\<lambda>_ t. draws s \<le> draws t) s"
    using create_represents [OF assms(1)] rotate_represents [OF assms(1)] revoke_represents [OF assms(1)]
    by (cases "(E, H, user, q)" rule: key_view.cases) auto
  then have "wpx (request (key_view E H user q)) (\<lambda>page t. represents H (ring_step (q, page) ring) t)
      (\<lambda>_ t. represents H ring t) s"
    by (auto elim!: wpx_mono intro: represents_same [OF assms(1)] represents_same)
  from wpx_result [OF this] assms(2) show ?thesis
    by (cases res) auto
qed

subsection \<open>Authentication asks the ring\<close>

definition honest_hasher :: "key_hasher \<Rightarrow> bool" where
  "honest_hasher H \<longleftrightarrow> (\<forall>salt x y. kh_check H x (kh_hash H salt y) \<longleftrightarrow> x = y)"

lemma row_get_unique: "distinct (map key rows) \<Longrightarrow> r \<in> set rows \<Longrightarrow> row_get key (key r) rows = Some r"
  by (induction rows) (auto simp: row_get_def)

lemma authenticate_accepts:
  assumes "honest_hasher H" and "represents H ring s"
  shows "(\<exists>c. fst (authenticate E H header s) = Inr (Some c)) \<longleftrightarrow> ring_admits ring header s"
proof -
  let ?token = "py_strip (drop (length BEARER) header)"
  let ?cs = "api_credentials s"
  have unique: "row_get ak_key_id (ak_key_id c) ?cs = Some c" if "c \<in> set ?cs" for c
    using that assms(2) unfolding represents_def by (intro row_get_unique) auto
  have entry: "(\<exists>i e. ring i = Some e \<and> rg_key e = k \<and> rg_secret e = raw \<and> rg_active e \<and> tenant_is_active (rg_tenant e) s) \<longleftrightarrow>
      (\<exists>c. row_get ak_key_id k ?cs = Some c \<and> ak_is_active c \<and> check_secret H raw c \<and> tenant_is_active (ak_tenant c) s)" for k raw
  proof
    assume "\<exists>i e. ring i = Some e \<and> rg_key e = k \<and> rg_secret e = raw \<and> rg_active e \<and> tenant_is_active (rg_tenant e) s"
    then obtain i e where e: "ring i = Some e" "rg_key e = k" "rg_secret e = raw" "rg_active e" "tenant_is_active (rg_tenant e) s"
      by blast
    with assms(2) obtain c where "c \<in> set ?cs" "i = ak_id c"
      unfolding represents_def by blast
    with e assms(2) have "entry_of H c e"
      unfolding represents_def by fastforce
    with e \<open>c \<in> set ?cs\<close> unique [of c] assms(1)
    show "\<exists>c. row_get ak_key_id k ?cs = Some c \<and> ak_is_active c \<and> check_secret H raw c \<and> tenant_is_active (ak_tenant c) s"
      by (auto simp: entry_of_def check_secret_def honest_hasher_def)
  next
    assume "\<exists>c. row_get ak_key_id k ?cs = Some c \<and> ak_is_active c \<and> check_secret H raw c \<and> tenant_is_active (ak_tenant c) s"
    then obtain c where c: "row_get ak_key_id k ?cs = Some c" "ak_is_active c" "check_secret H raw c" "tenant_is_active (ak_tenant c) s"
      by blast
    then have "c \<in> set ?cs" "ak_key_id c = k"
      by (auto dest: row_get_SomeD)
    moreover from this(1) assms(2) obtain e where "ring (ak_id c) = Some e" "entry_of H c e"
      unfolding represents_def by blast
    ultimately show "\<exists>i e. ring i = Some e \<and> rg_key e = k \<and> rg_secret e = raw \<and> rg_active e \<and> tenant_is_active (rg_tenant e) s"
      using c assms(1)
      by (intro exI [of _ "ak_id c"] exI [of _ e]) (auto simp: entry_of_def check_secret_def honest_hasher_def)
  qed
  have "(\<exists>c. fst (authenticate E H header s) = Inr (Some c)) \<longleftrightarrow>
      prefix BEARER header \<and> CHR ''.'' \<in> set ?token \<and>
      (\<exists>c. row_get ak_key_id (fst (partition_dot ?token)) ?cs = Some c \<and> ak_is_active c \<and>
        check_secret H (snd (partition_dot ?token)) c \<and> tenant_is_active (ak_tenant c) s)"
    by (auto simp: authenticate_def Let_def mbind_def mseq_def ret_def raise_def gets_def mark_used_def now_def
        update_credential_def modify_def split: prod.splits option.splits)
  then show ?thesis
    by (simp add: ring_admits_def Let_def entry)
qed

subsection \<open>The refinement\<close>

text \<open>Any requests to the credential pages, with what each showed.\<close>

primrec key_pages ::
  "env \<Rightarrow> key_hasher \<Rightarrow> (user option \<times> uuid option \<times> key_op) list \<Rightarrow> 'z api_st_scheme \<Rightarrow>
   ((uuid option \<times> key_op) \<times> key_page) list \<times> 'z api_st_scheme" where
  "key_pages E H [] s = ([], s)"
| "key_pages E H (q # qs) s =
     (case request (key_view E H (fst q) (snd q)) s of
        (Inl e, t) \<Rightarrow> key_pages E H qs t
      | (Inr page, t) \<Rightarrow> (case key_pages E H qs t of (log, u) \<Rightarrow> ((snd q, page) # log, u)))"

lemma key_pages_represent:
  "represents H ring s \<Longrightarrow> key_pages E H qs s = (log, t) \<Longrightarrow> represents H (fold ring_step log ring) t"
proof (induction qs arbitrary: ring s log)
  case (Cons q qs)
  obtain res u where step: "request (key_view E H (fst q) (snd q)) s = (res, u)"
    by (cases "request (key_view E H (fst q) (snd q)) s")
  note key_view_represents [OF Cons.prems(1) step]
  with Cons.prems(2) step Cons.IH show ?case
    by (cases res) (auto split: prod.splits)
qed simp

text \<open>
  C33 (\<open>credential_services.py\<close>, \<open>authentication.py\<close>, \<open>portal_views.py\<close>): after any requests to the
  credential pages by anyone, a bearer token is accepted exactly if it is a key with the secret
  last shown for it, at its creation or its latest rotation, the key has not been revoked and its
  institution is active: the stored hashes implement a ring of plain secrets.
\<close>

theorem api_keys_refine_ring:
  assumes "honest_hasher H" and "represents H ring s" and "key_pages E H qs s = (log, t)"
  shows "represents H (fold ring_step log ring) t \<and>
    ((\<exists>c. fst (authenticate E H header t) = Inr (Some c)) \<longleftrightarrow> ring_admits (fold ring_step log ring) header t)"
  using key_pages_represent [OF assms(2,3)] authenticate_accepts [OF assms(1)] by blast

subsection \<open>Examples\<close>

definition plain_hasher :: key_hasher where
  "plain_hasher = \<lparr>kh_key = \<lambda>n. replicate n (CHR ''k''), kh_secret = \<lambda>n. replicate n (CHR ''s''),
     kh_hash = \<lambda>salt x. x, kh_check = (=)\<rparr>"

definition key_admin :: user where
  "key_admin = \<lparr>u_id = Uuid 1, u_email = ''a@b.c'', u_password = [], u_first_name = [],
     u_first_name_lookup_hash = [], u_last_name = [], u_last_name_lookup_hash = [], u_phone_number = [],
     u_is_active = True, u_is_staff = False, u_is_superuser = False\<rparr>"

definition example_api_st :: "api_credential list \<Rightarrow> api_st" where
  "example_api_st cs = reconciliation_st.extend ((reconciled_st [] [] [])\<lparr>tenant_memberships :=
     [\<lparr>tm_id = Uuid 2, tm_tenant = Uuid 0, tm_user = Uuid 1, tm_role = TENANT_ADMIN, tm_is_active = True,
       tm_invited_by = None\<rparr>]\<rparr>) (api_st.fields cs)"

definition key_requests :: "(user option \<times> uuid option \<times> key_op) list" where
  "key_requests = [(Some key_admin, Some (Uuid 0), NewKey (Some ''erp'')),
     (Some key_admin, Some (Uuid 0), RotateKey (Uuid 10))]"

definition issued_key :: api_credential where
  "issued_key = \<lparr>ak_id = Uuid 10, ak_tenant = Uuid 0, ak_key_id = ''kusanya_kkkkkkkkkkk'', ak_secret_hash = ''sssssssss'',
     ak_name = ''erp'', ak_is_active = True, ak_created_by = Some (Uuid 1), ak_last_used_at = None,
     ak_revoked_at = None\<rparr>"

theorem api_keys_refine_ring_witness:
  "(\<exists>c. fst (authenticate example_env plain_hasher ''Bearer kusanya_kkkkkkkkkkk.ssssssssssssss''
      (snd (key_pages example_env plain_hasher key_requests (example_api_st [])))) = Inr (Some c)) \<and>
   \<not> (\<exists>c. fst (authenticate example_env plain_hasher ''Bearer kusanya_kkkkkkkkkkk.sssssssss''
      (snd (key_pages example_env plain_hasher key_requests (example_api_st [])))) = Inr (Some c))"
proof -
  let ?run = "key_pages example_env plain_hasher key_requests (example_api_st [])"
  let ?ring = "fold ring_step (fst ?run) (\<lambda>_. None)"
  have "fst ?run = [((Some (Uuid 0), NewKey (Some ''erp'')), SecretShown issued_key ''sssssssss''),
      ((Some (Uuid 0), RotateKey (Uuid 10)), SecretShown issued_key ''ssssssssssssss'')]"
    by code_simp
  then have ring: "?ring = [Uuid 10 \<mapsto> \<lparr>rg_key = ''kusanya_kkkkkkkkkkk'', rg_tenant = Uuid 0,
      rg_secret = ''ssssssssssssss'', rg_active = True\<rparr>]"
    by (simp add: issued_key_def)
  have active: "tenant_is_active (Uuid 0) (snd ?run)"
    by code_simp
  have tokens: "py_strip (drop (length BEARER) ''Bearer kusanya_kkkkkkkkkkk.ssssssssssssss'') = ''kusanya_kkkkkkkkkkk.ssssssssssssss''"
      "py_strip (drop (length BEARER) ''Bearer kusanya_kkkkkkkkkkk.sssssssss'') = ''kusanya_kkkkkkkkkkk.sssssssss''"
      "prefix BEARER ''Bearer kusanya_kkkkkkkkkkk.ssssssssssssss''"
    by code_simp+
  have "honest_hasher plain_hasher"
    by (simp add: honest_hasher_def plain_hasher_def)
  moreover have "represents plain_hasher (\<lambda>_. None) (example_api_st [])"
    by (simp add: represents_def example_api_st_def api_st.defs reconciliation_st.defs)
  ultimately have asks: "(\<exists>c. fst (authenticate example_env plain_hasher header (snd ?run)) = Inr (Some c)) \<longleftrightarrow>
      ring_admits ?ring header (snd ?run)" for header
    using api_keys_refine_ring [OF _ _ prod.collapse [symmetric, of ?run]] by blast
  show ?thesis
    unfolding asks ring using active tokens by (simp add: ring_admits_def Let_def partition_dot_def)
qed

end
