(* ===== verification/People.thy ===== *)
theory People
  imports AccountProperties BackupCodes TenantProperties
begin

text \<open>
  Everything people do to their accounts and to the teams of institutions, as operations that keep
  a relation between states: signing in and out, the second factor, registration, teams and the
  platform's administration.
\<close>

subsection \<open>The pages of one's own account\<close>

text \<open>\<open>SetUpMfa\<close> holds the random bytes of a fresh secret; \<open>None\<close> and \<open>False\<close> are a \<open>GET\<close>.\<close>

datatype own_page = SetUpMfa "byte list" "string option" | DisableMfa bool | NewBackupCodes bool

fun own_account :: "env \<Rightarrow> hmac_sha1 \<Rightarrow> string \<Rightarrow> user \<Rightarrow> own_page \<Rightarrow> ('z accounts_st_scheme, unit) pm" where
  "own_account E hm key u (SetUpMfa random form) = mseq (mfa_setup E hm key random u form) (ret ())"
| "own_account E hm key u (DisableMfa post) = mfa_disable E u post"
| "own_account E hm key u (NewBackupCodes post) = mseq (mfa_regenerate_backup_codes E key u post) (ret ())"

text \<open>\<open>KusanyaLogoutView\<close>: the session is emptied and the \<open>user_logged_out\<close> signal sent.\<close>

definition sign_out :: "env \<Rightarrow> user option \<Rightarrow> ('z accounts_st_scheme, session) pm" where
  "sign_out E user = mseq (on_logout E user)
     (ret \<lparr>ses_user = None, ses_active_tenant_id = None, ses_mfa_pending_user_id = None,
           ses_mfa_pending_backend = None\<rparr>)"

subsection \<open>What they keep\<close>

locale people_frame = state_relation R
  for R :: "'z accounts_st_scheme \<Rightarrow> 'z accounts_st_scheme \<Rightarrow> bool" +
  assumes frame_record: "R s (audited r s)"
    and frame_users: "R s (s\<lparr>users := us\<rparr>)"
    and frame_tenants: "R s (s\<lparr>tenants := ts\<rparr>)"
    and frame_members: "R s (s\<lparr>tenant_memberships := ms\<rparr>)"
    and frame_staff: "R s (s\<lparr>platform_memberships := ps\<rparr>)"
    and frame_devices: "R s (s\<lparr>mfa_devices := ds\<rparr>)"
    and frame_codes: "R s (s\<lparr>backup_codes := bcs\<rparr>)"
    and frame_cache: "R s (s\<lparr>auth_cache := c\<rparr>)"
begin

lemmas people_audit = upholds_record_audit_event [of R, OF frame_record] upholds_audit_event [of R, OF frame_record]

lemma upholds_logins:
  "upholds R (on_login E u)" "upholds R (on_logout E w)" "upholds R (on_login_failed E email)"
  "upholds R (auth_login E u ses)"
  unfolding auth_login_def on_login_def on_logout_def on_login_failed_def Let_def
  by (intro combinator_rules people_audit)+

lemma upholds_counters:
  "upholds R (is_locked_out E scope i)" "upholds R (record_failure E scope i)" "upholds R (reset_throttle scope i)"
  unfolding is_locked_out_def record_failure_def reset_throttle_def Let_def
  by (intro combinator_rules upholds_modify frame_cache)+

lemma upholds_checked: "upholds R (lift_sum v)"
  unfolding lift_sum_def by (intro upholds_case_sum combinator_rules)

lemma upholds_codes:
  "upholds R (check_totp E hm secret code)" "upholds R (consume_backup_code E key u raw)"
  "upholds R (verify_code E hm key u device code)"
  unfolding verify_code_def check_totp_def consume_backup_code_def
  by (intro combinator_rules upholds_if upholds_case_option upholds_checked upholds_modify frame_codes people_audit)+

lemma upholds_email_login: "upholds R (email_login E auth valid ip target form ses)"
  unfolding email_login_def clean_login_form_def login_form_valid_def login_form_invalid_def Let_def
  by (auto intro!: combinator_rules upholds_if upholds_counters upholds_logins split: form_result.split option.split)

lemma upholds_mfa_verify: "upholds R (mfa_verify E hm key target form ses)"
  unfolding mfa_verify_def code_accepted_def
  by (intro combinator_rules upholds_if upholds_case_option upholds_counters upholds_codes upholds_logins
      upholds_modify frame_devices)

lemma upholds_sign_in: "upholds R (sign_in_step E auth valid hm key r ses)"
  by (cases r) (simp_all add: upholds_email_login upholds_mfa_verify)

lemma upholds_visit: "R s (snd (visit E auth valid hm key r ses s))"
proof (cases "sign_in_step E auth valid hm key r ses s")
  case (Pair res t)
  have "R s t"
    using upholds_sign_in [of E auth valid hm key r ses] Pair by (auto simp: upholds_def dest: spec [of _ s])
  then have "R s (commit t)" "R s ((rollback s t)\<lparr>auth_cache := c\<rparr>)" for c
    by (blast intro: rel_trans rel_commit rel_rollback frame_cache)+
  then show ?thesis
    using Pair by (auto simp: visit_def split: sum.split prod.split)
qed

lemma upholds_generate_codes: "upholds R (generate_backup_codes E key actor u)"
proof -
  have chars: "upholds R (random_chars E n)" for n
    by (induction n) (auto intro!: combinator_rules)
  have codes: "upholds R (generate_codes E n)" for n
    by (induction n) (auto intro!: combinator_rules chars simp: generate_backup_code_def)
  have rows: "upholds R (insert_codes E key i raws)" for i raws
    by (induction raws) (auto intro!: combinator_rules upholds_modify frame_codes)
  show ?thesis
    unfolding generate_backup_codes_def
    by (intro combinator_rules upholds_modify frame_codes codes rows people_audit)
qed

lemma upholds_own_account: "upholds R (own_account E hm key u p)"
  by (cases p)
     (auto intro!: combinator_rules upholds_if upholds_codes upholds_generate_codes upholds_modify
       frame_devices frame_codes people_audit split: option.split
       simp: mfa_setup_def get_or_create_device_def confirm_device_def mfa_disable_def disable_mfa_def
         mfa_regenerate_backup_codes_def Let_def)

lemma upholds_sign_out: "upholds R (sign_out E u)"
  unfolding sign_out_def by (intro combinator_rules upholds_logins)

lemma upholds_rows:
  "upholds R (create_user S E who)" "upholds R (create_tenant S E d status at by_user)"
  "upholds R (create_membership tid uid role by_user)" "upholds R (create_platform_membership uid prole)"
  "upholds R (save_is_active pk b)"
  unfolding create_user_def create_user_row_def insert_user_def create_tenant_def insert_tenant_def
    create_membership_def create_platform_membership_def save_is_active_def Let_def
  by (intro combinator_rules upholds_if upholds_modify frame_users frame_tenants frame_members frame_staff)+

lemma upholds_institution:
  "upholds R (register_institution E S d who)" "upholds R (create_active_institution E S actor d who)"
  "upholds R (add_team_member E S actor tid who role)" "upholds R (create_platform_user E S actor who a)"
  unfolding register_institution_def create_active_institution_def add_team_member_def
    create_platform_user_def grant_access_def
  by (auto intro!: combinator_rules upholds_rows people_audit upholds_modify frame_users split: access.split)

lemma upholds_admin_view: "upholds R (admin_view E S user tenant call)"
  by (cases call)
     (auto intro!: combinator_rules upholds_if upholds_institution upholds_rows upholds_logins people_audit
       upholds_modify frame_tenants split: option.split prod.split
       simp: onboard_def team_members_def team_member_create_def team_member_deactivate_def team_membership_def
         team_member_activate_def pending_tenants_def platform_create_tenant_def approve_tenant_def
         platform_users_def platform_user_create_def require_tenant_role_def require_platform_role_def)

end

text \<open>The audit log only grows.\<close>

interpretation people_log: people_frame "\<lambda>s t :: 'z accounts_st_scheme. later s t \<and> suffix (audit_logs s) (audit_logs t)"
  by unfold_locales (auto simp: later_def audited_def suffix_def intro: suffix_order.order_trans)

end
