(* ===== verification/Platform.thy ===== *)
theory Platform
  imports ApiProperties People
begin

text \<open>
  The parts of the platform together: the portal's pages, signing in and the administration of
  people, the external API, the provider's callbacks and the workers act on one database. The books
  of \<open>PaymentBooks\<close> and the totals of \<open>Settlement\<close> hold whatever of it acts in whatever order, and a
  retried initiation finds the first payment.
\<close>

subsection \<open>Everything that writes\<close>

text \<open>The pages an institution's staff send forms to, with the person and the institution of the request.\<close>

datatype desk_page =
  NewCustomer "customer_form option" | EditCustomer uuid "customer_form option"
| DeactivateCustomer uuid bool | ActivateCustomer uuid bool | DeactivateCustomers "uuid list"
| NewAccount uuid "(string \<times> uuid option \<times> string) option"
| NewBill "quick_bill_form option" | CancelBill uuid bool | RequestNumber uuid bool
| NewEndpoint "(string \<times> string) option"
| TriggerRun bool | ResolveException uuid "string option"
| NewKey "string option" | RotateKey uuid bool | RevokeKey uuid bool

fun desk ::
  "env \<Rightarrow> key_hasher \<Rightarrow> user option \<Rightarrow> uuid option \<Rightarrow> desk_page \<Rightarrow> ('z api_st_scheme, unit) pm" where
  "desk E H u tn (NewCustomer f) = mseq (customer_create E u tn f) (ret ())"
| "desk E H u tn (EditCustomer pk f) = mseq (customer_edit E u tn pk f) (ret ())"
| "desk E H u tn (DeactivateCustomer pk post) = customer_deactivate E u tn pk post"
| "desk E H u tn (ActivateCustomer pk post) = customer_activate E u tn pk post"
| "desk E H u tn (DeactivateCustomers ids) = mseq (customer_bulk_deactivate E u tn ids) (ret ())"
| "desk E H u tn (NewAccount pk f) = mseq (account_create E u tn pk f) (ret ())"
| "desk E H u tn (NewBill f) = mseq (bill_create E u tn f) (ret ())"
| "desk E H u tn (CancelBill pk post) = mseq (bill_cancel E u tn pk post) (ret ())"
| "desk E H u tn (RequestNumber pk post) = mseq (bill_request_control_number E u tn pk post) (ret ())"
| "desk E H u tn (NewEndpoint f) = mseq (endpoint_create E u tn f) (ret ())"
| "desk E H u tn (TriggerRun post) = mseq (trigger_run E u tn post) (ret ())"
| "desk E H u tn (ResolveException pk notes) = resolve_exception_view E u tn pk notes"
| "desk E H u tn (NewKey name) = mseq (credential_create E H u tn name) (ret ())"
| "desk E H u tn (RotateKey pk post) = mseq (credential_rotate E H u tn pk post) (ret ())"
| "desk E H u tn (RevokeKey pk post) = mseq (credential_revoke E u tn pk post) (ret ())"

text \<open>
  Money moves by the endpoints of \<open>Settlement\<close>, which hold those of \<open>PaymentBooks\<close>; the workers
  run their tasks outside a request.
\<close>

datatype platform_event =
  MoneyPage settlement_call
| DeskPage "user option" "uuid option" desk_page
| SignIn session sign_in
| SignOut "user option"
| OwnAccount user own_page
| AdminPage "user option" "uuid option" admin_call
| ApiRequest api_request api_call
| WebhookTask uuid
| NotificationTask uuid
| ExpiryTask "uuid option"

record deployment =
  dp_env :: env
  dp_hasher :: key_hasher
  dp_parsers :: field_parsers
  dp_site :: site
  dp_auth :: "string \<Rightarrow> string \<Rightarrow> user list \<Rightarrow> user option"
  dp_hmac_sha1 :: hmac_sha1
  dp_secret_key :: string
  dp_net :: "nat \<Rightarrow> http_request \<Rightarrow> http_result"
  dp_mailer :: mailer

fun handle :: "deployment \<Rightarrow> platform_event \<Rightarrow> ('z api_st_scheme, unit) pm" where
  "handle D (MoneyPage c) = request (settlement_endpoint (dp_env D) c)"
| "handle D (DeskPage u tn p) = request (desk (dp_env D) (dp_hasher D) u tn p)"
| "handle D (SignIn ses r) = (\<lambda>s. (Inr (),
     snd (visit (dp_env D) (dp_auth D) (si_is_email (dp_site D)) (dp_hmac_sha1 D) (dp_secret_key D) r ses s)))"
| "handle D (SignOut u) = request (mseq (sign_out (dp_env D) u) (ret ()))"
| "handle D (OwnAccount u p) = request (own_account (dp_env D) (dp_hmac_sha1 D) (dp_secret_key D) u p)"
| "handle D (AdminPage u tn c) = request (mseq (admin_view (dp_env D) (dp_site D) u tn c) (ret ()))"
| "handle D (ApiRequest req c) =
     mseq (api_serve (dp_env D) (dp_hasher D) (dp_parsers D) req c) (ret ())"
| "handle D (WebhookTask i) = deliver_webhook (dp_env D) (dp_net D) i"
| "handle D (NotificationTask i) = deliver_notification (dp_env D) (dp_mailer D) i"
| "handle D (ExpiryTask tn) = mseq (expire_overdue (dp_env D) tn) (ret ())"

fun run_platform :: "deployment \<Rightarrow> platform_event list \<Rightarrow> 'z api_st_scheme \<Rightarrow> 'z api_st_scheme" where
  "run_platform D [] s = s"
| "run_platform D (e # es) s = run_platform D es (snd (handle D e s))"

subsection \<open>What every part keeps\<close>

text \<open>
  The interface of a relation between states that the whole platform keeps: it allows the rows of
  the office, the keys and the exceptions, and is kept by the operations that move money. The
  payments that may be queried are the ones in the table.
\<close>

locale platform_frame = number_frame R + people_frame R
  for R :: "'z api_st_scheme \<Rightarrow> 'z api_st_scheme \<Rightarrow> bool" +
  assumes frame_keys: "R s (s\<lparr>api_credentials := ks\<rparr>)"
    and frame_exception_rows: "R s (s\<lparr>reconciliation_exceptions := xs\<rparr>)"
    and money_pages: "upholds R (settlement_endpoint E c)"
    and initiation: "upholds R (initiate_payment E actor k a)"
    and own_query: "upholds R (payment_query_post E pk tenant)"
    and reconciliation: "upholds R (run_reconciliation E tenant actor)"
begin

lemma upholds_keys: "upholds R (update_credential i f)" "upholds R (insert_credential c)"
  unfolding update_credential_def insert_credential_def
  by (intro combinator_rules upholds_if upholds_modify frame_keys)+

lemma upholds_input: "upholds R (checked_input v)"
  unfolding checked_input_def by (intro upholds_case_sum combinator_rules)

lemma upholds_page: "upholds R (api_page F req rows)"
  unfolding api_page_def Let_def by (intro upholds_case_option upholds_if combinator_rules)

lemma upholds_posts:
  "upholds R (customers_post E F data tenant)" "upholds R (accounts_post E F data tenant)"
  "upholds R (bills_post E F data tenant)" "upholds R (bill_control_number_post E pk tenant)"
  "upholds R (payments_post E F req data tenant)" "upholds R (endpoints_post E F data tenant)"
  unfolding customers_post_def accounts_post_def bills_post_def bill_control_number_post_def
    payments_post_def endpoints_post_def own_row_def Let_def
  by (intro combinator_rules upholds_input upholds_case_prod upholds_if upholds_get_or_create_customer
      upholds_get_or_create_account upholds_get_or_create_bill upholds_bill_transition upholds_for_bill
      initiation upholds_modify frame_endpoints)+

lemma upholds_gets_rows:
  "upholds R (institution_get tenant)" "upholds R (customers_get req tenant)" "upholds R (customer_get pk tenant)"
  "upholds R (accounts_get F req tenant)" "upholds R (bills_get req tenant)" "upholds R (bill_get pk tenant)"
  "upholds R (payments_get req tenant)" "upholds R (payment_get pk tenant)" "upholds R (runs_get F req tenant)"
  "upholds R (batches_get F req tenant)" "upholds R (batch_get pk tenant)" "upholds R (endpoints_get tenant)"
  "upholds R (notifications_get F req tenant)"
  unfolding institution_get_def customers_get_def customer_get_def accounts_get_def bills_get_def
    bill_get_def payments_get_def payment_get_def runs_get_def batches_get_def batch_get_def
    endpoints_get_def notifications_get_def shown_def own_row_def the_tenant_def
  by (intro combinator_rules upholds_page upholds_case_prod upholds_case_option)+

lemma upholds_api_handler: "upholds R (api_handler E F req call tenant)"
  by (cases call) (simp_all add: upholds_posts upholds_gets_rows own_query)

lemma upholds_api: "upholds R (api_serve E H F req call)"
  unfolding api_serve_def api_view_def authenticate_def mark_used_def Let_def
  by (intro combinator_rules upholds_api_handler upholds_keys upholds_if upholds_case_option
      upholds_case_prod)

lemma upholds_key_pages:
  "upholds R (credential_create E H u tn name)" "upholds R (credential_rotate E H u tn pk post)"
  "upholds R (credential_revoke E u tn pk post)"
  unfolding credential_create_def create_credential_def credential_rotate_def rotate_credential_def
    credential_revoke_def revoke_credential_def tenant_credential_def require_tenant_role_def Let_def
  by (auto intro!: combinator_rules upholds_if upholds_audit upholds_keys split: option.split prod.split)

lemma upholds_reconciliation_pages:
  "upholds R (trigger_run E u tn post)" "upholds R (resolve_exception_view E u tn pk memo)"
  unfolding trigger_run_def resolve_exception_view_def resolve_exception_def require_tenant_role_def Let_def
  by (intro combinator_rules upholds_if upholds_case_option upholds_modify frame_exception_rows
      upholds_audit1 reconciliation)+

lemma upholds_desk: "upholds R (desk E H u tn p)"
  by (cases p) (auto intro!: combinator_rules upholds_key_pages upholds_reconciliation_pages
      upholds_customer_views upholds_customer_edit upholds_bill_create
      upholds_bill_cancel upholds_bill_request upholds_endpoint_create)

lemma upholds_signing_in: "upholds R (handle D (SignIn ses r))"
  using upholds_visit by (simp add: upholds_def)

lemma upholds_handle: "upholds R (handle D e)"
proof (cases e)
  case (SignIn ses r)
  then show ?thesis
    using upholds_signing_in by simp
qed (auto intro!: combinator_rules money_pages upholds_desk upholds_api upholds_sign_out upholds_own_account
      upholds_admin_view upholds_deliver_webhook upholds_deliver_notification upholds_expire_overdue)

lemma platform_keeps: "R s (run_platform D es s)"
proof (induction es arbitrary: s)
  case (Cons e es)
  have "R s (snd (handle D e s))"
    using upholds_handle unfolding upholds_def by blast
  then have "R s (run_platform D es (snd (handle D e s)))"
    using Cons.IH by (rule rel_trans)
  then show ?case
    by simp
qed (simp add: rel_refl)

end

text \<open>
  Most relations allow every row of these operations whatever it holds; what the operations need of
  such a relation is the following.
\<close>

locale settlement_frame = payment_services_frame R
  for R :: "'z settlement_st_scheme \<Rightarrow> 'z settlement_st_scheme \<Rightarrow> bool" +
  assumes frame_batches: "R s (s\<lparr>settlement_batches := bs\<rparr>)"
    and frame_claims: "R s (s\<lparr>payments := claim_payments ids i (payments s)\<rparr>)"
begin

lemma upholds_generate: "upholds R (generate_settlement_batch E user tenant provider start stop)"
  unfolding generate_settlement_batch_def insert_batch_def the_tenant_def Let_def
  by (intro combinator_rules upholds_if upholds_modify upholds_column upholds_audit frame_batches frame_claims)

lemma upholds_settlement_pages: "upholds R (settlement_endpoint E c)"
proof (cases c)
  case (PaymentRequest pc)
  then show ?thesis
    by (cases pc) (auto intro!: combinator_rules upholds_payment_views)
next
  case (GenerateBatch user form)
  then show ?thesis
    unfolding generate_batch_def require_platform_role_def
    by (auto intro!: combinator_rules upholds_if upholds_case_option upholds_generate
        simp: generate_batch_def require_platform_role_def split: option.split)
next
  case (MarkCompleted user pk form)
  show ?thesis
    unfolding MarkCompleted settlement_endpoint.simps mark_completed_def mark_settlement_completed_def
      save_batch_completion_def require_platform_role_def Let_def
    by (intro combinator_rules upholds_if upholds_case_option upholds_modify frame_batches
        upholds_audit1 upholds_dispatch_event)
qed

end

locale row_frame = settlement_frame R + run_frame R + people_frame R
  for R :: "'z api_st_scheme \<Rightarrow> 'z api_st_scheme \<Rightarrow> bool" +
  assumes frame_credentials: "R s (s\<lparr>api_credentials := ks\<rparr>)"

sublocale row_frame \<subseteq> platform_frame R
proof unfold_locales
  show "upholds R (payment_query_post E pk tenant)" for E pk tenant
    unfolding payment_query_post_def own_row_def by (intro combinator_rules upholds_query)
qed (rule frame_credentials frame_exceptions upholds_settlement_pages upholds_initiate upholds_reconciliation)+

text \<open>The financial logs and the audit log only grow.\<close>

interpretation platform_logs: row_frame logs_grow
  by unfold_locales (auto simp: logs_grow_def later_def intro: suffix_ConsI)

subsection \<open>The books stay balanced\<close>

abbreviation stay_settled ::
  "payment list \<Rightarrow> settle_view \<Rightarrow> 'z settlement_st_scheme \<Rightarrow> 'z settlement_st_scheme \<Rightarrow> bool" where
  "stay_settled old vold \<equiv> keeps (settled old vold)"

lemma keepsI:
  fixes m :: "('z revenue_st_scheme, 'a) pm"
  assumes "upholds logs_grow m" and "\<And>s. I s \<Longrightarrow> wpx m (\<lambda>_. I) (\<lambda>_. I) s"
  shows "upholds (keeps I) m"
proof (rule upholdsI)
  fix s
  note grow = upholds_wpx [OF assms(1), of s]
  show "wpx m (\<lambda>_. keeps I s) (\<lambda>_. keeps I s) s"
  proof (cases "I s")
    case True
    show ?thesis
      by (rule wpx_mono [OF wpx_conj [OF grow assms(2) [OF True]]]) (simp_all add: keeps_def logs_grow_def)
  qed (rule wpx_mono [OF grow], simp_all add: keeps_def logs_grow_def)
qed

lemma stay_settled_rows: "same settle_rows s t \<Longrightarrow> stay_settled old vold s t"
  by (auto simp: keeps_def same_def intro: settled_same_rows [unfolded same_def])

lemma settled_fee:
  assumes "settled old vold s"
  shows "re_event_type ev \<noteq> RE_PAYMENT_SUCCESSFUL \<Longrightarrow> re_source ev = (MControlNumber, i) \<Longrightarrow>
      settled old vold (earned ev s)"
    and "le_entry_type e = PLATFORM_CONTROL_NUMBER_FEE \<Longrightarrow> le_source e = Some (MControlNumber, i) \<Longrightarrow>
      settled old vold (posted e s)"
proof -
  have kept: "books old s" "batches vold s"
    using assms by (simp_all add: settled_def)
  have "batches vold (earned ev s)" "batches vold (posted e s)"
    using kept(2) by (auto simp: batches_def posted_def earned_def elim: batches_mono)
  then show "re_event_type ev \<noteq> RE_PAYMENT_SUCCESSFUL \<Longrightarrow> re_source ev = (MControlNumber, i) \<Longrightarrow>
      settled old vold (earned ev s)"
    and "le_entry_type e = PLATFORM_CONTROL_NUMBER_FEE \<Longrightarrow> le_source e = Some (MControlNumber, i) \<Longrightarrow>
      settled old vold (posted e s)"
    using books_earned [OF kept(1), of ev] books_posted [OF kept(1), of e] by (simp_all add: settled_def)
qed

lemma number_fee_settled:
  "upholds (stay_settled old vold) (record_control_number_created E cn)"
  "upholds (stay_settled old vold) (record_control_number_reused E cn)"
  by (rule keepsI [OF revenue_logs.upholds_revenue(1)],
      auto simp: record_control_number_created_def Let_def split: option.split intro!: settled_fee)
     (rule keepsI [OF revenue_logs.upholds_revenue(2)],
      auto simp: record_control_number_reused_def Let_def split: option.split intro!: settled_fee)


lemma query_settled: "upholds (stay_settled old vold) (payment_query_post E pk tenant)"
proof (rule keepsI [OF platform_logs.own_query])
  fix s :: "'z api_st_scheme"
  assume s: "settled old vold s"
  have "keeps_settled old vold (query_payment E actor p) s" if "p \<in> set (payments s)" for p actor
    by (rule settled_frame [OF settlement_news.upholds_query s query_keeps_books])
       (use s that in \<open>auto simp: settled_def intro: books_member\<close>)
  then show "keeps_settled old vold (payment_query_post E pk tenant) s"
    using s by (auto simp: payment_query_post_def own_row_def wpx_eta split: option.split dest: find_Some_D)
qed

interpretation platform_books: platform_frame "stay_settled old vold" for old vold
proof unfold_locales
  show "upholds (stay_settled old vold) (settlement_endpoint E c :: ('a api_st_scheme, unit) pm)" for E c
    by (rule keepsI) (rule platform_logs.upholds_settlement_pages, rule endpoint_keeps_settled)
  show "upholds (stay_settled old vold) (initiate_payment E actor k a)" for E actor k a
    by (rule keepsI [OF payment_logs.upholds_initiate settled_frame [OF settlement_news.upholds_initiate]])
       (simp_all add: settled_def initiate_keeps_books)
  show "upholds (stay_settled old vold) (run_reconciliation E tid actor)" for E tid actor
    by (rule keepsI [OF run_logs.upholds_reconciliation reconciliation_keeps_settled])
  show "stay_settled old vold s t \<Longrightarrow> stay_settled old vold t u \<Longrightarrow> stay_settled old vold s u" for s t u :: "'a api_st_scheme"
    by (auto simp: keeps_def intro: later_trans)
  show "stay_settled old vold s t \<Longrightarrow> later s t" for s t :: "'a api_st_scheme"
    by (simp add: keeps_def)
qed (auto simp: number_fee_settled query_settled intro!: stay_settled_rows
      simp: later_def same_def settle_rows_def)

text \<open>
  C1 (\<open>apps/payments\<close>, \<open>apps/settlement\<close>, \<open>apps/reconciliation\<close>, \<open>apps/billing\<close>,
  \<open>apps/control_numbers\<close>, \<open>apps/customers\<close>, \<open>apps/accounts\<close>, \<open>apps/tenants\<close>, \<open>apps/users\<close>,
  \<open>apps/api\<close>): start from books in balance and let anything happen in any order: pages of the
  portal, people signing in, registering and being administered, calls of the external API, callbacks
  of the provider, batch generations, reconciliation runs, and the tasks of the workers, each failing
  or not. Then the ledger, the revenue log and the audit log have only grown; no payment is lost and its
  status only moved along the table; every payment that ever succeeded has its two entries, its fee
  entry and its fee event exactly once, every other payment none; and every settlement batch shows
  the sum of its payments less 50.00 for each.
\<close>

theorem platform_books_balance:
  assumes "books (payments s) s" and "batches (settle_view (payments s)) s" and "u = run_platform D es s"
  shows "suffix (ledger_entries s) (ledger_entries u) \<and> suffix (revenue_events s) (revenue_events u) \<and>
    suffix (audit_logs s) (audit_logs u) \<and>
    (\<forall>q \<in> set (payments s). \<exists>r. row_get p_id (p_id q) (payments u) = Some r \<and>
        leads_to (p_status q) (p_status r)) \<and>
    (\<forall>q \<in> set (payments u). balanced (ledger_entries u) (revenue_events u) q) \<and>
    (\<forall>b \<in> set (settlement_batches u).
        let ps = filter (\<lambda>p. p_settlement_batch p = Some (sb_id b)) (payments u) in
        sb_gross_amount b = sum_list (map p_amount ps) \<and>
        sb_net_amount b = (\<Sum>p\<leftarrow>ps. p_amount p - 5000))"
proof -
  have "stay_settled (payments s) (settle_view (payments s)) s u" and logs: "logs_grow s u"
    unfolding assms(3) by (rule platform_books.platform_keeps platform_logs.platform_keeps)+
  then have kept: "books (payments s) u" "batches (settle_view (payments s)) u"
    using assms(1,2) by (simp_all add: keeps_def settled_def)
  have right: "totals_right (settle_view (payments u)) b" if "b \<in> set (settlement_batches u)" for b
    using kept(2) that by (simp add: batches_def batches_at_def)
  have net: "(\<Sum>p\<leftarrow>ps. p_amount p - 5000) = sum_list (map p_amount ps) - 5000 * int (length ps)" for ps
    by (induction ps) simp_all
  show ?thesis
    using right logs books_atD(5,6) [OF kept(1) [unfolded books_def]]
    by (auto simp: totals_right_def batch_amounts_view batch_members_def Let_def logs_grow_def progress_def net)
qed


text \<open>One settled payment, and a day on which staff, a client, the provider and the workers act.\<close>

definition example_platform_st :: api_st where
  "example_platform_st = reconciliation_st.extend (settlement_st.extend example_settled_st
     (reconciliation_st.fields [] [])) (api_st.fields [])"

lemma example_platform_simps [simp]:
  "payments example_platform_st = [settled_payment\<lparr>p_settlement_batch := Some (Uuid 8)\<rparr>]"
  "settlement_batches example_platform_st = [example_batch]"
  "draws example_platform_st = 9"
  "ledger_entries example_platform_st = ledger_entries example_settlement_st"
  "revenue_events example_platform_st = revenue_events example_settlement_st"
  by (simp_all add: example_platform_st_def example_settled_st_def example_settlement_st_def
      example_payment_st_def example_provider_st_def example_cn_st_def example_revenue_st_def
      example_billing_st_def reconciliation_st.defs settlement_st.defs api_st.defs payment_st.defs
      provider_st.defs control_number_st.defs revenue_st.defs ledger_st.defs billing_st.defs)

lemma example_platform_books:
  "books (payments example_platform_st) example_platform_st"
  "batches (settle_view (payments example_platform_st)) example_platform_st"
proof -
  have st: "draws example_settled_st = 9" "payments example_settled_st = payments example_platform_st"
    "ledger_entries example_settled_st = ledger_entries example_platform_st"
    "revenue_events example_settled_st = revenue_events example_platform_st"
    "settlement_batches example_settled_st = settlement_batches example_platform_st"
    by (simp_all add: example_settled_st_def)
  show "books (payments example_platform_st) example_platform_st"
    "batches (settle_view (payments example_platform_st)) example_platform_st"
    using example_settled_books by (simp_all add: books_def batches_def st del: example_platform_simps(1,2,4,5))
qed

definition example_deployment :: deployment where
  "example_deployment = \<lparr>dp_env = example_env, dp_hasher = plain_hasher, dp_parsers = example_parsers,
     dp_site = example_site, dp_auth = example_auth, dp_hmac_sha1 = example_hm, dp_secret_key = ''k'', dp_net = \<lambda>_ _. HttpFailed [], dp_mailer = \<lambda>_ _. None\<rparr>"

definition example_day :: "platform_event list" where
  "example_day = [ApiRequest example_request (ResolvePayment (Uuid 5)), MoneyPage (MarkCompleted None (Uuid 8) (Some ''BANK-1'')),
     SignIn signed_out (Password None ''home'' (''a@b.c'', ''pw'')), AdminPage None None PendingTenants,
     DeskPage None (Some (Uuid 0)) (TriggerRun True), WebhookTask (Uuid 1), ExpiryTask None,
     MoneyPage (PaymentRequest (ProviderCallback ''b'' ''s''))]"

theorem platform_books_balance_witness:
  "\<exists>u. u = run_platform example_deployment example_day example_platform_st \<and>
     suffix (ledger_entries example_platform_st) (ledger_entries u) \<and>
     (\<exists>q \<in> set (payments u). p_id q = Uuid 5 \<and> leads_to SUCCESSFUL (p_status q))"
proof -
  note kept = platform_books_balance [OF example_platform_books refl, of example_deployment example_day]
  have "\<exists>r. row_get p_id (Uuid 5) (payments (run_platform example_deployment example_day example_platform_st)) = Some r \<and>
      leads_to SUCCESSFUL (p_status r)"
    using kept by (auto simp: settled_payment_def example_payment_def)
  with kept show ?thesis
    by (auto dest!: row_get_SomeD)
qed

subsection \<open>Retried initiations\<close>

text \<open>
  The payments under an idempotency key, by their ids. Once there is one, no operation adds another:
  the insertion of a payment refuses a key that is taken.
\<close>

definition under_key :: "uuid \<times> string \<Rightarrow> payment list \<Rightarrow> uuid list" where
  "under_key k ps = map p_id (filter (\<lambda>p. p_tenant p = fst k \<and> p_idempotency_key p = snd k) ps)"

definition key_settled :: "uuid \<times> string \<Rightarrow> 'z payment_st_scheme \<Rightarrow> 'z payment_st_scheme \<Rightarrow> bool" where
  "key_settled k s t \<longleftrightarrow> later s t \<and>
     (snd k \<noteq> [] \<longrightarrow> under_key k (payments s) \<noteq> [] \<longrightarrow> under_key k (payments t) = under_key k (payments s))"

lemma under_key_map:
  assumes "\<And>p. p_id (f p) = p_id p \<and> p_tenant (f p) = p_tenant p \<and> p_idempotency_key (f p) = p_idempotency_key p"
  shows "under_key k (map f ps) = under_key k ps"
  by (induction ps) (simp_all add: under_key_def assms)

lemma under_key_update:
  assumes "\<And>q. identity (f q) = identity q"
  shows "under_key k (row_update p_id i f ps) = under_key k ps"
  unfolding row_update_def by (rule under_key_map) (use assms in \<open>auto simp: identity_def\<close>)

lemma under_key_found:
  assumes "snd k \<noteq> []"
  shows "map_option p_id (find_payment k s) = (case under_key k (payments s) of [] \<Rightarrow> None | i # is \<Rightarrow> Some i)"
proof -
  have "map_option p_id (List.find P ps) = (case map p_id (filter P ps) of [] \<Rightarrow> None | i # is \<Rightarrow> Some i)" for P and ps :: "payment list"
    by (induction ps) simp_all
  then show ?thesis
    using assms by (simp add: find_payment_def under_key_def)
qed

lemma insert_key_settled: "upholds (key_settled k) (insert_payment E p)"
proof (rule upholdsI)
  fix s :: "'z payment_st_scheme"
  have new: "under_key k (q # payments s) = under_key k (payments s)"
    if "find_payment (p_tenant q, p_idempotency_key q) s = None" "snd k \<noteq> []" "under_key k (payments s) \<noteq> []" for q
    using that under_key_found [of k s] by (cases "(p_tenant q, p_idempotency_key q) = k")
      (auto simp: under_key_def split: list.splits)
  have find: "find_payment k' (s\<lparr>draws := n\<rparr>) = find_payment k' s" for k' n
    by (simp add: find_payment_def)
  show "wpx (insert_payment E p) (\<lambda>_. key_settled k s) (\<lambda>_. key_settled k s) s"
    by (auto simp: insert_payment_def Let_def key_settled_def later_def find intro!: new)
qed

interpretation key_postings: row_postings_frame "key_settled k" for k
  by unfold_locales (auto simp: key_settled_def later_def)

interpretation key_services: payment_services_frame "key_settled k" for k
  by unfold_locales (auto simp: key_settled_def later_def under_key_update insert_key_settled)

interpretation keys_settled: row_frame "key_settled k" for k
proof unfold_locales
  show "key_settled k s (s\<lparr>payments := claim_payments ids i (payments s)\<rparr>)" for k ids i and s :: "'a api_st_scheme"
    by (simp add: key_settled_def later_def claim_payments_def under_key_map)
qed (auto simp: key_settled_def later_def)

text \<open>
  C15 (\<open>initiate_payment\<close>): once an initiation under a non-blank idempotency key has answered with a
  payment, let anything happen on the platform, in any order: pages, API calls, callbacks, queries,
  refunds, batches, reconciliation runs, other initiations and retries of this one. A further
  initiation under the key succeeds with the same payment, whatever its other arguments and whoever
  sends it, contacts no provider and changes nothing but the audit log; and no second payment has
  come to carry the key.
\<close>

theorem initiation_idempotent:
  assumes "snd k \<noteq> []" and "initiate_payment E actor k a s = (Inr p, t)"
    and "u = run_platform D es t"
  shows "\<exists>r v. initiate_payment E2 actor2 k a2 u = (Inr r, v) \<and> p_id r = p_id p \<and> r \<in> set (payments u) \<and>
    business v = business u \<and>
    (\<exists>al. audit_logs v = al # audit_logs u \<and> al_action al = ''payment.initiation_deduplicated'') \<and>
    under_key k (payments u) = under_key k (payments t)"
proof -
  obtain q where "find_payment k t = Some q" "p_id q = p_id p"
    using wpx_result(1) [OF initiate_key [OF assms(1)] assms(2)] by (auto simp: holds_key_def)
  then obtain "is" where t: "under_key k (payments t) = p_id p # is"
    using under_key_found [OF assms(1), of t] by (auto split: list.splits)
  have "key_settled k t u"
    unfolding assms(3) by (rule keys_settled.platform_keeps)
  then have u: "under_key k (payments u) = under_key k (payments t)"
    using t assms(1) by (simp add: key_settled_def)
  then obtain r where r: "find_payment k u = Some r" "p_id r = p_id p"
    using under_key_found [OF assms(1), of u] t by auto
  moreover have "r \<in> set (payments u)"
    using r(1) by (auto simp: find_payment_def dest: find_Some_D split: if_splits)
  ultimately show ?thesis
    using u initiate_again [OF r(1), of E2 actor2 a2] by force
qed

definition quiet_st :: api_st where
  "quiet_st = reconciliation_st.extend (reconciled_st [] [] []) (api_st.fields [])"

theorem initiation_idempotent_witness:
  "\<exists>p t r v. initiate_payment example_env None (Uuid 0, ''K'') example_pay_args quiet_st = (Inr p, t) \<and>
     initiate_payment example_env None (Uuid 0, ''K'') (example_pay_args\<lparr>pg_amount := 1\<rparr>)
       (run_platform example_deployment [MoneyPage (PaymentRequest (QueryPayment None None (p_id p) True)),
          ExpiryTask None] t) = (Inr r, v) \<and> p_id r = p_id p"
proof -
  have "succeeds (initiate_payment example_env None (Uuid 0, ''K'') example_pay_args) (\<lambda>_ _. True) quiet_st"
    by (rule wpx_mono [OF initiate_timeout [where t = example_tenant and cn = "example_cn (OwnerBill (Uuid 3))"]])
       (auto simp: find_payment_def example_pay_args_def example_provider_def outcome_hint_def
        example_tenant_def example_cn_def references_fresh_def quiet_st_def reconciled_st_def open_st_def
        example_payment_st_def example_provider_st_def example_cn_st_def
        example_revenue_st_def example_billing_st_def payment_st.defs provider_st.defs
        control_number_st.defs revenue_st.defs ledger_st.defs billing_st.defs settlement_st.defs reconciliation_st.defs api_st.defs)
  then obtain p t where p: "initiate_payment example_env None (Uuid 0, ''K'') example_pay_args quiet_st = (Inr p, t)"
    by (auto simp: succeeds_iff)
  from initiation_idempotent [OF _ p refl, of example_env None "example_pay_args\<lparr>pg_amount := 1\<rparr>" example_deployment
      "[MoneyPage (PaymentRequest (QueryPayment None None (p_id p) True)), ExpiryTask None]"] p
  show ?thesis
    by auto
qed

end
