(* ===== verification/Reports.thy ===== *)
theory Reports
  imports Reconciliation
begin

text \<open>
  The reports and their CSV files (\<open>apps/reports\<close>), the revenue and ledger pages and the dashboards
  of an institution. Pages are functions of the state: they write nothing. \<open>rp_created\<close> gives the
  \<open>created_at\<close> of a row whose record leaves it out, \<open>rp_datetime\<close> the text of a time.
\<close>

record report_env =
  rp_created :: "uuid \<Rightarrow> time"
  rp_datetime :: "time \<Rightarrow> string"

record report_query =
  rq_status :: string
  rq_date_from :: string
  rq_date_to :: string
  rq_format :: string
  rq_action :: string
  rq_entry_type :: string
  rq_page :: "int option"

datatype 'p report = NoAccess | Page 'p | CsvFile string string

subsection \<open>CSV files\<close>

text \<open>The \<open>excel\<close> dialect of \<open>csv.writer\<close>: minimal quoting, a lone empty cell is quoted.\<close>

definition csv_special :: string where
  "csv_special = [CHR '','', CHR 0x22, CHR 0x0D, CHR 0x0A]"

definition csv_quoted :: "string \<Rightarrow> string" where
  "csv_quoted t = CHR 0x22 # concat (map (\<lambda>c. if c = CHR 0x22 then [c, c] else [c]) t) @ [CHR 0x22]"

definition csv_field :: "string \<Rightarrow> string" where
  "csv_field t = (if list_ex (\<lambda>c. c \<in> set csv_special) t then csv_quoted t else t)"

fun csv_cells :: "string list \<Rightarrow> string" where
  "csv_cells [] = []"
| "csv_cells [t] = csv_field t"
| "csv_cells (t # u # ts) = csv_field t @ CHR '','' # csv_cells (u # ts)"

definition csv_row :: "string list \<Rightarrow> string" where
  "csv_row ts = (if ts = [[]] then csv_quoted [] else csv_cells ts) @ [CHR 0x0D, CHR 0x0A]"

definition csv_text :: "string list list \<Rightarrow> string" where
  "csv_text rows = concat (map csv_row rows)"

definition render_csv :: "string \<Rightarrow> string list \<Rightarrow> string list list \<Rightarrow> 'p report" where
  "render_csv filename header rows = CsvFile filename (csv_text (header # rows))"

subsection \<open>Dates\<close>

text \<open>\<open>datetime.strptime(value, "%Y-%m-%d").date()\<close> as a day number, \<open>date.toordinal\<close>.\<close>

definition is_digit :: "char \<Rightarrow> bool" where
  "is_digit c \<longleftrightarrow> c \<in> set ''0123456789''"

definition number_of :: "string \<Rightarrow> nat" where
  "number_of t = foldl (\<lambda>n c. 10 * n + (of_char c - 48)) 0 t"

definition leap :: "nat \<Rightarrow> bool" where
  "leap y \<longleftrightarrow> y mod 4 = 0 \<and> (y mod 100 \<noteq> 0 \<or> y mod 400 = 0)"

definition month_lengths :: "nat \<Rightarrow> nat list" where
  "month_lengths y = [31, if leap y then 29 else 28, 31, 30, 31, 30, 31, 31, 30, 31, 30, 31]"

definition ordinal_day :: "nat \<Rightarrow> nat \<Rightarrow> nat \<Rightarrow> int" where
  "ordinal_day y m d = int ((y - 1) * 365 + (y - 1) div 4 - (y - 1) div 100 + (y - 1) div 400
     + sum_list (take (m - 1) (month_lengths y)) + d)"

definition day_text :: "string \<Rightarrow> bool" where
  "day_text t \<longleftrightarrow> (list_all is_digit t \<and> length t \<in> {1, 2}) \<or>
     (\<exists>c \<in> set (drop 1 t). t = [CHR '' '', c] \<and> is_digit c)"

definition split_date :: "string \<Rightarrow> (string \<times> string \<times> string) option" where
  "split_date v =
     (let y = takeWhile (\<lambda>c. c \<noteq> CHR ''-'') v; r = drop 1 (dropWhile (\<lambda>c. c \<noteq> CHR ''-'') v);
          m = takeWhile (\<lambda>c. c \<noteq> CHR ''-'') r; d = drop 1 (dropWhile (\<lambda>c. c \<noteq> CHR ''-'') r) in
      if length y = 4 \<and> list_all is_digit y \<and> length m \<in> {1, 2} \<and> list_all is_digit m \<and> day_text d
      then Some (y, m, d) else None)"

definition parse_date :: "string \<Rightarrow> int option" where
  "parse_date v = (case split_date v of None \<Rightarrow> None
     | Some (y, m, d) \<Rightarrow>
         let yn = number_of y; mn = number_of m; dn = number_of (filter is_digit d) in
         if 1 \<le> yn \<and> 1 \<le> mn \<and> mn \<le> 12 \<and> 1 \<le> dn \<and> dn \<le> month_lengths yn ! (mn - 1)
         then Some (ordinal_day yn mn dn) else None)"

text \<open>Times are seconds of UTC since 1970.\<close>

definition date_of :: "time \<Rightarrow> int" where
  "date_of t = 719163 + t div 86400"

definition in_dates :: "report_query \<Rightarrow> time \<Rightarrow> bool" where
  "in_dates q t \<longleftrightarrow>
     (case parse_date (rq_date_from q) of None \<Rightarrow> True | Some d \<Rightarrow> d \<le> date_of t) \<and>
     (case parse_date (rq_date_to q) of None \<Rightarrow> True | Some d \<Rightarrow> date_of t \<le> d)"

text \<open>A missing time passes only where no date is asked for.\<close>

definition in_dates_opt :: "report_query \<Rightarrow> time option \<Rightarrow> bool" where
  "in_dates_opt q t = (case t of
     None \<Rightarrow> parse_date (rq_date_from q) = None \<and> parse_date (rq_date_to q) = None
   | Some x \<Rightarrow> in_dates q x)"

definition has_status :: "string \<Rightarrow> string \<Rightarrow> bool" where
  "has_status wanted status \<longleftrightarrow> wanted = [] \<or> status = wanted"

subsection \<open>The reports\<close>

definition account_name :: "'z reconciliation_st_scheme \<Rightarrow> bill \<Rightarrow> string" where
  "account_name s b = (case row_get ca_id (b_customer_account b) (customer_accounts s) of
     None \<Rightarrow> [] | Some a \<Rightarrow> ca_name a)"

definition bills_report ::
  "report_env \<Rightarrow> env \<Rightarrow> uuid option \<Rightarrow> report_query \<Rightarrow> 'z reconciliation_st_scheme \<Rightarrow> (bill list \<times> money) report" where
  "bills_report P E tenant q s = (case tenant of None \<Rightarrow> NoAccess
     | Some tid \<Rightarrow>
         let bs = filter (\<lambda>b. in_dates q (rp_created P (b_id b)))
               (filter (\<lambda>b. has_status (rq_status q) (bill_status_value (b_status b)))
               (filter (\<lambda>b. b_tenant b = tid) (bills s))) in
         if rq_format q = ''csv''
         then render_csv ''bills.csv'' [''Bill number'', ''Customer account'', ''Status'', ''Total'', ''Currency'', ''Created'']
           (map (\<lambda>b. [b_bill_number b, account_name s b, bill_status_value (b_status b),
              e_str_dec E (b_total_amount b), b_currency b, rp_datetime P (rp_created P (b_id b))]) bs)
         else Page (take 500 bs, sum_list (map b_total_amount bs)))"

definition number_value :: "'z reconciliation_st_scheme \<Rightarrow> payment \<Rightarrow> string" where
  "number_value s p = (case row_get cn_id (p_control_number p) (control_numbers s) of
     None \<Rightarrow> [] | Some cn \<Rightarrow> cn_value cn)"

definition provider_code :: "'z reconciliation_st_scheme \<Rightarrow> payment \<Rightarrow> string" where
  "provider_code s p = (case row_get pp_id (p_provider p) (payment_providers s) of
     None \<Rightarrow> [] | Some pr \<Rightarrow> pp_code pr)"

definition payments_report ::
  "report_env \<Rightarrow> env \<Rightarrow> uuid option \<Rightarrow> report_query \<Rightarrow> 'z reconciliation_st_scheme \<Rightarrow>
   (payment list \<times> money) report" where
  "payments_report P E tenant q s = (case tenant of None \<Rightarrow> NoAccess
     | Some tid \<Rightarrow>
         let ps = sort_key (\<lambda>p. - p_initiated_at p) (filter (\<lambda>p. in_dates q (p_initiated_at p))
               (filter (\<lambda>p. has_status (rq_status q) (payment_status_value (p_status p)))
               (filter (\<lambda>p. p_tenant p = tid) (payments s)))) in
         if rq_format q = ''csv''
         then render_csv ''payments.csv''
           [''Reference'', ''Control number'', ''Status'', ''Amount'', ''Currency'', ''Provider'', ''Initiated'']
           (map (\<lambda>p. [p_merchant_reference p, number_value s p, payment_status_value (p_status p),
              e_str_dec E (p_amount p), p_currency p, provider_code s p, rp_datetime P (p_initiated_at p)]) ps)
         else Page (take 500 ps, sum_list (map p_amount ps)))"

record collections =
  cr_payment_count :: nat
  cr_gross :: money
  cr_platform_revenue :: money
  cr_net_to_institution :: money

definition collections_report ::
  "report_env \<Rightarrow> uuid option \<Rightarrow> report_query \<Rightarrow> 'z reconciliation_st_scheme \<Rightarrow> collections report" where
  "collections_report P tenant q s = (case tenant of None \<Rightarrow> NoAccess
     | Some tid \<Rightarrow>
         let ps = filter (\<lambda>p. in_dates_opt q (p_completed_at p))
               (filter (\<lambda>p. p_tenant p = tid \<and> p_status p = SUCCESSFUL) (payments s));
             gross = sum_list (map p_amount ps);
             evs = filter (\<lambda>e. in_dates q (rp_created P (re_id e)))
               (filter (\<lambda>e. re_tenant e = tid) (revenue_events s)) in
         Page \<lparr>cr_payment_count = length ps, cr_gross = gross,
               cr_platform_revenue = sum_list (map re_amount evs), cr_net_to_institution = gross\<rparr>)"

definition outstanding_balances_report ::
  "env \<Rightarrow> uuid option \<Rightarrow> report_query \<Rightarrow> 'z reconciliation_st_scheme \<Rightarrow> ((bill \<times> money) list \<times> money) report" where
  "outstanding_balances_report E tenant q s = (case tenant of None \<Rightarrow> NoAccess
     | Some tid \<Rightarrow>
         let bs = filter (\<lambda>b. b_tenant b = tid \<and> b_status b \<in> {ACTIVE, PARTIALLY_PAID}) (bills s);
             rows = filter (\<lambda>r. 0 < snd r) (map (\<lambda>b. (b, balance s b)) bs) in
         if rq_format q = ''csv''
         then render_csv ''outstanding_balances.csv'' [''Bill number'', ''Customer account'', ''Total'', ''Balance'', ''Currency'']
           (map (\<lambda>(b, r). [b_bill_number b, account_name s b, e_str_dec E (b_total_amount b), e_str_dec E r, b_currency b]) rows)
         else Page (rows, sum_list (map snd rows)))"

definition audit_report ::
  "report_env \<Rightarrow> uuid option \<Rightarrow> report_query \<Rightarrow> 'z audit_st_scheme \<Rightarrow> audit_record list report" where
  "audit_report P tenant q s = (case tenant of None \<Rightarrow> NoAccess
     | Some tid \<Rightarrow>
         let evs = sort_key (\<lambda>r. - al_created_at r) (filter (\<lambda>r. in_dates q (al_created_at r))
               (filter (\<lambda>r. rq_action q = [] \<or> icontains (al_action r) (rq_action q))
               (filter (\<lambda>r. al_tenant r = Some tid) (audit_logs s)))) in
         if rq_format q = ''csv''
         then render_csv ''audit_events.csv'' [''Date'', ''Action'', ''Actor'', ''Correlation ID'']
           (map (\<lambda>r. [rp_datetime P (al_created_at r), al_action r,
              if al_actor_label r = [] then ''system'' else al_actor_label r, al_correlation_id r]) evs)
         else Page (get_page 50 evs (rq_page q)))"

subsection \<open>Revenue and ledger pages\<close>

text \<open>\<open>values(key).annotate(Sum, Count)\<close>, ordered by the key.\<close>

definition grouped :: "('e \<Rightarrow> string) \<Rightarrow> ('e \<Rightarrow> money) \<Rightarrow> 'e list \<Rightarrow> (string \<times> money \<times> nat) list" where
  "grouped key amount es = map (\<lambda>k. let g = filter (\<lambda>e. key e = k) es in
     (k, sum_list (map amount g), length g)) (sort (remdups (map key es)))"

abbreviation revenue_breakdown :: "revenue_event list \<Rightarrow> (string \<times> money \<times> nat) list" where
  "revenue_breakdown \<equiv> grouped (\<lambda>e. revenue_event_value (re_event_type e)) re_amount"

definition tenant_revenue_summary ::
  "uuid option \<Rightarrow> 'z reconciliation_st_scheme \<Rightarrow> ((string \<times> money \<times> nat) list \<times> money) report" where
  "tenant_revenue_summary tenant s = (case tenant of None \<Rightarrow> NoAccess
     | Some tid \<Rightarrow>
         let rows = revenue_breakdown (filter (\<lambda>e. re_tenant e = tid) (revenue_events s)) in
         Page (rows, sum_list (map (\<lambda>r. fst (snd r)) rows)))"

text \<open>The order of institutions with the same total is the database's.\<close>

definition platform_revenue_dashboard ::
  "user option \<Rightarrow> ('z reconciliation_st_scheme,
     (string \<times> money \<times> nat) list \<times> money \<times> (string \<times> money) list) pm" where
  "platform_revenue_dashboard user = require_platform_role [SUPER_ADMIN, FINANCE_ADMIN] user
     (gets (\<lambda>s. let rows = revenue_breakdown (revenue_events s);
        by_tenant = map (\<lambda>(n, total_amount, k). (n, total_amount))
          (grouped (\<lambda>e. tenant_name s (re_tenant e)) re_amount (revenue_events s)) in
        (rows, sum_list (map (\<lambda>r. fst (snd r)) rows), take 20 (sort_key (\<lambda>r. - snd r) by_tenant))))"

text \<open>Oldest entries first, as the table is ordered.\<close>

fun entry_type_value :: "entry_type \<Rightarrow> string" where
  "entry_type_value BILL_AMOUNT = ''bill_amount''"
| "entry_type_value PAYMENT_RECEIVED = ''payment_received''"
| "entry_type_value INSTITUTION_ENTITLEMENT = ''institution_entitlement''"
| "entry_type_value PLATFORM_CONTROL_NUMBER_FEE = ''platform_control_number_fee''"
| "entry_type_value PLATFORM_PAYMENT_FEE = ''platform_payment_fee''"
| "entry_type_value PROVIDER_FEE = ''provider_fee''"
| "entry_type_value REFUND = ''refund''"
| "entry_type_value REVERSAL = ''reversal''"
| "entry_type_value SETTLEMENT = ''settlement''"
| "entry_type_value ADJUSTMENT = ''adjustment''"

definition ledger_list ::
  "uuid option \<Rightarrow> report_query \<Rightarrow> 'z reconciliation_st_scheme \<Rightarrow> ledger_entry list report" where
  "ledger_list tenant q s = (case tenant of None \<Rightarrow> NoAccess
     | Some tid \<Rightarrow> Page (take 200 (filter (\<lambda>e. has_status (rq_entry_type q) (entry_type_value (le_entry_type e)))
         (rev (filter (\<lambda>e. le_tenant e = tid) (ledger_entries s))))))"

subsection \<open>Dashboards\<close>

record tenant_dashboard =
  td_member_count :: nat
  td_customer_count :: nat
  td_bill_count :: nat
  td_control_number_count :: nat
  td_gross_collected :: money
  td_platform_fees_paid :: money
  td_open_exception_count :: nat
  td_recent_payments :: "payment list"

definition dashboard_page :: "uuid option \<Rightarrow> 'z reconciliation_st_scheme \<Rightarrow> tenant_dashboard report" where
  "dashboard_page tenant s = (case tenant of None \<Rightarrow> NoAccess
     | Some tid \<Rightarrow> Page
         \<lparr>td_member_count = length (filter (\<lambda>m. tm_tenant m = tid \<and> tm_is_active m) (tenant_memberships s)),
          td_customer_count = length (filter (\<lambda>c. c_tenant c = tid) (customers s)),
          td_bill_count = length (filter (\<lambda>b. b_tenant b = tid) (bills s)),
          td_control_number_count = length (filter (\<lambda>c. cn_tenant c = tid) (control_numbers s)),
          td_gross_collected = sum_list (map p_amount
            (filter (\<lambda>p. p_tenant p = tid \<and> p_status p = SUCCESSFUL) (payments s))),
          td_platform_fees_paid = sum_list (map re_amount (filter (\<lambda>e. re_tenant e = tid) (revenue_events s))),
          td_open_exception_count = length (filter (\<lambda>x. rx_tenant x = tid \<and> rx_status x = ExceptionOpen)
            (reconciliation_exceptions s)),
          td_recent_payments = take 5 (sort_key (\<lambda>p. - p_initiated_at p)
            (filter (\<lambda>p. p_tenant p = tid) (payments s)))\<rparr>)"

record platform_dashboard =
  pd_total_tenants :: nat
  pd_active_tenants :: nat
  pd_pending_tenants :: nat
  pd_users_with_access :: nat
  pd_platform_revenue :: money
  pd_successful_payments :: nat
  pd_open_exceptions :: nat

definition platform_dashboard_page :: "user option \<Rightarrow> ('z reconciliation_st_scheme, platform_dashboard) pm" where
  "platform_dashboard_page user =
     (if \<not> (case user of Some u \<Rightarrow> u_is_staff u | None \<Rightarrow> False)
      then raise (PermissionDenied ''Platform dashboard is restricted to platform staff.'')
      else gets (\<lambda>s.
        \<lparr>pd_total_tenants = length (tenants s),
         pd_active_tenants = length (filter (\<lambda>t. t_status t = TenantActive) (tenants s)),
         pd_pending_tenants = length (filter (\<lambda>t. t_status t = TenantPending) (tenants s)),
         pd_users_with_access = length (filter tm_is_active (tenant_memberships s)),
         pd_platform_revenue = sum_list (map re_amount (revenue_events s)),
         pd_successful_payments = length (filter (\<lambda>p. p_status p = SUCCESSFUL) (payments s)),
         pd_open_exceptions = length (filter (\<lambda>x. rx_status x = ExceptionOpen) (reconciliation_exceptions s))\<rparr>))"

record jobs_page =
  jp_webhook_pending :: nat
  jp_webhook_delivered :: nat
  jp_webhook_dead_letter :: nat
  jp_recent_deliveries :: "webhook_delivery list"
  jp_notification_pending :: nat
  jp_notification_sent :: nat
  jp_notification_failed :: nat

text \<open>The scheduled tasks, shown to staff, are rows of the scheduler's own table.\<close>

definition background_jobs :: "uuid option \<Rightarrow> 'z reconciliation_st_scheme \<Rightarrow> jobs_page report" where
  "background_jobs tenant s = (case tenant of None \<Rightarrow> NoAccess
     | Some tid \<Rightarrow>
         let ds = filter (\<lambda>d. wd_tenant d = tid) (webhook_deliveries s);
             ns = filter (\<lambda>n. n_tenant n = tid) (notifications s) in
         Page
         \<lparr>jp_webhook_pending = length (filter (\<lambda>d. wd_status d \<in> {WPending, WRetrying}) ds),
          jp_webhook_delivered = length (filter (\<lambda>d. wd_status d = WDelivered) ds),
          jp_webhook_dead_letter = length (filter (\<lambda>d. wd_status d = WDeadLetter) ds),
          jp_recent_deliveries = take 10 ds,
          jp_notification_pending = length (filter (\<lambda>n. n_status n = NPending) ns),
          jp_notification_sent = length (filter (\<lambda>n. n_status n = NSent) ns),
          jp_notification_failed = length (filter (\<lambda>n. n_status n = NFailed) ns)\<rparr>)"

end
