(* ===== verification/ReportProperties.thy ===== *)
theory ReportProperties
  imports Reports
begin

text \<open>
  Exported files read back as the cells that were written; the pages of an institution depend on
  its own rows only; and the sums that different pages show agree.
\<close>

subsection \<open>A reader of CSV\<close>

text \<open>
  The reference: a character machine for quoted cells and rows ended by a line break, as the
  format has them. \<open>Start\<close> is before the first character of a cell, \<open>Closed\<close> after a quote inside
  a quoted one.
\<close>

datatype reading = Start | Plain | Quoted | Closed

fun read_csv :: "reading \<Rightarrow> string \<Rightarrow> string list \<Rightarrow> string \<Rightarrow> string list list" where
  "read_csv m cell row [] = (if m = Start \<and> row = [] then [] else [row @ [cell]])"
| "read_csv m cell row (c # cs) =
     (case m of
        Quoted \<Rightarrow> if c = CHR 0x22 then read_csv Closed cell row cs else read_csv Quoted (cell @ [c]) row cs
      | _ \<Rightarrow>
          if c = CHR '','' then read_csv Start [] (row @ [cell]) cs
          else if c = CHR 0x0A then (if m = Start \<and> row = [] then [] else row @ [cell]) # read_csv Start [] [] cs
          else if c = CHR 0x0D then read_csv m cell row cs
          else if c = CHR 0x22 then
            (if m = Closed then read_csv Quoted (cell @ [c]) row cs else read_csv Quoted cell row cs)
          else read_csv Plain (cell @ [c]) row cs)"

lemma read_plain:
  assumes "\<forall>c \<in> set t. c \<notin> set csv_special" and "m \<noteq> Quoted"
  shows "read_csv m cell row (t @ rest) = read_csv (if t = [] then m else Plain) (cell @ t) row rest"
  using assms by (induction t arbitrary: m cell) (auto simp: csv_special_def split: reading.split)

lemma read_quoted_body:
  "read_csv Quoted cell row (concat (map (\<lambda>c. if c = CHR 0x22 then [c, c] else [c]) t) @ CHR 0x22 # rest) =
   read_csv Closed (cell @ t) row rest"
  by (induction t arbitrary: cell) auto

lemma read_quoted: "read_csv Start [] row (csv_quoted t @ rest) = read_csv Closed t row rest"
  by (simp add: csv_quoted_def read_quoted_body)

definition after_cell :: "string \<Rightarrow> reading" where
  "after_cell t = (if list_ex (\<lambda>c. c \<in> set csv_special) t then Closed else if t = [] then Start else Plain)"

lemma read_field: "read_csv Start [] row (csv_field t @ rest) = read_csv (after_cell t) t row rest"
  using read_plain [of t Start "[]" row rest]
  by (auto simp: csv_field_def after_cell_def read_quoted list_ex_iff)

lemma after_cell_not_quoted [simp]: "after_cell t \<noteq> Quoted"
  by (simp add: after_cell_def)

lemma read_comma: "m \<noteq> Quoted \<Longrightarrow> read_csv m cell row (CHR '','' # cs) = read_csv Start [] (row @ [cell]) cs"
  by (cases m) auto

lemma read_end: "m \<noteq> Quoted \<Longrightarrow> read_csv m cell row (CHR 0x0D # CHR 0x0A # cs) =
    (if m = Start \<and> row = [] then [] else row @ [cell]) # read_csv Start [] [] cs"
  by (cases m) auto

lemma read_cells:
  "ts \<noteq> [] \<Longrightarrow> row \<noteq> [] \<or> ts \<noteq> [[]] \<Longrightarrow>
   read_csv Start [] row (csv_cells ts @ CHR 0x0D # CHR 0x0A # rest) = (row @ ts) # read_csv Start [] [] rest"
proof (induction ts arbitrary: row rule: csv_cells.induct)
  case (2 t)
  then show ?case
    by (auto simp: read_field read_end after_cell_def)
next
  case (3 t u ts)
  then show ?case
    by (simp add: read_field read_comma del: read_csv.simps)
qed simp

lemma read_row: "read_csv Start [] [] (csv_row ts @ rest) = ts # read_csv Start [] [] rest"
proof (cases "ts = [[]] \<or> ts = []")
  case True
  then show ?thesis
    by (auto simp: csv_row_def read_quoted read_end)
next
  case False
  then show ?thesis
    using read_cells [of ts "[]" rest] by (simp add: csv_row_def)
qed

lemma read_csv_text: "read_csv Start [] [] (csv_text rows) = rows"
  by (induction rows) (simp_all add: csv_text_def read_row)

text \<open>
  C39 (\<open>render_csv\<close>): whatever the cells hold, commas, quotes and line breaks included, the exported
  file reads back as the header and exactly the written rows.
\<close>

theorem csv_reads_back:
  "\<exists>t. render_csv filename header rows = CsvFile filename t \<and> read_csv Start [] [] t = header # rows"
  by (simp add: render_csv_def read_csv_text)

subsection \<open>Pages depend on own rows\<close>

text \<open>
  The two states agree on the rows of one institution, and on what its bills and payments refer
  to: the names of accounts, payment references, providers and allocations.
\<close>

definition same_own :: "uuid \<Rightarrow> 'z reconciliation_st_scheme \<Rightarrow> 'z reconciliation_st_scheme \<Rightarrow> bool" where
  "same_own tn s t \<longleftrightarrow>
     filter (\<lambda>b. b_tenant b = tn) (bills s) = filter (\<lambda>b. b_tenant b = tn) (bills t) \<and>
     filter (\<lambda>p. p_tenant p = tn) (payments s) = filter (\<lambda>p. p_tenant p = tn) (payments t) \<and>
     filter (\<lambda>e. re_tenant e = tn) (revenue_events s) = filter (\<lambda>e. re_tenant e = tn) (revenue_events t) \<and>
     filter (\<lambda>r. al_tenant r = Some tn) (audit_logs s) = filter (\<lambda>r. al_tenant r = Some tn) (audit_logs t) \<and>
     filter (\<lambda>e. le_tenant e = tn) (ledger_entries s) = filter (\<lambda>e. le_tenant e = tn) (ledger_entries t) \<and>
     filter (\<lambda>m. tm_tenant m = tn) (tenant_memberships s) = filter (\<lambda>m. tm_tenant m = tn) (tenant_memberships t) \<and>
     filter (\<lambda>c. c_tenant c = tn) (customers s) = filter (\<lambda>c. c_tenant c = tn) (customers t) \<and>
     filter (\<lambda>c. cn_tenant c = tn) (control_numbers s) = filter (\<lambda>c. cn_tenant c = tn) (control_numbers t) \<and>
     filter (\<lambda>x. rx_tenant x = tn) (reconciliation_exceptions s) = filter (\<lambda>x. rx_tenant x = tn) (reconciliation_exceptions t) \<and>
     filter (\<lambda>d. wd_tenant d = tn) (webhook_deliveries s) = filter (\<lambda>d. wd_tenant d = tn) (webhook_deliveries t) \<and>
     filter (\<lambda>n. n_tenant n = tn) (notifications s) = filter (\<lambda>n. n_tenant n = tn) (notifications t) \<and>
     (\<forall>b \<in> set (bills t). b_tenant b = tn \<longrightarrow> account_name s b = account_name t b \<and> balance s b = balance t b) \<and>
     (\<forall>p \<in> set (payments t). p_tenant p = tn \<longrightarrow>
        number_value s p = number_value t p \<and> provider_code s p = provider_code t p)"

lemma filter_own: "filter (\<lambda>x. f x = k \<and> P x) xs = filter P (filter (\<lambda>x. f x = k) xs)"
  by (induction xs) auto

lemma map_own_cong: "(\<And>x. x \<in> set xs \<Longrightarrow> g x = h x) \<Longrightarrow> map g xs = map h xs"
  by simp

lemma bills_report_own:
  assumes "same_own tn s t"
  shows "bills_report P E (Some tn) q s = bills_report P E (Some tn) q t"
proof -
  have "filter (\<lambda>b. b_tenant b = tn) (bills s) = filter (\<lambda>b. b_tenant b = tn) (bills t)"
      "\<forall>b \<in> set (bills t). b_tenant b = tn \<longrightarrow> account_name s b = account_name t b"
    using assms by (auto simp: same_own_def)
  then show ?thesis
    by (auto simp: bills_report_def render_csv_def Let_def simp del: filter_filter
        intro!: arg_cong [of _ _ "\<lambda>r. csv_text (_ # r)"])
qed

lemma payments_report_own:
  assumes "same_own tn s t"
  shows "payments_report P E (Some tn) q s = payments_report P E (Some tn) q t"
proof -
  have "filter (\<lambda>p. p_tenant p = tn) (payments s) = filter (\<lambda>p. p_tenant p = tn) (payments t)"
      "\<forall>p \<in> set (payments t). p_tenant p = tn \<longrightarrow> number_value s p = number_value t p \<and> provider_code s p = provider_code t p"
    using assms by (auto simp: same_own_def)
  then show ?thesis
    by (auto simp: payments_report_def render_csv_def Let_def simp del: filter_filter
        intro!: arg_cong [of _ _ "\<lambda>r. csv_text (_ # r)"])
qed

lemma outstanding_own:
  assumes "same_own tn s t"
  shows "outstanding_balances_report E (Some tn) q s = outstanding_balances_report E (Some tn) q t"
proof -
  have own: "filter (\<lambda>b. b_tenant b = tn) (bills s) = filter (\<lambda>b. b_tenant b = tn) (bills t)"
      "\<forall>b \<in> set (bills t). b_tenant b = tn \<longrightarrow> account_name s b = account_name t b \<and> balance s b = balance t b"
    using assms by (auto simp: same_own_def)
  let ?bs = "filter (\<lambda>b. b_status b \<in> {ACTIVE, PARTIALLY_PAID}) (filter (\<lambda>b. b_tenant b = tn) (bills t))"
  have same: "map (\<lambda>b. (b, balance s b)) ?bs = map (\<lambda>b. (b, balance t b)) ?bs"
    using own(2) by (intro map_own_cong) auto
  have named: "map (\<lambda>(b, r). [b_bill_number b, account_name s b, e_str_dec E (b_total_amount b), e_str_dec E r, b_currency b])
      (filter (\<lambda>r. 0 < snd r) (map (\<lambda>b. (b, balance t b)) ?bs)) =
    map (\<lambda>(b, r). [b_bill_number b, account_name t b, e_str_dec E (b_total_amount b), e_str_dec E r, b_currency b])
      (filter (\<lambda>r. 0 < snd r) (map (\<lambda>b. (b, balance t b)) ?bs))"
    using own(2) by (intro map_own_cong) auto
  show ?thesis
    unfolding outstanding_balances_report_def option.case Let_def filter_own own(1) same named ..
qed

lemma totals_own:
  assumes "same_own tn s t"
  shows "collections_report P (Some tn) q s = collections_report P (Some tn) q t"
    and "tenant_revenue_summary (Some tn) s = tenant_revenue_summary (Some tn) t"
    and "dashboard_page (Some tn) s = dashboard_page (Some tn) t"
    and "audit_report P (Some tn) q s = audit_report P (Some tn) q t"
    and "ledger_list (Some tn) q s = ledger_list (Some tn) q t"
    and "background_jobs (Some tn) s = background_jobs (Some tn) t"
  using assms
  by (simp_all add: same_own_def collections_report_def tenant_revenue_summary_def dashboard_page_def audit_report_def
      ledger_list_def background_jobs_def filter_own Let_def del: filter_filter)

text \<open>
  C37 (every page of \<open>apps/reports\<close>, the revenue, ledger and jobs pages and the institution's
  dashboard): what an institution is shown, rows, counts and sums, and what it can export, is the
  same in any two states that agree on its own rows and what they refer to.
\<close>

theorem pages_depend_on_own_rows:
  assumes "same_own tn s t"
  shows "bills_report P E (Some tn) q s = bills_report P E (Some tn) q t \<and>
    payments_report P E (Some tn) q s = payments_report P E (Some tn) q t \<and>
    collections_report P (Some tn) q s = collections_report P (Some tn) q t \<and>
    outstanding_balances_report E (Some tn) q s = outstanding_balances_report E (Some tn) q t \<and>
    audit_report P (Some tn) q s = audit_report P (Some tn) q t \<and>
    tenant_revenue_summary (Some tn) s = tenant_revenue_summary (Some tn) t \<and>
    ledger_list (Some tn) q s = ledger_list (Some tn) q t \<and>
    dashboard_page (Some tn) s = dashboard_page (Some tn) t \<and>
    background_jobs (Some tn) s = background_jobs (Some tn) t"
  by (intro conjI bills_report_own payments_report_own outstanding_own totals_own assms)

subsection \<open>Sums that agree\<close>

lemma sum_list_insort_key: "sum_list (map f (insort_key g x xs)) = f x + (sum_list (map f xs) :: int)"
  by (induction xs) auto

lemma sum_list_sort_key: "sum_list (map f (sort_key g xs)) = (sum_list (map f xs) :: int)"
  by (induction xs) (simp_all add: sum_list_insort_key)

lemma sum_by_key:
  assumes "finite K" and "key ` set es \<subseteq> K"
  shows "(\<Sum>k \<in> K. sum_list (map f (filter (\<lambda>e. key e = k) es))) = (sum_list (map f es) :: 'n :: comm_monoid_add)"
  using assms(2)
proof (induction es)
  case (Cons e es)
  have "(\<Sum>k \<in> K. sum_list (map f (filter (\<lambda>x. key x = k) (e # es)))) =
      (\<Sum>k \<in> K. (if k = key e then f e else 0) + sum_list (map f (filter (\<lambda>x. key x = k) es)))"
    by (rule sum.cong) auto
  also have "\<dots> = f e + sum_list (map f es)"
    using Cons assms(1) by (simp add: sum.distrib)
  finally show ?case
    by simp
qed simp

lemma grouped_sums:
  "sum_list (map (\<lambda>r. fst (snd r)) (grouped key f es)) = sum_list (map f es)"
  "sum_list (map (\<lambda>r. snd (snd r)) (grouped key f es)) = length es"
proof -
  have keys: "sum_list (map g (sort (remdups (map key es)))) = sum g (key ` set es)" for g :: "string \<Rightarrow> 'n :: comm_monoid_add"
    by (simp add: sum_list_distinct_conv_sum_set)
  show "sum_list (map (\<lambda>r. fst (snd r)) (grouped key f es)) = sum_list (map f es)"
    unfolding grouped_def Let_def map_map comp_def fst_conv snd_conv keys by (rule sum_by_key) simp_all
  have count: "length xs = sum_list (map (\<lambda>_. 1) xs)" for xs :: "'a list"
    by (induction xs) auto
  show "sum_list (map (\<lambda>r. snd (snd r)) (grouped key f es)) = length es"
    unfolding grouped_def Let_def map_map comp_def snd_conv keys count by (rule sum_by_key) simp_all
qed

lemma successful_status: "payment_status_value st = ''successful'' \<longleftrightarrow> st = SUCCESSFUL"
  by (cases st) auto

lemma revenue_page_total:
  "tenant_revenue_summary (Some tn) s = Page (revenue_breakdown (filter (\<lambda>e. re_tenant e = tn) (revenue_events s)),
     sum_list (map re_amount (filter (\<lambda>e. re_tenant e = tn) (revenue_events s))))"
  by (simp add: tenant_revenue_summary_def grouped_sums)

lemma dashboard_totals:
  "\<exists>d. dashboard_page (Some tn) s = Page d \<and>
     td_gross_collected d = sum_list (map p_amount (filter (\<lambda>p. p_tenant p = tn \<and> p_status p = SUCCESSFUL) (payments s))) \<and>
     td_platform_fees_paid d = sum_list (map re_amount (filter (\<lambda>e. re_tenant e = tn) (revenue_events s)))"
  by (simp add: dashboard_page_def)

text \<open>
  C38 (\<open>collections_report\<close>, \<open>payments_report\<close>, \<open>tenant_revenue_summary\<close>, the dashboard): without
  dates the gross of the collections report is the total of the successful payments in the
  payments report and the dashboard's collections, and its platform revenue is the dashboard's
  fees and the total of the revenue page, whose rows count every event of the institution once.
\<close>

theorem page_totals_agree:
  assumes "rq_date_from q = []" and "rq_date_to q = []" and "rq_format q \<noteq> ''csv''" and "rq_status q = ''successful''"
  shows "\<exists>c d rows ps. collections_report P (Some tn) q s = Page c \<and> dashboard_page (Some tn) s = Page d \<and>
    tenant_revenue_summary (Some tn) s = Page (rows, cr_platform_revenue c) \<and>
    payments_report P E (Some tn) q s = Page (ps, cr_gross c) \<and>
    td_gross_collected d = cr_gross c \<and> td_platform_fees_paid d = cr_platform_revenue c \<and>
    sum_list (map (\<lambda>r. snd (snd r)) rows) = length (filter (\<lambda>e. re_tenant e = tn) (revenue_events s))"
proof -
  have no_date: "parse_date [] = None"
    by (simp add: parse_date_def split_date_def Let_def)
  have dates: "in_dates q x" "in_dates_opt q y" for x y
    using assms(1,2) no_date by (auto simp: in_dates_def in_dates_opt_def split: option.split)
  let ?ps = "filter (\<lambda>p. p_tenant p = tn \<and> p_status p = SUCCESSFUL) (payments s)"
  let ?evs = "filter (\<lambda>e. re_tenant e = tn) (revenue_events s)"
  have "\<exists>n. collections_report P (Some tn) q s = Page \<lparr>cr_payment_count = n, cr_gross = sum_list (map p_amount ?ps),
      cr_platform_revenue = sum_list (map re_amount ?evs), cr_net_to_institution = sum_list (map p_amount ?ps)\<rparr>"
    by (simp add: collections_report_def dates Let_def)
  moreover note dashboard_totals [of tn s] revenue_page_total [of tn s]
  moreover have "\<exists>ps. payments_report P E (Some tn) q s = Page (ps, sum_list (map p_amount ?ps))"
    using assms(3,4)
    by (simp add: payments_report_def has_status_def successful_status sum_list_sort_key dates)
  ultimately show ?thesis
    using grouped_sums(2) [of "\<lambda>e. revenue_event_value (re_event_type e)" re_amount ?evs]
    by fastforce
qed

subsection \<open>Concrete pages\<close>

definition example_report_env :: report_env where
  "example_report_env = \<lparr>rp_created = \<lambda>_. 0, rp_datetime = \<lambda>_. []\<rparr>"

definition example_query :: report_query where
  "example_query = \<lparr>rq_status = ''successful'', rq_date_from = [], rq_date_to = [], rq_format = [], rq_action = [],
     rq_entry_type = [], rq_page = None\<rparr>"

definition fee_event :: "nat \<Rightarrow> revenue_event_type \<Rightarrow> money \<Rightarrow> revenue_event" where
  "fee_event tn ty amount = \<lparr>re_id = Uuid 5, re_tenant = Uuid tn, re_event_type = ty, re_amount = amount,
     re_currency = ''TZS'', re_source = (MPayment, Uuid 6), re_ledger_entry = None, re_correlation_id = [],
     re_metadata = JObj []\<rparr>"

definition example_report_st :: "revenue_event list \<Rightarrow> reconciliation_st" where
  "example_report_st evs = (reconciled_st [] [] [])\<lparr>revenue_events := evs\<rparr>"

theorem pages_depend_on_own_rows_witness:
  "tenant_revenue_summary (Some (Uuid 0))
     (example_report_st [fee_event 9 RE_PAYMENT_FAILED 7, fee_event 0 RE_PAYMENT_SUCCESSFUL 5000]) =
   tenant_revenue_summary (Some (Uuid 0)) (example_report_st [fee_event 0 RE_PAYMENT_SUCCESSFUL 5000])"
proof -
  have "same_own (Uuid 0) (example_report_st [fee_event 9 RE_PAYMENT_FAILED 7, fee_event 0 RE_PAYMENT_SUCCESSFUL 5000])
      (example_report_st [fee_event 0 RE_PAYMENT_SUCCESSFUL 5000])"
    by (simp add: same_own_def example_report_st_def fee_event_def account_name_def balance_def amount_paid_def
        number_value_def provider_code_def)
  from pages_depend_on_own_rows [OF this, of example_report_env example_env example_query] show ?thesis
    by simp
qed

theorem page_totals_agree_witness:
  "\<exists>c. collections_report example_report_env (Some (Uuid 0)) example_query
       (example_report_st [fee_event 0 RE_PAYMENT_FAILED 0, fee_event 0 RE_PAYMENT_SUCCESSFUL 5000]) = Page c \<and>
     cr_platform_revenue c = 5000"
proof -
  let ?s = "example_report_st [fee_event 0 RE_PAYMENT_FAILED 0, fee_event 0 RE_PAYMENT_SUCCESSFUL 5000]"
  have total: "\<exists>rows. tenant_revenue_summary (Some (Uuid 0)) ?s = Page (rows, 5000)"
    by (simp add: tenant_revenue_summary_def grouped_sums example_report_st_def fee_event_def Let_def)
  have "rq_date_from example_query = []" "rq_date_to example_query = []" "rq_format example_query \<noteq> ''csv''"
      "rq_status example_query = ''successful''"
    by (simp_all add: example_query_def)
  from page_totals_agree [OF this, of example_report_env "Uuid 0" ?s example_env] total show ?thesis
    by auto
qed

text \<open>
  The ledger page lists from the oldest entry and stops after 200: later entries are never shown.
\<close>

lemma ledger_list_hides_newest:
  "ledger_list (Some tn) q s = Page es \<Longrightarrow>
   ledger_list (Some tn) q (s\<lparr>ledger_entries := e # ledger_entries s\<rparr>) = Page es' \<Longrightarrow> length es = 200 \<Longrightarrow> es' = es"
  by (auto simp: ledger_list_def)

end
