(* ===== verification/Balances.thy ===== *)
theory Balances
  imports Platform ReportProperties
begin

text \<open>
  The accounts of the ledger. Every operation posts a fee and records its event together, so the
  platform's account and the revenue log agree for each institution; and the institution's and the
  customers' account hold the amounts of its payments. What the pages show follows from it.
\<close>

subsection \<open>The accounts\<close>

definition account_balance :: "ledger_account \<Rightarrow> uuid \<Rightarrow> ledger_entry list \<Rightarrow> money" where
  "account_balance ac tn les = sum_list (map le_amount (filter (\<lambda>e. le_account e = ac \<and> le_tenant e = tn) les))"

definition total_revenue :: "uuid \<Rightarrow> revenue_event list \<Rightarrow> money" where
  "total_revenue tn res = sum_list (map re_amount (filter (\<lambda>v. re_tenant v = tn) res))"

text \<open>An entry's account follows from its type, and a fee event names its entry.\<close>

definition entry_placed :: "nat \<Rightarrow> ledger_entry \<Rightarrow> bool" where
  "entry_placed n e \<longleftrightarrow> used n (le_id e) \<and>
     (le_account e = INSTITUTION_ACCOUNT \<longleftrightarrow> le_entry_type e = INSTITUTION_ENTITLEMENT) \<and>
     (le_account e = CUSTOMER_ACCOUNT \<longleftrightarrow> le_entry_type e = PAYMENT_RECEIVED)"

definition fee_placed :: "ledger_entry list \<Rightarrow> revenue_event \<Rightarrow> bool" where
  "fee_placed les v \<longleftrightarrow> (re_event_type v = RE_PAYMENT_SUCCESSFUL \<longrightarrow>
     (\<exists>i e. re_ledger_entry v = Some i \<and> row_get le_id i les = Some e \<and>
        le_account e = PLATFORM_ACCOUNT \<and> le_tenant e = re_tenant v))"

definition accounts_at :: "nat \<Rightarrow> ledger_entry list \<Rightarrow> revenue_event list \<Rightarrow> bool" where
  "accounts_at n les res \<longleftrightarrow> (\<forall>e \<in> set les. entry_placed n e) \<and> (\<forall>v \<in> set res. fee_placed les v) \<and>
     (\<forall>tn. account_balance PLATFORM_ACCOUNT tn les = total_revenue tn res)"

definition accounts_ok :: "'z revenue_st_scheme \<Rightarrow> bool" where
  "accounts_ok s \<longleftrightarrow> accounts_at (draws s) (ledger_entries s) (revenue_events s)"

lemma account_balance_Cons [simp]:
  "account_balance ac tn (e # les) =
     (if le_account e = ac \<and> le_tenant e = tn then le_amount e + account_balance ac tn les
      else account_balance ac tn les)"
  "total_revenue tn (v # res) = (if re_tenant v = tn then re_amount v + total_revenue tn res else total_revenue tn res)"
  by (simp_all add: account_balance_def total_revenue_def)

lemma entry_placed_mono: "entry_placed n e \<Longrightarrow> n \<le> m \<Longrightarrow> entry_placed m e"
  by (auto simp: entry_placed_def elim: used_mono)

lemma accounts_mono: "accounts_at n les res \<Longrightarrow> n \<le> m \<Longrightarrow> accounts_at m les res"
  by (auto simp: accounts_at_def elim: entry_placed_mono)

lemma fee_placed_Cons:
  assumes "fee_placed les v" and "\<And>e. e \<in> set les \<Longrightarrow> entry_placed n e" and "le_id e = Uuid n"
  shows "fee_placed (e # les) v"
proof -
  have "i \<noteq> Uuid n" if "row_get le_id i les = Some d" for i d
    using row_get_SomeD [OF that] assms(2) [of d] by (auto simp: entry_placed_def)
  then show ?thesis
    using assms(1,3) unfolding fee_placed_def by fastforce
qed

lemma accounts_entry:
  assumes "accounts_at n les res" and "le_id e = Uuid n" and "le_account e \<noteq> PLATFORM_ACCOUNT"
    and "entry_placed (Suc n) e"
  shows "accounts_at (Suc n) (e # les) res"
  using assms fee_placed_Cons [of les _ n e]
  by (auto simp: accounts_at_def intro: entry_placed_mono [of n])

lemma accounts_pair:
  assumes "accounts_at n les res" and "le_id e = Uuid n" and "le_account e = PLATFORM_ACCOUNT"
    and "le_entry_type e \<notin> {INSTITUTION_ENTITLEMENT, PAYMENT_RECEIVED}"
    and "le_tenant e = re_tenant v" and "le_amount e = re_amount v" and "re_ledger_entry v = Some (Uuid n)"
  shows "accounts_at (Suc (Suc n)) (e # les) (v # res)"
proof -
  have "entry_placed (Suc (Suc n)) e" "fee_placed (e # les) v"
    using assms(2-5,7) by (auto simp: entry_placed_def fee_placed_def)
  then show ?thesis
    using assms fee_placed_Cons [of les _ n e]
    by (auto simp: accounts_at_def intro: entry_placed_mono [of n])
qed

lemma accounts_event:
  "accounts_at n les res \<Longrightarrow> re_event_type v \<noteq> RE_PAYMENT_SUCCESSFUL \<Longrightarrow> re_amount v = 0 \<Longrightarrow>
   accounts_at (Suc n) les (v # res)"
  by (auto simp: accounts_at_def fee_placed_def intro: entry_placed_mono [of n])

subsection \<open>Every operation keeps the accounts\<close>

lemma accounts_fees:
  "upholds (keeps accounts_ok) (record_control_number_created E cn)"
  "upholds (keeps accounts_ok) (record_control_number_reused E cn)"
  "upholds (keeps accounts_ok) (record_payment_successful E p)"
  "upholds (keeps accounts_ok) (record_payment_failed E p)"
  "upholds (keeps accounts_ok) (record_payment_duplicate E p)"
proof -
  show "upholds (keeps accounts_ok) (record_control_number_created E cn)"
    by (rule keepsI [OF revenue_logs.upholds_revenue(1)])
       (auto simp: record_control_number_created_def Let_def accounts_ok_def split: option.split
         intro!: accounts_pair)
  show "upholds (keeps accounts_ok) (record_payment_successful E p)"
    by (rule keepsI [OF revenue_logs.upholds_revenue(3)])
       (auto simp: record_payment_successful_def Let_def accounts_ok_def intro!: accounts_pair)
  show "upholds (keeps accounts_ok) (record_control_number_reused E cn)"
    by (rule keepsI [OF revenue_logs.upholds_revenue(2)])
       (auto simp: record_control_number_reused_def Let_def accounts_ok_def split: option.split
         intro!: accounts_event)
  show "upholds (keeps accounts_ok) (record_payment_failed E p)"
    by (rule keepsI [OF revenue_logs.upholds_revenue(4)])
       (auto simp: record_payment_failed_def Let_def accounts_ok_def intro!: accounts_event)
  show "upholds (keeps accounts_ok) (record_payment_duplicate E p)"
    by (rule keepsI [OF revenue_logs.upholds_revenue(5)])
       (auto simp: record_payment_duplicate_def Let_def accounts_ok_def intro!: accounts_event)
qed

lemma accounts_compensate:
  assumes "ty \<noteq> RE_PAYMENT_SUCCESSFUL" and "lty \<in> {REVERSAL, REFUND}"
  shows "upholds (keeps accounts_ok) (compensate E p ty lty)"
proof (rule keepsI [OF revenue_logs.upholds_compensate])
  fix s :: "'z revenue_st_scheme"
  assume ok: "accounts_ok s"
  have source: "\<exists>i e. re_ledger_entry v = Some i \<and> row_get le_id i (ledger_entries s) = Some e \<and>
      le_account e = PLATFORM_ACCOUNT \<and> le_tenant e = p_tenant p" if "original_event p s = Some v" for v
    using ok find_Some_D [OF that [unfolded original_event_def]]
    by (auto simp: accounts_ok_def accounts_at_def fee_placed_def)
  show "wpx (compensate E p ty lty) (\<lambda>_. accounts_ok) (\<lambda>_. accounts_ok) s"
  proof (cases "original_event p s")
    case None
    then show ?thesis
      using ok assms(1) by (auto simp: compensate_def Let_def accounts_ok_def split: option.split
          intro!: accounts_event)
  next
    case (Some v)
    then obtain i e where "re_ledger_entry v = Some i" "row_get le_id i (ledger_entries s) = Some e"
        "le_account e = PLATFORM_ACCOUNT" "le_tenant e = p_tenant p"
      using source by blast
    note source = this
    have kept: "accounts_at (Suc (draws s)) (ledger_entries s)
        (new_event E t ty 0 c src le m k # revenue_events s)" for t c src le m k
      by (rule accounts_event) (use ok assms(1) in \<open>simp_all add: accounts_ok_def\<close>)
    have clawed: "accounts_at (Suc (Suc (draws s)))
        (new_entry E (p_tenant p) lty PLATFORM_ACCOUNT a c1 r sr rel m1 (draws s) # ledger_entries s)
        (new_event E (p_tenant p) ty a c src (Some (Uuid (draws s))) m k # revenue_events s)"
      for a c1 r sr rel m1 c src m k
      by (rule accounts_pair) (use ok assms(2) in \<open>auto simp: accounts_ok_def\<close>)
    show ?thesis
      using Some ok source kept clawed
      by (auto simp: compensate_def post_compensating_entry_def Let_def accounts_ok_def wpx_eta split: option.split)
  qed
qed


lemma accounts_settlement_entries:
  "upholds (keeps accounts_ok) (post_settlement_ledger_entries E p)"
  by (rule keepsI [OF log_postings.settlement_entries])
     (auto simp: post_settlement_ledger_entries_def Let_def accounts_ok_def entry_placed_def
       intro!: accounts_entry)

interpretation account_payments: payment_frame "keeps accounts_ok"
proof unfold_locales
  show "upholds (keeps accounts_ok) (record_payment_reversed E p)"
    "upholds (keeps accounts_ok) (record_payment_refunded E p)" for E p
    unfolding record_payment_reversed_def record_payment_refunded_def by (rule accounts_compensate; simp)+
qed (auto simp: keeps_def later_def accounts_ok_def accounts_fees accounts_settlement_entries elim: accounts_mono)

interpretation accounts: row_frame "keeps accounts_ok"
  by unfold_locales (auto simp: keeps_def later_def accounts_ok_def elim: accounts_mono)

subsection \<open>What the accounts hold\<close>

lemma sum_by_owner:
  assumes "distinct (map key qs)" and "\<And>e. e \<in> set es \<Longrightarrow> \<exists>q \<in> set qs. src e = Some (key q)"
  shows "sum_list (map f es) = (\<Sum>q\<leftarrow>qs. sum_list (map f (filter (\<lambda>e. src e = Some (key q)) es)) :: int)"
  using assms(2)
proof (induction es)
  case (Cons e es)
  have one: "(\<Sum>q\<leftarrow>xs. if key q = k then x + g q else g q) = (if k \<in> key ` set xs then x else 0) + (\<Sum>q\<leftarrow>xs. g q)"
    if "distinct (map key xs)" for xs k g and x :: int
    using that by (induction xs) auto
  obtain q where q: "q \<in> set qs" "src e = Some (key q)"
    using Cons.prems [of e] by auto
  have "(\<Sum>r\<leftarrow>qs. sum_list (map f (filter (\<lambda>e. src e = Some (key r)) (e # es)))) =
      (\<Sum>r\<leftarrow>qs. if key r = key q then f e + sum_list (map f (filter (\<lambda>e. src e = Some (key r)) es))
        else sum_list (map f (filter (\<lambda>e. src e = Some (key r)) es)))"
    by (rule arg_cong [where f = sum_list], rule map_cong [OF refl]) (simp add: q(2) eq_commute)
  also have "\<dots> = f e + sum_list (map f es)"
    using q(1) Cons by (simp add: one [OF assms(1)])
  finally show ?case
    by simp
qed simp

definition paid_amounts :: "uuid \<Rightarrow> payment list \<Rightarrow> money" where
  "paid_amounts tn ps = sum_list (map p_amount (filter (\<lambda>p. p_tenant p = tn \<and> paid (p_status p)) ps))"

lemma sum_where:
  "(\<Sum>q\<leftarrow>filter P qs. if Q q then f q else 0) = (sum_list (map f (filter (\<lambda>q. P q \<and> Q q) qs)) :: int)"
  by (induction qs) auto

lemma booked_total:
  assumes "books old s" and "ty \<in> {PAYMENT_RECEIVED, INSTITUTION_ENTITLEMENT}"
  shows "sum_list (map le_amount (filter (\<lambda>e. le_entry_type e = ty \<and> le_tenant e = tn) (ledger_entries s))) =
    paid_amounts tn (payments s)"
proof -
  let ?qs = "filter (\<lambda>p. p_tenant p = tn) (payments s)"
  let ?es = "filter (\<lambda>e. le_entry_type e = ty \<and> le_tenant e = tn) (ledger_entries s)"
  note old = books_atD [OF assms(1) [unfolded books_def]]
  have source: "\<exists>q \<in> set ?qs. le_source e = Some (MPayment, p_id q)" if "e \<in> set ?es" for e
    using old(7) [of e] that assms(2) by (auto simp: owned_def)
  have "filter (\<lambda>e. le_source e = Some (MPayment, p_id q)) ?es =
      filter (\<lambda>e. le_entry_type e = ty \<and> le_source e = Some (MPayment, p_id q)) (ledger_entries s)"
    if "q \<in> set ?qs" for q
  proof -
    have "le_tenant e = tn"
      if e: "e \<in> set (ledger_entries s)" "le_entry_type e = ty" "le_source e = Some (MPayment, p_id q)" for e
    proof -
      obtain r where r: "r \<in> set (payments s)" "p_id r = p_id q" "le_tenant e = p_tenant r"
        using old(7) [OF e(1)] e assms(2) by (auto simp: owned_def)
      then have "r = q"
        using old(1) \<open>q \<in> set ?qs\<close> by (auto simp: distinct_map inj_on_def)
      with r \<open>q \<in> set ?qs\<close> show ?thesis
        by simp
    qed
    then show ?thesis
      unfolding filter_filter by (intro filter_cong [OF refl]) blast
  qed
  then have booked: "sum_list (map le_amount (filter (\<lambda>e. le_source e = Some (MPayment, p_id q)) ?es)) =
      (if paid (p_status q) then p_amount q else 0)" if "q \<in> set ?qs" for q
    using old(5) [of q] that assms(2) by (auto simp: balanced_def booked_def once_def)
  have distinct: "distinct (map (\<lambda>q. (MPayment, p_id q)) ?qs)"
    using old(1) by (auto simp: distinct_map inj_on_def)
  have "sum_list (map le_amount ?es) =
      (\<Sum>q\<leftarrow>?qs. sum_list (map le_amount (filter (\<lambda>e. le_source e = Some (MPayment, p_id q)) ?es)))"
    by (rule sum_by_owner [OF distinct source])
  also have "\<dots> = (\<Sum>q\<leftarrow>?qs. if paid (p_status q) then p_amount q else 0)"
    by (rule arg_cong [where f = sum_list], rule map_cong [OF refl booked])
  also have "\<dots> = paid_amounts tn (payments s)"
    unfolding paid_amounts_def by (rule sum_where)
  finally show ?thesis .
qed

lemma account_totals:
  assumes "books old s" and "accounts_ok s"
  shows "account_balance INSTITUTION_ACCOUNT tn (ledger_entries s) = paid_amounts tn (payments s)"
    and "account_balance CUSTOMER_ACCOUNT tn (ledger_entries s) = paid_amounts tn (payments s)"
    and "account_balance PLATFORM_ACCOUNT tn (ledger_entries s) = total_revenue tn (revenue_events s)"
proof -
  have placed: "(le_account e = INSTITUTION_ACCOUNT \<longleftrightarrow> le_entry_type e = INSTITUTION_ENTITLEMENT) \<and>
     (le_account e = CUSTOMER_ACCOUNT \<longleftrightarrow> le_entry_type e = PAYMENT_RECEIVED)" if "e \<in> set (ledger_entries s)" for e
    using assms(2) that by (auto simp: accounts_ok_def accounts_at_def entry_placed_def)
  have "filter (\<lambda>e. le_account e = INSTITUTION_ACCOUNT \<and> le_tenant e = tn) (ledger_entries s) =
      filter (\<lambda>e. le_entry_type e = INSTITUTION_ENTITLEMENT \<and> le_tenant e = tn) (ledger_entries s)"
    "filter (\<lambda>e. le_account e = CUSTOMER_ACCOUNT \<and> le_tenant e = tn) (ledger_entries s) =
      filter (\<lambda>e. le_entry_type e = PAYMENT_RECEIVED \<and> le_tenant e = tn) (ledger_entries s)"
    by (rule filter_cong [OF refl], use placed in blast)+
  then show "account_balance INSTITUTION_ACCOUNT tn (ledger_entries s) = paid_amounts tn (payments s)"
    "account_balance CUSTOMER_ACCOUNT tn (ledger_entries s) = paid_amounts tn (payments s)"
    using booked_total [OF assms(1), of PAYMENT_RECEIVED tn] booked_total [OF assms(1), of INSTITUTION_ENTITLEMENT tn]
    by (simp_all add: account_balance_def)
  show "account_balance PLATFORM_ACCOUNT tn (ledger_entries s) = total_revenue tn (revenue_events s)"
    using assms(2) by (simp add: accounts_ok_def accounts_at_def)
qed

lemma paid_amounts_split:
  "paid_amounts tn ps = sum_list (map p_amount (filter (\<lambda>p. p_tenant p = tn \<and> p_status p = SUCCESSFUL) ps)) +
     sum_list (map p_amount (filter (\<lambda>p. p_tenant p = tn \<and> p_status p \<in> {REFUNDED, REVERSED}) ps))"
  by (induction ps) (auto simp: paid_amounts_def paid_def)

text \<open>
  C3 (\<open>apps/ledger\<close>, \<open>apps/revenue\<close>, \<open>apps/reports/views.py\<close>, with everything that posts): start
  from balanced books and accounts and let anything happen on the platform in any order. For every
  institution the platform's account in the ledger then equals the sum of its revenue events, which
  is what its revenue page and its dashboard show as fees; the institution's and the customers'
  account both equal the amounts of its payments that ever succeeded; and these exceed what the
  dashboard shows as collected by exactly the payments refunded or reversed since, because a refund
  takes back the fee and posts nothing on the two other accounts.
\<close>

theorem ledger_accounts_agree:
  assumes "books (payments s) s" and "batches (settle_view (payments s)) s" and "accounts_ok s"
    and "u = run_platform D es s"
  shows "\<exists>d rows. dashboard_page (Some tn) u = Page d \<and> tenant_revenue_summary (Some tn) u =
      Page (rows, account_balance PLATFORM_ACCOUNT tn (ledger_entries u)) \<and>
    td_platform_fees_paid d = account_balance PLATFORM_ACCOUNT tn (ledger_entries u) \<and>
    account_balance CUSTOMER_ACCOUNT tn (ledger_entries u) = account_balance INSTITUTION_ACCOUNT tn (ledger_entries u) \<and>
    account_balance INSTITUTION_ACCOUNT tn (ledger_entries u) = td_gross_collected d +
      sum_list (map p_amount (filter (\<lambda>p. p_tenant p = tn \<and> p_status p \<in> {REFUNDED, REVERSED}) (payments u)))"
proof -
  have "stay_settled (payments s) (settle_view (payments s)) s u" "keeps accounts_ok s u"
    unfolding assms(4) by (rule platform_books.platform_keeps accounts.platform_keeps)+
  then have kept: "books (payments s) u" "accounts_ok u"
    using assms(1-3) by (simp_all add: keeps_def settled_def)
  show ?thesis
    using dashboard_totals [of tn u] revenue_page_total [of tn u] account_totals [OF kept, of tn]
    by (auto simp: paid_amounts_split total_revenue_def)
qed


theorem ledger_accounts_agree_witness:
  "\<exists>u. u = run_platform example_deployment example_day example_platform_st \<and>
     account_balance CUSTOMER_ACCOUNT (Uuid 0) (ledger_entries u) =
       account_balance INSTITUTION_ACCOUNT (Uuid 0) (ledger_entries u) \<and>
     accounts_ok example_platform_st"
proof -
  have "accounts_ok example_platform_st"
    by (simp add: accounts_ok_def accounts_at_def example_revenue_simps example_entry_def entry_placed_def
        fee_placed_def) (simp add: account_balance_def total_revenue_def)
  with ledger_accounts_agree [OF example_platform_books this refl, of "Uuid 0" example_deployment example_day]
  show ?thesis
    by auto
qed

end
