(* ===== verification/RateLimit.thy ===== *)
theory RateLimit
  imports Accounts
begin

text \<open>
  The request rate limit (\<open>apps/core/ratelimit.py\<close>): a fixed-window counter per client in the
  shared cache, in front of every view outside the exempt paths. A cache that fails is reported
  by the request's flags: it never blocks a request. \<open>cache.incr\<close> on a key that is gone raises
  \<open>ValueError\<close>, which the middleware treats like any other failure.
\<close>

record rate_config =
  rc_limit :: int
  rc_window_seconds :: int
  rc_exempt_prefixes :: "string list"

definition base_rate_config :: rate_config where
  "base_rate_config = \<lparr>rc_limit = 120, rc_window_seconds = 60,
     rc_exempt_prefixes = [''/healthz'', ''/static/'', ''/media/'', ''/api/'']\<rparr>"

record web_request =
  wr_path :: string
  wr_user :: "uuid option"
  wr_ip :: "string option"
  wr_read_ok :: bool
  wr_write_ok :: bool

definition client_key :: "env \<Rightarrow> web_request \<Rightarrow> string" where
  "client_key E r = (case wr_user r of
     Some i \<Rightarrow> ''user:'' @ e_str_uuid E i
   | None \<Rightarrow> ''ip:'' @ (case wr_ip r of Some ip \<Rightarrow> if ip = [] then ''unknown'' else ip | None \<Rightarrow> ''unknown''))"

definition rate_key :: "env \<Rightarrow> web_request \<Rightarrow> string" where
  "rate_key E r = ''request_rate_limit:'' @ client_key E r"

definition not_limited :: "rate_config \<Rightarrow> web_request \<Rightarrow> bool" where
  "not_limited C r \<longleftrightarrow> rc_limit C = 0 \<or> list_ex (\<lambda>p. prefix p (wr_path r)) (rc_exempt_prefixes C)"

text \<open>\<open>cache.set(key, 1, timeout)\<close> and \<open>cache.incr(key)\<close>, which keeps the expiry.\<close>

definition cache_start :: "env \<Rightarrow> rate_config \<Rightarrow> string \<Rightarrow> ('z accounts_st_scheme, unit) pm" where
  "cache_start E C key = mbind (now E) (\<lambda>t.
     modify (\<lambda>s. s\<lparr>auth_cache := (auth_cache s)(key \<mapsto> (1, t + rc_window_seconds C))\<rparr>))"

definition cache_incr :: "env \<Rightarrow> string \<Rightarrow> ('z accounts_st_scheme, unit) pm" where
  "cache_incr E key = mbind (now E) (\<lambda>t. mbind (gets (\<lambda>s. auth_cache s key)) (\<lambda>entry.
     case entry of
       None \<Rightarrow> raise (ValueError ''Key not found'')
     | Some (n, expires) \<Rightarrow>
         if expires \<le> t then raise (ValueError ''Key not found'')
         else modify (\<lambda>s. s\<lparr>auth_cache := (auth_cache s)(key \<mapsto> (Suc n, expires))\<rparr>)))"

definition count_request :: "env \<Rightarrow> rate_config \<Rightarrow> web_request \<Rightarrow> nat \<Rightarrow> ('z accounts_st_scheme, unit) pm" where
  "count_request E C r count =
     catch (if \<not> wr_write_ok r then raise (OtherError ''cache'')
            else if count = 0 then cache_start E C (rate_key E r)
            else cache_incr E (rate_key E r))
       (\<lambda>_. ret ())"

text \<open>\<open>__call__\<close>: \<open>None\<close> is the answer with status 429, otherwise the view answers.\<close>

definition rate_limited ::
  "env \<Rightarrow> rate_config \<Rightarrow> web_request \<Rightarrow> ('z accounts_st_scheme, 'a) pm \<Rightarrow> ('z accounts_st_scheme, 'a option) pm" where
  "rate_limited E C r view =
     (let pass = mbind view (\<lambda>a. ret (Some a)) in
      if not_limited C r \<or> \<not> wr_read_ok r then pass
      else mbind (now E) (\<lambda>t. mbind (gets (\<lambda>s. cache_value (auth_cache s) (rate_key E r) t)) (\<lambda>count.
        if rc_limit C \<le> int count then ret None
        else mseq (count_request E C r count) pass)))"

subsection \<open>Requests in a row\<close>

text \<open>
  The requests of client \<open>k\<close> the limit is for: their path is under no exempt prefix, and the
  cache answers. A request was refused when the answer is the one with status 429, whatever the
  counter says.
\<close>

definition watched :: "env \<Rightarrow> rate_config \<Rightarrow> string \<Rightarrow> web_request \<Rightarrow> bool" where
  "watched E C k r \<longleftrightarrow> rate_key E r = k \<and> list_all (\<lambda>p. \<not> prefix p (wr_path r)) (rc_exempt_prefixes C) \<and>
     wr_read_ok r \<and> wr_write_ok r"

definition too_many_requests :: "exn + 'a option \<Rightarrow> bool" where
  "too_many_requests answer = (case answer of Inr None \<Rightarrow> True | _ \<Rightarrow> False)"

primrec serve_all ::
  "env \<Rightarrow> rate_config \<Rightarrow> (web_request \<times> ('z accounts_st_scheme, 'a) pm) list \<Rightarrow> 'z accounts_st_scheme \<Rightarrow>
   'z accounts_st_scheme" where
  "serve_all E C [] s = s"
| "serve_all E C (q # qs) s = serve_all E C qs (snd (rate_limited E C (fst q) (snd q) s))"

primrec passed ::
  "env \<Rightarrow> rate_config \<Rightarrow> string \<Rightarrow> (web_request \<times> ('z accounts_st_scheme, 'a) pm) list \<Rightarrow>
   'z accounts_st_scheme \<Rightarrow> nat" where
  "passed E C k [] s = 0"
| "passed E C k (q # qs) s =
     (if watched E C k (fst q) \<and> \<not> too_many_requests (fst (rate_limited E C (fst q) (snd q) s)) then 1 else 0) +
     passed E C k qs (snd (rate_limited E C (fst q) (snd q) s))"

text \<open>What a view may do to the cache entry of client \<open>k\<close>: nothing.\<close>

definition quiet_view :: "string \<Rightarrow> ('z accounts_st_scheme, 'a) pm \<Rightarrow> bool" where
  "quiet_view k = upholds (\<lambda>s t. clock_reads s \<le> clock_reads t \<and> auth_cache t k = auth_cache s k)"

text \<open>
  How many more requests of client \<open>k\<close> can pass before \<open>start + window\<close>: those left in the
  running window, and a whole further window if the running one ends earlier.
\<close>

definition passes_left :: "env \<Rightarrow> rate_config \<Rightarrow> string \<Rightarrow> time \<Rightarrow> 'z accounts_st_scheme \<Rightarrow> nat" where
  "passes_left E C k start s = (case auth_cache s k of
     None \<Rightarrow> nat (rc_limit C)
   | Some (n, expires) \<Rightarrow>
       if expires \<le> e_now E (clock_reads s) then nat (rc_limit C)
       else if start + rc_window_seconds C \<le> expires then nat (rc_limit C) - n
       else nat (rc_limit C) - n + nat (rc_limit C))"

definition in_period :: "env \<Rightarrow> time \<Rightarrow> int \<Rightarrow> nat \<Rightarrow> nat \<Rightarrow> bool" where
  "in_period E start w a b \<longleftrightarrow> (\<forall>i j. a \<le> i \<longrightarrow> i \<le> j \<longrightarrow> j \<le> b \<longrightarrow>
     start \<le> e_now E i \<and> e_now E i \<le> e_now E j \<and> e_now E j < start + w)"

lemma passes_left_later:
  assumes "auth_cache t k = auth_cache s k" and "clock_reads s \<le> clock_reads t"
    and "in_period E start (rc_window_seconds C) (clock_reads s) (clock_reads t)"
  shows "passes_left E C k start t \<le> passes_left E C k start s"
proof -
  from assms(2,3) have "e_now E (clock_reads s) \<le> e_now E (clock_reads t)"
    "e_now E (clock_reads t) < start + rc_window_seconds C"
    unfolding in_period_def by blast+
  then show ?thesis
    using assms(1) by (auto simp: passes_left_def split: option.split)
qed

lemma in_periodD:
  assumes "in_period E start w a b" and "a \<le> i" and "i \<le> j" and "j \<le> b"
  shows "start \<le> e_now E i" and "e_now E i \<le> e_now E j" and "e_now E j < start + w"
  using assms unfolding in_period_def by blast+

lemma in_period_sub: "in_period E start w a b \<Longrightarrow> a \<le> a' \<Longrightarrow> b' \<le> b \<Longrightarrow> in_period E start w a' b'"
  unfolding in_period_def by (meson le_trans)

lemma other_key: "k \<noteq> rate_key E r \<Longrightarrow>
  succeeds (count_request E C r n) (\<lambda>_ u. clock_reads s \<le> clock_reads u \<and> auth_cache u k = auth_cache s k) s"
  by (auto simp: count_request_def cache_start_def cache_incr_def split: option.split)

lemma unwritten: "\<not> wr_write_ok r \<Longrightarrow>
  succeeds (count_request E C r n) (\<lambda>_ u. clock_reads s \<le> clock_reads u \<and> auth_cache u k = auth_cache s k) s"
  by (simp add: count_request_def)

text \<open>A request that is let pass uses up one of the passes left.\<close>

lemma pass_used:
  assumes "watched E C k r" and n: "n = cache_value (auth_cache s) k (e_now E (clock_reads s))"
    and free: "int n < rc_limit C"
  shows "succeeds (count_request E C r n)
     (\<lambda>_ u. Suc (clock_reads s) \<le> clock_reads u \<and>
        (in_period E start (rc_window_seconds C) (clock_reads s) (clock_reads u) \<longrightarrow>
           passes_left E C k start u < passes_left E C k start s))
     (s\<lparr>clock_reads := Suc (clock_reads s)\<rparr>)"
proof -
  let ?c = "clock_reads s"
  have k: "rate_key E r = k" and ok: "wr_write_ok r"
    using assms(1) by (simp_all add: watched_def)
  have times: "start \<le> e_now E (Suc ?c)" "e_now E ?c \<le> e_now E (Suc ?c)" "e_now E (Suc ?c) \<le> e_now E (Suc (Suc ?c))"
      "e_now E (Suc ?c) < start + rc_window_seconds C" "e_now E (Suc (Suc ?c)) < start + rc_window_seconds C"
    if "in_period E start (rc_window_seconds C) ?c (Suc (Suc ?c))"
    using in_periodD [OF that, of "?c" "Suc ?c"] in_periodD [OF that, of "Suc ?c" "Suc (Suc ?c)"] by simp_all
  show ?thesis
  proof (cases "n = 0")
    case True
    then show ?thesis
      using free k ok n times
      by (auto simp: count_request_def cache_start_def passes_left_def cache_value_def split: option.splits if_splits)
  next
    case False
    with n obtain x where x: "auth_cache s k = Some (n, x)" "e_now E ?c < x"
      by (auto simp: cache_value_def split: option.splits if_splits)
    with False free k ok times show ?thesis
      by (auto simp: count_request_def cache_incr_def passes_left_def)
  qed
qed

definition used_up ::
  "env \<Rightarrow> rate_config \<Rightarrow> string \<Rightarrow> time \<Rightarrow> bool \<Rightarrow> 'z accounts_st_scheme \<Rightarrow> 'z accounts_st_scheme \<Rightarrow> bool" where
  "used_up E C k start b s t \<longleftrightarrow> clock_reads s \<le> clock_reads t \<and>
     (in_period E start (rc_window_seconds C) (clock_reads s) (clock_reads t) \<longrightarrow>
        passes_left E C k start t + (if b then 1 else 0) \<le> passes_left E C k start s)"

lemma used_up_later:
  assumes "used_up E C k start b s u" and "clock_reads u \<le> clock_reads t" and "auth_cache t k = auth_cache u k"
  shows "used_up E C k start b s t"
proof -
  have "clock_reads s \<le> clock_reads u"
    using assms(1) by (simp add: used_up_def)
  moreover have "passes_left E C k start t \<le> passes_left E C k start u"
    if "in_period E start (rc_window_seconds C) (clock_reads s) (clock_reads t)"
    by (rule passes_left_later [OF assms(3,2) in_period_sub [OF that]]) (use calculation in simp_all)
  ultimately show ?thesis
    using assms(1,2) in_period_sub [of E start "rc_window_seconds C" "clock_reads s" "clock_reads t" "clock_reads s" "clock_reads u"]
    by (fastforce simp: used_up_def)
qed

lemma used_up_fewer:
  assumes "used_up E C k start b s t" and "b' \<Longrightarrow> b"
  shows "used_up E C k start b' s t"
  using assms by (cases b; cases b') (auto simp: used_up_def)

lemma quiet_used:
  assumes "quiet_view k view" and "used_up E C k start b s u"
  shows "wpx (mbind view (\<lambda>a. ret (Some a))) (\<lambda>_. used_up E C k start b s) (\<lambda>_. used_up E C k start b s) u"
  unfolding wpx_mbind wpx_ret
  by (rule wpx_mono [OF upholds_wpx [OF assms(1) [unfolded quiet_view_def]]])
    (auto intro: used_up_later [OF assms(2)])

lemma same_used:
  "clock_reads s \<le> clock_reads u \<Longrightarrow> auth_cache u k = auth_cache s k \<Longrightarrow> used_up E C k start False s u"
  by (rule used_up_later [of E C k start False s s]) (simp_all add: used_up_def)

text \<open>The branches of the middleware: a request above the limit is answered 429, and only such a one.\<close>

lemma rate_limited_above:
  assumes "watched E C k r" and "0 < rc_limit C"
    and "rc_limit C \<le> int (cache_value (auth_cache s) k (e_now E (clock_reads s)))"
  shows "rate_limited E C r view s = (Inr None, s\<lparr>clock_reads := Suc (clock_reads s)\<rparr>)"
proof -
  from assms(1,2) have "\<not> not_limited C r" "wr_read_ok r" "rate_key E r = k"
    by (auto simp: watched_def not_limited_def list_all_iff list_ex_iff)
  with assms(3) show ?thesis
    by (simp add: rate_limited_def Let_def mbind_def mseq_def ret_def gets_def now_def modify_def)
qed

lemma rate_limited_step:
  assumes "quiet_view k view" and "0 < rc_limit C"
  shows "used_up E C k start (watched E C k r \<and> \<not> too_many_requests (fst (rate_limited E C r view s))) s
     (snd (rate_limited E C r view s))"
proof -
  let ?s = "s\<lparr>clock_reads := Suc (clock_reads s)\<rparr>"
  let ?n = "cache_value (auth_cache s) (rate_key E r) (e_now E (clock_reads s))"
  let ?b = "watched E C k r \<and> int ?n < rc_limit C"
  note view = quiet_used [OF assms(1)]
  have refused: "too_many_requests (fst (rate_limited E C r view s))" if "watched E C k r" "\<not> int ?n < rc_limit C"
    using rate_limited_above [OF that(1) assms(2), of s view] that by (auto simp: watched_def too_many_requests_def)
  have "wpx (rate_limited E C r view) (\<lambda>_. used_up E C k start ?b s) (\<lambda>_. used_up E C k start ?b s) s"
  proof (cases "not_limited C r \<or> \<not> wr_read_ok r")
    case True
    then have b: "?b = False"
      using assms(2) by (auto simp: watched_def not_limited_def list_all_iff list_ex_iff)
    show ?thesis
      unfolding rate_limited_def Let_def if_P [OF True] b
      by (rule view [OF same_used]) simp_all
  next
    case limited: False
    show ?thesis
    proof (cases "rc_limit C \<le> int ?n")
      case True
      then have b: "?b = False"
        by simp
      show ?thesis
        unfolding b using True limited by (simp add: rate_limited_def Let_def same_used)
    next
      case False
      have counted: "succeeds (count_request E C r ?n) (\<lambda>_. used_up E C k start ?b s) ?s"
      proof (cases "watched E C k r")
        case True
        with limited False have "?b" "rate_key E r = k"
          by (auto simp: watched_def)
        then show ?thesis
          using False True
          by (intro wpx_mono [OF pass_used [OF True, of ?n s start]]) (auto simp: used_up_def)
      next
        case unwatched: False
        then have b: "?b = False" and "k \<noteq> rate_key E r \<or> \<not> wr_write_ok r"
          using limited by (auto simp: watched_def not_limited_def list_all_iff list_ex_iff)
        then show ?thesis
          unfolding b using other_key [of k E r C ?n ?s] unwritten [of r E C ?n ?s k]
          by (auto elim!: wpx_mono intro!: same_used)
      qed
      with False limited show ?thesis
        by (auto simp: rate_limited_def Let_def elim!: wpx_mono dest: view)
    qed
  qed
  then have "used_up E C k start ?b s (snd (rate_limited E C r view s))"
    by (auto simp: wpx_def split: prod.splits sum.splits)
  then show ?thesis
    by (rule used_up_fewer) (use refused in blast)
qed

lemma serve_all_clock:
  "list_all (\<lambda>q. quiet_view k (snd q)) qs \<Longrightarrow> 0 < rc_limit C \<Longrightarrow> clock_reads s \<le> clock_reads (serve_all E C qs s)"
proof (induction qs arbitrary: s)
  case (Cons q qs)
  let ?t = "snd (rate_limited E C (fst q) (snd q) s)"
  have "clock_reads s \<le> clock_reads ?t"
    using rate_limited_step [of k "snd q" C E undefined "fst q" s] Cons.prems by (simp add: used_up_def)
  also have "\<dots> \<le> clock_reads (serve_all E C qs ?t)"
    by (rule Cons.IH) (use Cons.prems in simp_all)
  finally show ?case
    by simp
qed simp

lemma passed_bound:
  "list_all (\<lambda>q. quiet_view k (snd q)) qs \<Longrightarrow> 0 < rc_limit C \<Longrightarrow>
   in_period E start (rc_window_seconds C) (clock_reads s) (clock_reads (serve_all E C qs s)) \<Longrightarrow>
   passed E C k qs s \<le> passes_left E C k start s"
proof (induction qs arbitrary: s)
  case (Cons q qs)
  let ?t = "snd (rate_limited E C (fst q) (snd q) s)"
  let ?final = "serve_all E C qs ?t"
  have step: "used_up E C k start
      (watched E C k (fst q) \<and> \<not> too_many_requests (fst (rate_limited E C (fst q) (snd q) s))) s ?t"
    by (rule rate_limited_step) (use Cons.prems(1,2) in simp_all)
  have le: "clock_reads ?t \<le> clock_reads ?final"
    using serve_all_clock Cons.prems(1,2) by auto
  have period: "in_period E start (rc_window_seconds C) (clock_reads s) (clock_reads ?final)"
    using Cons.prems(3) by simp
  have "passed E C k qs ?t \<le> passes_left E C k start ?t"
    by (rule Cons.IH) (use Cons.prems(1,2) in_period_sub [OF period] step in \<open>auto simp: used_up_def\<close>)
  with step in_period_sub [OF period, of "clock_reads s" "clock_reads ?t"] le show ?case
    by (auto simp: used_up_def)
qed simp

text \<open>
  C34 (\<open>RequestRateLimitMiddleware\<close>): however requests of all clients are mixed, in any period as
  long as the window at most one less than twice the limit of one client's requests outside the
  exempt paths, with the cache up, are answered otherwise than with status 429: the counters are
  per fixed window, so two windows can meet inside the period, but never three, and the earlier
  one was opened before it.
\<close>

theorem rate_limit_two_windows:
  assumes "list_all (\<lambda>q. quiet_view k (snd q)) qs" and "0 < rc_limit C"
    and "\<And>n expires. auth_cache s k = Some (n, expires) \<Longrightarrow> 0 < n"
    and "in_period E start (rc_window_seconds C) (clock_reads s) (clock_reads (serve_all E C qs s))"
  shows "int (passed E C k qs s) \<le> 2 * rc_limit C - 1"
proof -
  have "int (passes_left E C k start s) \<le> 2 * rc_limit C - 1"
    using assms(2,3) by (auto simp: passes_left_def of_nat_diff split: option.splits)
  with passed_bound [OF assms(1,2,4)] show ?thesis
    by simp
qed

definition two_in_thirty :: rate_config where
  "two_in_thirty = \<lparr>rc_limit = 2, rc_window_seconds = 30, rc_exempt_prefixes = [''/api/'']\<rparr>"

definition example_page :: web_request where
  "example_page = \<lparr>wr_path = ''/bills/'', wr_user = Some (Uuid 1), wr_ip = None, wr_read_ok = True, wr_write_ok = True\<rparr>"

definition example_pages :: "(web_request \<times> (accounts_st, unit) pm) list" where
  "example_pages = replicate 5 (example_page, ret ())"

definition example_counters :: accounts_st where
  "example_counters = \<lparr>clock_reads = 0, draws = 0, tx_broken = False, on_commit = [], broker = [],
     users = [], platform_memberships = [], tenants = [], tenant_memberships = [], audit_logs = [],
     mfa_devices = [], backup_codes = [],
     auth_cache = (\<lambda>_. None)(rate_key example_env example_page \<mapsto> (1, 3))\<rparr>"

theorem rate_limit_two_windows_witness:
  "passed example_env two_in_thirty (rate_key example_env example_page) example_pages example_counters = 3 \<and>
   int (passed example_env two_in_thirty (rate_key example_env example_page) example_pages example_counters)
     \<le> 2 * rc_limit two_in_thirty - 1"
proof
  show "passed example_env two_in_thirty (rate_key example_env example_page) example_pages example_counters = 3"
    by code_simp
  have "quiet_view k (ret () :: (accounts_st, unit) pm)" for k
    by (simp add: quiet_view_def upholds_def ret_def)
  then have "list_all (\<lambda>q. quiet_view (rate_key example_env example_page) (snd q)) example_pages"
    by (simp add: example_pages_def list_all_iff)
  moreover have "clock_reads (serve_all example_env two_in_thirty example_pages example_counters) < 20"
    by code_simp
  then have "in_period example_env 0 (rc_window_seconds two_in_thirty) (clock_reads example_counters)
      (clock_reads (serve_all example_env two_in_thirty example_pages example_counters))"
    by (auto simp: in_period_def two_in_thirty_def example_counters_def)
  ultimately show "int (passed example_env two_in_thirty (rate_key example_env example_page) example_pages example_counters)
     \<le> 2 * rc_limit two_in_thirty - 1"
    by (intro rate_limit_two_windows) (auto simp: two_in_thirty_def example_counters_def)
qed

text \<open>With the cache down nothing is refused, whatever the counter says.\<close>

lemma rate_limit_fails_open:
  "\<not> wr_read_ok r \<Longrightarrow> rate_limited E C r view s = mbind view (\<lambda>a. ret (Some a)) s"
  by (simp add: rate_limited_def)

end
