(* ===== verification/SystemPages.thy ===== *)
theory SystemPages
  imports Reports Accounts
begin

text \<open>
  What surrounds the pages: the middlewares that give a request its correlation id and its audit
  context, the health checks and their alert, the command palette, the alerts of the top bar and
  the page that verifies the audit chain (\<open>apps/core\<close>, \<open>apps/audit/middleware.py\<close>, \<open>context.py\<close>,
  \<open>views.py\<close>).
\<close>

subsection \<open>Request context\<close>

record http_headers =
  hh_correlation_id :: "string option"
  hh_forwarded_for :: "string option"
  hh_remote_addr :: "string option"
  hh_user_agent :: string

definition new_correlation_id :: "env \<Rightarrow> ('z world_scheme, string) pm" where
  "new_correlation_id E = mbind draw (\<lambda>k. ret (e_hex E k))"

text \<open>\<open>set_correlation_id\<close> and \<open>set_request_context\<close> write what \<open>record_audit_event\<close> reads from \<open>env\<close>.\<close>

definition set_request_context :: "string option \<Rightarrow> string \<Rightarrow> env \<Rightarrow> env" where
  "set_request_context ip agent E = E\<lparr>e_ip_address := ip, e_user_agent := agent\<rparr>"

definition audit_context_middleware :: "http_headers \<Rightarrow> (env \<Rightarrow> ('s, 'a) pm) \<Rightarrow> env \<Rightarrow> ('s, 'a) pm" where
  "audit_context_middleware h view E =
     view (set_request_context (client_ip_from_request (hh_forwarded_for h) (hh_remote_addr h)) (hh_user_agent h) E)"

text \<open>The answer with its \<open>X-Correlation-ID\<close> header.\<close>

definition correlation_middleware ::
  "http_headers \<Rightarrow> (env \<Rightarrow> ('z world_scheme, 'a) pm) \<Rightarrow> env \<Rightarrow> ('z world_scheme, 'a \<times> string) pm" where
  "correlation_middleware h view E =
     mbind (case hh_correlation_id h of
              Some c \<Rightarrow> if c = [] then new_correlation_id E else ret c
            | None \<Rightarrow> new_correlation_id E) (\<lambda>c.
     mbind (view (E\<lparr>e_correlation_id := c\<rparr>)) (\<lambda>answer. ret (answer, c)))"

subsection \<open>Health\<close>

text \<open>What the three probes meet: an error's text, or for the cache what is read back.\<close>

datatype probe = Works | Fails string

datatype cache_probe = CacheFails string | ReadBack "string option"

record probes =
  pr_database :: probe
  pr_cache :: cache_probe
  pr_broker :: probe

fun probe_text :: "probe \<Rightarrow> string" where
  "probe_text Works = ''ok''"
| "probe_text (Fails e) = ''error: '' @ e"

fun cache_text :: "cache_probe \<Rightarrow> string" where
  "cache_text (CacheFails e) = ''error: '' @ e"
| "cache_text (ReadBack v) = (if v = Some ''1'' then ''ok'' else ''error: read-back mismatch'')"

definition run_health_checks :: "probes \<Rightarrow> bool \<times> (string \<times> string) list" where
  "run_health_checks p =
     (pr_database p = Works \<and> pr_cache p = ReadBack (Some ''1'') \<and> pr_broker p = Works,
      [(''database'', probe_text (pr_database p)), (''cache'', cache_text (pr_cache p)),
       (''celery_broker'', probe_text (pr_broker p))])"

definition health_check :: "probes \<Rightarrow> nat \<times> json" where
  "health_check p = (let (healthy, checks) = run_health_checks p in
     (if healthy then 200 else 503,
      JObj [(''status'', JStr (if healthy then ''ok'' else ''unhealthy'')),
            (''checks'', JObj (map (\<lambda>(n, r). (n, JStr r)) checks))]))"

text \<open>The scheduled task: its result and the mail to the administrators, if it sends one.\<close>

definition monitor_system_health :: "probes \<Rightarrow> (bool \<times> (string \<times> string) list) \<times> (string \<times> string list) option" where
  "monitor_system_health p = (let (healthy, checks) = run_health_checks p in
     ((healthy, checks),
      if healthy then None
      else Some (''KUSANYA health check failed'',
        ''One or more dependency checks failed:'' # map (\<lambda>(n, r). ''- '' @ n @ '': '' @ r) checks)))"

lemma health_check_ok_iff:
  "fst (health_check p) = 200 \<longleftrightarrow> (\<forall>c \<in> set (snd (run_health_checks p)). snd c = ''ok'')"
  by (cases "pr_database p"; cases "pr_cache p"; cases "pr_broker p")
     (auto simp: health_check_def run_health_checks_def Let_def)

subsection \<open>Navigation\<close>

text \<open>The name of the page the root URL redirects to.\<close>

definition home :: "user option \<Rightarrow> string" where
  "home user = (case user of Some u \<Rightarrow> ''core:dashboard-router'' | None \<Rightarrow> ''accounts:login'')"

definition NAV_SHORTCUTS :: "(string \<times> string) list" where
  "NAV_SHORTCUTS =
     [(''Dashboard'', ''core:dashboard-router''), (''Customers'', ''customers:list''),
      (''New customer'', ''customers:create''), (''Bills'', ''billing:list''), (''New bill'', ''billing:create''),
      (''Control numbers'', ''control_numbers:list''), (''Payments'', ''payments:list''),
      (''Ledger'', ''ledger:list''), (''Revenue'', ''revenue:summary''),
      (''Reconciliation'', ''reconciliation:list''), (''Settlements'', ''settlement:list''),
      (''Webhooks'', ''webhooks:list''), (''Notifications'', ''notifications:list''),
      (''Receipts'', ''receipts:list''), (''Reports'', ''reports:index''), (''Audit events'', ''reports:audit''),
      (''API credentials'', ''api_credentials:list''), (''Security settings'', ''accounts:mfa-status'')]"

text \<open>The searches answer at most five rows each, their default limit.\<close>

definition command_palette_search ::
  "env \<Rightarrow> uuid option \<Rightarrow> string \<Rightarrow> 'z reconciliation_st_scheme \<Rightarrow>
   (string \<times> string) list \<times> customer list \<times> bill list" where
  "command_palette_search E tenant q s =
     (let query = py_strip q in
      (if query = [] then [] else take 8 (filter (\<lambda>i. sublist (py_lower query) (py_lower (fst i))) NAV_SHORTCUTS),
       case tenant of
         None \<Rightarrow> ([], [])
       | Some tid \<Rightarrow> if query = [] then ([], [])
                     else (search_customers E s tid query 5, search_bills s tid query 5)))"

subsection \<open>Alerts of the top bar\<close>

datatype alert = MfaMissing | OpenExceptions nat | AwaitingApproval nat

definition alert_text :: "(nat \<Rightarrow> string) \<Rightarrow> alert \<Rightarrow> string" where
  "alert_text digits a = (case a of
     MfaMissing \<Rightarrow> ''Two-factor authentication isn'' @ [CHR 0x27] @ ''t enabled on your account''
   | OpenExceptions n \<Rightarrow> digits n @ '' open reconciliation exception'' @ (if n \<noteq> 1 then ''s'' else [])
   | AwaitingApproval n \<Rightarrow> digits n @ '' institution'' @ (if n \<noteq> 1 then ''s'' else []) @ '' awaiting approval'')"

definition topbar_alerts ::
  "user option \<Rightarrow> uuid option \<Rightarrow> mfa_device list \<Rightarrow> 'z reconciliation_st_scheme \<Rightarrow> alert list" where
  "topbar_alerts user tenant devices s = (case user of None \<Rightarrow> []
     | Some u \<Rightarrow>
         let open_count = (case tenant of None \<Rightarrow> 0
               | Some tid \<Rightarrow> length (filter (\<lambda>x. rx_tenant x = tid \<and> rx_status x = ExceptionOpen)
                   (reconciliation_exceptions s)));
             pending = (if u_is_staff u then length (filter (\<lambda>t. t_status t = TenantPending) (tenants s)) else 0) in
         (if list_ex (\<lambda>d. md_user d = u_id u \<and> md_confirmed d) devices then [] else [MfaMissing]) @
         (if open_count = 0 then [] else [OpenExceptions open_count]) @
         (if pending = 0 then [] else [AwaitingApproval pending]))"

subsection \<open>Verifying the chain\<close>

text \<open>The page redirects; what it tells is the verdict and the record that broke, if any.\<close>

definition verify_chain_page ::
  "env \<Rightarrow> user option \<Rightarrow> bool \<Rightarrow> ('z audit_st_scheme, (bool \<times> audit_record option) option) pm" where
  "verify_chain_page E user post =
     require_platform_role [SUPER_ADMIN, COMPLIANCE_ADMIN, AUDITOR] user
       (gets (\<lambda>s. if post then Some (verify_chain E (audit_logs s)) else None))"

end
