(* ===== verification/Routes.thy ===== *)
theory Routes
  imports CoreSupport
begin

text \<open>
  The addresses of the platform (\<open>config/urls.py\<close> and every \<open>urls.py\<close>): the tables of routes, how a
  path is resolved against them (Django's \<open>path\<close> and \<open>include\<close>) and how a link is made from a
  route's name. No route hides another, so that a link leads to the page it names.
\<close>

subsection \<open>Patterns\<close>

text \<open>A pattern such as \<open>"bills/<uuid:pk>/cancel/"\<close> is split at its converters.\<close>

datatype part = Lit string | UuidArg string

type_synonym url_module = "string \<times> (part list \<times> string \<times> string) list"

datatype mount = Include string url_module | Foreign string

definition is_hex_char :: "char \<Rightarrow> bool" where
  "is_hex_char c \<longleftrightarrow> c \<in> set ''0123456789abcdef''"

definition uuid_classes :: "bool list" where
  "uuid_classes = replicate 8 True @ [False] @ replicate 4 True @ [False] @ replicate 4 True @ [False] @
     replicate 4 True @ [False] @ replicate 12 True"

text \<open>The converter's regular expression: hexadecimal digits in groups of 8, 4, 4, 4 and 12.\<close>

definition is_uuid_text :: "string \<Rightarrow> bool" where
  "is_uuid_text t \<longleftrightarrow> list_all2 (\<lambda>hex c. if hex then is_hex_char c else c = CHR ''-'') uuid_classes t"

fun match_parts :: "part list \<Rightarrow> string \<Rightarrow> ((string \<times> string) list \<times> string) option" where
  "match_parts [] s = Some ([], s)"
| "match_parts (Lit l # ps) s = (if prefix l s then match_parts ps (drop (length l) s) else None)"
| "match_parts (UuidArg n # ps) s =
     (if is_uuid_text (take 36 s)
      then (case match_parts ps (drop 36 s) of None \<Rightarrow> None
            | Some (kwargs, rest) \<Rightarrow> Some ((n, take 36 s) # kwargs, rest))
      else None)"

subsection \<open>The tables\<close>

text \<open>Pattern, view and name of each route, with the module's \<open>app_name\<close>.\<close>

definition accounts_urls :: "url_module" where
  "accounts_urls = (''accounts'',
    [([Lit ''login/''], ''EmailLoginView'', ''login''),
     ([Lit ''logout/''], ''KusanyaLogoutView'', ''logout''),
     ([Lit ''mfa/verify/''], ''mfa_verify'', ''mfa-verify''),
     ([Lit ''mfa/''], ''mfa_status'', ''mfa-status''),
     ([Lit ''mfa/setup/''], ''mfa_setup'', ''mfa-setup''),
     ([Lit ''mfa/disable/''], ''mfa_disable'', ''mfa-disable''),
     ([Lit ''mfa/backup-codes/regenerate/''], ''mfa_regenerate_backup_codes'', ''mfa-backup-codes-regenerate'')])"

definition api_urls :: "url_module" where
  "api_urls = (''api'',
    [([Lit ''schema/''], ''SpectacularAPIView'', ''schema''),
     ([Lit ''docs/''], ''SpectacularSwaggerView'', ''docs''),
     ([Lit ''v1/institutions/me/''], ''InstitutionMeView'', ''institution-me''),
     ([Lit ''v1/customers/''], ''CustomerListCreateView'', ''customer-list''),
     ([Lit ''v1/customers/'', UuidArg ''pk'', Lit ''/''], ''CustomerDetailView'', ''customer-detail''),
     ([Lit ''v1/accounts/''], ''AccountListCreateView'', ''account-list''),
     ([Lit ''v1/bills/''], ''BillListCreateView'', ''bill-list''),
     ([Lit ''v1/bills/'', UuidArg ''pk'', Lit ''/''], ''BillDetailView'', ''bill-detail''),
     ([Lit ''v1/bills/'', UuidArg ''pk'', Lit ''/control-number/''], ''BillControlNumberView'', ''bill-control-number''),
     ([Lit ''v1/payments/''], ''PaymentListCreateView'', ''payment-list''),
     ([Lit ''v1/payments/'', UuidArg ''pk'', Lit ''/''], ''PaymentDetailView'', ''payment-detail''),
     ([Lit ''v1/payments/'', UuidArg ''pk'', Lit ''/query/''], ''PaymentQueryView'', ''payment-query''),
     ([Lit ''v1/reconciliation/''], ''ReconciliationRunListView'', ''reconciliation-list''),
     ([Lit ''v1/settlements/''], ''SettlementBatchListView'', ''settlement-list''),
     ([Lit ''v1/settlements/'', UuidArg ''pk'', Lit ''/''], ''SettlementBatchDetailView'', ''settlement-detail''),
     ([Lit ''v1/webhooks/''], ''WebhookEndpointListCreateView'', ''webhook-list''),
     ([Lit ''v1/notifications/''], ''NotificationListView'', ''notification-list'')])"

definition audit_urls :: "url_module" where
  "audit_urls = (''audit'',
    [([Lit ''platform/verify-chain/''], ''verify_chain'', ''verify-chain'')])"

definition billing_urls :: "url_module" where
  "billing_urls = (''billing'',
    [([], ''bill_list'', ''list''),
     ([Lit ''new/''], ''bill_create'', ''create''),
     ([UuidArg ''pk'', Lit ''/''], ''bill_detail'', ''detail''),
     ([UuidArg ''pk'', Lit ''/cancel/''], ''bill_cancel'', ''cancel''),
     ([UuidArg ''pk'', Lit ''/control-number/''], ''bill_request_control_number'', ''request-control-number'')])"

definition control_numbers_urls :: "url_module" where
  "control_numbers_urls = (''control_numbers'',
    [([], ''control_number_list'', ''list'')])"

definition core_urls :: "url_module" where
  "core_urls = (''core'',
    [([], ''home'', ''home''),
     ([Lit ''healthz/''], ''health_check'', ''health-check''),
     ([Lit ''dashboard/''], ''dashboard_router'', ''dashboard-router''),
     ([Lit ''dashboard/platform/''], ''platform_dashboard'', ''platform-dashboard''),
     ([Lit ''command-palette/search/''], ''command_palette_search'', ''command-palette-search''),
     ([Lit ''background-jobs/''], ''background_jobs'', ''background-jobs'')])"

definition customers_urls :: "url_module" where
  "customers_urls = (''customers'',
    [([], ''customer_list'', ''list''),
     ([Lit ''new/''], ''customer_create'', ''create''),
     ([UuidArg ''pk'', Lit ''/''], ''customer_detail'', ''detail''),
     ([UuidArg ''pk'', Lit ''/edit/''], ''customer_edit'', ''edit''),
     ([UuidArg ''pk'', Lit ''/deactivate/''], ''customer_deactivate'', ''deactivate''),
     ([UuidArg ''pk'', Lit ''/activate/''], ''customer_activate'', ''activate''),
     ([Lit ''bulk-deactivate/''], ''customer_bulk_deactivate'', ''bulk-deactivate''),
     ([UuidArg ''customer_pk'', Lit ''/accounts/new/''], ''account_create'', ''account-create'')])"

definition ledger_urls :: "url_module" where
  "ledger_urls = (''ledger'',
    [([], ''ledger_list'', ''list'')])"

definition notifications_urls :: "url_module" where
  "notifications_urls = (''notifications'',
    [([], ''notification_list'', ''list'')])"

definition payments_urls :: "url_module" where
  "payments_urls = (''payments'',
    [([], ''payment_list'', ''list''),
     ([UuidArg ''pk'', Lit ''/''], ''payment_detail'', ''detail''),
     ([UuidArg ''pk'', Lit ''/query/''], ''payment_query'', ''query''),
     ([UuidArg ''pk'', Lit ''/refund/''], ''payment_refund'', ''refund''),
     ([UuidArg ''pk'', Lit ''/reverse/''], ''payment_reverse'', ''reverse''),
     ([Lit ''bills/'', UuidArg ''bill_pk'', Lit ''/pay/''], ''pay_bill'', ''pay-bill''),
     ([Lit ''providers/mock/callback/''], ''mock_provider_callback'', ''mock-provider-callback'')])"

definition receipts_urls :: "url_module" where
  "receipts_urls = (''receipts'',
    [([], ''receipt_list'', ''list''),
     ([UuidArg ''pk'', Lit ''/''], ''receipt_detail'', ''detail'')])"

definition reconciliation_urls :: "url_module" where
  "reconciliation_urls = (''reconciliation'',
    [([], ''run_list'', ''list''),
     ([Lit ''run/''], ''trigger_run'', ''trigger''),
     ([UuidArg ''pk'', Lit ''/''], ''run_detail'', ''detail''),
     ([Lit ''exceptions/'', UuidArg ''pk'', Lit ''/resolve/''], ''resolve_exception_view'', ''resolve-exception'')])"

definition reports_urls :: "url_module" where
  "reports_urls = (''reports'',
    [([], ''reports_index'', ''index''),
     ([Lit ''bills/''], ''bills_report'', ''bills''),
     ([Lit ''payments/''], ''payments_report'', ''payments''),
     ([Lit ''collections/''], ''collections_report'', ''collections''),
     ([Lit ''outstanding-balances/''], ''outstanding_balances_report'', ''outstanding-balances''),
     ([Lit ''audit/''], ''audit_report'', ''audit'')])"

definition revenue_urls :: "url_module" where
  "revenue_urls = (''revenue'',
    [([], ''tenant_revenue_summary'', ''summary''),
     ([Lit ''platform/''], ''platform_revenue_dashboard'', ''platform-dashboard'')])"

definition settlement_urls :: "url_module" where
  "settlement_urls = (''settlement'',
    [([], ''batch_list'', ''list''),
     ([UuidArg ''pk'', Lit ''/''], ''batch_detail'', ''detail''),
     ([Lit ''platform/''], ''platform_batch_list'', ''platform-list''),
     ([Lit ''platform/generate/''], ''generate_batch'', ''generate''),
     ([Lit ''platform/'', UuidArg ''pk'', Lit ''/complete/''], ''mark_completed'', ''mark-completed'')])"

definition tenants_urls :: "url_module" where
  "tenants_urls = (''tenants'',
    [([Lit ''register/''], ''onboard'', ''onboard''),
     ([Lit ''portal/''], ''dashboard'', ''dashboard''),
     ([Lit ''team/''], ''team_members'', ''team''),
     ([Lit ''team/add/''], ''team_member_create'', ''team-member-create''),
     ([Lit ''team/'', UuidArg ''pk'', Lit ''/deactivate/''], ''team_member_deactivate'', ''team-member-deactivate''),
     ([Lit ''team/'', UuidArg ''pk'', Lit ''/activate/''], ''team_member_activate'', ''team-member-activate''),
     ([Lit ''platform/tenants/pending/''], ''pending_tenants'', ''pending-tenants''),
     ([Lit ''platform/tenants/create/''], ''platform_create_tenant'', ''platform-create-tenant''),
     ([Lit ''platform/tenants/'', UuidArg ''pk'', Lit ''/approve/''], ''approve_tenant'', ''approve-tenant'')])"

definition users_urls :: "url_module" where
  "users_urls = (''users'',
    [([Lit ''platform/''], ''platform_users'', ''platform-list''),
     ([Lit ''platform/create/''], ''platform_user_create'', ''platform-create'')])"

definition webhooks_urls :: "url_module" where
  "webhooks_urls = (''webhooks'',
    [([], ''endpoint_list'', ''list''),
     ([Lit ''new/''], ''endpoint_create'', ''create''),
     ([UuidArg ''pk'', Lit ''/deliveries/''], ''endpoint_deliveries'', ''deliveries'')])"

definition api_credentials_urls :: "url_module" where
  "api_credentials_urls = (''api_credentials'',
    [([], ''credential_list'', ''list''),
     ([Lit ''new/''], ''credential_create'', ''create''),
     ([UuidArg ''pk'', Lit ''/rotate/''], ''credential_rotate'', ''rotate''),
     ([UuidArg ''pk'', Lit ''/revoke/''], ''credential_revoke'', ''revoke'')])"

definition urlpatterns :: "mount list" where
  "urlpatterns =
    [Foreign ''admin/'',
     Foreign ''i18n/'',
     Include ''accounts/'' accounts_urls,
     Include [] core_urls,
     Include [] tenants_urls,
     Include ''users/'' users_urls,
     Include ''customers/'' customers_urls,
     Include ''bills/'' billing_urls,
     Include ''control-numbers/'' control_numbers_urls,
     Include ''payments/'' payments_urls,
     Include ''webhooks/'' webhooks_urls,
     Include ''ledger/'' ledger_urls,
     Include ''revenue/'' revenue_urls,
     Include ''reconciliation/'' reconciliation_urls,
     Include ''settlement/'' settlement_urls,
     Include ''notifications/'' notifications_urls,
     Include ''receipts/'' receipts_urls,
     Include ''reports/'' reports_urls,
     Include ''audit/'' audit_urls,
     Include ''api-credentials/'' api_credentials_urls,
     Include ''api/'' api_urls]"

subsection \<open>Resolution\<close>

record resolver_match =
  rm_view :: string
  rm_app_name :: string
  rm_url_name :: string
  rm_kwargs :: "(string \<times> string) list"

text \<open>\<open>ResolverMatch.view_name\<close>.\<close>

definition view_name :: "string \<Rightarrow> string \<Rightarrow> string" where
  "view_name app name = app @ '':'' @ name"

fun resolve_in :: "string \<Rightarrow> (part list \<times> string \<times> string) list \<Rightarrow> string \<Rightarrow> resolver_match option" where
  "resolve_in app [] s = None"
| "resolve_in app ((ps, view, name) # rest) s =
     (case match_parts ps s of
        Some (kwargs, []) \<Rightarrow> Some \<lparr>rm_view = view, rm_app_name = app, rm_url_name = name, rm_kwargs = kwargs\<rparr>
      | _ \<Rightarrow> resolve_in app rest s)"

text \<open>
  The first pattern that matches decides; a module in which nothing matches is passed over. What
  the framework's own modules answer is a parameter.
\<close>

fun resolve :: "(string \<Rightarrow> string \<Rightarrow> resolver_match option) \<Rightarrow> mount list \<Rightarrow> string \<Rightarrow> resolver_match option" where
  "resolve F [] s = None"
| "resolve F (Foreign pre # ms) s =
     (if prefix pre s then (case F pre (drop (length pre) s) of None \<Rightarrow> resolve F ms s | r \<Rightarrow> r)
      else resolve F ms s)"
| "resolve F (Include pre (app, urls) # ms) s =
     (if prefix pre s then (case resolve_in app urls (drop (length pre) s) of None \<Rightarrow> resolve F ms s | r \<Rightarrow> r)
      else resolve F ms s)"

text \<open>\<open>reverse\<close>: the pattern of the name, its converters filled with the arguments.\<close>

fun routes :: "mount list \<Rightarrow> (string \<times> part list) list" where
  "routes [] = []"
| "routes (Foreign pre # ms) = routes ms"
| "routes (Include pre (app, urls) # ms) =
     map (\<lambda>(ps, view, name). (view_name app name, Lit pre # ps)) urls @ routes ms"

fun fill :: "(string \<times> string) list \<Rightarrow> part list \<Rightarrow> string" where
  "fill kwargs [] = []"
| "fill kwargs (Lit l # ps) = l @ fill kwargs ps"
| "fill kwargs (UuidArg n # ps) = (case map_of kwargs n of Some v \<Rightarrow> v | None \<Rightarrow> []) @ fill kwargs ps"

definition arguments :: "part list \<Rightarrow> string list" where
  "arguments ps = concat (map (\<lambda>p. case p of UuidArg n \<Rightarrow> [n] | Lit _ \<Rightarrow> []) ps)"

text \<open>\<open>None\<close> is \<open>NoReverseMatch\<close>.\<close>

definition reverse_url :: "mount list \<Rightarrow> string \<Rightarrow> (string \<times> string) list \<Rightarrow> string option" where
  "reverse_url ms name kwargs = (case map_of (routes ms) name of None \<Rightarrow> None
     | Some ps \<Rightarrow> if set (map fst kwargs) = set (arguments ps) \<and> list_all (\<lambda>(n, v). is_uuid_text v) kwargs
                   then Some (fill kwargs ps) else None)"

subsection \<open>What a pattern matches\<close>

text \<open>
  Every pattern matches texts of one length, position by position; \<open>End\<close> marks where it ends. Two
  patterns can match the same path only if they meet.
\<close>

datatype position = One char | Hex | End

fun fits :: "position \<Rightarrow> char \<Rightarrow> bool" where
  "fits (One a) c \<longleftrightarrow> a = c"
| "fits Hex c \<longleftrightarrow> is_hex_char c"
| "fits End c \<longleftrightarrow> False"

fun overlap :: "position \<Rightarrow> position \<Rightarrow> bool" where
  "overlap (One a) (One b) \<longleftrightarrow> a = b"
| "overlap (One a) Hex \<longleftrightarrow> is_hex_char a"
| "overlap Hex (One b) \<longleftrightarrow> is_hex_char b"
| "overlap Hex Hex \<longleftrightarrow> True"
| "overlap End End \<longleftrightarrow> True"
| "overlap _ _ \<longleftrightarrow> False"

definition uuid_shape :: "position list" where
  "uuid_shape = map (\<lambda>hex. if hex then Hex else One (CHR ''-'')) uuid_classes"

fun shape :: "part list \<Rightarrow> position list" where
  "shape [] = []"
| "shape (Lit l # ps) = map One l @ shape ps"
| "shape (UuidArg n # ps) = uuid_shape @ shape ps"

fun meet :: "position list \<Rightarrow> position list \<Rightarrow> bool" where
  "meet (a # as) (b # bs) \<longleftrightarrow> (if overlap a b then meet as bs else False)"
| "meet _ _ \<longleftrightarrow> True"

lemma uuid_fits: "list_all2 fits uuid_shape t \<longleftrightarrow> is_uuid_text t"
  unfolding uuid_shape_def is_uuid_text_def list_all2_map1
  by (rule arg_cong [where f = "\<lambda>P. list_all2 P uuid_classes t"]) (auto simp: fun_eq_iff)

lemma one_fits: "list_all2 fits (map One l) t \<longleftrightarrow> t = l"
  by (simp add: list_all2_map1 list.rel_eq [unfolded fun_eq_iff] eq_commute)

lemma length_uuid_text: "is_uuid_text t \<Longrightarrow> length t = 36"
  unfolding is_uuid_text_def by (drule list_all2_lengthD) (simp add: uuid_classes_def)

lemma fits_overlap: "fits a c \<Longrightarrow> fits b c \<Longrightarrow> overlap a b"
  by (cases a; cases b) auto

lemma meetI: "list_all2 fits as t \<Longrightarrow> list_all2 fits bs (t @ u) \<Longrightarrow> meet as (bs @ cs)"
proof (induction as arbitrary: t bs)
  case (Cons a as)
  then obtain c v where v: "t = c # v" "fits a c" "list_all2 fits as v"
    by (auto simp: list_all2_Cons1)
  with Cons.prems(2) obtain b ds where "bs = b # ds" "fits b c" "list_all2 fits ds (v @ u)"
    by (auto simp: list_all2_Cons2)
  with v Cons.IH show ?case
    using fits_overlap by simp
qed simp

lemma meet_ends: "list_all2 fits as t \<Longrightarrow> list_all2 fits bs t \<Longrightarrow> meet (as @ [End]) (bs @ [End])"
proof (induction as arbitrary: t bs)
  case (Cons a as)
  then obtain c v b ds where "t = c # v" "fits a c" "list_all2 fits as v" "bs = b # ds" "fits b c" "list_all2 fits ds v"
    by (auto simp: list_all2_Cons1 list_all2_Cons2)
  with Cons.IH show ?case
    using fits_overlap by simp
qed simp

lemma meet_prefix: "meet (as @ xs) (bs @ ys) \<Longrightarrow> meet as bs"
  by (induction as bs rule: meet.induct) (auto split: if_splits)

lemma overlap_refl: "overlap a a"
  by (cases a) auto

lemma meet_same_front: "meet (as @ xs) (as @ ys) = meet xs ys"
  by (induction as) (auto simp: overlap_refl)

lemma match_fits: "match_parts ps s = Some (kwargs, rest) \<Longrightarrow> \<exists>t. s = t @ rest \<and> list_all2 fits (shape ps) t"
proof (induction ps arbitrary: s kwargs)
  case (Cons p ps)
  show ?case
  proof (cases p)
    case (Lit l)
    with Cons.prems obtain u where u: "s = l @ u" "match_parts ps u = Some (kwargs, rest)"
      by (auto simp: prefix_def split: if_splits)
    obtain t where "u = t @ rest" "list_all2 fits (shape ps) t"
      using Cons.IH [OF u(2)] by auto
    then show ?thesis
      using u(1) Lit by (intro exI [of _ "l @ t"]) (simp add: one_fits list_all2_appendI)
  next
    case (UuidArg n)
    with Cons.prems obtain kw where u: "is_uuid_text (take 36 s)" "match_parts ps (drop 36 s) = Some (kw, rest)"
      by (auto split: if_splits option.splits)
    obtain t where "drop 36 s = t @ rest" "list_all2 fits (shape ps) t"
      using Cons.IH [OF u(2)] by auto
    then show ?thesis
      using u(1) UuidArg append_take_drop_id [of 36 s]
      by (auto simp: uuid_fits intro!: exI [of _ "take 36 s @ t"] list_all2_appendI)
  qed
qed simp

definition filled :: "(string \<times> string) list \<Rightarrow> part list \<Rightarrow> bool" where
  "filled kwargs ps \<longleftrightarrow> (\<forall>n \<in> set (arguments ps). \<exists>v. map_of kwargs n = Some v \<and> is_uuid_text v)"

lemma arguments_simps [simp]:
  "arguments [] = []" "arguments (Lit l # ps) = arguments ps" "arguments (UuidArg n # ps) = n # arguments ps"
  by (simp_all add: arguments_def)

lemma match_fill:
  "filled kwargs ps \<Longrightarrow>
   match_parts ps (fill kwargs ps) = Some (map (\<lambda>n. (n, the (map_of kwargs n))) (arguments ps), [])"
proof (induction ps)
  case (Cons p ps)
  then show ?case
    by (cases p) (auto simp: filled_def length_uuid_text)
qed simp

lemma fill_fits: "filled kwargs ps \<Longrightarrow> list_all2 fits (shape ps) (fill kwargs ps)"
  using match_fits [OF match_fill] by fastforce

subsection \<open>Resolution as one list\<close>

datatype entry = Elsewhere string | Page_at "part list" string string string

fun entries :: "mount list \<Rightarrow> entry list" where
  "entries [] = []"
| "entries (Foreign pre # ms) = Elsewhere pre # entries ms"
| "entries (Include pre (app, urls) # ms) =
     map (\<lambda>(ps, view, name). Page_at (Lit pre # ps) app view name) urls @ entries ms"

fun first_match :: "(string \<Rightarrow> string \<Rightarrow> resolver_match option) \<Rightarrow> entry list \<Rightarrow> string \<Rightarrow> resolver_match option" where
  "first_match F [] s = None"
| "first_match F (Elsewhere pre # es) s =
     (if prefix pre s then (case F pre (drop (length pre) s) of None \<Rightarrow> first_match F es s | r \<Rightarrow> r)
      else first_match F es s)"
| "first_match F (Page_at ps app view name # es) s =
     (case match_parts ps s of
        Some (kwargs, []) \<Rightarrow> Some \<lparr>rm_view = view, rm_app_name = app, rm_url_name = name, rm_kwargs = kwargs\<rparr>
      | _ \<Rightarrow> first_match F es s)"

lemma first_match_module:
  "first_match F (map (\<lambda>(ps, view, name). Page_at (Lit pre # ps) app view name) urls @ es) s =
     (if prefix pre s then (case resolve_in app urls (drop (length pre) s) of None \<Rightarrow> first_match F es s | r \<Rightarrow> r)
      else first_match F es s)"
  by (induction urls) (auto split: option.split list.split)

lemma resolve_entries: "resolve F ms s = first_match F (entries ms) s"
  by (induction F ms s rule: resolve.induct) (auto simp: first_match_module split: option.split)

text \<open>What an entry matches, and whether any two match a path in common.\<close>

fun form_of :: "entry \<Rightarrow> position list" where
  "form_of (Elsewhere pre) = map One pre"
| "form_of (Page_at ps app view name) = shape ps @ [End]"

fun all_apart :: "position list list \<Rightarrow> bool" where
  "all_apart [] \<longleftrightarrow> True"
| "all_apart (f # fs) \<longleftrightarrow> (if list_ex (meet f) fs then False else all_apart fs)"

lemma all_apart_append:
  "all_apart (fs @ gs) \<longleftrightarrow> all_apart fs \<and> all_apart gs \<and> (\<forall>f \<in> set fs. \<forall>g \<in> set gs. \<not> meet f g)"
  by (induction fs) (auto simp: list_ex_iff)

lemma skip_entries:
  assumes "\<And>e. e \<in> set xs \<Longrightarrow> \<not> meet (form_of e) (shape ps @ [End])" and "list_all2 fits (shape ps) s"
  shows "first_match F (xs @ ys) s = first_match F ys s"
  using assms(1)
proof (induction xs)
  case (Cons e xs)
  note apart = Cons.prems [of e, simplified]
  show ?case
  proof (cases e)
    case (Elsewhere pre)
    have "\<not> prefix pre s"
    proof
      assume "prefix pre s"
      then obtain u where "s = pre @ u"
        by (auto simp: prefix_def)
      then have "meet (map One pre) (shape ps @ [End])"
        using assms(2) by (intro meetI [of _ pre]) (simp_all add: one_fits)
      then show False
        using apart Elsewhere by simp
    qed
    then show ?thesis
      using Cons Elsewhere by simp
  next
    case (Page_at qs app view name)
    have "match_parts qs s \<noteq> Some (kwargs, [])" for kwargs
    proof
      assume "match_parts qs s = Some (kwargs, [])"
      then have "list_all2 fits (shape qs) s"
        using match_fits by fastforce
      then show False
        using apart Page_at meet_ends assms(2) by auto
    qed
    then show ?thesis
      using Cons Page_at by (auto split: option.split list.split)
  qed
qed simp

lemma first_match_filled:
  assumes "all_apart (map form_of es)" and "Page_at ps app view name \<in> set es" and "filled kwargs ps"
  shows "first_match F es (fill kwargs ps) = Some \<lparr>rm_view = view, rm_app_name = app, rm_url_name = name,
    rm_kwargs = map (\<lambda>n. (n, the (map_of kwargs n))) (arguments ps)\<rparr>"
proof -
  obtain xs ys where es: "es = xs @ Page_at ps app view name # ys"
    using split_list [OF assms(2)] by auto
  have clear: "\<not> meet (form_of e) (shape ps @ [End])" if "e \<in> set xs" for e
    using assms(1) that unfolding es map_append all_apart_append by auto
  have "first_match F es (fill kwargs ps) = first_match F (Page_at ps app view name # ys) (fill kwargs ps)"
    unfolding es by (rule skip_entries [OF clear fill_fits [OF assms(3)]])
  then show ?thesis
    by (simp add: match_fill [OF assms(3)])
qed

text \<open>A cheaper test: modules are told apart by their prefixes, and their routes by what follows it.\<close>

fun fronts :: "mount \<Rightarrow> position list list" where
  "fronts (Foreign pre) = [map One pre]"
| "fronts (Include pre (app, urls)) =
     (if pre = [] then map (\<lambda>(ps, view, name). shape ps @ [End]) urls else [map One pre])"

fun own_apart :: "mount \<Rightarrow> bool" where
  "own_apart (Foreign pre) \<longleftrightarrow> True"
| "own_apart (Include pre (app, urls)) \<longleftrightarrow> all_apart (map (\<lambda>(ps, view, name). shape ps @ [End]) urls)"

fun none_meet :: "position list list \<Rightarrow> position list list \<Rightarrow> bool" where
  "none_meet [] gs \<longleftrightarrow> True"
| "none_meet (f # fs) gs \<longleftrightarrow> (if list_ex (meet f) gs then False else none_meet fs gs)"

fun mounts_apart :: "mount list \<Rightarrow> bool" where
  "mounts_apart [] \<longleftrightarrow> True"
| "mounts_apart (m # ms) \<longleftrightarrow>
     (if own_apart m then if none_meet (fronts m) (concat (map fronts ms)) then mounts_apart ms else False else False)"

lemma none_meet_iff: "none_meet fs gs \<longleftrightarrow> (\<forall>f \<in> set fs. \<forall>g \<in> set gs. \<not> meet f g)"
  by (induction fs) (auto simp: list_ex_iff)

lemma entries_Cons: "entries (m # ms) = entries [m] @ entries ms"
  by (cases m; cases "snd (case m of Include pre u \<Rightarrow> (pre, u) | Foreign pre \<Rightarrow> (pre, [], []))") auto

lemma entry_front: "e \<in> set (entries ms) \<Longrightarrow> \<exists>m \<in> set ms. \<exists>f \<in> set (fronts m). prefix f (form_of e)"
proof (induction ms rule: entries.induct)
  case (3 pre app urls ms)
  show ?case
  proof (cases "e \<in> set (entries ms)")
    case False
    then obtain ps view name where u: "(ps, view, name) \<in> set urls" "e = Page_at (Lit pre # ps) app view name"
      using 3(2) by auto
    then have "\<exists>f \<in> set (fronts (Include pre (app, urls))). prefix f (form_of e)"
      by (cases "pre = []") (force intro: rev_bexI)+
    then show ?thesis
      by simp
  qed (use 3 in auto)
qed auto

lemma mounts_apart_entries: "mounts_apart ms \<Longrightarrow> all_apart (map form_of (entries ms))"
proof (induction ms)
  case (Cons m ms)
  then have m: "own_apart m" "none_meet (fronts m) (concat (map fronts ms))"
      "all_apart (map form_of (entries ms))"
    by (simp_all split: if_splits)
  have own: "all_apart (map form_of (entries [m]))"
  proof (cases m)
    case (Include pre u)
    obtain app urls where u: "u = (app, urls)"
      by (cases u)
    have front: "all_apart (map (\<lambda>g. map One pre @ g) gs) = all_apart gs" for gs
      by (induction gs) (auto simp: list_ex_iff meet_same_front)
    have "map form_of (entries [m]) = map (\<lambda>g. map One pre @ g) (map (\<lambda>(ps, view, name). shape ps @ [End]) urls)"
      by (auto simp: Include u)
    then have "all_apart (map form_of (entries [m])) = all_apart (map (\<lambda>(ps, view, name). shape ps @ [End]) urls)"
      by (simp only: front)
    then show ?thesis
      using m(1) by (simp add: Include u)
  qed simp
  have "\<not> meet (form_of d) (form_of e)" if de: "d \<in> set (entries [m])" "e \<in> set (entries ms)" for d e
  proof
    assume meets: "meet (form_of d) (form_of e)"
    obtain f where f: "f \<in> set (fronts m)" "prefix f (form_of d)"
      using entry_front [OF de(1)] by auto
    obtain n g where g: "n \<in> set ms" "g \<in> set (fronts n)" "prefix g (form_of e)"
      using entry_front [OF de(2)] by auto
    have "meet f g"
      using meets f(2) g(3) by (auto simp: prefix_def dest: meet_prefix)
    then show False
      using m(2) f(1) g(1,2) by (auto simp: none_meet_iff)
  qed
  with own m(3) show ?case
    by (subst entries_Cons) (auto simp only: map_append all_apart_append set_map)
qed simp

lemma urlpatterns_apart: "mounts_apart urlpatterns"
  by code_simp

lemma routes_entries:
  "(key, qs) \<in> set (routes ms) \<longleftrightarrow> (\<exists>app view name. key = view_name app name \<and> Page_at qs app view name \<in> set (entries ms))"
  by (induction ms rule: routes.induct) force+

lemma arguments_matched:
  assumes "set (map fst kwargs) = set ns"
  shows "map_of (map (\<lambda>n. (n, the (map_of kwargs n))) ns) = map_of kwargs"
proof
  fix n
  show "map_of (map (\<lambda>n. (n, the (map_of kwargs n))) ns) n = map_of kwargs n"
  proof (cases "n \<in> set ns")
    case True
    then obtain v where "map_of kwargs n = Some v"
      using assms map_of_eq_None_iff [of kwargs n] by auto
    then show ?thesis
      using True by (simp add: map_of_map_restrict)
  next
    case False
    then show ?thesis
      using assms map_of_eq_None_iff [of kwargs n] by (simp add: map_of_map_restrict)
  qed
qed

lemma reverse_filled:
  assumes "reverse_url ms key kwargs = Some s"
  obtains ps where "(key, ps) \<in> set (routes ms)" "filled kwargs ps" "s = fill kwargs ps"
    "set (map fst kwargs) = set (arguments ps)"
proof -
  obtain ps where ps: "map_of (routes ms) key = Some ps" "set (map fst kwargs) = set (arguments ps)"
      "list_all (\<lambda>(n, v). is_uuid_text v) kwargs" "s = fill kwargs ps"
    using assms by (auto simp: reverse_url_def split: option.splits if_splits)
  have "filled kwargs ps"
    unfolding filled_def
  proof
    fix n
    assume "n \<in> set (arguments ps)"
    then obtain v where v: "map_of kwargs n = Some v"
      using ps(2) map_of_eq_None_iff [of kwargs n] by auto
    then show "\<exists>v. map_of kwargs n = Some v \<and> is_uuid_text v"
      using ps(3) map_of_SomeD [OF v] by (auto simp: list_all_iff)
  qed
  with ps that map_of_SomeD [OF ps(1)] show ?thesis
    by blast
qed

text \<open>
  C40 (roundtrip). A link leads to the page it names: a path made by \<open>reverse\<close> from the name of a
  route and its arguments is resolved, by the tables of \<open>config/urls.py\<close> searched in their order and
  whatever the framework's own modules answer, to a route of that name with those arguments.
\<close>

theorem links_resolve:
  "reverse_url urlpatterns key kwargs = Some s \<Longrightarrow>
   \<exists>found. resolve F urlpatterns s = Some found \<and> view_name (rm_app_name found) (rm_url_name found) = key \<and>
     map_of (rm_kwargs found) = map_of kwargs"
proof -
  assume "reverse_url urlpatterns key kwargs = Some s"
  then obtain ps where ps: "(key, ps) \<in> set (routes urlpatterns)" "filled kwargs ps" "s = fill kwargs ps"
      "set (map fst kwargs) = set (arguments ps)"
    by (rule reverse_filled)
  then obtain app view name where page: "key = view_name app name" "Page_at ps app view name \<in> set (entries urlpatterns)"
    by (auto simp: routes_entries)
  show ?thesis
    using first_match_filled [OF mounts_apart_entries [OF urlpatterns_apart] page(2) ps(2), of F]
      arguments_matched [OF ps(4)]
    by (simp add: resolve_entries ps(3) page(1))
qed

definition sample_uuid :: string where
  "sample_uuid = ''0c1d2e3f-0a1b-4c2d-8e3f-0123456789ab''"

theorem links_resolve_witness:
  "\<exists>found. resolve (\<lambda>_ _. None) urlpatterns
       (''settlement/platform/'' @ sample_uuid @ ''/complete/'') = Some found \<and>
     view_name (rm_app_name found) (rm_url_name found) = ''settlement:mark-completed'' \<and>
     map_of (rm_kwargs found) = map_of [(''pk'', sample_uuid)]"
proof -
  have "reverse_url urlpatterns ''settlement:mark-completed'' [(''pk'', sample_uuid)] =
      Some (''settlement/platform/'' @ sample_uuid @ ''/complete/'')"
    by code_simp
  then show ?thesis
    by (rule links_resolve)
qed

end
