(* ===== verification/Site.thy ===== *)
theory Site
  imports Balances RateLimit SystemPages Routes
begin

text \<open>
  The web site as a browser meets it: a request passes the program's middlewares in the order of
  \<open>MIDDLEWARE\<close> (\<open>config/settings/base.py\<close>), is resolved by \<open>Routes\<close>, stopped by \<open>@login_required\<close>
  or handed to its view. What the views write are the events of \<open>Platform\<close>; the views that write
  nothing are those of \<open>Reports\<close>, \<open>SystemPages\<close> and the lists.
\<close>

subsection \<open>What a browser sends\<close>

text \<open>
  The method and, for a \<open>POST\<close> with fields, what the view's form reads from them; \<open>sq_random\<close> are the
  bytes of a secret made in the request, and the flags say whether the cache can be read and written.
\<close>

datatype submission =
  Get | Post
| CustomerData customer_form | AccountData "string \<times> uuid option \<times> string" | CustomerIds "uuid list"
| BillData quick_bill_form | PayData pay_form | EndpointData "string \<times> string" | MemoData string
| KeyData string | PeriodData batch_form | ReferenceData string
| RegistrationData onboarding_form | TeamData team_form | PersonData platform_user_form
| SignInData "string \<times> string" | CodeData string | CallbackData string string | ApiData body

record site_request =
  sq_path :: string
  sq_headers :: http_headers
  sq_submission :: submission
  sq_next :: string
  sq_api :: api_request
  sq_random :: "byte list"
  sq_read_ok :: bool
  sq_write_ok :: bool

definition customer_data :: "submission \<Rightarrow> customer_form option" where
  "customer_data i = (case i of CustomerData f \<Rightarrow> Some f | _ \<Rightarrow> None)"

definition is_post :: "submission \<Rightarrow> bool" where
  "is_post i \<longleftrightarrow> i \<noteq> Get"

definition code_data :: "submission \<Rightarrow> string option" where
  "code_data i = (case i of CodeData c \<Rightarrow> Some c | _ \<Rightarrow> None)"

definition registration_data :: "submission \<Rightarrow> onboarding_form option" where
  "registration_data i = (case i of RegistrationData f \<Rightarrow> Some f | _ \<Rightarrow> None)"

subsection \<open>Which view does what\<close>

text \<open>
  The views that write, by their name in the application's \<open>urls.py\<close>; \<open>pk\<close> is the argument of the
  path, \<open>u\<close> and \<open>tn\<close> the user and the institution of the request.
\<close>

definition desk_views :: "user option \<Rightarrow> uuid option \<Rightarrow> uuid \<Rightarrow> submission \<Rightarrow> (string \<times> (string \<times> platform_event) list) list" where
  "desk_views u tn pk i =
    [(''customers'',
      [(''customer_create'', DeskPage u tn (NewCustomer (customer_data i))),
       (''customer_edit'', DeskPage u tn (EditCustomer pk (customer_data i))),
       (''customer_deactivate'', DeskPage u tn (DeactivateCustomer pk (is_post i))),
       (''customer_activate'', DeskPage u tn (ActivateCustomer pk (is_post i))),
       (''customer_bulk_deactivate'', DeskPage u tn (DeactivateCustomers
          (case i of CustomerIds ids \<Rightarrow> ids | _ \<Rightarrow> []))),
       (''account_create'', DeskPage u tn (NewAccount pk (case i of AccountData f \<Rightarrow> Some f | _ \<Rightarrow> None)))]),
     (''billing'',
      [(''bill_create'', DeskPage u tn (NewBill (case i of BillData f \<Rightarrow> Some f | _ \<Rightarrow> None))),
       (''bill_cancel'', DeskPage u tn (CancelBill pk (is_post i))),
       (''bill_request_control_number'', DeskPage u tn (RequestNumber pk (is_post i)))]),
     (''webhooks'',
      [(''endpoint_create'', DeskPage u tn (NewEndpoint (case i of EndpointData f \<Rightarrow> Some f | _ \<Rightarrow> None)))]),
     (''reconciliation'',
      [(''trigger_run'', DeskPage u tn (TriggerRun (is_post i))),
       (''resolve_exception_view'', DeskPage u tn (ResolveException pk
          (case i of MemoData m \<Rightarrow> Some m | _ \<Rightarrow> None)))]),
     (''api_credentials'',
      [(''credential_create'', DeskPage u tn (NewKey (case i of KeyData n \<Rightarrow> Some n | _ \<Rightarrow> None))),
       (''credential_rotate'', DeskPage u tn (RotateKey pk (is_post i))),
       (''credential_revoke'', DeskPage u tn (RevokeKey pk (is_post i)))]),
     (''payments'',
      [(''pay_bill'', MoneyPage (PaymentRequest (PayBill u tn pk (case i of PayData f \<Rightarrow> Some f | _ \<Rightarrow> None)))),
       (''payment_query'', MoneyPage (PaymentRequest (QueryPayment u tn pk (is_post i)))),
       (''payment_refund'', MoneyPage (PaymentRequest (RefundPayment u tn pk (is_post i)))),
       (''payment_reverse'', MoneyPage (PaymentRequest (ReversePayment u tn pk (is_post i))))])]"

definition platform_views :: "user option \<Rightarrow> uuid option \<Rightarrow> uuid \<Rightarrow> submission \<Rightarrow> (string \<times> (string \<times> platform_event) list) list" where
  "platform_views u tn pk i =
    [(''settlement'',
      [(''generate_batch'', MoneyPage (GenerateBatch u (case i of PeriodData f \<Rightarrow> Some f | _ \<Rightarrow> None))),
       (''mark_completed'', MoneyPage (MarkCompleted u pk (case i of ReferenceData r \<Rightarrow> Some r | _ \<Rightarrow> None)))]),
     (''tenants'',
      [(''team_member_create'', AdminPage u tn (TeamCreate (case i of TeamData f \<Rightarrow> Some f | _ \<Rightarrow> None))),
       (''team_member_deactivate'', AdminPage u tn (TeamDeactivate pk (is_post i))),
       (''team_member_activate'', AdminPage u tn (TeamActivate pk (is_post i))),
       (''platform_create_tenant'', AdminPage u tn (PlatformTenant (registration_data i))),
       (''approve_tenant'', AdminPage u tn (ApproveTenant pk (is_post i)))]),
     (''users'',
      [(''platform_user_create'', AdminPage u tn (PlatformUser (case i of PersonData f \<Rightarrow> Some f | _ \<Rightarrow> None)))])]"

definition own_views :: "user \<Rightarrow> byte list \<Rightarrow> submission \<Rightarrow> (string \<times> platform_event) list" where
  "own_views u random i =
    [(''mfa_setup'', OwnAccount u (SetUpMfa random (code_data i))),
     (''mfa_disable'', OwnAccount u (DisableMfa (is_post i))),
     (''mfa_regenerate_backup_codes'', OwnAccount u (NewBackupCodes (is_post i)))]"

text \<open>
  The views without \<open>@login_required\<close>, but for those of the external API, with what they do if
  anything.
\<close>

definition open_views ::
  "string option \<Rightarrow> string \<Rightarrow> session \<Rightarrow> user option \<Rightarrow> uuid option \<Rightarrow> submission \<Rightarrow>
   ((string \<times> string) \<times> platform_event option) list" where
  "open_views ip target ses u tn i =
    [((''accounts'', ''EmailLoginView''), case i of SignInData f \<Rightarrow> Some (SignIn ses (Password ip target f)) | _ \<Rightarrow> None),
     ((''accounts'', ''KusanyaLogoutView''), if is_post i then Some (SignOut u) else None),
     ((''accounts'', ''mfa_verify''), Some (SignIn ses (Code target (code_data i)))),
     ((''core'', ''home''), None),
     ((''core'', ''health_check''), None),
     ((''tenants'', ''onboard''), Some (AdminPage u tn (Onboard (registration_data i) ses))),
     ((''payments'', ''mock_provider_callback''),
        case i of CallbackData b sig \<Rightarrow> Some (MoneyPage (PaymentRequest (ProviderCallback b sig))) | _ \<Rightarrow> None)]"

definition api_views :: "uuid \<Rightarrow> submission \<Rightarrow> (string \<times> api_call option) list" where
  "api_views pk i =
     (let created = (\<lambda>list make. Some (case i of ApiData b \<Rightarrow> make b | _ \<Rightarrow> list));
          posted = (\<lambda>c. if is_post i then Some c else None) in
      [(''InstitutionMeView'', Some GetInstitution), (''CustomerListCreateView'', created ListCustomers CreateCustomer),
       (''CustomerDetailView'', Some (GetCustomer pk)), (''AccountListCreateView'', created ListAccounts CreateAccount),
       (''BillListCreateView'', created ListBills CreateBill), (''BillDetailView'', Some (GetBill pk)),
       (''BillControlNumberView'', posted (IssueControlNumber pk)),
       (''PaymentListCreateView'', created ListPayments CreatePayment), (''PaymentDetailView'', Some (GetPayment pk)),
       (''PaymentQueryView'', posted (ResolvePayment pk)), (''ReconciliationRunListView'', Some ListRuns),
       (''SettlementBatchListView'', Some ListBatches), (''SettlementBatchDetailView'', Some (GetBatch pk)),
       (''WebhookEndpointListCreateView'', created ListEndpoints CreateEndpoint),
       (''NotificationListView'', Some ListNotifications)])"

definition path_argument :: "deployment \<Rightarrow> resolver_match \<Rightarrow> uuid" where
  "path_argument D m = (case rm_kwargs m of (n, v) # _ \<Rightarrow>
     (case fp_uuid (dp_parsers D) v of Some i \<Rightarrow> i | None \<Rightarrow> Uuid 0) | [] \<Rightarrow> Uuid 0)"

definition request_ip :: "site_request \<Rightarrow> string option" where
  "request_ip q = client_ip_from_request (hh_forwarded_for (sq_headers q)) (hh_remote_addr (sq_headers q))"

definition is_open :: "resolver_match \<Rightarrow> bool" where
  "is_open m \<longleftrightarrow> rm_app_name m = ''api'' \<or>
     (rm_app_name m, rm_view m) \<in> fst ` set (open_views None [] (\<lparr>ses_user = None, ses_active_tenant_id = None,
        ses_mfa_pending_user_id = None, ses_mfa_pending_backend = None\<rparr>) None None Get)"

text \<open>\<open>None\<close> is a view that writes nothing.\<close>

definition page_event ::
  "deployment \<Rightarrow> site_request \<Rightarrow> session \<Rightarrow> user option \<Rightarrow> uuid option \<Rightarrow> resolver_match \<Rightarrow> platform_event option" where
  "page_event D q ses u tn m =
     (let pk = path_argument D m; i = sq_submission q in
      if rm_app_name m = ''api''
      then map_option (ApiRequest (sq_api q)) (Option.bind (map_of (api_views pk i) (rm_view m)) id)
      else case map_of (open_views (request_ip q) (sq_next q) ses u tn i) (rm_app_name m, rm_view m) of
        Some e \<Rightarrow> e
      | None \<Rightarrow>
          (case u of None \<Rightarrow> None
           | Some w \<Rightarrow>
               if rm_app_name m = ''accounts'' then map_of (own_views w (sq_random q) i) (rm_view m)
               else Option.bind (map_of (desk_views u tn pk i @ platform_views u tn pk i) (rm_app_name m))
                      (\<lambda>views. map_of views (rm_view m))))"

subsection \<open>A request\<close>

text \<open>What became of a request; a view that raises answers 403, 404 or 500 by the class of its error.\<close>

datatype reply = TooManyRequests | NotFound | ToLogin | Shown resolver_match | Acted platform_event "exn + unit" | Elsewhere

text \<open>
  How an event ended, and the session after it. The framework saves a session unless the answer is
  a server error.
\<close>

definition outcome :: "deployment \<Rightarrow> platform_event \<Rightarrow> 'z api_st_scheme \<Rightarrow> exn + unit" where
  "outcome D e s = (case e of
     SignIn ses r \<Rightarrow> (case fst (sign_in_step (dp_env D) (dp_auth D) (si_is_email (dp_site D)) (dp_hmac_sha1 D)
         (dp_secret_key D) r ses s) of Inl x \<Rightarrow> Inl x | Inr _ \<Rightarrow> Inr ())
   | _ \<Rightarrow> fst (handle D e s))"

definition server_error :: "exn + unit \<Rightarrow> bool" where
  "server_error r \<longleftrightarrow> (case r of Inr _ \<Rightarrow> False | Inl e \<Rightarrow> (case e of PermissionDenied _ \<Rightarrow> False | Http404 \<Rightarrow> False | _ \<Rightarrow> True))"

definition session_after :: "deployment \<Rightarrow> platform_event \<Rightarrow> session \<Rightarrow> 'z api_st_scheme \<Rightarrow> session" where
  "session_after D e ses s = (case e of
     SignIn ses1 r \<Rightarrow> fst (visit (dp_env D) (dp_auth D) (si_is_email (dp_site D)) (dp_hmac_sha1 D) (dp_secret_key D) r ses1 s)
   | SignOut u \<Rightarrow> (case fst (sign_out (dp_env D) u s) of Inr ses1 \<Rightarrow> ses1 | Inl _ \<Rightarrow> ses)
   | AdminPage u tn (Onboard post ses1) \<Rightarrow>
       (case fst (onboard (dp_env D) (dp_site D) post ses1 s) of Inr (_, ses2) \<Rightarrow> ses2 | Inl _ \<Rightarrow> ses)
   | _ \<Rightarrow> ses)"

definition act :: "deployment \<Rightarrow> platform_event \<Rightarrow> session \<Rightarrow> session \<Rightarrow> ('z api_st_scheme, reply \<times> session) pm" where
  "act D e ses0 ses = (\<lambda>s. let r = outcome D e s in
     (Inr (Acted e r, if server_error r then ses0 else session_after D e ses s), snd (handle D e s)))"

text \<open>
  The view, behind the middlewares of the session, the tenant and the audit context. \<open>ses0\<close> is the
  session that came in, \<open>ses\<close> the one the tenant's middleware leaves.
\<close>

definition dispatch ::
  "deployment \<Rightarrow> site_request \<Rightarrow> user option \<Rightarrow> uuid option \<Rightarrow> session \<Rightarrow> session \<Rightarrow> env \<Rightarrow>
   ('z api_st_scheme, reply \<times> session) pm" where
  "dispatch D q u tn ses0 ses E = (case resolve (\<lambda>_ _. None) urlpatterns (sq_path q) of
     None \<Rightarrow> ret (NotFound, ses)
   | Some m \<Rightarrow>
       if u = None \<and> \<not> is_open m then ret (ToLogin, ses)
       else (case page_event D q ses u tn m of
         Some e \<Rightarrow> act (D\<lparr>dp_env := E\<rparr>) e ses0 ses
       | None \<Rightarrow> (\<lambda>s. (Inr (Shown m, if (rm_app_name m, rm_view m) = (''core'', ''dashboard_router'')
                                 then snd (dashboard_router s u ses) else ses), s))))"

text \<open>What the framework's own modules do (the admin pages, choosing a language) is the argument \<open>A\<close>.\<close>

type_synonym 'z framework = "site_request \<Rightarrow> session \<Rightarrow> 'z api_st_scheme \<Rightarrow> session \<times> 'z api_st_scheme"

definition is_framework_path :: "string \<Rightarrow> bool" where
  "is_framework_path s \<longleftrightarrow> list_ex (\<lambda>m. case m of Foreign pre \<Rightarrow> prefix pre s | Include pre urls \<Rightarrow> False) urlpatterns"

definition site_view ::
  "deployment \<Rightarrow> 'z framework \<Rightarrow> site_request \<Rightarrow> session \<Rightarrow> env \<Rightarrow> ('z api_st_scheme, reply \<times> session) pm" where
  "site_view D A q ses0 E = (\<lambda>s.
     let user = request_user ses0 s; (tn, _, ses) = resolve_tenant s user ses0 in
     if is_framework_path (sq_path q) then (case A q ses s of (ses1, t) \<Rightarrow> (Inr (Elsewhere, ses1), t))
     else audit_context_middleware (sq_headers q) (dispatch D q user (map_option t_id tn) ses0 ses) E s)"

definition watched_request :: "site_request \<Rightarrow> session \<Rightarrow> 'z api_st_scheme \<Rightarrow> web_request" where
  "watched_request q ses s = \<lparr>wr_path = ''/'' @ sq_path q, wr_user = map_option u_id (request_user ses s),
     wr_ip = request_ip q, wr_read_ok = sq_read_ok q, wr_write_ok = sq_write_ok q\<rparr>"

definition site_answer ::
  "deployment \<Rightarrow> rate_config \<Rightarrow> 'z framework \<Rightarrow> site_request \<Rightarrow> session \<Rightarrow>
   ('z api_st_scheme, (reply \<times> session) option \<times> string) pm" where
  "site_answer D C A q ses = correlation_middleware (sq_headers q)
     (\<lambda>E s. rate_limited E C (watched_request q ses s) (site_view D A q ses E) s) (dp_env D)"

definition site_step ::
  "deployment \<Rightarrow> rate_config \<Rightarrow> 'z framework \<Rightarrow> site_request \<Rightarrow> session \<Rightarrow> 'z api_st_scheme \<Rightarrow>
   reply \<times> session \<times> 'z api_st_scheme" where
  "site_step D C A q ses s = (case site_answer D C A q ses s of
     (Inr (Some (r, ses1), c), t) \<Rightarrow> (r, ses1, t)
   | (_, t) \<Rightarrow> (TooManyRequests, ses, t))"

end
