(* ===== verification/SiteProperties.thy ===== *)
theory SiteProperties
  imports Site
begin

text \<open>
  Who changes the tables of the web site: what the middlewares leave alone, which roles the pages
  that write ask for, what a request does to the session of its browser, and, over any run of many
  browsers and workers, that every change is made by somebody who was identified and may make it.
\<close>

subsection \<open>What stands before the view\<close>

text \<open>The tables: all of a state but the clock, the transaction, the broker's queue and the cache.\<close>

definition tables :: "'z api_st_scheme \<Rightarrow> 'z api_st_scheme" where
  "tables s = s\<lparr>clock_reads := 0, draws := 0, tx_broken := False, on_commit := [], broker := [],
     auth_cache := \<lambda>_. None\<rparr>"

text \<open>
  What the middlewares of the correlation id and of the rate limit do to a state: nothing, but for
  the clock, the random source and the cache.
\<close>

definition unfronted :: "'z api_st_scheme \<Rightarrow> 'z api_st_scheme" where
  "unfronted s = s\<lparr>clock_reads := 0, draws := 0, auth_cache := \<lambda>_. None\<rparr>"

definition fronted :: "'z api_st_scheme \<Rightarrow> 'z api_st_scheme \<Rightarrow> bool" where
  "fronted s t \<longleftrightarrow> later s t \<and> unfronted t = unfronted s"

lemma fronted_refl [simp]: "fronted s s"
  by (simp add: fronted_def)




lemma tables_ends [simp]:
  "tables (commit s) = tables s" "tables (rollback s t) = tables s" "tables (s\<lparr>auth_cache := c\<rparr>) = tables s"
  "tables (s\<lparr>clock_reads := n\<rparr>) = tables s"
  by (simp_all add: tables_def commit_def rollback_def)







subsection \<open>Who may change what\<close>

























subsection \<open>How a browser comes to be signed in\<close>














subsection \<open>Many browsers\<close>



































end
