(* ===== verification/AdminSite.thy ===== *)
theory AdminSite
  imports AuditTrail
begin

text \<open>
  The framework's admin pages as the program configures them: every class of \<open>apps/*/admin.py\<close>, and
  the foreign keys of \<open>apps/*/models.py\<close> with their \<open>on_delete\<close>, by which a deletion spreads. The
  collection of what a deletion reaches is Django's documented one. A store is a list of rows of all
  tables, with the links (foreign keys that are not null) and the other columns by name.
\<close>

subsection \<open>Foreign keys\<close>

datatype on_delete = CASCADE | PROTECT | SET_NULL

text \<open>The model that has the key, the field, the model it leads to and what a deletion there does.\<close>

type_synonym foreign_key = "string \<times> string \<times> string \<times> on_delete"

definition tenant_scoped :: "string \<Rightarrow> foreign_key" where
  "tenant_scoped m = (m, ''tenant'', ''Tenant'', PROTECT)"

definition accounts_keys :: "foreign_key list" where
  "accounts_keys = [(''MFADevice'', ''user'', ''User'', CASCADE), (''BackupCode'', ''user'', ''User'', CASCADE)]"

definition api_keys :: "foreign_key list" where
  "api_keys = [tenant_scoped ''ApiCredential'', (''ApiCredential'', ''created_by'', ''User'', SET_NULL)]"

definition audit_keys :: "foreign_key list" where
  "audit_keys =
    [(''AuditLog'', ''actor'', ''User'', SET_NULL), (''AuditLog'', ''tenant'', ''Tenant'', SET_NULL),
     (''AuditLog'', ''content_type'', ''ContentType'', SET_NULL)]"

definition billing_keys :: "foreign_key list" where
  "billing_keys =
    [tenant_scoped ''RevenueSource'', tenant_scoped ''Bill'', tenant_scoped ''BillItem'',
     (''Bill'', ''customer_account'', ''CustomerAccount'', PROTECT),
     (''Bill'', ''revenue_source'', ''RevenueSource'', PROTECT), (''BillItem'', ''bill'', ''Bill'', CASCADE)]"

definition control_numbers_keys :: "foreign_key list" where
  "control_numbers_keys =
    [tenant_scoped ''ControlNumber'', (''ControlNumber'', ''bill'', ''Bill'', CASCADE),
     (''ControlNumber'', ''customer_account'', ''CustomerAccount'', CASCADE),
     (''ControlNumber'', ''created_by'', ''User'', SET_NULL)]"

definition customers_keys :: "foreign_key list" where
  "customers_keys =
    [tenant_scoped ''Customer'', tenant_scoped ''CustomerAccount'',
     (''CustomerAccount'', ''customer'', ''Customer'', PROTECT),
     (''CustomerAccount'', ''revenue_source'', ''RevenueSource'', PROTECT)]"

definition ledger_keys :: "foreign_key list" where
  "ledger_keys =
    [tenant_scoped ''LedgerEntry'', (''LedgerEntry'', ''content_type'', ''ContentType'', PROTECT),
     (''LedgerEntry'', ''related_entry'', ''LedgerEntry'', PROTECT)]"

definition notifications_keys :: "foreign_key list" where
  "notifications_keys = [tenant_scoped ''NotificationTemplate'', tenant_scoped ''Notification'']"

definition organizations_keys :: "foreign_key list" where
  "organizations_keys =
    [tenant_scoped ''Branch'', tenant_scoped ''Department'', (''Department'', ''branch'', ''Branch'', CASCADE)]"

definition payments_keys :: "foreign_key list" where
  "payments_keys =
    [tenant_scoped ''Payment'', tenant_scoped ''PaymentAllocation'',
     (''Payment'', ''control_number'', ''ControlNumber'', PROTECT),
     (''Payment'', ''provider'', ''PaymentProvider'', PROTECT), (''Payment'', ''channel'', ''PaymentChannel'', PROTECT),
     (''Payment'', ''settlement_batch'', ''SettlementBatch'', SET_NULL),
     (''PaymentAllocation'', ''payment'', ''Payment'', PROTECT), (''PaymentAllocation'', ''bill'', ''Bill'', PROTECT),
     (''PaymentCallbackEvent'', ''provider'', ''PaymentProvider'', PROTECT),
     (''PaymentCallbackEvent'', ''payment'', ''Payment'', SET_NULL)]"

definition providers_keys :: "foreign_key list" where
  "providers_keys = [(''PaymentChannel'', ''provider'', ''PaymentProvider'', CASCADE)]"

definition receipts_keys :: "foreign_key list" where
  "receipts_keys = [tenant_scoped ''Receipt'', (''Receipt'', ''payment'', ''Payment'', PROTECT)]"

definition reconciliation_keys :: "foreign_key list" where
  "reconciliation_keys =
    [tenant_scoped ''ReconciliationRun'', tenant_scoped ''ReconciliationException'',
     (''ReconciliationRun'', ''triggered_by'', ''User'', SET_NULL),
     (''ReconciliationException'', ''run'', ''ReconciliationRun'', SET_NULL),
     (''ReconciliationException'', ''payment'', ''Payment'', CASCADE),
     (''ReconciliationException'', ''resolved_by'', ''User'', SET_NULL)]"

definition revenue_keys :: "foreign_key list" where
  "revenue_keys =
    [tenant_scoped ''RevenueEvent'', (''RevenueEvent'', ''content_type'', ''ContentType'', PROTECT),
     (''RevenueEvent'', ''ledger_entry'', ''LedgerEntry'', PROTECT)]"

definition settlement_keys :: "foreign_key list" where
  "settlement_keys =
    [tenant_scoped ''SettlementBatch'', (''SettlementBatch'', ''provider'', ''PaymentProvider'', PROTECT)]"

definition tenants_keys :: "foreign_key list" where
  "tenants_keys =
    [(''Tenant'', ''approved_by'', ''User'', SET_NULL), (''TenantMembership'', ''tenant'', ''Tenant'', CASCADE),
     (''TenantMembership'', ''user'', ''User'', CASCADE), (''TenantMembership'', ''invited_by'', ''User'', SET_NULL)]"

definition users_keys :: "foreign_key list" where
  "users_keys = [(''PlatformMembership'', ''user'', ''User'', CASCADE)]"

definition webhooks_keys :: "foreign_key list" where
  "webhooks_keys =
    [tenant_scoped ''WebhookEndpoint'', tenant_scoped ''WebhookDelivery'',
     (''WebhookDelivery'', ''endpoint'', ''WebhookEndpoint'', CASCADE)]"

definition foreign_keys :: "foreign_key list" where
  "foreign_keys = accounts_keys @ api_keys @ audit_keys @ billing_keys @ control_numbers_keys @ customers_keys @
     ledger_keys @ notifications_keys @ organizations_keys @ payments_keys @ providers_keys @ receipts_keys @
     reconciliation_keys @ revenue_keys @ settlement_keys @ tenants_keys @ users_keys @ webhooks_keys"

subsection \<open>The admin pages\<close>

text \<open>
  The options of a \<open>ModelAdmin\<close>, as far as the program sets them; \<open>ma_inline\<close> marks a form inside the
  page of another model. \<open>has_add_permission\<close> and its like answer \<open>False\<close> or are the framework's, which
  asks whether the person may.
\<close>

record model_admin =
  ma_model :: string
  ma_inline :: bool
  ma_list_display :: "string list"
  ma_list_filter :: "string list"
  ma_search_fields :: "string list"
  ma_exact_search :: "string list"
  ma_autocomplete :: "string list"
  ma_readonly :: "string list"
  ma_exclude :: "string list"
  ma_fields :: "string list"
  ma_can_add :: bool
  ma_can_change :: bool
  ma_can_delete :: bool

definition plain_admin :: "string \<Rightarrow> model_admin" where
  "plain_admin m = \<lparr>ma_model = m, ma_inline = False, ma_list_display = [], ma_list_filter = [], ma_search_fields = [],
     ma_exact_search = [], ma_autocomplete = [], ma_readonly = [], ma_exclude = [], ma_fields = [],
     ma_can_add = True, ma_can_change = True, ma_can_delete = True\<rparr>"

definition plain_inline :: "string \<Rightarrow> model_admin" where
  "plain_inline m = (plain_admin m)\<lparr>ma_inline := True\<rparr>"

definition MFADeviceAdmin :: model_admin where
  "MFADeviceAdmin =
     (plain_admin ''MFADevice'')\<lparr>
        ma_list_display := [''user'', ''confirmed'', ''last_used_at'', ''created_at''],
        ma_list_filter := [''confirmed''],
        ma_search_fields := [''user__email''],
        ma_autocomplete := [''user''],
        ma_readonly := [''user'', ''confirmed'', ''last_used_at'', ''created_at'', ''secret_redacted''],
        ma_exclude := [''secret''],
        ma_can_add := False,
        ma_can_change := False\<rparr>"

definition BackupCodeAdmin :: model_admin where
  "BackupCodeAdmin =
     (plain_admin ''BackupCode'')\<lparr>
        ma_list_display := [''user'', ''used_at'', ''created_at''],
        ma_list_filter := [''used_at''],
        ma_search_fields := [''user__email''],
        ma_autocomplete := [''user''],
        ma_readonly := [''user'', ''used_at'', ''created_at''],
        ma_exclude := [''lookup_hash''],
        ma_can_add := False,
        ma_can_change := False\<rparr>"

definition ApiCredentialAdmin :: model_admin where
  "ApiCredentialAdmin =
     (plain_admin ''ApiCredential'')\<lparr>
        ma_list_display := [''name'', ''key_id'', ''tenant'', ''is_active'', ''last_used_at'', ''created_at''],
        ma_list_filter := [''is_active'', ''tenant''],
        ma_search_fields := [''name'', ''key_id'', ''tenant__name''],
        ma_autocomplete := [''tenant'', ''created_by''],
        ma_readonly := [''key_id'', ''secret_hash'', ''last_used_at'', ''created_at'']\<rparr>"

definition AuditLogAdmin :: model_admin where
  "AuditLogAdmin =
     (plain_admin ''AuditLog'')\<lparr>
        ma_list_display := [''created_at'', ''action'', ''actor_label'', ''tenant'', ''correlation_id''],
        ma_list_filter := [''action'', ''tenant''],
        ma_search_fields := [''action'', ''actor_label'', ''correlation_id'', ''object_id''],
        ma_readonly := [''id'', ''created_at'', ''actor'', ''actor_label'', ''tenant'', ''action'',
          ''content_type'', ''object_id'', ''before'', ''after'', ''metadata'', ''ip_address'', ''user_agent'',
          ''correlation_id'', ''previous_hash'', ''record_hash''],
        ma_can_add := False,
        ma_can_change := False,
        ma_can_delete := False\<rparr>"

definition BillItemInline :: model_admin where
  "BillItemInline =
     (plain_inline ''BillItem'')\<lparr>
        ma_readonly := [''line_total'']\<rparr>"

definition RevenueSourceAdmin :: model_admin where
  "RevenueSourceAdmin =
     (plain_admin ''RevenueSource'')\<lparr>
        ma_list_display := [''name'', ''tenant'', ''code'', ''is_active''],
        ma_list_filter := [''is_active'', ''tenant''],
        ma_search_fields := [''name'', ''code''],
        ma_autocomplete := [''tenant'']\<rparr>"

definition BillAdmin :: model_admin where
  "BillAdmin =
     (plain_admin ''Bill'')\<lparr>
        ma_list_display := [''bill_number'', ''tenant'', ''customer_account'', ''status'', ''total_amount'',
          ''currency''],
        ma_list_filter := [''status'', ''tenant''],
        ma_search_fields := [''bill_number'', ''external_reference'', ''customer_account__name''],
        ma_autocomplete := [''tenant'', ''customer_account'', ''revenue_source''],
        ma_readonly := [''bill_number'', ''total_amount'']\<rparr>"

definition ControlNumberAdmin :: model_admin where
  "ControlNumberAdmin =
     (plain_admin ''ControlNumber'')\<lparr>
        ma_list_display := [''value'', ''tenant'', ''scope'', ''status'', ''bill'', ''customer_account'',
          ''created_at''],
        ma_list_filter := [''scope'', ''status'', ''tenant''],
        ma_search_fields := [''value'', ''bill__bill_number'', ''customer_account__name''],
        ma_autocomplete := [''tenant'', ''bill'', ''customer_account'', ''created_by''],
        ma_readonly := [''value'', ''created_at'', ''updated_at'']\<rparr>"

definition CustomerAccountInline :: model_admin where
  "CustomerAccountInline =
     (plain_inline ''CustomerAccount'')\<lparr>
        ma_fields := [''name'', ''revenue_source'', ''external_reference'', ''is_active'']\<rparr>"

definition CustomerAdmin :: model_admin where
  "CustomerAdmin =
     (plain_admin ''Customer'')\<lparr>
        ma_list_display := [''full_name'', ''tenant'', ''email'', ''phone_number'', ''is_active''],
        ma_list_filter := [''is_active'', ''tenant''],
        ma_search_fields := [''external_reference''],
        ma_exact_search := [''full_name'', ''email'', ''phone_number''],
        ma_autocomplete := [''tenant'']\<rparr>"

definition CustomerAccountAdmin :: model_admin where
  "CustomerAccountAdmin =
     (plain_admin ''CustomerAccount'')\<lparr>
        ma_list_display := [''name'', ''customer'', ''tenant'', ''revenue_source'', ''is_active''],
        ma_list_filter := [''is_active'', ''tenant''],
        ma_search_fields := [''name'', ''external_reference''],
        ma_autocomplete := [''tenant'', ''customer'', ''revenue_source'']\<rparr>"

definition LedgerEntryAdmin :: model_admin where
  "LedgerEntryAdmin =
     (plain_admin ''LedgerEntry'')\<lparr>
        ma_list_display := [''created_at'', ''tenant'', ''entry_type'', ''account'', ''amount'', ''currency'',
          ''reference''],
        ma_list_filter := [''entry_type'', ''account'', ''tenant''],
        ma_search_fields := [''reference'', ''correlation_id''],
        ma_autocomplete := [''tenant'', ''related_entry''],
        ma_can_add := False,
        ma_can_change := False,
        ma_can_delete := False\<rparr>"

definition NotificationTemplateAdmin :: model_admin where
  "NotificationTemplateAdmin =
     (plain_admin ''NotificationTemplate'')\<lparr>
        ma_list_display := [''tenant'', ''event_type'', ''channel'', ''is_active''],
        ma_list_filter := [''event_type'', ''channel'', ''is_active''],
        ma_search_fields := [''tenant__name''],
        ma_autocomplete := [''tenant'']\<rparr>"

definition NotificationAdmin :: model_admin where
  "NotificationAdmin =
     (plain_admin ''Notification'')\<lparr>
        ma_list_display := [''created_at'', ''tenant'', ''event_type'', ''channel'', ''recipient'',
          ''status''],
        ma_list_filter := [''status'', ''channel'', ''event_type'', ''tenant''],
        ma_search_fields := [''correlation_id''],
        ma_exact_search := [''recipient''],
        ma_autocomplete := [''tenant''],
        ma_can_add := False,
        ma_can_change := False\<rparr>"

definition BranchAdmin :: model_admin where
  "BranchAdmin =
     (plain_admin ''Branch'')\<lparr>
        ma_list_display := [''name'', ''tenant'', ''code'', ''is_active''],
        ma_list_filter := [''is_active''],
        ma_search_fields := [''name'', ''tenant__name''],
        ma_autocomplete := [''tenant'']\<rparr>"

definition DepartmentAdmin :: model_admin where
  "DepartmentAdmin =
     (plain_admin ''Department'')\<lparr>
        ma_list_display := [''name'', ''tenant'', ''branch'', ''is_active''],
        ma_list_filter := [''is_active''],
        ma_search_fields := [''name'', ''tenant__name''],
        ma_autocomplete := [''tenant'', ''branch'']\<rparr>"

definition PaymentAllocationInline :: model_admin where
  "PaymentAllocationInline =
     (plain_inline ''PaymentAllocation'')\<lparr>
        ma_readonly := [''bill'', ''amount'']\<rparr>"

definition PaymentAdmin :: model_admin where
  "PaymentAdmin =
     (plain_admin ''Payment'')\<lparr>
        ma_list_display := [''merchant_reference'', ''tenant'', ''amount'', ''currency'', ''status'',
          ''provider'', ''initiated_at''],
        ma_list_filter := [''status'', ''provider'', ''tenant''],
        ma_search_fields := [''merchant_reference'', ''provider_reference'', ''idempotency_key''],
        ma_exact_search := [''payer_reference''],
        ma_autocomplete := [''tenant'', ''control_number'', ''provider'', ''channel''],
        ma_readonly := [''merchant_reference'', ''initiated_at'', ''completed_at'']\<rparr>"

definition PaymentCallbackEventAdmin :: model_admin where
  "PaymentCallbackEventAdmin =
     (plain_admin ''PaymentCallbackEvent'')\<lparr>
        ma_list_display := [''provider'', ''external_event_id'', ''outcome'', ''payment'', ''created_at''],
        ma_list_filter := [''outcome'', ''provider''],
        ma_search_fields := [''external_event_id'', ''payment__merchant_reference''],
        ma_autocomplete := [''provider'', ''payment''],
        ma_can_add := False,
        ma_can_change := False\<rparr>"

definition PaymentChannelInline :: model_admin where
  "PaymentChannelInline =
     plain_inline ''PaymentChannel''"

definition PaymentProviderAdmin :: model_admin where
  "PaymentProviderAdmin =
     (plain_admin ''PaymentProvider'')\<lparr>
        ma_list_display := [''name'', ''code'', ''is_sandbox'', ''is_active''],
        ma_list_filter := [''is_sandbox'', ''is_active''],
        ma_search_fields := [''name'', ''code'']\<rparr>"

definition PaymentChannelAdmin :: model_admin where
  "PaymentChannelAdmin =
     (plain_admin ''PaymentChannel'')\<lparr>
        ma_list_display := [''name'', ''provider'', ''channel_type'', ''is_active''],
        ma_list_filter := [''channel_type'', ''is_active''],
        ma_search_fields := [''name'', ''code''],
        ma_autocomplete := [''provider'']\<rparr>"

definition MockProviderTransactionAdmin :: model_admin where
  "MockProviderTransactionAdmin =
     (plain_admin ''MockProviderTransaction'')\<lparr>
        ma_list_display := [''merchant_reference'', ''provider_reference'', ''outcome'', ''created_at''],
        ma_search_fields := [''merchant_reference'', ''provider_reference''],
        ma_can_add := False,
        ma_can_change := False\<rparr>"

definition ReceiptAdmin :: model_admin where
  "ReceiptAdmin =
     (plain_admin ''Receipt'')\<lparr>
        ma_list_display := [''receipt_number'', ''tenant'', ''customer_name'', ''amount'', ''currency'',
          ''issued_at''],
        ma_list_filter := [''tenant''],
        ma_search_fields := [''receipt_number'', ''payment_reference'', ''control_number''],
        ma_exact_search := [''customer_name''],
        ma_autocomplete := [''tenant'', ''payment''],
        ma_can_add := False,
        ma_can_change := False\<rparr>"

definition ReconciliationExceptionInline :: model_admin where
  "ReconciliationExceptionInline =
     (plain_inline ''ReconciliationException'')\<lparr>
        ma_fields := [''payment'', ''exception_type'', ''status''],
        ma_readonly := [''payment'', ''exception_type'', ''status'']\<rparr>"

definition ReconciliationRunAdmin :: model_admin where
  "ReconciliationRunAdmin =
     (plain_admin ''ReconciliationRun'')\<lparr>
        ma_list_display := [''id'', ''tenant'', ''status'', ''total_checked'', ''matched_count'',
          ''exception_count'', ''started_at''],
        ma_list_filter := [''status'', ''tenant''],
        ma_search_fields := [''id'', ''tenant__name''],
        ma_autocomplete := [''tenant'', ''triggered_by'']\<rparr>"

definition ReconciliationExceptionAdmin :: model_admin where
  "ReconciliationExceptionAdmin =
     (plain_admin ''ReconciliationException'')\<lparr>
        ma_list_display := [''payment'', ''exception_type'', ''status'', ''tenant'', ''created_at''],
        ma_list_filter := [''exception_type'', ''status'', ''tenant''],
        ma_search_fields := [''payment__merchant_reference''],
        ma_autocomplete := [''tenant'', ''payment'', ''run'', ''resolved_by'']\<rparr>"

definition RevenueEventAdmin :: model_admin where
  "RevenueEventAdmin =
     (plain_admin ''RevenueEvent'')\<lparr>
        ma_list_display := [''created_at'', ''tenant'', ''event_type'', ''amount'', ''currency''],
        ma_list_filter := [''event_type'', ''tenant''],
        ma_search_fields := [''correlation_id''],
        ma_autocomplete := [''tenant'', ''ledger_entry''],
        ma_can_add := False,
        ma_can_change := False,
        ma_can_delete := False\<rparr>"

definition SettlementBatchAdmin :: model_admin where
  "SettlementBatchAdmin =
     (plain_admin ''SettlementBatch'')\<lparr>
        ma_list_display := [''reference'', ''tenant'', ''provider'', ''status'', ''gross_amount'',
          ''net_amount'', ''currency'', ''period_end''],
        ma_list_filter := [''status'', ''provider'', ''tenant''],
        ma_search_fields := [''reference'', ''external_settlement_reference''],
        ma_autocomplete := [''tenant'', ''provider''],
        ma_readonly := [''reference'', ''gross_amount'', ''platform_fee_total'', ''provider_fee_total'',
          ''net_amount'']\<rparr>"

definition TenantMembershipInline :: model_admin where
  "TenantMembershipInline =
     (plain_inline ''TenantMembership'')\<lparr>
        ma_autocomplete := [''user'', ''invited_by'']\<rparr>"

definition TenantRowAdmin :: model_admin where
  "TenantRowAdmin =
     (plain_admin ''Tenant'')\<lparr>
        ma_list_display := [''name'', ''sector'', ''status'', ''default_currency'', ''created_at''],
        ma_list_filter := [''status'', ''sector''],
        ma_search_fields := [''name'', ''slug''],
        ma_exact_search := [''contact_email''],
        ma_readonly := [''id'', ''created_at'', ''updated_at'']\<rparr>"

definition TenantMembershipAdmin :: model_admin where
  "TenantMembershipAdmin =
     (plain_admin ''TenantMembership'')\<lparr>
        ma_list_display := [''user'', ''tenant'', ''role'', ''is_active'', ''created_at''],
        ma_list_filter := [''role'', ''is_active''],
        ma_search_fields := [''user__email'', ''tenant__name''],
        ma_autocomplete := [''user'', ''tenant'', ''invited_by'']\<rparr>"

definition UserAdmin :: model_admin where
  "UserAdmin =
     (plain_admin ''User'')\<lparr>
        ma_list_display := [''email'', ''first_name'', ''last_name'', ''is_staff'', ''is_active''],
        ma_search_fields := [''email''],
        ma_exact_search := [''first_name'', ''last_name''],
        ma_fields := [''email'', ''password'', ''first_name'', ''last_name'', ''phone_number'', ''is_active'',
          ''is_staff'', ''is_superuser'', ''groups'', ''user_permissions'', ''last_login'', ''date_joined'']\<rparr>"

definition PlatformMembershipAdmin :: model_admin where
  "PlatformMembershipAdmin =
     (plain_admin ''PlatformMembership'')\<lparr>
        ma_list_display := [''user'', ''role'', ''is_active'', ''created_at''],
        ma_list_filter := [''role'', ''is_active''],
        ma_search_fields := [''user__email''],
        ma_autocomplete := [''user'']\<rparr>"

definition WebhookEndpointAdmin :: model_admin where
  "WebhookEndpointAdmin =
     (plain_admin ''WebhookEndpoint'')\<lparr>
        ma_list_display := [''url'', ''tenant'', ''is_active'', ''description''],
        ma_list_filter := [''is_active'', ''tenant''],
        ma_search_fields := [''url'', ''description''],
        ma_autocomplete := [''tenant''],
        ma_readonly := [''secret'']\<rparr>"

definition WebhookDeliveryAdmin :: model_admin where
  "WebhookDeliveryAdmin =
     (plain_admin ''WebhookDelivery'')\<lparr>
        ma_list_display := [''event_type'', ''endpoint'', ''status'', ''attempt_count'',
          ''response_status_code'', ''created_at''],
        ma_list_filter := [''status'', ''event_type'', ''tenant''],
        ma_search_fields := [''endpoint__url'', ''correlation_id''],
        ma_autocomplete := [''tenant'', ''endpoint''],
        ma_readonly := [''payload'', ''attempt_count'', ''last_attempted_at'', ''response_status_code'',
          ''response_body'']\<rparr>"

text \<open>What is registered, the inline forms among it.\<close>

definition admin_site :: "model_admin list" where
  "admin_site =
     [MFADeviceAdmin, BackupCodeAdmin, ApiCredentialAdmin, AuditLogAdmin, BillItemInline, RevenueSourceAdmin,
      BillAdmin, ControlNumberAdmin, CustomerAccountInline, CustomerAdmin, CustomerAccountAdmin,
      LedgerEntryAdmin, NotificationTemplateAdmin, NotificationAdmin, BranchAdmin, DepartmentAdmin,
      PaymentAllocationInline, PaymentAdmin, PaymentCallbackEventAdmin, PaymentChannelInline,
      PaymentProviderAdmin, PaymentChannelAdmin, MockProviderTransactionAdmin, ReceiptAdmin,
      ReconciliationExceptionInline, ReconciliationRunAdmin, ReconciliationExceptionAdmin, RevenueEventAdmin,
      SettlementBatchAdmin, TenantMembershipInline, TenantRowAdmin, TenantMembershipAdmin, UserAdmin,
      PlatformMembershipAdmin, WebhookEndpointAdmin, WebhookDeliveryAdmin]"

subsection \<open>Deletion\<close>

record row =
  row_model :: string
  row_pk :: uuid
  row_links :: "(string \<times> uuid) list"
  row_columns :: "(string \<times> string) list"

definition row_key :: "row \<Rightarrow> string \<times> uuid" where
  "row_key r = (row_model r, row_pk r)"

text \<open>The link \<open>l\<close> of a row of \<open>m\<close> leads to one of the rows \<open>gone\<close> under the rule \<open>d\<close>.\<close>

definition leads :: "on_delete \<Rightarrow> (string \<times> uuid) list \<Rightarrow> string \<Rightarrow> string \<times> uuid \<Rightarrow> bool" where
  "leads d gone m l \<longleftrightarrow> list_ex (\<lambda>(n, f, target, e). n = m \<and> f = fst l \<and> e = d \<and> (target, snd l) \<in> set gone) foreign_keys"

definition hangs :: "on_delete \<Rightarrow> (string \<times> uuid) list \<Rightarrow> row \<Rightarrow> bool" where
  "hangs d gone r \<longleftrightarrow> list_ex (leads d gone (row_model r)) (row_links r)"

text \<open>\<open>Collector.collect\<close>, round by round; as many rounds as there are rows.\<close>

fun collect :: "nat \<Rightarrow> row list \<Rightarrow> (string \<times> uuid) list \<Rightarrow> (string \<times> uuid) list" where
  "collect 0 db gone = gone"
| "collect (Suc n) db gone =
     collect n db (gone @ map row_key (filter (\<lambda>r. row_key r \<notin> set gone \<and> hangs CASCADE gone r) db))"

definition unlink :: "(string \<times> uuid) list \<Rightarrow> row \<Rightarrow> row" where
  "unlink gone r = r\<lparr>row_links := filter (\<lambda>l. \<not> leads SET_NULL gone (row_model r) l) (row_links r)\<rparr>"

text \<open>\<open>None\<close> is \<open>ProtectedError\<close>; otherwise the rows that go and what is left.\<close>

definition delete_row :: "row list \<Rightarrow> string \<times> uuid \<Rightarrow> ((string \<times> uuid) list \<times> row list) option" where
  "delete_row db k = (let gone = collect (length db) db [k] in
     if list_ex (hangs PROTECT gone) db then None
     else Some (gone, map (unlink gone) (filter (\<lambda>r. row_key r \<notin> set gone) db)))"

subsection \<open>What people do on the pages\<close>

text \<open>
  A change names the new links and columns; those of \<open>readonly_fields\<close> stay. \<open>may\<close> are the models the
  person has the framework's permissions for, all of them for a superuser.
\<close>

datatype admin_request =
  AddRow row
| ChangeRow "string \<times> uuid" "(string \<times> uuid) list" "(string \<times> string) list"
| DeleteRow "string \<times> uuid"

definition links_valid :: "row list \<Rightarrow> string \<Rightarrow> (string \<times> uuid) list \<Rightarrow> bool" where
  "links_valid db m links \<longleftrightarrow> list_all (\<lambda>(f, pk). list_all (\<lambda>(n, g, target, d).
     n = m \<and> g = f \<longrightarrow> (target, pk) \<in> row_key ` set db) foreign_keys) links"

definition edited :: "string list \<Rightarrow> (string \<times> 'v) list \<Rightarrow> (string \<times> 'v) list \<Rightarrow> (string \<times> 'v) list" where
  "edited fixed old new = filter (\<lambda>(f, v). f \<in> set fixed) old @ filter (\<lambda>(f, v). f \<notin> set fixed) new"

definition pages_of :: "string \<Rightarrow> model_admin list" where
  "pages_of m = filter (\<lambda>a. ma_model a = m) admin_site"

text \<open>A page asks for the permission to delete everything that would go; an inline form does not.\<close>

definition may_delete_all :: "(string \<Rightarrow> bool) \<Rightarrow> (string \<times> uuid) list \<Rightarrow> bool" where
  "may_delete_all may gone \<longleftrightarrow> list_all (\<lambda>(m, pk). list_all (\<lambda>a. \<not> ma_inline a \<longrightarrow> may m \<and> ma_can_delete a) (pages_of m)) gone"

definition admin_step :: "(string \<Rightarrow> bool) \<Rightarrow> row list \<Rightarrow> admin_request \<Rightarrow> row list" where
  "admin_step may db q = (case q of
     AddRow r \<Rightarrow>
       if may (row_model r) \<and> list_ex ma_can_add (pages_of (row_model r)) \<and> row_key r \<notin> row_key ` set db \<and>
         links_valid db (row_model r) (row_links r) then r # db else db
   | ChangeRow (m, pk) links cols \<Rightarrow>
       if may m \<and> links_valid db m links then
         (case filter ma_can_change (pages_of m) of
           [] \<Rightarrow> db
         | a # as \<Rightarrow> row_update row_key (m, pk) (\<lambda>r. r\<lparr>row_links := edited (ma_readonly a) (row_links r) links,
             row_columns := edited (ma_readonly a) (row_columns r) cols\<rparr>) db)
       else db
   | DeleteRow (m, pk) \<Rightarrow>
       if may m \<and> list_ex ma_can_delete (pages_of m) then
         (case delete_row db (m, pk) of
           None \<Rightarrow> db
         | Some (gone, rest) \<Rightarrow>
             if list_ex (\<lambda>a. ma_inline a \<and> ma_can_delete a) (pages_of m) \<or> may_delete_all may gone then rest else db)
       else db)"

text \<open>Any people, one after the other.\<close>

definition admin_run :: "((string \<Rightarrow> bool) \<times> admin_request) list \<Rightarrow> row list \<Rightarrow> row list" where
  "admin_run qs db = foldl (\<lambda>db (may, q). admin_step may db q) db qs"

subsection \<open>The tables that only grow\<close>

definition frozen :: "string list" where
  "frozen = [''AuditLog'', ''LedgerEntry'', ''RevenueEvent'']"

lemma frozen_pages: "list_all (\<lambda>a. ma_model a \<in> set frozen \<longrightarrow> \<not> ma_can_add a \<and> \<not> ma_can_change a \<and> \<not> ma_can_delete a) admin_site"
  by code_simp

lemma frozen_keys:
  "list_all (\<lambda>(m, f, target, d). (m \<in> set frozen \<longrightarrow> d \<noteq> CASCADE) \<and>
     (m \<in> set frozen \<and> d = SET_NULL \<longrightarrow> m = ''AuditLog'' \<and> f \<in> set [''actor'', ''tenant'', ''content_type'']) \<and>
     (target = ''ContentType'' \<longleftrightarrow> f = ''content_type'') \<and> m \<noteq> ''ContentType'') foreign_keys"
  by code_simp

lemma frozen_key:
  assumes "(m, f, target, d) \<in> set foreign_keys"
  shows "m \<in> set frozen \<Longrightarrow> d \<noteq> CASCADE" and "m \<noteq> ''ContentType''"
    and "m \<in> set frozen \<Longrightarrow> d = SET_NULL \<Longrightarrow> m = ''AuditLog'' \<and> f \<in> set [''actor'', ''tenant'', ''content_type'']"
    and "target = ''ContentType'' \<Longrightarrow> f = ''content_type''"
    and "m \<in> set frozen \<Longrightarrow> d = SET_NULL \<Longrightarrow> f = ''content_type'' \<Longrightarrow> target = ''ContentType''"
  using bspec [OF frozen_keys [unfolded list_all_iff] assms] by blast+

lemma no_content_types: "list_all (\<lambda>a. ma_model a \<noteq> ''ContentType'') admin_site"
  by code_simp

lemma one_rule: "distinct (map (\<lambda>(m, f, target, d). (m, f)) foreign_keys)"
  by code_simp

text \<open>What a deletion collects.\<close>

lemma hangs_mono: "hangs d gone r \<Longrightarrow> set gone \<subseteq> set gone' \<Longrightarrow> hangs d gone' r"
  by (force simp: hangs_def leads_def list_ex_iff)

lemma collect_mono: "set gone \<subseteq> set (collect n db gone)"
  by (induction n db gone rule: collect.induct) auto

lemma collect_sound:
  "k \<in> set (collect n db gone) \<Longrightarrow> k \<in> set gone \<or> (\<exists>r \<in> set db. \<exists>gone'. row_key r = k \<and> hangs CASCADE gone' r)"
  by (induction n db gone rule: collect.induct) auto

definition closed_under :: "row list \<Rightarrow> (string \<times> uuid) list \<Rightarrow> bool" where
  "closed_under db gone \<longleftrightarrow> (\<forall>r \<in> set db. hangs CASCADE gone r \<longrightarrow> row_key r \<in> set gone)"

lemma collect_fixed: "closed_under db gone \<Longrightarrow> collect n db gone = gone"
proof (induction n)
  case (Suc n)
  then have "filter (\<lambda>r. row_key r \<notin> set gone \<and> hangs CASCADE gone r) db = []"
    by (auto simp: closed_under_def filter_empty_conv)
  with Suc show ?case
    by simp
qed simp

lemma collect_closed: "card (row_key ` set db - set gone) \<le> n \<Longrightarrow> closed_under db (collect n db gone)"
proof (induction n arbitrary: gone)
  case 0
  then show ?case
    by (auto simp: closed_under_def)
next
  case (Suc n)
  define more where "more = map row_key (filter (\<lambda>r. row_key r \<notin> set gone \<and> hangs CASCADE gone r) db)"
  show ?case
  proof (cases "more = []")
    case True
    then have "closed_under db gone"
      by (auto simp: more_def closed_under_def filter_empty_conv)
    then show ?thesis
      by (simp only: collect_fixed)
  next
    case False
    then obtain k where "k \<in> set more"
      by (cases more) auto
    then have k: "k \<in> row_key ` set db - set gone" "k \<in> set (gone @ more)"
      by (auto simp: more_def)
    then have "row_key ` set db - set (gone @ more) \<subset> row_key ` set db - set gone"
      by auto
    then have "card (row_key ` set db - set (gone @ more)) < card (row_key ` set db - set gone)"
      by (rule psubset_card_mono [rotated]) simp
    then have "card (row_key ` set db - set (gone @ more)) \<le> n"
      using Suc.prems by simp
    from Suc.IH [OF this] show ?thesis
      by (simp add: more_def)
  qed
qed

lemma collect_all: "closed_under db (collect (length db) db gone)"
proof (rule collect_closed)
  have "card (row_key ` set db - set gone) \<le> card (row_key ` set db)"
    by (intro card_mono) auto
  also have "\<dots> \<le> length db"
    using card_image_le [of "set db" row_key] card_length [of db] by simp
  finally show "card (row_key ` set db - set gone) \<le> length db" .
qed

lemma hangs_key: "hangs d gone r \<Longrightarrow> \<exists>f target. (row_model r, f, target, d) \<in> set foreign_keys"
  by (auto simp: hangs_def leads_def list_ex_iff)

lemma collect_models:
  assumes "(m, pk) \<in> set (collect n db [(m0, pk0)])"
  shows "m = m0 \<or> (\<exists>f target. (m, f, target, CASCADE) \<in> set foreign_keys)"
  using collect_sound [OF assms] hangs_key by (fastforce simp: row_key_def)

lemma collect_not_frozen:
  assumes "(m, pk) \<in> set (collect n db [(m0, pk0)])" and "m0 \<notin> set frozen" and "m0 \<noteq> ''ContentType''"
  shows "m \<notin> set frozen \<and> m \<noteq> ''ContentType''"
  using collect_models [OF assms(1)] assms(2,3) frozen_key(1,2) by blast

subsection \<open>What stays\<close>

definition growing_rows :: "row list \<Rightarrow> row list" where
  "growing_rows db = filter (\<lambda>r. row_model r \<in> set frozen) db"

text \<open>A row of the audit log without the links that a deletion may empty.\<close>

definition trimmed :: "row \<Rightarrow> row" where
  "trimmed r = (if row_model r = ''AuditLog''
     then r\<lparr>row_links := filter (\<lambda>(f, pk). f \<notin> set [''actor'', ''tenant'']) (row_links r)\<rparr> else r)"

text \<open>Every link leads to a row.\<close>

definition intact :: "row list \<Rightarrow> bool" where
  "intact db \<longleftrightarrow> list_all (\<lambda>r. links_valid db (row_model r) (row_links r)) db"

lemma trimmed_unlink:
  assumes "row_model r \<in> set frozen" and "\<And>pk. (''ContentType'', pk) \<notin> set gone"
  shows "trimmed (unlink gone r) = trimmed r"
proof -
  have gone_links: "row_model r = ''AuditLog'' \<and> fst l \<in> set [''actor'', ''tenant'']"
    if lead: "leads SET_NULL gone (row_model r) l" for l
  proof -
    obtain target where key: "(row_model r, fst l, target, SET_NULL) \<in> set foreign_keys" "(target, snd l) \<in> set gone"
      using lead by (auto simp: leads_def list_ex_iff)
    then have "target \<noteq> ''ContentType''"
      using assms(2) by blast
    with frozen_key(3,5) [OF key(1) assms(1)] show ?thesis
      by auto
  qed
  show ?thesis
  proof (cases "row_model r = ''AuditLog''")
    case True
    then show ?thesis
      using gone_links by (auto simp: trimmed_def unlink_def intro!: arg_cong [where f = "\<lambda>ls. r\<lparr>row_links := ls\<rparr>"] filter_cong; blast)
  next
    case False
    then have "filter (\<lambda>l. \<not> leads SET_NULL gone (row_model r) l) (row_links r) = row_links r"
      using gone_links by (intro filter_True) blast
    then have "unlink gone r = r"
      by (simp add: unlink_def)
    then show ?thesis
      by simp
  qed
qed

lemma unlink_projections [simp]: "row_model (unlink gone r) = row_model r" "row_key (unlink gone r) = row_key r"
  by (simp_all add: unlink_def row_key_def)

lemma deletion_keeps_growing:
  assumes "delete_row db (m, pk) = Some (gone, rest)" and "m \<notin> set frozen" and "m \<noteq> ''ContentType''"
  shows "map trimmed (growing_rows rest) = map trimmed (growing_rows db)"
proof -
  have gone: "gone = collect (length db) db [(m, pk)]" "rest = map (unlink gone) (filter (\<lambda>r. row_key r \<notin> set gone) db)"
    using assms(1) by (auto simp: delete_row_def Let_def split: if_splits)
  have out: "n \<notin> set frozen \<and> n \<noteq> ''ContentType''" if "(n, i) \<in> set gone" for n i
    using collect_not_frozen [OF that [unfolded gone(1)] assms(2,3)] .
  have "growing_rows rest = map (unlink gone) (growing_rows db)"
    using out by (auto simp: growing_rows_def gone(2) filter_map o_def row_key_def intro!: arg_cong [where f = "map _"] filter_cong)
  then show ?thesis
    using out by (auto simp: growing_rows_def intro!: trimmed_unlink)
qed

lemma deletion_keeps_intact:
  assumes "delete_row db k = Some (gone, rest)" and "intact db"
  shows "intact rest"
proof -
  have gone: "gone = collect (length db) db [k]" "rest = map (unlink gone) (filter (\<lambda>r. row_key r \<notin> set gone) db)"
      "\<not> list_ex (hangs PROTECT gone) db"
    using assms(1) by (auto simp: delete_row_def Let_def split: if_splits)
  have "closed_under db gone"
    unfolding gone(1) by (rule collect_all)
  then have stay: "\<not> leads d gone (row_model r) l"
    if "r \<in> set db" "row_key r \<notin> set gone" "l \<in> set (row_links r)" "d \<noteq> SET_NULL" for r l d
    using that gone(3) by (cases d) (auto simp: closed_under_def hangs_def list_ex_iff)
  have keys: "row_key ` set rest = row_key ` set db - set gone"
    unfolding gone(2) by (auto simp: image_image)
  have "links_valid rest (row_model r) (row_links (unlink gone r))" if r: "r \<in> set db" "row_key r \<notin> set gone" for r
    unfolding links_valid_def list_all_iff
  proof clarify
    fix f pk n target d
    assume link: "(f, pk) \<in> set (row_links (unlink gone r))" and key: "(row_model r, f, target, d) \<in> set foreign_keys"
    then have old: "(f, pk) \<in> set (row_links r)" "\<not> leads SET_NULL gone (row_model r) (f, pk)"
      by (auto simp: unlink_def)
    then have "(target, pk) \<in> row_key ` set db"
      using assms(2) r(1) key by (fastforce simp: intact_def links_valid_def list_all_iff)
    moreover have "\<not> leads d gone (row_model r) (f, pk)"
      using stay [OF r old(1)] old(2) by (cases "d = SET_NULL") auto
    then have "(target, pk) \<notin> set gone"
      using key by (force simp: leads_def list_ex_iff)
    ultimately show "(target, pk) \<in> row_key ` set rest"
      using keys by simp
  qed
  then show ?thesis
    by (auto simp: intact_def list_all_iff gone(2))
qed

lemma pages_not_frozen:
  assumes "a \<in> set (pages_of m)"
  shows "ma_can_add a \<or> ma_can_change a \<or> ma_can_delete a \<Longrightarrow> m \<notin> set frozen" and "m \<noteq> ''ContentType''"
proof -
  have a: "a \<in> set admin_site" "ma_model a = m"
    using assms by (simp_all add: pages_of_def)
  show "ma_can_add a \<or> ma_can_change a \<or> ma_can_delete a \<Longrightarrow> m \<notin> set frozen"
    using bspec [OF frozen_pages [unfolded list_all_iff] a(1)] a(2) by blast
  show "m \<noteq> ''ContentType''"
    using bspec [OF no_content_types [unfolded list_all_iff] a(1)] a(2) by blast
qed

lemma links_valid_iff:
  "links_valid db m links \<longleftrightarrow> (\<forall>f pk target d. (f, pk) \<in> set links \<longrightarrow> (m, f, target, d) \<in> set foreign_keys \<longrightarrow>
     (target, pk) \<in> row_key ` set db)"
  by (auto simp: links_valid_def list_all_iff simp del: image_iff; blast)

lemma links_valid_more: "links_valid db m links \<Longrightarrow> row_key ` set db \<subseteq> row_key ` set db' \<Longrightarrow> links_valid db' m links"
  unfolding links_valid_iff by blast

lemma links_valid_edited: "links_valid db m old \<Longrightarrow> links_valid db m new \<Longrightarrow> links_valid db m (edited fixed old new)"
  by (auto simp: links_valid_def edited_def list_all_iff)

lemma changed_keys: "(\<And>r. row_key (f r) = row_key r) \<Longrightarrow> row_key ` set (row_update row_key k f db) = row_key ` set db"
  unfolding row_update_def set_map image_image by (rule image_cong [OF refl]) auto

lemma admin_step_keeps:
  "map trimmed (growing_rows (admin_step may db q)) = map trimmed (growing_rows db) \<and>
   (intact db \<longrightarrow> intact (admin_step may db q))"
proof (cases q)
  case (AddRow r)
  show ?thesis
  proof (cases "admin_step may db q = db")
    case False
    then have added: "admin_step may db q = r # db" "links_valid db (row_model r) (row_links r)"
        "list_ex ma_can_add (pages_of (row_model r))"
      by (auto simp: AddRow admin_step_def split: if_splits)
    then have "row_model r \<notin> set frozen"
      using pages_not_frozen(1) by (auto simp: list_ex_iff)
    moreover have "intact (r # db)" if "intact db"
      using that added(2) by (auto simp: intact_def list_all_iff intro: links_valid_more)
    ultimately show ?thesis
      by (simp add: added(1) growing_rows_def)
  qed simp
next
  case (ChangeRow k links cols)
  obtain m pk where k: "k = (m, pk)"
    by (cases k)
  show ?thesis
  proof (cases "admin_step may db q = db")
    case False
    then obtain a as where first: "filter ma_can_change (pages_of m) = a # as" and valid: "links_valid db m links"
      by (auto simp: ChangeRow k admin_step_def split: if_splits list.splits)
    then have "a \<in> set (filter ma_can_change (pages_of m))"
      by simp
    then have member: "a \<in> set (pages_of m)" "ma_can_change a"
      by simp_all
    with first valid False have changed: "a \<in> set (pages_of m)" "ma_can_change a" "links_valid db m links"
        "admin_step may db q = row_update row_key (m, pk) (\<lambda>r. r\<lparr>row_links := edited (ma_readonly a) (row_links r) links,
           row_columns := edited (ma_readonly a) (row_columns r) cols\<rparr>) db" (is "_ = row_update row_key _ ?f db")
      by (auto simp: ChangeRow k admin_step_def split: if_splits)
    have "m \<notin> set frozen"
      using pages_not_frozen(1) [OF changed(1)] changed(2) by blast
    then have "growing_rows (row_update row_key (m, pk) ?f db) = growing_rows db"
      by (induction db) (auto simp: growing_rows_def row_key_def)
    moreover have "intact (row_update row_key (m, pk) ?f db)" if db: "intact db"
    proof -
      have keys: "row_key ` set (row_update row_key (m, pk) ?f db) = row_key ` set db"
        by (rule changed_keys) (simp add: row_key_def)
      show ?thesis
        unfolding intact_def list_all_iff
      proof
        fix r'
        assume "r' \<in> set (row_update row_key (m, pk) ?f db)"
        then obtain r where r: "r \<in> set db" "r' = (if row_key r = (m, pk) then ?f r else r)"
          by (auto simp: row_update_def)
        have "links_valid db (row_model r) (row_links r)"
          using db r(1) by (auto simp: intact_def list_all_iff)
        then have "links_valid db (row_model r') (row_links r')"
          using changed(3) r(2) by (auto simp: row_key_def intro: links_valid_edited)
        then show "links_valid (row_update row_key (m, pk) ?f db) (row_model r') (row_links r')"
          by (rule links_valid_more) (simp add: keys)
      qed
    qed
    ultimately show ?thesis
      by (simp add: changed(4))
  qed simp
next
  case (DeleteRow k)
  obtain m pk where k: "k = (m, pk)"
    by (cases k)
  show ?thesis
  proof (cases "admin_step may db q = db")
    case False
    then obtain gone where deleted: "delete_row db (m, pk) = Some (gone, admin_step may db q)"
        "list_ex ma_can_delete (pages_of m)"
      by (auto simp: DeleteRow k admin_step_def split: if_splits option.splits)
    then obtain a where a: "a \<in> set (pages_of m)" "ma_can_delete a"
      by (auto simp: list_ex_iff)
    have "m \<notin> set frozen" "m \<noteq> ''ContentType''"
      using pages_not_frozen [OF a(1)] a(2) by auto
    with deletion_keeps_growing [OF deleted(1)] deletion_keeps_intact [OF deleted(1)] show ?thesis
      by blast
  qed simp
qed

text \<open>
  C7 (\<open>apps/*/admin.py\<close>, the foreign keys of \<open>apps/*/models.py\<close>): whatever people with whatever
  permissions add, change and delete on the admin pages, the rows of the audit log, the ledger and
  the revenue events stay, unchanged but for the \<open>actor\<close> and \<open>tenant\<close> of audit records, which a
  deletion can empty; none is added; and in a database whose foreign keys all lead to rows they still do.
\<close>

theorem admin_keeps_logs:
  "map trimmed (growing_rows (admin_run qs db)) = map trimmed (growing_rows db) \<and>
   (intact db \<longrightarrow> intact (admin_run qs db))"
  unfolding admin_run_def
proof (induction qs arbitrary: db)
  case (Cons x qs)
  obtain may q where "x = (may, q)"
    by (cases x)
  with admin_step_keeps [of may db q] Cons.IH [of "admin_step may db q"] show ?case
    by simp
qed simp

subsection \<open>The chain after a deletion\<close>

definition actor_emptied :: "uuid \<Rightarrow> audit_record \<Rightarrow> audit_record" where
  "actor_emptied i r = (if al_actor r = Some i then r\<lparr>al_actor := None\<rparr> else r)"

definition tenant_emptied :: "uuid \<Rightarrow> audit_record \<Rightarrow> audit_record" where
  "tenant_emptied i r = (if al_tenant r = Some i then r\<lparr>al_tenant := None\<rparr> else r)"

lemma chain_order_map:
  assumes "\<And>r. audit_key E (f r) = audit_key E r"
  shows "chain_order E (map f rows) = map f (chain_order E rows)"
proof -
  have "insort_key (audit_key E) (f r) (map f rs) = map f (insort_key (audit_key E) r rs)" for r rs
    by (induction rs) (auto simp: assms)
  then show ?thesis
    by (induction rows) (auto simp: chain_order_def)
qed

lemma verify_from_map:
  assumes "\<And>r. al_previous_hash (f r) = al_previous_hash r" and "\<And>r. al_record_hash (f r) = al_record_hash r"
    and "\<And>r p. audit_hash E p (f r) = audit_hash E p r"
  shows "fst (verify_from E g (map f rs)) = fst (verify_from E g rs)"
  by (induction rs arbitrary: g) (auto simp: assms)

lemma verify_from_hashes:
  "fst (verify_from E g rs) \<Longrightarrow> r \<in> set rs \<Longrightarrow> al_record_hash r = audit_hash E (al_previous_hash r) r"
  by (induction rs arbitrary: g) (auto split: if_splits)

text \<open>
  C8 (\<open>AuditLog.actor\<close>, \<open>AuditLog.tenant\<close>, \<open>_canonical_payload\<close>): deleting a user, which empties the actor of
  the records, never changes whether the chain verifies. Deleting an institution, which empties the tenant,
  leaves an intact chain intact exactly if no record names it: the hash covers its key. Assumed are that
  \<open>json.dumps\<close> and the texts of keys and times tell values apart, and that no two of the hashed texts collide.
\<close>

theorem deletion_and_chain:
  assumes "texts_apart E"
    and "inj_on (e_sha256 E) (hash_text E ` (set rows \<union> tenant_emptied i ` set rows))"
  shows "fst (verify_chain E (map (actor_emptied u) rows)) = fst (verify_chain E rows) \<and>
    (fst (verify_chain E rows) \<longrightarrow>
      (fst (verify_chain E (map (tenant_emptied i) rows)) \<longleftrightarrow> (\<forall>r \<in> set rows. al_tenant r \<noteq> Some i)))"
proof (intro conjI impI)
  have order: "chain_order E (map (actor_emptied u) rows) = map (actor_emptied u) (chain_order E rows)"
      "chain_order E (map (tenant_emptied i) rows) = map (tenant_emptied i) (chain_order E rows)"
    by (auto intro!: chain_order_map simp: audit_key_def actor_emptied_def tenant_emptied_def)
  have "fst (verify_from E g (map (actor_emptied u) rs)) = fst (verify_from E g rs)" for g rs
    by (rule verify_from_map) (auto simp: actor_emptied_def audit_hash_def canonical_payload_def)
  then show "fst (verify_chain E (map (actor_emptied u) rows)) = fst (verify_chain E rows)"
    by (simp add: verify_chain_def order(1))
  assume whole: "fst (verify_chain E rows)"
  show "fst (verify_chain E (map (tenant_emptied i) rows)) \<longleftrightarrow> (\<forall>r \<in> set rows. al_tenant r \<noteq> Some i)"
  proof (intro iffI ballI)
    fix r
    assume emptied: "fst (verify_chain E (map (tenant_emptied i) rows))" and r: "r \<in> set rows"
    let ?q = "tenant_emptied i r"
    have kept: "al_record_hash ?q = al_record_hash r" "al_previous_hash ?q = al_previous_hash r"
      by (simp_all add: tenant_emptied_def)
    have "al_record_hash r = e_sha256 E (hash_text E r)"
      using verify_from_hashes [of E _ _ r] whole r by (auto simp: verify_chain_def chain_order_def audit_hash_text)
    moreover have "al_record_hash ?q = e_sha256 E (hash_text E ?q)"
      using verify_from_hashes [of E _ _ ?q] emptied r
      by (auto simp: verify_chain_def order(2) chain_order_def audit_hash_text)
    ultimately have "hash_text E r = hash_text E ?q"
      using inj_onD [OF assms(2), of "hash_text E r" "hash_text E ?q"] kept(1) r by simp
    then have "hashed_fields r = hashed_fields ?q"
      using hash_text_eq_iff [OF assms(1) kept(2) [symmetric]] by simp
    then show "al_tenant r \<noteq> Some i"
      by (auto simp: hashed_fields_def tenant_emptied_def)
  next
    assume "\<forall>r \<in> set rows. al_tenant r \<noteq> Some i"
    then have "map (tenant_emptied i) rows = rows"
      by (auto intro!: map_idI simp: tenant_emptied_def)
    with whole show "fst (verify_chain E (map (tenant_emptied i) rows))"
      by simp
  qed
qed

subsection \<open>An example\<close>

definition example_store :: "row list" where
  "example_store =
    [\<lparr>row_model = ''User'', row_pk = Uuid 1, row_links = [], row_columns = [(''email'', ''a@b.c'')]\<rparr>,
     \<lparr>row_model = ''Tenant'', row_pk = Uuid 2, row_links = [(''approved_by'', Uuid 1)], row_columns = [(''name'', ''N'')]\<rparr>,
     \<lparr>row_model = ''TenantMembership'', row_pk = Uuid 3, row_links = [(''tenant'', Uuid 2), (''user'', Uuid 1)],
       row_columns = [(''role'', ''tenant_admin'')]\<rparr>,
     \<lparr>row_model = ''AuditLog'', row_pk = Uuid 4, row_links = [(''actor'', Uuid 1), (''tenant'', Uuid 2)],
       row_columns = [(''action'', ''tenant.approved'')]\<rparr>]"

lemma leads_filter:
  "leads d gone m l \<longleftrightarrow> list_ex (\<lambda>(n, f, target, e). f = fst l \<and> e = d \<and> (target, snd l) \<in> set gone)
     (filter (\<lambda>key. fst key = m) foreign_keys)"
  by (force simp: leads_def list_ex_iff)

lemma links_valid_filter:
  "links_valid db m links \<longleftrightarrow> list_all (\<lambda>(f, pk). list_all (\<lambda>(n, g, target, d). g = f \<longrightarrow> (target, pk) \<in> row_key ` set db)
     (filter (\<lambda>key. fst key = m) foreign_keys)) links"
  unfolding links_valid_def list_all_iff by (intro ball_cong refl) auto

lemma example_keys:
  "filter (\<lambda>key. fst key = ''User'') foreign_keys = []"
  "filter (\<lambda>key. fst key = ''Tenant'') foreign_keys = [(''Tenant'', ''approved_by'', ''User'', SET_NULL)]"
  "filter (\<lambda>key. fst key = ''TenantMembership'') foreign_keys =
     [(''TenantMembership'', ''tenant'', ''Tenant'', CASCADE), (''TenantMembership'', ''user'', ''User'', CASCADE),
      (''TenantMembership'', ''invited_by'', ''User'', SET_NULL)]"
  "filter (\<lambda>key. fst key = ''AuditLog'') foreign_keys = audit_keys"
  by code_simp+

lemma example_pages:
  "map (\<lambda>a. (ma_inline a, ma_can_delete a)) (pages_of ''Tenant'') = [(False, True)]"
  "map (\<lambda>a. (ma_inline a, ma_can_delete a)) (pages_of ''TenantMembership'') = [(True, True), (False, True)]"
  by code_simp+

text \<open>The page of an institution deletes it, its memberships go with it, and its audit record loses it.\<close>

lemma institution_deleted:
  "admin_step (\<lambda>_. True) example_store (DeleteRow (''Tenant'', Uuid 2)) =
    [\<lparr>row_model = ''User'', row_pk = Uuid 1, row_links = [], row_columns = [(''email'', ''a@b.c'')]\<rparr>,
     \<lparr>row_model = ''AuditLog'', row_pk = Uuid 4, row_links = [(''actor'', Uuid 1)],
       row_columns = [(''action'', ''tenant.approved'')]\<rparr>]"
proof -
  have deleted: "delete_row example_store (''Tenant'', Uuid 2) = Some ([(''Tenant'', Uuid 2), (''TenantMembership'', Uuid 3)],
      [\<lparr>row_model = ''User'', row_pk = Uuid 1, row_links = [], row_columns = [(''email'', ''a@b.c'')]\<rparr>,
       \<lparr>row_model = ''AuditLog'', row_pk = Uuid 4, row_links = [(''actor'', Uuid 1)],
         row_columns = [(''action'', ''tenant.approved'')]\<rparr>])"
    by (simp add: delete_row_def example_store_def Let_def hangs_def leads_filter example_keys audit_keys_def row_key_def
        unlink_def numeral_eq_Suc)
  obtain a where "pages_of ''Tenant'' = [a]" "\<not> ma_inline a" "ma_can_delete a"
    using example_pages(1) by auto
  moreover obtain b c where "pages_of ''TenantMembership'' = [b, c]" "ma_can_delete b" "ma_can_delete c"
    using example_pages(2) by (auto simp: map_eq_Cons_conv)
  ultimately show ?thesis
    by (simp add: admin_step_def deleted may_delete_all_def)
qed

theorem admin_keeps_logs_witness:
  "intact (admin_run [(\<lambda>_. True, DeleteRow (''Tenant'', Uuid 2)), (\<lambda>_. True, DeleteRow (''AuditLog'', Uuid 4))] example_store)"
proof -
  have "intact example_store"
    by (simp add: intact_def links_valid_filter example_store_def example_keys audit_keys_def row_key_def)
  with admin_keeps_logs show ?thesis
    by blast
qed

definition example_entry :: audit_record where
  "example_entry = link_record chain_env [] None \<lparr>al_id = Uuid 4, al_created_at = 1, al_actor = Some (Uuid 1),
     al_actor_label = ''a@b.c'', al_tenant = Some (Uuid 2), al_action = ''tenant.approved'', al_content_type = None,
     al_object_id = [], al_before = None, al_after = None, al_metadata = JObj [], al_ip_address = None,
     al_user_agent = [], al_correlation_id = ''c'', al_previous_hash = [], al_record_hash = []\<rparr>"

theorem deletion_and_chain_witness:
  "fst (verify_chain chain_env (map (actor_emptied (Uuid 1)) [example_entry])) \<and>
   \<not> fst (verify_chain chain_env (map (tenant_emptied (Uuid 2)) [example_entry])) \<and>
   fst (verify_chain chain_env (map (tenant_emptied (Uuid 3)) [example_entry]))"
proof -
  have "fst (verify_chain chain_env [])"
    by (simp add: verify_chain_def chain_order_def)
  from verify_chain_link [OF this] have whole: "fst (verify_chain chain_env [example_entry])"
    unfolding example_entry_def by simp
  have tenant: "al_tenant example_entry = Some (Uuid 2)"
    by (simp add: example_entry_def link_record_def Let_def)
  have plain: "inj_on (e_sha256 chain_env) A" for A
    by simp
  show ?thesis
    using deletion_and_chain [OF texts_apart_chain_env plain, where rows = "[example_entry]" and u = "Uuid 1" and i = "Uuid 2"]
      deletion_and_chain [OF texts_apart_chain_env plain, where rows = "[example_entry]" and u = "Uuid 1" and i = "Uuid 3"] whole tenant
    by simp
qed

end
