(* ===== verification/Migrations.thy ===== *)
theory Migrations
  imports AdminSite ApiKeyring
begin

text \<open>
  The data migrations (\<open>apps/*/migrations\<close>): the encryption of what the tables held in the clear, the
  seeds of the provider and of the health monitor, and the restart of the audit chain; the encrypted
  columns of the models as they are read, and the admin pages' search for them
  (\<open>core/encrypted_fields.py\<close>). Rows whose encrypted columns hold what the database stores have the
  same record type as rows as they are read.
\<close>

subsection \<open>Keys\<close>

definition derive_key :: "(string \<Rightarrow> string) \<Rightarrow> string \<Rightarrow> string \<Rightarrow> string" where
  "derive_key sha256_digest master context_bytes = sha256_digest (master @ context_bytes)"

definition FERNET_CONTEXT :: string where
  "FERNET_CONTEXT = ''kusanya-field-encryption-fernet''"

definition LOOKUP_CONTEXT :: string where
  "LOOKUP_CONTEXT = ''kusanya-field-encryption-lookup-hash''"

lemma keys_differ: "inj sha \<Longrightarrow> derive_key sha master FERNET_CONTEXT \<noteq> derive_key sha master LOOKUP_CONTEXT"
  by (simp add: derive_key_def FERNET_CONTEXT_def LOOKUP_CONTEXT_def inj_eq)

subsection \<open>Columns\<close>

text \<open>
  \<open>lawful\<close> is what the \<open>cryptography\<close> package documents: a token is never empty and decrypts to what was
  encrypted.
\<close>

definition lawful :: "fernet \<Rightarrow> bool" where
  "lawful F \<longleftrightarrow> (\<forall>n p. decrypt F (encrypt F n p) = Some p \<and> encrypt F n p \<noteq> [])"

definition load_column :: "fernet \<Rightarrow> string \<Rightarrow> string" where
  "load_column F v = (case from_db_value F (Some v) of Some p \<Rightarrow> p | None \<Rightarrow> [])"

definition encrypted :: "fernet \<Rightarrow> nat \<Rightarrow> string \<Rightarrow> string" where
  "encrypted F n v = (if v = [] then v else encrypt F n v)"

text \<open>The reverse migrations leave alone what does not decrypt.\<close>

definition decrypted :: "fernet \<Rightarrow> string \<Rightarrow> string \<Rightarrow> string" where
  "decrypted F met now_held = (if met = [] then now_held else (case decrypt F met of Some p \<Rightarrow> p | None \<Rightarrow> now_held))"

definition hash_unless_blank :: "env \<Rightarrow> string \<Rightarrow> string" where
  "hash_unless_blank E v = (if v = [] then [] else compute_lookup_hash E v)"

lemma lawful_columns [simp]:
  assumes "lawful F"
  shows "load_column F (encrypted F n v) = v" and "decrypted F (encrypted F n v) (encrypted F n v) = v"
  using assms by (auto simp: lawful_def load_column_def encrypted_def decrypted_def from_db_value_def)

lemma load_plain_text: "v \<noteq> [] \<Longrightarrow> decrypt F v = None \<Longrightarrow> load_column F v = UNREADABLE"
  by (simp add: load_column_def from_db_value_def)

subsection \<open>Going through a table\<close>

text \<open>
  \<open>for row in objects.all().iterator(): objects.filter(pk=row.pk).update(...)\<close>: the loop meets the rows
  as they were when it began.
\<close>

definition update_each :: "('r \<Rightarrow> uuid) \<Rightarrow> ('r \<Rightarrow> 'r \<Rightarrow> 'r) \<Rightarrow> 'r list \<Rightarrow> 'r list" where
  "update_each key change rows = fold (\<lambda>met tbl. row_update key (key met) (change met) tbl) rows rows"

lemma update_each_fold:
  assumes "\<And>a r. key (change a r) = key r" and "distinct (map key rows)"
  shows "fold (\<lambda>met tbl. row_update key (key met) (change met) tbl) rows tbl =
    map (\<lambda>r. case row_get key (key r) rows of Some met \<Rightarrow> change met r | None \<Rightarrow> r) tbl"
  using assms(2)
proof (induction rows arbitrary: tbl)
  case (Cons a rows)
  have "row_get key (key a) rows = None"
    using Cons.prems by (auto simp: row_get_None_iff image_iff)
  then show ?case
    using Cons by (auto simp: row_update_def assms(1))
qed simp

lemma update_each_map:
  assumes "\<And>a r. key (change a r) = key r" and "distinct (map key rows)"
  shows "update_each key change rows = map (\<lambda>r. change r r) rows"
proof -
  have "row_get key (key r) rows = Some r" if "r \<in> set rows" for r
    using that assms(2) by (induction rows) (auto simp: image_iff)
  then show ?thesis
    unfolding update_each_def update_each_fold [OF assms] by (auto simp: map_eq_conv)
qed

text \<open>
  A table with encrypted columns: \<open>change\<close> and \<open>undo\<close> are the updates of its two migrations, \<open>reading\<close> is what
  the model reads from a stored row, \<open>saved\<close> what \<open>save\<close> makes of a row before it is stored.
\<close>

locale encrypted_table =
  fixes key :: "'r \<Rightarrow> uuid"
    and change :: "fernet \<Rightarrow> (uuid \<Rightarrow> nat \<Rightarrow> nat) \<Rightarrow> 'r \<Rightarrow> 'r \<Rightarrow> 'r"
    and undo :: "fernet \<Rightarrow> 'r \<Rightarrow> 'r \<Rightarrow> 'r"
    and reading :: "fernet \<Rightarrow> 'r \<Rightarrow> 'r"
    and saved :: "'r \<Rightarrow> 'r"
  assumes key_change: "key (change F nz a r) = key r"
    and key_back: "key (undo F a r) = key r"
    and load_change: "lawful F \<Longrightarrow> reading F (change F nz r r) = saved r"
    and back_change: "lawful F \<Longrightarrow> undo F (change F nz r r) (change F nz r r) = saved r"
begin

lemma loads_saved:
  "lawful F \<Longrightarrow> distinct (map key rows) \<Longrightarrow> map (reading F) (update_each key (change F nz) rows) = map saved rows"
  by (simp add: update_each_map key_change load_change)

lemma returns_saved:
  "lawful F \<Longrightarrow> distinct (map key rows) \<Longrightarrow>
   update_each key (undo F) (update_each key (change F nz) rows) = map saved rows"
  by (simp add: update_each_map [where change = "change F nz"] update_each_map [where change = "undo F"]
      key_change key_back back_change o_def)

end


subsection \<open>The tables\<close>

text \<open>\<open>apps/organizations/models.py\<close>, which nothing but these pages and the migrations uses.\<close>

record branch =
  br_id :: uuid
  br_tenant :: uuid
  br_name :: string
  br_code :: string
  br_address :: string
  br_is_active :: bool

record department =
  de_id :: uuid
  de_tenant :: uuid
  de_branch :: "uuid option"
  de_name :: string
  de_is_active :: bool

text \<open>The hashes that \<open>save\<close> writes, for the models whose \<open>save\<close> does more than that.\<close>

definition tenant_hashed :: "env \<Rightarrow> tenant \<Rightarrow> tenant" where
  "tenant_hashed E t = t\<lparr>t_contact_email_lookup_hash := hash_unless_blank E (py_lower (t_contact_email t))\<rparr>"

definition payment_hashed :: "env \<Rightarrow> payment \<Rightarrow> payment" where
  "payment_hashed E p = p\<lparr>p_payer_reference_lookup_hash := compute_lookup_hash E (p_payer_reference p)\<rparr>"

definition receipt_hashed :: "env \<Rightarrow> receipt \<Rightarrow> receipt" where
  "receipt_hashed E r = r\<lparr>r_customer_name_lookup_hash := compute_lookup_hash E (r_customer_name r)\<rparr>"

lemma py_lower_blank [simp]: "py_lower v = [] \<longleftrightarrow> v = []"
  by (simp add: py_lower_def)

text \<open>
  For every table the update of its migration (\<open>met\<close> is the row the loop is at, \<open>r\<close> the row in the
  table), that of the reverse, and the row as the model reads it. \<open>nz\<close> are the nonces Fernet draws.
\<close>

definition encrypt_customers :: "env \<Rightarrow> fernet \<Rightarrow> (uuid \<Rightarrow> nat \<Rightarrow> nat) \<Rightarrow> customer \<Rightarrow> customer \<Rightarrow> customer" where
  "encrypt_customers E F nz met r = r\<lparr>c_full_name := encrypted F (nz (c_id met) 0) (c_full_name met),
     c_email := encrypted F (nz (c_id met) 1) (c_email met),
     c_phone_number := encrypted F (nz (c_id met) 2) (c_phone_number met),
     c_full_name_lookup_hash := compute_lookup_hash E (c_full_name met),
     c_email_lookup_hash := hash_unless_blank E (py_lower (c_email met)),
     c_phone_number_lookup_hash := compute_lookup_hash E (c_phone_number met)\<rparr>"

definition decrypt_customers :: "fernet \<Rightarrow> customer \<Rightarrow> customer \<Rightarrow> customer" where
  "decrypt_customers F met r = r\<lparr>c_full_name := decrypted F (c_full_name met) (c_full_name r),
     c_email := decrypted F (c_email met) (c_email r),
     c_phone_number := decrypted F (c_phone_number met) (c_phone_number r)\<rparr>"

definition load_customers :: "fernet \<Rightarrow> customer \<Rightarrow> customer" where
  "load_customers F r = r\<lparr>c_full_name := load_column F (c_full_name r),
     c_email := load_column F (c_email r),
     c_phone_number := load_column F (c_phone_number r)\<rparr>"

interpretation customers_table: encrypted_table c_id "encrypt_customers E" decrypt_customers load_customers "customer_before_save E"
  for E :: env
  by unfold_locales (simp_all add: encrypt_customers_def decrypt_customers_def load_customers_def customer_before_save_def hash_unless_blank_def)

definition encrypt_users :: "env \<Rightarrow> fernet \<Rightarrow> (uuid \<Rightarrow> nat \<Rightarrow> nat) \<Rightarrow> user \<Rightarrow> user \<Rightarrow> user" where
  "encrypt_users E F nz met r = r\<lparr>u_first_name := encrypted F (nz (u_id met) 0) (u_first_name met),
     u_last_name := encrypted F (nz (u_id met) 1) (u_last_name met),
     u_phone_number := encrypted F (nz (u_id met) 2) (u_phone_number met),
     u_first_name_lookup_hash := hash_unless_blank E (u_first_name met),
     u_last_name_lookup_hash := hash_unless_blank E (u_last_name met)\<rparr>"

definition decrypt_users :: "fernet \<Rightarrow> user \<Rightarrow> user \<Rightarrow> user" where
  "decrypt_users F met r = r\<lparr>u_first_name := decrypted F (u_first_name met) (u_first_name r),
     u_last_name := decrypted F (u_last_name met) (u_last_name r),
     u_phone_number := decrypted F (u_phone_number met) (u_phone_number r)\<rparr>"

definition load_users :: "fernet \<Rightarrow> user \<Rightarrow> user" where
  "load_users F r = r\<lparr>u_first_name := load_column F (u_first_name r),
     u_last_name := load_column F (u_last_name r),
     u_phone_number := load_column F (u_phone_number r)\<rparr>"

interpretation users_table: encrypted_table u_id "encrypt_users E" decrypt_users load_users "user_before_save E"
  for E :: env
  by unfold_locales (simp_all add: encrypt_users_def decrypt_users_def load_users_def user_before_save_def hash_unless_blank_def)

definition encrypt_tenants :: "env \<Rightarrow> fernet \<Rightarrow> (uuid \<Rightarrow> nat \<Rightarrow> nat) \<Rightarrow> tenant \<Rightarrow> tenant \<Rightarrow> tenant" where
  "encrypt_tenants E F nz met r = r\<lparr>t_contact_email := encrypted F (nz (t_id met) 0) (t_contact_email met),
     t_contact_phone := encrypted F (nz (t_id met) 1) (t_contact_phone met),
     t_contact_email_lookup_hash := hash_unless_blank E (py_lower (t_contact_email met))\<rparr>"

definition decrypt_tenants :: "fernet \<Rightarrow> tenant \<Rightarrow> tenant \<Rightarrow> tenant" where
  "decrypt_tenants F met r = r\<lparr>t_contact_email := decrypted F (t_contact_email met) (t_contact_email r),
     t_contact_phone := decrypted F (t_contact_phone met) (t_contact_phone r)\<rparr>"

definition load_tenants :: "fernet \<Rightarrow> tenant \<Rightarrow> tenant" where
  "load_tenants F r = r\<lparr>t_contact_email := load_column F (t_contact_email r),
     t_contact_phone := load_column F (t_contact_phone r)\<rparr>"

interpretation tenants_table: encrypted_table t_id "encrypt_tenants E" decrypt_tenants load_tenants "tenant_hashed E"
  for E :: env
  by unfold_locales (simp_all add: encrypt_tenants_def decrypt_tenants_def load_tenants_def tenant_hashed_def)

definition encrypt_payments :: "env \<Rightarrow> fernet \<Rightarrow> (uuid \<Rightarrow> nat \<Rightarrow> nat) \<Rightarrow> payment \<Rightarrow> payment \<Rightarrow> payment" where
  "encrypt_payments E F nz met r = r\<lparr>p_payer_reference := encrypted F (nz (p_id met) 0) (p_payer_reference met),
     p_payer_reference_lookup_hash := compute_lookup_hash E (p_payer_reference met)\<rparr>"

definition decrypt_payments :: "fernet \<Rightarrow> payment \<Rightarrow> payment \<Rightarrow> payment" where
  "decrypt_payments F met r = r\<lparr>p_payer_reference := decrypted F (p_payer_reference met) (p_payer_reference r)\<rparr>"

definition load_payments :: "fernet \<Rightarrow> payment \<Rightarrow> payment" where
  "load_payments F r = r\<lparr>p_payer_reference := load_column F (p_payer_reference r)\<rparr>"

interpretation payments_table: encrypted_table p_id "encrypt_payments E" decrypt_payments load_payments "payment_hashed E"
  for E :: env
  by unfold_locales (simp_all add: encrypt_payments_def decrypt_payments_def load_payments_def payment_hashed_def)

definition encrypt_receipts :: "env \<Rightarrow> fernet \<Rightarrow> (uuid \<Rightarrow> nat \<Rightarrow> nat) \<Rightarrow> receipt \<Rightarrow> receipt \<Rightarrow> receipt" where
  "encrypt_receipts E F nz met r = r\<lparr>r_customer_name := encrypted F (nz (r_id met) 0) (r_customer_name met),
     r_customer_name_lookup_hash := compute_lookup_hash E (r_customer_name met)\<rparr>"

definition decrypt_receipts :: "fernet \<Rightarrow> receipt \<Rightarrow> receipt \<Rightarrow> receipt" where
  "decrypt_receipts F met r = r\<lparr>r_customer_name := decrypted F (r_customer_name met) (r_customer_name r)\<rparr>"

definition load_receipts :: "fernet \<Rightarrow> receipt \<Rightarrow> receipt" where
  "load_receipts F r = r\<lparr>r_customer_name := load_column F (r_customer_name r)\<rparr>"

interpretation receipts_table: encrypted_table r_id "encrypt_receipts E" decrypt_receipts load_receipts "receipt_hashed E"
  for E :: env
  by unfold_locales (simp_all add: encrypt_receipts_def decrypt_receipts_def load_receipts_def receipt_hashed_def)

definition encrypt_notifications :: "env \<Rightarrow> fernet \<Rightarrow> (uuid \<Rightarrow> nat \<Rightarrow> nat) \<Rightarrow> notification \<Rightarrow> notification \<Rightarrow> notification" where
  "encrypt_notifications E F nz met r = r\<lparr>n_recipient := encrypted F (nz (n_id met) 0) (n_recipient met),
     n_recipient_lookup_hash := compute_lookup_hash E (n_recipient met)\<rparr>"

definition decrypt_notifications :: "fernet \<Rightarrow> notification \<Rightarrow> notification \<Rightarrow> notification" where
  "decrypt_notifications F met r = r\<lparr>n_recipient := decrypted F (n_recipient met) (n_recipient r)\<rparr>"

definition load_notifications :: "fernet \<Rightarrow> notification \<Rightarrow> notification" where
  "load_notifications F r = r\<lparr>n_recipient := load_column F (n_recipient r)\<rparr>"

interpretation notifications_table: encrypted_table n_id "encrypt_notifications E" decrypt_notifications load_notifications "notification_before_save E"
  for E :: env
  by unfold_locales (simp_all add: encrypt_notifications_def decrypt_notifications_def load_notifications_def notification_before_save_def)

definition encrypt_bills :: "fernet \<Rightarrow> (uuid \<Rightarrow> nat \<Rightarrow> nat) \<Rightarrow> bill \<Rightarrow> bill \<Rightarrow> bill" where
  "encrypt_bills F nz met r = r\<lparr>b_notes := encrypted F (nz (b_id met) 0) (b_notes met)\<rparr>"

definition decrypt_bills :: "fernet \<Rightarrow> bill \<Rightarrow> bill \<Rightarrow> bill" where
  "decrypt_bills F met r = r\<lparr>b_notes := decrypted F (b_notes met) (b_notes r)\<rparr>"

definition load_bills :: "fernet \<Rightarrow> bill \<Rightarrow> bill" where
  "load_bills F r = r\<lparr>b_notes := load_column F (b_notes r)\<rparr>"

interpretation bills_table: encrypted_table b_id encrypt_bills decrypt_bills load_bills "\<lambda>r. r"
  by unfold_locales (simp_all add: encrypt_bills_def decrypt_bills_def load_bills_def )

definition encrypt_batches :: "fernet \<Rightarrow> (uuid \<Rightarrow> nat \<Rightarrow> nat) \<Rightarrow> settlement_batch \<Rightarrow> settlement_batch \<Rightarrow> settlement_batch" where
  "encrypt_batches F nz met r = r\<lparr>sb_notes := encrypted F (nz (sb_id met) 0) (sb_notes met)\<rparr>"

definition decrypt_batches :: "fernet \<Rightarrow> settlement_batch \<Rightarrow> settlement_batch \<Rightarrow> settlement_batch" where
  "decrypt_batches F met r = r\<lparr>sb_notes := decrypted F (sb_notes met) (sb_notes r)\<rparr>"

definition load_batches :: "fernet \<Rightarrow> settlement_batch \<Rightarrow> settlement_batch" where
  "load_batches F r = r\<lparr>sb_notes := load_column F (sb_notes r)\<rparr>"

interpretation batches_table: encrypted_table sb_id encrypt_batches decrypt_batches load_batches "\<lambda>r. r"
  by unfold_locales (simp_all add: encrypt_batches_def decrypt_batches_def load_batches_def )

definition encrypt_exceptions :: "fernet \<Rightarrow> (uuid \<Rightarrow> nat \<Rightarrow> nat) \<Rightarrow> reconciliation_exception \<Rightarrow> reconciliation_exception \<Rightarrow> reconciliation_exception" where
  "encrypt_exceptions F nz met r = r\<lparr>rx_resolution_notes := encrypted F (nz (rx_id met) 0) (rx_resolution_notes met)\<rparr>"

definition decrypt_exceptions :: "fernet \<Rightarrow> reconciliation_exception \<Rightarrow> reconciliation_exception \<Rightarrow> reconciliation_exception" where
  "decrypt_exceptions F met r = r\<lparr>rx_resolution_notes := decrypted F (rx_resolution_notes met) (rx_resolution_notes r)\<rparr>"

definition load_exceptions :: "fernet \<Rightarrow> reconciliation_exception \<Rightarrow> reconciliation_exception" where
  "load_exceptions F r = r\<lparr>rx_resolution_notes := load_column F (rx_resolution_notes r)\<rparr>"

interpretation exceptions_table: encrypted_table rx_id encrypt_exceptions decrypt_exceptions load_exceptions "\<lambda>r. r"
  by unfold_locales (simp_all add: encrypt_exceptions_def decrypt_exceptions_def load_exceptions_def )

definition encrypt_branches :: "fernet \<Rightarrow> (uuid \<Rightarrow> nat \<Rightarrow> nat) \<Rightarrow> branch \<Rightarrow> branch \<Rightarrow> branch" where
  "encrypt_branches F nz met r = r\<lparr>br_address := encrypted F (nz (br_id met) 0) (br_address met)\<rparr>"

definition decrypt_branches :: "fernet \<Rightarrow> branch \<Rightarrow> branch \<Rightarrow> branch" where
  "decrypt_branches F met r = r\<lparr>br_address := decrypted F (br_address met) (br_address r)\<rparr>"

definition load_branches :: "fernet \<Rightarrow> branch \<Rightarrow> branch" where
  "load_branches F r = r\<lparr>br_address := load_column F (br_address r)\<rparr>"

interpretation branches_table: encrypted_table br_id encrypt_branches decrypt_branches load_branches "\<lambda>r. r"
  by unfold_locales (simp_all add: encrypt_branches_def decrypt_branches_def load_branches_def )

subsection \<open>The database\<close>

text \<open>
  The tables of the modelled services with those of \<open>organizations\<close> and of the scheduler
  (\<open>django_celery_beat\<close>: a name, the task's path, the minutes between runs, whether it is enabled).
\<close>

record install_st = api_st +
  branches :: "branch list"
  departments :: "department list"
  periodic_tasks :: "(string \<times> string \<times> nat \<times> bool) list"

definition encrypt_existing :: "env \<Rightarrow> fernet \<Rightarrow> (uuid \<Rightarrow> nat \<Rightarrow> nat) \<Rightarrow> 'z install_st_scheme \<Rightarrow> 'z install_st_scheme" where
  "encrypt_existing E F nz s = s
     \<lparr>customers := update_each c_id (encrypt_customers E F nz) (customers s),
      users := update_each u_id (encrypt_users E F nz) (users s),
      tenants := update_each t_id (encrypt_tenants E F nz) (tenants s),
      payments := update_each p_id (encrypt_payments E F nz) (payments s),
      receipts := update_each r_id (encrypt_receipts E F nz) (receipts s),
      notifications := update_each n_id (encrypt_notifications E F nz) (notifications s),
      bills := update_each b_id (encrypt_bills F nz) (bills s),
      settlement_batches := update_each sb_id (encrypt_batches F nz) (settlement_batches s),
      reconciliation_exceptions := update_each rx_id (encrypt_exceptions F nz) (reconciliation_exceptions s),
      branches := update_each br_id (encrypt_branches F nz) (branches s)\<rparr>"

definition decrypt_existing :: "fernet \<Rightarrow> 'z install_st_scheme \<Rightarrow> 'z install_st_scheme" where
  "decrypt_existing F s = s
     \<lparr>customers := update_each c_id (decrypt_customers F) (customers s),
      users := update_each u_id (decrypt_users F) (users s),
      tenants := update_each t_id (decrypt_tenants F) (tenants s),
      payments := update_each p_id (decrypt_payments F) (payments s),
      receipts := update_each r_id (decrypt_receipts F) (receipts s),
      notifications := update_each n_id (decrypt_notifications F) (notifications s),
      bills := update_each b_id (decrypt_bills F) (bills s),
      settlement_batches := update_each sb_id (decrypt_batches F) (settlement_batches s),
      reconciliation_exceptions := update_each rx_id (decrypt_exceptions F) (reconciliation_exceptions s),
      branches := update_each br_id (decrypt_branches F) (branches s)\<rparr>"

text \<open>What the models read from the database, and what \<open>save\<close> would have made of each row.\<close>

definition as_read :: "fernet \<Rightarrow> 'z install_st_scheme \<Rightarrow> 'z install_st_scheme" where
  "as_read F s = s
     \<lparr>customers := map (load_customers F) (customers s), users := map (load_users F) (users s),
      tenants := map (load_tenants F) (tenants s), payments := map (load_payments F) (payments s),
      receipts := map (load_receipts F) (receipts s), notifications := map (load_notifications F) (notifications s),
      bills := map (load_bills F) (bills s), settlement_batches := map (load_batches F) (settlement_batches s),
      reconciliation_exceptions := map (load_exceptions F) (reconciliation_exceptions s),
      branches := map (load_branches F) (branches s)\<rparr>"

definition as_saved :: "env \<Rightarrow> (string \<Rightarrow> string) \<Rightarrow> 'z install_st_scheme \<Rightarrow> 'z install_st_scheme" where
  "as_saved E slugify s = s
     \<lparr>customers := map (customer_before_save E) (customers s), users := map (user_before_save E) (users s),
      tenants := map (tenant_before_save E slugify) (tenants s), payments := map (payment_hashed E) (payments s),
      receipts := map (receipt_hashed E) (receipts s),
      notifications := map (notification_before_save E) (notifications s)\<rparr>"

text \<open>Primary keys are unique; institutions have a contact address and a slug.\<close>

definition well_kept :: "'z install_st_scheme \<Rightarrow> bool" where
  "well_kept s \<longleftrightarrow> distinct (map c_id (customers s)) \<and> distinct (map u_id (users s)) \<and> distinct (map t_id (tenants s)) \<and>
     distinct (map p_id (payments s)) \<and> distinct (map r_id (receipts s)) \<and> distinct (map n_id (notifications s)) \<and>
     distinct (map b_id (bills s)) \<and> distinct (map sb_id (settlement_batches s)) \<and>
     distinct (map rx_id (reconciliation_exceptions s)) \<and> distinct (map br_id (branches s)) \<and>
     (\<forall>t \<in> set (tenants s). t_contact_email t \<noteq> [] \<and> t_slug t \<noteq> [])"

lemma tenants_saved:
  "\<forall>t \<in> set ts. t_contact_email t \<noteq> [] \<and> t_slug t \<noteq> [] \<Longrightarrow> map (tenant_hashed E) ts = map (tenant_before_save E slugify) ts"
  by (auto simp: tenant_hashed_def tenant_before_save_def hash_unless_blank_def)

text \<open>
  C9 (\<open>apps/*/migrations/*_encrypt_existing_*\<close>): whatever nonces the encryption draws, after the
  migrations the models read from the ciphertext every row as it was in the clear, with the lookup
  hashes that its \<open>save\<close> would have written, so that searches find it; and the reverse migrations
  bring the clear text back.
\<close>

theorem encryption_migrations:
  assumes "lawful F" and "well_kept s"
  shows "as_read F (encrypt_existing E F nz s) = as_saved E slugify s \<and>
    decrypt_existing F (encrypt_existing E F nz s) = as_saved E slugify s"
  using assms tenants_saved [of "tenants s" E slugify]
  by (simp add: as_read_def encrypt_existing_def decrypt_existing_def as_saved_def well_kept_def
      customers_table.loads_saved users_table.loads_saved tenants_table.loads_saved payments_table.loads_saved
      receipts_table.loads_saved notifications_table.loads_saved bills_table.loads_saved batches_table.loads_saved
      exceptions_table.loads_saved branches_table.loads_saved
      customers_table.returns_saved users_table.returns_saved tenants_table.returns_saved
      payments_table.returns_saved receipts_table.returns_saved notifications_table.returns_saved
      bills_table.returns_saved batches_table.returns_saved exceptions_table.returns_saved branches_table.returns_saved)

definition example_person :: customer where
  "example_person = \<lparr>c_id = Uuid 1, c_tenant = Uuid 0, c_full_name = ''Asha'', c_full_name_lookup_hash = [],
     c_email = ''A@b.c'', c_email_lookup_hash = [], c_phone_number = [], c_phone_number_lookup_hash = [],
     c_external_reference = [], c_metadata = JNull, c_is_active = True\<rparr>"

definition example_install :: install_st where
  "example_install = api_st.extend ((example_api_st [])\<lparr>customers := [example_person], users := [], tenants := [], payments := [],
     receipts := [], notifications := [], bills := [], settlement_batches := [], reconciliation_exceptions := []\<rparr>)
     (install_st.fields [] [] [])"

theorem encryption_migrations_witness:
  "\<exists>c. customers (as_read example_fernet (encrypt_existing example_env example_fernet (\<lambda>_ _. 0) example_install)) = [c] \<and>
     c_full_name c = ''Asha'' \<and> c_full_name_lookup_hash c = compute_lookup_hash example_env ''Asha''"
proof -
  have "lawful example_fernet"
    by (simp add: lawful_def example_fernet_def)
  moreover have "well_kept example_install"
    by (simp add: well_kept_def example_install_def example_api_st_def install_st.defs api_st.defs)
  ultimately have "as_read example_fernet (encrypt_existing example_env example_fernet (\<lambda>_ _. 0) example_install) =
      as_saved example_env id example_install"
    using encryption_migrations by blast
  then show ?thesis
    by (simp add: as_saved_def example_install_def install_st.defs api_st.defs customer_before_save_def example_person_def)
qed

subsection \<open>Searching the admin pages\<close>

text \<open>
  \<open>EncryptedFieldSearchAdminMixin.get_search_results\<close>: \<open>plain\<close> is what the framework's search finds, \<open>hash_of\<close>
  reads the hash column of a field.
\<close>

definition get_search_results ::
  "env \<Rightarrow> model_admin \<Rightarrow> (string \<Rightarrow> 'r \<Rightarrow> string) \<Rightarrow> ('r \<Rightarrow> bool) \<Rightarrow> string \<Rightarrow> 'r list \<Rightarrow> 'r list" where
  "get_search_results E a hash_of plain search_term rows =
     (if search_term \<noteq> [] \<and> ma_exact_search a \<noteq> [] then
        let target = compute_lookup_hash E search_term;
            exact = filter (\<lambda>r. list_ex (\<lambda>f. hash_of f r = target) (ma_exact_search a)) rows in
        filter (\<lambda>r. plain r \<or> r \<in> set exact) rows
      else filter plain rows)"

definition customer_hash :: "string \<Rightarrow> customer \<Rightarrow> string" where
  "customer_hash f c = (if f = ''full_name'' then c_full_name_lookup_hash c
     else if f = ''email'' then c_email_lookup_hash c else c_phone_number_lookup_hash c)"

lemma CustomerAdmin_exact: "ma_exact_search CustomerAdmin = [''full_name'', ''email'', ''phone_number'']"
  by (simp add: CustomerAdmin_def)

text \<open>
  C0 (\<open>CustomerAdmin\<close>, \<open>EncryptedFieldSearchAdminMixin\<close>): the search of the customers' admin page finds by an
  encrypted field exactly the rows whose name or phone number is the term, up to blanks around them, or
  whose address in small letters is; so an address with a capital letter is not found by itself.
\<close>

theorem admin_search_exact:
  assumes "\<And>m m'. e_hmac E (e_lookup_key E) m = e_hmac E (e_lookup_key E) m' \<Longrightarrow> m = m'"
    and "e_hmac E (e_lookup_key E) (py_strip search_term) \<noteq> []"
    and "search_term \<noteq> []" and "c \<in> set rows" and "\<not> plain (customer_before_save E c)"
  shows "customer_before_save E c \<in> set (get_search_results E CustomerAdmin customer_hash plain search_term
      (map (customer_before_save E) rows)) \<longleftrightarrow>
    py_strip search_term \<in> {py_strip (c_full_name c), py_strip (c_phone_number c)} \<or>
    c_email c \<noteq> [] \<and> py_strip search_term = py_strip (py_lower (c_email c))"
proof -
  have same: "e_hmac E (e_lookup_key E) m = e_hmac E (e_lookup_key E) m' \<longleftrightarrow> m = m'" for m m'
    using assms(1) by blast
  have hashes: "customer_hash ''full_name'' (customer_before_save E c) = compute_lookup_hash E (c_full_name c)"
    "customer_hash ''email'' (customer_before_save E c) =
       (if c_email c \<noteq> [] then compute_lookup_hash E (py_lower (c_email c)) else [])"
    "customer_hash ''phone_number'' (customer_before_save E c) = compute_lookup_hash E (c_phone_number c)"
    by (simp_all add: customer_hash_def customer_before_save_def)
  show ?thesis
    using assms(2-5) same
    by (auto simp: get_search_results_def Let_def CustomerAdmin_exact hashes compute_lookup_hash_def)
qed

theorem admin_search_exact_witness:
  "customer_before_save example_env example_person \<notin>
     set (get_search_results example_env CustomerAdmin customer_hash (\<lambda>_. False) ''A@b.c''
       (map (customer_before_save example_env) [example_person]))"
proof -
  have "\<not> (py_strip ''A@b.c'' \<in> {py_strip (c_full_name example_person), py_strip (c_phone_number example_person)} \<or>
      c_email example_person \<noteq> [] \<and> py_strip ''A@b.c'' = py_strip (py_lower (c_email example_person)))"
    by code_simp
  then show ?thesis
    using admin_search_exact [of example_env "''A@b.c''" example_person "[example_person]" "\<lambda>_. False"]
    by (simp add: example_env_def)
qed

subsection \<open>Seeds and the restart of the chain\<close>

definition get_or_create_row :: "('s \<Rightarrow> 'r option) \<Rightarrow> ('s, 'r) pm \<Rightarrow> ('s, 'r) pm" where
  "get_or_create_row find_it create = mbind (gets find_it) (\<lambda>found. case found of Some r \<Rightarrow> ret r | None \<Rightarrow> create)"

definition mock_provider :: "'z install_st_scheme \<Rightarrow> payment_provider option" where
  "mock_provider s = List.find (\<lambda>p. pp_code p = ''mock'') (payment_providers s)"

definition mock_channel :: "payment_provider \<Rightarrow> 'z install_st_scheme \<Rightarrow> payment_channel option" where
  "mock_channel p s = List.find (\<lambda>c. pc_provider c = pp_id p \<and> pc_code c = ''mock-mobile-money'') (payment_channels s)"

definition seed_mock_provider :: "('z install_st_scheme, unit) pm" where
  "seed_mock_provider =
     mbind (get_or_create_row mock_provider (mbind fresh_uuid (\<lambda>i.
       let p = \<lparr>pp_id = i, pp_code = ''mock'', pp_name = ''Mock / Sandbox Provider'', pp_is_sandbox = True,
                pp_is_active = True\<rparr> in
       mseq (modify (\<lambda>s. s\<lparr>payment_providers := p # payment_providers s\<rparr>)) (ret p)))) (\<lambda>p.
     mseq (get_or_create_row (mock_channel p) (mbind fresh_uuid (\<lambda>i.
       let c = \<lparr>pc_id = i, pc_provider = pp_id p, pc_code = ''mock-mobile-money'', pc_name = ''Mock Mobile Money'',
                pc_channel_type = MOBILE_MONEY, pc_is_active = True\<rparr> in
       mseq (modify (\<lambda>s. s\<lparr>payment_channels := c # payment_channels s\<rparr>)) (ret c))))
     (ret ()))"

text \<open>The reverse: the channels go with their provider, payments and batches protect it.\<close>

definition unseed_mock_provider :: "('z install_st_scheme, unit) pm" where
  "unseed_mock_provider = mbind (gets (\<lambda>s. map pp_id (filter (\<lambda>p. pp_code p = ''mock'') (payment_providers s)))) (\<lambda>ids.
     mbind (gets (\<lambda>s. list_ex (\<lambda>p. p_provider p \<in> set ids) (payments s) \<or>
       list_ex (\<lambda>b. sb_provider b \<in> set ids) (settlement_batches s))) (\<lambda>protected.
     if protected then raise (OtherError ''ProtectedError'')
     else modify (\<lambda>s. s\<lparr>payment_providers := filter (\<lambda>p. pp_id p \<notin> set ids) (payment_providers s),
       payment_channels := filter (\<lambda>c. pc_provider c \<notin> set ids) (payment_channels s)\<rparr>)))"

definition TASK_NAME :: string where
  "TASK_NAME = ''Monitor system health''"

definition TASK_PATH :: string where
  "TASK_PATH = ''apps.core.tasks.monitor_system_health''"

definition seed_schedule :: "('z install_st_scheme, unit) pm" where
  "seed_schedule = mseq (get_or_create_row (\<lambda>s. List.find (\<lambda>(name, task, minutes, enabled). name = TASK_NAME) (periodic_tasks s))
     (mseq (modify (\<lambda>s. s\<lparr>periodic_tasks := (TASK_NAME, TASK_PATH, 5, True) # periodic_tasks s\<rparr>))
       (ret (TASK_NAME, TASK_PATH, 5, True)))) (ret ())"

definition remove_schedule :: "('z install_st_scheme, unit) pm" where
  "remove_schedule = modify (\<lambda>s. s\<lparr>periodic_tasks :=
     filter (\<lambda>(name, task, minutes, enabled). \<not> (name = TASK_NAME \<and> task = TASK_PATH)) (periodic_tasks s)\<rparr>)"

definition reset_chain :: "'z install_st_scheme \<Rightarrow> 'z install_st_scheme" where
  "reset_chain s = s\<lparr>audit_logs := []\<rparr>"

lemma provider_seeded:
  "succeeds seed_mock_provider (\<lambda>_ t. \<exists>p. mock_provider t = Some p \<and> mock_channel p t \<noteq> None) s"
  by (auto simp: seed_mock_provider_def get_or_create_row_def mock_provider_def mock_channel_def Let_def
      split: option.splits)

lemma seeded_again:
  "mock_provider t = Some p \<Longrightarrow> mock_channel p t \<noteq> None \<Longrightarrow> seed_mock_provider t = (Inr (), t)"
  by (auto simp: seed_mock_provider_def get_or_create_row_def mbind_def mseq_def gets_def ret_def)

text \<open>
  Also (\<open>seed_mock_provider\<close>, \<open>get_adapter\<close>): after the seed, on whatever tables, the registry has an adapter
  for a provider with a channel; seeding again changes nothing.
\<close>

lemma seed_resolves:
  "succeeds seed_mock_provider (\<lambda>_ t. \<exists>p c. p \<in> set (payment_providers t) \<and> c \<in> set (payment_channels t) \<and>
     pc_provider c = pp_id p \<and> get_adapter E p = Inr (mock_adapter E) \<and> seed_mock_provider t = (Inr (), t)) (s :: 'z install_st_scheme)"
proof -
  have "\<exists>p c. p \<in> set (payment_providers t) \<and> c \<in> set (payment_channels t) \<and>
      pc_provider c = pp_id p \<and> get_adapter E p = Inr (mock_adapter E) \<and> seed_mock_provider t = (Inr (), t)"
    if "mock_provider t = Some p" "mock_channel p t \<noteq> None" for p and t :: "'z install_st_scheme"
    using that seeded_again [OF that]
    by (auto simp: mock_provider_def mock_channel_def get_adapter_def dest!: find_Some_D)
  then show ?thesis
    by (intro wpx_mono [OF provider_seeded]) blast+
qed

lemma schedule_seeded:
  "succeeds seed_schedule (\<lambda>_ t. (\<exists>task minutes enabled. (TASK_NAME, task, minutes, enabled) \<in> set (periodic_tasks t)) \<and>
     seed_schedule t = (Inr (), t)) s"
  by (auto simp: seed_schedule_def get_or_create_row_def mbind_def mseq_def gets_def ret_def modify_def wpx_def
      split: option.splits dest!: find_Some_D)

lemma restarted_chain: "verify_chain E (audit_logs (reset_chain s)) = (True, None)"
  by (simp add: reset_chain_def verify_chain_def chain_order_def)

end
