(* ===== verification/Links.thy ===== *)
theory Links
  imports Routes Totp
begin

text \<open>
  Text put into URLs: Python's \<open>urllib.parse.quote\<close>, \<open>quote_plus\<close> and \<open>urlencode\<close> on bytes, the template tags
  of \<open>templatetags/kusanya_ui.py\<close> that use them or look at the resolved route, and the otpauth URI of
  \<open>accounts/totp.py\<close>; and what reading such texts gives back.
\<close>

subsection \<open>Quoting\<close>

definition unreserved :: "char \<Rightarrow> bool" where
  "unreserved c \<longleftrightarrow> (let n = (of_char c :: nat) in 48 \<le> n \<and> n \<le> 57 \<or> 65 \<le> n \<and> n \<le> 90 \<or> 97 \<le> n \<and> n \<le> 122) \<or>
     c \<in> set ''_.-~''"

definition hex_upper :: "nat \<Rightarrow> char" where
  "hex_upper n = (if n < 10 then char_of (48 + n) else char_of (55 + n))"

definition quote_char :: "string \<Rightarrow> char \<Rightarrow> string" where
  "quote_char safe c = (if unreserved c \<or> c \<in> set safe then [c]
     else [CHR ''%'', hex_upper (of_char c div 16), hex_upper (of_char c mod 16)])"

definition quote :: "string \<Rightarrow> string \<Rightarrow> string" where
  "quote safe s = concat (map (quote_char safe) s)"

definition quote_plus :: "string \<Rightarrow> string" where
  "quote_plus s = map (\<lambda>c. if c = CHR '' '' then CHR ''+'' else c) (quote '' '' s)"

fun join :: "char \<Rightarrow> string list \<Rightarrow> string" where
  "join c [] = []"
| "join c [s] = s"
| "join c (s # t # ss) = s @ c # join c (t # ss)"

definition urlencode :: "(string \<times> string) list \<Rightarrow> string" where
  "urlencode params = join (CHR ''&'') (map (\<lambda>(k, v). quote_plus k @ ''='' @ quote_plus v) params)"

text \<open>What a reader does: \<open>unquote\<close>, and \<open>parse_qsl\<close> with blank values kept.\<close>

definition hex_value :: "char \<Rightarrow> nat" where
  "hex_value c = (let n = of_char c in if n \<le> 57 then n - 48 else if n \<le> 70 then n - 55 else n - 87)"

fun unquote :: "string \<Rightarrow> string" where
  "unquote (c # h # l # s) = (if c = CHR ''%'' then char_of (16 * hex_value h + hex_value l) # unquote s
     else c # unquote (h # l # s))"
| "unquote s = s"

definition unquote_plus :: "string \<Rightarrow> string" where
  "unquote_plus s = unquote (map (\<lambda>c. if c = CHR ''+'' then CHR '' '' else c) s)"

fun pieces :: "char \<Rightarrow> string \<Rightarrow> string list" where
  "pieces c [] = [[]]"
| "pieces c (x # s) = (if x = c then [] # pieces c s else (case pieces c s of p # ps \<Rightarrow> (x # p) # ps | [] \<Rightarrow> [[x]]))"

definition parse_query :: "string \<Rightarrow> (string \<times> string) list" where
  "parse_query s = map (\<lambda>p. (unquote_plus (takeWhile (\<lambda>c. c \<noteq> CHR ''='') p),
       unquote_plus (tl (dropWhile (\<lambda>c. c \<noteq> CHR ''='') p))))
     (filter (\<lambda>p. p \<noteq> []) (pieces (CHR ''&'') s))"

subsection \<open>The tags\<close>

text \<open>
  \<open>request.GET\<close> lists the values of each name; \<open>None\<close> is a context without a request. An override that is
  \<open>None\<close> or empty removes the name.
\<close>

definition override :: "(string \<times> string list) list \<Rightarrow> string \<times> string option \<Rightarrow> (string \<times> string list) list" where
  "override params kv = (case kv of (k, v) \<Rightarrow>
     if v = None \<or> v = Some [] then filter (\<lambda>p. fst p \<noteq> k) params
     else if k \<in> fst ` set params then map (\<lambda>p. if fst p = k then (k, [the v]) else p) params
     else params @ [(k, [the v])])"

definition flat_params :: "(string \<times> string list) list \<Rightarrow> (string \<times> string) list" where
  "flat_params params = concat (map (\<lambda>(k, vs). map (Pair k) vs) params)"

definition querystring_with ::
  "(string \<times> string list) list option \<Rightarrow> (string \<times> string option) list \<Rightarrow> string" where
  "querystring_with get overrides =
     (let params = foldl override (case get of Some ps \<Rightarrow> ps | None \<Rightarrow> []) overrides;
          text_out = urlencode (flat_params params)
      in if text_out \<noteq> [] then ''?'' @ text_out else ''?'')"

text \<open>\<open>None\<close> is a context without a request or a request that no route matched.\<close>

definition is_active_ns :: "resolver_match option \<Rightarrow> string list \<Rightarrow> string" where
  "is_active_ns found namespaces = (case found of None \<Rightarrow> []
     | Some m \<Rightarrow> if rm_app_name m \<in> set namespaces then ''active'' else [])"

definition match_name :: "resolver_match \<Rightarrow> string" where
  "match_name m = view_name (rm_app_name m) (rm_url_name m)"

definition is_active_view :: "resolver_match option \<Rightarrow> string list \<Rightarrow> string" where
  "is_active_view found names = (case found of None \<Rightarrow> []
     | Some m \<Rightarrow> if match_name m \<in> set names then ''active'' else [])"

definition aria_current_ns :: "resolver_match option \<Rightarrow> string list \<Rightarrow> string" where
  "aria_current_ns found namespaces = (case found of None \<Rightarrow> []
     | Some m \<Rightarrow> if rm_app_name m \<in> set namespaces \<or> match_name m \<in> set namespaces
                 then ''aria-current=\"page\"'' else [])"

subsection \<open>The otpauth URI\<close>

fun str_nat :: "nat \<Rightarrow> string" where
  "str_nat n = (if n < 10 then [char_of (48 + n)] else str_nat (n div 10) @ [char_of (48 + n mod 10)])"

declare str_nat.simps [simp del]

definition otpauth_params :: "string \<Rightarrow> string \<Rightarrow> (string \<times> string) list" where
  "otpauth_params secret_b32 issuer =
     [(''secret'', secret_b32), (''issuer'', issuer), (''algorithm'', ''SHA1''), (''digits'', str_nat DIGITS),
      (''period'', str_nat (nat PERIOD_SECONDS))]"

definition build_otpauth_uri :: "string \<Rightarrow> string \<Rightarrow> string \<Rightarrow> string" where
  "build_otpauth_uri secret_b32 account_name issuer =
     ''otpauth://totp/'' @ quote ''/'' (issuer @ '':'' @ account_name) @ ''?'' @ urlencode (otpauth_params secret_b32 issuer)"

subsection \<open>Reading back\<close>

lemma hex_upper_value: "n < 16 \<Longrightarrow> hex_value (hex_upper n) = n"
  by (auto simp: hex_value_def hex_upper_def Let_def)

lemma hex_upper_plain:
  "n < 16 \<Longrightarrow> unreserved (hex_upper n)"
  by (auto simp: hex_upper_def unreserved_def Let_def)

lemma of_char_less: "(of_char c :: nat) < 256"
  using range_nat_of_char by auto

lemma unquote_plain: "c \<noteq> CHR ''%'' \<Longrightarrow> unquote (c # s) = c # unquote s"
  by (cases s rule: unquote.cases) auto

lemma unquote_quoted:
  assumes "CHR ''%'' \<notin> set safe"
  shows "unquote (quote_char safe c @ s) = c # unquote s"
proof (cases "unreserved c \<or> c \<in> set safe")
  case True
  then have "c \<noteq> CHR ''%''"
    using assms by (auto simp: unreserved_def)
  with True show ?thesis
    by (simp add: quote_char_def unquote_plain)
next
  case False
  have "(of_char c div 16 :: nat) < 16"
    by (rule less_mult_imp_div_less) (use of_char_less [of c] in simp)
  then show ?thesis
    using False by (simp add: quote_char_def hex_upper_value)
qed

lemma unquote_quote: "CHR ''%'' \<notin> set safe \<Longrightarrow> unquote (quote safe s) = s"
  by (induction s) (simp_all add: quote_def unquote_quoted)

lemma quote_chars: "c \<in> set (quote safe s) \<Longrightarrow> unreserved c \<or> c \<in> set safe \<or> c = CHR ''%''"
  using of_char_less by (fastforce simp: quote_def quote_char_def hex_upper_plain less_mult_imp_div_less split: if_splits)

lemma quote_plus_chars: "c \<in> set (quote_plus s) \<Longrightarrow> unreserved c \<or> c = CHR ''+'' \<or> c = CHR ''%''"
  using quote_chars [of _ "'' ''" s] by (auto simp: quote_plus_def)

lemma quote_plus_free [simp]: "CHR ''&'' \<notin> set (quote_plus s)" "CHR ''='' \<notin> set (quote_plus s)"
  using quote_plus_chars [of "CHR ''&''" s] quote_plus_chars [of "CHR ''=''" s] by (auto simp: unreserved_def)

lemma unquote_quote_plus [simp]: "unquote_plus (quote_plus s) = s"
proof -
  have "(if (if c = CHR '' '' then CHR ''+'' else c) = CHR ''+'' then CHR '' '' else if c = CHR '' '' then CHR ''+'' else c) = c"
    if "c \<in> set (quote '' '' s)" for c
    using quote_chars [OF that] by (auto simp: unreserved_def)
  then have "map (\<lambda>c. if c = CHR ''+'' then CHR '' '' else c) (quote_plus s) = quote '' '' s"
    unfolding quote_plus_def map_map by (intro map_idI) (simp add: o_def)
  then show ?thesis
    by (simp add: unquote_plus_def unquote_quote)
qed

lemma pieces_none: "c \<notin> set p \<Longrightarrow> pieces c p = [p]"
  by (induction p) auto

lemma pieces_more: "c \<notin> set p \<Longrightarrow> pieces c (p @ c # s) = p # pieces c s"
  by (induction p) auto

lemma pieces_join: "ps \<noteq> [] \<Longrightarrow> \<forall>p \<in> set ps. c \<notin> set p \<Longrightarrow> pieces c (join c ps) = ps"
  by (induction c ps rule: join.induct) (auto simp: pieces_none pieces_more)

lemma split_at_sign:
  "c \<notin> set p \<Longrightarrow> takeWhile (\<lambda>x. x \<noteq> c) (p @ c # q) = p" "c \<notin> set p \<Longrightarrow> dropWhile (\<lambda>x. x \<noteq> c) (p @ c # q) = c # q"
  by (induction p) auto

lemma parse_blank [simp]: "parse_query [] = []"
  by (simp add: parse_query_def)

lemma parse_urlencode [simp]: "parse_query (urlencode params) = params"
proof (cases "params = []")
  case False
  define ps where "ps = map (\<lambda>(k, v). quote_plus k @ ''='' @ quote_plus v) params"
  have "pieces (CHR ''&'') (urlencode params) = ps"
    unfolding urlencode_def ps_def using False by (intro pieces_join) auto
  moreover have "filter (\<lambda>p. p \<noteq> []) ps = ps"
    by (auto simp: ps_def intro!: filter_True)
  ultimately show ?thesis
    by (auto simp: parse_query_def ps_def o_def split_at_sign intro!: map_idI)
qed (simp add: urlencode_def)

lemma urlencode_blank: "urlencode params = [] \<Longrightarrow> params = []"
  using parse_urlencode [of params] by simp

lemma read_querystring:
  "parse_query (tl (querystring_with get overrides)) =
     flat_params (foldl override (case get of Some ps \<Rightarrow> ps | None \<Rightarrow> []) overrides)"
  using urlencode_blank [of "flat_params (foldl override (case get of Some ps \<Rightarrow> ps | None \<Rightarrow> []) overrides)"]
  by (auto simp: querystring_with_def Let_def)

text \<open>The values of a name, in their order.\<close>

definition values_of :: "string \<Rightarrow> (string \<times> string) list \<Rightarrow> string list" where
  "values_of k params = map snd (filter (\<lambda>p. fst p = k) params)"

lemma values_flat:
  "distinct (map fst params) \<Longrightarrow> values_of k (flat_params params) = (case map_of params k of Some vs \<Rightarrow> vs | None \<Rightarrow> [])"
proof (induction params)
  case (Cons p params)
  obtain n vs where p: "p = (n, vs)"
    by (cases p)
  have "filter (\<lambda>q. fst q = k) (map (Pair n) vs) = (if n = k then map (Pair n) vs else [])"
    by (induction vs) auto
  moreover have "map_of params k = None" if "n = k"
    using Cons.prems that by (auto simp: p map_of_eq_None_iff)
  ultimately show ?case
    using Cons by (auto simp: p values_of_def flat_params_def o_def)
qed (simp add: values_of_def flat_params_def)

definition new_values :: "string option \<Rightarrow> string list" where
  "new_values v = (if v = None \<or> v = Some [] then [] else [the v])"

lemma override_map:
  assumes "distinct (map fst params)"
  shows "distinct (map fst (override params (k, v)))"
    and "(case map_of (override params (k, v)) n of Some vs \<Rightarrow> vs | None \<Rightarrow> []) =
      (if n = k then new_values v else (case map_of params n of Some vs \<Rightarrow> vs | None \<Rightarrow> []))"
proof -
  have same: "map fst (map (\<lambda>p. if fst p = k then (k, [w]) else p) params) = map fst params" for w
    by (induction params) auto
  show "distinct (map fst (override params (k, v)))"
    using assms same by (auto simp: override_def distinct_map_filter simp del: map_map)
  have removed: "map_of (filter (\<lambda>p. fst p \<noteq> k) params) n = (if n = k then None else map_of params n)"
    by (induction params) auto
  have replaced: "map_of (map (\<lambda>p. if fst p = k then (k, [w]) else p) params) n =
      (if n = k \<and> k \<in> fst ` set params then Some [w] else map_of params n)" for w
    by (induction params) (auto simp: image_iff, force)
  have absent: "map_of params k = None" if "k \<notin> fst ` set params"
    using that by (simp add: map_of_eq_None_iff)
  show "(case map_of (override params (k, v)) n of Some vs \<Rightarrow> vs | None \<Rightarrow> []) =
      (if n = k then new_values v else (case map_of params n of Some vs \<Rightarrow> vs | None \<Rightarrow> []))"
  proof (cases "v = None \<or> v = Some []")
    case True
    then show ?thesis
      by (auto simp: override_def new_values_def removed)
  next
    case False
    then have unfolded: "override params (k, v) = (if k \<in> fst ` set params
        then map (\<lambda>p. if fst p = k then (k, [the v]) else p) params else params @ [(k, [the v])])"
      "new_values v = [the v]"
      by (simp_all only: override_def new_values_def prod.case if_False)
    show ?thesis
    proof (cases "k \<in> fst ` set params")
      case True
      then show ?thesis
        by (simp only: unfolded if_True replaced) simp
    next
      case absent_key: False
      then show ?thesis
        using absent by (simp add: unfolded map_add_def split: option.split)
    qed
  qed
qed

text \<open>
  Also (\<open>querystring_with\<close>): following a link made with overrides sends each overridden name with its
  new value, or not at all when that is empty, and every other name with its values as they were.
\<close>

theorem querystring_keeps_others:
  assumes "distinct (map fst params)" and "distinct (map fst overrides)"
  shows "values_of k (parse_query (tl (querystring_with (Some params) overrides))) =
    (case map_of overrides k of Some v \<Rightarrow> new_values v
     | None \<Rightarrow> (case map_of params k of Some vs \<Rightarrow> vs | None \<Rightarrow> []))"
proof -
  have "distinct (map fst (foldl override params overrides)) \<and>
      (case map_of (foldl override params overrides) k of Some vs \<Rightarrow> vs | None \<Rightarrow> []) =
      (case map_of overrides k of Some v \<Rightarrow> new_values v
       | None \<Rightarrow> (case map_of params k of Some vs \<Rightarrow> vs | None \<Rightarrow> []))"
    using assms
  proof (induction overrides arbitrary: params)
    case (Cons ov overrides)
    obtain n v where ov: "ov = (n, v)"
      by (cases ov)
    note step = override_map [OF Cons.prems(1), of n v]
    have "map_of overrides k = None" if "k = n"
      using Cons.prems(2) that by (auto simp: ov map_of_eq_None_iff)
    then show ?case
      using Cons.IH [OF step(1)] Cons.prems(2) step(2) [of k] by (cases "map_of overrides k") (auto simp: ov)
  qed simp
  then show ?thesis
    by (simp add: read_querystring values_flat)
qed

text \<open>
  Also (\<open>build_otpauth_uri\<close>): an authenticator reads from the URI the issuer and account, the secret and
  the parameters that the codes are computed with.
\<close>

theorem otpauth_uri_reads_back:
  "\<exists>label query. build_otpauth_uri secret_b32 account_name issuer = ''otpauth://totp/'' @ label @ ''?'' @ query \<and>
     CHR ''?'' \<notin> set label \<and> unquote label = issuer @ '':'' @ account_name \<and>
     parse_query query = [(''secret'', secret_b32), (''issuer'', issuer), (''algorithm'', ''SHA1''),
       (''digits'', ''6''), (''period'', ''30'')]"
proof -
  have digits: "str_nat DIGITS = ''6''" "str_nat (nat PERIOD_SECONDS) = ''30''"
    by code_simp+
  have "CHR ''?'' \<notin> set (quote ''/'' (issuer @ '':'' @ account_name))"
    using quote_chars [of "CHR ''?''" "''/''"] by (auto simp: unreserved_def)
  then show ?thesis
    unfolding build_otpauth_uri_def
    by (intro exI [of _ "quote ''/'' (issuer @ '':'' @ account_name)"] exI [of _ "urlencode (otpauth_params secret_b32 issuer)"])
      (simp add: unquote_quote otpauth_params_def digits)
qed

text \<open>A section of the sidebar is marked and announced exactly on its own pages.\<close>

lemma tags_agree:
  "is_active_ns found ns = ''active'' \<longleftrightarrow> (\<exists>m. found = Some m \<and> rm_app_name m \<in> set ns)"
  "is_active_view found ns = ''active'' \<longleftrightarrow> (\<exists>m. found = Some m \<and> match_name m \<in> set ns)"
  "aria_current_ns found ns \<noteq> [] \<longleftrightarrow> is_active_ns found ns = ''active'' \<or> is_active_view found ns = ''active''"
  by (auto simp: is_active_ns_def is_active_view_def aria_current_ns_def split: option.splits)

end
