(* ===== verification/Spec2Isabelle.thy ===== *)
theory Spec2Isabelle
  imports AccountProperties BackupCodes TenantProperties SiteProperties Migrations Links
begin

text \<open>
  A model of KUSANYA, a multi-tenant billing and payment platform (Django, \<open>apps/\<close>), and the
  properties that make it correct.

  \<^bold>\<open>The program.\<close> An institution (\<open>tenants\<close>) registers, is approved by platform staff, and its
  team keeps customers and accounts (\<open>customers\<close>), issues bills (\<open>billing\<close>) and payment
  references for them (\<open>control_numbers\<close>). A payment (\<open>payments\<close>) is sent to a provider through
  an adapter (\<open>providers\<close>); the provider's answer, a later query or a signed callback decides its
  outcome. A success books the money (\<open>ledger\<close>), a platform fee (\<open>revenue\<close>), marks the bill,
  writes a receipt (\<open>receipts\<close>), tells the payer (\<open>notifications\<close>) and subscribed systems
  (\<open>webhooks\<close>). Periodically payments are collected into batches (\<open>settlement\<close>) and compared
  with the provider's records (\<open>reconciliation\<close>). Every step is recorded in a hash-chained log
  (\<open>audit\<close>). People sign in with a password and a second factor (\<open>accounts\<close>); client systems
  call the external API with a key of their institution (\<open>api\<close>); pages and files report to the
  institution (\<open>reports\<close>, \<open>core\<close>).

  \<^bold>\<open>How the state corresponds.\<close> Each table is a list of records, newest row first, in one state
  record that each component extends: \<open>world\<close> (clock, random source, transaction, on-commit
  queue), \<open>identity_st\<close>, \<open>audit_st\<close>, \<open>accounts_st\<close> (devices, backup codes, the cache), then webhooks,
  notifications, customers, billing, ledger, control numbers, providers, payments, settlement,
  reconciliation, API credentials. Sessions belong to browsers and are passed beside it. Views,
  services and tasks are computations over the state that may raise (\<open>Prelude\<close>); their names are the
  source's. \<open>env\<close> collects what a request reads from outside.

  \<^bold>\<open>Theories.\<close>
  \<^item> \<open>Prelude\<close>: computations, exceptions, transactions, tables, weakest preconditions, and the
    locales \<open>state_relation\<close> (what computations keep), \<open>get_or_create\<close> (idempotent creation),
    \<open>immutable_log\<close> (append-only tables) and \<open>status_machine\<close> (transition tables).
  \<^item> \<open>CoreSupport\<close> (\<open>core/money.py\<close>, \<open>encrypted_fields.py\<close>, \<open>signing.py\<close>, status badges): rounding
    error and idempotence, encryption round trip.
  \<^item> \<open>Identity\<close> (\<open>users\<close>, \<open>tenants\<close> models, \<open>permissions.py\<close>, \<open>middleware.py\<close>): role guards and the
    isolation of tenants.
  \<^item> \<open>AuditTrail\<close> (\<open>audit\<close>): the chain stays intact, exactly which alterations of a record are found, rows
    are immutable.
  \<^item> \<open>Webhooks\<close>, \<open>Notifications\<close>: dispatch, rendering, and the delivery workers, which end.
  \<^item> \<open>Customers\<close>, \<open>Billing\<close>, \<open>ControlNumbers\<close>: rows, forms, views; idempotent creation; the bill's
    status machine; over requests, cancellations and expiries in any order, one fee per number.
  \<^item> \<open>Ledger\<close> (\<open>ledger\<close>, \<open>revenue\<close>): append-only postings, fees, compensation.
  \<^item> \<open>Providers\<close>, \<open>Payments\<close>: adapters as an interface, the mock adapter, the orchestrator.
    \<open>PaymentFrames\<close> and \<open>PaymentEffects\<close> hold what each operation leaves alone (the locales
    \<open>payment_services_frame\<close> and \<open>payment_frame\<close>) and what an outcome does, rows and deliveries
    included; \<open>PaymentBooks\<close> the balance of books over all requests; \<open>PaymentProperties\<close> the effects of a
    success, callbacks, timeouts, receipts.
  \<^item> \<open>Settlement\<close>, \<open>Reconciliation\<close>: batch totals, exactly-once settlement; the counters of a run and
    the exceptions it opens, row by row.
  \<^item> \<open>Totp\<close>, \<open>Accounts\<close>, \<open>AccountProperties\<close>, \<open>BackupCodes\<close> (\<open>accounts\<close>): codes as the standard has
    them, both factors, lockouts, backup codes. \<open>RateLimit\<close> (\<open>core/ratelimit.py\<close>): what two windows
    let pass. Both limits are bounds on observed answers: how many requests are not answered 429, on
    how many attempts the answer depends on the code.
  \<^item> \<open>ApiKeys\<close>, \<open>ApiKeyring\<close>, \<open>ApiSerializers\<close>, \<open>ApiViews\<close>, \<open>ApiProperties\<close> (\<open>api\<close>): keys as a refinement
    of an abstract ring, serializers, endpoints, isolation of institutions, the error envelope.
  \<^item> \<open>TenantAdmin\<close>, \<open>TenantProperties\<close> (\<open>tenants\<close>, \<open>users\<close> views): registration, approval, teams;
    who can activate an institution, and that it keeps an administrator, as far as these pages go (the
    admin pages of institutions and memberships change both).
  \<^item> \<open>Reports\<close>, \<open>ReportProperties\<close> (\<open>reports\<close>, the revenue and ledger pages, the dashboards): each page
    from its institution's rows, totals that agree, CSV files that read back.
  \<^item> \<open>SystemPages\<close> (\<open>core\<close>, \<open>audit\<close>): the middlewares around a request, health checks, navigation.
  \<^item> \<open>People\<close>: all that people do to their accounts and teams as one frame.
  \<^item> \<open>Routes\<close> (\<open>config/urls.py\<close>, each \<open>urls.py\<close>): the URL tables, resolution and \<open>reverse\<close>; links lead to
    the pages they name.
  \<^item> \<open>Platform\<close>, \<open>Balances\<close>: all of it acting on one database in any order; the books, the batches and
    the ledger's accounts stay right, and a retried initiation finds its payment whatever happened in
    between. A relation between states that every part keeps is stated as
    a locale (\<open>platform_frame\<close>) on top of those of the parts, and proved kept once.
  \<^item> \<open>Site\<close>, \<open>SiteProperties\<close> (\<open>MIDDLEWARE\<close> of \<open>config/settings/base.py\<close>): a request from a browser
    through the middlewares, the URL tables and the sign-in check to its view; over any run of
    browsers and workers, who can have changed a table from a browser that stays away from the admin
    pages, which sign people in themselves.
  \<^item> \<open>AdminSite\<close> (\<open>admin.py\<close> of every application): the admin pages, the foreign keys and how a deletion
    spreads; the append-only tables outlive anything done there, the audit chain does not always.
  \<^item> \<open>Migrations\<close> (\<open>migrations\<close>, \<open>organizations\<close>): encrypting existing rows loses nothing; the admin
    search on encrypted fields; the seeds.
  \<^item> \<open>Links\<close> (\<open>templatetags/kusanya_ui.py\<close>, the otpauth URI): query strings and URIs read back.

  \<^bold>\<open>Bounds and fuel.\<close> Loops over rows are structural recursion. The bounded retries of the code
  (ten control numbers, five bill numbers, webhook and notification attempts) are counters of the
  same size; the collection of a deletion takes as many rounds as there are rows, which is proved to be
  enough (\<open>collect_all\<close>); the workers' fuel is their retry limit and the liveness properties show that it is
  enough. \<open>Decimal\<close> amounts are integers of hundredths, with the column widths checked where the
  database checks them. HMAC truncation works on 8 and 32 bit words.

  \<^bold>\<open>Parameters.\<close> Hashes, JSON, date and number formatting, content type ids, password checking,
  HTTP, SMTP and the broker are arguments; hypotheses about them (hashes that do not collide,
  \<open>json.dumps\<close> telling values apart, a ticking clock) are named in the properties and instantiated in
  the witnesses.

  \<^bold>\<open>Not modelled.\<close> Page markup, flash messages, schema migrations (the models' fields repeat them),
  logging and process settings have no state of their own. \<open>updated_at\<close> is left out and \<open>created_at\<close> is
  the order of the table where nothing else reads it. Text is a list of bytes; case folding and
  stripping are those of ASCII. Callback fields are taken to be strings. Requests are atomic
  (\<open>ATOMIC_REQUESTS\<close>) and run one after the other; lost races are modelled where the code handles
  them, by the database refusing a duplicate. For a request of a browser (\<open>Site\<close>) the framework's
  own pages are an argument; its CSRF and security middlewares only refuse requests. What people do
  on the admin pages is modelled on rows with links and columns (\<open>AdminSite\<close>), apart from the typed
  tables. The get-then-set races of the lockout and rate counters, the picture of the otpauth URI,
  the session store, the counting of the API framework's throttle and its parsing of single field
  values are not modelled.
\<close>

end
